(* ===== verification/Prelude.thy ===== *)
theory Prelude
  imports Main "HOL-Library.Word"
begin

unbundle bit_operations_syntax

text \<open>
  Shared ground of the development: the byte-level types the TypeScript SDK works on, the
  JavaScript primitives it uses (typed arrays, \<open>DataView\<close>, insertion-ordered \<open>Map\<close>, thrown
  errors as values), the third-party functions it calls as a record of parameters with their
  documented laws, and the interface of a self-delimiting wire codec.

  Numbers of the source that are integers are \<open>int\<close>; the place where they are cut to a width
  (a \<open>Uint8Array\<close> element, a \<open>DataView\<close> setter) is where the model cuts them. A JavaScript
  string is a HOL \<open>string\<close> holding its UTF-8 bytes. An \<open>Address\<close> is, as in \<open>@solana/kit\<close>, its
  base58 text.
\<close>

named_theorems wire \<open>byte-level rewriting: lengths, concatenation, little-endian fields\<close>
named_theorems flow \<open>splitting of results that may be thrown errors\<close>

section \<open>Bytes, errors and results\<close>

type_synonym byte = "8 word"
type_synonym bytes = "byte list"
type_synonym address = string

text \<open>
  What a throw or a Rust \<open>Err\<close> carries: the class and the fixed part of its message (or the
  variant's name). Interpolated values are not kept.
\<close>

datatype exn = Error string | TypeError string | RangeError string | SyntaxError string | LibError string
  | ProgramError string | AuthError string

type_synonym 'a result = "exn + 'a"

definition rbind :: "'a result \<Rightarrow> ('a \<Rightarrow> 'b result) \<Rightarrow> 'b result" where
  "rbind m f = (case m of Inl e \<Rightarrow> Inl e | Inr x \<Rightarrow> f x)"

lemma rbind_Inl [simp]: "rbind (Inl e) f = Inl e"
  by (simp add: rbind_def)

lemma rbind_Inr [simp]: "rbind (Inr x) f = f x"
  by (simp add: rbind_def)

lemma rbind_eq_Inr [flow]: "rbind m f = Inr y \<longleftrightarrow> (\<exists>x. m = Inr x \<and> f x = Inr y)"
  by (cases m) auto

lemma rbind_assoc: "rbind (rbind m f) g = rbind m (\<lambda>x. rbind (f x) g)"
  by (cases m) auto

lemma rbind_cong [fundef_cong]:
  "m = m' \<Longrightarrow> (\<And>x. m' = Inr x \<Longrightarrow> f x = f' x) \<Longrightarrow> rbind m f = rbind m' f'"
  by (cases m') auto

text \<open>\<open>for (const x of xs) out.push(f(x))\<close>, stopping at the first throw.\<close>

fun rmap :: "('a \<Rightarrow> 'b result) \<Rightarrow> 'a list \<Rightarrow> 'b list result" where
  "rmap f [] = Inr []"
| "rmap f (x # xs) = rbind (f x) (\<lambda>y. rbind (rmap f xs) (\<lambda>ys. Inr (y # ys)))"

lemma rmap_Inr_iff [flow]: "rmap f xs = Inr ys \<longleftrightarrow> list_all2 (\<lambda>x y. f x = Inr y) xs ys"
  by (induction xs arbitrary: ys) (auto simp: rbind_eq_Inr list_all2_Cons1)

lemma rmap_total: "(\<And>x. x \<in> set xs \<Longrightarrow> f x = Inr (g x)) \<Longrightarrow> rmap f xs = Inr (map g xs)"
  by (induction xs) auto

lemma rbind_right_unit [simp]: "rbind m Inr = m"
  by (cases m) simp_all

lemma rmap_append:
  "rmap f (xs @ ys) = rbind (rmap f xs) (\<lambda>as. rbind (rmap f ys) (\<lambda>bs. Inr (as @ bs)))"
  by (induction xs) (auto simp: rbind_assoc)

lemma rmap_concat: "rmap f (concat (map g xs)) = rbind (rmap (\<lambda>x. rmap f (g x)) xs) (\<lambda>ps. Inr (concat ps))"
  by (induction xs) (auto simp: rmap_append rbind_assoc)

lemma rmap_cong [fundef_cong]: "xs = ys \<Longrightarrow> (\<And>x. x \<in> set ys \<Longrightarrow> f x = g x) \<Longrightarrow> rmap f xs = rmap g ys"
  by (induction xs arbitrary: ys) auto

lemma rmap_map: "rmap f (map g xs) = rmap (\<lambda>x. f (g x)) xs"
  by (induction xs) simp_all

definition is_ok :: "'a result \<Rightarrow> bool" where
  "is_ok r = (case r of Inl _ \<Rightarrow> False | Inr _ \<Rightarrow> True)"

lemma is_ok_simps [simp]: "is_ok (Inr x)" "\<not> is_ok (Inl e)"
  by (simp_all add: is_ok_def)

lemma is_ok_guard [simp]: "is_ok (if c then Inl e else r) \<longleftrightarrow> \<not> c \<and> is_ok r"
  by simp

lemma is_ok_iff: "is_ok r \<longleftrightarrow> (\<exists>x. r = Inr x)"
  by (cases r) auto

lemma is_ok_rbind: "is_ok (rbind m f) \<longleftrightarrow> (\<exists>x. m = Inr x \<and> is_ok (f x))"
  by (cases m) simp_all

lemma is_ok_rbind_Inr [simp]: "is_ok (rbind m (\<lambda>x. Inr (f x))) \<longleftrightarrow> is_ok m"
  by (cases m) simp_all

lemma is_ok_rmap: "is_ok (rmap f xs) \<longleftrightarrow> (\<forall>x \<in> set xs. is_ok (f x))"
  by (induction xs) (auto simp: is_ok_iff rbind_eq_Inr)

section \<open>Little-endian integers\<close>

primrec le_bytes :: "nat \<Rightarrow> int \<Rightarrow> bytes" where
  "le_bytes 0 v = []"
| "le_bytes (Suc n) v = word_of_int v # le_bytes n (v div 256)"

primrec le_val :: "bytes \<Rightarrow> int" where
  "le_val [] = 0"
| "le_val (b # bs) = uint b + 256 * le_val bs"

lemma length_le_bytes [simp, wire]: "length (le_bytes n v) = n"
  by (induction n arbitrary: v) auto

lemma le_val_nonneg [simp]: "0 \<le> le_val bs"
  by (induction bs) auto

lemma uint_byte_bounds: "0 \<le> uint (b :: byte)" "uint (b :: byte) < 256"
  using unsigned_less [of b, where ?'a = int] by simp_all

lemma le_val_less: "le_val bs < 256 ^ length bs"
proof (induction bs)
  case (Cons b bs)
  have "le_val bs + 1 \<le> 256 ^ length bs" using Cons by linarith
  then have "256 * (le_val bs + 1) \<le> 256 * 256 ^ length bs" by (rule mult_left_mono) simp
  with uint_byte_bounds(2) [of b] show ?case by simp
qed simp

lemma uint_word_of_int_byte [simp]: "uint (word_of_int v :: byte) = v mod 256"
  by (simp add: uint_word_of_int)

lemma unat_byte_of_nat: "n < 256 \<Longrightarrow> unat (word_of_nat n :: byte) = n"
  by (simp add: unat_of_nat)

lemma le_val_le_bytes: "le_val (le_bytes n v) = v mod 256 ^ n"
proof (induction n arbitrary: v)
  case (Suc n)
  have "v mod 256 + 256 * (v div 256 mod 256 ^ n) = v mod (256 * 256 ^ n)"
    by (simp add: zmod_zmult2_eq)
  then show ?case by (simp add: Suc)
qed simp

lemma le_bytes_le_val: "le_bytes (length bs) (le_val bs) = bs"
proof (induction bs)
  case (Cons b bs)
  have "(uint b + 256 * le_val bs) div 256 = le_val bs"
    using uint_byte_bounds [of b] by simp
  moreover have "uint (word_of_int (uint b + 256 * le_val bs) :: byte) = uint b"
    by (subst uint_word_of_int_byte) (use uint_byte_bounds [of b] in simp)
  then have "word_of_int (uint b + 256 * le_val bs) = b" by (simp only: word_uint_eq_iff)
  ultimately show ?case using Cons by simp
qed simp

lemma le_bytes_mod: "le_bytes n (v mod 256 ^ n) = le_bytes n v"
  by (metis le_bytes_le_val le_val_le_bytes length_le_bytes)

lemma le_bytes_eq_iff [wire]: "le_bytes n v = le_bytes n w \<longleftrightarrow> v mod 256 ^ n = w mod 256 ^ n"
  by (metis le_bytes_mod le_val_le_bytes)

lemma le_bytes_2: "le_bytes 2 v = [word_of_int v, word_of_int (v div 256)]"
  by (simp add: numeral_2_eq_2)

lemma and_ff_mod: "v AND 0xff = v mod (256 :: int)"
proof -
  have "v AND 0xff = take_bit 8 v" by (simp add: take_bit_eq_mask mask_eq_exp_minus_1)
  then show ?thesis by (simp add: take_bit_eq_mod)
qed

lemma byte_and_ff [simp]: "(word_of_int (v AND 0xff) :: byte) = word_of_int v"
  unfolding word_uint_eq_iff uint_word_of_int_byte and_ff_mod by simp

text \<open>\<open>value & 0xff\<close> and \<open>(value >> 8) & 0xff\<close> are the two bytes of a little-endian u16.\<close>

lemma u16_two_bytes [wire]:
  "[word_of_int (v AND 0xff), word_of_int (drop_bit 8 v AND 0xff)] = le_bytes 2 v"
  by (simp add: le_bytes_2 drop_bit_eq_div)

section \<open>Typed arrays and DataView\<close>

text \<open>
  \<open>u8_zeros n\<close> is \<open>new Uint8Array(n)\<close>, \<open>u8_of ns\<close> is \<open>new Uint8Array([..])\<close> (each number is
  taken modulo 256), \<open>u8_set\<close> is \<open>buf.set(src, off)\<close> with its \<open>RangeError\<close>, \<open>u8_put\<close> is
  \<open>buf[i] = v\<close> (ignored out of range), \<open>dv_set\<close> and \<open>dv_get\<close> are the little-endian
  \<open>setUint16/setUint32/setBigUint64\<close> and \<open>getUint16/getUint32/getBigUint64\<close> of a \<open>DataView\<close> over
  the whole array, and \<open>u8_slice\<close> is \<open>slice\<close> or \<open>subarray\<close> with non-negative bounds, which
  JavaScript clamps.
\<close>

definition u8_zeros :: "nat \<Rightarrow> bytes" where
  "u8_zeros n = replicate n 0"

definition u8_of :: "int list \<Rightarrow> bytes" where
  "u8_of ns = map word_of_int ns"

definition u8_set :: "bytes \<Rightarrow> bytes \<Rightarrow> nat \<Rightarrow> bytes result" where
  "u8_set buf src off =
     (if off + length src \<le> length buf
      then Inr (take off buf @ src @ drop (off + length src) buf)
      else Inl (RangeError ''offset is out of bounds''))"

definition u8_put :: "bytes \<Rightarrow> nat \<Rightarrow> int \<Rightarrow> bytes" where
  "u8_put buf i v = buf[i := word_of_int v]"

definition dv_set :: "nat \<Rightarrow> bytes \<Rightarrow> nat \<Rightarrow> int \<Rightarrow> bytes result" where
  "dv_set w buf off v = u8_set buf (le_bytes w v) off"

definition u8_slice :: "bytes \<Rightarrow> nat \<Rightarrow> nat \<Rightarrow> bytes" where
  "u8_slice bs a b = take (b - a) (drop a bs)"

definition dv_get :: "nat \<Rightarrow> bytes \<Rightarrow> nat \<Rightarrow> int result" where
  "dv_get w bs off =
     (if off + w \<le> length bs then Inr (le_val (u8_slice bs off (off + w)))
      else Inl (RangeError ''Offset is outside the bounds of the DataView''))"

text \<open>\<open>data[i]\<close> read out of range is \<open>undefined\<close>.\<close>

definition u8_at :: "bytes \<Rightarrow> nat \<Rightarrow> byte option" where
  "u8_at bs i = (if i < length bs then Some (bs ! i) else None)"

lemma length_u8_zeros [simp, wire]: "length (u8_zeros n) = n"
  by (simp add: u8_zeros_def)

lemma length_u8_of [simp, wire]: "length (u8_of ns) = length ns"
  by (simp add: u8_of_def)

lemma u8_of_simps [simp]: "u8_of [] = []" "u8_of (n # ns) = word_of_int n # u8_of ns"
  by (simp_all add: u8_of_def)

lemma length_u8_slice [simp, wire]: "length (u8_slice bs a b) = min (length bs - a) (b - a)"
  by (simp add: u8_slice_def)

lemma u8_slice_append_exact [wire]:
  "length xs = a \<Longrightarrow> length ys = b - a \<Longrightarrow> u8_slice (xs @ ys @ zs) a b = ys"
  by (simp add: u8_slice_def)

lemma u8_set_within:
  "length pre = off \<Longrightarrow> length mid = length src \<Longrightarrow>
    u8_set (pre @ mid @ post) src off = Inr (pre @ src @ post)"
  by (simp add: u8_set_def)

text \<open>
  Writing fields one after another into a zeroed buffer fills it from the left: the buffer is
  what was written so far, then zeros. Every builder that allocates a buffer and fills it is
  read off with these three.
\<close>

lemma u8_zeros_split: "m \<le> n \<Longrightarrow> u8_zeros n = u8_zeros m @ u8_zeros (n - m)"
  by (simp add: u8_zeros_def flip: replicate_add)

lemma u8_set_fill [wire]:
  "length pre = off \<Longrightarrow> length src \<le> n \<Longrightarrow>
    u8_set (pre @ u8_zeros n) src off = Inr (pre @ src @ u8_zeros (n - length src))"
  by (simp add: u8_set_def u8_zeros_def)

lemma u8_set_zeros [wire]:
  "length src \<le> n \<Longrightarrow> u8_set (u8_zeros n) src 0 = Inr (src @ u8_zeros (n - length src))"
  by (simp add: u8_set_def u8_zeros_def)

lemma dv_set_fill [wire]:
  "length pre = off \<Longrightarrow> w \<le> n \<Longrightarrow>
    dv_set w (pre @ u8_zeros n) off v = Inr (pre @ le_bytes w v @ u8_zeros (n - w))"
  by (simp add: dv_set_def u8_set_fill)

lemma dv_set_zeros [wire]:
  "w \<le> n \<Longrightarrow> dv_set w (u8_zeros n) 0 v = Inr (le_bytes w v @ u8_zeros (n - w))"
  by (simp add: dv_set_def u8_set_zeros)

lemma u8_put_fill [wire]:
  "length pre = i \<Longrightarrow> 0 < n \<Longrightarrow>
    u8_put (pre @ u8_zeros n) i v = pre @ word_of_int v # u8_zeros (n - 1)"
  by (cases n) (auto simp: u8_put_def u8_zeros_def list_update_append)

lemma u8_zeros_0 [simp]: "u8_zeros 0 = []"
  by (simp add: u8_zeros_def)

lemma dv_get_field [wire]:
  "length xs = off \<Longrightarrow> dv_get w (xs @ le_bytes w v @ zs) off = Inr (v mod 256 ^ w)"
  by (simp add: dv_get_def u8_slice_append_exact le_val_le_bytes)

text \<open>
  The helper the SDK repeats in most modules: sum the lengths, allocate, copy each part at the
  running offset. It is the concatenation, and never raises the \<open>RangeError\<close> of \<open>set\<close>.
\<close>

fun concat_copy :: "bytes \<Rightarrow> nat \<Rightarrow> bytes list \<Rightarrow> bytes result" where
  "concat_copy out off [] = Inr out"
| "concat_copy out off (p # ps) =
     rbind (u8_set out p off) (\<lambda>out'. concat_copy out' (off + length p) ps)"

definition concatBytes :: "bytes list \<Rightarrow> bytes result" where
  "concatBytes parts = concat_copy (u8_zeros (sum_list (map length parts))) 0 parts"

lemma concat_copy_fill:
  "length pre = off \<Longrightarrow>
    concat_copy (pre @ u8_zeros (sum_list (map length ps))) off ps = Inr (pre @ concat ps)"
proof (induction ps arbitrary: pre off)
  case (Cons p ps)
  then show ?case
    using Cons.IH [of "pre @ p" "off + length p"] by (simp add: u8_set_fill)
qed simp

lemma concatBytes_eq [simp]: "concatBytes parts = Inr (concat parts)"
  using concat_copy_fill [of "[]" 0 parts] by (simp add: concatBytes_def)

text \<open>\<open>bytesEqual\<close>: same length and every element equal.\<close>

definition bytesEqual :: "bytes \<Rightarrow> bytes \<Rightarrow> bool" where
  "bytesEqual a b = (length a = length b \<and> (\<forall>i < length a. a ! i = b ! i))"

lemma bytesEqual_iff [simp]: "bytesEqual a b \<longleftrightarrow> a = b"
  by (auto simp: bytesEqual_def list_eq_iff_nth_eq)

text \<open>\<open>new TextEncoder().encode(s)\<close> on the model's strings.\<close>

definition utf8 :: "string \<Rightarrow> bytes" where
  "utf8 s = map of_char s"

lemma length_utf8 [simp, wire]: "length (utf8 s) = length s"
  by (simp add: utf8_def)

section \<open>Insertion-ordered maps\<close>

text \<open>
  A JavaScript \<open>Map\<close> as the list of its entries in insertion order: \<open>set\<close> of a key that is
  present keeps its place, of a new key appends. \<open>get\<close> is \<^const>\<open>map_of\<close>.
\<close>

fun jsmap_set :: "'k \<Rightarrow> 'v \<Rightarrow> ('k \<times> 'v) list \<Rightarrow> ('k \<times> 'v) list" where
  "jsmap_set k v [] = [(k, v)]"
| "jsmap_set k v (e # m) = (if fst e = k then (k, v) # m else e # jsmap_set k v m)"

definition jsmap_has :: "('k \<times> 'v) list \<Rightarrow> 'k \<Rightarrow> bool" where
  "jsmap_has m k = (map_of m k \<noteq> None)"

text \<open>The contract of an ordered dictionary, as the SDK relies on it.\<close>

locale ordered_dict =
  fixes emp :: "'m"
    and put :: "'k \<Rightarrow> 'v \<Rightarrow> 'm \<Rightarrow> 'm"
    and lkp :: "'m \<Rightarrow> 'k \<Rightarrow> 'v option"
    and ks :: "'m \<Rightarrow> 'k list"
    and inv :: "'m \<Rightarrow> bool"
  assumes inv_emp: "inv emp"
    and inv_put: "inv m \<Longrightarrow> inv (put k v m)"
    and lkp_emp: "lkp emp k = None"
    and lkp_put: "inv m \<Longrightarrow> lkp (put k v m) k' = (if k' = k then Some v else lkp m k')"
    and ks_emp: "ks emp = []"
    and ks_put: "inv m \<Longrightarrow> ks (put k v m) = (if k \<in> set (ks m) then ks m else ks m @ [k])"
    and ks_lkp: "inv m \<Longrightarrow> k \<in> set (ks m) \<longleftrightarrow> lkp m k \<noteq> None"
begin

lemma inv_fold: "inv m \<Longrightarrow> inv (fold (\<lambda>x. put (f x) (g x)) xs m)"
  by (induction xs arbitrary: m) (auto intro: inv_put)

lemma lkp_fold_notin:
  "inv m \<Longrightarrow> k \<notin> f ` set xs \<Longrightarrow> lkp (fold (\<lambda>x. put (f x) (g x)) xs m) k = lkp m k"
  by (induction xs arbitrary: m) (auto simp: lkp_put inv_put)

lemma lkp_fold_distinct:
  "inv m \<Longrightarrow> distinct (map f xs) \<Longrightarrow> x \<in> set xs \<Longrightarrow>
    lkp (fold (\<lambda>x. put (f x) (g x)) xs m) (f x) = Some (g x)"
  by (induction xs arbitrary: m) (auto simp: lkp_put inv_put lkp_fold_notin)

lemma ks_prefix: "inv m \<Longrightarrow> \<exists>more. ks (fold (\<lambda>x. put (f x) (g x)) xs m) = ks m @ more"
proof (induction xs arbitrary: m)
  case (Cons x xs)
  then obtain more where "ks (fold (\<lambda>x. put (f x) (g x)) xs (put (f x) (g x) m))
      = ks (put (f x) (g x) m) @ more"
    using inv_put by blast
  with Cons.prems show ?case by (auto simp: ks_put)
qed simp

end

lemma jsmap_set_keys:
  "map fst (jsmap_set k v m) = (if k \<in> fst ` set m then map fst m else map fst m @ [k])"
  by (induction m) auto

lemma map_of_jsmap_set [simp]: "map_of (jsmap_set k v m) k' = (if k' = k then Some v else map_of m k')"
  by (induction m) (auto split: if_splits)

interpretation jsmap: ordered_dict "[]" jsmap_set map_of "map fst" "\<lambda>m. distinct (map fst m)"
  by unfold_locales (auto simp: jsmap_set_keys map_of_eq_None_iff)

section \<open>Third-party functions as parameters\<close>

text \<open>
  What the SDK calls from \<open>@solana/kit\<close> and \<open>@noble/hashes\<close>, as one record every definition
  that uses them takes as an argument: \<open>isAddress\<close>, the address codec, the fixed-width integer
  codecs, SHA-256, \<open>getProgramDerivedAddress\<close> (which throws on malformed seeds, hence a result) and
  the base64 codec.
\<close>

record kit =
  k_isAddress :: "address \<Rightarrow> bool"
  k_encAddr :: "address \<Rightarrow> bytes"
  k_decAddr :: "bytes \<Rightarrow> address"
  k_encU64 :: "int \<Rightarrow> bytes result"
  k_decUint :: "nat \<Rightarrow> bytes \<Rightarrow> int"
  k_sha256 :: "bytes \<Rightarrow> bytes"
  k_pda :: "address \<Rightarrow> bytes list \<Rightarrow> (address \<times> int) result"
  k_base64 :: "bytes \<Rightarrow> string"
  k_unbase64 :: "string \<Rightarrow> bytes result"

text \<open>
  Their documented behaviour, one predicate each: an address is 32 bytes and nothing else, an
  unsigned integer codec is little-endian and rejects what does not fit, SHA-256 gives 32 bytes,
  base64 text decodes to the bytes it was made from.
\<close>

definition address_codec :: "kit \<Rightarrow> bool" where
  "address_codec K \<longleftrightarrow>
     (\<forall>a. k_isAddress K a \<longrightarrow> length (k_encAddr K a) = 32 \<and> k_decAddr K (k_encAddr K a) = a) \<and>
     (\<forall>b. length b = 32 \<longrightarrow> k_isAddress K (k_decAddr K b) \<and> k_encAddr K (k_decAddr K b) = b)"

definition uint_codecs :: "kit \<Rightarrow> bool" where
  "uint_codecs K \<longleftrightarrow>
     (\<forall>v. k_encU64 K v = (if 0 \<le> v \<and> v < 2 ^ 64 then Inr (le_bytes 8 v)
                          else Inl (LibError ''CODECS__NUMBER_OUT_OF_RANGE''))) \<and>
     (\<forall>w bs. length bs = w \<longrightarrow> k_decUint K w bs = le_val bs)"

definition sha256_32 :: "kit \<Rightarrow> bool" where
  "sha256_32 K \<longleftrightarrow> (\<forall>b. length (k_sha256 K b) = 32)"

definition base64_codec :: "kit \<Rightarrow> bool" where
  "base64_codec K \<longleftrightarrow> (\<forall>b. k_unbase64 K (k_base64 K b) = Inr b)"

lemma encAddr_length [wire]: "address_codec K \<Longrightarrow> k_isAddress K a \<Longrightarrow> length (k_encAddr K a) = 32"
  by (simp add: address_codec_def)

lemma encAddr_inject:
  "address_codec K \<Longrightarrow> k_isAddress K a \<Longrightarrow> k_isAddress K b \<Longrightarrow>
    k_encAddr K a = k_encAddr K b \<longleftrightarrow> a = b"
  by (metis address_codec_def)

lemma sha256_length [wire]: "sha256_32 K \<Longrightarrow> length (k_sha256 K b) = 32"
  by (simp add: sha256_32_def)

text \<open>
  \<open>new PublicKey(bytes)\<close> of web3.js reads up to 32 bytes as one big-endian number, so that fewer than
  32 are padded on the left.
\<close>

definition pubkey_of :: "kit \<Rightarrow> bytes \<Rightarrow> address" where
  "pubkey_of K b = k_decAddr K (replicate (32 - length b) 0 @ b)"

lemma pubkey_of_32 [simp]: "length b = 32 \<Longrightarrow> pubkey_of K b = k_decAddr K b"
  by (simp add: pubkey_of_def)

text \<open>
  One concrete instance, for evaluating theorems at concrete inputs: an address is any text of
  32 characters, and hashing truncates.
\<close>

definition byte_char :: "byte \<Rightarrow> char" where
  "byte_char b = char_of (unat b)"

definition sample_kit :: kit where
  "sample_kit =
     \<lparr>k_isAddress = (\<lambda>a. length a = 32),
      k_encAddr = (\<lambda>a. map of_char a),
      k_decAddr = (\<lambda>b. map byte_char b),
      k_encU64 = (\<lambda>v. if 0 \<le> v \<and> v < 2 ^ 64 then Inr (le_bytes 8 v)
                      else Inl (LibError ''CODECS__NUMBER_OUT_OF_RANGE'')),
      k_decUint = (\<lambda>w bs. le_val bs),
      k_sha256 = (\<lambda>b. take 32 (b @ replicate 32 0)),
      k_pda = (\<lambda>p seeds. Inr (map byte_char (concat seeds), 0)),
      k_base64 = map byte_char,
      k_unbase64 = (\<lambda>s. Inr (map of_char s))\<rparr>"

lemma of_char_byte_char [simp]: "of_char (byte_char b) = b"
proof -
  have "of_char (byte_char b) = (of_nat (of_char (byte_char b)) :: byte)"
    by (rule of_nat_of_char [symmetric])
  also have "of_char (byte_char b) = unat b"
    using unsigned_less [of b, where ?'a = nat] by (simp add: byte_char_def)
  finally show ?thesis by simp
qed

lemma byte_char_of_char [simp]: "byte_char (of_char c) = c"
proof -
  have "unat (of_char c :: byte) = unat (of_nat (of_char c) :: byte)" by (simp only: of_nat_of_char)
  also have "\<dots> = of_char c"
    using of_char_mod_256 [of c, where ?'a = nat] by (simp add: unat_of_nat del: of_char_mod_256)
  finally show ?thesis by (simp add: byte_char_def)
qed

lemma inj_byte_char: "inj byte_char"
  by (metis injI of_char_byte_char)

lemma sample_kit_laws: "address_codec sample_kit" "uint_codecs sample_kit" "sha256_32 sample_kit" "base64_codec sample_kit"
  by (simp_all add: sample_kit_def address_codec_def uint_codecs_def sha256_32_def base64_codec_def comp_def min_def)

section \<open>Self-delimiting codecs\<close>

text \<open>
  The interface between an SDK encoder and the reader on the other side of the wire: the reader
  takes one value off the front and hands the rest back. \<open>read_n\<close> is the reader's counted loop.
\<close>

fun read_n :: "(bytes \<Rightarrow> ('a \<times> bytes) result) \<Rightarrow> nat \<Rightarrow> bytes \<Rightarrow> ('a list \<times> bytes) result" where
  "read_n rd 0 bs = Inr ([], bs)"
| "read_n rd (Suc n) bs =
     rbind (rd bs) (\<lambda>(x, rest). rbind (read_n rd n rest) (\<lambda>(xs, rest'). Inr (x # xs, rest')))"

locale wire_codec =
  fixes enc :: "'a \<Rightarrow> bytes"
    and rd :: "bytes \<Rightarrow> ('a \<times> bytes) result"
    and wf :: "'a \<Rightarrow> bool"
  assumes rd_enc: "wf x \<Longrightarrow> rd (enc x @ rest) = Inr (x, rest)"
begin

lemma enc_append_inject: "wf x \<Longrightarrow> wf y \<Longrightarrow> enc x @ r = enc y @ s \<Longrightarrow> x = y \<and> r = s"
proof -
  assume wf: "wf x" "wf y" and eq: "enc x @ r = enc y @ s"
  have "Inr (x, r) = rd (enc x @ r)" using wf(1) by (rule rd_enc [symmetric])
  also have "\<dots> = rd (enc y @ s)" by (simp only: eq)
  also have "\<dots> = Inr (y, s)" using wf(2) by (rule rd_enc)
  finally show "x = y \<and> r = s" by simp
qed

lemma read_n_enc:
  "list_all wf xs \<Longrightarrow> read_n rd (length xs) (concat (map enc xs) @ rest) = Inr (xs, rest)"
  by (induction xs) (auto simp: rd_enc)

lemma concat_enc_inject:
  assumes "list_all wf xs" "list_all wf ys" "length xs = length ys"
    and "concat (map enc xs) @ r = concat (map enc ys) @ s"
  shows "xs = ys \<and> r = s"
proof -
  have "Inr (xs, r) = read_n rd (length xs) (concat (map enc xs) @ r)"
    using assms(1) by (rule read_n_enc [symmetric])
  also have "\<dots> = read_n rd (length ys) (concat (map enc ys) @ s)" by (simp only: assms(3,4))
  also have "\<dots> = Inr (ys, s)" using assms(2) by (rule read_n_enc)
  finally show ?thesis by simp
qed

end

definition read_uint :: "nat \<Rightarrow> bytes \<Rightarrow> (int \<times> bytes) result" where
  "read_uint w bs =
     (if length bs < w then Inl (RangeError ''short read'')
      else Inr (le_val (take w bs), drop w bs))"

interpretation uint_codec: wire_codec "le_bytes w" "read_uint w" "\<lambda>v. 0 \<le> v \<and> v < 256 ^ w" for w
  by unfold_locales (simp add: read_uint_def le_val_le_bytes)

end
