(* ===== verification/Pdas.thy ===== *)
theory Pdas
  imports Prelude
begin

text \<open>
  Program ids, account discriminators, well-known Solana addresses and the program-derived
  addresses of protocol v2 and of the retired v1 deployment: \<open>constants.ts\<close>,
  \<open>instructions/system.ts\<close>, \<open>pdas.ts\<close> and the derivations of \<open>v1.ts\<close>. The runtime hashes the
  \<^emph>\<open>concatenation\<close> of a PDA's seeds, so what keeps two kinds of accounts apart is that no two
  requests concatenate to the same bytes.
\<close>

section \<open>Constants\<close>

definition PROGRAM_ID_MAINNET :: address where
  "PROGRAM_ID_MAINNET = ''LazorFroiVuAjcwwQ2me83vTr5nc5NRxSaTg3pmEXC8''"

definition PROGRAM_ID_DEVNET :: address where
  "PROGRAM_ID_DEVNET = ''57bTNWqtYTJbWuLWASKo6GqUTAK6oFDUR5c6hEc6V8nv''"

definition PROGRAM_ID_MAINNET_V1 :: address where
  "PROGRAM_ID_MAINNET_V1 = ''LazorjRFNavitUaBu5m3WaNPjU1maipvSW2rZfAFAKi''"

definition PROGRAM_ID_DEVNET_V1 :: address where
  "PROGRAM_ID_DEVNET_V1 = ''4h3XoNReAgEcHVxcZ8sw2aufi9MTr7BbvYYjzjWDyDxS''"

definition legacyProgramIdFor :: "address \<Rightarrow> address" where
  "legacyProgramIdFor programId =
     (if programId = PROGRAM_ID_MAINNET then PROGRAM_ID_MAINNET_V1
      else if programId = PROGRAM_ID_DEVNET then PROGRAM_ID_DEVNET_V1
      else programId)"

text \<open>\<open>ACCOUNT_DISCRIMINATOR\<close>: byte 0 of every program-owned account.\<close>

datatype account_kind = WALLET | AUTHORITY | SESSION | DEFERRED_EXEC | PROTOCOL_CONFIG
  | FEE_RECORD | TREASURY_SHARD

fun ACCOUNT_DISCRIMINATOR :: "account_kind \<Rightarrow> byte" where
  "ACCOUNT_DISCRIMINATOR WALLET = 0x21"
| "ACCOUNT_DISCRIMINATOR AUTHORITY = 0x22"
| "ACCOUNT_DISCRIMINATOR SESSION = 0x23"
| "ACCOUNT_DISCRIMINATOR DEFERRED_EXEC = 0x24"
| "ACCOUNT_DISCRIMINATOR PROTOCOL_CONFIG = 0x25"
| "ACCOUNT_DISCRIMINATOR FEE_RECORD = 0x26"
| "ACCOUNT_DISCRIMINATOR TREASURY_SHARD = 0x27"

definition SYSTEM_PROGRAM_ADDRESS :: address where
  "SYSTEM_PROGRAM_ADDRESS = ''11111111111111111111111111111111''"

definition SYSVAR_INSTRUCTIONS_ADDRESS :: address where
  "SYSVAR_INSTRUCTIONS_ADDRESS = ''Sysvar1nstructions1111111111111111111111111''"

definition SYSVAR_RENT_ADDRESS :: address where
  "SYSVAR_RENT_ADDRESS = ''SysvarRent111111111111111111111111111111111''"

definition SECP256R1_PROGRAM_ADDRESS :: address where
  "SECP256R1_PROGRAM_ADDRESS = ''Secp256r1SigVerify1111111111111111111111111''"

definition TOKEN_PROGRAM_ADDRESS :: address where
  "TOKEN_PROGRAM_ADDRESS = ''TokenkegQfeZyiNwAJbNbGKPFXCWuBvf9Ss623VQ5DA''"

definition TOKEN_2022_PROGRAM_ADDRESS :: address where
  "TOKEN_2022_PROGRAM_ADDRESS = ''TokenzQdBNbLqP5VEhdkAS6EPFLC1PHnBqCXEpPxuEb''"

section \<open>Seeds and derivations\<close>

definition SEED_PREFIX :: string where "SEED_PREFIX = ''lk2:''"
definition SEED_WALLET :: string where "SEED_WALLET = SEED_PREFIX @ ''wallet''"
definition SEED_VAULT :: string where "SEED_VAULT = SEED_PREFIX @ ''vault''"
definition SEED_AUTHORITY :: string where "SEED_AUTHORITY = SEED_PREFIX @ ''authority''"
definition SEED_SESSION :: string where "SEED_SESSION = SEED_PREFIX @ ''session''"
definition SEED_DEFERRED :: string where "SEED_DEFERRED = SEED_PREFIX @ ''deferred''"
definition SEED_PROTOCOL_CONFIG :: string where "SEED_PROTOCOL_CONFIG = SEED_PREFIX @ ''protocol_config''"
definition SEED_TREASURY_SHARD :: string where "SEED_TREASURY_SHARD = SEED_PREFIX @ ''treasury_shard''"
definition SEED_FEE_RECORD :: string where "SEED_FEE_RECORD = SEED_PREFIX @ ''fee_record''"
definition V1_SEED_WALLET :: string where "V1_SEED_WALLET = ''wallet''"
definition V1_SEED_VAULT :: string where "V1_SEED_VAULT = ''vault''"
definition V1_SEED_AUTHORITY :: string where "V1_SEED_AUTHORITY = ''authority''"

lemmas seed_defs = SEED_PREFIX_def SEED_WALLET_def SEED_VAULT_def SEED_AUTHORITY_def
  SEED_SESSION_def SEED_DEFERRED_def SEED_PROTOCOL_CONFIG_def SEED_TREASURY_SHARD_def
  SEED_FEE_RECORD_def V1_SEED_WALLET_def V1_SEED_VAULT_def V1_SEED_AUTHORITY_def

type_synonym pda = "(address \<times> int) result"

definition findWalletPda :: "kit \<Rightarrow> bytes \<Rightarrow> address \<Rightarrow> pda" where
  "findWalletPda K userSeed programId = k_pda K programId [utf8 SEED_WALLET, userSeed]"

definition findVaultPda :: "kit \<Rightarrow> address \<Rightarrow> address \<Rightarrow> pda" where
  "findVaultPda K walletPda programId = k_pda K programId [utf8 SEED_VAULT, k_encAddr K walletPda]"

definition findAuthorityPda :: "kit \<Rightarrow> address \<Rightarrow> bytes \<Rightarrow> address \<Rightarrow> pda" where
  "findAuthorityPda K walletPda credentialIdHash programId =
     k_pda K programId [utf8 SEED_AUTHORITY, k_encAddr K walletPda, credentialIdHash]"

definition findSessionPda :: "kit \<Rightarrow> address \<Rightarrow> bytes \<Rightarrow> address \<Rightarrow> pda" where
  "findSessionPda K walletPda sessionKey programId =
     k_pda K programId [utf8 SEED_SESSION, k_encAddr K walletPda, sessionKey]"

definition findProtocolConfigPda :: "kit \<Rightarrow> address \<Rightarrow> pda" where
  "findProtocolConfigPda K programId = k_pda K programId [utf8 SEED_PROTOCOL_CONFIG]"

definition findFeeRecordPda :: "kit \<Rightarrow> address \<Rightarrow> address \<Rightarrow> pda" where
  "findFeeRecordPda K payerPubkey programId =
     k_pda K programId [utf8 SEED_FEE_RECORD, k_encAddr K payerPubkey]"

definition findTreasuryShardPda :: "kit \<Rightarrow> int \<Rightarrow> address \<Rightarrow> pda" where
  "findTreasuryShardPda K shardId programId =
     k_pda K programId [utf8 SEED_TREASURY_SHARD, u8_of [shardId]]"

definition findDeferredExecPda :: "kit \<Rightarrow> address \<Rightarrow> address \<Rightarrow> int \<Rightarrow> address \<Rightarrow> pda" where
  "findDeferredExecPda K walletPda authorityPda counter programId =
     rbind (dv_set 4 (u8_zeros 4) 0 counter) (\<lambda>counterBuf.
     k_pda K programId
       [utf8 SEED_DEFERRED, k_encAddr K walletPda, k_encAddr K authorityPda, counterBuf])"

definition findV1WalletPda :: "kit \<Rightarrow> bytes \<Rightarrow> address \<Rightarrow> pda" where
  "findV1WalletPda K userSeed programId = k_pda K programId [utf8 V1_SEED_WALLET, userSeed]"

definition findV1VaultPda :: "kit \<Rightarrow> address \<Rightarrow> address \<Rightarrow> pda" where
  "findV1VaultPda K walletPda programId =
     k_pda K programId [utf8 V1_SEED_VAULT, k_encAddr K walletPda]"

definition findV1AuthorityPda :: "kit \<Rightarrow> address \<Rightarrow> bytes \<Rightarrow> address \<Rightarrow> pda" where
  "findV1AuthorityPda K walletPda ownerIdSeed programId =
     k_pda K programId [utf8 V1_SEED_AUTHORITY, k_encAddr K walletPda, ownerIdSeed]"

record v1_accounts =
  v1_wallet :: address
  v1_vault :: address
  v1_authority :: address

definition deriveV1Accounts :: "kit \<Rightarrow> bytes \<Rightarrow> bytes \<Rightarrow> address \<Rightarrow> v1_accounts result" where
  "deriveV1Accounts K userSeed ownerIdSeed programId =
     rbind (findV1WalletPda K userSeed programId) (\<lambda>(wallet, _).
     rbind (findV1VaultPda K wallet programId) (\<lambda>(vault, _).
     rbind (findV1AuthorityPda K wallet ownerIdSeed programId) (\<lambda>(authority, _).
     Inr \<lparr>v1_wallet = wallet, v1_vault = vault, v1_authority = authority\<rparr>)))"

section \<open>Domain separation\<close>

text \<open>Every derivation the two SDK modules make, as one value, and the seeds it hashes.\<close>

datatype pda_request =
    WalletPda bytes | VaultPda address | AuthorityPda address bytes | SessionPda address bytes
  | ProtocolConfigPda | FeeRecordPda address | TreasuryShardPda int
  | DeferredExecPda address address int
  | V1WalletPda bytes | V1VaultPda address | V1AuthorityPda address bytes

fun find_pda :: "kit \<Rightarrow> pda_request \<Rightarrow> address \<Rightarrow> pda" where
  "find_pda K (WalletPda u) p = findWalletPda K u p"
| "find_pda K (VaultPda w) p = findVaultPda K w p"
| "find_pda K (AuthorityPda w c) p = findAuthorityPda K w c p"
| "find_pda K (SessionPda w s) p = findSessionPda K w s p"
| "find_pda K ProtocolConfigPda p = findProtocolConfigPda K p"
| "find_pda K (FeeRecordPda a) p = findFeeRecordPda K a p"
| "find_pda K (TreasuryShardPda n) p = findTreasuryShardPda K n p"
| "find_pda K (DeferredExecPda w a n) p = findDeferredExecPda K w a n p"
| "find_pda K (V1WalletPda u) p = findV1WalletPda K u p"
| "find_pda K (V1VaultPda w) p = findV1VaultPda K w p"
| "find_pda K (V1AuthorityPda w c) p = findV1AuthorityPda K w c p"

lemmas find_pda_defs = findWalletPda_def findVaultPda_def findAuthorityPda_def findSessionPda_def
  findProtocolConfigPda_def findFeeRecordPda_def findTreasuryShardPda_def findDeferredExecPda_def
  findV1WalletPda_def findV1VaultPda_def findV1AuthorityPda_def

text \<open>Arguments within the ranges the on-chain accounts have.\<close>

fun pda_request_wf :: "kit \<Rightarrow> pda_request \<Rightarrow> bool" where
  "pda_request_wf K (WalletPda u) = (length u = 32)"
| "pda_request_wf K (VaultPda w) = k_isAddress K w"
| "pda_request_wf K (AuthorityPda w c) = (k_isAddress K w \<and> length c = 32)"
| "pda_request_wf K (SessionPda w s) = (k_isAddress K w \<and> length s = 32)"
| "pda_request_wf K ProtocolConfigPda = True"
| "pda_request_wf K (FeeRecordPda a) = k_isAddress K a"
| "pda_request_wf K (TreasuryShardPda n) = (0 \<le> n \<and> n < 256)"
| "pda_request_wf K (DeferredExecPda w a n) =
     (k_isAddress K w \<and> k_isAddress K a \<and> 0 \<le> n \<and> n < 2 ^ 32)"
| "pda_request_wf K (V1WalletPda u) = (length u = 32)"
| "pda_request_wf K (V1VaultPda w) = k_isAddress K w"
| "pda_request_wf K (V1AuthorityPda w c) = (k_isAddress K w \<and> length c = 32)"

text \<open>
  The bytes a request hashes, seen from outside: run it on a PDA function that returns what it
  was given.
\<close>

fun pda_preimage :: "kit \<Rightarrow> pda_request \<Rightarrow> bytes" where
  "pda_preimage K (WalletPda u) = utf8 SEED_WALLET @ u"
| "pda_preimage K (VaultPda w) = utf8 SEED_VAULT @ k_encAddr K w"
| "pda_preimage K (AuthorityPda w c) = utf8 SEED_AUTHORITY @ k_encAddr K w @ c"
| "pda_preimage K (SessionPda w s) = utf8 SEED_SESSION @ k_encAddr K w @ s"
| "pda_preimage K ProtocolConfigPda = utf8 SEED_PROTOCOL_CONFIG"
| "pda_preimage K (FeeRecordPda a) = utf8 SEED_FEE_RECORD @ k_encAddr K a"
| "pda_preimage K (TreasuryShardPda n) = utf8 SEED_TREASURY_SHARD @ u8_of [n]"
| "pda_preimage K (DeferredExecPda w a n) =
     utf8 SEED_DEFERRED @ k_encAddr K w @ k_encAddr K a @ le_bytes 4 n"
| "pda_preimage K (V1WalletPda u) = utf8 V1_SEED_WALLET @ u"
| "pda_preimage K (V1VaultPda w) = utf8 V1_SEED_VAULT @ k_encAddr K w"
| "pda_preimage K (V1AuthorityPda w c) = utf8 V1_SEED_AUTHORITY @ k_encAddr K w @ c"

lemma find_pda_concat:
  assumes "\<And>p seeds. k_pda K p seeds = f p (concat seeds)"
  shows "find_pda K r p = f p (pda_preimage K r)"
  using assms by (cases r) (simp_all add: find_pda_defs dv_set_zeros)

lemma utf8_append [simp]: "utf8 (s @ t) = utf8 s @ utf8 t"
  by (simp add: utf8_def)

lemma pda_preimage_length:
  assumes "address_codec K" "pda_request_wf K r"
  shows "length (pda_preimage K r) =
    (case r of WalletPda _ \<Rightarrow> 42 | VaultPda _ \<Rightarrow> 41 | AuthorityPda _ _ \<Rightarrow> 77 | SessionPda _ _ \<Rightarrow> 75
     | ProtocolConfigPda \<Rightarrow> 19 | FeeRecordPda _ \<Rightarrow> 46 | TreasuryShardPda _ \<Rightarrow> 19
     | DeferredExecPda _ _ _ \<Rightarrow> 80 | V1WalletPda _ \<Rightarrow> 38 | V1VaultPda _ \<Rightarrow> 37 | V1AuthorityPda _ _ \<Rightarrow> 73)"
  using assms by (cases r) (simp_all add: seed_defs encAddr_length)

lemma config_shard_distinct: "utf8 SEED_PROTOCOL_CONFIG \<noteq> utf8 SEED_TREASURY_SHARD @ xs"
  by (simp add: seed_defs utf8_def)

lemma byte_of_int_inject: "0 \<le> n \<Longrightarrow> n < 256 \<Longrightarrow> 0 \<le> m \<Longrightarrow> m < 256 \<Longrightarrow>
    (word_of_int n :: byte) = word_of_int m \<longleftrightarrow> n = m"
  by (metis mod_pos_pos_trivial uint_word_of_int_byte)

lemma pda_preimage_inject:
  assumes K: "address_codec K" and wf: "pda_request_wf K r" "pda_request_wf K r'"
    and eq: "pda_preimage K r = pda_preimage K r'"
  shows "r = r'"
proof -
  have len: "length (pda_preimage K r) = length (pda_preimage K r')" by (simp only: eq)
  show ?thesis
    using len eq wf K unfolding pda_preimage_length [OF K wf(1)] pda_preimage_length [OF K wf(2)]
    by (cases r; cases r')
      (simp_all add: encAddr_inject encAddr_length config_shard_distinct
        config_shard_distinct [symmetric] byte_of_int_inject le_bytes_eq_iff)
qed



end
