(* ===== verification/Actions.thy ===== *)
theory Actions
  imports Pdas
begin

text \<open>
  Session and delegate policies: the action types and serializer of \<open>codecs/actions.ts\<close>, and the
  reader the program runs over the same bytes (\<open>parse_actions\<close> and \<open>validate_actions_buffer\<close> of
  \<open>program/src/state/action.rs\<close>). The lemmas show that the program reads back exactly the actions
  the SDK wrote, and accepts a serialized policy exactly when it meets \<open>policy_ok\<close>.
\<close>

section \<open>The SDK side\<close>

datatype session_action =
    SolLimit (act_remaining: int) (act_expiresAt: "int option")
  | SolRecurringLimit (act_limit: int) (act_window: int) (act_expiresAt: "int option")
  | SolMaxPerTx (act_maxPerTx: int) (act_expiresAt: "int option")
  | TokenLimit (act_mint: address) (act_remaining: int) (act_expiresAt: "int option")
  | TokenRecurringLimit (act_mint: address) (act_limit: int) (act_window: int) (act_expiresAt: "int option")
  | TokenMaxPerTx (act_mint: address) (act_maxPerTx: int) (act_expiresAt: "int option")
  | ProgramWhitelist (act_programId: address) (act_expiresAt: "int option")
  | ProgramBlacklist (act_programId: address) (act_expiresAt: "int option")

fun SessionActionType :: "session_action \<Rightarrow> int" where
  "SessionActionType (SolLimit _ _) = 1"
| "SessionActionType (SolRecurringLimit _ _ _) = 2"
| "SessionActionType (SolMaxPerTx _ _) = 3"
| "SessionActionType (TokenLimit _ _ _) = 4"
| "SessionActionType (TokenRecurringLimit _ _ _ _) = 5"
| "SessionActionType (TokenMaxPerTx _ _ _) = 6"
| "SessionActionType (ProgramWhitelist _ _) = 10"
| "SessionActionType (ProgramBlacklist _ _) = 11"

definition ACTION_HEADER_SIZE :: nat where "ACTION_HEADER_SIZE = 11"

text \<open>A struct encoder writes its fields in order; an out-of-range u64 throws.\<close>

definition encode_u64s :: "kit \<Rightarrow> int list \<Rightarrow> bytes result" where
  "encode_u64s K vs = rbind (rmap (k_encU64 K) vs) (\<lambda>bs. Inr (concat bs))"

fun encodeActionData :: "kit \<Rightarrow> session_action \<Rightarrow> bytes result" where
  "encodeActionData K (SolLimit r _) = encode_u64s K [r]"
| "encodeActionData K (SolRecurringLimit l w _) = encode_u64s K [l, 0, w, 0]"
| "encodeActionData K (SolMaxPerTx m _) = encode_u64s K [m]"
| "encodeActionData K (TokenLimit mi r _) =
     rbind (encode_u64s K [r]) (\<lambda>b. Inr (k_encAddr K mi @ b))"
| "encodeActionData K (TokenRecurringLimit mi l w _) =
     rbind (encode_u64s K [l, 0, w, 0]) (\<lambda>b. Inr (k_encAddr K mi @ b))"
| "encodeActionData K (TokenMaxPerTx mi m _) =
     rbind (encode_u64s K [m]) (\<lambda>b. Inr (k_encAddr K mi @ b))"
| "encodeActionData K (ProgramWhitelist p _) = Inr (k_encAddr K p)"
| "encodeActionData K (ProgramBlacklist p _) = Inr (k_encAddr K p)"

definition writeU16LE :: "bytes \<Rightarrow> nat \<Rightarrow> int \<Rightarrow> bytes" where
  "writeU16LE buf offset v =
     u8_put (u8_put buf offset (v AND 0xff)) (offset + 1) (drop_bit 8 v AND 0xff)"

definition writeU64LE :: "bytes \<Rightarrow> nat \<Rightarrow> int \<Rightarrow> bytes result" where
  "writeU64LE buf offset v = dv_set 8 buf offset v"

definition action_part :: "kit \<Rightarrow> session_action \<Rightarrow> bytes list result" where
  "action_part K action =
     rbind (encodeActionData K action) (\<lambda>data.
     let header = u8_put (u8_zeros ACTION_HEADER_SIZE) 0 (SessionActionType action);
         header = writeU16LE header 1 (int (length data))
     in rbind (writeU64LE header 3 (case act_expiresAt action of Some e \<Rightarrow> e | None \<Rightarrow> 0)) (\<lambda>header.
        Inr [header, data]))"

definition serializeActions :: "kit \<Rightarrow> session_action list \<Rightarrow> bytes result" where
  "serializeActions K actions =
     (if actions = [] then Inr []
      else rbind (rmap (action_part K) actions) (\<lambda>parts. concatBytes (concat parts)))"

section \<open>The program side\<close>

datatype action_type = ASolLimit | ASolRecurringLimit | ASolMaxPerTx | ATokenLimit
  | ATokenRecurringLimit | ATokenMaxPerTx | AProgramWhitelist | AProgramBlacklist

definition ActionType_from_u8 :: "byte \<Rightarrow> action_type result" where
  "ActionType_from_u8 v =
     (if v = 1 then Inr ASolLimit else if v = 2 then Inr ASolRecurringLimit
      else if v = 3 then Inr ASolMaxPerTx else if v = 4 then Inr ATokenLimit
      else if v = 5 then Inr ATokenRecurringLimit else if v = 6 then Inr ATokenMaxPerTx
      else if v = 10 then Inr AProgramWhitelist else if v = 11 then Inr AProgramBlacklist
      else Inl (AuthError ''ActionBufferInvalid''))"

fun expected_data_size :: "action_type \<Rightarrow> nat" where
  "expected_data_size ASolLimit = 8"
| "expected_data_size ASolRecurringLimit = 32"
| "expected_data_size ASolMaxPerTx = 8"
| "expected_data_size ATokenLimit = 40"
| "expected_data_size ATokenRecurringLimit = 64"
| "expected_data_size ATokenMaxPerTx = 40"
| "expected_data_size AProgramWhitelist = 32"
| "expected_data_size AProgramBlacklist = 32"

record action_view =
  av_type :: action_type
  av_expires :: int
  av_offset :: nat
  av_len :: nat

definition MAX_ACTIONS :: nat where "MAX_ACTIONS = 16"

function parse_actions_from :: "bytes \<Rightarrow> nat \<Rightarrow> action_view list \<Rightarrow> action_view list result" where
  "parse_actions_from buf cursor actions =
     (if cursor < length buf then
        if cursor + ACTION_HEADER_SIZE > length buf then Inl (AuthError ''ActionBufferInvalid'')
        else rbind (ActionType_from_u8 (buf ! cursor)) (\<lambda>ty.
          let data_len = nat (le_val (u8_slice buf (cursor + 1) (cursor + 3)));
              expires_at = le_val (u8_slice buf (cursor + 3) (cursor + 11));
              data_offset = cursor + ACTION_HEADER_SIZE
          in if data_offset + data_len > length buf then Inl (AuthError ''ActionBufferInvalid'')
             else let actions' = actions @ [\<lparr>av_type = ty, av_expires = expires_at,
                                            av_offset = data_offset, av_len = data_len\<rparr>]
                  in if length actions' > MAX_ACTIONS then Inl (AuthError ''ActionBufferInvalid'')
                     else parse_actions_from buf (data_offset + data_len) actions')
      else Inr actions)"
  by pat_completeness auto
termination
  by (relation "measure (\<lambda>(buf, cursor, _). length buf - cursor)") (auto simp: ACTION_HEADER_SIZE_def)

declare parse_actions_from.simps [simp del]

definition parse_actions :: "bytes \<Rightarrow> action_view list result" where
  "parse_actions buf = parse_actions_from buf 0 []"

text \<open>The scans of \<open>validate_actions_buffer\<close>: each is the condition its loop returns an error on.\<close>

fun sol_repeated :: "bool \<Rightarrow> bool \<Rightarrow> bool \<Rightarrow> action_type list \<Rightarrow> bool" where
  "sol_repeated l r m [] = False"
| "sol_repeated l r m (ASolLimit # ts) = (l \<or> sol_repeated True r m ts)"
| "sol_repeated l r m (ASolRecurringLimit # ts) = (r \<or> sol_repeated l True m ts)"
| "sol_repeated l r m (ASolMaxPerTx # ts) = (m \<or> sol_repeated l r True ts)"
| "sol_repeated l r m (_ # ts) = sol_repeated l r m ts"

fun any_pair_equal :: "'a list \<Rightarrow> bool" where
  "any_pair_equal [] = False"
| "any_pair_equal (x # xs) = (list_ex (\<lambda>y. x = y) xs \<or> any_pair_equal xs)"

definition mint_repeated :: "bytes \<Rightarrow> action_view list \<Rightarrow> action_type \<Rightarrow> bool" where
  "mint_repeated buf actions ty =
     any_pair_equal (map (\<lambda>a. u8_slice buf (av_offset a) (av_offset a + 32))
       (filter (\<lambda>a. av_type a = ty) actions))"

definition view_data :: "bytes \<Rightarrow> action_view \<Rightarrow> bytes" where
  "view_data buf a = u8_slice buf (av_offset a) (av_offset a + av_len a)"

definition recurring_bad :: "bytes \<Rightarrow> action_view \<Rightarrow> bool" where
  "recurring_bad buf a =
     (let data = view_data buf a in
      (av_type a = ASolRecurringLimit \<and>
        (le_val (u8_slice data 8 16) \<noteq> 0 \<or> le_val (u8_slice data 16 24) = 0
         \<or> le_val (u8_slice data 24 32) \<noteq> 0)) \<or>
      (av_type a = ATokenRecurringLimit \<and>
        (le_val (u8_slice data 40 48) \<noteq> 0 \<or> le_val (u8_slice data 48 56) = 0
         \<or> le_val (u8_slice data 56 64) \<noteq> 0)))"

definition validate_actions_buffer :: "bytes \<Rightarrow> unit result" where
  "validate_actions_buffer buf =
     (if buf = [] then Inr ()
      else rbind (parse_actions buf) (\<lambda>actions.
        if list_ex (\<lambda>a. av_len a \<noteq> expected_data_size (av_type a)) actions
        then Inl (AuthError ''ActionBufferInvalid'')
        else if list_ex (\<lambda>a. av_type a = AProgramWhitelist) actions
              \<and> list_ex (\<lambda>a. av_type a = AProgramBlacklist) actions
        then Inl (AuthError ''ActionWhitelistBlacklistConflict'')
        else if sol_repeated False False False (map av_type actions)
        then Inl (AuthError ''ActionBufferInvalid'')
        else if list_ex (mint_repeated buf actions) [ATokenLimit, ATokenRecurringLimit, ATokenMaxPerTx]
        then Inl (AuthError ''ActionBufferInvalid'')
        else if list_ex (recurring_bad buf) actions
        then Inl (AuthError ''ActionBufferInvalid'')
        else Inr ()))"

section \<open>What is on the wire\<close>

fun amounts :: "session_action \<Rightarrow> int list" where
  "amounts (SolLimit r _) = [r]"
| "amounts (SolRecurringLimit l w _) = [l, 0, w, 0]"
| "amounts (SolMaxPerTx m _) = [m]"
| "amounts (TokenLimit _ r _) = [r]"
| "amounts (TokenRecurringLimit _ l w _) = [l, 0, w, 0]"
| "amounts (TokenMaxPerTx _ m _) = [m]"
| "amounts (ProgramWhitelist _ _) = []"
| "amounts (ProgramBlacklist _ _) = []"

fun key_of :: "session_action \<Rightarrow> address option" where
  "key_of (TokenLimit mi _ _) = Some mi"
| "key_of (TokenRecurringLimit mi _ _ _) = Some mi"
| "key_of (TokenMaxPerTx mi _ _) = Some mi"
| "key_of (ProgramWhitelist p _) = Some p"
| "key_of (ProgramBlacklist p _) = Some p"
| "key_of _ = None"

definition u64_ok :: "int \<Rightarrow> bool" where "u64_ok v \<longleftrightarrow> 0 \<le> v \<and> v < 2 ^ 64"

definition action_bytes :: "kit \<Rightarrow> session_action \<Rightarrow> bytes" where
  "action_bytes K a = (case key_of a of Some k \<Rightarrow> k_encAddr K k | None \<Rightarrow> [])
     @ concat (map (le_bytes 8) (amounts a))"

definition expiry_of :: "session_action \<Rightarrow> int" where
  "expiry_of a = (case act_expiresAt a of Some e \<Rightarrow> e | None \<Rightarrow> 0)"

definition wire_action :: "kit \<Rightarrow> session_action \<Rightarrow> bytes" where
  "wire_action K a = word_of_int (SessionActionType a) # le_bytes 2 (int (length (action_bytes K a)))
     @ le_bytes 8 (expiry_of a) @ action_bytes K a"

fun kind_of :: "session_action \<Rightarrow> action_type" where
  "kind_of (SolLimit _ _) = ASolLimit"
| "kind_of (SolRecurringLimit _ _ _) = ASolRecurringLimit"
| "kind_of (SolMaxPerTx _ _) = ASolMaxPerTx"
| "kind_of (TokenLimit _ _ _) = ATokenLimit"
| "kind_of (TokenRecurringLimit _ _ _ _) = ATokenRecurringLimit"
| "kind_of (TokenMaxPerTx _ _ _) = ATokenMaxPerTx"
| "kind_of (ProgramWhitelist _ _) = AProgramWhitelist"
| "kind_of (ProgramBlacklist _ _) = AProgramBlacklist"

lemma encode_u64s_ok:
  "uint_codecs K \<Longrightarrow> list_all u64_ok vs \<Longrightarrow> encode_u64s K vs = Inr (concat (map (le_bytes 8) vs))"
  by (induction vs) (auto simp: encode_u64s_def uint_codecs_def u64_ok_def rbind_assoc rbind_eq_Inr)

lemma encode_u64s_is_ok:
  "uint_codecs K \<Longrightarrow> is_ok (encode_u64s K vs) \<longleftrightarrow> list_all u64_ok vs"
  by (induction vs) (auto simp: encode_u64s_def uint_codecs_def u64_ok_def is_ok_iff rbind_eq_Inr)

lemma encodeActionData_ok:
  "uint_codecs K \<Longrightarrow> list_all u64_ok (amounts a) \<Longrightarrow> encodeActionData K a = Inr (action_bytes K a)"
  by (cases a) (simp_all add: encode_u64s_ok action_bytes_def)

lemma encodeActionData_is_ok:
  "uint_codecs K \<Longrightarrow> is_ok (encodeActionData K a) \<longleftrightarrow> list_all u64_ok (amounts a)"
  by (cases a) (simp_all add: encode_u64s_is_ok)

lemma writeU16LE_fill:
  "length pre = i \<Longrightarrow> 2 \<le> n \<Longrightarrow>
    writeU16LE (pre @ u8_zeros n) i v = pre @ le_bytes 2 v @ u8_zeros (n - 2)"
  using u8_put_fill [of "pre @ [word_of_int v]" "Suc i" "n - 1"]
  by (simp add: writeU16LE_def u8_put_fill le_bytes_2 drop_bit_eq_div numeral_2_eq_2)

lemma action_part_ok:
  assumes "uint_codecs K" "list_all u64_ok (amounts a)"
  shows "rbind (action_part K a) concatBytes = Inr (wire_action K a)"
proof -
  have h1: "u8_put (u8_zeros 11) 0 v = [word_of_int v] @ u8_zeros 10" for v
    using u8_put_fill [of "[]" 0 11 v] by simp
  have h2: "writeU16LE ([x] @ u8_zeros 10) 1 v = (x # le_bytes 2 v) @ u8_zeros 8" for x v
    by (subst writeU16LE_fill) simp_all
  have h3: "dv_set 8 ((x # le_bytes 2 v) @ u8_zeros 8) 3 e = Inr (x # le_bytes 2 v @ le_bytes 8 e)"
    for x v e by (subst dv_set_fill) simp_all
  show ?thesis
    unfolding action_part_def encodeActionData_ok [OF assms] ACTION_HEADER_SIZE_def Let_def
      writeU64LE_def rbind_Inr h1 h2 h3
    by (simp add: wire_action_def expiry_of_def)
qed

definition amounts_ok :: "session_action \<Rightarrow> bool" where
  "amounts_ok a = list_all u64_ok (amounts a)"

lemma action_part_is_ok:
  assumes "uint_codecs K"
  shows "is_ok (action_part K a) \<longleftrightarrow> amounts_ok a"
proof
  assume "is_ok (action_part K a)"
  then have "is_ok (encodeActionData K a)" by (auto simp: action_part_def is_ok_iff rbind_eq_Inr)
  then show "amounts_ok a" by (simp add: amounts_ok_def encodeActionData_is_ok [OF assms])
next
  assume "amounts_ok a"
  then have "rbind (action_part K a) concatBytes = Inr (wire_action K a)"
    by (simp only: amounts_ok_def action_part_ok [OF assms])
  then show "is_ok (action_part K a)" by (auto simp: is_ok_iff rbind_eq_Inr)
qed

lemma action_parts_concat:
  assumes "uint_codecs K" "list_all amounts_ok as"
  shows "\<exists>parts. rmap (action_part K) as = Inr parts
    \<and> concat (concat parts) = concat (map (wire_action K) as)"
  using assms(2)
proof (induction as)
  case (Cons a as)
  then obtain parts where "rmap (action_part K) as = Inr parts"
    "concat (concat parts) = concat (map (wire_action K) as)" by auto
  moreover have "rbind (action_part K a) concatBytes = Inr (wire_action K a)"
    using Cons.prems by (simp add: amounts_ok_def action_part_ok [OF assms(1)])
  then obtain p where "action_part K a = Inr p" "concat p = wire_action K a"
    by (auto simp: rbind_eq_Inr)
  ultimately show ?case by simp
qed simp

lemma serializeActions_ok:
  assumes "uint_codecs K" "list_all amounts_ok as"
  shows "serializeActions K as = Inr (concat (map (wire_action K) as))"
  using action_parts_concat [OF assms] by (auto simp: serializeActions_def)

lemma serializeActions_is_ok:
  assumes "uint_codecs K"
  shows "is_ok (serializeActions K as) \<longleftrightarrow> list_all amounts_ok as"
proof
  assume "is_ok (serializeActions K as)"
  then have "as = [] \<or> is_ok (rmap (action_part K) as)"
    by (auto simp: serializeActions_def is_ok_iff rbind_eq_Inr split: if_splits)
  moreover have "is_ok (rmap (action_part K) as) \<Longrightarrow> list_all amounts_ok as"
    by (induction as)
      (auto simp: is_ok_iff rbind_eq_Inr simp flip: action_part_is_ok [OF assms])
  ultimately show "list_all amounts_ok as" by auto
qed (simp add: serializeActions_ok [OF assms])

section \<open>The program reads the SDK's bytes\<close>

definition view_of :: "kit \<Rightarrow> nat \<Rightarrow> session_action \<Rightarrow> action_view" where
  "view_of K cursor a = \<lparr>av_type = kind_of a, av_expires = expiry_of a mod 2 ^ 64,
     av_offset = cursor + ACTION_HEADER_SIZE, av_len = length (action_bytes K a)\<rparr>"

fun views_of :: "kit \<Rightarrow> nat \<Rightarrow> session_action list \<Rightarrow> action_view list" where
  "views_of K cursor [] = []"
| "views_of K cursor (a # as) = view_of K cursor a # views_of K (cursor + length (wire_action K a)) as"

text \<open>The keys an action carries are addresses.\<close>

definition action_wf :: "kit \<Rightarrow> session_action \<Rightarrow> bool" where
  "action_wf K a = (amounts_ok a \<and> (case key_of a of Some k \<Rightarrow> k_isAddress K k | None \<Rightarrow> True))"

lemma length_wire_action [wire]: "length (wire_action K a) = ACTION_HEADER_SIZE + length (action_bytes K a)"
  by (simp add: wire_action_def ACTION_HEADER_SIZE_def)

lemma length_action_bytes:
  "address_codec K \<Longrightarrow> action_wf K a \<Longrightarrow> length (action_bytes K a) = expected_data_size (kind_of a)"
  by (cases a) (auto simp: action_bytes_def action_wf_def encAddr_length)

lemma expected_data_size_le: "expected_data_size t \<le> 64"
  by (cases t) auto

lemma ActionType_roundtrip: "ActionType_from_u8 (word_of_int (SessionActionType a)) = Inr (kind_of a)"
  by (cases a) (simp_all add: ActionType_from_u8_def)

lemma wire_action_fields:
  assumes buf: "buf = pre @ wire_action K a @ post"
    and len: "length (action_bytes K a) < 65536"
  shows "buf ! length pre = word_of_int (SessionActionType a)"
    and "le_val (u8_slice buf (length pre + 1) (length pre + 3)) = int (length (action_bytes K a))"
    and "le_val (u8_slice buf (length pre + 3) (length pre + 11)) = expiry_of a mod 2 ^ 64"
    and "u8_slice buf (length pre + 11) (length pre + 11 + length (action_bytes K a)) = action_bytes K a"
proof -
  let ?t = "word_of_int (SessionActionType a) :: byte"
  let ?l = "le_bytes 2 (int (length (action_bytes K a)))" and ?e = "le_bytes 8 (expiry_of a)"
  have b1: "buf = (pre @ [?t]) @ ?l @ (?e @ action_bytes K a @ post)"
    and b2: "buf = (pre @ [?t] @ ?l) @ ?e @ (action_bytes K a @ post)"
    and b3: "buf = (pre @ [?t] @ ?l @ ?e) @ action_bytes K a @ post"
    by (simp_all add: buf wire_action_def)
  show "buf ! length pre = ?t" by (simp add: buf wire_action_def)
  have "u8_slice buf (length pre + 1) (length pre + 3) = ?l"
    unfolding b1 by (rule u8_slice_append_exact) simp_all
  then show "le_val (u8_slice buf (length pre + 1) (length pre + 3)) = int (length (action_bytes K a))"
    using len by (simp add: le_val_le_bytes)
  have "u8_slice buf (length pre + 3) (length pre + 11) = ?e"
    unfolding b2 by (rule u8_slice_append_exact) simp_all
  then show "le_val (u8_slice buf (length pre + 3) (length pre + 11)) = expiry_of a mod 2 ^ 64"
    by (simp add: le_val_le_bytes)
  show "u8_slice buf (length pre + 11) (length pre + 11 + length (action_bytes K a)) = action_bytes K a"
    unfolding b3 by (rule u8_slice_append_exact) simp_all
qed

lemma parse_step:
  assumes "address_codec K" "action_wf K a" and buf: "buf = pre @ wire_action K a @ post"
  shows "parse_actions_from buf (length pre) acts =
    (if length acts < MAX_ACTIONS
     then parse_actions_from buf (length pre + length (wire_action K a)) (acts @ [view_of K (length pre) a])
     else Inl (AuthError ''ActionBufferInvalid''))"
proof -
  have len: "length (action_bytes K a) < 65536"
    using length_action_bytes [OF assms(1,2)] expected_data_size_le [of "kind_of a"] by linarith
  have sz: "length pre < length buf" "\<not> length pre + (11 + length (action_bytes K a)) > length buf"
      "\<not> length pre + 11 > length buf"
    by (simp_all add: buf length_wire_action ACTION_HEADER_SIZE_def)
  note f = wire_action_fields(1,2,3) [OF buf len]
  show ?thesis
    by (subst parse_actions_from.simps)
      (simp add: sz f(1,3) f(2) [simplified One_nat_def add_Suc_right add_0_right] ActionType_roundtrip ACTION_HEADER_SIZE_def Let_def view_of_def length_wire_action
        not_less_eq add.assoc)
qed

lemma parse_views:
  assumes "address_codec K" "list_all (action_wf K) as" "length acts \<le> MAX_ACTIONS"
    and "buf = pre @ concat (map (wire_action K) as)"
  shows "parse_actions_from buf (length pre) acts =
    (if length acts + length as \<le> MAX_ACTIONS then Inr (acts @ views_of K (length pre) as)
     else Inl (AuthError ''ActionBufferInvalid''))"
  using assms(2-)
proof (induction as arbitrary: pre acts)
  case Nil
  then show ?case by (simp add: parse_actions_from.simps)
next
  case (Cons a as)
  have step: "parse_actions_from buf (length pre) acts =
    (if length acts < MAX_ACTIONS
     then parse_actions_from buf (length pre + length (wire_action K a)) (acts @ [view_of K (length pre) a])
     else Inl (AuthError ''ActionBufferInvalid''))"
    using Cons.prems by (intro parse_step [OF assms(1), of _ _ _ "concat (map (wire_action K) as)"]) simp_all
  show ?case
    using Cons.prems Cons.IH [of "acts @ [view_of K (length pre) a]" "pre @ wire_action K a"]
    unfolding step by simp
qed

text \<open>What the program sees of a view: its type, its expiry and its data bytes.\<close>

definition view_triple :: "bytes \<Rightarrow> action_view \<Rightarrow> action_type \<times> int \<times> bytes" where
  "view_triple buf v = (av_type v, av_expires v, view_data buf v)"

definition action_triple :: "kit \<Rightarrow> session_action \<Rightarrow> action_type \<times> int \<times> bytes" where
  "action_triple K a = (kind_of a, expiry_of a mod 2 ^ 64, action_bytes K a)"

lemma views_triples:
  assumes "address_codec K" "list_all (action_wf K) as" "buf = pre @ concat (map (wire_action K) as)"
  shows "map (view_triple buf) (views_of K (length pre) as) = map (action_triple K) as"
  using assms(2-)
proof (induction as arbitrary: pre)
  case (Cons a as)
  have b: "buf = pre @ wire_action K a @ concat (map (wire_action K) as)" using Cons.prems by simp
  have len: "length (action_bytes K a) < 65536"
    using length_action_bytes [OF assms(1), of a] expected_data_size_le [of "kind_of a"] Cons.prems
    by (simp add: order_le_less_trans)
  have "view_triple buf (view_of K (length pre) a) = action_triple K a"
    using wire_action_fields(4) [OF b len]
    by (simp add: view_triple_def action_triple_def view_of_def view_data_def ACTION_HEADER_SIZE_def)
  then show ?case
    using Cons.prems Cons.IH [of "pre @ wire_action K a"] by simp
qed simp

lemma views_lengths:
  "map av_len (views_of K c as) = map (\<lambda>a. length (action_bytes K a)) as"
  by (induction as arbitrary: c) (simp_all add: view_of_def)

text \<open>
  C2. Policies survive the wire. When every amount fits u64 and every mint or program is an
  address, \<open>serializeActions\<close> succeeds, and the program's \<open>parse_actions\<close> over its output returns
  one view per action, in order, with the action's type, its expiry (absent as 0, cut to u64) and
  exactly its data bytes; more than 16 actions are refused.
\<close>

theorem serializeActions_parse:
  assumes "address_codec K" "uint_codecs K" "list_all (action_wf K) as"
  shows "\<exists>buf. serializeActions K as = Inr buf \<and>
    (if length as \<le> MAX_ACTIONS
     then \<exists>vs. parse_actions buf = Inr vs \<and> map (view_triple buf) vs = map (action_triple K) as
     else parse_actions buf = Inl (AuthError ''ActionBufferInvalid''))"
proof -
  let ?buf = "concat (map (wire_action K) as)"
  have "list_all amounts_ok as" using assms(3) by (auto simp: list_all_iff action_wf_def)
  then have "serializeActions K as = Inr ?buf" by (rule serializeActions_ok [OF assms(2)])
  then show ?thesis
    using parse_views [OF assms(1,3), of "[]" ?buf "[]"] views_triples [OF assms(1,3), of ?buf "[]"]
    by (intro exI [of _ ?buf]) (simp add: parse_actions_def)
qed

theorem serializeActions_parse_witness:
  "\<exists>buf. serializeActions sample_kit
      [SolRecurringLimit 500 216000 (Some 9), TokenLimit (replicate 32 CHR ''m'') 7 None] = Inr buf \<and>
    (\<exists>vs. parse_actions buf = Inr vs \<and> map (view_triple buf) vs =
      map (action_triple sample_kit)
        [SolRecurringLimit 500 216000 (Some 9), TokenLimit (replicate 32 CHR ''m'') 7 None])"
  using serializeActions_parse [OF sample_kit_laws(1,2),
    of "[SolRecurringLimit 500 216000 (Some 9), TokenLimit (replicate 32 CHR ''m'') 7 None]"]
  by (simp add: action_wf_def amounts_ok_def u64_ok_def MAX_ACTIONS_def sample_kit_def)

section \<open>Which policies the program accepts\<close>

text \<open>The rules a policy has to meet, read on the actions themselves.\<close>

definition sol_kinds :: "action_type list" where
  "sol_kinds = [ASolLimit, ASolRecurringLimit, ASolMaxPerTx]"

definition token_kinds :: "action_type list" where
  "token_kinds = [ATokenLimit, ATokenRecurringLimit, ATokenMaxPerTx]"

fun window_of :: "session_action \<Rightarrow> int option" where
  "window_of (SolRecurringLimit _ w _) = Some w"
| "window_of (TokenRecurringLimit _ _ w _) = Some w"
| "window_of _ = None"

definition policy_ok :: "session_action list \<Rightarrow> bool" where
  "policy_ok as \<longleftrightarrow>
     length as \<le> MAX_ACTIONS
     \<and> \<not> (AProgramWhitelist \<in> kind_of ` set as \<and> AProgramBlacklist \<in> kind_of ` set as)
     \<and> distinct (filter (\<lambda>t. t \<in> set sol_kinds) (map kind_of as))
     \<and> (\<forall>t \<in> set token_kinds. distinct (map key_of (filter (\<lambda>a. kind_of a = t) as)))
     \<and> (\<forall>a \<in> set as. window_of a \<noteq> Some 0)"

lemma any_pair_equal_iff: "any_pair_equal xs \<longleftrightarrow> \<not> distinct xs"
  by (induction xs) (auto simp: list_ex_iff)

lemma sol_repeated_gen:
  "sol_repeated l r m ts \<longleftrightarrow>
    \<not> distinct ((if l then [ASolLimit] else []) @ (if r then [ASolRecurringLimit] else [])
      @ (if m then [ASolMaxPerTx] else []) @ filter (\<lambda>t. t \<in> set sol_kinds) ts)"
proof (induction ts arbitrary: l r m)
  case (Cons t ts)
  then show ?case by (cases t) (auto simp: sol_kinds_def)
qed auto

lemma sol_repeated_iff:
  "sol_repeated False False False ts \<longleftrightarrow> \<not> distinct (filter (\<lambda>t. t \<in> set sol_kinds) ts)"
  by (simp add: sol_repeated_gen)

text \<open>The two scans that read the data, as functions of what a view shows.\<close>

definition recurring_bad_data :: "action_type \<times> int \<times> bytes \<Rightarrow> bool" where
  "recurring_bad_data = (\<lambda>(ty, _, data).
      (ty = ASolRecurringLimit \<and>
        (le_val (u8_slice data 8 16) \<noteq> 0 \<or> le_val (u8_slice data 16 24) = 0
         \<or> le_val (u8_slice data 24 32) \<noteq> 0)) \<or>
      (ty = ATokenRecurringLimit \<and>
        (le_val (u8_slice data 40 48) \<noteq> 0 \<or> le_val (u8_slice data 48 56) = 0
         \<or> le_val (u8_slice data 56 64) \<noteq> 0)))"

lemma recurring_bad_triple: "recurring_bad buf v = recurring_bad_data (view_triple buf v)"
  by (simp add: recurring_bad_def recurring_bad_data_def view_triple_def Let_def)

lemma u64_fields:
  assumes "length pre = i" "j = i + 8"
  shows "le_val (u8_slice (pre @ le_bytes 8 v @ post) i j) = v mod 2 ^ 64"
  using assms u8_slice_append_exact [of pre i "le_bytes 8 v" j post] by (simp add: le_val_le_bytes)

lemma recurring_fields:
  assumes "length k = n" "data = k @ concat (map (le_bytes 8) [l, 0, w, 0])"
  shows "le_val (u8_slice data (n + 8) (n + 16)) = 0"
    and "le_val (u8_slice data (n + 16) (n + 24)) = w mod 2 ^ 64"
    and "le_val (u8_slice data (n + 24) (n + 32)) = 0"
proof -
  have d1: "data = (k @ le_bytes 8 l) @ le_bytes 8 0 @ (le_bytes 8 w @ le_bytes 8 0)"
    and d2: "data = (k @ le_bytes 8 l @ le_bytes 8 0) @ le_bytes 8 w @ le_bytes 8 0"
    and d3: "data = (k @ le_bytes 8 l @ le_bytes 8 0 @ le_bytes 8 w) @ le_bytes 8 0 @ []"
    using assms(2) by simp_all
  show "le_val (u8_slice data (n + 8) (n + 16)) = 0"
    unfolding d1 by (subst u64_fields) (simp_all add: assms(1))
  show "le_val (u8_slice data (n + 16) (n + 24)) = w mod 2 ^ 64"
    unfolding d2 by (subst u64_fields) (simp_all add: assms(1))
  show "le_val (u8_slice data (n + 24) (n + 32)) = 0"
    unfolding d3 by (subst u64_fields) (simp_all add: assms(1))
qed

lemma recurring_bad_action:
  assumes "address_codec K" "action_wf K a"
  shows "recurring_bad_data (action_triple K a) \<longleftrightarrow> window_of a = Some 0"
proof (cases a)
  case (SolRecurringLimit l w e)
  then have "w mod 2 ^ 64 = w" using assms(2) by (simp add: action_wf_def amounts_ok_def u64_ok_def)
  then show ?thesis
    using SolRecurringLimit recurring_fields [of "[]" 0 "action_bytes K a" l w]
    by (simp add: recurring_bad_data_def action_triple_def action_bytes_def)
next
  case (TokenRecurringLimit mi l w e)
  then have "w mod 2 ^ 64 = w" "length (k_encAddr K mi) = 32"
    using assms by (simp_all add: action_wf_def amounts_ok_def u64_ok_def encAddr_length)
  then show ?thesis
    using TokenRecurringLimit recurring_fields [of "k_encAddr K mi" 32 "action_bytes K a" l w]
    by (simp add: recurring_bad_data_def action_triple_def action_bytes_def)
qed (simp_all add: recurring_bad_data_def action_triple_def)

lemma mint_slice:
  "32 \<le> av_len v \<Longrightarrow> u8_slice buf (av_offset v) (av_offset v + 32) = take 32 (view_data buf v)"
  by (simp add: u8_slice_def view_data_def min_def)

lemma action_mint:
  assumes "address_codec K" "action_wf K a" "kind_of a \<in> set token_kinds"
  shows "take 32 (action_bytes K a) = k_encAddr K (the (key_of a))" "k_isAddress K (the (key_of a))"
    "key_of a \<noteq> None"
  using assms by (cases a; simp add: action_bytes_def token_kinds_def action_wf_def encAddr_length)+

lemma mint_repeated_iff:
  assumes K: "address_codec K" and wf: "list_all (action_wf K) as"
    and tr: "map (view_triple buf) vs = map (action_triple K) as"
    and len: "map av_len vs = map (\<lambda>a. length (action_bytes K a)) as"
    and ty: "ty \<in> set token_kinds"
  shows "mint_repeated buf vs ty \<longleftrightarrow> \<not> distinct (map key_of (filter (\<lambda>a. kind_of a = ty) as))"
proof -
  let ?as = "filter (\<lambda>a. kind_of a = ty) as" and ?vs = "filter (\<lambda>v. av_type v = ty) vs"
  have all: "list_all2 (\<lambda>v a. view_triple buf v = action_triple K a \<and> av_len v = length (action_bytes K a)) vs as"
    using tr len by (auto simp: list_all2_conv_all_nth list_eq_iff_nth_eq)
  have "map (\<lambda>a. u8_slice buf (av_offset a) (av_offset a + 32)) ?vs = map (\<lambda>a. k_encAddr K (the (key_of a))) ?as"
    using all wf
  proof (induction rule: list_all2_induct)
    case (Cons v vs a as)
    have t: "av_type v = kind_of a" "view_data buf v = action_bytes K a"
      using Cons.hyps by (simp_all add: view_triple_def action_triple_def)
    have "kind_of a = ty \<Longrightarrow> u8_slice buf (av_offset v) (av_offset v + 32) = k_encAddr K (the (key_of a))"
    proof -
      assume k: "kind_of a = ty"
      have "32 \<le> av_len v"
        using Cons length_action_bytes [OF K, of a] ty k by (auto simp: token_kinds_def)
      then show ?thesis
        using Cons.prems t action_mint(1) [OF K, of a] ty k by (simp add: mint_slice)
    qed
    then show ?case using Cons t by simp
  qed simp
  then have "mint_repeated buf vs ty \<longleftrightarrow> \<not> distinct (map (\<lambda>a. k_encAddr K (the (key_of a))) ?as)"
    by (simp only: mint_repeated_def any_pair_equal_iff)
  moreover have "inj_on (\<lambda>a. k_encAddr K (the a)) (key_of ` set ?as)"
  proof (rule inj_onI)
    fix x y
    assume "x \<in> key_of ` set ?as" "y \<in> key_of ` set ?as"
      and eq: "k_encAddr K (the x) = k_encAddr K (the y)"
    then have "k_isAddress K (the x)" "k_isAddress K (the y)" "x \<noteq> None" "y \<noteq> None"
      using wf ty action_mint(2,3) [OF K] by (auto simp: list_all_iff)
    with eq show "x = y" using encAddr_inject [OF K] by (metis option.expand)
  qed
  ultimately show ?thesis
    using distinct_map [of "\<lambda>a. k_encAddr K (the a)" "map key_of ?as"] by (simp add: comp_def)
qed

lemma validate_views:
  assumes K: "address_codec K" and wf: "list_all (action_wf K) as"
    and buf: "buf = concat (map (wire_action K) as)" "as \<noteq> []" "length as \<le> MAX_ACTIONS"
  shows "is_ok (validate_actions_buffer buf) \<longleftrightarrow> policy_ok as"
proof -
  define vs where "vs = views_of K 0 as"
  have p: "parse_actions buf = Inr vs"
    using parse_views [OF K wf, of "[]" buf "[]"] buf by (simp add: parse_actions_def vs_def)
  have tr: "map (view_triple buf) vs = map (action_triple K) as"
    using views_triples [OF K wf, of buf "[]"] buf by (simp add: vs_def)
  have len: "map av_len vs = map (\<lambda>a. length (action_bytes K a)) as"
    by (simp add: vs_def views_lengths)
  have ne: "buf \<noteq> []" using buf by (cases as) (simp_all add: wire_action_def)
  have ty: "map av_type vs = map kind_of as"
    using arg_cong [OF tr, of "map fst"] by (simp add: view_triple_def action_triple_def comp_def)
  have lens: "\<not> list_ex (\<lambda>v. av_len v \<noteq> expected_data_size (av_type v)) vs"
  proof -
    have "map (\<lambda>v. expected_data_size (av_type v)) vs = map av_len vs"
      using arg_cong [OF ty, of "map expected_data_size"] wf length_action_bytes [OF K]
      by (simp add: len comp_def list_all_iff)
    then show ?thesis by (simp add: list_ex_iff)
  qed
  have ex_ty: "list_ex (\<lambda>v. av_type v = t) vs \<longleftrightarrow> t \<in> kind_of ` set as" for t
  proof -
    have "list_ex (\<lambda>v. av_type v = t) vs \<longleftrightarrow> t \<in> set (map av_type vs)" by (auto simp: list_ex_iff)
    then show ?thesis by (simp only: ty set_map)
  qed
  have rec: "list_ex (recurring_bad buf) vs \<longleftrightarrow> (\<exists>a \<in> set as. window_of a = Some 0)"
  proof -
    have "list_ex (recurring_bad buf) vs \<longleftrightarrow> list_ex recurring_bad_data (map (view_triple buf) vs)"
      by (simp add: list_ex_iff recurring_bad_triple)
    also have "\<dots> \<longleftrightarrow> (\<exists>a \<in> set as. window_of a = Some 0)"
      using wf recurring_bad_action [OF K] by (auto simp: tr list_ex_iff list_all_iff)
    finally show ?thesis .
  qed
  have mints: "list_ex (mint_repeated buf vs) [ATokenLimit, ATokenRecurringLimit, ATokenMaxPerTx] \<longleftrightarrow>
      \<not> (\<forall>t \<in> set token_kinds. distinct (map key_of (filter (\<lambda>a. kind_of a = t) as)))"
    using mint_repeated_iff [OF K wf tr len] by (simp add: token_kinds_def)
  show ?thesis
    unfolding validate_actions_buffer_def p policy_ok_def ty ex_ty rec mints sol_repeated_iff
      rbind_Inr if_not_P [OF ne] if_not_P [OF lens] is_ok_guard
    using buf(3) by (simp only: is_ok_simps) blast
qed

text \<open>
  C3. The program accepts a serialized policy exactly when the policy meets the rules: at most 16
  actions, no whitelist beside a blacklist, each SOL limit kind at most once, each token limit kind
  at most once per mint, no recurring window of 0. In particular the fields the SDK fills in itself
  (\<open>spentInWindow\<close>, \<open>lastReset\<close>) and the lengths it computes are never the reason for a refusal.
\<close>

theorem serialized_policy_accepted_iff:
  assumes "address_codec K" "uint_codecs K" "list_all (action_wf K) as"
    and "serializeActions K as = Inr buf"
  shows "is_ok (validate_actions_buffer buf) \<longleftrightarrow> policy_ok as"
proof -
  have ok: "list_all amounts_ok as" using assms(3) by (auto simp: list_all_iff action_wf_def)
  have buf: "buf = concat (map (wire_action K) as)"
    using assms(4) by (simp add: serializeActions_ok [OF assms(2) ok])
  consider "as = []" | "length as > MAX_ACTIONS" | "as \<noteq> []" "length as \<le> MAX_ACTIONS" by linarith
  then show ?thesis
  proof cases
    case 1
    then show ?thesis using buf by (simp add: validate_actions_buffer_def policy_ok_def)
  next
    case 2
    then have "parse_actions buf = Inl (AuthError ''ActionBufferInvalid'')"
      using parse_views [OF assms(1,3), of "[]" buf "[]"] buf by (simp add: parse_actions_def)
    moreover have "buf \<noteq> []" using 2 buf by (cases as) (simp_all add: wire_action_def)
    ultimately show ?thesis using 2 by (simp add: validate_actions_buffer_def policy_ok_def)
  next
    case 3
    then show ?thesis using validate_views [OF assms(1,3) buf] by simp
  qed
qed

theorem serialized_policy_accepted_iff_witness:
  "\<exists>buf. serializeActions sample_kit [SolLimit 5 None, SolLimit 6 None] = Inr buf
    \<and> \<not> is_ok (validate_actions_buffer buf)"
proof -
  let ?as = "[SolLimit 5 None, SolLimit 6 None]"
  have wf: "list_all (action_wf sample_kit) ?as" "list_all amounts_ok ?as"
    by (simp_all add: action_wf_def amounts_ok_def u64_ok_def)
  from serialized_policy_accepted_iff [OF sample_kit_laws(1,2) wf(1) serializeActions_ok [OF sample_kit_laws(2) wf(2)]]
  have "\<not> is_ok (validate_actions_buffer (concat (map (wire_action sample_kit) ?as)))"
    by (simp add: policy_ok_def sol_kinds_def)
  then show ?thesis using serializeActions_ok [OF sample_kit_laws(2) wf(2)] by blast
qed

end
