(* ===== verification/Packing.thy ===== *)
theory Packing
  imports Prelude
begin

text \<open>
  Compact instructions: \<open>transactions/packing.ts\<close>, with kit's account metas and instructions, and
  the program's readers of the same bytes (\<open>from_bytes\<close>, \<open>decompress\<close>,
  \<open>parse_compact_instructions_ref_with_len\<close> and \<open>accounts_hash_preimage\<close> of
  \<open>program/src/compact.rs\<close>). The packer and the reader form a wire codec; the two hashes an
  authority signs bind what the inner calls do.
\<close>

section \<open>Account metas and instructions\<close>

text \<open>kit's \<open>AccountRole\<close> enum: bit 0 is writable, bit 1 is signer.\<close>

datatype account_role = READONLY | WRITABLE | READONLY_SIGNER | WRITABLE_SIGNER

fun role_num :: "account_role \<Rightarrow> int" where
  "role_num READONLY = 0"
| "role_num WRITABLE = 1"
| "role_num READONLY_SIGNER = 2"
| "role_num WRITABLE_SIGNER = 3"

definition role_signer :: "account_role \<Rightarrow> bool" where
  "role_signer r = (r = READONLY_SIGNER \<or> r = WRITABLE_SIGNER)"

definition role_writable :: "account_role \<Rightarrow> bool" where
  "role_writable r = (r = WRITABLE \<or> r = WRITABLE_SIGNER)"

record account_meta =
  am_address :: address
  am_role :: account_role

text \<open>kit's \<open>Instruction\<close>: the accounts and the data are optional.\<close>

record instruction =
  ix_program :: address
  ix_accounts :: "account_meta list option"
  ix_data :: "bytes option"

section \<open>The SDK side\<close>

record compact_instruction =
  programIdIndex :: int
  accountIndexes :: "int list"
  ci_data :: bytes

definition ACCOUNT_INDEX_MASK :: int where "ACCOUNT_INDEX_MASK = 0x7f"
definition ACCOUNT_INDEX_FORWARD_SIGNER :: int where "ACCOUNT_INDEX_FORWARD_SIGNER = 0x80"
definition MAX_ACCOUNT_INDEX :: int where "MAX_ACCOUNT_INDEX = ACCOUNT_INDEX_MASK"

definition encodeAccountIndex :: "int \<Rightarrow> bool \<Rightarrow> int result" where
  "encodeAccountIndex index forwardSigner =
     (if index < 0 \<or> index > MAX_ACCOUNT_INDEX
      then Inl (Error ''account index exceeds the ceiling imposed by the forward-signer flag bit'')
      else Inr (if forwardSigner then index OR ACCOUNT_INDEX_FORWARD_SIGNER else index))"

definition decodeAccountIndex :: "int \<Rightarrow> int \<times> bool" where
  "decodeAccountIndex b = (b AND ACCOUNT_INDEX_MASK, b AND ACCOUNT_INDEX_FORWARD_SIGNER \<noteq> 0)"

definition accountFlags :: "bool \<Rightarrow> bool \<Rightarrow> int" where
  "accountFlags isSigner isWritable = (if isSigner then 1 else 0) OR (if isWritable then 2 else 0)"

definition compact_parts :: "compact_instruction \<Rightarrow> bytes list" where
  "compact_parts ix =
     [u8_of [programIdIndex ix, int (length (accountIndexes ix))],
      u8_of (accountIndexes ix),
      u8_of [int (length (ci_data ix)) AND 0xff, drop_bit 8 (int (length (ci_data ix))) AND 0xff],
      ci_data ix]"

definition packCompactInstructions :: "compact_instruction list \<Rightarrow> bytes result" where
  "packCompactInstructions instructions =
     concatBytes (u8_of [int (length instructions)] # concat (map compact_parts instructions))"

definition flagsOf :: "account_meta \<Rightarrow> int" where
  "flagsOf meta = accountFlags (role_num (am_role meta) AND 2 \<noteq> 0) (role_num (am_role meta) AND 1 \<noteq> 0)"

definition meta_at :: "account_meta list \<Rightarrow> int \<Rightarrow> account_meta option" where
  "meta_at metas i = (if 0 \<le> i \<and> i < int (length metas) then Some (metas ! nat i) else None)"

definition hash_part :: "kit \<Rightarrow> account_meta list \<Rightarrow> int \<Rightarrow> bytes list result" where
  "hash_part K metas b =
     (case meta_at metas (fst (decodeAccountIndex b)) of
        None \<Rightarrow> Inl (Error ''compact ix references an account that was not supplied'')
      | Some a \<Rightarrow> Inr [k_encAddr K (am_address a), u8_of [flagsOf a]])"

definition computeAccountsHash ::
  "kit \<Rightarrow> account_meta list \<Rightarrow> compact_instruction list \<Rightarrow> bytes result" where
  "computeAccountsHash K metas instructions =
     rbind (rmap (\<lambda>ix. rbind (hash_part K metas (programIdIndex ix)) (\<lambda>p.
                       rbind (rmap (hash_part K metas) (accountIndexes ix)) (\<lambda>as.
                       Inr (concat (p # as))))) instructions) (\<lambda>parts.
     rbind (concatBytes (concat parts)) (\<lambda>data. Inr (k_sha256 K data)))"

definition computeInstructionsHash :: "kit \<Rightarrow> compact_instruction list \<Rightarrow> bytes result" where
  "computeInstructionsHash K instructions =
     rbind (packCompactInstructions instructions) (\<lambda>packed. Inr (k_sha256 K packed))"

section \<open>The program side\<close>

record compact_ref =
  cr_program :: byte
  cr_accounts :: bytes
  cr_data :: bytes

text \<open>An \<open>AccountInfo\<close> as the runtime presents it: the key and the two privileges.\<close>

record account_info =
  ai_key :: bytes
  ai_signer :: bool
  ai_writable :: bool

definition from_bytes :: "bytes \<Rightarrow> (compact_ref \<times> bytes) result" where
  "from_bytes bs =
     (if length bs < 4 then Inl (ProgramError ''InvalidInstructionData'')
      else if bs ! 0 > 0x7f then Inl (ProgramError ''InvalidInstructionData'')
      else let num_accounts = unat (bs ! 1) in
        if length bs < 2 + num_accounts + 2 then Inl (ProgramError ''InvalidInstructionData'')
        else let data_len_offset = 2 + num_accounts;
                 data_len = nat (le_val (u8_slice bs data_len_offset (data_len_offset + 2)));
                 data_start = data_len_offset + 2
          in if length bs < data_start + data_len then Inl (ProgramError ''InvalidInstructionData'')
             else Inr (\<lparr>cr_program = bs ! 0, cr_accounts = u8_slice bs 2 (2 + num_accounts),
                        cr_data = u8_slice bs data_start (data_start + data_len)\<rparr>,
                       drop (data_start + data_len) bs))"

definition MAX_COMPACT_INSTRUCTIONS :: nat where "MAX_COMPACT_INSTRUCTIONS = 16"

definition parse_compact_instructions_ref_with_len :: "bytes \<Rightarrow> (compact_ref list \<times> nat) result" where
  "parse_compact_instructions_ref_with_len bs =
     (if bs = [] then Inl (ProgramError ''InvalidInstructionData'')
      else let num = unat (hd bs) in
        if num > MAX_COMPACT_INSTRUCTIONS then Inl (ProgramError ''InvalidInstructionData'')
        else rbind (read_n from_bytes num (tl bs)) (\<lambda>(ixs, remaining).
             Inr (ixs, length bs - length remaining)))"

definition decode_account_index :: "byte \<Rightarrow> nat \<times> bool" where
  "decode_account_index b = (unat (b AND 0x7f), b AND 0x80 \<noteq> 0)"

definition account_flags :: "bool \<Rightarrow> bool \<Rightarrow> byte" where
  "account_flags is_signer is_writable =
     (if is_signer then 1 else 0) OR push_bit 1 (if is_writable then 1 else 0)"

record decompressed =
  de_program :: bytes
  de_accounts :: "(account_info \<times> bool) list"
  de_data :: bytes

definition decompress :: "account_info list \<Rightarrow> compact_ref \<Rightarrow> decompressed result" where
  "decompress infos ix =
     (if unat (cr_program ix) \<ge> length infos then Inl (ProgramError ''InvalidInstructionData'')
      else rbind (rmap (\<lambda>b. let (index, forward) = decode_account_index b in
                    if index \<ge> length infos then Inl (ProgramError ''InvalidInstructionData'')
                    else Inr (infos ! index, forward)) (cr_accounts ix)) (\<lambda>accounts.
           Inr \<lparr>de_program = ai_key (infos ! unat (cr_program ix)), de_accounts = accounts,
                de_data = cr_data ix\<rparr>))"

definition push_account :: "account_info list \<Rightarrow> nat \<Rightarrow> bytes result" where
  "push_account infos idx =
     (if idx < length infos
      then Inr (ai_key (infos ! idx) @ [account_flags (ai_signer (infos ! idx)) (ai_writable (infos ! idx))])
      else Inl (ProgramError ''InvalidInstructionData''))"

definition accounts_hash_preimage :: "account_info list \<Rightarrow> compact_ref list \<Rightarrow> bytes result" where
  "accounts_hash_preimage infos ixs =
     rbind (rmap (\<lambda>ix. rmap (\<lambda>b. push_account infos (fst (decode_account_index b)))
                         (cr_program ix # cr_accounts ix)) ixs)
       (\<lambda>parts. Inr (concat (concat parts)))"

section \<open>The index byte\<close>

lemma and_mask7: "b AND 0x7f = b mod (128 :: int)"
proof -
  have "b AND 0x7f = take_bit 7 b" by (simp add: take_bit_eq_mask mask_eq_exp_minus_1)
  then show ?thesis by (simp add: take_bit_eq_mod)
qed

lemma low7_or_128:
  assumes "0 \<le> i" "i \<le> (127 :: int)"
  shows "i OR 128 = i + 128"
proof -
  have "i AND 128 = 0"
  proof -
    have "take_bit 7 i = i" using assms by (simp add: take_bit_int_eq_self)
    then have "i AND 128 = take_bit 7 i AND 128" by simp
    also have "\<dots> = 0" by (simp add: take_bit_eq_mask and.assoc mask_eq_exp_minus_1)
    finally show ?thesis .
  qed
  then show ?thesis by (simp add: plus_and_or [of i 128, symmetric])
qed

lemma bit7: "b AND 128 \<noteq> 0 \<longleftrightarrow> bit b 7" for b :: int
  using and_exp_eq_0_iff_not_bit [of b 7] by simp

lemma bit7_small: "0 \<le> i \<Longrightarrow> i \<le> 127 \<Longrightarrow> \<not> bit i 7" for i :: int
  by (simp add: bit_iff_odd)

lemma encode_decode_index:
  assumes "encodeAccountIndex i fwd = Inr b"
  shows "decodeAccountIndex b = (i, fwd)" "0 \<le> i" "i \<le> 127" "0 \<le> b" "b < 256"
proof -
  show i: "0 \<le> i" "i \<le> 127"
    using assms by (auto simp: encodeAccountIndex_def MAX_ACCOUNT_INDEX_def ACCOUNT_INDEX_MASK_def split: if_splits)
  have b: "b = (if fwd then i + 128 else i)"
    using assms i low7_or_128 [OF i]
    by (auto simp: encodeAccountIndex_def ACCOUNT_INDEX_FORWARD_SIGNER_def split: if_splits)
  show "0 \<le> b" "b < 256" using b i by auto
  have "b mod 128 = i" using b i by auto
  moreover have "b div 128 = (if fwd then 1 else 0)" using b i by (auto simp: div_add_self2)
  then have "bit b 7 \<longleftrightarrow> fwd" by (simp add: bit_iff_odd)
  ultimately show "decodeAccountIndex b = (i, fwd)"
    by (simp add: decodeAccountIndex_def ACCOUNT_INDEX_MASK_def ACCOUNT_INDEX_FORWARD_SIGNER_def
        and_mask7 bit7)
qed

lemma encodeAccountIndex_ok:
  "0 \<le> i \<Longrightarrow> i \<le> 127 \<Longrightarrow> \<exists>b. encodeAccountIndex i fwd = Inr b"
  by (simp add: encodeAccountIndex_def MAX_ACCOUNT_INDEX_def ACCOUNT_INDEX_MASK_def)

text \<open>The program decodes the byte the SDK's number is stored as to the SDK's own decoding.\<close>

lemma decode_agree:
  "decode_account_index (word_of_int b) = (nat (fst (decodeAccountIndex b)), snd (decodeAccountIndex b))"
proof -
  have "unat (word_of_int b AND 0x7f :: byte) = nat (uint (word_of_int b AND 0x7f :: byte))"
    by simp
  also have "uint (word_of_int b AND 0x7f :: byte) = b mod 256 AND 0x7f"
    by (simp add: uint_and)
  also have "\<dots> = b AND 0x7f" using mod_mod_cancel [of 128 256 b] by (simp only: and_mask7) simp
  finally have "unat (word_of_int b AND 0x7f :: byte) = nat (b AND 0x7f)" .
  moreover have "(word_of_int b AND 0x80 :: byte) = 0 \<longleftrightarrow> b AND 0x80 = 0"
  proof -
    have "(word_of_int b AND 0x80 :: byte) \<noteq> 0 \<longleftrightarrow> bit (word_of_int b :: byte) 7"
      using and_exp_eq_0_iff_not_bit [of "word_of_int b :: byte" 7] by simp
    also have "\<dots> \<longleftrightarrow> bit b 7" by (simp add: bit_word_of_int_iff)
    finally show ?thesis using bit7 by blast
  qed
  ultimately show ?thesis
    by (simp add: decode_account_index_def decodeAccountIndex_def ACCOUNT_INDEX_MASK_def
        ACCOUNT_INDEX_FORWARD_SIGNER_def)
qed

lemma accountFlags_agree: "word_of_int (accountFlags s w) = account_flags s w"
  by (cases s; cases w) (simp_all add: accountFlags_def account_flags_def)

section \<open>The wire codec\<close>

definition to_ref :: "compact_instruction \<Rightarrow> compact_ref" where
  "to_ref ix = \<lparr>cr_program = word_of_int (programIdIndex ix), cr_accounts = u8_of (accountIndexes ix),
     cr_data = ci_data ix\<rparr>"

definition enc_compact :: "compact_ref \<Rightarrow> bytes" where
  "enc_compact r = cr_program r # word_of_int (int (length (cr_accounts r))) # cr_accounts r
     @ le_bytes 2 (int (length (cr_data r))) @ cr_data r"

definition ref_wf :: "compact_ref \<Rightarrow> bool" where
  "ref_wf r \<longleftrightarrow> cr_program r \<le> 0x7f \<and> length (cr_accounts r) < 256 \<and> length (cr_data r) < 65536"

text \<open>What fits the format: an index byte of a program, byte-counted accounts, u16-counted data.\<close>

definition compact_wf :: "compact_instruction \<Rightarrow> bool" where
  "compact_wf ix \<longleftrightarrow> 0 \<le> programIdIndex ix \<and> programIdIndex ix \<le> 127
     \<and> length (accountIndexes ix) < 256 \<and> length (ci_data ix) < 65536"

lemma compact_parts_eq: "concat (compact_parts ix) = enc_compact (to_ref ix)"
  using u16_two_bytes [of "int (length (ci_data ix))"]
  by (simp add: compact_parts_def enc_compact_def to_ref_def)

lemma packCompactInstructions_eq:
  "packCompactInstructions ixs =
    Inr (word_of_int (int (length ixs)) # concat (map (enc_compact \<circ> to_ref) ixs))"
proof -
  have "concat (concat (map compact_parts ixs)) = concat (map (enc_compact \<circ> to_ref) ixs)"
    by (induction ixs) (simp_all add: compact_parts_eq)
  then show ?thesis by (simp add: packCompactInstructions_def)
qed

lemma to_ref_wf: "compact_wf ix \<Longrightarrow> ref_wf (to_ref ix)"
  by (simp add: compact_wf_def ref_wf_def to_ref_def word_le_def)

lemma from_bytes_enc:
  assumes "ref_wf r"
  shows "from_bytes (enc_compact r @ rest) = Inr (r, rest)"
proof -
  let ?n = "length (cr_accounts r)" and ?d = "length (cr_data r)"
  let ?bs = "enc_compact r @ rest"
  let ?h = "[cr_program r, word_of_int (int ?n)]" and ?l = "le_bytes 2 (int ?d)"
  have b0: "?bs ! 0 = cr_program r" and b1: "?bs ! 1 = word_of_int (int ?n)"
    and len: "length ?bs = 4 + ?n + ?d + length rest"
    by (simp_all add: enc_compact_def)
  have n: "unat (?bs ! 1) = ?n"
    using assms by (simp add: b1 ref_wf_def unat_of_nat del: One_nat_def)
  have e1: "?bs = ?h @ cr_accounts r @ (?l @ cr_data r @ rest)"
    and e2: "?bs = (?h @ cr_accounts r) @ ?l @ (cr_data r @ rest)"
    and e3: "?bs = (?h @ cr_accounts r @ ?l) @ cr_data r @ rest"
    by (simp_all add: enc_compact_def)
  have s1: "u8_slice ?bs 2 (2 + ?n) = cr_accounts r"
    unfolding e1 by (rule u8_slice_append_exact) simp_all
  have "u8_slice ?bs (2 + ?n) (2 + ?n + 2) = ?l"
    unfolding e2 by (rule u8_slice_append_exact) simp_all
  then have s2: "nat (le_val (u8_slice ?bs (2 + ?n) (2 + ?n + 2))) = ?d"
    using assms by (simp add: le_val_le_bytes ref_wf_def)
  have s3: "u8_slice ?bs (2 + ?n + 2) (2 + ?n + 2 + ?d) = cr_data r"
    unfolding e3 by (rule u8_slice_append_exact) simp_all
  have s4: "drop (2 + ?n + 2 + ?d) ?bs = rest"
    unfolding e3 by simp
  have g: "\<not> length ?bs < 4" "\<not> ?bs ! 0 > 0x7f" "\<not> length ?bs < 2 + ?n + 2"
    "\<not> length ?bs < 2 + ?n + 2 + ?d"
    using assms unfolding len b0 ref_wf_def by (simp_all add: not_less)
  show ?thesis
    unfolding from_bytes_def Let_def n s1 s2 s3 s4 using g by (simp add: b0 del: One_nat_def)
qed

interpretation compact_codec: wire_codec enc_compact from_bytes ref_wf
  by unfold_locales (rule from_bytes_enc)

lemma pack_parse:
  assumes "list_all compact_wf ixs" "length ixs \<le> MAX_COMPACT_INSTRUCTIONS"
    and "packCompactInstructions ixs = Inr packed"
  shows "parse_compact_instructions_ref_with_len (packed @ rest) = Inr (map to_ref ixs, length packed)"
proof -
  have p: "packed = word_of_int (int (length ixs)) # concat (map enc_compact (map to_ref ixs))"
    using assms(3) by (simp add: packCompactInstructions_eq)
  have n: "unat (word_of_nat (length ixs) :: byte) = length ixs"
    using assms(2) by (simp add: MAX_COMPACT_INSTRUCTIONS_def unat_byte_of_nat)
  have "list_all ref_wf (map to_ref ixs)"
    using assms(1) by (auto simp: list_all_iff to_ref_wf)
  from compact_codec.read_n_enc [OF this, of rest]
  show ?thesis
    using assms(2) by (simp add: parse_compact_instructions_ref_with_len_def p n Let_def)
qed

text \<open>
  C4. Packed instructions are read back. Over at most 16 compact instructions that fit the format,
  \<open>packCompactInstructions\<close> succeeds, and the program, given those bytes followed by any auth
  payload, parses exactly those instructions and reports the packed length as consumed, so the auth
  payload it splits off is exactly what followed. More than 16 are refused by the program.
\<close>

theorem packCompactInstructions_parse:
  assumes "list_all compact_wf ixs" "length ixs < 256"
  shows "\<exists>packed. packCompactInstructions ixs = Inr packed \<and>
    parse_compact_instructions_ref_with_len (packed @ authPayload) =
      (if length ixs \<le> MAX_COMPACT_INSTRUCTIONS then Inr (map to_ref ixs, length packed)
       else Inl (ProgramError ''InvalidInstructionData''))"
proof (cases "length ixs \<le> MAX_COMPACT_INSTRUCTIONS")
  case True
  then show ?thesis using pack_parse [OF assms(1) True packCompactInstructions_eq]
    by (simp add: packCompactInstructions_eq)
next
  case False
  moreover have "unat (word_of_nat (length ixs) :: byte) = length ixs"
    using assms(2) by (rule unat_byte_of_nat)
  ultimately show ?thesis
    by (simp add: packCompactInstructions_eq parse_compact_instructions_ref_with_len_def Let_def)
qed

theorem packCompactInstructions_parse_witness:
  "parse_compact_instructions_ref_with_len ([1, 5, 2, 0x83, 1, 1, 0, 42] @ [9, 9]) =
    Inr ([\<lparr>cr_program = 5, cr_accounts = [0x83, 1], cr_data = [42]\<rparr>], 8)"
  using packCompactInstructions_parse
    [of "[\<lparr>programIdIndex = 5, accountIndexes = [0x83, 1], ci_data = [42]\<rparr>]" "[9, 9]"]
  by (simp add: compact_wf_def packCompactInstructions_eq enc_compact_def to_ref_def
      MAX_COMPACT_INSTRUCTIONS_def le_bytes_2)

section \<open>The accounts hash\<close>

definition info_of :: "kit \<Rightarrow> account_meta \<Rightarrow> account_info" where
  "info_of K m = \<lparr>ai_key = k_encAddr K (am_address m), ai_signer = role_signer (am_role m),
     ai_writable = role_writable (am_role m)\<rparr>"

lemma flagsOf_agree: "word_of_int (flagsOf m) = account_flags (role_signer (am_role m)) (role_writable (am_role m))"
  by (cases "am_role m")
    (simp_all add: flagsOf_def role_signer_def role_writable_def flip: accountFlags_agree)

lemma decoded_nonneg: "0 \<le> fst (decodeAccountIndex b)"
  by (simp add: decodeAccountIndex_def ACCOUNT_INDEX_MASK_def)

lemma hash_part_agree:
  "hash_part K metas b =
    (case push_account (map (info_of K) metas) (fst (decode_account_index (word_of_int b))) of
       Inl _ \<Rightarrow> Inl (Error ''compact ix references an account that was not supplied'')
     | Inr e \<Rightarrow> Inr [butlast e, [last e]])"
  using decoded_nonneg [of b]
  by (auto simp: hash_part_def meta_at_def push_account_def decode_agree info_of_def flagsOf_agree
      nat_less_iff split: option.splits)

definition ref_bytes :: "compact_ref list \<Rightarrow> bytes" where
  "ref_bytes ixs = concat (map (\<lambda>ix. cr_program ix # cr_accounts ix) ixs)"

definition push_byte :: "account_info list \<Rightarrow> byte \<Rightarrow> bytes result" where
  "push_byte infos b = push_account infos (fst (decode_account_index b))"

lemma accounts_hash_preimage_flat:
  "accounts_hash_preimage infos ixs = rbind (rmap (push_byte infos) (ref_bytes ixs)) (\<lambda>es. Inr (concat es))"
  unfolding accounts_hash_preimage_def ref_bytes_def rmap_concat rbind_assoc rbind_Inr
  by (simp add: push_byte_def [abs_def])

lemma hash_entry:
  "push_byte (map (info_of K) metas) (word_of_int b) = Inr e \<Longrightarrow>
    \<exists>p. hash_part K metas b = Inr p \<and> concat p = e"
  by (auto simp: hash_part_agree push_byte_def push_account_def split: if_splits)

lemma hash_entry_fails:
  "push_byte (map (info_of K) metas) (word_of_int b) = Inl x \<Longrightarrow> \<not> is_ok (hash_part K metas b)"
  by (auto simp: hash_part_agree push_byte_def)

lemma hash_entries:
  "rmap (push_byte (map (info_of K) metas)) (map word_of_int bs) = Inr es \<Longrightarrow>
    \<exists>ps. rmap (hash_part K metas) bs = Inr ps \<and> concat (concat ps) = concat es"
proof (induction bs arbitrary: es)
  case (Cons b bs)
  then obtain e es' where e: "push_byte (map (info_of K) metas) (word_of_int b) = Inr e"
    and es': "rmap (push_byte (map (info_of K) metas)) (map word_of_int bs) = Inr es'" "es = e # es'"
    by (auto simp: rbind_eq_Inr)
  from hash_entry [OF e] Cons.IH [OF es'(1)] show ?case using es'(2) by auto
qed simp

lemma hash_entries_ok:
  "is_ok (rmap (hash_part K metas) bs) \<Longrightarrow>
    is_ok (rmap (push_byte (map (info_of K) metas)) (map word_of_int bs))"
proof (induction bs)
  case (Cons b bs)
  then have "is_ok (hash_part K metas b)" "is_ok (rmap (hash_part K metas) bs)"
    by (auto simp: is_ok_iff rbind_eq_Inr)
  then show ?case
    using Cons.IH hash_entry_fails [of K metas b]
    by (cases "push_byte (map (info_of K) metas) (word_of_int b)") (auto simp: is_ok_iff)
qed simp

definition index_bytes :: "compact_instruction list \<Rightarrow> int list" where
  "index_bytes ixs = concat (map (\<lambda>ix. programIdIndex ix # accountIndexes ix) ixs)"

lemma ref_bytes_to_ref: "ref_bytes (map to_ref ixs) = map word_of_int (index_bytes ixs)"
  by (simp add: ref_bytes_def index_bytes_def to_ref_def u8_of_def map_concat comp_def)

lemma computeAccountsHash_flat:
  "computeAccountsHash K metas ixs =
    rbind (rmap (hash_part K metas) (index_bytes ixs)) (\<lambda>ps. Inr (k_sha256 K (concat (concat ps))))"
proof -
  have "rbind (rmap (\<lambda>ix. rbind (hash_part K metas (programIdIndex ix)) (\<lambda>p.
           rbind (rmap (hash_part K metas) (accountIndexes ix)) (\<lambda>as. Inr (concat (p # as))))) ixs)
         (\<lambda>parts. Inr (concat parts))
      = rbind (rmap (hash_part K metas) (index_bytes ixs)) (\<lambda>ps. Inr (concat ps))"
    by (induction ixs) (simp_all add: index_bytes_def rmap_append rbind_assoc rbind_def split: sum.splits)
  from arg_cong [OF this, of "\<lambda>m. rbind m (\<lambda>parts. Inr (k_sha256 K (concat parts)))"]
  show ?thesis by (simp add: computeAccountsHash_def rbind_assoc)
qed

lemma computeAccountsHash_eq:
  "computeAccountsHash K metas ixs =
    (case accounts_hash_preimage (map (info_of K) metas) (map to_ref ixs) of
       Inr preimage \<Rightarrow> Inr (k_sha256 K preimage)
     | Inl _ \<Rightarrow> Inl (Error ''compact ix references an account that was not supplied''))"
proof (cases "rmap (push_byte (map (info_of K) metas)) (map word_of_int (index_bytes ixs))")
  case (Inr es)
  then show ?thesis
    using hash_entries [OF Inr]
    by (auto simp: computeAccountsHash_flat accounts_hash_preimage_flat ref_bytes_to_ref)
next
  case (Inl e)
  then have "\<not> is_ok (rmap (hash_part K metas) (index_bytes ixs))"
    using hash_entries_ok [of K metas "index_bytes ixs"] by auto
  moreover have "rmap (hash_part K metas) bs = Inl x \<Longrightarrow>
      x = Error ''compact ix references an account that was not supplied''" for bs x
    by (induction bs) (auto simp: hash_part_def rbind_def split: sum.splits option.splits)
  ultimately show ?thesis
    using Inl by (cases "rmap (hash_part K metas) (index_bytes ixs)")
      (auto simp: computeAccountsHash_flat accounts_hash_preimage_flat ref_bytes_to_ref)
qed

text \<open>
  C5. The SDK hashes what the program hashes. With the runtime's accounts being the metas the SDK
  was given (same keys, same privileges, in order), \<open>computeAccountsHash\<close> is the SHA-256 of the
  program's own preimage, and it throws exactly when the program refuses an index; no assumption on
  the index bytes, the forward-signer bit included.
\<close>

theorem computeAccountsHash_matches_program:
  "computeAccountsHash K metas ixs =
    (case accounts_hash_preimage (map (info_of K) metas) (map to_ref ixs) of
       Inr preimage \<Rightarrow> Inr (k_sha256 K preimage)
     | Inl _ \<Rightarrow> Inl (Error ''compact ix references an account that was not supplied''))"
  by (rule computeAccountsHash_eq)

section \<open>What the two hashes bind\<close>

lemma account_flags_inject: "account_flags s w = account_flags s' w' \<longleftrightarrow> s = s' \<and> w = w'"
  by (cases s; cases w; cases s'; cases w') (simp_all add: account_flags_def)

lemma push_byte_length:
  "list_all (\<lambda>i. length (ai_key i) = 32) infos \<Longrightarrow> push_byte infos b = Inr e \<Longrightarrow> length e = 33"
  by (auto simp: push_byte_def push_account_def list_all_length split: if_splits)

lemma push_byte_same:
  assumes "list_all (\<lambda>i. length (ai_key i) = 32) infos" "list_all (\<lambda>i. length (ai_key i) = 32) infos'"
    and "push_byte infos b = Inr e" "push_byte infos' b = Inr e"
  defines "i \<equiv> fst (decode_account_index b)"
  shows "i < length infos" "i < length infos'" "infos ! i = infos' ! i"
proof -
  show i: "i < length infos" "i < length infos'"
    using assms(3,4) by (auto simp: push_byte_def push_account_def i_def split: if_splits)
  have "ai_key (infos ! i) @ [account_flags (ai_signer (infos ! i)) (ai_writable (infos ! i))]
      = ai_key (infos' ! i) @ [account_flags (ai_signer (infos' ! i)) (ai_writable (infos' ! i))]"
    using assms(3,4) i by (simp add: push_byte_def push_account_def i_def)
  then show "infos ! i = infos' ! i" by (simp add: account_flags_inject)
qed

lemma same_preimage_same_accounts:
  assumes len: "list_all (\<lambda>i. length (ai_key i) = 32) infos" "list_all (\<lambda>i. length (ai_key i) = 32) infos'"
    and "accounts_hash_preimage infos ixs = Inr q" "accounts_hash_preimage infos' ixs = Inr q"
    and b: "b \<in> set (ref_bytes ixs)"
  defines "i \<equiv> fst (decode_account_index b)"
  shows "i < length infos \<and> i < length infos' \<and> infos ! i = infos' ! i"
proof -
  obtain es es' where es: "list_all2 (\<lambda>b e. push_byte infos b = Inr e) (ref_bytes ixs) es"
    "list_all2 (\<lambda>b e. push_byte infos' b = Inr e) (ref_bytes ixs) es'" "concat es = concat es'"
    using assms(3,4) by (auto simp: accounts_hash_preimage_flat rbind_eq_Inr rmap_Inr_iff)
  have l: "length es = length es'" using es(1,2) by (metis list_all2_lengthD)
  have "length (es ! k) = 33 \<and> length (es' ! k) = 33" if "k < length es" for k
    using that es(1,2) l push_byte_length [OF len(1)] push_byte_length [OF len(2)]
    by (auto simp: list_all2_conv_all_nth)
  then have eq: "es = es'"
    by (intro concat_injective [OF es(3) l]) (auto simp: set_zip l)
  obtain k where k: "k < length (ref_bytes ixs)" "b = ref_bytes ixs ! k"
    using b by (auto simp: in_set_conv_nth)
  then have "push_byte infos b = Inr (es ! k)" "push_byte infos' b = Inr (es ! k)"
    using es(1,2) eq by (auto simp: list_all2_conv_all_nth)
  from push_byte_same [OF len this] show ?thesis by (simp add: i_def)
qed

lemma decode_program_index: "b \<le> 0x7f \<Longrightarrow> fst (decode_account_index b) = unat b"
proof -
  assume "b \<le> 0x7f"
  then have "uint b AND 0x7f = uint b" by (simp add: and_mask7 word_le_def)
  then have "b AND 0x7f = b" by (simp add: word_uint_eq_iff uint_and)
  then show ?thesis by (simp add: decode_account_index_def)
qed

lemma decompress_cong:
  assumes "cr_program ix \<le> 0x7f"
    and "\<And>b. b \<in> set (cr_program ix # cr_accounts ix) \<Longrightarrow>
      fst (decode_account_index b) < length infos \<and> fst (decode_account_index b) < length infos'
      \<and> infos ! fst (decode_account_index b) = infos' ! fst (decode_account_index b)"
  shows "decompress infos ix = decompress infos' ix"
proof -
  have "rmap (\<lambda>b. let (index, forward) = decode_account_index b in
            if index \<ge> length infos then Inl (ProgramError ''InvalidInstructionData'')
            else Inr (infos ! index, forward)) (cr_accounts ix)
      = rmap (\<lambda>b. let (index, forward) = decode_account_index b in
            if index \<ge> length infos' then Inl (ProgramError ''InvalidInstructionData'')
            else Inr (infos' ! index, forward)) (cr_accounts ix)"
  proof (rule rmap_cong [OF refl])
    fix b assume "b \<in> set (cr_accounts ix)"
    then show "(let (index, forward) = decode_account_index b in
            if index \<ge> length infos then Inl (ProgramError ''InvalidInstructionData'')
            else Inr (infos ! index, forward)) =
        (let (index, forward) = decode_account_index b in
            if index \<ge> length infos' then Inl (ProgramError ''InvalidInstructionData'')
            else Inr (infos' ! index, forward))"
      using assms(2) [of b] by (simp add: split_def Let_def)
  qed
  moreover have "unat (cr_program ix) < length infos \<and> unat (cr_program ix) < length infos'
      \<and> infos ! unat (cr_program ix) = infos' ! unat (cr_program ix)"
    using assms(2) [of "cr_program ix"] by (simp add: decode_program_index [OF assms(1)])
  ultimately show ?thesis by (simp add: decompress_def)
qed

text \<open>
  C6. The two hashes a deferred authorization signs determine the inner calls. If two sets of
  compact instructions over two account lists give the same instructions hash and the same
  accounts hash, and SHA-256 does not collide on the four preimages involved, then the program
  decompresses them to the same calls: same programs, same account keys with the same signer and
  writable privileges, same forwarded signatures, same data.
\<close>

theorem hashes_bind_inner_calls:
  assumes K: "address_codec K"
    and addr: "list_all (\<lambda>m. k_isAddress K (am_address m)) metas"
      "list_all (\<lambda>m. k_isAddress K (am_address m)) metas'"
    and wf: "list_all compact_wf ixs" "list_all compact_wf ixs'" "length ixs < 256" "length ixs' < 256"
    and ih: "computeInstructionsHash K ixs = computeInstructionsHash K ixs'"
    and ah: "computeAccountsHash K metas ixs = Inr h" "computeAccountsHash K metas' ixs' = Inr h"
    and no_collision: "inj_on (k_sha256 K)
      {x. packCompactInstructions ixs = Inr x \<or> packCompactInstructions ixs' = Inr x
        \<or> accounts_hash_preimage (map (info_of K) metas) (map to_ref ixs) = Inr x
        \<or> accounts_hash_preimage (map (info_of K) metas') (map to_ref ixs') = Inr x}"
  shows "rmap (decompress (map (info_of K) metas)) (map to_ref ixs)
    = rmap (decompress (map (info_of K) metas')) (map to_ref ixs')"
proof -
  let ?i = "map (info_of K) metas" and ?i' = "map (info_of K) metas'"
  let ?p = "word_of_int (int (length ixs)) # concat (map enc_compact (map to_ref ixs))"
  let ?p' = "word_of_int (int (length ixs')) # concat (map enc_compact (map to_ref ixs'))"
  have p: "packCompactInstructions ixs = Inr ?p" "packCompactInstructions ixs' = Inr ?p'"
    by (simp_all add: packCompactInstructions_eq)
  obtain q q' where q: "accounts_hash_preimage ?i (map to_ref ixs) = Inr q"
    "accounts_hash_preimage ?i' (map to_ref ixs') = Inr q'" "k_sha256 K q = k_sha256 K q'"
    using ah unfolding computeAccountsHash_eq by (auto split: sum.splits)
  have "k_sha256 K ?p = k_sha256 K ?p'" using ih by (simp only: computeInstructionsHash_def p rbind_Inr sum.inject)
  then have "?p = ?p'" using no_collision p by (auto dest!: inj_onD simp del: list.map_comp map_map)
  have qq: "q = q'" using no_collision q by (auto dest!: inj_onD)
  have "(word_of_nat (length ixs) :: byte) = word_of_nat (length ixs')" using \<open>?p = ?p'\<close> by simp
  then have l: "length ixs = length ixs'"
    using unat_byte_of_nat [OF wf(3)] unat_byte_of_nat [OF wf(4)] by metis
  have rwf: "list_all ref_wf (map to_ref ixs)" "list_all ref_wf (map to_ref ixs')"
    using wf(1,2) by (auto simp: list_all_iff to_ref_wf)
  have r: "map to_ref ixs = map to_ref ixs'"
    using compact_codec.concat_enc_inject [OF rwf, of "[]" "[]"] l \<open>?p = ?p'\<close> by simp
  have k32: "list_all (\<lambda>i. length (ai_key i) = 32) ?i" "list_all (\<lambda>i. length (ai_key i) = 32) ?i'"
    using addr by (auto simp: list_all_iff info_of_def encAddr_length [OF K])
  have "decompress ?i ix = decompress ?i' ix" if ix: "ix \<in> set (map to_ref ixs)" for ix
  proof (rule decompress_cong)
    show "cr_program ix \<le> 0x7f" using rwf(1) ix by (auto simp: list_all_iff ref_wf_def)
    fix b assume "b \<in> set (cr_program ix # cr_accounts ix)"
    then have "b \<in> set (ref_bytes (map to_ref ixs))" using ix by (auto simp: ref_bytes_def)
    then show "fst (decode_account_index b) < length ?i \<and> fst (decode_account_index b) < length ?i'
        \<and> ?i ! fst (decode_account_index b) = ?i' ! fst (decode_account_index b)"
      using same_preimage_same_accounts [OF k32 q(1)] q(2) qq r by metis
  qed
  then show ?thesis using r by (metis rmap_cong)
qed

theorem hashes_bind_inner_calls_witness:
  "let m = \<lparr>am_address = replicate 32 CHR ''a'', am_role = WRITABLE\<rparr>;
       n = \<lparr>am_address = replicate 32 CHR ''b'', am_role = READONLY\<rparr>;
       ixs = [\<lparr>programIdIndex = 0, accountIndexes = [0x80], ci_data = [7]\<rparr>]
   in rmap (decompress (map (info_of sample_kit) [m])) (map to_ref ixs)
    = rmap (decompress (map (info_of sample_kit) [m, n])) (map to_ref ixs)"
proof -
  let ?m = "\<lparr>am_address = replicate 32 CHR ''a'', am_role = WRITABLE\<rparr>"
  let ?n = "\<lparr>am_address = replicate 32 CHR ''b'', am_role = READONLY\<rparr>"
  let ?ixs = "[\<lparr>programIdIndex = 0, accountIndexes = [0x80], ci_data = [7]\<rparr>]"
  let ?e = "map of_char (replicate 32 CHR ''a'') @ [2] :: bytes"
  have e: "push_byte (map (info_of sample_kit) ms) (word_of_int b) = Inr ?e"
    if "ms = [?m] \<or> ms = [?m, ?n]" "b = 0 \<or> b = 0x80" for ms b
    using that by (auto simp: push_byte_def push_account_def decode_agree info_of_def
        decodeAccountIndex_def ACCOUNT_INDEX_MASK_def account_flags_def role_signer_def
        role_writable_def sample_kit_def)
  have q: "accounts_hash_preimage (map (info_of sample_kit) ms) (map to_ref ?ixs) = Inr (?e @ ?e)"
    if "ms = [?m] \<or> ms = [?m, ?n]" for ms
    unfolding accounts_hash_preimage_flat ref_bytes_to_ref
    using e [of ms 0] e [of ms "0x80"] that by (simp add: index_bytes_def)
  have ah: "computeAccountsHash sample_kit [?m] ?ixs = Inr (k_sha256 sample_kit (?e @ ?e))"
    "computeAccountsHash sample_kit [?m, ?n] ?ixs = Inr (k_sha256 sample_kit (?e @ ?e))"
    unfolding computeAccountsHash_eq using q [of "[?m]"] q [of "[?m, ?n]"] by simp_all
  have pk: "packCompactInstructions ?ixs = Inr [1, 0, 1, 0x80, 1, 0, 7]"
    by (simp add: packCompactInstructions_eq enc_compact_def to_ref_def le_bytes_2)
  have "hd (k_sha256 sample_kit [1, 0, 1, 0x80, 1, 0, 7]) \<noteq> hd (k_sha256 sample_kit (?e @ ?e))"
    by (simp add: sample_kit_def)
  then have nc: "inj_on (k_sha256 sample_kit) {[1, 0, 1, 0x80, 1, 0, 7], ?e @ ?e}"
    by fastforce
  have "rmap (decompress (map (info_of sample_kit) [?m])) (map to_ref ?ixs)
    = rmap (decompress (map (info_of sample_kit) [?m, ?n])) (map to_ref ?ixs)"
  proof (rule hashes_bind_inner_calls [OF sample_kit_laws(1) _ _ _ _ _ _ refl ah])
    show "inj_on (k_sha256 sample_kit)
      {x. packCompactInstructions ?ixs = Inr x \<or> packCompactInstructions ?ixs = Inr x
        \<or> accounts_hash_preimage (map (info_of sample_kit) [?m]) (map to_ref ?ixs) = Inr x
        \<or> accounts_hash_preimage (map (info_of sample_kit) [?m, ?n]) (map to_ref ?ixs) = Inr x}"
      by (rule inj_on_subset [OF nc]) (use q [of "[?m]"] q [of "[?m, ?n]"] pk in auto)
  qed (simp_all add: sample_kit_def compact_wf_def)
  then show ?thesis by (simp only: Let_def)
qed

end
