(* ===== verification/Builders.thy ===== *)
theory Builders
  imports Pdas Packing
begin

text \<open>
  \<open>instructions/builders.ts\<close>: one definition per instruction builder, with the fields of its
  parameter object as arguments in the source's order (an optional field is an \<open>option\<close>). An empty
  \<open>rpId\<close> counts as absent, as its truthiness test has it; an empty \<open>Uint8Array\<close> does not.
\<close>

section \<open>Discriminators, types and roles\<close>

definition DISC_CREATE_WALLET :: int where "DISC_CREATE_WALLET = 0"
definition DISC_ADD_AUTHORITY :: int where "DISC_ADD_AUTHORITY = 1"
definition DISC_REMOVE_AUTHORITY :: int where "DISC_REMOVE_AUTHORITY = 2"
definition DISC_TRANSFER_OWNERSHIP :: int where "DISC_TRANSFER_OWNERSHIP = 3"
definition DISC_EXECUTE :: int where "DISC_EXECUTE = 4"
definition DISC_CREATE_SESSION :: int where "DISC_CREATE_SESSION = 5"
definition DISC_AUTHORIZE :: int where "DISC_AUTHORIZE = 6"
definition DISC_EXECUTE_DEFERRED :: int where "DISC_EXECUTE_DEFERRED = 7"
definition DISC_RECLAIM_DEFERRED :: int where "DISC_RECLAIM_DEFERRED = 8"
definition DISC_REVOKE_SESSION :: int where "DISC_REVOKE_SESSION = 9"
definition DISC_INITIALIZE_PROTOCOL :: int where "DISC_INITIALIZE_PROTOCOL = 10"
definition DISC_UPDATE_PROTOCOL :: int where "DISC_UPDATE_PROTOCOL = 11"
definition DISC_REGISTER_PAYER :: int where "DISC_REGISTER_PAYER = 12"
definition DISC_WITHDRAW_TREASURY :: int where "DISC_WITHDRAW_TREASURY = 13"
definition DISC_INITIALIZE_TREASURY_SHARD :: int where "DISC_INITIALIZE_TREASURY_SHARD = 14"
definition DISC_MIGRATE_WALLET :: int where "DISC_MIGRATE_WALLET = 17"
definition DISC_CLOSE_EXPIRED_SESSION :: int where "DISC_CLOSE_EXPIRED_SESSION = 18"

definition AUTH_TYPE_ED25519 :: int where "AUTH_TYPE_ED25519 = 0"
definition AUTH_TYPE_SECP256R1 :: int where "AUTH_TYPE_SECP256R1 = 1"

definition ROLE_OWNER :: int where "ROLE_OWNER = 0"
definition ROLE_ADMIN :: int where "ROLE_ADMIN = 1"
definition ROLE_SPENDER :: int where "ROLE_SPENDER = 2"

lemmas disc_defs = DISC_CREATE_WALLET_def DISC_ADD_AUTHORITY_def DISC_REMOVE_AUTHORITY_def
  DISC_TRANSFER_OWNERSHIP_def DISC_EXECUTE_def DISC_CREATE_SESSION_def DISC_AUTHORIZE_def
  DISC_EXECUTE_DEFERRED_def DISC_RECLAIM_DEFERRED_def DISC_REVOKE_SESSION_def
  DISC_INITIALIZE_PROTOCOL_def DISC_UPDATE_PROTOCOL_def DISC_REGISTER_PAYER_def
  DISC_WITHDRAW_TREASURY_def DISC_INITIALIZE_TREASURY_SHARD_def DISC_MIGRATE_WALLET_def
  DISC_CLOSE_EXPIRED_SESSION_def

section \<open>Byte and meta helpers\<close>

definition u16LE :: "int \<Rightarrow> bytes" where
  "u16LE v = u8_put (u8_put (u8_zeros 2) 0 (v AND 0xff)) 1 (drop_bit 8 v AND 0xff)"

definition u64LE :: "int \<Rightarrow> bytes result" where
  "u64LE v = dv_set 8 (u8_zeros 8) 0 v"

definition i64LE :: "int \<Rightarrow> bytes result" where
  "i64LE v = dv_set 8 (u8_zeros 8) 0 v"

definition meta :: "address \<Rightarrow> account_role \<Rightarrow> account_meta" where
  "meta a role = \<lparr>am_address = a, am_role = role\<rparr>"

abbreviation RW :: account_role where "RW \<equiv> WRITABLE"
abbreviation RO :: account_role where "RO \<equiv> READONLY"
abbreviation SIGNER_RO :: account_role where "SIGNER_RO \<equiv> READONLY_SIGNER"
abbreviation SIGNER_RW :: account_role where "SIGNER_RW \<equiv> WRITABLE_SIGNER"

record protocol_fee_accounts =
  protocolConfigPda :: address
  feeRecordPda :: address
  treasuryShardPda :: address

definition appendProtocolFeeAccounts ::
  "account_meta list \<Rightarrow> address \<Rightarrow> address \<Rightarrow> address \<Rightarrow> account_meta list" where
  "appendProtocolFeeAccounts accounts config record shard =
     accounts @ [meta config RO, meta record RW, meta shard RW, meta SYSTEM_PROGRAM_ADDRESS RO]"

definition append_fee :: "protocol_fee_accounts option \<Rightarrow> account_meta list \<Rightarrow> account_meta list" where
  "append_fee protocolFee accounts = (case protocolFee of None \<Rightarrow> accounts
     | Some f \<Rightarrow> appendProtocolFeeAccounts accounts (protocolConfigPda f) (feeRecordPda f) (treasuryShardPda f))"

text \<open>The three fragments several builders repeat: an optional part, the key material, the authorizer.\<close>

definition opt_part :: "bytes option \<Rightarrow> bytes list" where
  "opt_part p = (case p of Some b \<Rightarrow> [b] | None \<Rightarrow> [])"

definition key_parts :: "int \<Rightarrow> bytes option \<Rightarrow> string option \<Rightarrow> bytes list" where
  "key_parts authType secp256r1Pubkey rpId =
     (case secp256r1Pubkey of
        Some pk \<Rightarrow> if authType = AUTH_TYPE_SECP256R1 then
            pk # (case rpId of
                    Some r \<Rightarrow> if r \<noteq> [] then [u8_of [int (length (utf8 r))], utf8 r] else []
                  | None \<Rightarrow> [])
          else []
      | None \<Rightarrow> [])"

definition append_authorizer ::
  "address option \<Rightarrow> bytes option \<Rightarrow> account_meta list \<Rightarrow> account_meta list" where
  "append_authorizer authorizerSigner authPayload accounts =
     (case authorizerSigner of
        Some s \<Rightarrow> accounts @ [meta s SIGNER_RO]
      | None \<Rightarrow> (case authPayload of
          Some _ \<Rightarrow> accounts @ [meta SYSVAR_INSTRUCTIONS_ADDRESS RO]
        | None \<Rightarrow> accounts))"

definition make_ix :: "address \<Rightarrow> account_meta list \<Rightarrow> bytes list \<Rightarrow> instruction result" where
  "make_ix programId accounts parts =
     rbind (concatBytes parts) (\<lambda>data.
     Inr \<lparr>ix_program = programId, ix_accounts = Some accounts, ix_data = Some data\<rparr>)"

section \<open>Wallet, authority and session instructions\<close>

definition createCreateWalletIx ::
  "address \<Rightarrow> address \<Rightarrow> address \<Rightarrow> address \<Rightarrow> bytes \<Rightarrow> int \<Rightarrow> int \<Rightarrow> bytes \<Rightarrow> bytes option \<Rightarrow> string option
   \<Rightarrow> protocol_fee_accounts option \<Rightarrow> address \<Rightarrow> instruction result" where
  "createCreateWalletIx payer walletPda vaultPda authorityPda userSeed authType authBump
      credentialOrPubkey secp256r1Pubkey rpId protocolFee programId =
     make_ix programId
       (append_fee protocolFee
         [meta payer SIGNER_RW, meta walletPda RW, meta vaultPda RW, meta authorityPda RW,
          meta SYSTEM_PROGRAM_ADDRESS RO, meta SYSVAR_RENT_ADDRESS RO])
       ([u8_of [DISC_CREATE_WALLET], userSeed, u8_of [authType, authBump], u8_zeros 6,
         credentialOrPubkey] @ key_parts authType secp256r1Pubkey rpId)"

definition createAddAuthorityIx ::
  "address \<Rightarrow> address \<Rightarrow> address \<Rightarrow> address \<Rightarrow> int \<Rightarrow> int \<Rightarrow> bytes \<Rightarrow> bytes option \<Rightarrow> string option
   \<Rightarrow> bytes option \<Rightarrow> bytes option \<Rightarrow> address option \<Rightarrow> address \<Rightarrow> instruction result" where
  "createAddAuthorityIx payer walletPda adminAuthorityPda newAuthorityPda newType newRole
      credentialOrPubkey secp256r1Pubkey rpId policy authPayload authorizerSigner programId =
     (let policy = (case policy of Some p \<Rightarrow> p | None \<Rightarrow> [])
      in rbind (dv_set 2 (u8_zeros 2) 0 (int (length policy))) (\<lambda>policyLen.
         make_ix programId
           (append_authorizer authorizerSigner authPayload
             [meta payer SIGNER_RO, meta walletPda RW, meta adminAuthorityPda RW,
              meta newAuthorityPda RW, meta SYSTEM_PROGRAM_ADDRESS RO, meta SYSVAR_RENT_ADDRESS RO])
           ([u8_of [DISC_ADD_AUTHORITY], u8_of [newType, newRole], u8_zeros 6, credentialOrPubkey]
            @ key_parts newType secp256r1Pubkey rpId @ [policyLen, policy] @ opt_part authPayload)))"

definition createRemoveAuthorityIx ::
  "address \<Rightarrow> address \<Rightarrow> address \<Rightarrow> address \<Rightarrow> address \<Rightarrow> bytes option \<Rightarrow> address option \<Rightarrow> address
   \<Rightarrow> instruction result" where
  "createRemoveAuthorityIx payer walletPda adminAuthorityPda targetAuthorityPda refundDestination
      authPayload authorizerSigner programId =
     make_ix programId
       (append_authorizer authorizerSigner authPayload
         [meta payer SIGNER_RO, meta walletPda RW, meta adminAuthorityPda RW,
          meta targetAuthorityPda RW, meta refundDestination RW])
       (u8_of [DISC_REMOVE_AUTHORITY] # opt_part authPayload)"

definition createTransferOwnershipIx ::
  "address \<Rightarrow> address \<Rightarrow> address \<Rightarrow> address \<Rightarrow> address \<Rightarrow> int \<Rightarrow> bytes \<Rightarrow> bytes option \<Rightarrow> string option
   \<Rightarrow> bytes option \<Rightarrow> address option \<Rightarrow> address \<Rightarrow> instruction result" where
  "createTransferOwnershipIx payer walletPda currentOwnerAuthorityPda newOwnerAuthorityPda
      refundDestination newType credentialOrPubkey secp256r1Pubkey rpId authPayload authorizerSigner
      programId =
     make_ix programId
       (append_authorizer authorizerSigner authPayload
         [meta payer SIGNER_RO, meta walletPda RO, meta currentOwnerAuthorityPda RW,
          meta newOwnerAuthorityPda RW, meta refundDestination RW, meta SYSTEM_PROGRAM_ADDRESS RO,
          meta SYSVAR_RENT_ADDRESS RO])
       ([u8_of [DISC_TRANSFER_OWNERSHIP], u8_of [newType], credentialOrPubkey]
        @ key_parts newType secp256r1Pubkey rpId @ opt_part authPayload)"

definition createExecuteIx ::
  "address \<Rightarrow> address \<Rightarrow> address \<Rightarrow> address \<Rightarrow> bytes \<Rightarrow> bytes option \<Rightarrow> address option
   \<Rightarrow> account_meta list option \<Rightarrow> protocol_fee_accounts option \<Rightarrow> address \<Rightarrow> instruction result" where
  "createExecuteIx payer walletPda authorityPda vaultPda packedInstructions authPayload
      authorizerSigner remainingAccounts protocolFee programId =
     make_ix programId
       (append_fee protocolFee
         (append_authorizer authorizerSigner authPayload
           [meta payer SIGNER_RW, meta walletPda RO, meta authorityPda RW, meta vaultPda RW]
          @ (case remainingAccounts of Some as \<Rightarrow> as | None \<Rightarrow> [])))
       ([u8_of [DISC_EXECUTE], packedInstructions] @ opt_part authPayload)"

definition createCreateSessionIx ::
  "address \<Rightarrow> address \<Rightarrow> address \<Rightarrow> address \<Rightarrow> bytes \<Rightarrow> int \<Rightarrow> bytes option \<Rightarrow> bytes option
   \<Rightarrow> address option \<Rightarrow> address \<Rightarrow> instruction result" where
  "createCreateSessionIx payer walletPda adminAuthorityPda sessionPda sessionKey expiresAt
      actionsBuffer authPayload authorizerSigner programId =
     (let actionsBuffer = (case actionsBuffer of Some a \<Rightarrow> a | None \<Rightarrow> [])
      in rbind (i64LE expiresAt) (\<lambda>expiry.
         make_ix programId
           (append_authorizer authorizerSigner authPayload
             [meta payer SIGNER_RO, meta walletPda RO, meta adminAuthorityPda RW, meta sessionPda RW,
              meta SYSTEM_PROGRAM_ADDRESS RO, meta SYSVAR_RENT_ADDRESS RO])
           ([u8_of [DISC_CREATE_SESSION], sessionKey, expiry, u16LE (int (length actionsBuffer))]
            @ (if length actionsBuffer > 0 then [actionsBuffer] else []) @ opt_part authPayload)))"

definition createAuthorizeIx ::
  "address \<Rightarrow> address \<Rightarrow> address \<Rightarrow> address \<Rightarrow> bytes \<Rightarrow> bytes \<Rightarrow> int \<Rightarrow> bytes \<Rightarrow> address \<Rightarrow> instruction result" where
  "createAuthorizeIx payer walletPda authorityPda deferredExecPda instructionsHash accountsHash
      expiryOffset authPayload programId =
     make_ix programId
       [meta payer SIGNER_RW, meta walletPda RO, meta authorityPda RW, meta deferredExecPda RW,
        meta SYSTEM_PROGRAM_ADDRESS RO, meta SYSVAR_RENT_ADDRESS RO, meta SYSVAR_INSTRUCTIONS_ADDRESS RO]
       [u8_of [DISC_AUTHORIZE], instructionsHash, accountsHash, u16LE expiryOffset, authPayload]"

definition createExecuteDeferredIx ::
  "address \<Rightarrow> address \<Rightarrow> address \<Rightarrow> address \<Rightarrow> address \<Rightarrow> bytes \<Rightarrow> account_meta list option
   \<Rightarrow> protocol_fee_accounts option \<Rightarrow> address \<Rightarrow> instruction result" where
  "createExecuteDeferredIx payer walletPda vaultPda deferredExecPda refundDestination
      packedInstructions remainingAccounts protocolFee programId =
     make_ix programId
       (append_fee protocolFee
         ([meta payer SIGNER_RW, meta walletPda RO, meta vaultPda RW, meta deferredExecPda RW,
           meta refundDestination RW]
          @ (case remainingAccounts of Some as \<Rightarrow> as | None \<Rightarrow> [])))
       [u8_of [DISC_EXECUTE_DEFERRED], packedInstructions]"

definition createReclaimDeferredIx :: "address \<Rightarrow> address \<Rightarrow> address \<Rightarrow> address \<Rightarrow> instruction" where
  "createReclaimDeferredIx payer deferredExecPda refundDestination programId =
     \<lparr>ix_program = programId,
      ix_accounts = Some [meta payer SIGNER_RO, meta deferredExecPda RW, meta refundDestination RW],
      ix_data = Some (u8_of [DISC_RECLAIM_DEFERRED])\<rparr>"

definition createRevokeSessionIx ::
  "address \<Rightarrow> address \<Rightarrow> address \<Rightarrow> address \<Rightarrow> address \<Rightarrow> bytes option \<Rightarrow> address option \<Rightarrow> address
   \<Rightarrow> instruction result" where
  "createRevokeSessionIx payer walletPda adminAuthorityPda sessionPda refundDestination authPayload
      authorizerSigner programId =
     make_ix programId
       (append_authorizer authorizerSigner authPayload
         [meta payer SIGNER_RO, meta walletPda RO, meta adminAuthorityPda RW, meta sessionPda RW,
          meta refundDestination RW])
       (u8_of [DISC_REVOKE_SESSION] # opt_part authPayload)"

section \<open>Protocol administration\<close>

definition createInitializeProtocolIx ::
  "kit \<Rightarrow> address \<Rightarrow> address \<Rightarrow> address \<Rightarrow> address \<Rightarrow> int \<Rightarrow> int \<Rightarrow> int \<Rightarrow> address \<Rightarrow> instruction result" where
  "createInitializeProtocolIx K payer configPda admin treasury creationFee executionFee numShards programId =
     rbind (u64LE creationFee) (\<lambda>cf. rbind (u64LE executionFee) (\<lambda>ef.
     make_ix programId
       [meta payer SIGNER_RW, meta configPda RW, meta SYSTEM_PROGRAM_ADDRESS RO, meta SYSVAR_RENT_ADDRESS RO]
       [u8_of [DISC_INITIALIZE_PROTOCOL], k_encAddr K admin, k_encAddr K treasury, cf, ef, u8_of [numShards]]))"

definition createUpdateProtocolIx ::
  "kit \<Rightarrow> address \<Rightarrow> address \<Rightarrow> int \<Rightarrow> int \<Rightarrow> bool \<Rightarrow> address \<Rightarrow> address \<Rightarrow> instruction result" where
  "createUpdateProtocolIx K admin configPda creationFee executionFee enabled newTreasury programId =
     rbind (u64LE creationFee) (\<lambda>cf. rbind (u64LE executionFee) (\<lambda>ef.
     make_ix programId
       [meta admin SIGNER_RO, meta configPda RW]
       [u8_of [DISC_UPDATE_PROTOCOL], cf, ef, u8_of [if enabled then 1 else 0], u8_zeros 7,
        k_encAddr K newTreasury]))"

definition createRegisterPayerIx :: "address \<Rightarrow> address \<Rightarrow> address \<Rightarrow> instruction" where
  "createRegisterPayerIx payer feeRecord programId =
     \<lparr>ix_program = programId,
      ix_accounts = Some [meta payer SIGNER_RW, meta feeRecord RW, meta SYSTEM_PROGRAM_ADDRESS RO,
        meta SYSVAR_RENT_ADDRESS RO],
      ix_data = Some (u8_of [DISC_REGISTER_PAYER])\<rparr>"

definition createWithdrawTreasuryIx ::
  "address \<Rightarrow> address \<Rightarrow> address \<Rightarrow> address \<Rightarrow> address \<Rightarrow> instruction" where
  "createWithdrawTreasuryIx admin configPda shardPda treasury programId =
     \<lparr>ix_program = programId,
      ix_accounts = Some [meta admin SIGNER_RO, meta configPda RO, meta shardPda RW, meta treasury RW,
        meta SYSVAR_RENT_ADDRESS RO],
      ix_data = Some (u8_of [DISC_WITHDRAW_TREASURY])\<rparr>"

definition createInitializeTreasuryShardIx ::
  "address \<Rightarrow> address \<Rightarrow> address \<Rightarrow> address \<Rightarrow> int \<Rightarrow> address \<Rightarrow> instruction" where
  "createInitializeTreasuryShardIx payer configPda admin shardPda shardId programId =
     \<lparr>ix_program = programId,
      ix_accounts = Some [meta payer SIGNER_RW, meta configPda RO, meta admin SIGNER_RO, meta shardPda RW,
        meta SYSTEM_PROGRAM_ADDRESS RO, meta SYSVAR_RENT_ADDRESS RO],
      ix_data = Some (u8_of [DISC_INITIALIZE_TREASURY_SHARD, shardId])\<rparr>"

section \<open>Migration and cleanup\<close>

record migrate_token_pair =
  sourceAta :: address
  destAta :: address
  mt_mint :: address
  mt_tokenProgram :: address

definition createMigrateWalletIx ::
  "address \<Rightarrow> address \<Rightarrow> address \<Rightarrow> address \<Rightarrow> address \<Rightarrow> address \<Rightarrow> address \<Rightarrow> bool
   \<Rightarrow> migrate_token_pair list option \<Rightarrow> bytes option \<Rightarrow> address \<Rightarrow> instruction result" where
  "createMigrateWalletIx payer v1Wallet v1Authority v1Vault destination refundDestination authSigner
      authSignerIsSigner tokens authPayload programId =
     (let tokens = (case tokens of Some ts \<Rightarrow> ts | None \<Rightarrow> [])
      in make_ix programId
        ([meta payer SIGNER_RW, meta v1Wallet RW, meta v1Authority RW, meta v1Vault RW,
          meta destination RW, meta refundDestination RW, meta SYSTEM_PROGRAM_ADDRESS RO,
          meta SYSVAR_INSTRUCTIONS_ADDRESS RO,
          meta authSigner (if authSignerIsSigner then SIGNER_RO else RO)]
         @ concat (map (\<lambda>t. [meta (sourceAta t) RW, meta (destAta t) RW, meta (mt_mint t) RO,
                            meta (mt_tokenProgram t) RO]) tokens))
        [u8_of [DISC_MIGRATE_WALLET, int (length tokens)],
         (case authPayload of Some p \<Rightarrow> p | None \<Rightarrow> [])])"

definition createCloseExpiredSessionIx :: "address \<Rightarrow> address \<Rightarrow> address \<Rightarrow> address \<Rightarrow> instruction" where
  "createCloseExpiredSessionIx caller sessionPda refundDestination programId =
     \<lparr>ix_program = programId,
      ix_accounts = Some [meta caller SIGNER_RW, meta sessionPda RW, meta refundDestination RW],
      ix_data = Some (u8_of [DISC_CLOSE_EXPIRED_SESSION])\<rparr>"

lemma make_ix_eq [simp]: "make_ix programId accounts parts =
    Inr \<lparr>ix_program = programId, ix_accounts = Some accounts, ix_data = Some (concat parts)\<rparr>"
  by (simp add: make_ix_def)

lemma u16LE_eq [simp]: "u16LE v = le_bytes 2 v"
  using u16_two_bytes [of v] by (simp add: u16LE_def u8_put_def u8_zeros_def numeral_2_eq_2)

lemma u64LE_eq [simp]: "u64LE v = Inr (le_bytes 8 v)" "i64LE v = Inr (le_bytes 8 v)"
  by (simp_all add: u64LE_def i64LE_def dv_set_zeros)

lemma opt_part_simps [simp]: "opt_part (Some b) = [b]" "opt_part None = []"
  by (simp_all add: opt_part_def)

lemmas builder_defs = createCreateWalletIx_def createAddAuthorityIx_def createRemoveAuthorityIx_def
  createTransferOwnershipIx_def createExecuteIx_def createCreateSessionIx_def createAuthorizeIx_def
  createExecuteDeferredIx_def createRevokeSessionIx_def createMigrateWalletIx_def

end
