(* ===== verification/Secp256r1.thy ===== *)
theory Secp256r1
  imports Builders
begin

text \<open>
  Passkey signing: \<open>secp256r1/secp256r1.ts\<close> and \<open>secp256r1/signing.ts\<close>, with the program's reader
  of the auth payload (\<open>auth/secp256r1/mod.rs\<close>) and its check of the precompile instruction
  (\<open>auth/secp256r1/introspection.rs\<close>). The lemmas show that the program reads back what the SDK
  wrote, accepts the precompile instruction the SDK builds exactly when the key and the message are
  the expected ones, and that a challenge names everything it should: the instruction, the slot,
  the counter, the payer, the wallet and the program.
\<close>

section \<open>The SDK side\<close>

definition generateAuthenticatorData :: "kit \<Rightarrow> string \<Rightarrow> bytes result" where
  "generateAuthenticatorData K rpId =
     rbind (u8_set (u8_zeros 37) (k_sha256 K (utf8 rpId)) 0) (\<lambda>data. Inr (u8_put data 32 0x01))"

definition buildAuthPayload :: "int \<Rightarrow> int \<Rightarrow> int \<Rightarrow> bytes \<Rightarrow> bytes \<Rightarrow> bytes result" where
  "buildAuthPayload slot counter sysvarIxIndex authenticatorData clientDataJson =
     (let authDataLen = length authenticatorData; cdjLen = length clientDataJson in
      if authDataLen > 0xffff then Inl (Error ''authenticatorData length must fit in u16'')
      else if cdjLen > 0xffff then Inl (Error ''clientDataJson length must fit in u16'')
      else
        rbind (dv_set 8 (u8_zeros (8 + 4 + 1 + 1 + 2 + authDataLen + 2 + cdjLen)) 0 slot) (\<lambda>buf.
        rbind (dv_set 4 buf 8 counter) (\<lambda>buf.
        let buf = u8_put buf 12 sysvarIxIndex; buf = u8_put buf 13 0x80 in
        rbind (dv_set 2 buf 14 (int authDataLen)) (\<lambda>buf.
        rbind (u8_set buf authenticatorData 16) (\<lambda>buf.
        rbind (dv_set 2 buf (16 + authDataLen) (int cdjLen)) (\<lambda>buf.
        u8_set buf clientDataJson (16 + authDataLen + 2)))))))"

definition buildAuthPayloadPrefix :: "int \<Rightarrow> int \<Rightarrow> int \<Rightarrow> bytes result" where
  "buildAuthPayloadPrefix slot counter sysvarIxIndex =
     rbind (dv_set 8 (u8_zeros 14) 0 slot) (\<lambda>buf.
     rbind (dv_set 4 buf 8 counter) (\<lambda>buf.
     Inr (u8_put (u8_put buf 12 sysvarIxIndex) 13 0x80)))"

text \<open>An incremental hash digests the concatenation of its updates.\<close>

definition buildSecp256r1Challenge ::
  "kit \<Rightarrow> bytes \<Rightarrow> bytes \<Rightarrow> bytes \<Rightarrow> address \<Rightarrow> address \<Rightarrow> int \<Rightarrow> address \<Rightarrow> bytes result" where
  "buildSecp256r1Challenge K discriminator authPayload signedPayload payer wallet counter programId =
     rbind (dv_set 4 (u8_zeros 4) 0 counter) (\<lambda>counterBuf.
     Inr (k_sha256 K (concat [discriminator, authPayload, signedPayload, k_encAddr K payer,
       k_encAddr K wallet, counterBuf, k_encAddr K programId])))"

record signing_internal =
  si_slot :: int
  si_counter :: int
  si_sysvarIxIndex :: int
  si_publicKeyBytes :: bytes

record prepared_secp256r1 =
  ps_challenge :: bytes
  ps_internal :: signing_internal

record webauthn_response =
  wr_signature :: bytes
  wr_authenticatorData :: bytes
  wr_clientDataJsonHash :: bytes
  wr_clientDataJson :: bytes

definition prepareSecp256r1 ::
  "kit \<Rightarrow> bytes \<Rightarrow> bytes \<Rightarrow> int \<Rightarrow> int \<Rightarrow> int \<Rightarrow> address \<Rightarrow> address \<Rightarrow> address \<Rightarrow> bytes
   \<Rightarrow> prepared_secp256r1 result" where
  "prepareSecp256r1 K discriminator signedPayload sysvarIxIndex slot counter payer wallet programId
      publicKeyBytes =
     rbind (buildAuthPayloadPrefix slot counter sysvarIxIndex) (\<lambda>challengePrefix.
     rbind (buildSecp256r1Challenge K discriminator challengePrefix signedPayload payer wallet counter
              programId) (\<lambda>challenge.
     Inr \<lparr>ps_challenge = challenge,
          ps_internal = \<lparr>si_slot = slot, si_counter = counter, si_sysvarIxIndex = sysvarIxIndex,
                         si_publicKeyBytes = publicKeyBytes\<rparr>\<rparr>))"

definition buildSecp256r1PrecompileIx :: "bytes \<Rightarrow> bytes \<Rightarrow> bytes \<Rightarrow> instruction result" where
  "buildSecp256r1PrecompileIx publicKey message signature =
     (if length signature \<noteq> 64 then Inl (Error ''Secp256r1 signature must be 64 bytes (raw r||s)'')
      else if length publicKey \<noteq> 33 then Inl (Error ''Secp256r1 public key must be 33 bytes (compressed)'')
      else if length message > 0xffff then Inl (Error ''Precompile message length must fit in u16'')
      else let HEADER_SIZE = 16; sigOffset = HEADER_SIZE; pubkeyOffset = sigOffset + 64;
               msgOffset = pubkeyOffset + 33 + 1;
               data = u8_zeros (HEADER_SIZE + 64 + 33 + 1 + length message);
               data = u8_put data 0 1; data = u8_put data 1 0
        in rbind (dv_set 2 data 2 (int sigOffset)) (\<lambda>data.
           rbind (dv_set 2 data 4 0xffff) (\<lambda>data.
           rbind (dv_set 2 data 6 (int pubkeyOffset)) (\<lambda>data.
           rbind (dv_set 2 data 8 0xffff) (\<lambda>data.
           rbind (dv_set 2 data 10 (int msgOffset)) (\<lambda>data.
           rbind (dv_set 2 data 12 (int (length message))) (\<lambda>data.
           rbind (dv_set 2 data 14 0xffff) (\<lambda>data.
           rbind (u8_set data signature sigOffset) (\<lambda>data.
           rbind (u8_set data publicKey pubkeyOffset) (\<lambda>data.
           rbind (u8_set data message msgOffset) (\<lambda>data.
           Inr \<lparr>ix_program = SECP256R1_PROGRAM_ADDRESS, ix_accounts = Some [],
                ix_data = Some data\<rparr>)))))))))))"

definition finalizeSecp256r1 ::
  "prepared_secp256r1 \<Rightarrow> webauthn_response \<Rightarrow> (bytes \<times> instruction) result" where
  "finalizeSecp256r1 prepared response =
     (let i = ps_internal prepared in
      rbind (buildAuthPayload (si_slot i) (si_counter i) (si_sysvarIxIndex i)
               (wr_authenticatorData response) (wr_clientDataJson response)) (\<lambda>authPayload.
      rbind (concatBytes [wr_authenticatorData response, wr_clientDataJsonHash response]) (\<lambda>msg.
      rbind (buildSecp256r1PrecompileIx (si_publicKeyBytes i) msg (wr_signature response)) (\<lambda>precompileIx.
      Inr (authPayload, precompileIx)))))"

text \<open>\<open>signer.sign\<close> is the authenticator: a parameter that may throw.\<close>

definition signWithSecp256r1 ::
  "kit \<Rightarrow> bytes \<Rightarrow> (bytes \<Rightarrow> webauthn_response result) \<Rightarrow> bytes \<Rightarrow> bytes \<Rightarrow> int \<Rightarrow> int \<Rightarrow> int \<Rightarrow> address
   \<Rightarrow> address \<Rightarrow> address \<Rightarrow> (bytes \<times> instruction) result" where
  "signWithSecp256r1 K publicKeyBytes sign discriminator signedPayload sysvarIxIndex slot counter
      payer wallet programId =
     rbind (prepareSecp256r1 K discriminator signedPayload sysvarIxIndex slot counter payer wallet
              programId publicKeyBytes) (\<lambda>prepared.
     rbind (sign (ps_challenge prepared)) (\<lambda>response. finalizeSecp256r1 prepared response))"

section \<open>Data payloads\<close>

definition buildDataPayloadForAdd ::
  "int \<Rightarrow> int \<Rightarrow> bytes \<Rightarrow> bytes option \<Rightarrow> string option \<Rightarrow> bytes option \<Rightarrow> bytes result" where
  "buildDataPayloadForAdd newType newRole credentialOrPubkey secp256r1Pubkey rpId policy =
     (let p = (case policy of Some p \<Rightarrow> p | None \<Rightarrow> [])
      in rbind (dv_set 2 (u8_zeros 2) 0 (int (length p))) (\<lambda>policyLen.
         concatBytes ([u8_of [newType, newRole], u8_zeros 6, credentialOrPubkey]
           @ key_parts newType secp256r1Pubkey rpId @ [policyLen, p])))"

definition buildDataPayloadForTransfer ::
  "int \<Rightarrow> bytes \<Rightarrow> bytes option \<Rightarrow> string option \<Rightarrow> bytes result" where
  "buildDataPayloadForTransfer newType credentialOrPubkey secp256r1Pubkey rpId =
     concatBytes ([u8_of [newType], credentialOrPubkey] @ key_parts newType secp256r1Pubkey rpId)"

definition buildDataPayloadForSession :: "bytes \<Rightarrow> int \<Rightarrow> bytes option \<Rightarrow> bytes result" where
  "buildDataPayloadForSession sessionKey expiresAt actionsBuffer =
     (let actionsLen = (case actionsBuffer of Some a \<Rightarrow> length a | None \<Rightarrow> 0) in
      rbind (u8_set (u8_zeros (42 + actionsLen)) sessionKey 0) (\<lambda>buf.
      rbind (dv_set 8 buf 32 expiresAt) (\<lambda>buf.
      let buf = u8_put buf 40 (int actionsLen AND 0xff);
          buf = u8_put buf 41 (drop_bit 8 (int actionsLen) AND 0xff)
      in case actionsBuffer of
           Some a \<Rightarrow> if actionsLen > 0 then u8_set buf a 42 else Inr buf
         | None \<Rightarrow> Inr buf)))"

section \<open>The program side\<close>

record auth_fields =
  af_slot :: int
  af_counter :: int
  af_sysvarIxIndex :: nat
  af_authData :: bytes
  af_cdj :: bytes

definition parse_auth_payload :: "bytes \<Rightarrow> auth_fields result" where
  "parse_auth_payload auth_payload =
     (if length auth_payload < 18 then Inl (AuthError ''InvalidAuthorityPayload'')
      else let auth_data_len = nat (le_val (u8_slice auth_payload 14 16)) in
        if length auth_payload < 16 + auth_data_len + 2 then Inl (AuthError ''InvalidAuthorityPayload'')
        else let cdj_len_offset = 16 + auth_data_len;
                 cdj_len = nat (le_val (u8_slice auth_payload cdj_len_offset (cdj_len_offset + 2)));
                 cdj_offset = cdj_len_offset + 2
          in if cdj_len = 0 \<or> length auth_payload \<noteq> cdj_offset + cdj_len
             then Inl (AuthError ''InvalidAuthorityPayload'')
             else Inr \<lparr>af_slot = le_val (u8_slice auth_payload 0 8),
                       af_counter = le_val (u8_slice auth_payload 8 12),
                       af_sysvarIxIndex = unat (auth_payload ! 12),
                       af_authData = u8_slice auth_payload 16 (16 + auth_data_len),
                       af_cdj = u8_slice auth_payload cdj_offset (cdj_offset + cdj_len)\<rparr>)"

definition challenge_preimage ::
  "bytes \<Rightarrow> bytes \<Rightarrow> bytes \<Rightarrow> bytes \<Rightarrow> bytes \<Rightarrow> int \<Rightarrow> bytes \<Rightarrow> bytes" where
  "challenge_preimage discriminator auth_payload signed_payload payer wallet counter program_id =
     discriminator @ take 14 auth_payload @ signed_payload @ payer @ wallet @ le_bytes 4 counter @ program_id"

definition verify_secp256r1_instruction_data :: "bytes \<Rightarrow> bytes \<Rightarrow> bytes \<Rightarrow> bytes \<Rightarrow> unit result" where
  "verify_secp256r1_instruction_data instruction_data expected_pubkey auth_data client_data_hash =
     (let u16 = (\<lambda>off. le_val (u8_slice instruction_data off (off + 2)));
          expected_msg_len = length auth_data + length client_data_hash;
          hash_start = 114 + length auth_data in
      if length instruction_data < 16 then Inl (AuthError ''InvalidInstruction'')
      else if instruction_data ! 0 \<noteq> 1 then Inl (AuthError ''InvalidInstruction'')
      else if length instruction_data < 114 + 32 then Inl (AuthError ''InvalidInstruction'')
      else if u16 4 \<noteq> 0xffff then Inl (AuthError ''InvalidInstruction'')
      else if u16 8 \<noteq> 0xffff then Inl (AuthError ''InvalidInstruction'')
      else if u16 14 \<noteq> 0xffff then Inl (AuthError ''InvalidInstruction'')
      else if u16 2 \<noteq> 16 then Inl (AuthError ''InvalidInstruction'')
      else if u16 6 \<noteq> 80 then Inl (AuthError ''InvalidInstruction'')
      else if u16 10 \<noteq> 114 then Inl (AuthError ''InvalidInstruction'')
      else if u16 12 \<noteq> int expected_msg_len then Inl (AuthError ''InvalidInstruction'')
      else if length instruction_data < 114 + expected_msg_len then Inl (AuthError ''InvalidInstruction'')
      else if u8_slice instruction_data 80 (80 + 33) \<noteq> expected_pubkey then Inl (AuthError ''InvalidPubkey'')
      else if u8_slice instruction_data 114 (114 + length auth_data) \<noteq> auth_data
        then Inl (AuthError ''InvalidMessageHash'')
      else if u8_slice instruction_data hash_start (hash_start + length client_data_hash) \<noteq> client_data_hash
        then Inl (AuthError ''InvalidMessageHash'')
      else Inr ())"

section \<open>Buffers as concatenations\<close>

lemma two_put_fill:
  "length pre = i \<Longrightarrow> 2 \<le> n \<Longrightarrow>
    u8_put (u8_put (pre @ u8_zeros n) i a) (Suc i) b = (pre @ [word_of_int a, word_of_int b]) @ u8_zeros (n - 2)"
  using u8_put_fill [of "pre @ [word_of_int a]" "Suc i" "n - 1" b]
  by (simp add: u8_put_fill numeral_2_eq_2)

lemma generateAuthenticatorData_eq:
  assumes "sha256_32 K"
  shows "generateAuthenticatorData K rpId = Inr (k_sha256 K (utf8 rpId) @ [1, 0, 0, 0, 0])"
proof -
  have l: "length (k_sha256 K (utf8 rpId)) = 32" using assms by (rule sha256_length)
  have "u8_set (u8_zeros 37) (k_sha256 K (utf8 rpId)) 0 = Inr (k_sha256 K (utf8 rpId) @ u8_zeros 5)"
    by (subst u8_set_zeros) (simp_all add: l)
  then show ?thesis
    unfolding generateAuthenticatorData_def
    by (simp add: u8_put_fill l) (simp add: u8_zeros_def numeral_eq_Suc)
qed

definition auth_prefix :: "int \<Rightarrow> int \<Rightarrow> int \<Rightarrow> bytes" where
  "auth_prefix slot counter idx = le_bytes 8 slot @ le_bytes 4 counter @ [word_of_int idx, 0x80]"

lemma length_auth_prefix [simp, wire]: "length (auth_prefix s c i) = 14"
  by (simp add: auth_prefix_def)

lemma prefix_steps:
  assumes "14 \<le> n"
  shows "rbind (dv_set 8 (u8_zeros n) 0 slot) (\<lambda>buf. rbind (dv_set 4 buf 8 counter) (\<lambda>buf.
      f (u8_put (u8_put buf 12 idx) 13 0x80))) = f (auth_prefix slot counter idx @ u8_zeros (n - 14))"
proof -
  have s1: "dv_set 8 (u8_zeros n) 0 slot = Inr (le_bytes 8 slot @ u8_zeros (n - 8))"
    using assms by (subst dv_set_zeros) simp_all
  have s2: "dv_set 4 (le_bytes 8 slot @ u8_zeros (n - 8)) 8 counter
      = Inr ((le_bytes 8 slot @ le_bytes 4 counter) @ u8_zeros (n - 12))"
    using assms by (subst dv_set_fill) simp_all
  have "u8_put (u8_put ((le_bytes 8 slot @ le_bytes 4 counter) @ u8_zeros (n - 12)) 12 idx) 13 0x80
      = auth_prefix slot counter idx @ u8_zeros (n - 14)"
    using two_put_fill [of "le_bytes 8 slot @ le_bytes 4 counter" 12 "n - 12" idx "0x80"] assms
    by (simp add: auth_prefix_def)
  then show ?thesis by (simp only: s1 s2 rbind_Inr)
qed

lemma buildAuthPayloadPrefix_eq:
  "buildAuthPayloadPrefix slot counter idx = Inr (auth_prefix slot counter idx)"
  using prefix_steps [of 14 slot counter Inr idx] by (simp add: buildAuthPayloadPrefix_def)

definition auth_payload_bytes :: "int \<Rightarrow> int \<Rightarrow> int \<Rightarrow> bytes \<Rightarrow> bytes \<Rightarrow> bytes" where
  "auth_payload_bytes slot counter idx ad cdj = auth_prefix slot counter idx
     @ le_bytes 2 (int (length ad)) @ ad @ le_bytes 2 (int (length cdj)) @ cdj"

lemma buildAuthPayload_eq:
  assumes "length ad \<le> 0xffff" "length cdj \<le> 0xffff"
  shows "buildAuthPayload slot counter idx ad cdj = Inr (auth_payload_bytes slot counter idx ad cdj)"
proof -
  let ?n = "8 + 4 + 1 + 1 + 2 + length ad + 2 + length cdj"
  let ?p = "auth_prefix slot counter idx"
  have n: "?n - 14 = 2 + length ad + 2 + length cdj" by simp
  have s1: "dv_set 2 (?p @ u8_zeros (?n - 14)) 14 v
      = Inr ((?p @ le_bytes 2 v) @ u8_zeros (length ad + 2 + length cdj))" for v
    by (subst dv_set_fill) simp_all
  have s2: "u8_set ((?p @ le_bytes 2 v) @ u8_zeros (length ad + 2 + length cdj)) ad 16
      = Inr ((?p @ le_bytes 2 v @ ad) @ u8_zeros (2 + length cdj))" for v
    by (subst u8_set_fill) simp_all
  have s3: "dv_set 2 ((?p @ le_bytes 2 v @ ad) @ u8_zeros (2 + length cdj)) (16 + length ad) w
      = Inr ((?p @ le_bytes 2 v @ ad @ le_bytes 2 w) @ u8_zeros (length cdj))" for v w
    by (subst dv_set_fill) simp_all
  have s4: "u8_set ((?p @ le_bytes 2 v @ ad @ le_bytes 2 w) @ u8_zeros (length cdj)) cdj (16 + length ad + 2)
      = Inr (?p @ le_bytes 2 v @ ad @ le_bytes 2 w @ cdj)" for v w
    by (subst u8_set_fill) simp_all
  have g: "\<not> length ad > 0xffff" "\<not> length cdj > 0xffff" using assms by simp_all
  show ?thesis
    unfolding buildAuthPayload_def Let_def if_not_P [OF g(1)] if_not_P [OF g(2)]
    by (subst prefix_steps) (simp, simp only: s1 s2 s3 s4 rbind_Inr auth_payload_bytes_def)
qed

lemma buildAuthPayload_cases:
  "buildAuthPayload slot counter idx ad cdj =
    (if length ad > 0xffff then Inl (Error ''authenticatorData length must fit in u16'')
     else if length cdj > 0xffff then Inl (Error ''clientDataJson length must fit in u16'')
     else Inr (auth_payload_bytes slot counter idx ad cdj))"
proof (cases "length ad > 0xffff \<or> length cdj > 0xffff")
  case True
  then show ?thesis by (auto simp: buildAuthPayload_def Let_def)
qed (simp add: buildAuthPayload_eq)

section \<open>The auth payload on the wire\<close>

lemma parse_auth_payload_bytes:
  assumes "length ad \<le> 0xffff" "length cdj \<le> 0xffff" "cdj \<noteq> []"
  shows "parse_auth_payload (auth_payload_bytes slot counter idx ad cdj) =
    Inr \<lparr>af_slot = slot mod 2 ^ 64, af_counter = counter mod 2 ^ 32,
         af_sysvarIxIndex = nat (idx mod 256), af_authData = ad, af_cdj = cdj\<rparr>"
proof -
  let ?b = "auth_payload_bytes slot counter idx ad cdj"
  let ?s = "le_bytes 8 slot" and ?c = "le_bytes 4 counter" and ?i = "[word_of_int idx, 0x80] :: bytes"
  let ?l = "le_bytes 2 (int (length ad))" and ?m = "le_bytes 2 (int (length cdj))"
  have len: "length ?b = 18 + length ad + length cdj" by (simp add: auth_payload_bytes_def)
  have e0: "?b = [] @ ?s @ (?c @ ?i @ ?l @ ad @ ?m @ cdj)"
    and e1: "?b = ?s @ ?c @ (?i @ ?l @ ad @ ?m @ cdj)"
    and e2: "?b = (?s @ ?c @ ?i) @ ?l @ (ad @ ?m @ cdj)"
    and e3: "?b = (?s @ ?c @ ?i @ ?l) @ ad @ (?m @ cdj)"
    and e4: "?b = (?s @ ?c @ ?i @ ?l @ ad) @ ?m @ cdj"
    and e5: "?b = (?s @ ?c @ ?i @ ?l @ ad @ ?m) @ cdj @ []"
    and e6: "?b = (?s @ ?c) @ word_of_int idx # 0x80 # ?l @ ad @ ?m @ cdj"
    by (simp_all add: auth_payload_bytes_def auth_prefix_def)
  have f0: "u8_slice ?b 0 8 = ?s" unfolding e0 by (rule u8_slice_append_exact) simp_all
  have f1: "u8_slice ?b 8 12 = ?c" unfolding e1 by (rule u8_slice_append_exact) simp_all
  have f2: "u8_slice ?b 14 16 = ?l" unfolding e2 by (rule u8_slice_append_exact) simp_all
  have f3: "u8_slice ?b 16 (16 + length ad) = ad" unfolding e3 by (rule u8_slice_append_exact) simp_all
  have f4: "u8_slice ?b (16 + length ad) (16 + length ad + 2) = ?m"
    unfolding e4 by (rule u8_slice_append_exact) simp_all
  have f5: "u8_slice ?b (16 + length ad + 2) (16 + length ad + 2 + length cdj) = cdj"
    unfolding e5 by (rule u8_slice_append_exact) simp_all
  have f6: "?b ! 12 = word_of_int idx" unfolding e6 by (simp add: nth_append)
  have u: "unat (word_of_int idx :: byte) = nat (idx mod 256)"
    by (metis nat_uint_eq uint_word_of_int_byte)
  have n: "nat (le_val ?l) = length ad" "nat (le_val ?m) = length cdj"
    using assms by (simp_all add: le_val_le_bytes)
  have g: "\<not> length ?b < 18" "\<not> length ?b < 16 + length ad + 2"
    "\<not> (length cdj = 0 \<or> length ?b \<noteq> 16 + length ad + 2 + length cdj)"
    using assms(3) by (simp_all add: len)
  show ?thesis
    unfolding parse_auth_payload_def Let_def f0 f1 f2 f3 n f4 f5 f6 u if_not_P [OF g(1)] if_not_P [OF g(2)]
      if_not_P [OF g(3)]
    by (simp add: le_val_le_bytes)
qed

text \<open>
  The auth payload survives the wire. For a non-empty client data JSON and fields within u16
  lengths, \<open>buildAuthPayload\<close> succeeds; the program's reader recovers the slot, the counter, the
  sysvar index (each cut to its width), the authenticator data and the client data JSON; and the
  first 14 bytes, all of it that the challenge covers, are exactly what \<open>buildAuthPayloadPrefix\<close>
  gave when the challenge was computed. An over-long part throws and builds nothing.
\<close>

theorem buildAuthPayload_read_back:
  "(length ad \<le> 0xffff \<and> length cdj \<le> 0xffff \<and> cdj \<noteq> [] \<longrightarrow>
     (\<exists>payload. buildAuthPayload slot counter idx ad cdj = Inr payload
       \<and> parse_auth_payload payload =
         Inr \<lparr>af_slot = slot mod 2 ^ 64, af_counter = counter mod 2 ^ 32,
              af_sysvarIxIndex = nat (idx mod 256), af_authData = ad, af_cdj = cdj\<rparr>
       \<and> buildAuthPayloadPrefix slot counter idx = Inr (take 14 payload)))
   \<and> (length ad > 0xffff \<or> length cdj > 0xffff \<longrightarrow>
     \<not> is_ok (buildAuthPayload slot counter idx ad cdj))"
proof (intro conjI impI)
  assume a: "length ad \<le> 0xffff \<and> length cdj \<le> 0xffff \<and> cdj \<noteq> []"
  have "take 14 (auth_payload_bytes slot counter idx ad cdj) = auth_prefix slot counter idx"
    by (simp add: auth_payload_bytes_def)
  with a show "\<exists>payload. buildAuthPayload slot counter idx ad cdj = Inr payload
       \<and> parse_auth_payload payload =
         Inr \<lparr>af_slot = slot mod 2 ^ 64, af_counter = counter mod 2 ^ 32,
              af_sysvarIxIndex = nat (idx mod 256), af_authData = ad, af_cdj = cdj\<rparr>
       \<and> buildAuthPayloadPrefix slot counter idx = Inr (take 14 payload)"
    by (simp add: buildAuthPayload_eq parse_auth_payload_bytes buildAuthPayloadPrefix_eq)
qed (auto simp: buildAuthPayload_cases)

theorem buildAuthPayload_read_back_witness:
  "\<exists>payload. buildAuthPayload 1000 5 4 [1, 2, 3] [123, 125] = Inr payload
    \<and> parse_auth_payload payload =
      Inr \<lparr>af_slot = 1000, af_counter = 5, af_sysvarIxIndex = 4, af_authData = [1, 2, 3], af_cdj = [123, 125]\<rparr>"
  using buildAuthPayload_read_back [of "[1, 2, 3]" "[123, 125]" 1000 5 4] by auto

section \<open>The precompile instruction\<close>

definition precompile_bytes :: "bytes \<Rightarrow> bytes \<Rightarrow> bytes \<Rightarrow> bytes" where
  "precompile_bytes pk msg sig = [1, 0] @ le_bytes 2 16 @ le_bytes 2 0xffff @ le_bytes 2 80
     @ le_bytes 2 0xffff @ le_bytes 2 114 @ le_bytes 2 (int (length msg)) @ le_bytes 2 0xffff
     @ sig @ pk @ [0] @ msg"

lemma dv_set_step:
  assumes "length pre = off" "n = w + k"
  shows "rbind (dv_set w (pre @ u8_zeros n) off v) f = f ((pre @ le_bytes w v) @ u8_zeros k)"
  using assms by (simp add: dv_set_fill)

lemma u8_set_step:
  assumes "length pre = off" "n = length src + k"
  shows "rbind (u8_set (pre @ u8_zeros n) src off) f = f ((pre @ src) @ u8_zeros k)"
  using assms by (simp add: u8_set_fill)

lemma buildSecp256r1PrecompileIx_eq:
  assumes "length sig = 64" "length pk = 33" "length msg \<le> 0xffff"
  shows "buildSecp256r1PrecompileIx pk msg sig =
    Inr \<lparr>ix_program = SECP256R1_PROGRAM_ADDRESS, ix_accounts = Some [],
         ix_data = Some (precompile_bytes pk msg sig)\<rparr>"
proof -
  let ?k = "length msg"
  have h: "u8_put (u8_put (u8_zeros (16 + 64 + 33 + 1 + ?k)) 0 1) 1 0 = [1, 0] @ u8_zeros (112 + ?k)"
    using two_put_fill [of "[]" 0 "114 + ?k" 1 0] by (simp add: numeral_eq_Suc)
  have pad: "u8_zeros (1 + ?k) = [0] @ u8_zeros ?k" by (simp add: u8_zeros_def)
  have g: "\<not> length sig \<noteq> 64" "\<not> length pk \<noteq> 33" "\<not> length msg > 0xffff" using assms by simp_all
  show ?thesis
    unfolding buildSecp256r1PrecompileIx_def Let_def if_not_P [OF g(1)] if_not_P [OF g(2)] if_not_P [OF g(3)] h
    apply (subst dv_set_step [where k = "110 + ?k"], simp, simp)
    apply (subst dv_set_step [where k = "108 + ?k"], simp, simp)
    apply (subst dv_set_step [where k = "106 + ?k"], simp, simp)
    apply (subst dv_set_step [where k = "104 + ?k"], simp, simp)
    apply (subst dv_set_step [where k = "102 + ?k"], simp, simp)
    apply (subst dv_set_step [where k = "100 + ?k"], simp, simp)
    apply (subst dv_set_step [where k = "98 + ?k"], simp, simp)
    apply (subst u8_set_step [where k = "34 + ?k"], simp, simp add: assms)
    apply (subst u8_set_step [where k = "1 + ?k"], simp add: assms, simp add: assms)
    apply (subst pad)
    apply (subst append_assoc [symmetric])
    apply (subst u8_set_step [where k = 0], simp add: assms, simp)
    apply (simp add: precompile_bytes_def)
    done
qed

lemma precompile_fields:
  assumes "length sig = 64" "length pk = 33" "length msg \<le> 0xffff"
  defines "d \<equiv> precompile_bytes pk msg sig"
  shows "length d = 114 + length msg" "d ! 0 = 1"
    "le_val (u8_slice d 2 4) = 16" "le_val (u8_slice d 4 6) = 0xffff" "le_val (u8_slice d 6 8) = 80"
    "le_val (u8_slice d 8 10) = 0xffff" "le_val (u8_slice d 10 12) = 114"
    "le_val (u8_slice d 12 14) = int (length msg)" "le_val (u8_slice d 14 16) = 0xffff"
    "u8_slice d 80 113 = pk" "drop 114 d = msg"
proof -
  let ?u = "le_bytes 2"
  let ?m = "?u (int (length msg))"
  have u16: "le_val (u8_slice (pre @ ?u v @ post) off (off + 2)) = v mod 65536" if "length pre = off" for pre v post off
    using u8_slice_append_exact [of pre off "?u v" "off + 2" post] that by (simp add: le_val_le_bytes)
  have f2: "d = [1, 0] @ ?u 16 @ (?u 0xffff @ ?u 80 @ ?u 0xffff @ ?u 114 @ ?m @ ?u 0xffff @ sig @ pk @ [0] @ msg)"
    and f4: "d = ([1, 0] @ ?u 16) @ ?u 0xffff @ (?u 80 @ ?u 0xffff @ ?u 114 @ ?m @ ?u 0xffff @ sig @ pk @ [0] @ msg)"
    and f6: "d = ([1, 0] @ ?u 16 @ ?u 0xffff) @ ?u 80 @ (?u 0xffff @ ?u 114 @ ?m @ ?u 0xffff @ sig @ pk @ [0] @ msg)"
    and f8: "d = ([1, 0] @ ?u 16 @ ?u 0xffff @ ?u 80) @ ?u 0xffff @ (?u 114 @ ?m @ ?u 0xffff @ sig @ pk @ [0] @ msg)"
    and f10: "d = ([1, 0] @ ?u 16 @ ?u 0xffff @ ?u 80 @ ?u 0xffff) @ ?u 114 @ (?m @ ?u 0xffff @ sig @ pk @ [0] @ msg)"
    and f12: "d = ([1, 0] @ ?u 16 @ ?u 0xffff @ ?u 80 @ ?u 0xffff @ ?u 114) @ ?m @ (?u 0xffff @ sig @ pk @ [0] @ msg)"
    and f14: "d = ([1, 0] @ ?u 16 @ ?u 0xffff @ ?u 80 @ ?u 0xffff @ ?u 114 @ ?m) @ ?u 0xffff @ (sig @ pk @ [0] @ msg)"
    and f80: "d = ([1, 0] @ ?u 16 @ ?u 0xffff @ ?u 80 @ ?u 0xffff @ ?u 114 @ ?m @ ?u 0xffff @ sig) @ pk @ ([0] @ msg)"
    and f114: "d = ([1, 0] @ ?u 16 @ ?u 0xffff @ ?u 80 @ ?u 0xffff @ ?u 114 @ ?m @ ?u 0xffff @ sig @ pk @ [0]) @ msg"
    by (simp_all add: d_def precompile_bytes_def)
  show "length d = 114 + length msg" "d ! 0 = 1" using assms(1,2) by (simp_all add: d_def precompile_bytes_def)
  show "le_val (u8_slice d 2 4) = 16" unfolding f2 using u16 [of "[1, 0]" 2] by simp
  show "le_val (u8_slice d 4 6) = 0xffff" unfolding f4 using u16 [of "[1, 0] @ ?u 16" 4] by simp
  show "le_val (u8_slice d 6 8) = 80" unfolding f6 using u16 [of "[1, 0] @ ?u 16 @ ?u 0xffff" 6] by simp
  show "le_val (u8_slice d 8 10) = 0xffff"
    unfolding f8 using u16 [of "[1, 0] @ ?u 16 @ ?u 0xffff @ ?u 80" 8] by simp
  show "le_val (u8_slice d 10 12) = 114"
    unfolding f10 using u16 [of "[1, 0] @ ?u 16 @ ?u 0xffff @ ?u 80 @ ?u 0xffff" 10] by simp
  show "le_val (u8_slice d 12 14) = int (length msg)"
    unfolding f12 using u16 [of "[1, 0] @ ?u 16 @ ?u 0xffff @ ?u 80 @ ?u 0xffff @ ?u 114" 12] assms(3) by simp
  show "le_val (u8_slice d 14 16) = 0xffff"
    unfolding f14 using u16 [of "[1, 0] @ ?u 16 @ ?u 0xffff @ ?u 80 @ ?u 0xffff @ ?u 114 @ ?m" 14] by simp
  show "u8_slice d 80 113 = pk" unfolding f80 by (rule u8_slice_append_exact) (simp_all add: assms)
  show "drop 114 d = msg" unfolding f114 by (simp add: assms)
qed

lemma verify_precompile_bytes:
  assumes "length sig = 64" "length pk = 33" "length msg \<le> 0xffff" "length msg = length ad + length h" "32 \<le> length msg"
  shows "verify_secp256r1_instruction_data (precompile_bytes pk msg sig) pk' ad h =
    (if pk \<noteq> pk' then Inl (AuthError ''InvalidPubkey'')
     else if msg \<noteq> ad @ h then Inl (AuthError ''InvalidMessageHash'') else Inr ())"
proof -
  note f = precompile_fields [OF assms(1-3)]
  let ?d = "precompile_bytes pk msg sig"
  have s: "u8_slice ?d 114 (114 + length ad) = take (length ad) msg"
    "u8_slice ?d (114 + length ad) (114 + length ad + length h) = drop (length ad) msg"
    using f(11) assms(4) by (simp_all add: u8_slice_def add.commute flip: drop_drop)
  have m: "msg = ad @ h \<longleftrightarrow> take (length ad) msg = ad \<and> drop (length ad) msg = h"
    by (metis append_eq_conv_conj append_take_drop_id)
  have g: "\<not> length ?d < 16" "\<not> ?d ! 0 \<noteq> 1" "\<not> length ?d < 114 + 32"
    "\<not> length ?d < 114 + (length ad + length h)" using f(1,2) assms(4,5) by simp_all
  show ?thesis
    unfolding verify_secp256r1_instruction_data_def Let_def s m if_not_P [OF g(1)] if_not_P [OF g(2)]
      if_not_P [OF g(3)] if_not_P [OF g(4)]
    using f(3-10) by (simp add: assms(4))
qed

text \<open>
  C11. The program accepts the precompile instruction the SDK builds for exactly the right key and
  message. With a 64-byte signature, a 33-byte key and a message that fits u16,
  \<open>buildSecp256r1PrecompileIx\<close> succeeds, and the program's introspection accepts its data against an
  expected key, authenticator data and client data hash of the message's length if and only if the key
  is the one given and the message is their concatenation. A wrong signature or key length throws.
\<close>

theorem precompile_accepted_iff:
  assumes "length msg \<le> 0xffff" "length msg = length ad + length h" "32 \<le> length msg"
  shows "if length sig = 64 \<and> length pk = 33
    then \<exists>ix data. buildSecp256r1PrecompileIx pk msg sig = Inr ix \<and> ix_data ix = Some data
        \<and> ix_program ix = SECP256R1_PROGRAM_ADDRESS
        \<and> (is_ok (verify_secp256r1_instruction_data data pk' ad h) \<longleftrightarrow> pk' = pk \<and> msg = ad @ h)
    else \<not> is_ok (buildSecp256r1PrecompileIx pk msg sig)"
proof (cases "length sig = 64 \<and> length pk = 33")
  case True
  then show ?thesis
    using assms by (auto simp: buildSecp256r1PrecompileIx_eq verify_precompile_bytes)
qed (auto simp: buildSecp256r1PrecompileIx_def)

theorem precompile_accepted_iff_witness:
  "\<exists>ix data. buildSecp256r1PrecompileIx (replicate 33 2) ([9] @ replicate 32 7) (replicate 64 5) = Inr ix
    \<and> ix_data ix = Some data
    \<and> is_ok (verify_secp256r1_instruction_data data (replicate 33 2) [9] (replicate 32 7))
    \<and> ix_program ix = SECP256R1_PROGRAM_ADDRESS"
  using precompile_accepted_iff [of "[9] @ replicate 32 7" "[9]" "replicate 32 7" "replicate 64 5"
      "replicate 33 2" "replicate 33 2"] by auto

section \<open>The challenge\<close>

definition challenge_bytes ::
  "kit \<Rightarrow> bytes \<Rightarrow> bytes \<Rightarrow> int \<Rightarrow> int \<Rightarrow> int \<Rightarrow> address \<Rightarrow> address \<Rightarrow> address \<Rightarrow> bytes" where
  "challenge_bytes K disc sp idx slot counter payer wallet programId =
     challenge_preimage disc (auth_prefix slot counter idx) sp (k_encAddr K payer) (k_encAddr K wallet)
       counter (k_encAddr K programId)"

lemma prepareSecp256r1_eq:
  "prepareSecp256r1 K disc sp idx slot counter payer wallet programId pk =
    Inr \<lparr>ps_challenge = k_sha256 K (challenge_bytes K disc sp idx slot counter payer wallet programId),
         ps_internal = \<lparr>si_slot = slot, si_counter = counter, si_sysvarIxIndex = idx, si_publicKeyBytes = pk\<rparr>\<rparr>"
  by (simp add: prepareSecp256r1_def buildAuthPayloadPrefix_eq buildSecp256r1Challenge_def dv_set_zeros
      challenge_bytes_def challenge_preimage_def)

lemma challenge_bytes_inject:
  assumes K: "address_codec K"
    and addr: "list_all (k_isAddress K) [payer, wallet, prog, payer', wallet', prog']"
    and disc: "length d = length d'"
    and eq: "challenge_bytes K d sp idx slot counter payer wallet prog
      = challenge_bytes K d' sp' idx' slot' counter' payer' wallet' prog'"
  shows "d = d' \<and> sp = sp' \<and> idx mod 256 = idx' mod 256 \<and> slot mod 2 ^ 64 = slot' mod 2 ^ 64
    \<and> counter mod 2 ^ 32 = counter' mod 2 ^ 32 \<and> payer = payer' \<and> wallet = wallet' \<and> prog = prog'"
proof -
  have l: "length (k_encAddr K a) = 32" if "a \<in> {payer, wallet, prog, payer', wallet', prog'}" for a
    using that addr encAddr_length [OF K] by auto
  have "d @ auth_prefix slot counter idx @ sp @ k_encAddr K payer @ k_encAddr K wallet @ le_bytes 4 counter @ k_encAddr K prog
      = d' @ auth_prefix slot' counter' idx' @ sp' @ k_encAddr K payer' @ k_encAddr K wallet' @ le_bytes 4 counter' @ k_encAddr K prog'"
    using eq by (simp add: challenge_bytes_def challenge_preimage_def)
  then have "d = d'" "auth_prefix slot counter idx = auth_prefix slot' counter' idx'"
    and t: "sp @ (k_encAddr K payer @ k_encAddr K wallet @ le_bytes 4 counter @ k_encAddr K prog)
      = sp' @ (k_encAddr K payer' @ k_encAddr K wallet' @ le_bytes 4 counter' @ k_encAddr K prog')"
    using disc by simp_all
  moreover from t have "sp = sp'" "k_encAddr K payer @ k_encAddr K wallet @ le_bytes 4 counter @ k_encAddr K prog
      = k_encAddr K payer' @ k_encAddr K wallet' @ le_bytes 4 counter' @ k_encAddr K prog'"
    by (subst (asm) append_eq_append_conv, simp add: l, simp)+
  moreover from this(2) have "k_encAddr K payer = k_encAddr K payer'" "k_encAddr K wallet = k_encAddr K wallet'"
    "k_encAddr K prog = k_encAddr K prog'"
    by (simp_all add: l)
  moreover have "idx mod 256 = idx' mod 256" if "(word_of_int idx :: byte) = word_of_int idx'"
    using that uint_word_of_int_byte by metis
  ultimately show ?thesis
    using addr by (simp add: auth_prefix_def le_bytes_eq_iff encAddr_inject [OF K])
qed

text \<open>
  C12. A challenge names everything the signature is for. If two preparations, over one-byte
  discriminators and valid addresses, give the same challenge and SHA-256 does not collide on their
  two preimages, then they are for the same instruction, signed payload, sysvar index, slot, counter
  (each at its wire width), payer, program, and the same wallet: a passkey's approval cannot be
  moved to another wallet that holds the same key.
\<close>

theorem challenge_binds:
  assumes "address_codec K"
    and "list_all (k_isAddress K) [payer, wallet, prog, payer', wallet', prog']"
    and "length d = 1" "length d' = 1"
    and "prepareSecp256r1 K d sp idx slot counter payer wallet prog pk = Inr p"
    and "prepareSecp256r1 K d' sp' idx' slot' counter' payer' wallet' prog' pk' = Inr p'"
    and "ps_challenge p = ps_challenge p'"
    and "inj_on (k_sha256 K) {challenge_bytes K d sp idx slot counter payer wallet prog,
      challenge_bytes K d' sp' idx' slot' counter' payer' wallet' prog'}"
  shows "d = d' \<and> sp = sp' \<and> idx mod 256 = idx' mod 256 \<and> slot mod 2 ^ 64 = slot' mod 2 ^ 64
    \<and> counter mod 2 ^ 32 = counter' mod 2 ^ 32 \<and> payer = payer' \<and> wallet = wallet' \<and> prog = prog'"
proof (rule challenge_bytes_inject [OF assms(1,2)])
  show "length d = length d'" using assms(3,4) by simp
  have "k_sha256 K (challenge_bytes K d sp idx slot counter payer wallet prog)
      = k_sha256 K (challenge_bytes K d' sp' idx' slot' counter' payer' wallet' prog')"
    using assms(5-7) by (auto simp: prepareSecp256r1_eq)
  then show "challenge_bytes K d sp idx slot counter payer wallet prog
      = challenge_bytes K d' sp' idx' slot' counter' payer' wallet' prog'"
    using assms(8) by (auto dest: inj_onD)
qed

text \<open>A kit whose hash keeps all its input shows the hypotheses can hold.\<close>

definition open_kit :: kit where
  "open_kit = sample_kit\<lparr>k_sha256 := (\<lambda>b. b)\<rparr>"

theorem challenge_binds_witness:
  "\<exists>p p'. prepareSecp256r1 open_kit [5] [1] 6 100 2 (replicate 32 CHR ''p'') (replicate 32 CHR ''A'')
        (replicate 32 CHR ''q'') [] = Inr p
    \<and> prepareSecp256r1 open_kit [5] [1] 6 100 2 (replicate 32 CHR ''p'') (replicate 32 CHR ''B'')
        (replicate 32 CHR ''q'') [] = Inr p'
    \<and> ps_challenge p \<noteq> ps_challenge p'"
proof -
  have K: "address_codec open_kit"
    using sample_kit_laws(1) by (simp add: open_kit_def address_codec_def)
  obtain p p' where p: "prepareSecp256r1 open_kit [5] [1] 6 100 2 (replicate 32 CHR ''p'')
      (replicate 32 CHR ''A'') (replicate 32 CHR ''q'') [] = Inr p"
    "prepareSecp256r1 open_kit [5] [1] 6 100 2 (replicate 32 CHR ''p'') (replicate 32 CHR ''B'')
      (replicate 32 CHR ''q'') [] = Inr p'"
    by (simp add: prepareSecp256r1_eq)
  moreover have "ps_challenge p \<noteq> ps_challenge p'"
  proof
    assume "ps_challenge p = ps_challenge p'"
    from challenge_binds [OF K _ _ _ p this]
    have "replicate 32 CHR ''A'' = replicate 32 CHR ''B''"
      by (simp add: open_kit_def sample_kit_def inj_on_def)
    then show False by simp
  qed
  ultimately show ?thesis by blast
qed

section \<open>The data payloads as bytes\<close>

definition key_bytes :: "int \<Rightarrow> bytes \<Rightarrow> bytes option \<Rightarrow> string option \<Rightarrow> bytes" where
  "key_bytes ty cred pk rpId = cred @ concat (key_parts ty pk rpId)"

definition opt_bytes :: "bytes option \<Rightarrow> bytes" where
  "opt_bytes b = (case b of Some p \<Rightarrow> p | None \<Rightarrow> [])"

lemma buildDataPayloadForAdd_eq:
  "buildDataPayloadForAdd ty role cred pk rpId policy =
    Inr (u8_of [ty, role] @ u8_zeros 6 @ key_bytes ty cred pk rpId
      @ le_bytes 2 (int (length (opt_bytes policy))) @ opt_bytes policy)"
  by (simp add: buildDataPayloadForAdd_def key_bytes_def opt_bytes_def dv_set_zeros Let_def)

lemma buildDataPayloadForTransfer_eq:
  "buildDataPayloadForTransfer ty cred pk rpId = Inr (u8_of [ty] @ key_bytes ty cred pk rpId)"
  by (simp add: buildDataPayloadForTransfer_def key_bytes_def)

lemma buildDataPayloadForSession_eq:
  assumes "length key = 32"
  shows "buildDataPayloadForSession key expiry actions =
    Inr (key @ le_bytes 8 expiry @ le_bytes 2 (int (length (opt_bytes actions))) @ opt_bytes actions)"
proof -
  let ?n = "length (opt_bytes actions)"
  have n: "(case actions of Some a \<Rightarrow> length a | None \<Rightarrow> 0) = ?n" by (simp add: opt_bytes_def split: option.splits)
  have "u8_put (u8_put ((key @ le_bytes 8 expiry) @ u8_zeros (2 + ?n)) 40 (int ?n AND 0xff)) 41
      (drop_bit 8 (int ?n) AND 0xff) = (key @ le_bytes 8 expiry @ le_bytes 2 (int ?n)) @ u8_zeros ?n"
    using two_put_fill [of "key @ le_bytes 8 expiry" 40 "2 + ?n" "int ?n AND 0xff" "drop_bit 8 (int ?n) AND 0xff"]
      u16_two_bytes [of "int ?n"] assms by (simp only: append_assoc length_append length_le_bytes) simp
  moreover have "u8_set ((key @ le_bytes 8 expiry @ le_bytes 2 (int ?n)) @ u8_zeros ?n) (opt_bytes actions) 42
      = Inr (key @ le_bytes 8 expiry @ le_bytes 2 (int ?n) @ opt_bytes actions)"
    using assms by (subst u8_set_fill) simp_all
  moreover have "u8_set (u8_zeros (42 + ?n)) key 0 = Inr (key @ u8_zeros (10 + ?n))"
    using assms by (subst u8_set_zeros) simp_all
  moreover have "dv_set 8 (key @ u8_zeros (10 + ?n)) 32 expiry = Inr ((key @ le_bytes 8 expiry) @ u8_zeros (2 + ?n))"
    using assms by (subst dv_set_fill) simp_all
  ultimately show ?thesis
    unfolding buildDataPayloadForSession_def Let_def n
    by (cases actions) (simp_all only: rbind_Inr option.case opt_bytes_def list.size u8_zeros_0 append_Nil2 append_assoc, auto)
qed

end
