(* ===== verification/Compact.thy ===== *)
theory Compact
  imports Packing
begin

text \<open>
  \<open>transactions/compact.ts\<close>: turning ordinary instructions into compact ones over a table that
  starts with the accounts of the wrapping instruction. The two JavaScript maps of
  \<open>buildCompactLayout\<close> are insertion-ordered association lists. The lemmas show that the program,
  decompressing over the same table, gets the original instructions back, that the fee payer's
  signature is never forwarded, and what the table's tail holds.
\<close>

section \<open>The layout builder\<close>

record mutable_meta =
  mm_address :: address
  mm_isSigner :: bool
  mm_isWritable :: bool

definition roleFromFlags :: "bool \<Rightarrow> bool \<Rightarrow> account_role" where
  "roleFromFlags isSigner isWritable =
     (if isSigner then (if isWritable then WRITABLE_SIGNER else READONLY_SIGNER)
      else if isWritable then WRITABLE else READONLY)"

definition flagsFromRole :: "account_role \<Rightarrow> bool \<times> bool" where
  "flagsFromRole role =
     (role = READONLY_SIGNER \<or> role = WRITABLE_SIGNER, role = WRITABLE \<or> role = WRITABLE_SIGNER)"

type_synonym index_map = "(address \<times> int) list"
type_synonym remaining_map = "(address \<times> mutable_meta) list"

definition index_accounts :: "nat \<Rightarrow> address list \<Rightarrow> index_map \<Rightarrow> index_map" where
  "index_accounts start addrs indexMap =
     fold (\<lambda>(i, a). jsmap_set a (int i)) (enumerate start addrs) indexMap"

definition note_program :: "index_map \<Rightarrow> address \<Rightarrow> remaining_map \<Rightarrow> remaining_map" where
  "note_program indexMap p remainingMap =
     (if \<not> jsmap_has indexMap p \<and> \<not> jsmap_has remainingMap p
      then jsmap_set p \<lparr>mm_address = p, mm_isSigner = False, mm_isWritable = False\<rparr> remainingMap
      else remainingMap)"

definition note_account :: "index_map \<Rightarrow> account_meta \<Rightarrow> remaining_map \<Rightarrow> remaining_map" where
  "note_account indexMap acc remainingMap =
     (let (isSigner, isWritable) = flagsFromRole (am_role acc); key = am_address acc in
      if jsmap_has indexMap key then remainingMap
      else case map_of remainingMap key of
        Some existing \<Rightarrow>
          jsmap_set key (existing\<lparr>mm_isSigner := mm_isSigner existing \<or> isSigner,
                                  mm_isWritable := mm_isWritable existing \<or> isWritable\<rparr>) remainingMap
      | None \<Rightarrow>
          jsmap_set key \<lparr>mm_address = am_address acc, mm_isSigner = isSigner,
                         mm_isWritable = isWritable\<rparr> remainingMap)"

definition note_instruction :: "index_map \<Rightarrow> instruction \<Rightarrow> remaining_map \<Rightarrow> remaining_map" where
  "note_instruction indexMap ix remainingMap =
     (let remainingMap = note_program indexMap (ix_program ix) remainingMap in
      case ix_accounts ix of
        None \<Rightarrow> remainingMap
      | Some accounts \<Rightarrow> fold (note_account indexMap) accounts remainingMap)"

text \<open>
  \<open>indexMap.get(a)!\<close>: the assertion that the address is there, as an error the lemmas below show
  never to occur.
\<close>

definition index_of :: "index_map \<Rightarrow> address \<Rightarrow> int result" where
  "index_of indexMap a =
     (case map_of indexMap a of Some i \<Rightarrow> Inr i | None \<Rightarrow> Inl (TypeError ''undefined index''))"

definition accounts_of :: "instruction \<Rightarrow> account_meta list" where
  "accounts_of ix = (case ix_accounts ix of Some as \<Rightarrow> as | None \<Rightarrow> [])"

definition data_of :: "instruction \<Rightarrow> bytes" where
  "data_of ix = (case ix_data ix of Some d \<Rightarrow> d | None \<Rightarrow> [])"

definition compact_account :: "index_map \<Rightarrow> address \<Rightarrow> account_meta \<Rightarrow> int result" where
  "compact_account indexMap payer a =
     rbind (index_of indexMap (am_address a)) (\<lambda>i.
     encodeAccountIndex i (fst (flagsFromRole (am_role a)) \<and> am_address a \<noteq> payer))"

definition compact_one :: "index_map \<Rightarrow> address \<Rightarrow> instruction \<Rightarrow> compact_instruction result" where
  "compact_one indexMap payer ix =
     rbind (index_of indexMap (ix_program ix)) (\<lambda>i.
     rbind (encodeAccountIndex i False) (\<lambda>p.
     rbind (rmap (compact_account indexMap payer) (accounts_of ix)) (\<lambda>as.
     Inr \<lparr>programIdIndex = p, accountIndexes = as, ci_data = data_of ix\<rparr>)))"

definition buildCompactLayout ::
  "address list \<Rightarrow> instruction list \<Rightarrow> address \<Rightarrow> (compact_instruction list \<times> account_meta list) result" where
  "buildCompactLayout fixedAccounts userInstructions payer =
     (let indexMap = index_accounts 0 fixedAccounts [];
          remainingMap = fold (note_instruction indexMap) userInstructions [];
          remainingMutable = map snd remainingMap;
          indexMap = index_accounts (length fixedAccounts) (map mm_address remainingMutable) indexMap
      in rbind (rmap (compact_one indexMap payer) userInstructions) (\<lambda>compactInstructions.
         Inr (compactInstructions,
              map (\<lambda>m. \<lparr>am_address = mm_address m,
                        am_role = roleFromFlags (mm_isSigner m) (mm_isWritable m)\<rparr>) remainingMutable)))"

section \<open>The index map\<close>

lemma role_flags [simp]:
  "role_signer (roleFromFlags s w) = s" "role_writable (roleFromFlags s w) = w"
  by (auto simp: roleFromFlags_def role_signer_def role_writable_def)

lemma flagsFromRole_eq: "flagsFromRole r = (role_signer r, role_writable r)"
  by (simp add: flagsFromRole_def role_signer_def role_writable_def)

lemma index_accounts_dom:
  "map_of (index_accounts n addrs m) a \<noteq> None \<longleftrightarrow> a \<in> set addrs \<or> map_of m a \<noteq> None"
  unfolding index_accounts_def
  by (induction addrs arbitrary: n m) (auto split: if_splits)

lemma index_accounts_val:
  "map_of (index_accounts n addrs m) a = Some v \<Longrightarrow>
    (a \<notin> set addrs \<and> map_of m a = Some v) \<or> (\<exists>j < length addrs. addrs ! j = a \<and> v = int (n + j))"
proof (induction addrs arbitrary: n m)
  case Nil
  then show ?case by (simp add: index_accounts_def)
next
  case (Cons b addrs)
  have "index_accounts n (b # addrs) m = index_accounts (Suc n) addrs (jsmap_set b (int n) m)"
    by (simp add: index_accounts_def)
  with Cons.prems have "map_of (index_accounts (Suc n) addrs (jsmap_set b (int n) m)) a = Some v" by simp
  from Cons.IH [OF this] show ?case
  proof
    assume "a \<notin> set addrs \<and> map_of (jsmap_set b (int n) m) a = Some v"
    then show ?thesis by (auto split: if_splits intro!: exI [of _ 0])
  next
    assume "\<exists>j < length addrs. addrs ! j = a \<and> v = int (Suc n + j)"
    then obtain j where "j < length addrs" "addrs ! j = a" "v = int (Suc n + j)" by blast
    then show ?thesis by (auto intro!: exI [of _ "Suc j"])
  qed
qed

text \<open>The table the indexes point into, and the map built for it.\<close>

definition layout_index :: "address list \<Rightarrow> address list \<Rightarrow> index_map" where
  "layout_index fixed extra = index_accounts (length fixed) extra (index_accounts 0 fixed [])"

lemma layout_index_dom: "map_of (layout_index fixed extra) a \<noteq> None \<longleftrightarrow> a \<in> set (fixed @ extra)"
  unfolding layout_index_def index_accounts_dom by auto

lemma layout_index_val:
  assumes "map_of (layout_index fixed extra) a = Some v"
  shows "0 \<le> v" "v < int (length (fixed @ extra))" "(fixed @ extra) ! nat v = a"
proof -
  have "\<exists>j < length (fixed @ extra). (fixed @ extra) ! j = a \<and> v = int j"
    using index_accounts_val [OF assms [unfolded layout_index_def]]
  proof (elim disjE)
    assume "a \<notin> set extra \<and> map_of (index_accounts 0 fixed []) a = Some v"
    from index_accounts_val [OF conjunct2 [OF this]]
    obtain j where "j < length fixed" "fixed ! j = a" "v = int j" by auto
    then show ?thesis by (auto simp: nth_append intro!: exI [of _ j])
  next
    assume "\<exists>j < length extra. extra ! j = a \<and> v = int (length fixed + j)"
    then obtain j where "j < length extra" "extra ! j = a" "v = int (length fixed + j)" by blast
    then show ?thesis by (auto simp: nth_append intro!: exI [of _ "length fixed + j"])
  qed
  then show "0 \<le> v" "v < int (length (fixed @ extra))" "(fixed @ extra) ! nat v = a" by auto
qed

section \<open>The remaining accounts\<close>

text \<open>Every mention of an address by the instructions, with the privileges it asks for.\<close>

definition mentions :: "instruction \<Rightarrow> (address \<times> bool \<times> bool) list" where
  "mentions ix = (ix_program ix, False, False)
     # map (\<lambda>m. (am_address m, role_signer (am_role m), role_writable (am_role m))) (accounts_of ix)"

definition note_mention :: "index_map \<Rightarrow> address \<times> bool \<times> bool \<Rightarrow> remaining_map \<Rightarrow> remaining_map" where
  "note_mention im = (\<lambda>(a, s, w) rm.
     if jsmap_has im a then rm
     else case map_of rm a of
       Some e \<Rightarrow> jsmap_set a (e\<lparr>mm_isSigner := mm_isSigner e \<or> s, mm_isWritable := mm_isWritable e \<or> w\<rparr>) rm
     | None \<Rightarrow> jsmap_set a \<lparr>mm_address = a, mm_isSigner = s, mm_isWritable = w\<rparr> rm)"

lemma note_mention_app:
  "note_mention im (a, s, w) rm = (if jsmap_has im a then rm
     else case map_of rm a of
       Some e \<Rightarrow> jsmap_set a (e\<lparr>mm_isSigner := mm_isSigner e \<or> s, mm_isWritable := mm_isWritable e \<or> w\<rparr>) rm
     | None \<Rightarrow> jsmap_set a \<lparr>mm_address = a, mm_isSigner = s, mm_isWritable = w\<rparr> rm)"
  by (simp add: note_mention_def)

lemma jsmap_set_same: "map_of m k = Some v \<Longrightarrow> jsmap_set k v m = m"
  by (induction m) (auto split: if_splits)

lemma note_program_mention: "note_program im p rm = note_mention im (p, False, False) rm"
proof (cases "map_of rm p")
  case (Some e)
  then have "jsmap_set p (e\<lparr>mm_isSigner := mm_isSigner e \<or> False, mm_isWritable := mm_isWritable e \<or> False\<rparr>) rm = rm"
    by (simp add: jsmap_set_same)
  then show ?thesis using Some by (simp add: note_program_def note_mention_def jsmap_has_def)
qed (simp add: note_program_def note_mention_def jsmap_has_def)

lemma note_account_mention:
  "note_account im m = note_mention im (am_address m, role_signer (am_role m), role_writable (am_role m))"
  by (intro ext) (simp add: note_account_def note_mention_def Let_def flagsFromRole_eq)

lemma note_instruction_mentions: "note_instruction im ix rm = fold (note_mention im) (mentions ix) rm"
  by (simp add: note_instruction_def mentions_def accounts_of_def note_program_mention
      note_account_mention [abs_def] fold_map comp_def Let_def split: option.splits)

lemma note_instructions_mentions:
  "fold (note_instruction im) ixs rm = fold (note_mention im) (concat (map mentions ixs)) rm"
  by (induction ixs arbitrary: rm) (simp_all add: note_instruction_mentions)

text \<open>The addresses mentioned but not in the table's fixed part, in the order of first mention.\<close>

definition first_mentions :: "(address \<Rightarrow> bool) \<Rightarrow> (address \<times> bool \<times> bool) list \<Rightarrow> address list" where
  "first_mentions known us = rev (remdups (rev (filter (\<lambda>a. \<not> known a) (map fst us))))"

lemma note_mentions_keys:
  "map fst (fold (note_mention im) us []) = first_mentions (jsmap_has im) us"
proof (induction us rule: rev_induct)
  case (snoc u us)
  let ?rm = "fold (note_mention im) us []"
  have "fst ` set ?rm = set (first_mentions (jsmap_has im) us)"
    by (simp flip: snoc.IH)
  then have mem: "fst u \<in> fst ` set ?rm \<longleftrightarrow> fst u \<in> set (first_mentions (jsmap_has im) us)" by simp
  show ?case
    using snoc.IH mem
    by (cases u) (auto simp: note_mention_def first_mentions_def jsmap_set_keys map_of_eq_None_iff
        split: option.splits dest: map_of_SomeD)
qed (simp add: first_mentions_def)

lemma note_mentions_val:
  "map_of (fold (note_mention im) us []) a = Some e \<Longrightarrow>
    mm_address e = a \<and> mm_isSigner e = (\<exists>w. (a, True, w) \<in> set us)
    \<and> mm_isWritable e = (\<exists>s. (a, s, True) \<in> set us)"
proof (induction us arbitrary: e rule: rev_induct)
  case (snoc u us)
  let ?rm = "fold (note_mention im) us []"
  obtain b s w where u: "u = (b, s, w)" by (cases u)
  have keys: "map_of ?rm a = None \<longleftrightarrow> jsmap_has im a \<or> a \<notin> fst ` set us"
    using arg_cong [OF note_mentions_keys [of im us], of set]
    by (auto simp: map_of_eq_None_iff first_mentions_def)
  have none: "map_of ?rm a = None \<Longrightarrow> \<not> jsmap_has im a \<Longrightarrow> (a, x) \<notin> set us" for x
    using keys by force
  have step: "map_of (note_mention im (b, s, w) ?rm) a = Some e" using snoc.prems by (simp add: u)
  show ?case
  proof (cases "map_of ?rm a")
    case None
    then show ?thesis
      using step none by (auto simp: u note_mention_app split: option.splits if_splits)
  next
    case (Some x)
    then have "\<not> jsmap_has im a" using keys by auto
    then show ?thesis
      using step Some snoc.IH [OF Some]
      by (auto simp: u note_mention_app split: option.splits if_splits)
  qed
qed simp

definition new_accounts :: "address list \<Rightarrow> instruction list \<Rightarrow> address list" where
  "new_accounts fixed ixs = first_mentions (\<lambda>a. a \<in> set fixed) (concat (map mentions ixs))"

definition merged_role :: "instruction list \<Rightarrow> address \<Rightarrow> account_role" where
  "merged_role ixs a = roleFromFlags
     (list_ex (\<lambda>(b, s, w). b = a \<and> s) (concat (map mentions ixs)))
     (list_ex (\<lambda>(b, s, w). b = a \<and> w) (concat (map mentions ixs)))"

lemma fixed_known: "jsmap_has (index_accounts 0 fixed []) = (\<lambda>a. a \<in> set fixed)"
  by (rule ext) (simp only: jsmap_has_def index_accounts_dom, simp)

lemma remaining_entries:
  fixes fixed :: "address list"
  defines "rm ixs \<equiv> fold (note_instruction (index_accounts 0 fixed [])) ixs []"
  shows "map mm_address (map snd (rm ixs)) = new_accounts fixed ixs"
    and "map (\<lambda>m. \<lparr>am_address = mm_address m, am_role = roleFromFlags (mm_isSigner m) (mm_isWritable m)\<rparr>)
      (map snd (rm ixs)) = map (\<lambda>a. \<lparr>am_address = a, am_role = merged_role ixs a\<rparr>) (new_accounts fixed ixs)"
proof -
  let ?us = "concat (map mentions ixs)"
  have rm: "rm ixs = fold (note_mention (index_accounts 0 fixed [])) ?us []"
    by (simp add: rm_def note_instructions_mentions)
  have keys: "map fst (rm ixs) = new_accounts fixed ixs"
    by (simp add: rm note_mentions_keys fixed_known new_accounts_def)
  then have "distinct (map fst (rm ixs))" by (simp add: new_accounts_def first_mentions_def)
  then have vals: "mm_address m = a \<and> mm_isSigner m = (\<exists>w. (a, True, w) \<in> set ?us)
      \<and> mm_isWritable m = (\<exists>s. (a, s, True) \<in> set ?us)" if "(a, m) \<in> set (rm ixs)" for a m
    using that note_mentions_val [of "index_accounts 0 fixed []" ?us a m] by (simp add: rm)
  show "map mm_address (map snd (rm ixs)) = new_accounts fixed ixs"
    unfolding keys [symmetric] using vals by (auto simp: comp_def)
  show "map (\<lambda>m. \<lparr>am_address = mm_address m, am_role = roleFromFlags (mm_isSigner m) (mm_isWritable m)\<rparr>)
      (map snd (rm ixs)) = map (\<lambda>a. \<lparr>am_address = a, am_role = merged_role ixs a\<rparr>) (new_accounts fixed ixs)"
    unfolding keys [symmetric] map_map
  proof (rule map_cong [OF refl])
    fix e assume "e \<in> set (rm ixs)"
    then have v: "mm_address (snd e) = fst e" "mm_isSigner (snd e) = (\<exists>w. (fst e, True, w) \<in> set ?us)"
      "mm_isWritable (snd e) = (\<exists>s. (fst e, s, True) \<in> set ?us)" using vals [of "fst e" "snd e"] by auto
    have "list_ex (\<lambda>(b, s, w). b = fst e \<and> s) ?us = (\<exists>w. (fst e, True, w) \<in> set ?us)"
      "list_ex (\<lambda>(b, s, w). b = fst e \<and> w) ?us = (\<exists>s. (fst e, s, True) \<in> set ?us)"
      by (fastforce simp: list_ex_iff)+
    then show "((\<lambda>m. \<lparr>am_address = mm_address m, am_role = roleFromFlags (mm_isSigner m) (mm_isWritable m)\<rparr>) \<circ> snd) e
      = ((\<lambda>a. \<lparr>am_address = a, am_role = merged_role ixs a\<rparr>) \<circ> fst) e"
      by (simp only: comp_def v merged_role_def)
  qed
qed

lemma buildCompactLayout_eq:
  "buildCompactLayout fixed ixs payer =
    rbind (rmap (compact_one (layout_index fixed (new_accounts fixed ixs)) payer) ixs) (\<lambda>cis.
    Inr (cis, map (\<lambda>a. \<lparr>am_address = a, am_role = merged_role ixs a\<rparr>) (new_accounts fixed ixs)))"
  unfolding buildCompactLayout_def Let_def remaining_entries layout_index_def by (rule refl)

lemma mention_in_table:
  assumes "ix \<in> set ixs" "a = ix_program ix \<or> a \<in> am_address ` set (accounts_of ix)"
  shows "a \<in> set (fixed @ new_accounts fixed ixs)"
proof -
  have "a \<in> fst ` set (concat (map mentions ixs))"
    using assms by (force simp: mentions_def image_iff)
  then show ?thesis by (auto simp: new_accounts_def first_mentions_def)
qed

lemma index_of_table:
  assumes "a \<in> set (fixed @ extra)"
  obtains i where "index_of (layout_index fixed extra) a = Inr i" "0 \<le> i"
    "i < int (length (fixed @ extra))" "(fixed @ extra) ! nat i = a"
proof -
  obtain i where i: "map_of (layout_index fixed extra) a = Some i"
    using assms layout_index_dom [of fixed extra a] by blast
  then show ?thesis using that layout_index_val [OF i] by (simp add: index_of_def)
qed

text \<open>One index byte, encoded by the SDK and looked up by the program.\<close>

lemma encoded_index_lookup:
  assumes "index_of (layout_index fixed extra) a = Inr i" "encodeAccountIndex i fwd = Inr b"
    and infos: "map ai_key infos = map (k_encAddr K) (fixed @ extra)"
  shows "decode_account_index (word_of_int b) = (nat i, fwd)" "nat i < length infos"
    "ai_key (infos ! nat i) = k_encAddr K a" "0 \<le> b" "b < 256"
proof -
  have i: "0 \<le> i" "i < int (length (fixed @ extra))" "(fixed @ extra) ! nat i = a"
    using assms(1) layout_index_val [of fixed extra a] by (auto simp: index_of_def split: option.splits)
  show "decode_account_index (word_of_int b) = (nat i, fwd)"
    using encode_decode_index(1) [OF assms(2)] by (simp add: decode_agree)
  have len: "length infos = length (fixed @ extra)" using arg_cong [OF infos, of length] by simp
  then show n: "nat i < length infos" using i by simp
  then have "ai_key (infos ! nat i) = map (k_encAddr K) (fixed @ extra) ! nat i"
    by (metis infos nth_map)
  then show "ai_key (infos ! nat i) = k_encAddr K a" using n i len by (metis nth_map)
  show "0 \<le> b" "b < 256" by (fact encode_decode_index(4,5) [OF assms(2)])+
qed

text \<open>What the program hands to a CPI, against the instruction the caller wrote.\<close>

definition same_call :: "kit \<Rightarrow> address \<Rightarrow> instruction \<Rightarrow> decompressed \<Rightarrow> bool" where
  "same_call K payer ix d \<longleftrightarrow>
     de_program d = k_encAddr K (ix_program ix)
     \<and> map (ai_key \<circ> fst) (de_accounts d) = map (k_encAddr K \<circ> am_address) (accounts_of ix)
     \<and> map snd (de_accounts d) = map (\<lambda>m. role_signer (am_role m) \<and> am_address m \<noteq> payer) (accounts_of ix)
     \<and> de_data d = data_of ix"

lemma compact_one_decompress:
  assumes "compact_one (layout_index fixed extra) payer ix = Inr ci"
    and infos: "map ai_key infos = map (k_encAddr K) (fixed @ extra)"
  shows "\<exists>d. decompress infos (to_ref ci) = Inr d \<and> same_call K payer ix d"
proof -
  let ?im = "layout_index fixed extra"
  obtain i p as where i: "index_of ?im (ix_program ix) = Inr i" and p: "encodeAccountIndex i False = Inr p"
    and as: "list_all2 (\<lambda>m b. compact_account ?im payer m = Inr b) (accounts_of ix) as"
    and ci: "ci = \<lparr>programIdIndex = p, accountIndexes = as, ci_data = data_of ix\<rparr>"
    using assms(1) by (auto simp: compact_one_def rbind_eq_Inr rmap_Inr_iff)
  note prog = encoded_index_lookup [OF i p infos]
  have "uint (word_of_int p :: byte) = p" using prog(4,5) by simp
  then have "unat (word_of_int p :: byte) = nat p" by (metis nat_uint_eq)
  moreover have "p = i" using encode_decode_index(2,3) [OF p] p by (simp add: encodeAccountIndex_def split: if_splits)
  ultimately have up: "unat (word_of_int p :: byte) = nat i" by simp
  have acc: "list_all2 (\<lambda>m b. \<exists>ai. (let (index, forward) = decode_account_index (word_of_int b) in
        if index \<ge> length infos then Inl (ProgramError ''InvalidInstructionData'')
        else Inr (infos ! index, forward)) = Inr (ai, role_signer (am_role m) \<and> am_address m \<noteq> payer)
      \<and> ai_key ai = k_encAddr K (am_address m)) (accounts_of ix) as"
    using as
  proof (rule list_all2_mono)
    fix m b assume "compact_account ?im payer m = Inr b"
    then obtain j where j: "index_of ?im (am_address m) = Inr j"
      "encodeAccountIndex j (role_signer (am_role m) \<and> am_address m \<noteq> payer) = Inr b"
      by (auto simp: compact_account_def rbind_eq_Inr flagsFromRole_eq)
    from encoded_index_lookup [OF j infos]
    show "\<exists>ai. (let (index, forward) = decode_account_index (word_of_int b) in
        if index \<ge> length infos then Inl (ProgramError ''InvalidInstructionData'')
        else Inr (infos ! index, forward)) = Inr (ai, role_signer (am_role m) \<and> am_address m \<noteq> payer)
      \<and> ai_key ai = k_encAddr K (am_address m)" by simp
  qed
  then obtain ais where "rmap (\<lambda>b. let (index, forward) = decode_account_index b in
        if index \<ge> length infos then Inl (ProgramError ''InvalidInstructionData'')
        else Inr (infos ! index, forward)) (map word_of_int as) = Inr ais"
      "map (ai_key \<circ> fst) ais = map (k_encAddr K \<circ> am_address) (accounts_of ix)"
      "map snd ais = map (\<lambda>m. role_signer (am_role m) \<and> am_address m \<noteq> payer) (accounts_of ix)"
    by (induction rule: list_all2_induct) auto
  then show ?thesis
    using prog(2,3) up by (simp add: decompress_def to_ref_def ci u8_of_def same_call_def)
qed

lemma layout_same_calls:
  assumes "buildCompactLayout fixed ixs payer = Inr (cis, remaining)"
    and "map ai_key infos = map (k_encAddr K) (fixed @ map am_address remaining)"
  shows "list_all2 (\<lambda>ix ci. \<exists>d. decompress infos (to_ref ci) = Inr d \<and> same_call K payer ix d) ixs cis"
proof -
  have c: "list_all2 (\<lambda>ix ci. compact_one (layout_index fixed (new_accounts fixed ixs)) payer ix = Inr ci) ixs cis"
    and rem: "map am_address remaining = new_accounts fixed ixs"
    using assms(1) by (auto simp: buildCompactLayout_eq rbind_eq_Inr rmap_Inr_iff comp_def)
  from c show ?thesis
    by (rule list_all2_mono) (rule compact_one_decompress [OF _ assms(2) [unfolded rem]])
qed

text \<open>
  C7. Compaction is faithful, and never forwards the payer. Whatever the fixed accounts, when
  \<open>buildCompactLayout\<close> returns, the program decompressing each compact instruction over the table
  of the fixed accounts followed by the remaining ones finds the caller's program, the caller's
  accounts in the caller's order, the caller's data, and a forwarded signature exactly for the
  accounts the caller marked as signers, the fee payer excepted.
\<close>

theorem buildCompactLayout_faithful:
  assumes "buildCompactLayout fixed ixs payer = Inr (cis, remaining)"
    and "map ai_key infos = map (k_encAddr K) (fixed @ map am_address remaining)"
  shows "list_all2 (\<lambda>ix ci. \<exists>d. decompress infos (to_ref ci) = Inr d \<and> same_call K payer ix d) ixs cis"
  using assms by (rule layout_same_calls)

theorem buildCompactLayout_faithful_witness:
  "\<exists>cis remaining infos. buildCompactLayout [''payer'', ''vault'']
      [\<lparr>ix_program = ''prog'', ix_accounts = Some [\<lparr>am_address = ''payer'', am_role = WRITABLE_SIGNER\<rparr>,
         \<lparr>am_address = ''vault'', am_role = READONLY_SIGNER\<rparr>], ix_data = Some [1]\<rparr>] ''payer'' = Inr (cis, remaining)
    \<and> list_all2 (\<lambda>ix ci. \<exists>d. decompress infos (to_ref ci) = Inr d \<and> same_call sample_kit ''payer'' ix d)
      [\<lparr>ix_program = ''prog'', ix_accounts = Some [\<lparr>am_address = ''payer'', am_role = WRITABLE_SIGNER\<rparr>,
         \<lparr>am_address = ''vault'', am_role = READONLY_SIGNER\<rparr>], ix_data = Some [1]\<rparr>] cis"
proof -
  let ?ixs = "[\<lparr>ix_program = ''prog'', ix_accounts = Some [\<lparr>am_address = ''payer'', am_role = WRITABLE_SIGNER\<rparr>,
      \<lparr>am_address = ''vault'', am_role = READONLY_SIGNER\<rparr>], ix_data = Some [1]\<rparr>]"
  let ?cis = "[\<lparr>programIdIndex = 2, accountIndexes = [0, 0x81], ci_data = [1]\<rparr>]"
  let ?rem = "[\<lparr>am_address = ''prog'', am_role = READONLY\<rparr>]"
  let ?infos = "map (\<lambda>a. \<lparr>ai_key = k_encAddr sample_kit a, ai_signer = False, ai_writable = False\<rparr>)
      [''payer'', ''vault'', ''prog'']"
  have b: "buildCompactLayout [''payer'', ''vault''] ?ixs ''payer'' = Inr (?cis, ?rem)"
    by (simp add: buildCompactLayout_def index_accounts_def note_instruction_def note_program_def
        note_account_def jsmap_has_def flagsFromRole_def compact_one_def compact_account_def index_of_def
        accounts_of_def data_of_def encodeAccountIndex_def MAX_ACCOUNT_INDEX_def ACCOUNT_INDEX_MASK_def
        ACCOUNT_INDEX_FORWARD_SIGNER_def roleFromFlags_def Let_def)
  from buildCompactLayout_faithful [OF b, of ?infos sample_kit] b show ?thesis
    by (intro exI [of _ ?cis] exI [of _ ?rem] exI [of _ ?infos]) simp
qed

text \<open>
  The remaining accounts are exactly the addresses the instructions mention (as program or as
  account) that are not in the fixed part, each once, in the order of first mention, and each with
  the most permissive privileges any mention asks for.
\<close>

theorem buildCompactLayout_remaining:
  assumes "buildCompactLayout fixed ixs payer = Inr (cis, remaining)"
  shows "remaining = map (\<lambda>a. \<lparr>am_address = a, am_role = merged_role ixs a\<rparr>) (new_accounts fixed ixs)
    \<and> distinct (fixed @ map am_address remaining) = distinct fixed
    \<and> set (fixed @ map am_address remaining) = set fixed \<union> fst ` set (concat (map mentions ixs))"
proof -
  have r: "remaining = map (\<lambda>a. \<lparr>am_address = a, am_role = merged_role ixs a\<rparr>) (new_accounts fixed ixs)"
    using assms by (auto simp: buildCompactLayout_eq rbind_eq_Inr)
  then have m: "map am_address remaining = new_accounts fixed ixs" by (simp add: comp_def)
  have "distinct (new_accounts fixed ixs)" "set (new_accounts fixed ixs) \<inter> set fixed = {}"
    by (auto simp: new_accounts_def first_mentions_def)
  then have "distinct (fixed @ map am_address remaining) = distinct fixed" unfolding m by auto
  moreover have "set (fixed @ map am_address remaining) = set fixed \<union> fst ` set (concat (map mentions ixs))"
    unfolding m new_accounts_def first_mentions_def by auto
  ultimately show ?thesis using r by blast
qed

theorem buildCompactLayout_remaining_witness:
  "map (\<lambda>a. \<lparr>am_address = a, am_role = merged_role
       [\<lparr>ix_program = ''p'', ix_accounts = Some [\<lparr>am_address = ''a'', am_role = WRITABLE\<rparr>,
          \<lparr>am_address = ''a'', am_role = READONLY_SIGNER\<rparr>], ix_data = None\<rparr>] a\<rparr>)
     (new_accounts [''w'']
       [\<lparr>ix_program = ''p'', ix_accounts = Some [\<lparr>am_address = ''a'', am_role = WRITABLE\<rparr>,
          \<lparr>am_address = ''a'', am_role = READONLY_SIGNER\<rparr>], ix_data = None\<rparr>])
    = [\<lparr>am_address = ''p'', am_role = READONLY\<rparr>, \<lparr>am_address = ''a'', am_role = WRITABLE_SIGNER\<rparr>]"
proof -
  let ?ixs = "[\<lparr>ix_program = ''p'', ix_accounts = Some [\<lparr>am_address = ''a'', am_role = WRITABLE\<rparr>,
      \<lparr>am_address = ''a'', am_role = READONLY_SIGNER\<rparr>], ix_data = None\<rparr>]"
  have "buildCompactLayout [''w''] ?ixs ''w'' =
      Inr ([\<lparr>programIdIndex = 1, accountIndexes = [2, 0x82], ci_data = []\<rparr>],
        [\<lparr>am_address = ''p'', am_role = READONLY\<rparr>, \<lparr>am_address = ''a'', am_role = WRITABLE_SIGNER\<rparr>])"
    by (simp add: buildCompactLayout_def index_accounts_def note_instruction_def note_program_def
        note_account_def jsmap_has_def flagsFromRole_def compact_one_def compact_account_def index_of_def
        accounts_of_def data_of_def encodeAccountIndex_def MAX_ACCOUNT_INDEX_def ACCOUNT_INDEX_MASK_def
        ACCOUNT_INDEX_FORWARD_SIGNER_def roleFromFlags_def Let_def)
  from buildCompactLayout_remaining [OF this] show ?thesis by simp
qed

lemma is_ok_encode: "is_ok (encodeAccountIndex i fwd) \<longleftrightarrow> 0 \<le> i \<and> i \<le> 127"
  by (auto simp: encodeAccountIndex_def MAX_ACCOUNT_INDEX_def ACCOUNT_INDEX_MASK_def)

definition mentioned :: "instruction \<Rightarrow> address set" where
  "mentioned ix = insert (ix_program ix) (am_address ` set (accounts_of ix))"

lemma is_ok_compact_one:
  "is_ok (compact_one im payer ix) \<longleftrightarrow> (\<forall>a \<in> mentioned ix. \<exists>i. index_of im a = Inr i \<and> 0 \<le> i \<and> i \<le> 127)"
proof -
  have "is_ok (compact_one im payer ix) \<longleftrightarrow>
      (\<exists>i. index_of im (ix_program ix) = Inr i \<and> is_ok (encodeAccountIndex i False))
      \<and> is_ok (rmap (compact_account im payer) (accounts_of ix))"
    by (auto simp: compact_one_def is_ok_iff rbind_eq_Inr)
  then show ?thesis
    by (simp add: is_ok_rmap compact_account_def is_ok_rbind is_ok_encode mentioned_def)
qed

lemma mentioned_in_table: "ix \<in> set ixs \<Longrightarrow> a \<in> mentioned ix \<Longrightarrow> a \<in> set (fixed @ new_accounts fixed ixs)"
  by (rule mention_in_table) (auto simp: mentioned_def)

lemma new_account_mentioned: "a \<in> set (new_accounts fixed ixs) \<Longrightarrow> \<exists>ix \<in> set ixs. a \<in> mentioned ix"
  by (force simp: new_accounts_def first_mentions_def mentions_def mentioned_def)

lemma last_index:
  assumes "extra \<noteq> []" "distinct extra" "set extra \<inter> set fixed = {}"
    and "index_of (layout_index fixed extra) (last extra) = Inr i"
  shows "i = int (length (fixed @ extra)) - 1"
proof -
  have v: "0 \<le> i" "i < int (length (fixed @ extra))" "(fixed @ extra) ! nat i = last extra"
    using assms(4) layout_index_val [of fixed extra "last extra"]
    by (auto simp: index_of_def split: option.splits)
  have "\<not> nat i < length fixed"
    using v(3) assms(1,3) by (metis disjoint_iff last_in_set nth_append nth_mem)
  then have "extra ! (nat i - length fixed) = extra ! (length extra - 1)"
    using v(3) assms(1) by (simp add: nth_append last_conv_nth)
  then have "nat i - length fixed = length extra - 1"
    using v assms(1,2) \<open>\<not> nat i < length fixed\<close> by (subst (asm) nth_eq_iff_index_eq) auto
  then show ?thesis using v(1) \<open>\<not> nat i < length fixed\<close> assms(1) by (cases extra) auto
qed

lemma layout_ok_iff:
  "is_ok (buildCompactLayout fixed ixs payer) \<longleftrightarrow>
    (\<forall>ix \<in> set ixs. \<forall>a \<in> mentioned ix. \<exists>i. index_of (layout_index fixed (new_accounts fixed ixs)) a = Inr i \<and> 0 \<le> i \<and> i \<le> 127)"
  by (simp add: buildCompactLayout_eq is_ok_rmap is_ok_compact_one)

lemma layout_succeeds:
  assumes "length (fixed @ new_accounts fixed ixs) \<le> 128"
  shows "is_ok (buildCompactLayout fixed ixs payer)"
  unfolding layout_ok_iff
proof (intro ballI)
  fix ix a assume "ix \<in> set ixs" "a \<in> mentioned ix"
  then have "a \<in> set (fixed @ new_accounts fixed ixs)" by (rule mentioned_in_table)
  then obtain i where "index_of (layout_index fixed (new_accounts fixed ixs)) a = Inr i" "0 \<le> i"
    "i < int (length (fixed @ new_accounts fixed ixs))" by (rule index_of_table)
  then show "\<exists>i. index_of (layout_index fixed (new_accounts fixed ixs)) a = Inr i \<and> 0 \<le> i \<and> i \<le> 127"
    using assms by auto
qed

text \<open>
  C9. The 128-account ceiling is the only failure. With at most 128 fixed accounts,
  \<open>buildCompactLayout\<close> succeeds exactly when the whole table has at most 128 entries.
\<close>

theorem buildCompactLayout_succeeds_iff:
  assumes "length fixed \<le> 128"
  shows "is_ok (buildCompactLayout fixed ixs payer) \<longleftrightarrow> length (fixed @ new_accounts fixed ixs) \<le> 128"
proof -
  let ?new = "new_accounts fixed ixs"
  let ?im = "layout_index fixed ?new"
  show ?thesis
  proof
    assume "length (fixed @ ?new) \<le> 128"
    then show "is_ok (buildCompactLayout fixed ixs payer)" by (rule layout_succeeds)
  next
    assume ok: "is_ok (buildCompactLayout fixed ixs payer)"
    show "length (fixed @ ?new) \<le> 128"
    proof (cases "?new = []")
      case False
      have d: "distinct ?new" "set ?new \<inter> set fixed = {}"
        by (auto simp: new_accounts_def first_mentions_def)
      obtain ix where "ix \<in> set ixs" "last ?new \<in> mentioned ix"
        using new_account_mentioned [OF last_in_set [OF False]] by blast
      then obtain i where "index_of ?im (last ?new) = Inr i" "i \<le> 127" using ok layout_ok_iff by blast
      with last_index [OF False d] show ?thesis by fastforce
    qed (use assms in simp)
  qed
qed

theorem buildCompactLayout_succeeds_iff_witness:
  "\<not> is_ok (buildCompactLayout (replicate 128 ''a'') [\<lparr>ix_program = ''p'', ix_accounts = None, ix_data = None\<rparr>] ''a'')"
  using buildCompactLayout_succeeds_iff [of "replicate 128 ''a''"
      "[\<lparr>ix_program = ''p'', ix_accounts = None, ix_data = None\<rparr>]" "''a''"]
  by (simp add: new_accounts_def first_mentions_def mentions_def accounts_of_def)

end
