(* ===== verification/Program.thy ===== *)
theory Program
  imports Actions Secp256r1 Compact
begin

text \<open>
  What the program does with a passkey-approved instruction: how each handler splits its
  instruction data into the region the passkey signed and the auth payload
  (\<open>processor/**\<close>), and how \<open>Secp256r1Authenticator::authenticate\<close> checks the two. Each handler is
  translated up to the call of \<open>authenticate\<close>, as far as it depends on the instruction's bytes and
  account list; the checks on stored account state around it are left out. The WebAuthn checks on
  the client data JSON and the authenticator data (type, challenge, user presence, rp id hash) are a
  parameter of \<open>authenticate\<close>.

  The interface \<open>passkey_operation\<close> says what an SDK builder owes the program; its client lemma is
  that the program's verdict is the WebAuthn verdict on the very challenge the SDK had signed.
\<close>

section \<open>Splitting the instruction data\<close>

definition is_all_zero :: "bytes \<Rightarrow> bool" where
  "is_all_zero bs = list_all (\<lambda>b. b = 0) bs"

definition payer_key :: "account_info list \<Rightarrow> bytes result" where
  "payer_key infos = (case infos of [] \<Rightarrow> Inl (ProgramError ''NotEnoughAccountKeys'')
     | p # _ \<Rightarrow> if \<not> ai_signer p then Inl (ProgramError ''MissingRequiredSignature'') else Inr (ai_key p))"

definition key_at :: "account_info list \<Rightarrow> nat \<Rightarrow> bytes result" where
  "key_at infos i = (if i < length infos then Inr (ai_key (infos ! i))
     else Inl (ProgramError ''NotEnoughAccountKeys''))"

definition secp_key_len :: "bytes \<Rightarrow> nat result" where
  "secp_key_len rest =
     (let rp_id_len = unat (rest ! 65) in
      if rp_id_len = 0 \<or> rp_id_len > 253 then Inl (ProgramError ''InvalidInstructionData'')
      else if length rest < 32 + 33 + 1 + rp_id_len then Inl (ProgramError ''InvalidInstructionData'')
      else Inr (32 + 33 + 1 + rp_id_len))"

definition add_key_len :: "byte \<Rightarrow> bytes \<Rightarrow> nat result" where
  "add_key_len ty rest =
     (if ty = 0 then
        if length rest < 32 then Inl (ProgramError ''InvalidInstructionData'')
        else if is_all_zero (take 32 rest) then Inl (AuthError ''InvalidPubkey'')
        else Inr 32
      else if ty = 1 then
        if length rest < 66 then Inl (ProgramError ''InvalidInstructionData'')
        else if is_all_zero (take 32 rest) \<or> is_all_zero (u8_slice rest 32 65) then Inl (AuthError ''InvalidPubkey'')
        else secp_key_len rest
      else Inl (AuthError ''InvalidAuthenticationKind''))"

definition MAX_POLICY_BUFFER_SIZE :: nat where "MAX_POLICY_BUFFER_SIZE = 2048"

definition add_policy :: "bytes \<Rightarrow> nat \<Rightarrow> (bytes \<times> nat) result" where
  "add_policy instruction_data key_data_end =
     (if length instruction_data \<ge> key_data_end + 2 then
        let policy_len = nat (le_val (u8_slice instruction_data key_data_end (key_data_end + 2)));
            start = key_data_end + 2
        in if policy_len > MAX_POLICY_BUFFER_SIZE then Inl (ProgramError ''InvalidInstructionData'')
           else if length instruction_data < start + policy_len then Inl (ProgramError ''InvalidInstructionData'')
           else Inr (u8_slice instruction_data start (start + policy_len), start + policy_len)
      else Inr ([], key_data_end))"

definition process_add_authority :: "account_info list \<Rightarrow> bytes \<Rightarrow> (bytes \<times> bytes) result" where
  "process_add_authority infos instruction_data =
     (if length instruction_data < 8 then Inl (ProgramError ''InvalidInstructionData'')
      else
        rbind (add_key_len (instruction_data ! 0) (drop 8 instruction_data)) (\<lambda>key_len.
        if length instruction_data < 8 + key_len then Inl (ProgramError ''InvalidInstructionData'')
        else
          rbind (add_policy instruction_data (8 + key_len)) (\<lambda>(policy, data_payload_len).
          rbind (if policy \<noteq> [] then validate_actions_buffer policy else Inr ()) (\<lambda>_.
          rbind (payer_key infos) (\<lambda>payer.
          Inr (take data_payload_len instruction_data @ payer, drop data_payload_len instruction_data))))))"

definition process_remove_authority :: "account_info list \<Rightarrow> bytes \<Rightarrow> (bytes \<times> bytes) result" where
  "process_remove_authority infos instruction_data =
     rbind (payer_key infos) (\<lambda>_.
     rbind (key_at infos 3) (\<lambda>target. rbind (key_at infos 4) (\<lambda>refund.
     Inr (target @ refund, instruction_data))))"

definition transfer_key_len :: "byte \<Rightarrow> bytes \<Rightarrow> nat result" where
  "transfer_key_len ty rest =
     (if ty = 0 then
        if length rest < 32 then Inl (ProgramError ''InvalidInstructionData'') else Inr 32
      else if ty = 1 then
        if length rest < 66 then Inl (ProgramError ''InvalidInstructionData'')
        else if is_all_zero (u8_slice rest 32 65) then Inl (ProgramError ''InvalidAccountData'')
        else secp_key_len rest
      else Inl (AuthError ''InvalidAuthenticationKind''))"

definition process_transfer_ownership :: "account_info list \<Rightarrow> bytes \<Rightarrow> (bytes \<times> bytes) result" where
  "process_transfer_ownership infos instruction_data =
     (if instruction_data = [] then Inl (ProgramError ''InvalidInstructionData'')
      else
        rbind (transfer_key_len (instruction_data ! 0) (drop 1 instruction_data)) (\<lambda>key_len.
        if is_all_zero (take 32 (drop 1 instruction_data)) then Inl (ProgramError ''InvalidAccountData'')
        else if length instruction_data < 1 + key_len then Inl (ProgramError ''InvalidInstructionData'')
        else
          rbind (payer_key infos) (\<lambda>payer. rbind (key_at infos 4) (\<lambda>refund.
          Inr (take (1 + key_len) instruction_data @ payer @ refund, drop (1 + key_len) instruction_data)))))"

definition session_args_end :: "bytes \<Rightarrow> nat result" where
  "session_args_end instruction_data =
     (if length instruction_data < 40 then Inl (ProgramError ''InvalidInstructionData'')
      else if length instruction_data \<ge> 42 then
        let actions_len = nat (le_val (u8_slice instruction_data 40 42)) in
        if actions_len > 2048 then Inl (ProgramError ''InvalidInstructionData'')
        else if actions_len > 0 then
          if length instruction_data < 42 + actions_len then Inl (ProgramError ''InvalidInstructionData'')
          else rbind (validate_actions_buffer (u8_slice instruction_data 42 (42 + actions_len)))
                 (\<lambda>_. Inr (42 + actions_len))
        else Inr 42
      else Inr 40)"

definition process_create_session :: "account_info list \<Rightarrow> bytes \<Rightarrow> (bytes \<times> bytes) result" where
  "process_create_session infos instruction_data =
     rbind (session_args_end instruction_data) (\<lambda>args_end_offset.
     rbind (payer_key infos) (\<lambda>payer.
     Inr (take args_end_offset instruction_data @ payer, drop args_end_offset instruction_data)))"

definition process_revoke_session :: "account_info list \<Rightarrow> bytes \<Rightarrow> (bytes \<times> bytes) result" where
  "process_revoke_session infos instruction_data =
     rbind (payer_key infos) (\<lambda>_.
     rbind (key_at infos 3) (\<lambda>session. rbind (key_at infos 4) (\<lambda>refund.
     Inr (session @ refund, instruction_data))))"

definition process_execute :: "kit \<Rightarrow> account_info list \<Rightarrow> bytes \<Rightarrow> (bytes \<times> bytes) result" where
  "process_execute K infos instruction_data =
     rbind (payer_key infos) (\<lambda>_.
     rbind (parse_compact_instructions_ref_with_len instruction_data) (\<lambda>(ixs, compact_len).
     rbind (accounts_hash_preimage infos ixs) (\<lambda>preimage.
     Inr (take compact_len instruction_data @ k_sha256 K preimage, drop compact_len instruction_data))))"

definition process_authorize :: "account_info list \<Rightarrow> bytes \<Rightarrow> (bytes \<times> bytes) result" where
  "process_authorize infos instruction_data =
     rbind (payer_key infos) (\<lambda>_.
     if length instruction_data < 66 then Inl (ProgramError ''InvalidInstructionData'')
     else let expiry_offset = le_val (u8_slice instruction_data 64 66) in
       if expiry_offset < 10 \<or> expiry_offset > 9000 then Inl (AuthError ''InvalidExpiryWindow'')
       else Inr (u8_slice instruction_data 0 32 @ u8_slice instruction_data 32 64 @ le_bytes 2 expiry_offset,
                 drop 66 instruction_data))"

definition process_migrate :: "account_info list \<Rightarrow> bytes \<Rightarrow> (bytes \<times> bytes) result" where
  "process_migrate infos data =
     (case data of [] \<Rightarrow> Inl (ProgramError ''InvalidInstructionData'')
      | n # auth_payload \<Rightarrow>
          rbind (key_at infos 8) (\<lambda>_. rbind (payer_key infos) (\<lambda>_.
          rbind (key_at infos 4) (\<lambda>destination. rbind (key_at infos 1) (\<lambda>v1_wallet.
          rbind (key_at infos 5) (\<lambda>refund_dest.
          rbind (rmap (\<lambda>i. key_at infos (9 + i * 4)) [0..<unat n]) (\<lambda>source_atas.
          Inr (destination @ v1_wallet @ [n] @ refund_dest @ concat source_atas, auth_payload))))))))"

section \<open>Authentication\<close>

record secp_authority =
  sa_wallet :: bytes
  sa_counter :: int
  sa_pubkey :: bytes

definition MAX_SLOT_AGE :: int where "MAX_SLOT_AGE = 150"

text \<open>
  The sysvar's view: the instruction before the current one, if any. \<open>webauthn\<close> is the verdict on
  the challenge, the authenticator data and the client data JSON. The result is the counter the
  authority holds afterwards.
\<close>

definition authenticate ::
  "kit \<Rightarrow> (bytes \<Rightarrow> bytes \<Rightarrow> bytes \<Rightarrow> unit result) \<Rightarrow> int \<Rightarrow> instruction option \<Rightarrow> account_info list
   \<Rightarrow> secp_authority \<Rightarrow> bytes \<Rightarrow> bytes \<Rightarrow> bytes \<Rightarrow> bytes \<Rightarrow> int result" where
  "authenticate K webauthn current_slot prev accounts auth auth_payload signed_payload discriminator program_id =
     (if length auth_payload < 18 then Inl (AuthError ''InvalidAuthorityPayload'')
      else let slot = le_val (u8_slice auth_payload 0 8);
               submitted_counter = le_val (u8_slice auth_payload 8 12);
               sysvar_ix_index = unat (auth_payload ! 12) in
       if slot > current_slot then Inl (AuthError ''InvalidSignatureAge'')
       else if current_slot - slot \<ge> MAX_SLOT_AGE then Inl (AuthError ''InvalidSignatureAge'')
       else if sa_counter auth + 1 \<ge> 2 ^ 32 then Inl (ProgramError ''ArithmeticOverflow'')
       else if submitted_counter \<noteq> sa_counter auth + 1 then Inl (AuthError ''SignatureReused'')
       else
         rbind (payer_key accounts) (\<lambda>payer.
         let challenge = k_sha256 K (challenge_preimage discriminator auth_payload signed_payload payer
               (sa_wallet auth) (sa_counter auth + 1) program_id) in
         rbind (parse_auth_payload auth_payload) (\<lambda>f.
         rbind (webauthn challenge (af_authData f) (af_cdj f)) (\<lambda>_.
         if sysvar_ix_index \<ge> length accounts then Inl (AuthError ''InvalidAuthorityPayload'')
         else if ai_key (accounts ! sysvar_ix_index) \<noteq> k_encAddr K SYSVAR_INSTRUCTIONS_ADDRESS
           then Inl (AuthError ''InvalidInstruction'')
         else case prev of
           None \<Rightarrow> Inl (AuthError ''InvalidInstruction'')
         | Some secp_ix \<Rightarrow>
             if ix_program secp_ix \<noteq> SECP256R1_PROGRAM_ADDRESS then Inl (AuthError ''InvalidInstruction'')
             else rbind (verify_secp256r1_instruction_data (data_of secp_ix) (sa_pubkey auth)
                    (af_authData f) (k_sha256 K (af_cdj f))) (\<lambda>_.
                  Inr (sa_counter auth + 1))))))"

section \<open>The interface\<close>

text \<open>An account list as the runtime presents it.\<close>

abbreviation infos_of :: "kit \<Rightarrow> account_meta list \<Rightarrow> account_info list" where
  "infos_of K \<equiv> map (info_of K)"

text \<open>
  What an authenticator returns: the hash of the JSON it signed, a raw signature, parts that fit
  their length fields.
\<close>

definition response_wf :: "kit \<Rightarrow> webauthn_response \<Rightarrow> bool" where
  "response_wf K r \<longleftrightarrow> wr_clientDataJsonHash r = k_sha256 K (wr_clientDataJson r)
     \<and> wr_clientDataJson r \<noteq> [] \<and> length (wr_clientDataJson r) \<le> 0xffff
     \<and> length (wr_authenticatorData r) + 32 \<le> 0xffff \<and> length (wr_signature r) = 64"

locale passkey_operation =
  fixes K :: kit
    and disc :: int
    and idx :: int
    and payer :: "'p \<Rightarrow> address"
    and accounts :: "'p \<Rightarrow> account_meta list"
    and body :: "'p \<Rightarrow> bytes \<Rightarrow> bytes"
    and region :: "'p \<Rightarrow> bytes"
    and handler :: "account_info list \<Rightarrow> bytes \<Rightarrow> (bytes \<times> bytes) result"
    and wf :: "'p \<Rightarrow> bool"
  assumes idx_byte: "0 \<le> idx \<and> idx < 256"
    and sysvar_at: "wf p \<Longrightarrow> nat idx < length (accounts p)
      \<and> am_address (accounts p ! nat idx) = SYSVAR_INSTRUCTIONS_ADDRESS"
    and payer_first: "wf p \<Longrightarrow> payer_key (infos_of K (accounts p)) = Inr (k_encAddr K (payer p))"
    and handler_splits: "wf p \<Longrightarrow> handler (infos_of K (accounts p)) (body p ap) = Inr (region p, ap)"
begin

lemma authenticated:
  assumes "sha256_32 K" "wf p" "response_wf K response"
    and slot: "0 \<le> slot" "slot < 2 ^ 64" "slot \<le> current_slot" "current_slot - slot < MAX_SLOT_AGE"
    and counter: "0 \<le> counter" "counter < 2 ^ 32"
    and auth: "auth = \<lparr>sa_wallet = k_encAddr K wallet, sa_counter = counter - 1, sa_pubkey = pk\<rparr>" "length pk = 33"
    and prepared: "prepareSecp256r1 K (u8_of [disc]) (region p) idx slot counter (payer p) wallet programId pk = Inr prepared"
  shows "\<exists>authPayload precompileIx. finalizeSecp256r1 prepared response = Inr (authPayload, precompileIx)
    \<and> rbind (handler (infos_of K (accounts p)) (body p authPayload)) (\<lambda>(signed, ap).
        authenticate K webauthn current_slot (Some precompileIx) (infos_of K (accounts p)) auth ap signed
          (u8_of [disc]) (k_encAddr K programId))
      = rbind (webauthn (ps_challenge prepared) (wr_authenticatorData response) (wr_clientDataJson response))
          (\<lambda>_. Inr counter)"
proof -
  let ?ad = "wr_authenticatorData response" and ?cdj = "wr_clientDataJson response"
  let ?ap = "auth_payload_bytes slot counter idx ?ad ?cdj"
  let ?msg = "?ad @ wr_clientDataJsonHash response"
  let ?ix = "\<lparr>ix_program = SECP256R1_PROGRAM_ADDRESS, ix_accounts = Some [],
      ix_data = Some (precompile_bytes pk ?msg (wr_signature response))\<rparr>"
  have r: "wr_clientDataJsonHash response = k_sha256 K ?cdj" "?cdj \<noteq> []" "length ?cdj \<le> 0xffff"
    "length ?ad + 32 \<le> 0xffff" "length (wr_signature response) = 64"
    using assms(3) by (simp_all add: response_wf_def)
  have h: "length (wr_clientDataJsonHash response) = 32" using assms(1) r(1) by (simp add: sha256_length)
  have ad: "length ?ad \<le> 0xffff" using r(4) by simp
  have msg: "length ?msg \<le> 0xffff" using r(4) h by simp
  have p: "prepared = \<lparr>ps_challenge = k_sha256 K (challenge_bytes K (u8_of [disc]) (region p) idx slot counter
        (payer p) wallet programId),
      ps_internal = \<lparr>si_slot = slot, si_counter = counter, si_sysvarIxIndex = idx, si_publicKeyBytes = pk\<rparr>\<rparr>"
    using prepared by (simp add: prepareSecp256r1_eq)
  have fin: "finalizeSecp256r1 prepared response = Inr (?ap, ?ix)"
    using buildSecp256r1PrecompileIx_eq [OF r(5) auth(2) msg]
    by (simp add: finalizeSecp256r1_def p buildAuthPayload_eq [OF ad r(3)] Let_def)
  have f: "parse_auth_payload ?ap = Inr \<lparr>af_slot = slot, af_counter = counter,
      af_sysvarIxIndex = nat idx, af_authData = ?ad, af_cdj = ?cdj\<rparr>"
    using parse_auth_payload_bytes [OF ad r(3,2), of slot counter idx] slot counter idx_byte by simp
  have raw: "le_val (u8_slice ?ap 0 8) = slot" "le_val (u8_slice ?ap 8 12) = counter" "unat (?ap ! 12) = nat idx"
    "\<not> length ?ap < 18"
    using f by (auto simp: parse_auth_payload_def Let_def split: if_splits)
  have pre: "challenge_preimage (u8_of [disc]) ?ap (region p) (k_encAddr K (payer p)) (k_encAddr K wallet) counter
      (k_encAddr K programId) = challenge_bytes K (u8_of [disc]) (region p) idx slot counter (payer p) wallet programId"
    by (simp add: challenge_bytes_def challenge_preimage_def auth_payload_bytes_def)
  have ver: "verify_secp256r1_instruction_data (data_of ?ix) pk ?ad (k_sha256 K ?cdj) = Inr ()"
    using verify_precompile_bytes [OF r(5) auth(2) msg, of ?ad "k_sha256 K ?cdj" pk] h r(1)
    by (simp add: data_of_def)
  have sv: "nat idx < length (accounts p)"
    "ai_key (info_of K (accounts p ! nat idx)) = k_encAddr K SYSVAR_INSTRUCTIONS_ADDRESS"
    using sysvar_at [OF assms(2)] by (simp_all add: info_of_def)
  have g: "\<not> slot > current_slot" "\<not> current_slot - slot \<ge> MAX_SLOT_AGE" using slot by simp_all
  have "authenticate K webauthn current_slot (Some ?ix) (infos_of K (accounts p)) auth ?ap (region p)
          (u8_of [disc]) (k_encAddr K programId)
      = rbind (webauthn (ps_challenge prepared) ?ad ?cdj) (\<lambda>_. Inr counter)"
    unfolding authenticate_def Let_def raw(1-3) if_not_P [OF raw(4)] if_not_P [OF g(1)] if_not_P [OF g(2)]
      payer_first [OF assms(2)] f rbind_Inr
    using counter sv ver by (simp add: auth(1) p pre [unfolded u8_of_simps])
  then show ?thesis using fin handler_splits [OF assms(2)] by simp
qed

end

end
