(* ===== verification/ClientCore.thy ===== *)
theory ClientCore
  imports Actions Compact Secp256r1
begin

text \<open>
  The shared machinery of \<open>client.ts\<close>: argument checks, the resolution of owners and authorities,
  the runtime's view of account privileges, the compact layout with its hash, and the protocol-fee
  state the client caches (the config and the payers it has registered).

  An RPC read is a function argument: what the node answers for an address, or the error it throws.
  Code that changes the client's cached fields threads the client record and returns it also when
  it throws.
\<close>

section \<open>Argument checks\<close>

definition assertByteLength :: "bytes \<Rightarrow> nat \<Rightarrow> string \<Rightarrow> unit result" where
  "assertByteLength v expected name =
     (if length v \<noteq> expected then Inl (Error (name @ '' must be exactly the expected number of bytes''))
      else Inr ())"

definition assertNonZeroBytes :: "bytes \<Rightarrow> string \<Rightarrow> unit result" where
  "assertNonZeroBytes v name =
     (if list_all (\<lambda>b. b = 0) v then Inl (Error (name @ '' must not be all zero bytes'')) else Inr ())"

datatype create_wallet_owner =
    OwnerEd25519 (owner_publicKey: address)
  | OwnerSecp256r1 (owner_credentialIdHash: bytes) (owner_compressedPubkey: bytes) (owner_rpId: string)

record owner_fields =
  of_authType :: int
  of_credentialOrPubkey :: bytes
  of_secp256r1Pubkey :: "bytes option"
  of_rpId :: "string option"

fun resolveOwnerFields :: "kit \<Rightarrow> create_wallet_owner \<Rightarrow> owner_fields result" where
  "resolveOwnerFields K (OwnerEd25519 publicKey) =
     rbind (assertNonZeroBytes (k_encAddr K publicKey) ''publicKey'') (\<lambda>_.
     Inr \<lparr>of_authType = AUTH_TYPE_ED25519, of_credentialOrPubkey = k_encAddr K publicKey,
          of_secp256r1Pubkey = None, of_rpId = None\<rparr>)"
| "resolveOwnerFields K (OwnerSecp256r1 credentialIdHash compressedPubkey rpId) =
     rbind (assertByteLength credentialIdHash 32 ''credentialIdHash'') (\<lambda>_.
     rbind (assertByteLength compressedPubkey 33 ''compressedPubkey'') (\<lambda>_.
     rbind (assertNonZeroBytes credentialIdHash ''credentialIdHash'') (\<lambda>_.
     rbind (assertNonZeroBytes compressedPubkey ''compressedPubkey'') (\<lambda>_.
     Inr \<lparr>of_authType = AUTH_TYPE_SECP256R1, of_credentialOrPubkey = credentialIdHash,
          of_secp256r1Pubkey = Some compressedPubkey, of_rpId = Some rpId\<rparr>))))"

definition assertAddAuthorityRole :: "int \<Rightarrow> bool option \<Rightarrow> bytes option \<Rightarrow> unit result" where
  "assertAddAuthorityRole role allowOwner policy =
     (if role = ROLE_OWNER \<and> \<not> (case allowOwner of Some b \<Rightarrow> b | None \<Rightarrow> False)
      then Inl (Error ''AddAuthority creates an Owner only with allowOwner: true'')
      else if role < 0 \<or> role > 2
      then Inl (Error ''AddAuthority role must be ROLE_OWNER (0), ROLE_ADMIN (1) or ROLE_SPENDER (2)'')
      else if role = ROLE_SPENDER \<and> (case policy of Some p \<Rightarrow> p = [] | None \<Rightarrow> True)
      then Inl (Error ''ROLE_SPENDER (Delegate) requires a non-empty policy'')
      else if role \<noteq> ROLE_SPENDER \<and> (case policy of Some p \<Rightarrow> p \<noteq> [] | None \<Rightarrow> False)
      then Inl (Error ''Only ROLE_SPENDER (Delegate) may carry a policy'')
      else Inr ())"

definition assertSessionActions :: "session_action list option \<Rightarrow> bool option \<Rightarrow> unit result" where
  "assertSessionActions actions unrestricted =
     (if (case actions of Some as \<Rightarrow> as = [] | None \<Rightarrow> True)
         \<and> \<not> (case unrestricted of Some b \<Rightarrow> b | None \<Rightarrow> False)
      then Inl (Error ''createSession with no actions grants an UNRESTRICTED session key'')
      else Inr ())"

section \<open>Signers and authorities\<close>

datatype commitment = Processed | Confirmed | Finalized

record secp256r1_params =
  sp_credentialIdHash :: bytes
  sp_publicKeyBytes :: "bytes option"
  sp_authorityPda :: "address option"
  sp_slotOverride :: "int option"
  sp_minContextSlot :: "int option"
  sp_commitment :: "commitment option"

text \<open>What the challenge reads return: the key, the slot and the counter to sign.\<close>

type_synonym challenge_reads = "address \<Rightarrow> secp256r1_params \<Rightarrow> (bytes \<times> int \<times> int) result"

record secp_resolved =
  rs_authorityPda :: address
  rs_publicKeyBytes :: bytes
  rs_slot :: int
  rs_counter :: int

definition resolveSecp256r1 ::
  "kit \<Rightarrow> challenge_reads \<Rightarrow> address \<Rightarrow> address \<Rightarrow> secp256r1_params \<Rightarrow> secp_resolved result" where
  "resolveSecp256r1 K reads programId walletPda p =
     rbind (assertByteLength (sp_credentialIdHash p) 32 ''credentialIdHash'') (\<lambda>_.
     rbind (case sp_publicKeyBytes p of Some k \<Rightarrow> assertByteLength k 33 ''publicKeyBytes'' | None \<Rightarrow> Inr ()) (\<lambda>_.
     rbind (case sp_authorityPda p of
              Some a \<Rightarrow> Inr a
            | None \<Rightarrow> rbind (findAuthorityPda K walletPda (sp_credentialIdHash p) programId) (\<lambda>(a, _). Inr a)) (\<lambda>authorityPda.
     rbind (reads authorityPda p) (\<lambda>(publicKeyBytes, slot, counter).
     Inr \<lparr>rs_authorityPda = authorityPda, rs_publicKeyBytes = publicKeyBytes, rs_slot = slot,
          rs_counter = counter\<rparr>))))"

definition resolveEd25519AuthorityPda ::
  "kit \<Rightarrow> address \<Rightarrow> address \<Rightarrow> address option \<Rightarrow> address \<Rightarrow> address result" where
  "resolveEd25519AuthorityPda K programId publicKey authorityPda walletPda =
     (case authorityPda of
        Some a \<Rightarrow> Inr a
      | None \<Rightarrow> rbind (findAuthorityPda K walletPda (k_encAddr K publicKey) programId) (\<lambda>(a, _). Inr a))"

definition buildPasskeySigning ::
  "kit \<Rightarrow> address \<Rightarrow> int \<Rightarrow> int \<Rightarrow> bytes \<Rightarrow> int \<Rightarrow> int \<Rightarrow> address \<Rightarrow> address \<Rightarrow> bytes \<Rightarrow> address option
   \<Rightarrow> prepared_secp256r1 result" where
  "buildPasskeySigning K clientProgramId discriminator sysvarIxIndex signedPayload slot counter payer
      wallet publicKeyBytes programId =
     prepareSecp256r1 K (u8_of [discriminator]) signedPayload sysvarIxIndex slot counter payer wallet
       (case programId of Some p \<Rightarrow> p | None \<Rightarrow> clientProgramId) publicKeyBytes"

section \<open>Privileges as the runtime reports them\<close>

definition role_of_num :: "int \<Rightarrow> account_role" where
  "role_of_num n = (if n = 0 then READONLY else if n = 1 then WRITABLE
     else if n = 2 then READONLY_SIGNER else WRITABLE_SIGNER)"

definition role_union_step :: "address \<Rightarrow> int \<Rightarrow> (address \<times> int) list \<Rightarrow> (address \<times> int) list" where
  "role_union_step a r merged = jsmap_set a ((case map_of merged a of Some n \<Rightarrow> n | None \<Rightarrow> 0) OR r) merged"

definition withRuntimeRoles :: "account_meta list \<Rightarrow> address option \<Rightarrow> account_meta list" where
  "withRuntimeRoles metas feePayer =
     (let merged = fold (\<lambda>m. role_union_step (am_address m) (role_num (am_role m))) metas [];
          merged = (case feePayer of
             Some p \<Rightarrow> role_union_step p (role_num WRITABLE_SIGNER) merged | None \<Rightarrow> merged)
      in map (\<lambda>m. \<lparr>am_address = am_address m,
                   am_role = role_of_num (case map_of merged (am_address m) of Some n \<Rightarrow> n | None \<Rightarrow> 0)\<rparr>) metas)"

record compact_layout =
  cly_compactInstructions :: "compact_instruction list"
  cly_remainingAccounts :: "account_meta list"
  cly_allAccountMetas :: "account_meta list"
  cly_accountsHash :: bytes

definition buildCompactLayoutAndHash ::
  "kit \<Rightarrow> account_meta list \<Rightarrow> instruction list \<Rightarrow> address \<Rightarrow> address option \<Rightarrow> compact_layout result" where
  "buildCompactLayoutAndHash K fixedAccounts userInstructions payer feePayer =
     rbind (buildCompactLayout (map am_address fixedAccounts) userInstructions payer)
       (\<lambda>(compactInstructions, remainingAccounts).
     let allAccountMetas = withRuntimeRoles (fixedAccounts @ remainingAccounts) feePayer in
     rbind (computeAccountsHash K allAccountMetas compactInstructions) (\<lambda>accountsHash.
     Inr \<lparr>cly_compactInstructions = compactInstructions, cly_remainingAccounts = remainingAccounts,
          cly_allAccountMetas = allAccountMetas, cly_accountsHash = accountsHash\<rparr>))"

definition namesDeferredPayerSlot :: "compact_instruction list \<Rightarrow> bool" where
  "namesDeferredPayerSlot compactInstructions =
     (let payerSlot = (\<lambda>b. let index = fst (decodeAccountIndex b) in index = 0 \<or> index = 4)
      in list_ex (\<lambda>ix. payerSlot (programIdIndex ix) \<or> list_ex payerSlot (accountIndexes ix)) compactInstructions)"

section \<open>The fee state\<close>

record protocol_config =
  pc_numShards :: int
  pc_enabled :: bool

text \<open>\<open>_protocolConfig\<close> is not read yet (\<open>None\<close>), read and absent, or read and present.\<close>

record client =
  cl_programId :: address
  cl_protocolFees :: bool
  cl_protocolConfig :: "protocol_config option option"
  cl_registeredPayers :: "address set"

type_synonym rpc_account = "address \<Rightarrow> bytes option result"
type_synonym 'a stateful = "client \<Rightarrow> 'a result \<times> client"

definition sbind :: "'a stateful \<Rightarrow> ('a \<Rightarrow> 'b stateful) \<Rightarrow> 'b stateful" where
  "sbind m f c = (case m c of (Inl e, c') \<Rightarrow> (Inl e, c') | (Inr x, c') \<Rightarrow> f x c')"

definition pure :: "'a result \<Rightarrow> 'a stateful" where
  "pure r c = (r, c)"

definition new_client :: "address \<Rightarrow> bool option \<Rightarrow> client" where
  "new_client programId protocolFees =
     \<lparr>cl_programId = programId, cl_protocolFees = (case protocolFees of Some b \<Rightarrow> b | None \<Rightarrow> True),
      cl_protocolConfig = None, cl_registeredPayers = {}\<rparr>"

definition decode_protocol_config :: "bytes \<Rightarrow> protocol_config option" where
  "decode_protocol_config data =
     (if length data < 88 \<or> data ! 0 \<noteq> ACCOUNT_DISCRIMINATOR PROTOCOL_CONFIG then None
      else Some \<lparr>pc_numShards = uint (data ! 4), pc_enabled = (data ! 3 \<noteq> 0)\<rparr>)"

definition getProtocolConfig :: "kit \<Rightarrow> rpc_account \<Rightarrow> protocol_config option stateful" where
  "getProtocolConfig K rpc c =
     (case cl_protocolConfig c of
        Some v \<Rightarrow> (Inr v, c)
      | None \<Rightarrow>
          (case rbind (findProtocolConfigPda K (cl_programId c)) (\<lambda>(configPda, _). rpc configPda) of
             Inl e \<Rightarrow> (Inl e, c)
           | Inr info \<Rightarrow>
               let v = (case info of None \<Rightarrow> None | Some data \<Rightarrow> decode_protocol_config data)
               in (Inr v, c\<lparr>cl_protocolConfig := Some v\<rparr>)))"

definition invalidateProtocolCache :: "client \<Rightarrow> client" where
  "invalidateProtocolCache c = c\<lparr>cl_protocolConfig := None\<rparr>"

text \<open>\<open>randU32\<close> is the draw of four random bytes.\<close>

definition resolveProtocolFee ::
  "kit \<Rightarrow> rpc_account \<Rightarrow> int \<Rightarrow> address \<Rightarrow> protocol_fee_accounts option stateful" where
  "resolveProtocolFee K rpc randU32 payer c =
     (if \<not> cl_protocolFees c then (Inr None, c)
      else sbind (getProtocolConfig K rpc) (\<lambda>config.
           pure
             (rbind (findProtocolConfigPda K (cl_programId c)) (\<lambda>(configPda, _).
              rbind (findFeeRecordPda K payer (cl_programId c)) (\<lambda>(recordPda, _).
              let shardId = (case config of
                    Some cfg \<Rightarrow> if pc_enabled cfg \<and> pc_numShards cfg > 0 then randU32 mod pc_numShards cfg else 0
                  | None \<Rightarrow> 0)
              in rbind (findTreasuryShardPda K shardId (cl_programId c)) (\<lambda>(shardPda, _).
                 Inr (Some \<lparr>protocolConfigPda = configPda, feeRecordPda = recordPda,
                            treasuryShardPda = shardPda\<rparr>)))))) c)"

record fee_resolution =
  fr_accounts :: protocol_fee_accounts
  fr_registerIx :: "instruction option"

definition resolveProtocolFeeWithRegister ::
  "kit \<Rightarrow> rpc_account \<Rightarrow> int \<Rightarrow> address \<Rightarrow> fee_resolution option stateful" where
  "resolveProtocolFeeWithRegister K rpc randU32 payer =
     sbind (resolveProtocolFee K rpc randU32 payer) (\<lambda>accounts.
     case accounts of
       None \<Rightarrow> pure (Inr None)
     | Some accounts \<Rightarrow>
         sbind (getProtocolConfig K rpc) (\<lambda>config.
         if (case config of None \<Rightarrow> True | Some cfg \<Rightarrow> \<not> pc_enabled cfg)
         then pure (Inr (Some \<lparr>fr_accounts = accounts, fr_registerIx = None\<rparr>))
         else (\<lambda>c.
           if payer \<in> cl_registeredPayers c
           then (Inr (Some \<lparr>fr_accounts = accounts, fr_registerIx = None\<rparr>), c)
           else case rpc (feeRecordPda accounts) of
               Inl e \<Rightarrow> (Inl e, c)
             | Inr info \<Rightarrow>
                 let exists = (case info of None \<Rightarrow> False
                       | Some data \<Rightarrow> length data > 0 \<and> data ! 0 = ACCOUNT_DISCRIMINATOR FEE_RECORD);
                     c' = c\<lparr>cl_registeredPayers := insert payer (cl_registeredPayers c)\<rparr>
                 in if exists then (Inr (Some \<lparr>fr_accounts = accounts, fr_registerIx = None\<rparr>), c')
                    else (Inr (Some \<lparr>fr_accounts = accounts,
                            fr_registerIx = Some (createRegisterPayerIx payer (feeRecordPda accounts)
                              (cl_programId c))\<rparr>), c'))))"

section \<open>Runtime roles\<close>

definition role_bits :: "bool \<Rightarrow> bool \<Rightarrow> int" where
  "role_bits s w = (if w then 1 else 0) + (if s then 2 else 0)"

lemma role_num_bits: "role_num r = role_bits (role_signer r) (role_writable r)"
  by (cases r) (simp_all add: role_bits_def role_signer_def role_writable_def)

lemma role_bits_or: "role_bits s w OR role_bits s' w' = role_bits (s \<or> s') (w \<or> w')"
  by (cases s; cases w; cases s'; cases w') (simp_all add: role_bits_def)

lemma role_of_bits: "role_signer (role_of_num (role_bits s w)) = s" "role_writable (role_of_num (role_bits s w)) = w"
  by (cases s; cases w; simp add: role_bits_def role_of_num_def role_signer_def role_writable_def)+

text \<open>The privileges the metas ask for at an address.\<close>

definition asks_signer :: "account_meta list \<Rightarrow> address \<Rightarrow> bool" where
  "asks_signer metas a = list_ex (\<lambda>m. am_address m = a \<and> role_signer (am_role m)) metas"

definition asks_writable :: "account_meta list \<Rightarrow> address \<Rightarrow> bool" where
  "asks_writable metas a = list_ex (\<lambda>m. am_address m = a \<and> role_writable (am_role m)) metas"

definition bits_at :: "(address \<times> int) list \<Rightarrow> address \<Rightarrow> int" where
  "bits_at m a = (case map_of m a of Some n \<Rightarrow> n | None \<Rightarrow> 0)"

lemma bits_at_step: "bits_at (role_union_step a r m) b = (if b = a then bits_at m a OR r else bits_at m b)"
  by (simp add: bits_at_def role_union_step_def)

lemma bits_at_fold:
  "bits_at (fold (\<lambda>m. role_union_step (am_address m) (role_num (am_role m))) metas []) a
    = role_bits (asks_signer metas a) (asks_writable metas a)"
proof (induction metas rule: rev_induct)
  case Nil
  then show ?case by (simp add: bits_at_def asks_signer_def asks_writable_def role_bits_def)
next
  case (snoc m metas)
  then show ?case
    by (auto simp: bits_at_step asks_signer_def asks_writable_def role_num_bits role_bits_or)
qed

lemma withRuntimeRoles_eq:
  "withRuntimeRoles metas feePayer =
    map (\<lambda>m. \<lparr>am_address = am_address m, am_role = role_of_num (role_bits
      (asks_signer metas (am_address m) \<or> feePayer = Some (am_address m))
      (asks_writable metas (am_address m) \<or> feePayer = Some (am_address m)))\<rparr>) metas"
proof -
  have "role_num WRITABLE_SIGNER = role_bits True True" by (simp add: role_bits_def)
  then show ?thesis
    unfolding withRuntimeRoles_def Let_def bits_at_def [symmetric]
    by (cases feePayer) (auto simp: bits_at_step bits_at_fold role_bits_or simp del: role_num.simps)
qed

lemma length_withRuntimeRoles [simp]: "length (withRuntimeRoles metas fp) = length metas"
  by (simp add: withRuntimeRoles_eq)

lemma withRuntimeRoles_nth:
  assumes "i < length metas"
  shows "am_address (withRuntimeRoles metas fp ! i) = am_address (metas ! i)"
    and "role_signer (am_role (withRuntimeRoles metas fp ! i)) \<longleftrightarrow>
      asks_signer metas (am_address (metas ! i)) \<or> fp = Some (am_address (metas ! i))"
    and "role_writable (am_role (withRuntimeRoles metas fp ! i)) \<longleftrightarrow>
      asks_writable metas (am_address (metas ! i)) \<or> fp = Some (am_address (metas ! i))"
  using assms by (simp_all add: withRuntimeRoles_eq role_of_bits)

text \<open>
  \<open>withRuntimeRoles\<close> gives the privileges the runtime reports: the addresses stay as they are,
  position by position, and a key is a signer (writable) at every position exactly when some
  position of the list asks for it or the key pays the fee.
\<close>

lemma withRuntimeRoles_union:
  "map am_address (withRuntimeRoles metas feePayer) = map am_address metas
   \<and> list_all (\<lambda>m.
       role_signer (am_role m) = (asks_signer metas (am_address m) \<or> feePayer = Some (am_address m))
       \<and> role_writable (am_role m) = (asks_writable metas (am_address m) \<or> feePayer = Some (am_address m)))
     (withRuntimeRoles metas feePayer)"
  by (auto simp: withRuntimeRoles_eq list_all_iff role_of_bits)

section \<open>Which authorities may be added\<close>

text \<open>
  \<open>assertAddAuthorityRole\<close> admits exactly the program's ranks with their policies: a rank
  0, 1 or 2, an Owner only with the explicit opt-in, and a non-empty policy for a Spender and for
  nobody else.
\<close>

lemma assertAddAuthorityRole_iff:
  "is_ok (assertAddAuthorityRole role allowOwner policy) \<longleftrightarrow>
    0 \<le> role \<and> role \<le> 2 \<and> (role = ROLE_OWNER \<longrightarrow> allowOwner = Some True)
    \<and> (role = ROLE_SPENDER \<longleftrightarrow> (\<exists>p. policy = Some p \<and> p \<noteq> []))"
  by (auto simp: assertAddAuthorityRole_def ROLE_OWNER_def ROLE_SPENDER_def split: option.splits)

lemma resolveOwnerFields_keys:
  assumes "address_codec K" "resolveOwnerFields K owner = Inr f"
    and "\<And>p. owner = OwnerEd25519 p \<Longrightarrow> k_isAddress K p"
  shows "length (of_credentialOrPubkey f) = 32" "\<not> list_all (\<lambda>b. b = 0) (of_credentialOrPubkey f)"
    "of_authType f = 0 \<and> of_secp256r1Pubkey f = None \<or>
     of_authType f = 1 \<and> (\<exists>pk rp. of_secp256r1Pubkey f = Some pk \<and> length pk = 33
       \<and> \<not> list_all (\<lambda>b. b = 0) pk \<and> of_rpId f = Some rp \<and> owner_rpId owner = rp)"
  using assms
  by (cases owner; auto simp: rbind_eq_Inr assertByteLength_def assertNonZeroBytes_def
      AUTH_TYPE_ED25519_def AUTH_TYPE_SECP256R1_def encAddr_length split: if_splits)+

section \<open>Fee accounts and registration\<close>

lemma getProtocolConfig_frame:
  assumes "getProtocolConfig K rpc c = (r, c')"
  shows "cl_programId c' = cl_programId c" "cl_protocolFees c' = cl_protocolFees c"
    "cl_registeredPayers c' = cl_registeredPayers c"
    "r = Inr v \<Longrightarrow> cl_protocolConfig c' = Some v"
  using assms by (auto simp: getProtocolConfig_def Let_def split: option.splits sum.splits)

lemma config_shards: "decode_protocol_config data = Some cfg \<Longrightarrow> 0 \<le> pc_numShards cfg \<and> pc_numShards cfg < 256"
  by (auto simp: decode_protocol_config_def uint_byte_bounds split: if_splits)

definition cache_ok :: "client \<Rightarrow> bool" where
  "cache_ok c \<longleftrightarrow> (\<forall>cfg. cl_protocolConfig c = Some (Some cfg) \<longrightarrow> 0 \<le> pc_numShards cfg \<and> pc_numShards cfg < 256)"

lemma getProtocolConfig_cache_ok: "cache_ok c \<Longrightarrow> cache_ok (snd (getProtocolConfig K rpc c))"
  using config_shards by (auto simp: getProtocolConfig_def cache_ok_def Let_def split: option.splits sum.splits)

lemma resolveProtocolFee_cases:
  assumes "resolveProtocolFee K rpc rand payer c = (Inr r, c')"
  shows "\<not> cl_protocolFees c \<and> r = None \<and> c' = c \<or>
    cl_protocolFees c \<and> (\<exists>config acc. r = Some acc \<and> getProtocolConfig K rpc c = (Inr config, c')
      \<and> (\<exists>b1. findProtocolConfigPda K (cl_programId c) = Inr (protocolConfigPda acc, b1))
      \<and> (\<exists>b2. findFeeRecordPda K payer (cl_programId c) = Inr (feeRecordPda acc, b2))
      \<and> (\<exists>b3. findTreasuryShardPda K (case config of
            Some cfg \<Rightarrow> if pc_enabled cfg \<and> pc_numShards cfg > 0 then rand mod pc_numShards cfg else 0
          | None \<Rightarrow> 0) (cl_programId c) = Inr (treasuryShardPda acc, b3)))"
  using assms
  by (auto simp: resolveProtocolFee_def sbind_def pure_def rbind_eq_Inr Let_def split: if_splits prod.splits sum.splits)



text \<open>One call on the client, and the payer whose registration instruction it handed out.\<close>

datatype client_call =
    CallConfig rpc_account
  | CallFee rpc_account int address
  | CallInvalidate

fun run_call :: "kit \<Rightarrow> client_call \<Rightarrow> client \<Rightarrow> address list \<times> client" where
  "run_call K (CallConfig rpc) c = ([], snd (getProtocolConfig K rpc c))"
| "run_call K (CallFee rpc rand payer) c =
     (case resolveProtocolFeeWithRegister K rpc rand payer c of
        (Inr (Some r), c') \<Rightarrow> (if fr_registerIx r = None then [] else [payer], c')
      | (_, c') \<Rightarrow> ([], c'))"
| "run_call K CallInvalidate c = ([], invalidateProtocolCache c)"

fun registrations :: "kit \<Rightarrow> client_call list \<Rightarrow> client \<Rightarrow> address list" where
  "registrations K [] c = []"
| "registrations K (call # calls) c =
     (case run_call K call c of (rs, c') \<Rightarrow> rs @ registrations K calls c')"

lemma resolveWithRegister_frame:
  assumes "resolveProtocolFeeWithRegister K rpc rand payer c = (r, c')"
  shows "cl_registeredPayers c \<subseteq> cl_registeredPayers c'"
    and "r = Inr (Some x) \<Longrightarrow> fr_registerIx x \<noteq> None \<Longrightarrow>
      payer \<notin> cl_registeredPayers c \<and> payer \<in> cl_registeredPayers c'"
proof -
  have fee: "cl_registeredPayers (snd (resolveProtocolFee K rpc rand payer c)) = cl_registeredPayers c"
    using getProtocolConfig_frame(3) [of K rpc c]
    by (cases "getProtocolConfig K rpc c") (auto simp: resolveProtocolFee_def sbind_def pure_def split: sum.splits)
  have cfg: "cl_registeredPayers (snd (getProtocolConfig K rpc d)) = cl_registeredPayers d" for d
    using getProtocolConfig_frame(3) [of K rpc d] by (cases "getProtocolConfig K rpc d") simp
  obtain q d where q: "resolveProtocolFee K rpc rand payer c = (q, d)" by (cases "resolveProtocolFee K rpc rand payer c")
  obtain q' d' where q': "getProtocolConfig K rpc d = (q', d')" by (cases "getProtocolConfig K rpc d")
  have s: "cl_registeredPayers d = cl_registeredPayers c" "cl_registeredPayers d' = cl_registeredPayers c"
    using fee cfg [of d] q q' by simp_all
  show "cl_registeredPayers c \<subseteq> cl_registeredPayers c'"
    using assms q q' s
    by (auto simp: resolveProtocolFeeWithRegister_def sbind_def pure_def Let_def
        split: sum.splits option.splits if_splits prod.splits)
  show "payer \<notin> cl_registeredPayers c \<and> payer \<in> cl_registeredPayers c'"
    if "r = Inr (Some x)" "fr_registerIx x \<noteq> None"
    using assms q q' s that
    by (auto simp: resolveProtocolFeeWithRegister_def sbind_def pure_def Let_def
        split: sum.splits option.splits if_splits prod.splits)
qed

lemma run_call_frame:
  assumes "run_call K call c = (rs, c')"
  shows "cl_registeredPayers c \<union> set rs \<subseteq> cl_registeredPayers c'" "set rs \<inter> cl_registeredPayers c = {}" "distinct rs"
proof -
  have "cl_registeredPayers c \<union> set rs \<subseteq> cl_registeredPayers c' \<and> set rs \<inter> cl_registeredPayers c = {} \<and> distinct rs"
  proof (cases call)
    case (CallConfig rpc)
    then show ?thesis
      using assms getProtocolConfig_frame(3) [of K rpc c] by (cases "getProtocolConfig K rpc c") auto
  next
    case (CallFee rpc rand payer)
    obtain r d where r: "resolveProtocolFeeWithRegister K rpc rand payer c = (r, d)"
      by (cases "resolveProtocolFeeWithRegister K rpc rand payer c")
    show ?thesis
      using assms CallFee r resolveWithRegister_frame [OF r]
      by (auto split: sum.splits option.splits if_splits)
  next
    case CallInvalidate
    then show ?thesis using assms by (auto simp: invalidateProtocolCache_def)
  qed
  then show "cl_registeredPayers c \<union> set rs \<subseteq> cl_registeredPayers c'" "set rs \<inter> cl_registeredPayers c = {}" "distinct rs"
    by simp_all
qed

lemma registrations_distinct:
  "distinct (registrations K calls c) \<and> set (registrations K calls c) \<inter> cl_registeredPayers c = {}"
proof (induction calls arbitrary: c)
  case (Cons call calls)
  obtain rs c' where rc: "run_call K call c = (rs, c')" by (cases "run_call K call c")
  show ?case using Cons.IH [of c'] run_call_frame [OF rc] rc by auto
qed simp


end
