(* ===== verification/Passkey.thy ===== *)
theory Passkey
  imports Program ClientCore
begin

text \<open>
  The passkey flows of \<open>client.ts\<close>: each \<open>prepare*\<close> and \<open>finalize*\<close> pair, with the record it hands
  over, the Ed25519 branch of the unified methods, and the program's verdict on the transaction
  that results. Every flow is an instance of \<open>passkey_operation\<close>, so that one lemma gives all of
  them: the program's verdict on the finalized transaction is the WebAuthn verdict on the challenge
  that was prepared.
\<close>

section \<open>Constants\<close>

definition SYSVAR_IX_INDEX_ADD_AUTHORITY :: int where "SYSVAR_IX_INDEX_ADD_AUTHORITY = 6"
definition SYSVAR_IX_INDEX_REMOVE_AUTHORITY :: int where "SYSVAR_IX_INDEX_REMOVE_AUTHORITY = 5"
definition SYSVAR_IX_INDEX_TRANSFER_OWNERSHIP :: int where "SYSVAR_IX_INDEX_TRANSFER_OWNERSHIP = 7"
definition SYSVAR_IX_INDEX_EXECUTE :: int where "SYSVAR_IX_INDEX_EXECUTE = 4"
definition SYSVAR_IX_INDEX_CREATE_SESSION :: int where "SYSVAR_IX_INDEX_CREATE_SESSION = 6"
definition SYSVAR_IX_INDEX_AUTHORIZE :: int where "SYSVAR_IX_INDEX_AUTHORIZE = 6"
definition SYSVAR_IX_INDEX_REVOKE_SESSION :: int where "SYSVAR_IX_INDEX_REVOKE_SESSION = 5"
definition SYSVAR_IX_INDEX_MIGRATE_WALLET :: int where "SYSVAR_IX_INDEX_MIGRATE_WALLET = 7"

lemmas sysvar_idx_defs = SYSVAR_IX_INDEX_ADD_AUTHORITY_def SYSVAR_IX_INDEX_REMOVE_AUTHORITY_def
  SYSVAR_IX_INDEX_TRANSFER_OWNERSHIP_def SYSVAR_IX_INDEX_EXECUTE_def SYSVAR_IX_INDEX_CREATE_SESSION_def
  SYSVAR_IX_INDEX_AUTHORIZE_def SYSVAR_IX_INDEX_REVOKE_SESSION_def SYSVAR_IX_INDEX_MIGRATE_WALLET_def

section \<open>Authorities\<close>

record prepared_add_authority =
  paa_challenge :: bytes
  paa_signing :: prepared_secp256r1
  paa_payer :: address
  paa_walletPda :: address
  paa_adminAuthorityPda :: address
  paa_newAuthorityPda :: address
  paa_newType :: int
  paa_newRole :: int
  paa_policy :: "bytes option"
  paa_credentialOrPubkey :: bytes
  paa_secp256r1Pubkey :: "bytes option"
  paa_rpId :: "string option"
  paa_programId :: address

definition prepareAddAuthority ::
  "kit \<Rightarrow> challenge_reads \<Rightarrow> address \<Rightarrow> address \<Rightarrow> address \<Rightarrow> secp256r1_params \<Rightarrow> create_wallet_owner \<Rightarrow> int
   \<Rightarrow> bytes option \<Rightarrow> bool option \<Rightarrow> prepared_add_authority result" where
  "prepareAddAuthority K reads programId payer walletPda secp256r1 newAuthority role policy allowOwner =
     rbind (assertAddAuthorityRole role allowOwner policy) (\<lambda>_.
     rbind (resolveOwnerFields K newAuthority) (\<lambda>f.
     rbind (findAuthorityPda K walletPda (of_credentialOrPubkey f) programId) (\<lambda>(newAuthorityPda, _).
     rbind (resolveSecp256r1 K reads programId walletPda secp256r1) (\<lambda>r.
     rbind (buildDataPayloadForAdd (of_authType f) role (of_credentialOrPubkey f) (of_secp256r1Pubkey f)
              (of_rpId f) policy) (\<lambda>dataPayload.
     rbind (concatBytes [dataPayload, k_encAddr K payer]) (\<lambda>signedPayload.
     rbind (buildPasskeySigning K programId DISC_ADD_AUTHORITY SYSVAR_IX_INDEX_ADD_AUTHORITY signedPayload
              (rs_slot r) (rs_counter r) payer walletPda (rs_publicKeyBytes r) None) (\<lambda>signing.
     Inr \<lparr>paa_challenge = ps_challenge signing, paa_signing = signing, paa_payer = payer,
          paa_walletPda = walletPda, paa_adminAuthorityPda = rs_authorityPda r,
          paa_newAuthorityPda = newAuthorityPda, paa_newType = of_authType f, paa_newRole = role,
          paa_policy = policy, paa_credentialOrPubkey = of_credentialOrPubkey f,
          paa_secp256r1Pubkey = of_secp256r1Pubkey f, paa_rpId = of_rpId f, paa_programId = programId\<rparr>)))))))"

definition finalizeAddAuthority ::
  "prepared_add_authority \<Rightarrow> webauthn_response \<Rightarrow> (instruction list \<times> address) result" where
  "finalizeAddAuthority i response =
     rbind (finalizeSecp256r1 (paa_signing i) response) (\<lambda>(authPayload, precompileIx).
     rbind (createAddAuthorityIx (paa_payer i) (paa_walletPda i) (paa_adminAuthorityPda i)
              (paa_newAuthorityPda i) (paa_newType i) (paa_newRole i) (paa_credentialOrPubkey i)
              (paa_secp256r1Pubkey i) (paa_rpId i) (paa_policy i) (Some authPayload) None (paa_programId i)) (\<lambda>ix.
     Inr ([precompileIx, ix], paa_newAuthorityPda i)))"

record prepared_remove_authority =
  pra_challenge :: bytes
  pra_signing :: prepared_secp256r1
  pra_payer :: address
  pra_walletPda :: address
  pra_adminAuthorityPda :: address
  pra_targetAuthorityPda :: address
  pra_refundDestination :: address
  pra_programId :: address

definition prepareRemoveAuthority ::
  "kit \<Rightarrow> challenge_reads \<Rightarrow> address \<Rightarrow> address \<Rightarrow> address \<Rightarrow> secp256r1_params \<Rightarrow> address \<Rightarrow> address option
   \<Rightarrow> prepared_remove_authority result" where
  "prepareRemoveAuthority K reads programId payer walletPda secp256r1 targetAuthorityPda refundDestination =
     (let refundDest = (case refundDestination of Some a \<Rightarrow> a | None \<Rightarrow> payer) in
      rbind (resolveSecp256r1 K reads programId walletPda secp256r1) (\<lambda>r.
      rbind (concatBytes [k_encAddr K targetAuthorityPda, k_encAddr K refundDest]) (\<lambda>signedPayload.
      rbind (buildPasskeySigning K programId DISC_REMOVE_AUTHORITY SYSVAR_IX_INDEX_REMOVE_AUTHORITY signedPayload
               (rs_slot r) (rs_counter r) payer walletPda (rs_publicKeyBytes r) None) (\<lambda>signing.
      Inr \<lparr>pra_challenge = ps_challenge signing, pra_signing = signing, pra_payer = payer,
           pra_walletPda = walletPda, pra_adminAuthorityPda = rs_authorityPda r,
           pra_targetAuthorityPda = targetAuthorityPda, pra_refundDestination = refundDest,
           pra_programId = programId\<rparr>))))"

definition finalizeRemoveAuthority ::
  "prepared_remove_authority \<Rightarrow> webauthn_response \<Rightarrow> instruction list result" where
  "finalizeRemoveAuthority i response =
     rbind (finalizeSecp256r1 (pra_signing i) response) (\<lambda>(authPayload, precompileIx).
     rbind (createRemoveAuthorityIx (pra_payer i) (pra_walletPda i) (pra_adminAuthorityPda i)
              (pra_targetAuthorityPda i) (pra_refundDestination i) (Some authPayload) None (pra_programId i)) (\<lambda>ix.
     Inr [precompileIx, ix]))"

record prepared_transfer_ownership =
  pto_challenge :: bytes
  pto_signing :: prepared_secp256r1
  pto_payer :: address
  pto_walletPda :: address
  pto_currentOwnerAuthorityPda :: address
  pto_newOwnerAuthorityPda :: address
  pto_refundDestination :: address
  pto_newType :: int
  pto_credentialOrPubkey :: bytes
  pto_secp256r1Pubkey :: "bytes option"
  pto_rpId :: "string option"
  pto_programId :: address

definition prepareTransferOwnership ::
  "kit \<Rightarrow> challenge_reads \<Rightarrow> address \<Rightarrow> address \<Rightarrow> address \<Rightarrow> secp256r1_params \<Rightarrow> create_wallet_owner
   \<Rightarrow> address option \<Rightarrow> prepared_transfer_ownership result" where
  "prepareTransferOwnership K reads programId payer walletPda secp256r1 newOwner refundDestination =
     rbind (resolveOwnerFields K newOwner) (\<lambda>f.
     rbind (findAuthorityPda K walletPda (of_credentialOrPubkey f) programId) (\<lambda>(newOwnerAuthorityPda, _).
     let refundDest = (case refundDestination of Some a \<Rightarrow> a | None \<Rightarrow> payer) in
     rbind (resolveSecp256r1 K reads programId walletPda secp256r1) (\<lambda>r.
     rbind (buildDataPayloadForTransfer (of_authType f) (of_credentialOrPubkey f) (of_secp256r1Pubkey f)
              (of_rpId f)) (\<lambda>dataPayload.
     rbind (concatBytes [dataPayload, k_encAddr K payer, k_encAddr K refundDest]) (\<lambda>signedPayload.
     rbind (buildPasskeySigning K programId DISC_TRANSFER_OWNERSHIP SYSVAR_IX_INDEX_TRANSFER_OWNERSHIP
              signedPayload (rs_slot r) (rs_counter r) payer walletPda (rs_publicKeyBytes r) None) (\<lambda>signing.
     Inr \<lparr>pto_challenge = ps_challenge signing, pto_signing = signing, pto_payer = payer,
          pto_walletPda = walletPda, pto_currentOwnerAuthorityPda = rs_authorityPda r,
          pto_newOwnerAuthorityPda = newOwnerAuthorityPda, pto_refundDestination = refundDest,
          pto_newType = of_authType f, pto_credentialOrPubkey = of_credentialOrPubkey f,
          pto_secp256r1Pubkey = of_secp256r1Pubkey f, pto_rpId = of_rpId f, pto_programId = programId\<rparr>))))))"

definition finalizeTransferOwnership ::
  "prepared_transfer_ownership \<Rightarrow> webauthn_response \<Rightarrow> (instruction list \<times> address) result" where
  "finalizeTransferOwnership i response =
     rbind (finalizeSecp256r1 (pto_signing i) response) (\<lambda>(authPayload, precompileIx).
     rbind (createTransferOwnershipIx (pto_payer i) (pto_walletPda i) (pto_currentOwnerAuthorityPda i)
              (pto_newOwnerAuthorityPda i) (pto_refundDestination i) (pto_newType i) (pto_credentialOrPubkey i)
              (pto_secp256r1Pubkey i) (pto_rpId i) (Some authPayload) None (pto_programId i)) (\<lambda>ix.
     Inr ([precompileIx, ix], pto_newOwnerAuthorityPda i)))"

section \<open>Sessions\<close>

record prepared_create_session =
  pcs_challenge :: bytes
  pcs_signing :: prepared_secp256r1
  pcs_payer :: address
  pcs_walletPda :: address
  pcs_adminAuthorityPda :: address
  pcs_sessionPda :: address
  pcs_sessionKey :: bytes
  pcs_expiresAt :: int
  pcs_actionsBuffer :: "bytes option"
  pcs_programId :: address

definition session_actions_buffer :: "kit \<Rightarrow> session_action list option \<Rightarrow> bytes option result" where
  "session_actions_buffer K actions =
     (case actions of
        Some as \<Rightarrow> if length as > 0 then rbind (serializeActions K as) (\<lambda>b. Inr (Some b)) else Inr None
      | None \<Rightarrow> Inr None)"

definition prepareCreateSession ::
  "kit \<Rightarrow> challenge_reads \<Rightarrow> address \<Rightarrow> address \<Rightarrow> address \<Rightarrow> secp256r1_params \<Rightarrow> address \<Rightarrow> int
   \<Rightarrow> session_action list option \<Rightarrow> bool option \<Rightarrow> prepared_create_session result" where
  "prepareCreateSession K reads programId payer walletPda secp256r1 sessionKey expiresAt actions unrestricted =
     rbind (assertSessionActions actions unrestricted) (\<lambda>_.
     let sessionKeyBytes = k_encAddr K sessionKey in
     rbind (findSessionPda K walletPda sessionKeyBytes programId) (\<lambda>(sessionPda, _).
     rbind (resolveSecp256r1 K reads programId walletPda secp256r1) (\<lambda>r.
     rbind (session_actions_buffer K actions) (\<lambda>actionsBuffer.
     rbind (buildDataPayloadForSession sessionKeyBytes expiresAt actionsBuffer) (\<lambda>dataPayload.
     rbind (concatBytes [dataPayload, k_encAddr K payer]) (\<lambda>signedPayload.
     rbind (buildPasskeySigning K programId DISC_CREATE_SESSION SYSVAR_IX_INDEX_CREATE_SESSION signedPayload
              (rs_slot r) (rs_counter r) payer walletPda (rs_publicKeyBytes r) None) (\<lambda>signing.
     Inr \<lparr>pcs_challenge = ps_challenge signing, pcs_signing = signing, pcs_payer = payer,
          pcs_walletPda = walletPda, pcs_adminAuthorityPda = rs_authorityPda r, pcs_sessionPda = sessionPda,
          pcs_sessionKey = sessionKeyBytes, pcs_expiresAt = expiresAt, pcs_actionsBuffer = actionsBuffer,
          pcs_programId = programId\<rparr>)))))))"

definition finalizeCreateSession ::
  "prepared_create_session \<Rightarrow> webauthn_response \<Rightarrow> (instruction list \<times> address) result" where
  "finalizeCreateSession i response =
     rbind (finalizeSecp256r1 (pcs_signing i) response) (\<lambda>(authPayload, precompileIx).
     rbind (createCreateSessionIx (pcs_payer i) (pcs_walletPda i) (pcs_adminAuthorityPda i) (pcs_sessionPda i)
              (pcs_sessionKey i) (pcs_expiresAt i) (pcs_actionsBuffer i) (Some authPayload) None (pcs_programId i)) (\<lambda>ix.
     Inr ([precompileIx, ix], pcs_sessionPda i)))"

record prepared_revoke_session =
  prs_challenge :: bytes
  prs_signing :: prepared_secp256r1
  prs_payer :: address
  prs_walletPda :: address
  prs_adminAuthorityPda :: address
  prs_sessionPda :: address
  prs_refundDestination :: address
  prs_programId :: address

definition prepareRevokeSession ::
  "kit \<Rightarrow> challenge_reads \<Rightarrow> address \<Rightarrow> address \<Rightarrow> address \<Rightarrow> secp256r1_params \<Rightarrow> address \<Rightarrow> address option
   \<Rightarrow> prepared_revoke_session result" where
  "prepareRevokeSession K reads programId payer walletPda secp256r1 sessionPda refundDestination =
     (let refundDest = (case refundDestination of Some a \<Rightarrow> a | None \<Rightarrow> payer) in
      rbind (resolveSecp256r1 K reads programId walletPda secp256r1) (\<lambda>r.
      rbind (concatBytes [k_encAddr K sessionPda, k_encAddr K refundDest]) (\<lambda>signedPayload.
      rbind (buildPasskeySigning K programId DISC_REVOKE_SESSION SYSVAR_IX_INDEX_REVOKE_SESSION signedPayload
               (rs_slot r) (rs_counter r) payer walletPda (rs_publicKeyBytes r) None) (\<lambda>signing.
      Inr \<lparr>prs_challenge = ps_challenge signing, prs_signing = signing, prs_payer = payer,
           prs_walletPda = walletPda, prs_adminAuthorityPda = rs_authorityPda r, prs_sessionPda = sessionPda,
           prs_refundDestination = refundDest, prs_programId = programId\<rparr>))))"

definition finalizeRevokeSession ::
  "prepared_revoke_session \<Rightarrow> webauthn_response \<Rightarrow> instruction list result" where
  "finalizeRevokeSession i response =
     rbind (finalizeSecp256r1 (prs_signing i) response) (\<lambda>(authPayload, precompileIx).
     rbind (createRevokeSessionIx (prs_payer i) (prs_walletPda i) (prs_adminAuthorityPda i) (prs_sessionPda i)
              (prs_refundDestination i) (Some authPayload) None (prs_programId i)) (\<lambda>ix.
     Inr [precompileIx, ix]))"

section \<open>Execution\<close>

record prepared_execute =
  pex_challenge :: bytes
  pex_signing :: prepared_secp256r1
  pex_payer :: address
  pex_walletPda :: address
  pex_authorityPda :: address
  pex_vaultPda :: address
  pex_packed :: bytes
  pex_remainingAccounts :: "account_meta list"
  pex_protocolFee :: "protocol_fee_accounts option"
  pex_registerIx :: "instruction option"
  pex_programId :: address

text \<open>
  The challenge reads and the fee resolution run beside each other; here the challenge reads come
  first. \<open>fee\<close> is what the fee resolution returned.
\<close>

definition prepareExecute ::
  "kit \<Rightarrow> challenge_reads \<Rightarrow> fee_resolution option result \<Rightarrow> address \<Rightarrow> address \<Rightarrow> address
   \<Rightarrow> secp256r1_params \<Rightarrow> instruction list \<Rightarrow> address option \<Rightarrow> prepared_execute result" where
  "prepareExecute K reads fee programId payer walletPda secp256r1 instructions feePayer =
     rbind (findVaultPda K walletPda programId) (\<lambda>(vaultPda, _).
     rbind (resolveSecp256r1 K reads programId walletPda secp256r1) (\<lambda>r.
     rbind fee (\<lambda>fee.
     let fixedAccounts = [meta payer WRITABLE_SIGNER, meta walletPda READONLY,
           meta (rs_authorityPda r) WRITABLE, meta vaultPda WRITABLE, meta SYSVAR_INSTRUCTIONS_ADDRESS READONLY] in
     rbind (buildCompactLayoutAndHash K fixedAccounts instructions payer feePayer) (\<lambda>l.
     rbind (packCompactInstructions (cly_compactInstructions l)) (\<lambda>packed.
     rbind (concatBytes [packed, cly_accountsHash l]) (\<lambda>signedPayload.
     rbind (buildPasskeySigning K programId DISC_EXECUTE SYSVAR_IX_INDEX_EXECUTE signedPayload
              (rs_slot r) (rs_counter r) payer walletPda (rs_publicKeyBytes r) None) (\<lambda>signing.
     Inr \<lparr>pex_challenge = ps_challenge signing, pex_signing = signing, pex_payer = payer,
          pex_walletPda = walletPda, pex_authorityPda = rs_authorityPda r, pex_vaultPda = vaultPda,
          pex_packed = packed, pex_remainingAccounts = cly_remainingAccounts l,
          pex_protocolFee = map_option fr_accounts fee,
          pex_registerIx = (case fee of Some f \<Rightarrow> fr_registerIx f | None \<Rightarrow> None),
          pex_programId = programId\<rparr>)))))))"

definition finalizeExecute :: "prepared_execute \<Rightarrow> webauthn_response \<Rightarrow> instruction list result" where
  "finalizeExecute i response =
     rbind (finalizeSecp256r1 (pex_signing i) response) (\<lambda>(authPayload, precompileIx).
     rbind (createExecuteIx (pex_payer i) (pex_walletPda i) (pex_authorityPda i) (pex_vaultPda i) (pex_packed i)
              (Some authPayload) None (Some (pex_remainingAccounts i)) (pex_protocolFee i) (pex_programId i)) (\<lambda>ix.
     Inr ((case pex_registerIx i of Some reg \<Rightarrow> [reg, precompileIx] | None \<Rightarrow> [precompileIx]) @ [ix])))"

record deferred_payload =
  dp_walletPda :: address
  dp_deferredExecPda :: address
  dp_compactInstructions :: "compact_instruction list"
  dp_remainingAccounts :: "account_meta list"
  dp_executor :: "address option"
  dp_refundDestination :: "address option"

record prepared_authorize =
  paz_challenge :: bytes
  paz_signing :: prepared_secp256r1
  paz_counter :: int
  paz_payer :: address
  paz_executor :: address
  paz_walletPda :: address
  paz_authorityPda :: address
  paz_deferredExecPda :: address
  paz_instructionsHash :: bytes
  paz_accountsHash :: bytes
  paz_expiryOffset :: int
  paz_compactInstructions :: "compact_instruction list"
  paz_remainingAccounts :: "account_meta list"
  paz_programId :: address

definition deferred_fixed_accounts ::
  "address \<Rightarrow> address \<Rightarrow> address \<Rightarrow> address \<Rightarrow> address \<Rightarrow> account_meta list" where
  "deferred_fixed_accounts executor walletPda vaultPda deferredExecPda refund =
     [meta executor WRITABLE_SIGNER, meta walletPda READONLY, meta vaultPda WRITABLE,
      meta deferredExecPda WRITABLE, meta refund WRITABLE]"

definition prepareAuthorize ::
  "kit \<Rightarrow> challenge_reads \<Rightarrow> address \<Rightarrow> address \<Rightarrow> address \<Rightarrow> secp256r1_params \<Rightarrow> instruction list
   \<Rightarrow> int option \<Rightarrow> address option \<Rightarrow> address option \<Rightarrow> prepared_authorize result" where
  "prepareAuthorize K reads programId payer walletPda secp256r1 instructions expiryOffset executor feePayer =
     rbind (findVaultPda K walletPda programId) (\<lambda>(vaultPda, _).
     rbind (resolveSecp256r1 K reads programId walletPda secp256r1) (\<lambda>r.
     let expiryOffset = (case expiryOffset of Some e \<Rightarrow> e | None \<Rightarrow> 300) in
     rbind (findDeferredExecPda K walletPda (rs_authorityPda r) (rs_counter r) programId) (\<lambda>(deferredExecPda, _).
     let executor = (case executor of Some e \<Rightarrow> e | None \<Rightarrow> payer);
         fixedAccounts = deferred_fixed_accounts executor walletPda vaultPda deferredExecPda payer in
     rbind (buildCompactLayoutAndHash K fixedAccounts instructions executor feePayer) (\<lambda>l.
     rbind (computeInstructionsHash K (cly_compactInstructions l)) (\<lambda>instructionsHash.
     let expiryOffsetBuf = u8_put (u8_put (u8_zeros 2) 0 (expiryOffset AND 0xff)) 1 (drop_bit 8 expiryOffset AND 0xff) in
     rbind (concatBytes [instructionsHash, cly_accountsHash l, expiryOffsetBuf]) (\<lambda>signedPayload.
     rbind (buildPasskeySigning K programId DISC_AUTHORIZE SYSVAR_IX_INDEX_AUTHORIZE signedPayload
              (rs_slot r) (rs_counter r) payer walletPda (rs_publicKeyBytes r) None) (\<lambda>signing.
     Inr \<lparr>paz_challenge = ps_challenge signing, paz_signing = signing, paz_counter = rs_counter r,
          paz_payer = payer, paz_executor = executor, paz_walletPda = walletPda,
          paz_authorityPda = rs_authorityPda r, paz_deferredExecPda = deferredExecPda,
          paz_instructionsHash = instructionsHash, paz_accountsHash = cly_accountsHash l,
          paz_expiryOffset = expiryOffset, paz_compactInstructions = cly_compactInstructions l,
          paz_remainingAccounts = cly_remainingAccounts l, paz_programId = programId\<rparr>)))))))"

definition finalizeAuthorize ::
  "prepared_authorize \<Rightarrow> webauthn_response
   \<Rightarrow> (instruction list \<times> address \<times> int \<times> deferred_payload) result" where
  "finalizeAuthorize i response =
     rbind (finalizeSecp256r1 (paz_signing i) response) (\<lambda>(authPayload, precompileIx).
     rbind (createAuthorizeIx (paz_payer i) (paz_walletPda i) (paz_authorityPda i) (paz_deferredExecPda i)
              (paz_instructionsHash i) (paz_accountsHash i) (paz_expiryOffset i) authPayload (paz_programId i)) (\<lambda>ix.
     Inr ([precompileIx, ix], paz_deferredExecPda i, paz_counter i,
          \<lparr>dp_walletPda = paz_walletPda i, dp_deferredExecPda = paz_deferredExecPda i,
           dp_compactInstructions = paz_compactInstructions i, dp_remainingAccounts = paz_remainingAccounts i,
           dp_executor = Some (paz_executor i), dp_refundDestination = Some (paz_payer i)\<rparr>)))"

definition executeDeferredFromPayload ::
  "kit \<Rightarrow> fee_resolution option result \<Rightarrow> address \<Rightarrow> address \<Rightarrow> deferred_payload \<Rightarrow> address option
   \<Rightarrow> instruction list result" where
  "executeDeferredFromPayload K fee programId payer deferredPayload refundDestination =
     (if (case dp_executor deferredPayload of Some e \<Rightarrow> e \<noteq> payer | None \<Rightarrow> False)
          \<and> namesDeferredPayerSlot (dp_compactInstructions deferredPayload)
      then Inl (Error ''This authorization was signed for another key to send ExecuteDeferred'')
      else
        rbind (findVaultPda K (dp_walletPda deferredPayload) programId) (\<lambda>(vaultPda, _).
        let refundDest = (case refundDestination of Some a \<Rightarrow> a | None \<Rightarrow>
              (case dp_refundDestination deferredPayload of Some a \<Rightarrow> a | None \<Rightarrow> payer)) in
        rbind (packCompactInstructions (dp_compactInstructions deferredPayload)) (\<lambda>packed.
        rbind fee (\<lambda>fee.
        rbind (createExecuteDeferredIx payer (dp_walletPda deferredPayload) vaultPda
                 (dp_deferredExecPda deferredPayload) refundDest packed
                 (Some (dp_remainingAccounts deferredPayload)) (map_option fr_accounts fee) programId) (\<lambda>ix.
        Inr (case fee of
               Some f \<Rightarrow> (case fr_registerIx f of Some reg \<Rightarrow> [reg, ix] | None \<Rightarrow> [ix])
             | None \<Rightarrow> [ix]))))))"

definition reclaimDeferred :: "address \<Rightarrow> address \<Rightarrow> address \<Rightarrow> address option \<Rightarrow> instruction list" where
  "reclaimDeferred programId payer deferredExecPda refundDestination =
     [createReclaimDeferredIx payer deferredExecPda
        (case refundDestination of Some a \<Rightarrow> a | None \<Rightarrow> payer) programId]"

end
