(* ===== verification/Verdict.thy ===== *)
theory Verdict
  imports Passkey
begin

text \<open>
  The program's verdict on a finalized passkey transaction. \<open>program_verdict\<close> runs the entrypoint's
  dispatch, the handler's split and \<open>authenticate\<close> over the last instruction of a transaction with
  the one before it as the precompile instruction; privileges are the runtime's,
  the union over the instruction's own list and the fee payer. Each flow of the
  client is interpreted as a \<open>passkey_operation\<close>, and each property says: whatever WebAuthn says
  about the prepared challenge, the program says about the finalized transaction.
\<close>

section \<open>Dispatch\<close>

definition program_dispatch ::
  "kit \<Rightarrow> byte \<Rightarrow> account_info list \<Rightarrow> bytes \<Rightarrow> (bytes \<times> bytes) result" where
  "program_dispatch K disc infos instruction_data =
     (if disc = 1 then process_add_authority infos instruction_data
      else if disc = 2 then process_remove_authority infos instruction_data
      else if disc = 3 then process_transfer_ownership infos instruction_data
      else if disc = 4 then process_execute K infos instruction_data
      else if disc = 5 then process_create_session infos instruction_data
      else if disc = 6 then process_authorize infos instruction_data
      else if disc = 9 then process_revoke_session infos instruction_data
      else if disc = 17 then process_migrate infos instruction_data
      else Inl (ProgramError ''InvalidInstructionData''))"

text \<open>
  The commercial binary strips the four fee accounts of instructions 0, 4 and 7, the last of them
  the system program, before the handler sees the list; the foundation binary does not. The fee's
  collection from the accounts' stored state is left out.
\<close>

definition processor_accounts :: "bool \<Rightarrow> byte \<Rightarrow> account_meta list \<Rightarrow> account_meta list result" where
  "processor_accounts fee_layer disc metas =
     (if fee_layer \<and> disc \<in> {0, 4, 7} then
        if length metas < 5 then Inl (ProgramError ''FeeAccountsRequired'')
        else if am_address (last metas) \<noteq> SYSTEM_PROGRAM_ADDRESS
        then Inl (ProgramError ''FeeAccountsRequired'')
        else Inr (take (length metas - 4) metas)
      else Inr metas)"

definition program_verdict ::
  "kit \<Rightarrow> bool \<Rightarrow> (bytes \<Rightarrow> bytes \<Rightarrow> bytes \<Rightarrow> unit result) \<Rightarrow> int \<Rightarrow> address option \<Rightarrow> secp_authority
   \<Rightarrow> instruction list \<Rightarrow> int result" where
  "program_verdict K fee_layer webauthn current_slot feePayer auth instructions =
     (case rev instructions of
        ix # prev # _ \<Rightarrow>
          (case data_of ix of
             [] \<Rightarrow> Inl (ProgramError ''InvalidInstructionData'')
           | disc # body \<Rightarrow>
               rbind (processor_accounts fee_layer disc (withRuntimeRoles (accounts_of ix) feePayer)) (\<lambda>metas.
               rbind (program_dispatch K disc (infos_of K metas) body) (\<lambda>(signed, ap).
               authenticate K webauthn current_slot (Some prev) (infos_of K metas) auth ap signed [disc]
                 (k_encAddr K (ix_program ix)))))
      | _ \<Rightarrow> Inl (AuthError ''InvalidInstruction''))"

section \<open>Accounts the handlers read\<close>

lemma payer_key_runtime:
  "role_signer r \<Longrightarrow> payer_key (infos_of K (withRuntimeRoles (meta p r # ms) fp)) = Inr (k_encAddr K p)"
  by (simp add: payer_key_def withRuntimeRoles_eq info_of_def meta_def asks_signer_def role_of_bits)

lemma key_at_runtime:
  "i < length ms \<Longrightarrow> key_at (infos_of K (withRuntimeRoles ms fp)) i = Inr (k_encAddr K (am_address (ms ! i)))"
  by (simp add: key_at_def info_of_def withRuntimeRoles_nth)

lemma am_address_meta [simp]: "am_address (meta a r) = a" "am_role (meta a r) = r"
  by (simp_all add: meta_def)

section \<open>Key material on the wire\<close>

definition key_wf :: "int \<Rightarrow> bytes \<Rightarrow> bytes option \<Rightarrow> string option \<Rightarrow> bool" where
  "key_wf ty cred pk rpId \<longleftrightarrow> length cred = 32 \<and> \<not> is_all_zero cred \<and>
     (ty = 0 \<or>
      ty = 1 \<and> (case (pk, rpId) of
        (Some k, Some r) \<Rightarrow> length k = 33 \<and> \<not> is_all_zero k \<and> r \<noteq> [] \<and> length r \<le> 253
      | _ \<Rightarrow> False))"

lemma key_bytes_ed25519: "key_bytes 0 cred pk rpId = cred"
  by (simp add: key_bytes_def key_parts_def AUTH_TYPE_SECP256R1_def split: option.splits)

lemma key_bytes_secp:
  "r \<noteq> [] \<Longrightarrow> key_bytes 1 cred (Some k) (Some r) = cred @ k @ [word_of_int (int (length r))] @ utf8 r"
  by (simp add: key_bytes_def key_parts_def AUTH_TYPE_SECP256R1_def)

lemma secp_key_len_ok:
  assumes "length cred = 32" "length k = 33" "r \<noteq> []" "length r \<le> 253"
  shows "secp_key_len (cred @ k @ [word_of_int (int (length r))] @ utf8 r @ rest) = Inr (66 + length r)"
proof -
  have "(cred @ k @ [word_of_int (int (length r))] @ utf8 r @ rest) ! 65 = word_of_int (int (length r))"
    using assms(1,2) by (simp add: nth_append)
  moreover have "unat (word_of_int (int (length r)) :: byte) = length r"
    using assms(4) by (simp add: unat_byte_of_nat)
  ultimately show ?thesis using assms by (simp add: secp_key_len_def Let_def)
qed

lemma key_lens:
  assumes "key_wf ty cred pk rpId"
  shows "add_key_len (word_of_int ty) (key_bytes ty cred pk rpId @ rest) = Inr (length (key_bytes ty cred pk rpId))"
    and "transfer_key_len (word_of_int ty) (key_bytes ty cred pk rpId @ rest) = Inr (length (key_bytes ty cred pk rpId))"
    and "take 32 (key_bytes ty cred pk rpId @ rest) = cred"
proof -
  have c: "length cred = 32" "\<not> is_all_zero cred" using assms by (auto simp: key_wf_def)
  consider "ty = 0" | k r where "ty = 1" "pk = Some k" "rpId = Some r" "length k = 33" "\<not> is_all_zero k"
      "r \<noteq> []" "length r \<le> 253"
    using assms by (auto simp: key_wf_def split: option.splits)
  then have "add_key_len (word_of_int ty) (key_bytes ty cred pk rpId @ rest) = Inr (length (key_bytes ty cred pk rpId))
    \<and> transfer_key_len (word_of_int ty) (key_bytes ty cred pk rpId @ rest) = Inr (length (key_bytes ty cred pk rpId))
    \<and> take 32 (key_bytes ty cred pk rpId @ rest) = cred"
  proof cases
    case 1
    then show ?thesis using c by (simp add: key_bytes_ed25519 add_key_len_def transfer_key_len_def)
  next
    case 2
    have "u8_slice (cred @ k @ [word_of_int (int (length r))] @ utf8 r @ rest) 32 65 = k"
      by (rule u8_slice_append_exact) (simp_all add: c 2)
    then show ?thesis
      using c 2 secp_key_len_ok [OF c(1) 2(4,6,7), of rest]
      by (simp add: key_bytes_secp add_key_len_def transfer_key_len_def)
  qed
  then show "add_key_len (word_of_int ty) (key_bytes ty cred pk rpId @ rest) = Inr (length (key_bytes ty cred pk rpId))"
    "transfer_key_len (word_of_int ty) (key_bytes ty cred pk rpId @ rest) = Inr (length (key_bytes ty cred pk rpId))"
    "take 32 (key_bytes ty cred pk rpId @ rest) = cred" by simp_all
qed

section \<open>The handlers' splits\<close>

lemma add_policy_split:
  assumes "data = pre @ le_bytes 2 (int (length policy)) @ policy @ rest" "length policy \<le> 2048"
  shows "add_policy data (length pre) = Inr (policy, length pre + 2 + length policy)"
proof -
  let ?l = "le_bytes 2 (int (length policy))"
  have "u8_slice data (length pre) (length pre + 2) = ?l"
    using u8_slice_append_exact [of pre "length pre" ?l "length pre + 2"] assms(1) by simp
  moreover have "u8_slice data (length pre + 2) (length pre + 2 + length policy) = policy"
    using u8_slice_append_exact [of "pre @ ?l" "length pre + 2" policy "length pre + 2 + length policy" rest] assms(1)
    by simp
  moreover have "nat (le_val ?l) = length policy" using assms(2) by (simp add: le_val_le_bytes)
  ultimately show ?thesis
    using assms by (simp add: add_policy_def Let_def MAX_POLICY_BUFFER_SIZE_def)
qed

definition policy_wf :: "bytes \<Rightarrow> bool" where
  "policy_wf policy \<longleftrightarrow> length policy \<le> 2048 \<and> (policy = [] \<or> is_ok (validate_actions_buffer policy))"

lemma add_split:
  fixes role :: int
  assumes key: "key_wf ty cred pk rpId" and pol: "policy_wf policy" and payer: "payer_key infos = Inr payer"
  defines "region \<equiv> u8_of [ty, role] @ u8_zeros 6 @ key_bytes ty cred pk rpId
      @ le_bytes 2 (int (length policy)) @ policy"
  shows "process_add_authority infos (region @ ap) = Inr (region @ payer, ap)"
proof -
  let ?key = "key_bytes ty cred pk rpId"
  let ?pre = "u8_of [ty, role] @ u8_zeros 6 @ ?key"
  have pre: "length ?pre = 8 + length ?key" by simp
  have d: "drop 8 (region @ ap) = ?key @ (le_bytes 2 (int (length policy)) @ policy @ ap)"
    "(region @ ap) ! 0 = word_of_int ty" by (simp_all add: region_def)
  have ap: "add_policy (region @ ap) (8 + length ?key) = Inr (policy, 8 + length ?key + 2 + length policy)"
    using add_policy_split [of "region @ ap" ?pre policy ap] pol unfolding pre
    by (simp add: region_def policy_wf_def)
  have reg: "length region = 8 + length ?key + 2 + length policy" by (simp add: region_def)
  have v: "(if policy \<noteq> [] then validate_actions_buffer policy else Inr ()) = Inr ()"
    using pol by (auto simp: policy_wf_def is_ok_iff)
  have g: "\<not> length (region @ ap) < 8" "\<not> length (region @ ap) < 8 + length ?key" by (simp_all add: reg)
  show ?thesis
    unfolding process_add_authority_def if_not_P [OF g(1)] d key_lens(1) [OF key] rbind_Inr if_not_P [OF g(2)]
      ap split v payer
    by (simp add: reg)
qed

lemma transfer_split:
  assumes key: "key_wf ty cred pk rpId" and payer: "payer_key infos = Inr payer" "key_at infos 4 = Inr refund"
  defines "region \<equiv> u8_of [ty] @ key_bytes ty cred pk rpId"
  shows "process_transfer_ownership infos (region @ ap) = Inr (region @ payer @ refund, ap)"
proof -
  let ?key = "key_bytes ty cred pk rpId"
  have d: "drop 1 (region @ ap) = ?key @ ap" "(region @ ap) ! 0 = word_of_int ty" by (simp_all add: region_def)
  have reg: "length region = 1 + length ?key" by (simp add: region_def)
  have g: "\<not> region @ ap = []" "\<not> length (region @ ap) < 1 + length ?key" "\<not> is_all_zero cred"
    using key by (auto simp: reg region_def key_wf_def)
  show ?thesis
    unfolding process_transfer_ownership_def if_not_P [OF g(1)] d key_lens(2,3) [OF key] rbind_Inr
      if_not_P [OF g(2)] if_not_P [OF g(3)] payer
    by (simp add: reg)
qed

lemma session_split:
  fixes expiry :: int
  assumes "length key = 32" "policy_wf actions" "payer_key infos = Inr payer"
  defines "region \<equiv> key @ le_bytes 8 expiry @ le_bytes 2 (int (length actions)) @ actions"
  shows "process_create_session infos (region @ ap) = Inr (region @ payer, ap)"
proof -
  let ?l = "le_bytes 2 (int (length actions))"
  have b: "region @ ap = (key @ le_bytes 8 expiry) @ ?l @ (actions @ ap)"
    "region @ ap = (key @ le_bytes 8 expiry @ ?l) @ actions @ ap" by (simp_all add: region_def)
  have "u8_slice (region @ ap) 40 42 = ?l"
    unfolding b(1) by (rule u8_slice_append_exact) (simp_all add: assms(1))
  then have n: "nat (le_val (u8_slice (region @ ap) 40 42)) = length actions"
    using assms(2) by (simp add: le_val_le_bytes policy_wf_def)
  have a: "u8_slice (region @ ap) 42 (42 + length actions) = actions"
    unfolding b(2) by (rule u8_slice_append_exact) (simp_all add: assms(1))
  have reg: "length region = 42 + length actions" by (simp add: region_def assms(1))
  have "session_args_end (region @ ap) = Inr (42 + length actions)"
    unfolding session_args_end_def Let_def n a
    using assms(2) by (auto simp: reg policy_wf_def is_ok_iff)
  then show ?thesis by (simp add: process_create_session_def assms(3) flip: reg)
qed

lemma authorize_split:
  assumes "length ih = 32" "length ah = 32" "10 \<le> expiry" "expiry \<le> 9000" "payer_key infos = Inr payer"
  defines "region \<equiv> ih @ ah @ le_bytes 2 expiry"
  shows "process_authorize infos (region @ ap) = Inr (region, ap)"
proof -
  have b: "region @ ap = [] @ ih @ (ah @ le_bytes 2 expiry @ ap)" "region @ ap = ih @ ah @ (le_bytes 2 expiry @ ap)"
    "region @ ap = (ih @ ah) @ le_bytes 2 expiry @ ap" by (simp_all add: region_def)
  have "u8_slice (region @ ap) 0 32 = ih" unfolding b(1) by (rule u8_slice_append_exact) (simp_all add: assms)
  moreover have "u8_slice (region @ ap) 32 64 = ah" unfolding b(2) by (rule u8_slice_append_exact) (simp_all add: assms)
  moreover have "u8_slice (region @ ap) 64 66 = le_bytes 2 expiry"
    unfolding b(3) by (rule u8_slice_append_exact) (simp_all add: assms)
  moreover have "length region = 66" by (simp add: region_def assms)
  moreover have "le_val (le_bytes 2 expiry) = expiry" using assms(3,4) by (simp add: le_val_le_bytes)
  ultimately show ?thesis
    using assms(3-5) by (simp add: process_authorize_def Let_def) (simp add: region_def)
qed

lemma execute_split:
  assumes "packCompactInstructions ixs = Inr packed" "list_all compact_wf ixs"
    and "length ixs \<le> MAX_COMPACT_INSTRUCTIONS" "payer_key infos = Inr payer"
    and "accounts_hash_preimage infos (map to_ref ixs) = Inr preimage"
  shows "process_execute K infos (packed @ ap) = Inr (packed @ k_sha256 K preimage, ap)"
  using pack_parse [OF assms(2,3,1), of ap] assms(4,5) by (simp add: process_execute_def)

section \<open>The flows as instances\<close>

text \<open>
  For each flow, what its prepared record says: the account list of the instruction it will build,
  the body after the discriminator, the region the challenge covers, and the conditions the program
  puts on the arguments.
\<close>

definition add_metas :: "prepared_add_authority \<Rightarrow> account_meta list" where
  "add_metas i = [meta (paa_payer i) SIGNER_RO, meta (paa_walletPda i) RW, meta (paa_adminAuthorityPda i) RW,
     meta (paa_newAuthorityPda i) RW, meta SYSTEM_PROGRAM_ADDRESS RO, meta SYSVAR_RENT_ADDRESS RO,
     meta SYSVAR_INSTRUCTIONS_ADDRESS RO]"

definition add_region :: "prepared_add_authority \<Rightarrow> bytes" where
  "add_region i = u8_of [paa_newType i, paa_newRole i] @ u8_zeros 6
     @ key_bytes (paa_newType i) (paa_credentialOrPubkey i) (paa_secp256r1Pubkey i) (paa_rpId i)
     @ le_bytes 2 (int (length (opt_bytes (paa_policy i)))) @ opt_bytes (paa_policy i)"

definition add_wf :: "prepared_add_authority \<Rightarrow> bool" where
  "add_wf i \<longleftrightarrow> key_wf (paa_newType i) (paa_credentialOrPubkey i) (paa_secp256r1Pubkey i) (paa_rpId i)
     \<and> policy_wf (opt_bytes (paa_policy i))"

interpretation add_flow: passkey_operation K DISC_ADD_AUTHORITY SYSVAR_IX_INDEX_ADD_AUTHORITY paa_payer
    "\<lambda>i. withRuntimeRoles (add_metas i) fp" "\<lambda>i ap. add_region i @ ap"
    "\<lambda>i. add_region i @ k_encAddr K (paa_payer i)" process_add_authority add_wf
  for K fp
proof unfold_locales
  fix i ap
  show payer: "payer_key (infos_of K (withRuntimeRoles (add_metas i) fp)) = Inr (k_encAddr K (paa_payer i))"
    by (simp add: add_metas_def payer_key_runtime role_signer_def)
  assume "add_wf i"
  then show "process_add_authority (infos_of K (withRuntimeRoles (add_metas i) fp)) (add_region i @ ap) =
      Inr (add_region i @ k_encAddr K (paa_payer i), ap)"
    unfolding add_wf_def add_region_def by (elim conjE) (rule add_split [OF _ _ payer])
qed (simp_all add: sysvar_idx_defs add_metas_def withRuntimeRoles_nth)

definition transfer_metas :: "prepared_transfer_ownership \<Rightarrow> account_meta list" where
  "transfer_metas i = [meta (pto_payer i) SIGNER_RO, meta (pto_walletPda i) RO,
     meta (pto_currentOwnerAuthorityPda i) RW, meta (pto_newOwnerAuthorityPda i) RW,
     meta (pto_refundDestination i) RW, meta SYSTEM_PROGRAM_ADDRESS RO, meta SYSVAR_RENT_ADDRESS RO,
     meta SYSVAR_INSTRUCTIONS_ADDRESS RO]"

definition transfer_region :: "prepared_transfer_ownership \<Rightarrow> bytes" where
  "transfer_region i = u8_of [pto_newType i]
     @ key_bytes (pto_newType i) (pto_credentialOrPubkey i) (pto_secp256r1Pubkey i) (pto_rpId i)"

definition transfer_wf :: "prepared_transfer_ownership \<Rightarrow> bool" where
  "transfer_wf i \<longleftrightarrow> key_wf (pto_newType i) (pto_credentialOrPubkey i) (pto_secp256r1Pubkey i) (pto_rpId i)"

interpretation transfer_flow: passkey_operation K DISC_TRANSFER_OWNERSHIP SYSVAR_IX_INDEX_TRANSFER_OWNERSHIP
    pto_payer "\<lambda>i. withRuntimeRoles (transfer_metas i) fp" "\<lambda>i ap. transfer_region i @ ap"
    "\<lambda>i. transfer_region i @ k_encAddr K (pto_payer i) @ k_encAddr K (pto_refundDestination i)"
    process_transfer_ownership transfer_wf
  for K fp
proof unfold_locales
  fix i ap
  show payer: "payer_key (infos_of K (withRuntimeRoles (transfer_metas i) fp)) = Inr (k_encAddr K (pto_payer i))"
    by (simp add: transfer_metas_def payer_key_runtime role_signer_def)
  have refund: "key_at (infos_of K (withRuntimeRoles (transfer_metas i) fp)) 4 = Inr (k_encAddr K (pto_refundDestination i))"
    by (subst key_at_runtime) (simp_all add: transfer_metas_def)
  assume "transfer_wf i"
  then show "process_transfer_ownership (infos_of K (withRuntimeRoles (transfer_metas i) fp)) (transfer_region i @ ap) =
      Inr (transfer_region i @ k_encAddr K (pto_payer i) @ k_encAddr K (pto_refundDestination i), ap)"
    unfolding transfer_wf_def transfer_region_def by (rule transfer_split [OF _ payer refund])
qed (simp_all add: sysvar_idx_defs transfer_metas_def withRuntimeRoles_nth)

definition remove_metas :: "prepared_remove_authority \<Rightarrow> account_meta list" where
  "remove_metas i = [meta (pra_payer i) SIGNER_RO, meta (pra_walletPda i) RW, meta (pra_adminAuthorityPda i) RW,
     meta (pra_targetAuthorityPda i) RW, meta (pra_refundDestination i) RW, meta SYSVAR_INSTRUCTIONS_ADDRESS RO]"

interpretation remove_flow: passkey_operation K DISC_REMOVE_AUTHORITY SYSVAR_IX_INDEX_REMOVE_AUTHORITY
    pra_payer "\<lambda>i. withRuntimeRoles (remove_metas i) fp" "\<lambda>i ap. ap"
    "\<lambda>i. k_encAddr K (pra_targetAuthorityPda i) @ k_encAddr K (pra_refundDestination i)"
    process_remove_authority "\<lambda>_. True"
  for K fp
proof unfold_locales
  fix i ap
  show payer: "payer_key (infos_of K (withRuntimeRoles (remove_metas i) fp)) = Inr (k_encAddr K (pra_payer i))"
    by (simp add: remove_metas_def payer_key_runtime role_signer_def)
  show "process_remove_authority (infos_of K (withRuntimeRoles (remove_metas i) fp)) ap =
      Inr (k_encAddr K (pra_targetAuthorityPda i) @ k_encAddr K (pra_refundDestination i), ap)"
    unfolding process_remove_authority_def payer rbind_Inr
    by (simp add: key_at_runtime remove_metas_def)
qed (simp_all add: sysvar_idx_defs remove_metas_def withRuntimeRoles_nth)

definition session_metas :: "prepared_create_session \<Rightarrow> account_meta list" where
  "session_metas i = [meta (pcs_payer i) SIGNER_RO, meta (pcs_walletPda i) RO, meta (pcs_adminAuthorityPda i) RW,
     meta (pcs_sessionPda i) RW, meta SYSTEM_PROGRAM_ADDRESS RO, meta SYSVAR_RENT_ADDRESS RO,
     meta SYSVAR_INSTRUCTIONS_ADDRESS RO]"

definition session_region :: "prepared_create_session \<Rightarrow> bytes" where
  "session_region i = pcs_sessionKey i @ le_bytes 8 (pcs_expiresAt i)
     @ le_bytes 2 (int (length (opt_bytes (pcs_actionsBuffer i)))) @ opt_bytes (pcs_actionsBuffer i)"

definition session_wf :: "prepared_create_session \<Rightarrow> bool" where
  "session_wf i \<longleftrightarrow> length (pcs_sessionKey i) = 32 \<and> policy_wf (opt_bytes (pcs_actionsBuffer i))"

interpretation session_flow: passkey_operation K DISC_CREATE_SESSION SYSVAR_IX_INDEX_CREATE_SESSION
    pcs_payer "\<lambda>i. withRuntimeRoles (session_metas i) fp" "\<lambda>i ap. session_region i @ ap"
    "\<lambda>i. session_region i @ k_encAddr K (pcs_payer i)" process_create_session session_wf
  for K fp
proof unfold_locales
  fix i ap
  show payer: "payer_key (infos_of K (withRuntimeRoles (session_metas i) fp)) = Inr (k_encAddr K (pcs_payer i))"
    by (simp add: session_metas_def payer_key_runtime role_signer_def)
  assume "session_wf i"
  then show "process_create_session (infos_of K (withRuntimeRoles (session_metas i) fp)) (session_region i @ ap) =
      Inr (session_region i @ k_encAddr K (pcs_payer i), ap)"
    unfolding session_wf_def session_region_def by (elim conjE) (rule session_split [OF _ _ payer])
qed (simp_all add: sysvar_idx_defs session_metas_def withRuntimeRoles_nth)

definition revoke_metas :: "prepared_revoke_session \<Rightarrow> account_meta list" where
  "revoke_metas i = [meta (prs_payer i) SIGNER_RO, meta (prs_walletPda i) RO, meta (prs_adminAuthorityPda i) RW,
     meta (prs_sessionPda i) RW, meta (prs_refundDestination i) RW, meta SYSVAR_INSTRUCTIONS_ADDRESS RO]"

interpretation revoke_flow: passkey_operation K DISC_REVOKE_SESSION SYSVAR_IX_INDEX_REVOKE_SESSION
    prs_payer "\<lambda>i. withRuntimeRoles (revoke_metas i) fp" "\<lambda>i ap. ap"
    "\<lambda>i. k_encAddr K (prs_sessionPda i) @ k_encAddr K (prs_refundDestination i)"
    process_revoke_session "\<lambda>_. True"
  for K fp
proof unfold_locales
  fix i ap
  show payer: "payer_key (infos_of K (withRuntimeRoles (revoke_metas i) fp)) = Inr (k_encAddr K (prs_payer i))"
    by (simp add: revoke_metas_def payer_key_runtime role_signer_def)
  show "process_revoke_session (infos_of K (withRuntimeRoles (revoke_metas i) fp)) ap =
      Inr (k_encAddr K (prs_sessionPda i) @ k_encAddr K (prs_refundDestination i), ap)"
    unfolding process_revoke_session_def payer rbind_Inr
    by (simp add: key_at_runtime revoke_metas_def)
qed (simp_all add: sysvar_idx_defs revoke_metas_def withRuntimeRoles_nth)

definition authorize_metas :: "prepared_authorize \<Rightarrow> account_meta list" where
  "authorize_metas i = [meta (paz_payer i) SIGNER_RW, meta (paz_walletPda i) RO, meta (paz_authorityPda i) RW,
     meta (paz_deferredExecPda i) RW, meta SYSTEM_PROGRAM_ADDRESS RO, meta SYSVAR_RENT_ADDRESS RO,
     meta SYSVAR_INSTRUCTIONS_ADDRESS RO]"

definition authorize_region :: "prepared_authorize \<Rightarrow> bytes" where
  "authorize_region i = paz_instructionsHash i @ paz_accountsHash i @ le_bytes 2 (paz_expiryOffset i)"

definition authorize_wf :: "prepared_authorize \<Rightarrow> bool" where
  "authorize_wf i \<longleftrightarrow> length (paz_instructionsHash i) = 32 \<and> length (paz_accountsHash i) = 32
     \<and> 10 \<le> paz_expiryOffset i \<and> paz_expiryOffset i \<le> 9000"

interpretation authorize_flow: passkey_operation K DISC_AUTHORIZE SYSVAR_IX_INDEX_AUTHORIZE
    paz_payer "\<lambda>i. withRuntimeRoles (authorize_metas i) fp" "\<lambda>i ap. authorize_region i @ ap"
    authorize_region process_authorize authorize_wf
  for K fp
proof unfold_locales
  fix i ap
  show payer: "payer_key (infos_of K (withRuntimeRoles (authorize_metas i) fp)) = Inr (k_encAddr K (paz_payer i))"
    by (simp add: authorize_metas_def payer_key_runtime role_signer_def)
  assume "authorize_wf i"
  then show "process_authorize (infos_of K (withRuntimeRoles (authorize_metas i) fp)) (authorize_region i @ ap) =
      Inr (authorize_region i, ap)"
    unfolding authorize_wf_def authorize_region_def by (elim conjE) (rule authorize_split [OF _ _ _ _ payer])
qed (simp_all add: sysvar_idx_defs authorize_metas_def withRuntimeRoles_nth)

section \<open>From prepare to verdict\<close>

text \<open>The chain agrees with what the reads returned: the authority holds the key, one less than the
  counter to sign, and the wallet; the slot is recent.\<close>

definition chain_ok :: "kit \<Rightarrow> secp_resolved \<Rightarrow> address \<Rightarrow> int \<Rightarrow> secp_authority \<Rightarrow> bool" where
  "chain_ok K r walletPda current_slot auth \<longleftrightarrow>
     0 \<le> rs_slot r \<and> rs_slot r < 2 ^ 64 \<and> rs_slot r \<le> current_slot \<and> current_slot - rs_slot r < MAX_SLOT_AGE
     \<and> 0 \<le> rs_counter r \<and> rs_counter r < 2 ^ 32 \<and> length (rs_publicKeyBytes r) = 33
     \<and> auth = \<lparr>sa_wallet = k_encAddr K walletPda, sa_counter = rs_counter r - 1, sa_pubkey = rs_publicKeyBytes r\<rparr>"

definition owner_wf :: "kit \<Rightarrow> create_wallet_owner \<Rightarrow> bool" where
  "owner_wf K owner = (case owner of
     OwnerEd25519 p \<Rightarrow> k_isAddress K p | OwnerSecp256r1 _ _ rpId \<Rightarrow> rpId \<noteq> [] \<and> length rpId \<le> 253)"

text \<open>The program's answer on a transaction is WebAuthn's answer on the challenge.\<close>

definition accepts_as_signed ::
  "kit \<Rightarrow> bool \<Rightarrow> (bytes \<Rightarrow> bytes \<Rightarrow> bytes \<Rightarrow> unit result) \<Rightarrow> int \<Rightarrow> address option \<Rightarrow> secp_authority
   \<Rightarrow> bytes \<Rightarrow> webauthn_response \<Rightarrow> int \<Rightarrow> instruction list \<Rightarrow> bool" where
  "accepts_as_signed K fee_layer webauthn current_slot fp auth challenge response counter instructions \<longleftrightarrow>
     program_verdict K fee_layer webauthn current_slot fp auth instructions =
       rbind (webauthn challenge (wr_authenticatorData response) (wr_clientDataJson response)) (\<lambda>_. Inr counter)"

lemma verdict_last_two:
  assumes "ix_data ix = Some (d # body)" "ix_accounts ix = Some ms"
    and "processor_accounts fee_layer d (withRuntimeRoles ms fp) = Inr ms'"
  shows "program_verdict K fee_layer webauthn slot fp auth (pre @ [prev, ix]) =
    rbind (program_dispatch K d (infos_of K ms') body) (\<lambda>(signed, ap).
      authenticate K webauthn slot (Some prev) (infos_of K ms') auth ap signed [d] (k_encAddr K (ix_program ix)))"
  using assms by (simp add: program_verdict_def data_of_def accounts_of_def)

lemma no_fee_disc: "d \<notin> {0, 4, 7} \<Longrightarrow> processor_accounts fl d ms = Inr ms"
  by (simp add: processor_accounts_def)

lemma resolved_key_wf:
  assumes "address_codec K" "resolveOwnerFields K owner = Inr f" "owner_wf K owner"
  shows "key_wf (of_authType f) (of_credentialOrPubkey f) (of_secp256r1Pubkey f) (of_rpId f)"
proof -
  have "owner = OwnerEd25519 p \<Longrightarrow> k_isAddress K p" for p using assms(3) by (simp add: owner_wf_def)
  note r = resolveOwnerFields_keys [OF assms(1,2) this]
  show ?thesis
  proof (cases owner)
    case (OwnerEd25519 p)
    then have "of_authType f = 0" using assms(2) by (auto simp: rbind_eq_Inr AUTH_TYPE_ED25519_def)
    then show ?thesis using r(1,2) by (simp add: key_wf_def is_all_zero_def)
  next
    case (OwnerSecp256r1 c k rp)
    then have "of_authType f = 1 \<and> of_rpId f = Some rp" using assms(2)
      by (auto simp: rbind_eq_Inr AUTH_TYPE_SECP256R1_def)
    then show ?thesis using r assms(3) OwnerSecp256r1 by (auto simp: key_wf_def is_all_zero_def owner_wf_def)
  qed
qed

context passkey_operation
begin

text \<open>One instance, from the prepared signing to the verdict on the transaction.\<close>

lemma flow_accepted:
  assumes "sha256_32 K" "wf p" "response_wf K response" and chain: "chain_ok K r wallet current_slot auth"
    and prep: "prepareSecp256r1 K (u8_of [disc]) (region p) idx (rs_slot r) (rs_counter r) (payer p) wallet programId
      (rs_publicKeyBytes r) = Inr signing"
    and disp: "\<And>infos b. program_dispatch K (word_of_int disc) infos b = handler infos b"
    and pa: "processor_accounts fee_layer (word_of_int disc) (withRuntimeRoles ms feePayer) = Inr (accounts p)"
  shows "\<exists>ap pre. finalizeSecp256r1 signing response = Inr (ap, pre)
    \<and> accepts_as_signed K fee_layer webauthn current_slot feePayer auth (ps_challenge signing) response (rs_counter r)
      (hd_ixs @ [pre, \<lparr>ix_program = programId, ix_accounts = Some ms,
        ix_data = Some (word_of_int disc # body p ap)\<rparr>])"
proof -
  have ch: "0 \<le> rs_slot r" "rs_slot r < 2 ^ 64" "rs_slot r \<le> current_slot" "current_slot - rs_slot r < MAX_SLOT_AGE"
    "0 \<le> rs_counter r" "rs_counter r < 2 ^ 32" and pk: "length (rs_publicKeyBytes r) = 33"
    and au: "auth = \<lparr>sa_wallet = k_encAddr K wallet, sa_counter = rs_counter r - 1, sa_pubkey = rs_publicKeyBytes r\<rparr>"
    using chain by (simp_all add: chain_ok_def)
  obtain ap pre where fin: "finalizeSecp256r1 signing response = Inr (ap, pre)"
    and ver: "rbind (handler (infos_of K (accounts p)) (body p ap)) (\<lambda>(signed, ap').
        authenticate K webauthn current_slot (Some pre) (infos_of K (accounts p)) auth ap' signed
          (u8_of [disc]) (k_encAddr K programId))
      = rbind (webauthn (ps_challenge signing) (wr_authenticatorData response) (wr_clientDataJson response))
          (\<lambda>_. Inr (rs_counter r))"
    using authenticated [OF assms(1-3) ch au pk prep] by blast
  let ?ix = "\<lparr>ix_program = programId, ix_accounts = Some ms, ix_data = Some (word_of_int disc # body p ap)\<rparr>"
  have "accepts_as_signed K fee_layer webauthn current_slot feePayer auth (ps_challenge signing) response (rs_counter r)
      (hd_ixs @ [pre, ?ix])"
    using ver verdict_last_two [of ?ix "word_of_int disc" "body p ap" ms fee_layer feePayer "accounts p" K webauthn current_slot auth hd_ixs pre]
    by (simp add: accepts_as_signed_def pa disp)
  then show ?thesis using fin by blast
qed

end

text \<open>
  C17. Adding an authority with a passkey. If the chain agrees with the reads the challenge was made
  from, then for an owner with a usable rp id and a policy the program's own validator accepts,
  every prepared \<open>AddAuthority\<close> finalizes with any well-formed authenticator response into a
  transaction on which the program's verdict is exactly WebAuthn's verdict on the prepared
  challenge: same signed region, same sysvar position, same counter, key and precompile message.
\<close>

theorem addAuthority_accepted_as_signed:
  assumes K: "address_codec K" "sha256_32 K" and resp: "response_wf K response"
    and r: "resolveSecp256r1 K reads programId walletPda secp256r1 = Inr r"
    and chain: "chain_ok K r walletPda current_slot auth"
    and owner: "owner_wf K newAuthority" and pol: "policy_wf (opt_bytes policy)"
    and prep: "prepareAddAuthority K reads programId payer walletPda secp256r1 newAuthority role policy allowOwner = Inr p"
  shows "\<exists>instructions newPda. finalizeAddAuthority p response = Inr (instructions, newPda)
    \<and> accepts_as_signed K fee_layer webauthn current_slot fp auth (paa_challenge p) response (rs_counter r) instructions"
proof -
  obtain f pda bump where f: "resolveOwnerFields K newAuthority = Inr f"
    and pda: "findAuthorityPda K walletPda (of_credentialOrPubkey f) programId = Inr (pda, bump)"
    using prep by (auto simp: prepareAddAuthority_def rbind_eq_Inr)
  have p: "add_wf p" "paa_payer p = payer" "paa_programId p = programId"
      "paa_challenge p = ps_challenge (paa_signing p)"
      "prepareSecp256r1 K (u8_of [DISC_ADD_AUTHORITY]) (add_region p @ k_encAddr K (paa_payer p))
        SYSVAR_IX_INDEX_ADD_AUTHORITY (rs_slot r) (rs_counter r) (paa_payer p) walletPda programId
        (rs_publicKeyBytes r) = Inr (paa_signing p)"
    using prep f pda r resolved_key_wf [OF K(1) f owner] pol
    by (auto simp: prepareAddAuthority_def rbind_eq_Inr buildDataPayloadForAdd_eq buildPasskeySigning_def
        add_wf_def add_region_def)
  obtain ap pre where fin: "finalizeSecp256r1 (paa_signing p) response = Inr (ap, pre)"
    and acc: "accepts_as_signed K fee_layer webauthn current_slot fp auth (ps_challenge (paa_signing p)) response
      (rs_counter r) ([] @ [pre, \<lparr>ix_program = programId, ix_accounts = Some (add_metas p),
        ix_data = Some (word_of_int DISC_ADD_AUTHORITY # add_region p @ ap)\<rparr>])"
    using add_flow.flow_accepted [OF K(2) p(1) resp chain p(5), where fee_layer = fee_layer and ms = "add_metas p"
        and feePayer = fp and fp = fp and webauthn = webauthn and hd_ixs = "[]"]
    by (auto simp: program_dispatch_def no_fee_disc DISC_ADD_AUTHORITY_def)
  have "finalizeAddAuthority p response = Inr ([pre, \<lparr>ix_program = programId, ix_accounts = Some (add_metas p),
        ix_data = Some (word_of_int DISC_ADD_AUTHORITY # add_region p @ ap)\<rparr>], paa_newAuthorityPda p)"
    by (simp add: finalizeAddAuthority_def fin createAddAuthorityIx_def dv_set_zeros append_authorizer_def
        add_metas_def add_region_def key_bytes_def opt_bytes_def p(3) Let_def)
  then show ?thesis using acc p(4) by simp
qed

text \<open>Concrete inputs for the witnesses of the flows.\<close>

definition w_addr :: "char \<Rightarrow> address" where "w_addr c = replicate 32 c"

definition w_reads :: challenge_reads where
  "w_reads _ _ = Inr (replicate 33 2, 100, 6)"

definition w_params :: secp256r1_params where
  "w_params = \<lparr>sp_credentialIdHash = replicate 32 3, sp_publicKeyBytes = None, sp_authorityPda = None,
     sp_slotOverride = None, sp_minContextSlot = None, sp_commitment = None\<rparr>"

definition w_resolved :: secp_resolved where
  "w_resolved = \<lparr>rs_authorityPda = SEED_AUTHORITY @ w_addr CHR ''w'' @ replicate 32 (byte_char 3),
     rs_publicKeyBytes = replicate 33 2, rs_slot = 100, rs_counter = 6\<rparr>"

definition w_auth :: secp_authority where
  "w_auth = \<lparr>sa_wallet = k_encAddr sample_kit (w_addr CHR ''w''), sa_counter = 5, sa_pubkey = replicate 33 2\<rparr>"

definition w_response :: webauthn_response where
  "w_response = \<lparr>wr_signature = replicate 64 5, wr_authenticatorData = replicate 37 1,
     wr_clientDataJsonHash = k_sha256 sample_kit [123, 125], wr_clientDataJson = [123, 125]\<rparr>"

lemma w_resolves: "resolveSecp256r1 sample_kit w_reads p (w_addr CHR ''w'') w_params = Inr w_resolved"
  by (simp add: resolveSecp256r1_def w_params_def w_reads_def w_resolved_def assertByteLength_def
      findAuthorityPda_def sample_kit_def utf8_def comp_def)

lemma w_chain: "chain_ok sample_kit w_resolved (w_addr CHR ''w'') 120 w_auth"
  by (simp add: chain_ok_def w_resolved_def w_auth_def MAX_SLOT_AGE_def)

lemma w_response_wf: "response_wf sample_kit w_response"
  by (simp add: response_wf_def w_response_def)

lemmas w_facts = sample_kit_laws(1,3) w_response_wf w_resolves w_chain

theorem addAuthority_accepted_as_signed_witness:
  "\<exists>p instructions pda. prepareAddAuthority sample_kit w_reads (w_addr CHR ''q'') (w_addr CHR ''p'') (w_addr CHR ''w'')
      w_params (OwnerSecp256r1 (replicate 32 8) (replicate 33 9) ''app'') 1 None None = Inr p
    \<and> finalizeAddAuthority p w_response = Inr (instructions, pda)
    \<and> program_verdict sample_kit False (\<lambda>_ _ _. Inr ()) 120 None w_auth instructions = Inr 6"
proof -
  let ?o = "OwnerSecp256r1 (replicate 32 8) (replicate 33 9) ''app''"
  have "is_ok (prepareAddAuthority sample_kit w_reads (w_addr CHR ''q'') (w_addr CHR ''p'') (w_addr CHR ''w'')
      w_params ?o 1 None None)"
    by (simp add: prepareAddAuthority_def w_resolves assertAddAuthorityRole_def ROLE_OWNER_def ROLE_SPENDER_def
        assertByteLength_def assertNonZeroBytes_def findAuthorityPda_def buildDataPayloadForAdd_eq
        buildPasskeySigning_def prepareSecp256r1_eq list_all_iff)
      (simp add: sample_kit_def)
  then obtain p where p: "prepareAddAuthority sample_kit w_reads (w_addr CHR ''q'') (w_addr CHR ''p'') (w_addr CHR ''w'')
      w_params ?o 1 None None = Inr p" by (auto simp: is_ok_iff)
  have o: "owner_wf sample_kit ?o" "policy_wf (opt_bytes None)" by (simp_all add: owner_wf_def policy_wf_def opt_bytes_def)
  show ?thesis
    using addAuthority_accepted_as_signed [OF w_facts o p, of False "\<lambda>_ _ _. Inr ()" None] p
    by (auto simp: accepts_as_signed_def w_resolved_def)
qed

text \<open>
  Removing an authority with a passkey: as for adding one, the program's verdict on the
  finalized transaction is WebAuthn's verdict on the prepared challenge, which names the target and
  the rent's destination (the payer when none was given).
\<close>

theorem removeAuthority_accepted_as_signed:
  assumes K: "address_codec K" "sha256_32 K" and resp: "response_wf K response"
    and r: "resolveSecp256r1 K reads programId walletPda secp256r1 = Inr r"
    and chain: "chain_ok K r walletPda current_slot auth"
    and prep: "prepareRemoveAuthority K reads programId payer walletPda secp256r1 target refund = Inr p"
  shows "\<exists>instructions. finalizeRemoveAuthority p response = Inr instructions
    \<and> accepts_as_signed K fee_layer webauthn current_slot fp auth (pra_challenge p) response (rs_counter r) instructions"
proof -
  have p: "pra_programId p = programId" "pra_challenge p = ps_challenge (pra_signing p)"
      "prepareSecp256r1 K (u8_of [DISC_REMOVE_AUTHORITY])
        (k_encAddr K (pra_targetAuthorityPda p) @ k_encAddr K (pra_refundDestination p))
        SYSVAR_IX_INDEX_REMOVE_AUTHORITY (rs_slot r) (rs_counter r) (pra_payer p) walletPda programId
        (rs_publicKeyBytes r) = Inr (pra_signing p)"
    using prep r by (auto simp: prepareRemoveAuthority_def rbind_eq_Inr buildPasskeySigning_def Let_def)
  obtain ap pre where fin: "finalizeSecp256r1 (pra_signing p) response = Inr (ap, pre)"
    and acc: "accepts_as_signed K fee_layer webauthn current_slot fp auth (ps_challenge (pra_signing p)) response
      (rs_counter r) ([] @ [pre, \<lparr>ix_program = programId, ix_accounts = Some (remove_metas p),
        ix_data = Some (word_of_int DISC_REMOVE_AUTHORITY # ap)\<rparr>])"
    using remove_flow.flow_accepted [OF K(2) TrueI resp chain p(3), where fee_layer = fee_layer and ms = "remove_metas p"
        and feePayer = fp and fp = fp and webauthn = webauthn and hd_ixs = "[]"]
    by (auto simp: program_dispatch_def no_fee_disc DISC_REMOVE_AUTHORITY_def)
  have "finalizeRemoveAuthority p response = Inr [pre, \<lparr>ix_program = programId, ix_accounts = Some (remove_metas p),
        ix_data = Some (word_of_int DISC_REMOVE_AUTHORITY # ap)\<rparr>]"
    by (simp add: finalizeRemoveAuthority_def fin createRemoveAuthorityIx_def append_authorizer_def remove_metas_def p(1))
  then show ?thesis using acc p(2) by simp
qed

theorem removeAuthority_accepted_as_signed_witness:
  "\<exists>p instructions. prepareRemoveAuthority sample_kit w_reads (w_addr CHR ''q'') (w_addr CHR ''p'') (w_addr CHR ''w'')
      w_params (w_addr CHR ''t'') None = Inr p
    \<and> finalizeRemoveAuthority p w_response = Inr instructions
    \<and> program_verdict sample_kit True (\<lambda>_ _ _. Inr ()) 120 None w_auth instructions = Inr 6"
proof -
  obtain p where p: "prepareRemoveAuthority sample_kit w_reads (w_addr CHR ''q'') (w_addr CHR ''p'') (w_addr CHR ''w'')
      w_params (w_addr CHR ''t'') None = Inr p"
    by (simp add: prepareRemoveAuthority_def w_resolves buildPasskeySigning_def prepareSecp256r1_eq Let_def)
  show ?thesis
    using removeAuthority_accepted_as_signed [OF w_facts p, of True "\<lambda>_ _ _. Inr ()" None] p
    by (auto simp: accepts_as_signed_def w_resolved_def)
qed

text \<open>
  Transferring ownership with a passkey: the program's verdict on the finalized transaction is
  WebAuthn's verdict on the prepared challenge, for every new owner with a usable rp id.
\<close>

theorem transferOwnership_accepted_as_signed:
  assumes K: "address_codec K" "sha256_32 K" and resp: "response_wf K response"
    and r: "resolveSecp256r1 K reads programId walletPda secp256r1 = Inr r"
    and chain: "chain_ok K r walletPda current_slot auth" and owner: "owner_wf K newOwner"
    and prep: "prepareTransferOwnership K reads programId payer walletPda secp256r1 newOwner refund = Inr p"
  shows "\<exists>instructions newPda. finalizeTransferOwnership p response = Inr (instructions, newPda)
    \<and> accepts_as_signed K fee_layer webauthn current_slot fp auth (pto_challenge p) response (rs_counter r) instructions"
proof -
  obtain f pda bump where f: "resolveOwnerFields K newOwner = Inr f"
    and pda: "findAuthorityPda K walletPda (of_credentialOrPubkey f) programId = Inr (pda, bump)"
    using prep by (auto simp: prepareTransferOwnership_def rbind_eq_Inr)
  have p: "transfer_wf p" "pto_programId p = programId" "pto_challenge p = ps_challenge (pto_signing p)"
      "prepareSecp256r1 K (u8_of [DISC_TRANSFER_OWNERSHIP])
        (transfer_region p @ k_encAddr K (pto_payer p) @ k_encAddr K (pto_refundDestination p))
        SYSVAR_IX_INDEX_TRANSFER_OWNERSHIP (rs_slot r) (rs_counter r) (pto_payer p) walletPda programId
        (rs_publicKeyBytes r) = Inr (pto_signing p)"
    using prep f pda r resolved_key_wf [OF K(1) f owner]
    by (auto simp: prepareTransferOwnership_def rbind_eq_Inr buildDataPayloadForTransfer_eq buildPasskeySigning_def
        transfer_wf_def transfer_region_def Let_def)
  obtain ap pre where fin: "finalizeSecp256r1 (pto_signing p) response = Inr (ap, pre)"
    and acc: "accepts_as_signed K fee_layer webauthn current_slot fp auth (ps_challenge (pto_signing p)) response
      (rs_counter r) ([] @ [pre, \<lparr>ix_program = programId, ix_accounts = Some (transfer_metas p),
        ix_data = Some (word_of_int DISC_TRANSFER_OWNERSHIP # transfer_region p @ ap)\<rparr>])"
    using transfer_flow.flow_accepted [OF K(2) p(1) resp chain p(4), where fee_layer = fee_layer and ms = "transfer_metas p"
        and feePayer = fp and fp = fp and webauthn = webauthn and hd_ixs = "[]"]
    by (auto simp: program_dispatch_def no_fee_disc DISC_TRANSFER_OWNERSHIP_def)
  have "finalizeTransferOwnership p response = Inr ([pre, \<lparr>ix_program = programId, ix_accounts = Some (transfer_metas p),
        ix_data = Some (word_of_int DISC_TRANSFER_OWNERSHIP # transfer_region p @ ap)\<rparr>], pto_newOwnerAuthorityPda p)"
    by (simp add: finalizeTransferOwnership_def fin createTransferOwnershipIx_def append_authorizer_def
        transfer_metas_def transfer_region_def key_bytes_def p(2))
  then show ?thesis using acc p(3) by simp
qed

theorem transferOwnership_accepted_as_signed_witness:
  "\<exists>p instructions pda. prepareTransferOwnership sample_kit w_reads (w_addr CHR ''q'') (w_addr CHR ''p'') (w_addr CHR ''w'')
      w_params (OwnerEd25519 (w_addr CHR ''n'')) None = Inr p
    \<and> finalizeTransferOwnership p w_response = Inr (instructions, pda)
    \<and> program_verdict sample_kit True (\<lambda>_ _ _. Inr ()) 120 None w_auth instructions = Inr 6"
proof -
  let ?o = "OwnerEd25519 (w_addr CHR ''n'')"
  obtain p where p: "prepareTransferOwnership sample_kit w_reads (w_addr CHR ''q'') (w_addr CHR ''p'') (w_addr CHR ''w'')
      w_params ?o None = Inr p"
    by (simp add: prepareTransferOwnership_def w_resolves buildPasskeySigning_def prepareSecp256r1_eq Let_def
        assertNonZeroBytes_def findAuthorityPda_def buildDataPayloadForTransfer_eq list_all_iff)
      (simp add: sample_kit_def w_addr_def)
  have o: "owner_wf sample_kit ?o" by (simp add: owner_wf_def sample_kit_def w_addr_def)
  show ?thesis
    using transferOwnership_accepted_as_signed [OF w_facts o p, of True "\<lambda>_ _ _. Inr ()" None] p
    by (auto simp: accepts_as_signed_def w_resolved_def)
qed

end
