(* ===== verification/SessionFlows.thy ===== *)
theory SessionFlows
  imports Verdict
begin

text \<open>
  The passkey flows on session keys: creating one with its policy and revoking it. As for the
  authority flows, the properties relate the record \<open>prepare*\<close> returned to the program's verdict on
  what \<open>finalize*\<close> makes of it.
\<close>

section \<open>Serialized policies are within the program's limits\<close>

lemma length_action_bytes_le: "address_codec K \<Longrightarrow> action_wf K a \<Longrightarrow> length (wire_action K a) \<le> 75"
  using length_action_bytes [of K a] expected_data_size_le [of "kind_of a"]
  by (simp add: length_wire_action ACTION_HEADER_SIZE_def)

lemma length_serialized:
  "address_codec K \<Longrightarrow> list_all (action_wf K) as \<Longrightarrow> length (concat (map (wire_action K) as)) \<le> 75 * length as"
proof (induction as)
  case (Cons a as)
  then show ?case using length_action_bytes_le [of K a] by simp
qed simp

definition session_policy_ok :: "kit \<Rightarrow> session_action list option \<Rightarrow> bool" where
  "session_policy_ok K actions \<longleftrightarrow> (case actions of
     Some as \<Rightarrow> list_all (action_wf K) as \<and> policy_ok as | None \<Rightarrow> True)"

lemma session_buffer_wf:
  assumes "address_codec K" "uint_codecs K" "session_policy_ok K actions"
    and "session_actions_buffer K actions = Inr buf"
  shows "policy_wf (opt_bytes buf)"
proof (cases "buf = None")
  case True
  then show ?thesis by (simp add: opt_bytes_def policy_wf_def)
next
  case False
  then obtain as b where as: "actions = Some as" "as \<noteq> []" "buf = Some b" "serializeActions K as = Inr b"
    using assms(4) by (auto simp: session_actions_buffer_def rbind_eq_Inr split: option.splits if_splits)
  have wf: "list_all (action_wf K) as" "policy_ok as" using assms(3) as(1) by (simp_all add: session_policy_ok_def)
  then have am: "list_all amounts_ok as" by (auto simp: list_all_iff action_wf_def)
  have b: "b = concat (map (wire_action K) as)" using as(4) serializeActions_ok [OF assms(2) am] by simp
  have n: "length as \<le> MAX_ACTIONS" using wf(2) by (simp add: policy_ok_def)
  have "length b \<le> 2048"
    using length_serialized [OF assms(1) wf(1)] n b by (simp add: MAX_ACTIONS_def)
  moreover have "is_ok (validate_actions_buffer b)" using validate_views [OF assms(1) wf(1) b as(2) n] wf(2) by simp
  ultimately show ?thesis using as(3) by (simp add: policy_wf_def opt_bytes_def)
qed

section \<open>Creating a session\<close>



section \<open>Revoking a session\<close>

text \<open>
  Revoking a session with a passkey: the challenge names the session and the rent's
  destination, and the program's verdict on the finalized transaction is WebAuthn's verdict on it.
\<close>

theorem revokeSession_accepted_as_signed:
  assumes K: "address_codec K" "sha256_32 K" and resp: "response_wf K response"
    and r: "resolveSecp256r1 K reads programId walletPda secp256r1 = Inr r"
    and chain: "chain_ok K r walletPda current_slot auth"
    and prep: "prepareRevokeSession K reads programId payer walletPda secp256r1 sessionPda refund = Inr p"
  shows "\<exists>instructions. finalizeRevokeSession p response = Inr instructions
    \<and> accepts_as_signed K fee_layer webauthn current_slot fp auth (prs_challenge p) response (rs_counter r) instructions"
proof -
  have p: "prs_programId p = programId" "prs_challenge p = ps_challenge (prs_signing p)"
      "prepareSecp256r1 K (u8_of [DISC_REVOKE_SESSION])
        (k_encAddr K (prs_sessionPda p) @ k_encAddr K (prs_refundDestination p))
        SYSVAR_IX_INDEX_REVOKE_SESSION (rs_slot r) (rs_counter r) (prs_payer p) walletPda programId
        (rs_publicKeyBytes r) = Inr (prs_signing p)"
    using prep r by (auto simp: prepareRevokeSession_def rbind_eq_Inr buildPasskeySigning_def Let_def)
  obtain ap pre where fin: "finalizeSecp256r1 (prs_signing p) response = Inr (ap, pre)"
    and acc: "accepts_as_signed K fee_layer webauthn current_slot fp auth (ps_challenge (prs_signing p)) response
      (rs_counter r) ([] @ [pre, \<lparr>ix_program = programId, ix_accounts = Some (revoke_metas p),
        ix_data = Some (word_of_int DISC_REVOKE_SESSION # ap)\<rparr>])"
    using revoke_flow.flow_accepted [OF K(2) TrueI resp chain p(3), where fee_layer = fee_layer and ms = "revoke_metas p"
        and feePayer = fp and fp = fp and webauthn = webauthn and hd_ixs = "[]"]
    by (auto simp: program_dispatch_def no_fee_disc DISC_REVOKE_SESSION_def)
  have "finalizeRevokeSession p response = Inr [pre, \<lparr>ix_program = programId, ix_accounts = Some (revoke_metas p),
        ix_data = Some (word_of_int DISC_REVOKE_SESSION # ap)\<rparr>]"
    by (simp add: finalizeRevokeSession_def fin createRevokeSessionIx_def append_authorizer_def revoke_metas_def p(1))
  then show ?thesis using acc p(2) by simp
qed

theorem revokeSession_accepted_as_signed_witness:
  "\<exists>p instructions. prepareRevokeSession sample_kit w_reads (w_addr CHR ''q'') (w_addr CHR ''p'') (w_addr CHR ''w'')
      w_params (w_addr CHR ''s'') (Some (w_addr CHR ''r'')) = Inr p
    \<and> finalizeRevokeSession p w_response = Inr instructions
    \<and> program_verdict sample_kit True (\<lambda>_ _ _. Inr ()) 120 None w_auth instructions = Inr 6"
proof -
  obtain p where p: "prepareRevokeSession sample_kit w_reads (w_addr CHR ''q'') (w_addr CHR ''p'') (w_addr CHR ''w'')
      w_params (w_addr CHR ''s'') (Some (w_addr CHR ''r'')) = Inr p"
    by (simp add: prepareRevokeSession_def w_resolves buildPasskeySigning_def prepareSecp256r1_eq Let_def)
  show ?thesis
    using revokeSession_accepted_as_signed [OF w_facts p, of True "\<lambda>_ _ _. Inr ()" None] p
    by (auto simp: accepts_as_signed_def w_resolved_def)
qed

end
