(* ===== verification/ExecuteFlows.thy ===== *)
theory ExecuteFlows
  imports Verdict
begin

text \<open>
  Execution with a passkey: immediate (\<open>prepareExecute\<close>, \<open>finalizeExecute\<close>) and deferred
  (\<open>prepareAuthorize\<close>, \<open>finalizeAuthorize\<close>, then \<open>executeDeferredFromPayload\<close>). The challenge covers
  a hash over the runtime's privileges of every account the inner instructions name, so the
  properties are about the account list of the final instruction, the fee suffix included. The
  program's \<open>ExecuteDeferred\<close> handler is translated up to the CPIs it invokes, which are its result.
\<close>

section \<open>Compaction fits the wire format\<close>

definition inner_fits :: "instruction \<Rightarrow> bool" where
  "inner_fits ix \<longleftrightarrow> length (accounts_of ix) < 256 \<and> length (data_of ix) < 65536"

definition inner_ok :: "instruction list \<Rightarrow> bool" where
  "inner_ok ixs \<longleftrightarrow> list_all inner_fits ixs \<and> length ixs \<le> MAX_COMPACT_INSTRUCTIONS"

lemma compact_one_wf:
  assumes "compact_one im payer ix = Inr ci" "inner_fits ix"
  shows "compact_wf ci"
proof -
  obtain i p as where p: "encodeAccountIndex i False = Inr p"
    and as: "rmap (compact_account im payer) (accounts_of ix) = Inr as"
    and ci: "ci = \<lparr>programIdIndex = p, accountIndexes = as, ci_data = data_of ix\<rparr>"
    using assms(1) by (auto simp: compact_one_def rbind_eq_Inr)
  have "p = i" using p by (simp add: encodeAccountIndex_def split: if_splits)
  moreover have "length as = length (accounts_of ix)"
    using as by (auto simp: rmap_Inr_iff dest: list_all2_lengthD)
  ultimately show ?thesis
    using encode_decode_index(2,3) [OF p] assms(2) ci by (simp add: compact_wf_def inner_fits_def)
qed

lemma buildCompactLayout_wf:
  assumes "buildCompactLayout fixed ixs payer = Inr (cis, remaining)" "inner_ok ixs"
  shows "list_all compact_wf cis" "length cis \<le> MAX_COMPACT_INSTRUCTIONS"
proof -
  have c: "list_all2 (\<lambda>ix ci. compact_one (layout_index fixed (new_accounts fixed ixs)) payer ix = Inr ci) ixs cis"
    using assms(1) by (auto simp: buildCompactLayout_eq rbind_eq_Inr rmap_Inr_iff)
  then have "list_all2 (\<lambda>ix ci. inner_fits ix \<longrightarrow> compact_wf ci) ixs cis"
    by (rule list_all2_mono) (simp add: compact_one_wf)
  then show "list_all compact_wf cis"
    using assms(2) by (auto simp: inner_ok_def list_all_length list_all2_conv_all_nth)
  show "length cis \<le> MAX_COMPACT_INSTRUCTIONS" using list_all2_lengthD [OF c] assms(2) by (simp add: inner_ok_def)
qed

text \<open>A layout that was built is hashed: every index it holds is in the table.\<close>

lemma compact_one_indexes:
  assumes "compact_one (layout_index fixed extra) payer ix = Inr ci"
    and "b \<in> set (programIdIndex ci # accountIndexes ci)"
  shows "fst (decodeAccountIndex b) < int (length (fixed @ extra))"
proof -
  obtain a i fwd where i: "index_of (layout_index fixed extra) a = Inr i" and b: "encodeAccountIndex i fwd = Inr b"
    using assms by (auto simp: compact_one_def compact_account_def rbind_eq_Inr rmap_Inr_iff in_set_conv_nth
        list_all2_conv_all_nth)
  have "i < int (length (fixed @ extra))"
    using i layout_index_val [of fixed extra a] by (auto simp: index_of_def split: option.splits)
  then show ?thesis using encode_decode_index(1) [OF b] by simp
qed

lemma layout_hash_ok:
  assumes "buildCompactLayout fixed ixs payer = Inr (cis, remaining)"
    and "length metas = length fixed + length remaining"
  shows "\<exists>h. computeAccountsHash K metas cis = Inr h"
proof -
  have c: "list_all2 (\<lambda>ix ci. compact_one (layout_index fixed (new_accounts fixed ixs)) payer ix = Inr ci) ixs cis"
    and n: "length metas = length (fixed @ new_accounts fixed ixs)"
    using assms by (auto simp: buildCompactLayout_eq rbind_eq_Inr rmap_Inr_iff)
  have "\<exists>ix. compact_one (layout_index fixed (new_accounts fixed ixs)) payer ix = Inr ci" if "ci \<in> set cis" for ci
    using c that by (auto simp: list_all2_conv_all_nth in_set_conv_nth)
  then have "is_ok (hash_part K metas b)" if "b \<in> set (index_bytes cis)" for b
    using that compact_one_indexes [of fixed "new_accounts fixed ixs" payer] decoded_nonneg [of b] n
    by (fastforce simp: index_bytes_def hash_part_def meta_at_def)
  then have "is_ok (rmap (hash_part K metas) (index_bytes cis))" by (simp add: is_ok_rmap)
  then show ?thesis by (auto simp: computeAccountsHash_flat is_ok_iff)
qed

lemma buildCompactLayoutAndHash_ok:
  assumes "length (map am_address fixed @ new_accounts (map am_address fixed) ixs) \<le> 128"
  shows "\<exists>l. buildCompactLayoutAndHash K fixed ixs payer fp = Inr l
    \<and> map am_address (cly_remainingAccounts l) = new_accounts (map am_address fixed) ixs"
proof -
  obtain cis rem where l: "buildCompactLayout (map am_address fixed) ixs payer = Inr (cis, rem)"
    using layout_succeeds [OF assms, of payer] by (auto simp: is_ok_iff)
  have rem: "map am_address rem = new_accounts (map am_address fixed) ixs"
    using l by (auto simp: buildCompactLayout_eq rbind_eq_Inr comp_def)
  obtain h where "computeAccountsHash K (withRuntimeRoles (fixed @ rem) fp) cis = Inr h"
    using layout_hash_ok [OF l, of "withRuntimeRoles (fixed @ rem) fp" K] by auto
  then show ?thesis using l rem by (simp add: buildCompactLayoutAndHash_def Let_def)
qed

section \<open>The fee suffix leaves the table alone\<close>

text \<open>The two accounts the fee layer writes to are not among the accounts in front of the suffix.\<close>

definition fee_clear :: "protocol_fee_accounts option \<Rightarrow> address list \<Rightarrow> bool" where
  "fee_clear fee table \<longleftrightarrow> (case fee of None \<Rightarrow> True
     | Some f \<Rightarrow> feeRecordPda f \<notin> set table \<and> treasuryShardPda f \<notin> set table)"

lemma append_fee_roles:
  assumes "fee_clear fee (map am_address ms)"
  shows "withRuntimeRoles (append_fee fee ms) fp =
    withRuntimeRoles ms fp @ drop (length ms) (withRuntimeRoles (append_fee fee ms) fp)"
proof (cases fee)
  case None
  then show ?thesis by (simp add: append_fee_def)
next
  case (Some f)
  have "asks_signer (append_fee fee ms) (am_address m) = asks_signer ms (am_address m)
      \<and> asks_writable (append_fee fee ms) (am_address m) = asks_writable ms (am_address m)" if "m \<in> set ms" for m
    using assms that Some
    by (auto simp: fee_clear_def append_fee_def appendProtocolFeeAccounts_def asks_signer_def asks_writable_def
        meta_def role_signer_def role_writable_def)
  then have "take (length ms) (withRuntimeRoles (append_fee fee ms) fp) = withRuntimeRoles ms fp"
    by (auto simp: withRuntimeRoles_eq append_fee_def appendProtocolFeeAccounts_def Some take_map)
  then show ?thesis by (metis append_take_drop_id)
qed

lemma processor_strips_fee:
  assumes "fee_clear fee (map am_address ms)" "d \<in> {0, 4, 7}" "ms \<noteq> []"
  shows "processor_accounts (fee \<noteq> None) d (withRuntimeRoles (append_fee fee ms) fp) = Inr (withRuntimeRoles ms fp)"
proof (cases fee)
  case None
  then show ?thesis by (simp add: processor_accounts_def append_fee_def)
next
  case (Some f)
  have len: "length (append_fee fee ms) = length ms + 4"
    by (simp add: Some append_fee_def appendProtocolFeeAccounts_def)
  have "take (length ms) (withRuntimeRoles (append_fee fee ms) fp) = withRuntimeRoles ms fp"
    using arg_cong [OF append_fee_roles [OF assms(1), of fp], of "take (length ms)"] by simp
  moreover have "\<not> length ms + 4 < 5" using assms(3) by (cases ms) simp_all
  moreover have "am_address (last (withRuntimeRoles (append_fee fee ms) fp)) = SYSTEM_PROGRAM_ADDRESS"
    by (simp add: Some append_fee_def appendProtocolFeeAccounts_def withRuntimeRoles_eq)
  ultimately show ?thesis using assms(2) len by (simp add: processor_accounts_def Some)
qed

section \<open>Execute\<close>

text \<open>
  The prepared record does not carry the compact instructions nor the accounts hash; an instance of
  the flow is the record with both.
\<close>

type_synonym execute_instance = "prepared_execute \<times> compact_instruction list \<times> bytes"

definition execute_metas :: "prepared_execute \<Rightarrow> account_meta list" where
  "execute_metas i = [meta (pex_payer i) SIGNER_RW, meta (pex_walletPda i) RO, meta (pex_authorityPda i) RW,
     meta (pex_vaultPda i) RW, meta SYSVAR_INSTRUCTIONS_ADDRESS RO] @ pex_remainingAccounts i"

definition execute_wf :: "kit \<Rightarrow> address option \<Rightarrow> execute_instance \<Rightarrow> bool" where
  "execute_wf K fp = (\<lambda>(i, cis, h). packCompactInstructions cis = Inr (pex_packed i) \<and> list_all compact_wf cis
     \<and> length cis \<le> MAX_COMPACT_INSTRUCTIONS
     \<and> computeAccountsHash K (withRuntimeRoles (execute_metas i) fp) cis = Inr h)"

lemma accounts_hash_program:
  assumes "computeAccountsHash K metas cis = Inr h"
  obtains preimage where "accounts_hash_preimage (infos_of K metas) (map to_ref cis) = Inr preimage" "h = k_sha256 K preimage"
  using assms by (auto simp: computeAccountsHash_eq split: sum.splits)

interpretation execute_flow: passkey_operation K DISC_EXECUTE SYSVAR_IX_INDEX_EXECUTE "\<lambda>(i, _). pex_payer i"
    "\<lambda>(i, _). withRuntimeRoles (execute_metas i) fp" "\<lambda>(i, _) ap. pex_packed i @ ap"
    "\<lambda>(i, _, h). pex_packed i @ h" "process_execute K" "execute_wf K fp"
  for K fp
proof unfold_locales
  fix p :: execute_instance and ap
  obtain i cis h where p: "p = (i, cis, h)" by (cases p)
  show payer: "payer_key (infos_of K (case p of (i, _) \<Rightarrow> withRuntimeRoles (execute_metas i) fp))
      = Inr (k_encAddr K (case p of (i, _) \<Rightarrow> pex_payer i))"
    by (simp add: p execute_metas_def payer_key_runtime role_signer_def)
  assume wf: "execute_wf K fp p"
  then have w: "packCompactInstructions cis = Inr (pex_packed i)" "list_all compact_wf cis"
    "length cis \<le> MAX_COMPACT_INSTRUCTIONS" "computeAccountsHash K (withRuntimeRoles (execute_metas i) fp) cis = Inr h"
    by (simp_all add: execute_wf_def p)
  obtain pre where pre: "accounts_hash_preimage (infos_of K (withRuntimeRoles (execute_metas i) fp)) (map to_ref cis) = Inr pre"
    "h = k_sha256 K pre" using accounts_hash_program [OF w(4)] .
  show "process_execute K (infos_of K (case p of (i, _) \<Rightarrow> withRuntimeRoles (execute_metas i) fp))
      ((case p of (i, _) \<Rightarrow> \<lambda>ap. pex_packed i @ ap) ap) = Inr (case p of (i, _, h) \<Rightarrow> pex_packed i @ h, ap)"
    using execute_split [OF w(1,2,3) payer [unfolded p prod.case] pre(1)] by (simp add: p pre(2))
  show "nat SYSVAR_IX_INDEX_EXECUTE < length (case p of (i, _) \<Rightarrow> withRuntimeRoles (execute_metas i) fp) \<and>
      am_address ((case p of (i, _) \<Rightarrow> withRuntimeRoles (execute_metas i) fp) ! nat SYSVAR_IX_INDEX_EXECUTE)
        = SYSVAR_INSTRUCTIONS_ADDRESS"
    by (simp add: p sysvar_idx_defs execute_metas_def withRuntimeRoles_nth)
qed (simp add: sysvar_idx_defs)


text \<open>Concrete inner instructions and fee accounts for the witnesses.\<close>

definition w_inner :: "instruction list" where
  "w_inner = [\<lparr>ix_program = ''tok'', ix_accounts = Some [meta ''acc'' WRITABLE, meta ''pay'' WRITABLE_SIGNER],
     ix_data = Some [7]\<rparr>]"

definition w_fee :: "fee_resolution option" where
  "w_fee = Some \<lparr>fr_accounts = \<lparr>protocolConfigPda = ''cfg'', feeRecordPda = ''rec'', treasuryShardPda = ''shard''\<rparr>,
     fr_registerIx = None\<rparr>"

lemma w_fee_new [simp]: "''rec'' \<noteq> w_addr c" "''shard'' \<noteq> w_addr c"
  by (auto simp: w_addr_def dest: arg_cong [of _ _ length])

lemma w_inner_ok: "inner_ok w_inner"
  by (simp add: inner_ok_def inner_fits_def w_inner_def accounts_of_def data_of_def MAX_COMPACT_INSTRUCTIONS_def)

lemma w_new_accounts:
  "set (new_accounts fixed w_inner) \<subseteq> {''tok'', ''acc'', ''pay''}" "length (new_accounts fixed w_inner) \<le> 3"
  by (auto simp: new_accounts_def first_mentions_def mentions_def w_inner_def accounts_of_def
      split: if_splits)


section \<open>Authorize\<close>

lemma hash_lengths:
  assumes "sha256_32 K"
  shows "computeAccountsHash K metas cis = Inr h \<Longrightarrow> length h = 32"
    and "computeInstructionsHash K cis = Inr h' \<Longrightarrow> length h' = 32"
  using assms by (auto simp: computeAccountsHash_eq computeInstructionsHash_def sha256_32_def rbind_eq_Inr split: sum.splits)

lemma expiry_bytes:
  "u8_put (u8_put (u8_zeros 2) 0 (v AND 0xff)) (Suc 0) (drop_bit 8 v AND 0xff) = le_bytes 2 v"
  using u16LE_eq [of v] unfolding u16LE_def by simp

lemma authorize_prepared:
  assumes sha: "sha256_32 K"
    and r: "resolveSecp256r1 K reads programId walletPda secp256r1 = Inr r"
    and prep: "prepareAuthorize K reads programId payer walletPda secp256r1 instructions expiryOffset executor feePayer = Inr p"
  shows "length (paz_instructionsHash p) = 32" "length (paz_accountsHash p) = 32"
    "paz_expiryOffset p = (case expiryOffset of Some e \<Rightarrow> e | None \<Rightarrow> 300)" "paz_payer p = payer"
    "paz_executor p = (case executor of Some e \<Rightarrow> e | None \<Rightarrow> payer)" "paz_walletPda p = walletPda"
    "paz_programId p = programId" "paz_counter p = rs_counter r" "paz_challenge p = ps_challenge (paz_signing p)"
    "prepareSecp256r1 K (u8_of [DISC_AUTHORIZE]) (authorize_region p) SYSVAR_IX_INDEX_AUTHORIZE (rs_slot r) (rs_counter r)
        (paz_payer p) walletPda programId (rs_publicKeyBytes r) = Inr (paz_signing p)"
    "\<exists>vault bump. findVaultPda K walletPda programId = Inr (vault, bump) \<and>
      (let fixed = deferred_fixed_accounts (paz_executor p) walletPda vault (paz_deferredExecPda p) payer in
       buildCompactLayout (map am_address fixed) instructions (paz_executor p)
         = Inr (paz_compactInstructions p, paz_remainingAccounts p)
       \<and> computeAccountsHash K (withRuntimeRoles (fixed @ paz_remainingAccounts p) feePayer) (paz_compactInstructions p)
         = Inr (paz_accountsHash p)
       \<and> computeInstructionsHash K (paz_compactInstructions p) = Inr (paz_instructionsHash p))"
  using prep r hash_lengths [OF sha]
  by (auto simp: prepareAuthorize_def rbind_eq_Inr buildCompactLayoutAndHash_def buildPasskeySigning_def Let_def
      authorize_region_def expiry_bytes)

lemma authorize_finalizes:
  assumes K: "address_codec K" "sha256_32 K" and resp: "response_wf K response"
    and r: "resolveSecp256r1 K reads programId walletPda secp256r1 = Inr r"
    and chain: "chain_ok K r walletPda current_slot auth"
    and prep: "prepareAuthorize K reads programId payer walletPda secp256r1 instructions expiryOffset executor feePayer = Inr p"
    and expiry: "10 \<le> paz_expiryOffset p" "paz_expiryOffset p \<le> 9000"
  shows "\<exists>ixs. finalizeAuthorize p response = Inr (ixs, paz_deferredExecPda p, paz_counter p,
      \<lparr>dp_walletPda = walletPda, dp_deferredExecPda = paz_deferredExecPda p,
       dp_compactInstructions = paz_compactInstructions p, dp_remainingAccounts = paz_remainingAccounts p,
       dp_executor = Some (paz_executor p), dp_refundDestination = Some payer\<rparr>)
    \<and> accepts_as_signed K fee_layer webauthn current_slot fp auth (paz_challenge p) response (rs_counter r) ixs"
proof -
  note p = authorize_prepared [OF K(2) r prep]
  have wf: "authorize_wf p" using p(1,2) expiry by (simp add: authorize_wf_def)
  obtain ap pre where fin: "finalizeSecp256r1 (paz_signing p) response = Inr (ap, pre)"
    and acc: "accepts_as_signed K fee_layer webauthn current_slot fp auth (ps_challenge (paz_signing p)) response
      (rs_counter r) ([] @ [pre, \<lparr>ix_program = programId, ix_accounts = Some (authorize_metas p),
        ix_data = Some (word_of_int DISC_AUTHORIZE # authorize_region p @ ap)\<rparr>])"
    using authorize_flow.flow_accepted [OF K(2) wf resp chain p(10), where fee_layer = fee_layer and ms = "authorize_metas p"
        and feePayer = fp and fp = fp and webauthn = webauthn and hd_ixs = "[]"]
    by (auto simp: program_dispatch_def no_fee_disc DISC_AUTHORIZE_def)
  have "finalizeAuthorize p response = Inr ([pre, \<lparr>ix_program = programId, ix_accounts = Some (authorize_metas p),
        ix_data = Some (word_of_int DISC_AUTHORIZE # authorize_region p @ ap)\<rparr>], paz_deferredExecPda p, paz_counter p,
      \<lparr>dp_walletPda = walletPda, dp_deferredExecPda = paz_deferredExecPda p,
       dp_compactInstructions = paz_compactInstructions p, dp_remainingAccounts = paz_remainingAccounts p,
       dp_executor = Some (paz_executor p), dp_refundDestination = Some payer\<rparr>)"
    by (simp add: finalizeAuthorize_def fin createAuthorizeIx_def authorize_metas_def authorize_region_def p(4,6,7))
  then show ?thesis using acc p(9) by simp
qed

text \<open>
  C23. Authorizing a deferred execution with a passkey. For an expiry window the program admits, the
  program's verdict on the finalized transaction is WebAuthn's verdict on the prepared challenge, and
  the payload handed to the second transaction names the wallet, the deferred account, the sender it
  was hashed for and the payer as the rent's destination.
\<close>

theorem authorize_accepted_as_signed:
  assumes K: "address_codec K" "sha256_32 K" and resp: "response_wf K response"
    and r: "resolveSecp256r1 K reads programId walletPda secp256r1 = Inr r"
    and chain: "chain_ok K r walletPda current_slot auth"
    and prep: "prepareAuthorize K reads programId payer walletPda secp256r1 instructions expiryOffset executor feePayer = Inr p"
    and expiry: "10 \<le> paz_expiryOffset p" "paz_expiryOffset p \<le> 9000"
  shows "\<exists>ixs payload. finalizeAuthorize p response = Inr (ixs, paz_deferredExecPda p, rs_counter r, payload)
    \<and> accepts_as_signed K fee_layer webauthn current_slot fp auth (paz_challenge p) response (rs_counter r) ixs
    \<and> dp_walletPda payload = walletPda \<and> dp_deferredExecPda payload = paz_deferredExecPda p
    \<and> dp_executor payload = Some (case executor of Some e \<Rightarrow> e | None \<Rightarrow> payer)
    \<and> dp_refundDestination payload = Some payer"
  using authorize_finalizes [OF assms, of fee_layer webauthn fp] authorize_prepared(5,8) [OF K(2) r prep] by auto

lemma w_authorize:
  "\<exists>p v b. findVaultPda sample_kit (w_addr CHR ''w'') ''prog'' = Inr (v, b) \<and> length v > 5
    \<and> prepareAuthorize sample_kit w_reads ''prog'' ''pay'' (w_addr CHR ''w'') w_params w_inner None (Some ''exec'') None = Inr p
    \<and> paz_executor p = ''exec'' \<and> paz_expiryOffset p = 300 \<and> length (paz_deferredExecPda p) > 5
    \<and> paz_walletPda p = w_addr CHR ''w'' \<and> paz_payer p = ''pay''
    \<and> set (map am_address (paz_remainingAccounts p)) \<subseteq> {''tok'', ''acc'', ''pay''}"
proof -
  obtain v b where v: "findVaultPda sample_kit (w_addr CHR ''w'') ''prog'' = Inr (v, b)" "length v > 5"
    by (simp add: findVaultPda_def sample_kit_def SEED_VAULT_def utf8_def w_addr_def)
  obtain d c where d: "findDeferredExecPda sample_kit (w_addr CHR ''w'') (rs_authorityPda w_resolved) (rs_counter w_resolved) ''prog''
      = Inr (d, c)" "length d > 5"
    by (simp add: findDeferredExecPda_def sample_kit_def SEED_DEFERRED_def utf8_def w_addr_def dv_set_zeros)
  let ?fixed = "deferred_fixed_accounts ''exec'' (w_addr CHR ''w'') v d ''pay''"
  obtain l where l: "buildCompactLayoutAndHash sample_kit ?fixed w_inner ''exec'' None = Inr l"
    "map am_address (cly_remainingAccounts l) = new_accounts (map am_address ?fixed) w_inner"
    using buildCompactLayoutAndHash_ok [of ?fixed w_inner sample_kit "''exec''" None]
      w_new_accounts(2) [of "map am_address ?fixed"] by (auto simp: deferred_fixed_accounts_def)
  have "set (map am_address (cly_remainingAccounts l)) \<subseteq> {''tok'', ''acc'', ''pay''}"
    using l(2) w_new_accounts(1) by metis
  then show ?thesis
    using v d l(1)
    by (simp add: prepareAuthorize_def w_resolves packCompactInstructions_eq buildPasskeySigning_def
        prepareSecp256r1_eq Let_def computeInstructionsHash_def)
qed

theorem authorize_accepted_as_signed_witness:
  "\<exists>p ixs pda n payload. prepareAuthorize sample_kit w_reads ''prog'' ''pay'' (w_addr CHR ''w'') w_params w_inner None
      (Some ''exec'') None = Inr p
    \<and> finalizeAuthorize p w_response = Inr (ixs, pda, n, payload) \<and> dp_executor payload = Some ''exec''
    \<and> program_verdict sample_kit True (\<lambda>_ _ _. Inr ()) 120 None w_auth ixs = Inr 6"
proof -
  obtain p where p: "prepareAuthorize sample_kit w_reads ''prog'' ''pay'' (w_addr CHR ''w'') w_params w_inner None
      (Some ''exec'') None = Inr p" "paz_expiryOffset p = 300" using w_authorize by blast
  from authorize_accepted_as_signed [OF w_facts p(1), of True "\<lambda>_ _ _. Inr ()" None] show ?thesis
    using p by (auto simp: accepts_as_signed_def w_resolved_def)
qed

section \<open>The second transaction\<close>

text \<open>What \<open>Authorize\<close> stores, and what \<open>ExecuteDeferred\<close> hands to the runtime.\<close>

record deferred_exec =
  dx_instructions_hash :: bytes
  dx_accounts_hash :: bytes
  dx_wallet :: bytes
  dx_payer :: bytes
  dx_expires_at :: int

record cpi_call =
  cpi_program :: bytes
  cpi_metas :: "(bytes \<times> bool \<times> bool) list"
  cpi_data :: bytes

definition forward_account :: "bytes \<Rightarrow> bytes \<Rightarrow> account_info \<times> bool \<Rightarrow> bytes \<times> bool \<times> bool" where
  "forward_account payer vault_key = (\<lambda>(acc, forward_signer).
     let forwarded = forward_signer \<and> ai_signer acc \<and> ai_key acc \<noteq> payer
     in (ai_key acc, forwarded \<or> ai_key acc = vault_key, ai_writable acc))"

definition deferred_cpi ::
  "bytes \<Rightarrow> account_info list \<Rightarrow> bytes \<Rightarrow> bytes \<Rightarrow> compact_ref \<Rightarrow> cpi_call result" where
  "deferred_cpi program_id infos payer vault_key compact_ix =
     rbind (decompress infos compact_ix) (\<lambda>d.
     if de_program d = program_id then Inl (AuthError ''SelfReentrancyNotAllowed'')
     else Inr \<lparr>cpi_program = de_program d,
               cpi_metas = map (forward_account payer vault_key) (de_accounts d),
               cpi_data = de_data d\<rparr>)"

text \<open>\<open>vault_pda\<close> is what \<open>find_program_address\<close> returns for the wallet.\<close>

definition process_execute_deferred ::
  "kit \<Rightarrow> bytes \<Rightarrow> bytes \<Rightarrow> int \<Rightarrow> deferred_exec \<Rightarrow> account_info list \<Rightarrow> bytes \<Rightarrow> cpi_call list result" where
  "process_execute_deferred K program_id vault_pda slot deferred infos instruction_data =
     (if length infos < 5 then Inl (ProgramError ''NotEnoughAccountKeys'')
      else if \<not> ai_signer (infos ! 0) then Inl (ProgramError ''MissingRequiredSignature'')
      else if dx_wallet deferred \<noteq> ai_key (infos ! 1) then Inl (ProgramError ''InvalidAccountData'')
      else if dx_payer deferred \<noteq> ai_key (infos ! 4) then Inl (ProgramError ''InvalidAccountData'')
      else if slot > dx_expires_at deferred then Inl (AuthError ''DeferredAuthorizationExpired'')
      else rbind (parse_compact_instructions_ref_with_len instruction_data) (\<lambda>(ixs, compact_len).
        if k_sha256 K (take compact_len instruction_data) \<noteq> dx_instructions_hash deferred
        then Inl (AuthError ''DeferredHashMismatch'')
        else rbind (accounts_hash_preimage infos ixs) (\<lambda>preimage.
        if k_sha256 K preimage \<noteq> dx_accounts_hash deferred then Inl (AuthError ''DeferredHashMismatch'')
        else if ai_key (infos ! 2) \<noteq> vault_pda then Inl (ProgramError ''InvalidSeeds'')
        else rmap (deferred_cpi program_id infos (ai_key (infos ! 0)) (ai_key (infos ! 2))) ixs)))"

text \<open>The call the runtime is handed, against the instruction the user wrote.\<close>

definition call_matches :: "kit \<Rightarrow> address \<Rightarrow> address \<Rightarrow> instruction \<Rightarrow> cpi_call \<Rightarrow> bool" where
  "call_matches K sender vault ix c \<longleftrightarrow>
     cpi_program c = k_encAddr K (ix_program ix)
     \<and> map fst (cpi_metas c) = map (k_encAddr K \<circ> am_address) (accounts_of ix)
     \<and> list_all2 (\<lambda>(key, signer, _) m. signer \<longrightarrow>
         key = k_encAddr K vault \<or> role_signer (am_role m) \<and> am_address m \<noteq> sender) (cpi_metas c) (accounts_of ix)
     \<and> cpi_data c = data_of ix"

lemma deferred_cpi_matches:
  assumes "decompress infos cr = Inr d" "same_call K sender ix d" "k_encAddr K (ix_program ix) \<noteq> program_id"
  shows "\<exists>c. deferred_cpi program_id infos payer (k_encAddr K vault) cr = Inr c \<and> call_matches K sender vault ix c"
proof -
  have s: "map (ai_key \<circ> fst) (de_accounts d) = map (k_encAddr K \<circ> am_address) (accounts_of ix)"
    "map snd (de_accounts d) = map (\<lambda>m. role_signer (am_role m) \<and> am_address m \<noteq> sender) (accounts_of ix)"
    "de_program d = k_encAddr K (ix_program ix)" "de_data d = data_of ix"
    using assms(2) by (simp_all add: same_call_def)
  have len: "length (de_accounts d) = length (accounts_of ix)" using arg_cong [OF s(1), of length] by simp
  have fwd: "snd (de_accounts d ! i) = (role_signer (am_role (accounts_of ix ! i)) \<and> am_address (accounts_of ix ! i) \<noteq> sender)"
    if "i < length (accounts_of ix)" for i
    using arg_cong [OF s(2), of "\<lambda>l. l ! i"] that len by simp
  have "list_all2 (\<lambda>(key, signer, _) m. signer \<longrightarrow>
      key = k_encAddr K vault \<or> role_signer (am_role m) \<and> am_address m \<noteq> sender)
    (map (forward_account payer (k_encAddr K vault)) (de_accounts d)) (accounts_of ix)"
    using len fwd by (auto simp: list_all2_conv_all_nth forward_account_def Let_def split_def)
  moreover have "map (fst \<circ> forward_account payer (k_encAddr K vault)) (de_accounts d)
      = map (ai_key \<circ> fst) (de_accounts d)" by (simp add: forward_account_def Let_def split_def)
  ultimately show ?thesis
    using assms(1,3) s by (simp add: deferred_cpi_def call_matches_def)
qed

definition deferred_metas :: "prepared_authorize \<Rightarrow> address \<Rightarrow> account_meta list" where
  "deferred_metas p vault = deferred_fixed_accounts (paz_executor p) (paz_walletPda p) vault (paz_deferredExecPda p)
     (paz_payer p) @ paz_remainingAccounts p"

text \<open>What the account holds after \<open>Authorize\<close> ran on the first transaction.\<close>

definition stored_authorization :: "kit \<Rightarrow> prepared_authorize \<Rightarrow> int \<Rightarrow> deferred_exec" where
  "stored_authorization K p expires_at = \<lparr>dx_instructions_hash = paz_instructionsHash p,
     dx_accounts_hash = paz_accountsHash p, dx_wallet = k_encAddr K (paz_walletPda p),
     dx_payer = k_encAddr K (paz_payer p), dx_expires_at = expires_at\<rparr>"

lemma deferred_accepted:
  assumes pack: "packCompactInstructions cis = Inr packed"
    and wf: "list_all compact_wf cis" "length cis \<le> MAX_COMPACT_INSTRUCTIONS"
    and ih: "computeInstructionsHash K cis = Inr (paz_instructionsHash p)"
    and ah: "computeAccountsHash K (withRuntimeRoles (deferred_metas p vault) fp) cis = Inr (paz_accountsHash p)"
    and slot: "slot \<le> expires"
  shows "process_execute_deferred K program_id (k_encAddr K vault) slot (stored_authorization K p expires)
      (infos_of K (withRuntimeRoles (deferred_metas p vault) fp)) packed
    = rmap (deferred_cpi program_id (infos_of K (withRuntimeRoles (deferred_metas p vault) fp))
        (k_encAddr K (paz_executor p)) (k_encAddr K vault)) (map to_ref cis)"
proof -
  let ?i = "infos_of K (withRuntimeRoles (deferred_metas p vault) fp)"
  obtain pre where pre: "accounts_hash_preimage ?i (map to_ref cis) = Inr pre" "paz_accountsHash p = k_sha256 K pre"
    using accounts_hash_program [OF ah] .
  have k: "5 \<le> length ?i" "ai_signer (?i ! 0)" "ai_key (?i ! 0) = k_encAddr K (paz_executor p)"
    "ai_key (?i ! 1) = k_encAddr K (paz_walletPda p)" "ai_key (?i ! 2) = k_encAddr K vault"
    "ai_key (?i ! 4) = k_encAddr K (paz_payer p)"
    by (simp_all add: deferred_metas_def deferred_fixed_accounts_def info_of_def withRuntimeRoles_nth
        asks_signer_def role_signer_def [of SIGNER_RW])
  have parse: "parse_compact_instructions_ref_with_len packed = Inr (map to_ref cis, length packed)"
    using pack_parse [OF wf pack, of "[]"] by simp
  have "paz_instructionsHash p = k_sha256 K packed" using ih pack by (simp add: computeInstructionsHash_def)
  then show ?thesis
    using k slot pre by (simp add: process_execute_deferred_def parse stored_authorization_def)
qed

text \<open>The compact instructions of a layout, run by the deferred handler, are the caller's.\<close>

lemma deferred_calls_match:
  assumes layout: "buildCompactLayout fixed instructions payer = Inr (cis, remaining)"
    and keys: "map ai_key infos = map (k_encAddr K) (fixed @ map am_address remaining)"
    and self: "list_all (\<lambda>ix. k_encAddr K (ix_program ix) \<noteq> pid) instructions"
  obtains calls where "rmap (deferred_cpi pid infos (k_encAddr K payer) (k_encAddr K vault)) (map to_ref cis) = Inr calls"
    "list_all2 (call_matches K payer vault) instructions calls"
proof -
  have "list_all2 (\<lambda>ix ci. \<exists>d. decompress infos (to_ref ci) = Inr d \<and> same_call K payer ix d) instructions cis"
    using layout keys by (rule layout_same_calls)
  then have "list_all2 (\<lambda>ix ci. k_encAddr K (ix_program ix) \<noteq> pid \<longrightarrow>
      (\<exists>call. deferred_cpi pid infos (k_encAddr K payer) (k_encAddr K vault) (to_ref ci)
        = Inr call \<and> call_matches K payer vault ix call)) instructions cis"
    by (rule list_all2_mono) (metis deferred_cpi_matches)
  then have "\<exists>calls. rmap (deferred_cpi pid infos (k_encAddr K payer) (k_encAddr K vault)) (map to_ref cis) = Inr calls
      \<and> list_all2 (call_matches K payer vault) instructions calls"
    using self by (induction rule: list_all2_induct) auto
  then show thesis using that by blast
qed



end
