(* ===== verification/Client.thy ===== *)
theory Client
  imports ExecuteFlows
begin

text \<open>
  The unified methods of the \<open>LazorKit\<close> class: each takes a signer and builds the whole
  transaction, on the Ed25519 branch by itself and on the passkey branch by preparing, calling the
  signer and finalizing. The methods that resolve the protocol fee thread the client record, whose
  caches the fee resolution changes. RPC reads, the random draw of a treasury shard and the passkey
  signer are arguments.
\<close>

section \<open>Signers\<close>

record secp256r1_signer =
  sg_publicKeyBytes :: bytes
  sg_credentialIdHash :: bytes
  sg_rpId :: string
  sg_sign :: "bytes \<Rightarrow> webauthn_response result"

record secp256r1_signer_config =
  sc_signer :: secp256r1_signer
  sc_authorityPda :: "address option"
  sc_slotOverride :: "int option"
  sc_minContextSlot :: "int option"
  sc_commitment :: "commitment option"

datatype admin_signer =
    AdminEd25519 address "address option"
  | AdminSecp256r1 secp256r1_signer_config

datatype execute_signer =
    ExecuteEd25519 address "address option"
  | ExecuteSecp256r1 secp256r1_signer_config
  | ExecuteSession address address

definition extractSecp256r1Params :: "secp256r1_signer_config \<Rightarrow> secp256r1_params" where
  "extractSecp256r1Params s =
     \<lparr>sp_credentialIdHash = sg_credentialIdHash (sc_signer s),
      sp_publicKeyBytes = Some (sg_publicKeyBytes (sc_signer s)),
      sp_authorityPda = sc_authorityPda s, sp_slotOverride = sc_slotOverride s,
      sp_minContextSlot = sc_minContextSlot s, sp_commitment = sc_commitment s\<rparr>"

section \<open>Wallets\<close>

record created_wallet =
  cw_instructions :: "instruction list"
  cw_walletPda :: address
  cw_vaultPda :: address
  cw_authorityPda :: address

definition with_register :: "fee_resolution option \<Rightarrow> instruction list" where
  "with_register fee = (case fee of
     Some f \<Rightarrow> (case fr_registerIx f of Some reg \<Rightarrow> [reg] | None \<Rightarrow> []) | None \<Rightarrow> [])"

definition createWallet ::
  "kit \<Rightarrow> rpc_account \<Rightarrow> int \<Rightarrow> address \<Rightarrow> bytes \<Rightarrow> create_wallet_owner \<Rightarrow> created_wallet stateful" where
  "createWallet K rpc rand payer userSeed owner c =
     (let programId = cl_programId c in
      sbind (pure
        (rbind (assertByteLength userSeed 32 ''userSeed'') (\<lambda>_.
         rbind (findWalletPda K userSeed programId) (\<lambda>(walletPda, _).
         rbind (findVaultPda K walletPda programId) (\<lambda>(vaultPda, _).
         rbind (resolveOwnerFields K owner) (\<lambda>f.
         rbind (findAuthorityPda K walletPda (of_credentialOrPubkey f) programId) (\<lambda>(authorityPda, authBump).
         Inr (walletPda, vaultPda, f, authorityPda, authBump)))))))) (\<lambda>(walletPda, vaultPda, f, authorityPda, authBump).
      sbind (resolveProtocolFeeWithRegister K rpc rand payer) (\<lambda>fee.
      pure
        (rbind (createCreateWalletIx payer walletPda vaultPda authorityPda userSeed (of_authType f) authBump
                  (of_credentialOrPubkey f) (of_secp256r1Pubkey f) (of_rpId f) (map_option fr_accounts fee) programId) (\<lambda>ix.
         Inr \<lparr>cw_instructions = with_register fee @ [ix], cw_walletPda = walletPda, cw_vaultPda = vaultPda,
              cw_authorityPda = authorityPda\<rparr>)))) c)"

section \<open>Authorities\<close>

definition addAuthority ::
  "kit \<Rightarrow> challenge_reads \<Rightarrow> address \<Rightarrow> address \<Rightarrow> address \<Rightarrow> admin_signer \<Rightarrow> create_wallet_owner \<Rightarrow> int
   \<Rightarrow> bytes option \<Rightarrow> bool option \<Rightarrow> (instruction list \<times> address) result" where
  "addAuthority K reads programId payer walletPda adminSigner newAuthority role policy allowOwner =
     rbind (assertAddAuthorityRole role allowOwner policy) (\<lambda>_.
     rbind (resolveOwnerFields K newAuthority) (\<lambda>f.
     rbind (findAuthorityPda K walletPda (of_credentialOrPubkey f) programId) (\<lambda>(newAuthorityPda, _).
     case adminSigner of
       AdminEd25519 publicKey authorityPda \<Rightarrow>
         rbind (resolveEd25519AuthorityPda K programId publicKey authorityPda walletPda) (\<lambda>adminAuthorityPda.
         rbind (createAddAuthorityIx payer walletPda adminAuthorityPda newAuthorityPda (of_authType f) role
                  (of_credentialOrPubkey f) (of_secp256r1Pubkey f) (of_rpId f) policy None (Some publicKey) programId) (\<lambda>ix.
         Inr ([ix], newAuthorityPda)))
     | AdminSecp256r1 s \<Rightarrow>
         rbind (prepareAddAuthority K reads programId payer walletPda (extractSecp256r1Params s) newAuthority role
                  policy allowOwner) (\<lambda>prepared.
         rbind (sg_sign (sc_signer s) (paa_challenge prepared)) (\<lambda>response.
         finalizeAddAuthority prepared response)))))"

definition removeAuthority ::
  "kit \<Rightarrow> challenge_reads \<Rightarrow> address \<Rightarrow> address \<Rightarrow> address \<Rightarrow> admin_signer \<Rightarrow> address \<Rightarrow> address option
   \<Rightarrow> instruction list result" where
  "removeAuthority K reads programId payer walletPda adminSigner targetAuthorityPda refundDestination =
     (let refundDest = (case refundDestination of Some a \<Rightarrow> a | None \<Rightarrow> payer) in
      case adminSigner of
        AdminEd25519 publicKey authorityPda \<Rightarrow>
          rbind (resolveEd25519AuthorityPda K programId publicKey authorityPda walletPda) (\<lambda>adminAuthorityPda.
          rbind (createRemoveAuthorityIx payer walletPda adminAuthorityPda targetAuthorityPda refundDest None
                   (Some publicKey) programId) (\<lambda>ix. Inr [ix]))
      | AdminSecp256r1 s \<Rightarrow>
          rbind (prepareRemoveAuthority K reads programId payer walletPda (extractSecp256r1Params s)
                   targetAuthorityPda refundDestination) (\<lambda>prepared.
          rbind (sg_sign (sc_signer s) (pra_challenge prepared)) (\<lambda>response.
          finalizeRemoveAuthority prepared response)))"

definition transferOwnership ::
  "kit \<Rightarrow> challenge_reads \<Rightarrow> address \<Rightarrow> address \<Rightarrow> address \<Rightarrow> admin_signer \<Rightarrow> create_wallet_owner
   \<Rightarrow> address option \<Rightarrow> (instruction list \<times> address) result" where
  "transferOwnership K reads programId payer walletPda ownerSigner newOwner refundDestination =
     rbind (resolveOwnerFields K newOwner) (\<lambda>f.
     rbind (findAuthorityPda K walletPda (of_credentialOrPubkey f) programId) (\<lambda>(newOwnerAuthorityPda, _).
     let refundDest = (case refundDestination of Some a \<Rightarrow> a | None \<Rightarrow> payer) in
     case ownerSigner of
       AdminEd25519 publicKey authorityPda \<Rightarrow>
         rbind (resolveEd25519AuthorityPda K programId publicKey authorityPda walletPda) (\<lambda>currentOwnerAuthorityPda.
         rbind (createTransferOwnershipIx payer walletPda currentOwnerAuthorityPda newOwnerAuthorityPda refundDest
                  (of_authType f) (of_credentialOrPubkey f) (of_secp256r1Pubkey f) (of_rpId f) None (Some publicKey)
                  programId) (\<lambda>ix.
         Inr ([ix], newOwnerAuthorityPda)))
     | AdminSecp256r1 s \<Rightarrow>
         rbind (prepareTransferOwnership K reads programId payer walletPda (extractSecp256r1Params s) newOwner
                  refundDestination) (\<lambda>prepared.
         rbind (sg_sign (sc_signer s) (pto_challenge prepared)) (\<lambda>response.
         finalizeTransferOwnership prepared response))))"

section \<open>Sessions\<close>

definition createSession ::
  "kit \<Rightarrow> challenge_reads \<Rightarrow> address \<Rightarrow> address \<Rightarrow> address \<Rightarrow> admin_signer \<Rightarrow> address \<Rightarrow> int
   \<Rightarrow> session_action list option \<Rightarrow> bool option \<Rightarrow> (instruction list \<times> address) result" where
  "createSession K reads programId payer walletPda adminSigner sessionKey expiresAt actions unrestricted =
     rbind (assertSessionActions actions unrestricted) (\<lambda>_.
     let sessionKeyBytes = k_encAddr K sessionKey in
     rbind (findSessionPda K walletPda sessionKeyBytes programId) (\<lambda>(sessionPda, _).
     rbind (session_actions_buffer K actions) (\<lambda>actionsBuffer.
     case adminSigner of
       AdminEd25519 publicKey authorityPda \<Rightarrow>
         rbind (resolveEd25519AuthorityPda K programId publicKey authorityPda walletPda) (\<lambda>adminAuthorityPda.
         rbind (createCreateSessionIx payer walletPda adminAuthorityPda sessionPda sessionKeyBytes expiresAt
                  actionsBuffer None (Some publicKey) programId) (\<lambda>ix.
         Inr ([ix], sessionPda)))
     | AdminSecp256r1 s \<Rightarrow>
         rbind (prepareCreateSession K reads programId payer walletPda (extractSecp256r1Params s) sessionKey
                  expiresAt actions unrestricted) (\<lambda>prepared.
         rbind (sg_sign (sc_signer s) (pcs_challenge prepared)) (\<lambda>response.
         finalizeCreateSession prepared response)))))"

definition revokeSession ::
  "kit \<Rightarrow> challenge_reads \<Rightarrow> address \<Rightarrow> address \<Rightarrow> address \<Rightarrow> admin_signer \<Rightarrow> address \<Rightarrow> address option
   \<Rightarrow> instruction list result" where
  "revokeSession K reads programId payer walletPda adminSigner sessionPda refundDestination =
     (let refundDest = (case refundDestination of Some a \<Rightarrow> a | None \<Rightarrow> payer) in
      case adminSigner of
        AdminEd25519 publicKey authorityPda \<Rightarrow>
          rbind (resolveEd25519AuthorityPda K programId publicKey authorityPda walletPda) (\<lambda>adminAuthorityPda.
          rbind (createRevokeSessionIx payer walletPda adminAuthorityPda sessionPda refundDest None
                   (Some publicKey) programId) (\<lambda>ix. Inr [ix]))
      | AdminSecp256r1 s \<Rightarrow>
          rbind (prepareRevokeSession K reads programId payer walletPda (extractSecp256r1Params s)
                   sessionPda refundDestination) (\<lambda>prepared.
          rbind (sg_sign (sc_signer s) (prs_challenge prepared)) (\<lambda>response.
          finalizeRevokeSession prepared response)))"

section \<open>Execution\<close>

text \<open>The two branches that need no challenge: an Ed25519 authority, and a session key.\<close>

definition execute_ed25519 ::
  "kit \<Rightarrow> address \<Rightarrow> address \<Rightarrow> address \<Rightarrow> address \<Rightarrow> address \<Rightarrow> address option \<Rightarrow> instruction list
   \<Rightarrow> fee_resolution option \<Rightarrow> instruction list result" where
  "execute_ed25519 K programId payer walletPda vaultPda publicKey authorityPda instructions fee =
     rbind (resolveEd25519AuthorityPda K programId publicKey authorityPda walletPda) (\<lambda>authorityPda.
     rbind (buildCompactLayout [payer, walletPda, authorityPda, vaultPda, publicKey] instructions payer)
       (\<lambda>(compactInstructions, remainingAccounts).
     rbind (packCompactInstructions compactInstructions) (\<lambda>packed.
     rbind (createExecuteIx payer walletPda authorityPda vaultPda packed None (Some publicKey)
              (Some remainingAccounts) (map_option fr_accounts fee) programId) (\<lambda>ix.
     Inr (with_register fee @ [ix])))))"

definition execute_session ::
  "address \<Rightarrow> address \<Rightarrow> address \<Rightarrow> address \<Rightarrow> address \<Rightarrow> address \<Rightarrow> instruction list
   \<Rightarrow> fee_resolution option \<Rightarrow> instruction list result" where
  "execute_session programId payer walletPda vaultPda sessionPda sessionKeyPubkey instructions fee =
     rbind (buildCompactLayout [payer, walletPda, sessionPda, vaultPda, sessionKeyPubkey] instructions payer)
       (\<lambda>(compactInstructions, remainingAccounts).
     rbind (packCompactInstructions compactInstructions) (\<lambda>packed.
     rbind (createExecuteIx payer walletPda sessionPda vaultPda packed None None
              (Some (meta sessionKeyPubkey READONLY_SIGNER # remainingAccounts)) (map_option fr_accounts fee) programId) (\<lambda>ix.
     Inr (with_register fee @ [ix]))))"

text \<open>\<open>prepareExecute\<close> on the client: its own fee resolution, whose effect on the caches stays
  when the challenge reads beside it fail.\<close>

definition prepareExecute_on ::
  "kit \<Rightarrow> challenge_reads \<Rightarrow> rpc_account \<Rightarrow> int \<Rightarrow> address \<Rightarrow> address \<Rightarrow> secp256r1_params
   \<Rightarrow> instruction list \<Rightarrow> address option \<Rightarrow> prepared_execute stateful" where
  "prepareExecute_on K reads rpc rand payer walletPda secp256r1 instructions feePayer c =
     (case findVaultPda K walletPda (cl_programId c) of
        Inl e \<Rightarrow> (Inl e, c)
      | Inr _ \<Rightarrow> (case resolveProtocolFeeWithRegister K rpc rand payer c of
          (fee, c') \<Rightarrow> (prepareExecute K reads fee (cl_programId c) payer walletPda secp256r1 instructions feePayer, c')))"

text \<open>\<open>rand\<close> and \<open>rand'\<close> are the draws of the first and of the second fee resolution.\<close>

definition execute ::
  "kit \<Rightarrow> challenge_reads \<Rightarrow> rpc_account \<Rightarrow> int \<Rightarrow> int \<Rightarrow> address \<Rightarrow> address \<Rightarrow> execute_signer
   \<Rightarrow> instruction list \<Rightarrow> address option \<Rightarrow> instruction list stateful" where
  "execute K reads rpc rand rand' payer walletPda signer instructions feePayer c =
     (let programId = cl_programId c in
      sbind (pure (findVaultPda K walletPda programId)) (\<lambda>(vaultPda, _).
      sbind (resolveProtocolFeeWithRegister K rpc rand payer) (\<lambda>fee.
      case signer of
        ExecuteEd25519 publicKey authorityPda \<Rightarrow>
          pure (execute_ed25519 K programId payer walletPda vaultPda publicKey authorityPda instructions fee)
      | ExecuteSecp256r1 s \<Rightarrow>
          sbind (prepareExecute_on K reads rpc rand' payer walletPda (extractSecp256r1Params s) instructions feePayer)
            (\<lambda>prepared.
          pure (rbind (sg_sign (sc_signer s) (pex_challenge prepared)) (\<lambda>response.
                finalizeExecute prepared response)))
      | ExecuteSession sessionPda sessionKeyPubkey \<Rightarrow>
          pure (execute_session programId payer walletPda vaultPda sessionPda sessionKeyPubkey instructions fee))) c)"

definition authorize ::
  "kit \<Rightarrow> challenge_reads \<Rightarrow> address \<Rightarrow> address \<Rightarrow> address \<Rightarrow> secp256r1_signer_config \<Rightarrow> instruction list
   \<Rightarrow> int option \<Rightarrow> address option \<Rightarrow> address option \<Rightarrow> (instruction list \<times> address \<times> int \<times> deferred_payload) result" where
  "authorize K reads programId payer walletPda s instructions expiryOffset executor feePayer =
     rbind (prepareAuthorize K reads programId payer walletPda (extractSecp256r1Params s) instructions expiryOffset
              executor feePayer) (\<lambda>prepared.
     rbind (sg_sign (sc_signer s) (paz_challenge prepared)) (\<lambda>response.
     finalizeAuthorize prepared response))"

section \<open>Protocol administration\<close>

definition initializeProtocol ::
  "kit \<Rightarrow> address \<Rightarrow> address \<Rightarrow> address \<Rightarrow> address \<Rightarrow> int \<Rightarrow> int \<Rightarrow> int \<Rightarrow> (instruction list \<times> address) result" where
  "initializeProtocol K programId payer admin treasury creationFee executionFee numShards =
     rbind (findProtocolConfigPda K programId) (\<lambda>(configPda, _).
     rbind (createInitializeProtocolIx K payer configPda admin treasury creationFee executionFee numShards programId)
       (\<lambda>ix. Inr ([ix], configPda)))"

definition updateProtocol ::
  "kit \<Rightarrow> address \<Rightarrow> address \<Rightarrow> int \<Rightarrow> int \<Rightarrow> bool \<Rightarrow> address \<Rightarrow> instruction list result" where
  "updateProtocol K programId admin creationFee executionFee enabled newTreasury =
     rbind (findProtocolConfigPda K programId) (\<lambda>(configPda, _).
     rbind (createUpdateProtocolIx K admin configPda creationFee executionFee enabled newTreasury programId)
       (\<lambda>ix. Inr [ix]))"

definition initializeTreasuryShard ::
  "kit \<Rightarrow> address \<Rightarrow> address \<Rightarrow> address \<Rightarrow> int \<Rightarrow> (instruction list \<times> address) result" where
  "initializeTreasuryShard K programId payer admin shardId =
     rbind (findProtocolConfigPda K programId) (\<lambda>(configPda, _).
     rbind (findTreasuryShardPda K shardId programId) (\<lambda>(shardPda, _).
     Inr ([createInitializeTreasuryShardIx payer configPda admin shardPda shardId programId], shardPda)))"

definition registerPayer :: "kit \<Rightarrow> address \<Rightarrow> address \<Rightarrow> (instruction list \<times> address) result" where
  "registerPayer K programId payer =
     rbind (findFeeRecordPda K payer programId) (\<lambda>(recordPda, _).
     Inr ([createRegisterPayerIx payer recordPda programId], recordPda))"

definition withdrawTreasury :: "kit \<Rightarrow> address \<Rightarrow> address \<Rightarrow> int \<Rightarrow> address \<Rightarrow> instruction list result" where
  "withdrawTreasury K programId admin shardId treasury =
     rbind (findProtocolConfigPda K programId) (\<lambda>(configPda, _).
     rbind (findTreasuryShardPda K shardId programId) (\<lambda>(shardPda, _).
     Inr [createWithdrawTreasuryIx admin configPda shardPda treasury programId]))"

end
