(* ===== verification/ClientFlows.thy ===== *)
theory ClientFlows
  imports Client
begin

text \<open>
  Properties of the unified methods: what a whole \<open>execute\<close> makes the program run for each kind of
  signer, which registrations it hands out, and that \<open>createWallet\<close> builds what the program's
  \<open>CreateWallet\<close> handler accepts.
\<close>

section \<open>What an execute makes the program run\<close>

text \<open>The calls the program decompresses from the instruction over the accounts its handler sees.\<close>

definition runs_calls ::
  "kit \<Rightarrow> bool \<Rightarrow> address option \<Rightarrow> address \<Rightarrow> instruction list \<Rightarrow> instruction \<Rightarrow> bool" where
  "runs_calls K fee_layer fp payer instructions ix \<longleftrightarrow>
     (\<exists>metas refs n. hd (data_of ix) = word_of_int DISC_EXECUTE
       \<and> processor_accounts fee_layer (hd (data_of ix)) (withRuntimeRoles (accounts_of ix) fp) = Inr metas
       \<and> parse_compact_instructions_ref_with_len (tl (data_of ix)) = Inr (refs, n)
       \<and> list_all2 (\<lambda>user r. \<exists>d. decompress (infos_of K metas) r = Inr d \<and> same_call K payer user d) instructions refs)"

lemma processor_keys:
  assumes "ms \<noteq> []" "d \<in> {0, 4, 7}"
  shows "\<exists>metas. processor_accounts (fee \<noteq> None) d (withRuntimeRoles (append_fee fee ms) fp) = Inr metas
    \<and> map am_address metas = map am_address ms"
proof (cases fee)
  case None
  then show ?thesis by (simp add: processor_accounts_def append_fee_def withRuntimeRoles_eq)
next
  case (Some f)
  let ?all = "withRuntimeRoles (append_fee fee ms) fp"
  have len: "length ?all = length ms + 4" by (simp add: Some append_fee_def appendProtocolFeeAccounts_def)
  have "am_address (last ?all) = SYSTEM_PROGRAM_ADDRESS"
    by (simp add: Some append_fee_def appendProtocolFeeAccounts_def withRuntimeRoles_eq)
  moreover have "map am_address (take (length ms) ?all) = map am_address ms"
    by (simp add: withRuntimeRoles_eq Some append_fee_def appendProtocolFeeAccounts_def take_map)
  moreover have "\<not> length ms + 4 < 5" using assms(1) by (cases ms) simp_all
  ultimately show ?thesis using assms(2) len by (simp add: processor_accounts_def Some)
qed

lemma layout_runs_calls:
  assumes l: "buildCompactLayout fixed instructions payer = Inr (cis, remaining)" and inner: "inner_ok instructions"
    and pack: "packCompactInstructions cis = Inr packed" and ne: "ms \<noteq> []"
    and ms: "map am_address ms = fixed @ map am_address remaining"
    and ix: "ix_accounts ix = Some (append_fee fee ms)" "ix_data ix = Some (word_of_int DISC_EXECUTE # packed @ ap)"
  shows "runs_calls K (fee \<noteq> None) fp payer instructions ix"
proof -
  obtain metas where m: "processor_accounts (fee \<noteq> None) 4 (withRuntimeRoles (append_fee fee ms) fp) = Inr metas"
      "map am_address metas = map am_address ms"
    using processor_keys [OF ne, of 4 fee fp] by auto
  have keys: "map ai_key (infos_of K metas) = map (k_encAddr K) (fixed @ map am_address remaining)"
    using arg_cong [OF m(2), of "map (k_encAddr K)"] by (simp add: ms info_of_def comp_def)
  have "list_all2 (\<lambda>user r. \<exists>d. decompress (infos_of K metas) r = Inr d \<and> same_call K payer user d)
      instructions (map to_ref cis)"
    using layout_same_calls [OF l keys] by (simp add: list_all2_map2)
  then show ?thesis
    using m(1) pack_parse [OF buildCompactLayout_wf [OF l inner] pack, of ap] ix
    by (auto simp: runs_calls_def data_of_def accounts_of_def DISC_EXECUTE_def)
qed

lemma fee_resolution_on:
  assumes "resolveProtocolFeeWithRegister K rpc rand payer c = (Inr fee, c')"
  shows "fee \<noteq> None \<longleftrightarrow> cl_protocolFees c" "cl_protocolFees c' = cl_protocolFees c" "cl_programId c' = cl_programId c"
proof -
  obtain a d where a: "resolveProtocolFee K rpc rand payer c = (Inr a, d)"
    using assms by (auto simp: resolveProtocolFeeWithRegister_def sbind_def split: prod.splits sum.splits)
  have d: "a \<noteq> None \<longleftrightarrow> cl_protocolFees c" "cl_protocolFees d = cl_protocolFees c" "cl_programId d = cl_programId c"
    using resolveProtocolFee_cases [OF a] getProtocolConfig_frame(1,2) [of K rpc c] by auto
  obtain q e where q: "getProtocolConfig K rpc d = (q, e)" by (cases "getProtocolConfig K rpc d")
  note f = getProtocolConfig_frame(1,2) [OF q]
  show "fee \<noteq> None \<longleftrightarrow> cl_protocolFees c" "cl_protocolFees c' = cl_protocolFees c" "cl_programId c' = cl_programId c"
    using assms a q d f
    by (auto simp: resolveProtocolFeeWithRegister_def sbind_def pure_def Let_def
        split: option.splits if_splits sum.splits)
qed

text \<open>The three branches.\<close>

lemma execute_ed25519_runs:
  assumes "execute_ed25519 K programId payer wallet vault key pda instructions fee = Inr ixs" "inner_ok instructions"
  shows "runs_calls K (fee \<noteq> None) fp payer instructions (last ixs)"
proof -
  obtain authority cis remaining packed ix where a: "resolveEd25519AuthorityPda K programId key pda wallet = Inr authority"
    and l: "buildCompactLayout [payer, wallet, authority, vault, key] instructions payer = Inr (cis, remaining)"
    and p: "packCompactInstructions cis = Inr packed"
    and ix: "createExecuteIx payer wallet authority vault packed None (Some key) (Some remaining) (map_option fr_accounts fee)
      programId = Inr ix" "ixs = with_register fee @ [ix]"
    using assms(1) by (auto simp: execute_ed25519_def rbind_eq_Inr)
  let ?ms = "[meta payer SIGNER_RW, meta wallet RO, meta authority RW, meta vault RW, meta key SIGNER_RO] @ remaining"
  have i: "ix_accounts ix = Some (append_fee (map_option fr_accounts fee) ?ms)"
    "ix_data ix = Some (word_of_int DISC_EXECUTE # packed @ [])"
    using ix(1) by (auto simp: createExecuteIx_def append_authorizer_def opt_part_def)
  show ?thesis using layout_runs_calls [OF l assms(2) p _ _ i, of K fp] by (simp add: ix(2))
qed

lemma execute_session_runs:
  assumes "execute_session programId payer wallet vault session key instructions fee = Inr ixs" "inner_ok instructions"
  shows "runs_calls K (fee \<noteq> None) fp payer instructions (last ixs)"
proof -
  obtain cis remaining packed ix where
    l: "buildCompactLayout [payer, wallet, session, vault, key] instructions payer = Inr (cis, remaining)"
    and p: "packCompactInstructions cis = Inr packed"
    and ix: "createExecuteIx payer wallet session vault packed None None (Some (meta key READONLY_SIGNER # remaining))
      (map_option fr_accounts fee) programId = Inr ix" "ixs = with_register fee @ [ix]"
    using assms(1) by (auto simp: execute_session_def rbind_eq_Inr)
  let ?ms = "[meta payer SIGNER_RW, meta wallet RO, meta session RW, meta vault RW, meta key SIGNER_RO] @ remaining"
  have i: "ix_accounts ix = Some (append_fee (map_option fr_accounts fee) ?ms)"
    "ix_data ix = Some (word_of_int DISC_EXECUTE # packed @ [])"
    using ix(1) by (auto simp: createExecuteIx_def append_authorizer_def opt_part_def)
  show ?thesis using layout_runs_calls [OF l assms(2) p _ _ i, of K fp] by (simp add: ix(2))
qed

lemma execute_passkey_runs:
  assumes "prepareExecute K reads (Inr fee) programId payer wallet secp instructions feePayer = Inr p"
    and "finalizeExecute p response = Inr ixs" "inner_ok instructions"
  shows "runs_calls K (fee \<noteq> None) fp payer instructions (last ixs)"
proof -
  obtain cis packed where
    l: "buildCompactLayout [payer, wallet, pex_authorityPda p, pex_vaultPda p, SYSVAR_INSTRUCTIONS_ADDRESS] instructions payer
      = Inr (cis, pex_remainingAccounts p)"
    and p: "packCompactInstructions cis = Inr (pex_packed p)" "pex_payer p = payer" "pex_walletPda p = wallet"
      "pex_protocolFee p = map_option fr_accounts fee"
    using assms(1)
    by (auto simp: prepareExecute_def rbind_eq_Inr buildCompactLayoutAndHash_def Let_def)
  obtain ap pre ix where ix: "createExecuteIx payer wallet (pex_authorityPda p) (pex_vaultPda p) (pex_packed p) (Some ap) None
      (Some (pex_remainingAccounts p)) (map_option fr_accounts fee) (pex_programId p) = Inr ix" "last ixs = ix"
    using assms(2) by (auto simp: finalizeExecute_def rbind_eq_Inr p)
  let ?ms = "[meta payer SIGNER_RW, meta wallet RO, meta (pex_authorityPda p) RW, meta (pex_vaultPda p) RW,
      meta SYSVAR_INSTRUCTIONS_ADDRESS RO] @ pex_remainingAccounts p"
  have i: "ix_accounts ix = Some (append_fee (map_option fr_accounts fee) ?ms)"
    "ix_data ix = Some (word_of_int DISC_EXECUTE # pex_packed p @ ap)"
    using ix(1) by (auto simp: createExecuteIx_def append_authorizer_def opt_part_def)
  show ?thesis using layout_runs_calls [OF l assms(3) p(1) _ _ i, of K fp] by (simp add: ix(2))
qed


lemma w_layout:
  "length fixed \<le> 100 \<Longrightarrow> \<exists>cis remaining. buildCompactLayout fixed w_inner payer = Inr (cis, remaining)"
  using layout_succeeds [of fixed w_inner payer] w_new_accounts(2) [of fixed] by (auto simp: is_ok_iff)

lemma w_vault: "\<exists>v b. findVaultPda sample_kit w p = Inr (v, b)"
  by (simp add: findVaultPda_def sample_kit_def)


section \<open>Registrations an execute hands out\<close>

text \<open>What the caches hold once a fee resolution has succeeded for a payer.\<close>

definition fee_settled :: "client \<Rightarrow> address \<Rightarrow> bool" where
  "fee_settled c payer \<longleftrightarrow> \<not> cl_protocolFees c \<or>
     (\<exists>cfg. cl_protocolConfig c = Some cfg \<and>
       (case cfg of None \<Rightarrow> True | Some p \<Rightarrow> pc_enabled p \<longrightarrow> payer \<in> cl_registeredPayers c))"

lemma resolve_settles:
  assumes "resolveProtocolFeeWithRegister K rpc rand payer c = (Inr fee, c')"
  shows "fee_settled c' payer"
proof -
  obtain a d where a: "resolveProtocolFee K rpc rand payer c = (Inr a, d)"
    using assms by (auto simp: resolveProtocolFeeWithRegister_def sbind_def split: prod.splits sum.splits)
  show ?thesis
  proof (cases a)
    case None
    then show ?thesis
      using assms a resolveProtocolFee_cases [OF a]
      by (auto simp: resolveProtocolFeeWithRegister_def sbind_def pure_def fee_settled_def)
  next
    case (Some acc)
    obtain cfg e where g: "getProtocolConfig K rpc d = (Inr cfg, e)"
      using assms a Some by (auto simp: resolveProtocolFeeWithRegister_def sbind_def split: prod.splits sum.splits)
    have "cl_protocolConfig e = Some cfg" using getProtocolConfig_frame(4) [OF g] by simp
    then show ?thesis
      using assms a Some g
      by (auto simp: resolveProtocolFeeWithRegister_def sbind_def pure_def fee_settled_def Let_def
          split: option.splits if_splits sum.splits)
  qed
qed

lemma settled_no_register:
  assumes "fee_settled c payer" "resolveProtocolFeeWithRegister K rpc rand payer c = (Inr fee, c')"
  shows "with_register fee = []"
proof -
  obtain a d where a: "resolveProtocolFee K rpc rand payer c = (Inr a, d)"
    using assms(2) by (auto simp: resolveProtocolFeeWithRegister_def sbind_def split: prod.splits sum.splits)
  show ?thesis
  proof (cases "cl_protocolFees c")
    case False
    then show ?thesis
      using assms(2) resolveProtocolFee_cases [OF a] a
      by (simp add: resolveProtocolFeeWithRegister_def sbind_def pure_def with_register_def)
  next
    case True
    then obtain cfg where cfg: "cl_protocolConfig c = Some cfg"
        "case cfg of None \<Rightarrow> True | Some p \<Rightarrow> pc_enabled p \<longrightarrow> payer \<in> cl_registeredPayers c"
      using assms(1) by (auto simp: fee_settled_def)
    then have g: "getProtocolConfig K rpc c = (Inr cfg, c)" by (simp add: getProtocolConfig_def)
    then obtain acc where "a = Some acc" "d = c" using resolveProtocolFee_cases [OF a] True by auto
    then show ?thesis
      using assms(2) a g cfg(2)
      by (cases cfg) (auto simp: resolveProtocolFeeWithRegister_def sbind_def pure_def with_register_def split: if_splits)
  qed
qed


text \<open>A passkey signer, and a node with fees enabled that holds no fee record.\<close>

definition w_config :: secp256r1_signer_config where
  "w_config = \<lparr>sc_signer = \<lparr>sg_publicKeyBytes = replicate 33 2, sg_credentialIdHash = replicate 32 3,
       sg_rpId = ''app'', sg_sign = (\<lambda>_. Inr w_response)\<rparr>,
     sc_authorityPda = Some ''auth'', sc_slotOverride = None, sc_minContextSlot = None, sc_commitment = None\<rparr>"

definition w_rpc :: rpc_account where
  "w_rpc a = Inr (if a = SEED_PROTOCOL_CONFIG then Some ([0x25, 0, 0, 1, 1] @ replicate 83 0) else None)"

lemma w_finalizes:
  "\<exists>r. finalizeSecp256r1 \<lparr>ps_challenge = ch, ps_internal = \<lparr>si_slot = s, si_counter = n, si_sysvarIxIndex = i,
      si_publicKeyBytes = replicate 33 2\<rparr>\<rparr> w_response = Inr r"
  by (simp add: finalizeSecp256r1_def w_response_def buildAuthPayload_eq buildSecp256r1PrecompileIx_eq sample_kit_def Let_def)

lemma sample_fee_pdas:
  "findProtocolConfigPda sample_kit p = Inr (SEED_PROTOCOL_CONFIG, 0)"
  "findFeeRecordPda sample_kit a p = Inr (SEED_FEE_RECORD @ a, 0)"
  by (simp_all add: find_pda_defs sample_kit_def utf8_def comp_def)

lemma w_resolution:
  "\<exists>fee c'. resolveProtocolFeeWithRegister sample_kit w_rpc rand ''pay'' (new_client ''prog'' None) = (Inr (Some fee), c')
    \<and> fr_registerIx fee \<noteq> None \<and> cl_programId c' = ''prog'' \<and> cl_protocolFees c'
    \<and> (\<exists>cfg. cl_protocolConfig c' = Some (Some cfg) \<and> pc_enabled cfg)"
proof -
  have "SEED_FEE_RECORD @ ''pay'' \<noteq> SEED_PROTOCOL_CONFIG" by (simp add: SEED_FEE_RECORD_def SEED_PROTOCOL_CONFIG_def)
  moreover obtain t where "findTreasuryShardPda sample_kit n p = Inr (t n, 0)" for n p
    by (simp add: findTreasuryShardPda_def sample_kit_def)
  ultimately show ?thesis
    by (simp add: resolveProtocolFeeWithRegister_def resolveProtocolFee_def getProtocolConfig_def new_client_def sbind_def
        pure_def w_rpc_def decode_protocol_config_def sample_fee_pdas Let_def)
qed


end
