(* ===== verification/WalletFlows.thy ===== *)
theory WalletFlows
  imports ClientFlows
begin

text \<open>
  Creating a wallet: the program's \<open>CreateWallet\<close> handler, from its argument parser to the last of
  its address checks, against the transaction the client's \<open>createWallet\<close> builds.
\<close>

section \<open>The handler\<close>

text \<open>
  The result is what the handler goes on to store: the seed, the authority type and the key
  material. \<open>k_pda\<close> plays the part of \<open>find_program_address\<close>, with the seeds of \<open>seeds.rs\<close>.
\<close>

definition check_pda :: "kit \<Rightarrow> address \<Rightarrow> bytes list \<Rightarrow> bytes \<Rightarrow> bytes result" where
  "check_pda K program_id seeds given =
     rbind (k_pda K program_id seeds) (\<lambda>(a, _).
     if given \<noteq> k_encAddr K a then Inl (ProgramError ''InvalidSeeds'') else Inr (k_encAddr K a))"

definition process_create_wallet ::
  "kit \<Rightarrow> address \<Rightarrow> account_info list \<Rightarrow> bytes \<Rightarrow> (bytes \<times> byte \<times> bytes) result" where
  "process_create_wallet K program_id infos instruction_data =
     (if length instruction_data < 40 then Inl (ProgramError ''InvalidInstructionData'')
      else let user_seed = take 32 instruction_data;
               authority_type = instruction_data ! 32;
               rest = drop 40 instruction_data in
        rbind (add_key_len authority_type rest) (\<lambda>key_len.
        rbind (payer_key infos) (\<lambda>_.
        rbind (key_at infos 1) (\<lambda>wallet_pda. rbind (key_at infos 2) (\<lambda>vault_pda.
        rbind (key_at infos 3) (\<lambda>auth_pda. rbind (key_at infos 5) (\<lambda>_.
        rbind (check_pda K program_id [utf8 SEED_WALLET, user_seed] wallet_pda) (\<lambda>wallet_key.
        rbind (check_pda K program_id [utf8 SEED_VAULT, wallet_key] vault_pda) (\<lambda>_.
        rbind (check_pda K program_id [utf8 SEED_AUTHORITY, wallet_key, take 32 rest] auth_pda) (\<lambda>_.
        Inr (user_seed, authority_type, take key_len rest)))))))))))"

section \<open>The client's transaction\<close>

definition wallet_metas :: "address \<Rightarrow> address \<Rightarrow> address \<Rightarrow> address \<Rightarrow> account_meta list" where
  "wallet_metas payer wallet vault authority = [meta payer SIGNER_RW, meta wallet RW, meta vault RW, meta authority RW,
     meta SYSTEM_PROGRAM_ADDRESS RO, meta SYSVAR_RENT_ADDRESS RO]"

lemma createWallet_cases:
  assumes "createWallet K rpc rand payer userSeed owner c = (Inr w, c')"
  obtains f bump fee b1 b2 where "length userSeed = 32" "resolveOwnerFields K owner = Inr f"
    "findWalletPda K userSeed (cl_programId c) = Inr (cw_walletPda w, b1)"
    "findVaultPda K (cw_walletPda w) (cl_programId c) = Inr (cw_vaultPda w, b2)"
    "findAuthorityPda K (cw_walletPda w) (of_credentialOrPubkey f) (cl_programId c) = Inr (cw_authorityPda w, bump)"
    "resolveProtocolFeeWithRegister K rpc rand payer c = (Inr fee, c')"
    "cw_instructions w = with_register fee @ [\<lparr>ix_program = cl_programId c,
       ix_accounts = Some (append_fee (map_option fr_accounts fee)
         (wallet_metas payer (cw_walletPda w) (cw_vaultPda w) (cw_authorityPda w))),
       ix_data = Some (word_of_int DISC_CREATE_WALLET # userSeed @ u8_of [of_authType f, bump] @ u8_zeros 6
         @ key_bytes (of_authType f) (of_credentialOrPubkey f) (of_secp256r1Pubkey f) (of_rpId f))\<rparr>]"
  using assms that
  by (auto simp: createWallet_def sbind_def pure_def rbind_eq_Inr assertByteLength_def Let_def createCreateWalletIx_def
      wallet_metas_def key_bytes_def split: sum.splits prod.splits if_splits)

lemma wallet_data_fields:
  fixes ty bump :: int and key :: bytes
  assumes "length seed = 32"
  defines "data \<equiv> seed @ u8_of [ty, bump] @ u8_zeros 6 @ key"
  shows "take 32 data = seed" "data ! 32 = word_of_int ty" "drop 40 data = key" "\<not> length data < 40"
  using assms(1) by (simp_all add: data_def nth_append)

text \<open>
  A created wallet passes the program's checks. For an owner with a usable key, every
  transaction \<open>createWallet\<close> returns ends in an instruction which the \<open>CreateWallet\<close> handler, seeing
  its accounts with the fee suffix stripped, parses back into the seed, the authority type and the
  whole key material, and whose wallet, vault and authority accounts are the ones the handler
  derives.
\<close>

theorem createWallet_accepted:
  assumes K: "address_codec K" and owner: "owner_wf K owner"
    and run: "createWallet K rpc rand payer userSeed owner c = (Inr w, c')"
  shows "\<exists>metas f. resolveOwnerFields K owner = Inr f
    \<and> processor_accounts (cl_protocolFees c) (hd (data_of (last (cw_instructions w))))
        (withRuntimeRoles (accounts_of (last (cw_instructions w))) fp) = Inr metas
    \<and> process_create_wallet K (cl_programId c) (infos_of K metas) (tl (data_of (last (cw_instructions w)))) =
        Inr (userSeed, word_of_int (of_authType f),
          key_bytes (of_authType f) (of_credentialOrPubkey f) (of_secp256r1Pubkey f) (of_rpId f))"
  using run
proof (rule createWallet_cases)
  fix f bump fee b1 b2
  assume seed: "length userSeed = 32" and f: "resolveOwnerFields K owner = Inr f"
    and pdas: "findWalletPda K userSeed (cl_programId c) = Inr (cw_walletPda w, b1)"
      "findVaultPda K (cw_walletPda w) (cl_programId c) = Inr (cw_vaultPda w, b2)"
      "findAuthorityPda K (cw_walletPda w) (of_credentialOrPubkey f) (cl_programId c) = Inr (cw_authorityPda w, bump)"
    and fee: "resolveProtocolFeeWithRegister K rpc rand payer c = (Inr fee, c')"
    and ix: "cw_instructions w = with_register fee @ [\<lparr>ix_program = cl_programId c,
       ix_accounts = Some (append_fee (map_option fr_accounts fee)
         (wallet_metas payer (cw_walletPda w) (cw_vaultPda w) (cw_authorityPda w))),
       ix_data = Some (word_of_int DISC_CREATE_WALLET # userSeed @ u8_of [of_authType f, bump] @ u8_zeros 6
         @ key_bytes (of_authType f) (of_credentialOrPubkey f) (of_secp256r1Pubkey f) (of_rpId f))\<rparr>]"
  let ?key = "key_bytes (of_authType f) (of_credentialOrPubkey f) (of_secp256r1Pubkey f) (of_rpId f)"
  let ?ms = "wallet_metas payer (cw_walletPda w) (cw_vaultPda w) (cw_authorityPda w)"
  let ?all = "append_fee (map_option fr_accounts fee) ?ms"
  have fo: "(map_option fr_accounts fee \<noteq> None) = cl_protocolFees c" using fee_resolution_on(1) [OF fee] by simp
  obtain metas where m: "processor_accounts (cl_protocolFees c) 0 (withRuntimeRoles ?all fp) = Inr metas"
      "map am_address metas = map am_address ?ms"
    using processor_keys [of ?ms 0 "map_option fr_accounts fee" fp] unfolding fo by (auto simp: wallet_metas_def)
  have keys: "map ai_key (infos_of K metas) = map (k_encAddr K) [payer, cw_walletPda w, cw_vaultPda w, cw_authorityPda w,
      SYSTEM_PROGRAM_ADDRESS, SYSVAR_RENT_ADDRESS]"
    using arg_cong [OF m(2), of "map (k_encAddr K)"] by (simp add: info_of_def comp_def wallet_metas_def)
  have len: "length metas = 6" using arg_cong [OF keys, of length] by simp
  have at: "key_at (infos_of K metas) i = Inr (map (k_encAddr K) [payer, cw_walletPda w, cw_vaultPda w, cw_authorityPda w,
      SYSTEM_PROGRAM_ADDRESS, SYSVAR_RENT_ADDRESS] ! i)" if "i < 6" for i
    using arg_cong [OF keys, of "\<lambda>l. l ! i"] that len by (simp add: key_at_def)
  have payer: "is_ok (payer_key (infos_of K metas))"
  proof -
    have "metas = take 6 (withRuntimeRoles ?all fp)"
      using m(1) len by (auto simp: processor_accounts_def split: if_splits)
    then show ?thesis
      by (auto simp: payer_key_def withRuntimeRoles_eq wallet_metas_def append_fee_def appendProtocolFeeAccounts_def
          info_of_def role_of_bits asks_signer_def role_signer_def [of SIGNER_RW] split: option.splits)
  qed
  have kw: "key_wf (of_authType f) (of_credentialOrPubkey f) (of_secp256r1Pubkey f) (of_rpId f)"
    by (rule resolved_key_wf [OF K f owner])
  note kl = key_lens(1,3) [OF kw, of "[]", unfolded append_Nil2]
  note wd = wallet_data_fields [OF seed, of "of_authType f" bump ?key]
  have "process_create_wallet K (cl_programId c) (infos_of K metas) (userSeed @ u8_of [of_authType f, bump] @ u8_zeros 6 @ ?key)
      = Inr (userSeed, word_of_int (of_authType f), ?key)"
    unfolding process_create_wallet_def Let_def wd(1-3) if_not_P [OF wd(4)] kl
    using payer at pdas by (auto simp: is_ok_iff check_pda_def find_pda_defs)
  then show ?thesis
    using f m(1) by (auto simp: ix data_of_def accounts_of_def DISC_CREATE_WALLET_def)
qed

theorem createWallet_accepted_witness:
  "\<exists>w c'. createWallet sample_kit w_rpc 7 ''pay'' (replicate 32 1) (OwnerSecp256r1 (replicate 32 8) (replicate 33 9) ''app'')
      (new_client ''prog'' None) = (Inr w, c')
    \<and> (\<exists>metas. is_ok (process_create_wallet sample_kit ''prog'' (infos_of sample_kit metas)
        (tl (data_of (last (cw_instructions w))))))"
proof -
  let ?o = "OwnerSecp256r1 (replicate 32 8) (replicate 33 9) ''app''" and ?c = "new_client ''prog'' None"
  obtain fee d where fee: "resolveProtocolFeeWithRegister sample_kit w_rpc 7 ''pay'' ?c = (Inr (Some fee), d)"
    using w_resolution [of 7] by blast
  have "k_pda sample_kit p s = Inr (map byte_char (concat s), 0)" for p s by (simp add: sample_kit_def)
  then have "\<exists>w. createWallet sample_kit w_rpc 7 ''pay'' (replicate 32 1) ?o ?c = (Inr w, d)"
    by (simp add: createWallet_def sbind_def pure_def fee Let_def assertByteLength_def assertNonZeroBytes_def
        find_pda_defs createCreateWalletIx_def list_all_iff)
  then obtain w where w: "createWallet sample_kit w_rpc 7 ''pay'' (replicate 32 1) ?o ?c = (Inr w, d)" by blast
  have o: "owner_wf sample_kit ?o" by (simp add: owner_wf_def)
  from createWallet_accepted [OF sample_kit_laws(1) o w, of None] w show ?thesis
    by (auto simp: is_ok_iff new_client_def)
qed

end
