(* ===== verification/ChallengeReads.thy ===== *)
theory ChallengeReads
  imports ClientCore
begin

text \<open>
  The reads a passkey challenge is made from (\<open>secp256r1/challengeReads.ts\<close>): the retry loop that
  waits for a node to reach a freshness floor, the three readers over it, and the group that runs
  them side by side and stops the others when one fails.

  Time is explicit. A node is a function of the time it is asked at: its answer, and how long it
  took. A read returns its result, the time it ended and the times it asked the node. A group's
  stop is the time of its first failure: what a read asks afterwards is what the group saves.
\<close>

section \<open>Configuration\<close>

record challenge_read_options =
  cro_commitment :: "commitment option"
  cro_minContextSlot :: "int option"

record read_config =
  rc_commitment :: commitment
  rc_minContextSlot :: "int option"

definition CHALLENGE_READ_COMMITMENT :: commitment where "CHALLENGE_READ_COMMITMENT = Confirmed"
definition MIN_CONTEXT_SLOT_WAIT_MS :: int where "MIN_CONTEXT_SLOT_WAIT_MS = 10000"
definition FINALIZED_MIN_CONTEXT_SLOT_WAIT_MS :: int where "FINALIZED_MIN_CONTEXT_SLOT_WAIT_MS = 30000"

definition minContextSlotWaitMs :: "commitment \<Rightarrow> int" where
  "minContextSlotWaitMs c =
     (if c = Finalized then FINALIZED_MIN_CONTEXT_SLOT_WAIT_MS else MIN_CONTEXT_SLOT_WAIT_MS)"

definition challengeReadConfig :: "challenge_read_options option \<Rightarrow> read_config" where
  "challengeReadConfig opts =
     (case opts of
        None \<Rightarrow> \<lparr>rc_commitment = CHALLENGE_READ_COMMITMENT, rc_minContextSlot = None\<rparr>
      | Some o' \<Rightarrow> \<lparr>rc_commitment = (case cro_commitment o' of Some c \<Rightarrow> c | None \<Rightarrow> CHALLENGE_READ_COMMITMENT),
                    rc_minContextSlot = cro_minContextSlot o'\<rparr>)"

section \<open>The retry loop\<close>

text \<open>The error of kit's RPC client for -32016, and the SDK's own.\<close>

definition SLOT_NOT_REACHED :: exn where
  "SLOT_NOT_REACHED = LibError ''SOLANA_ERROR__JSON_RPC__SERVER_ERROR_MIN_CONTEXT_SLOT_NOT_REACHED''"

definition MinContextSlotNotReachedError :: exn where
  "MinContextSlotNotReachedError = Error ''MinContextSlotNotReachedError''"

text \<open>Asked at a time: the answer and the milliseconds it took.\<close>

type_synonym 'a node = "int \<Rightarrow> 'a result \<times> nat"

record 'a run =
  rn_result :: "'a result"
  rn_end :: int
  rn_asked :: "int list"

definition backoff :: "nat \<Rightarrow> int" where
  "backoff attempt = min (100 * int attempt) 1000"

text \<open>\<open>ChallengeReadGroup\<close>: the time its first read failed, if any. A sleep ends early at the stop.\<close>

definition group_stopped :: "int option \<Rightarrow> int \<Rightarrow> bool" where
  "group_stopped stop t = (case stop of None \<Rightarrow> False | Some s \<Rightarrow> s \<le> t)"

definition group_sleep :: "int option \<Rightarrow> int \<Rightarrow> int \<Rightarrow> int" where
  "group_sleep stop t ms = (case stop of None \<Rightarrow> t + ms | Some s \<Rightarrow> if s \<le> t then t else min (t + ms) s)"

text \<open>The loop, before retry \<open>k + 1\<close>, at the time \<open>now\<close>; \<open>started\<close> is when it began.\<close>

function retry_read ::
  "'a node \<Rightarrow> int \<Rightarrow> int option \<Rightarrow> int option \<Rightarrow> int \<Rightarrow> nat \<Rightarrow> int \<Rightarrow> 'a run" where
  "retry_read node budget minContextSlot stop started k now =
     (let r = fst (node now); answered = now + int (snd (node now)) in
      case r of
        Inr x \<Rightarrow> \<lparr>rn_result = Inr x, rn_end = answered, rn_asked = [now]\<rparr>
      | Inl e \<Rightarrow>
          if minContextSlot = None \<or> e \<noteq> SLOT_NOT_REACHED
          then \<lparr>rn_result = Inl e, rn_end = answered, rn_asked = [now]\<rparr>
          else if group_stopped stop answered
          then \<lparr>rn_result = Inl e, rn_end = answered, rn_asked = [now]\<rparr>
          else let waitedMs = answered - started; delay = backoff (Suc k) in
            if waitedMs + delay > budget
            then \<lparr>rn_result = Inl MinContextSlotNotReachedError, rn_end = answered, rn_asked = [now]\<rparr>
            else let woken = group_sleep stop answered delay in
              if group_stopped stop woken
              then \<lparr>rn_result = Inl e, rn_end = woken, rn_asked = [now]\<rparr>
              else let rest = retry_read node budget minContextSlot stop started (Suc k) woken
                in rest\<lparr>rn_asked := now # rn_asked rest\<rparr>)"
  by pat_completeness auto

lemma backoff_bounds: "100 \<le> backoff (Suc k)" "backoff (Suc k) \<le> 1000"
  by (simp_all add: backoff_def)

lemma slept_fully:
  assumes "\<not> group_stopped stop t" "\<not> group_stopped stop (group_sleep stop t ms)" "0 \<le> ms"
  shows "group_sleep stop t ms = t + ms" "\<not> group_stopped stop (t + ms)"
  using assms by (auto simp: group_stopped_def group_sleep_def split: option.splits if_splits)

termination retry_read
proof (relation "measure (\<lambda>(_, budget, _, _, started, _, now). nat (started + budget + 1 - now))")
  fix node :: "'a node" and budget started now :: int and floor stop :: "int option" and k :: nat
    and x xa e xb xc xd
  assume a: "x = fst (node now)" "xa = now + int (snd (node now))" "x = Inl e"
    "\<not> group_stopped stop xa" "xb = xa - started" "xc = backoff (Suc k)" "\<not> xb + xc > budget"
    "xd = group_sleep stop xa xc" "\<not> group_stopped stop xd"
  have "xd = xa + xc" using slept_fully(1) [of stop xa xc] a backoff_bounds(1) [of k] by auto
  then have "xd > now" "xd \<le> started + budget" using a backoff_bounds(1) [of k] by auto
  then show "((node, budget, floor, stop, started, Suc k, xd), node, budget, floor, stop, started, k, now)
      \<in> measure (\<lambda>(_, budget, _, _, started, _, now). nat (started + budget + 1 - now))" by simp
qed auto

declare retry_read.simps [simp del]

definition atOrAfterContextSlot :: "'a node \<Rightarrow> read_config \<Rightarrow> int option \<Rightarrow> int \<Rightarrow> 'a run" where
  "atOrAfterContextSlot read config stop now =
     retry_read read (minContextSlotWaitMs (rc_commitment config)) (rc_minContextSlot config) stop now 0 now"

section \<open>The readers\<close>

text \<open>The node's two methods, as functions of the read's configuration.\<close>

record rpc_node =
  nd_getAccountInfo :: "address \<Rightarrow> read_config \<Rightarrow> bytes option node"
  nd_getSlot :: "read_config \<Rightarrow> int node"

definition run_map :: "('a \<Rightarrow> 'b result) \<Rightarrow> 'a run \<Rightarrow> 'b run" where
  "run_map f r = \<lparr>rn_result = rbind (rn_result r) f, rn_end = rn_end r, rn_asked = rn_asked r\<rparr>"

definition readAuthorityAccountBytes ::
  "rpc_node \<Rightarrow> address \<Rightarrow> challenge_read_options option \<Rightarrow> int option \<Rightarrow> int \<Rightarrow> bytes run" where
  "readAuthorityAccountBytes rpc authorityPda opts stop now =
     (let config = challengeReadConfig opts in
      run_map (\<lambda>info. case info of
          None \<Rightarrow> Inl (Error (''Authority account not found: '' @ authorityPda))
        | Some data \<Rightarrow> Inr data)
        (atOrAfterContextSlot (nd_getAccountInfo rpc authorityPda config) config stop now))"

definition counter_of :: "bytes \<Rightarrow> int result" where
  "counter_of bs = (if length bs < 12 then Inl (Error ''Authority account data too short'')
     else Inr (le_val (u8_slice bs 8 12)))"

definition readChallengeCounter ::
  "rpc_node \<Rightarrow> address \<Rightarrow> challenge_read_options option \<Rightarrow> int option \<Rightarrow> int \<Rightarrow> int run" where
  "readChallengeCounter rpc authorityPda opts stop now =
     run_map counter_of (readAuthorityAccountBytes rpc authorityPda opts stop now)"

definition key_of_authority :: "bytes \<Rightarrow> bytes result" where
  "key_of_authority bs =
     (if length bs < 113 then Inl (Error ''Authority account too small for Secp256r1'')
      else if bs ! 0 \<noteq> ACCOUNT_DISCRIMINATOR AUTHORITY then Inl (Error ''Not an Authority account'')
      else if bs ! 1 \<noteq> 1 then Inl (Error ''Authority is not Secp256r1'')
      else Inr (u8_slice bs 80 (80 + 33)))"

definition readChallengeKey ::
  "rpc_node \<Rightarrow> address \<Rightarrow> challenge_read_options option \<Rightarrow> int option \<Rightarrow> int \<Rightarrow> bytes run" where
  "readChallengeKey rpc authorityPda opts stop now =
     run_map key_of_authority (readAuthorityAccountBytes rpc authorityPda opts stop now)"

definition readChallengeSlot ::
  "rpc_node \<Rightarrow> challenge_read_options option \<Rightarrow> int option \<Rightarrow> int \<Rightarrow> int run" where
  "readChallengeSlot rpc opts stop now =
     (let config = challengeReadConfig opts in atOrAfterContextSlot (nd_getSlot rpc config) config stop now)"

text \<open>
  \<open>readAuthorityCounter\<close>, \<open>readAuthorityPubkey\<close> and \<open>readCounter\<close>: the same readers outside a group.
\<close>

definition readAuthorityCounter ::
  "rpc_node \<Rightarrow> address \<Rightarrow> challenge_read_options option \<Rightarrow> int \<Rightarrow> int run" where
  "readAuthorityCounter rpc authorityPda opts now = readChallengeCounter rpc authorityPda opts None now"

definition readAuthorityPubkey ::
  "rpc_node \<Rightarrow> address \<Rightarrow> challenge_read_options option \<Rightarrow> int \<Rightarrow> bytes run" where
  "readAuthorityPubkey rpc authorityPda opts now = readChallengeKey rpc authorityPda opts None now"

section \<open>The group\<close>

text \<open>
  The failures of the three reads when nothing stops them, with the time of each; the earliest one
  stops the group. Ties go to the order of the array.
\<close>

definition failure_of :: "'a run \<Rightarrow> (int \<times> exn) list" where
  "failure_of r = (case rn_result r of Inl e \<Rightarrow> [(rn_end r, e)] | Inr _ \<Rightarrow> [])"

fun first_failure :: "(int \<times> exn) list \<Rightarrow> (int \<times> exn) option" where
  "first_failure [] = None"
| "first_failure ((t, e) # fs) =
     (case first_failure fs of None \<Rightarrow> Some (t, e) | Some (t', e') \<Rightarrow> if t' < t then Some (t', e') else Some (t, e))"

record challenge_inputs =
  ci_result :: "(bytes \<times> int \<times> int) result"
  ci_asked :: "int list"

definition have_or :: "'a option \<Rightarrow> (int option \<Rightarrow> 'a run) \<Rightarrow> int \<Rightarrow> int option \<Rightarrow> 'a run" where
  "have_or have read now stop = (case have of
     Some x \<Rightarrow> \<lparr>rn_result = Inr x, rn_end = now, rn_asked = []\<rparr> | None \<Rightarrow> read stop)"

definition earlier_stop :: "int option \<Rightarrow> int \<Rightarrow> int" where
  "earlier_stop stop t = (case stop of None \<Rightarrow> t | Some s \<Rightarrow> min s t)"

text \<open>
  \<open>beside\<close> is the failure of a read the caller runs in the same group (the protocol-fee read of
  \<open>prepareExecute\<close>), with its time: one that is over before the call starts is thrown again and
  nothing is asked, a later one only stops the waiting.
\<close>

definition readChallengeInputs ::
  "rpc_node \<Rightarrow> address \<Rightarrow> challenge_read_options \<Rightarrow> bytes option \<Rightarrow> int option \<Rightarrow> (int \<times> exn) option \<Rightarrow> int
   \<Rightarrow> challenge_inputs" where
  "readChallengeInputs rpc authorityPda opts publicKeyBytes slotOverride beside now =
     (let stop = map_option fst beside;
          key = have_or publicKeyBytes (\<lambda>stop. readChallengeKey rpc authorityPda (Some opts) stop now) now;
          slot = have_or slotOverride (\<lambda>stop. readChallengeSlot rpc (Some opts) stop now) now;
          counter = (\<lambda>stop. readChallengeCounter rpc authorityPda (Some opts) stop now)
      in if group_stopped stop now then \<lparr>ci_result = Inl (snd (the beside)), ci_asked = []\<rparr>
         else case first_failure (failure_of (key stop) @ failure_of (slot stop) @ failure_of (counter stop)) of
           None \<Rightarrow> \<lparr>ci_result =
               rbind (rn_result (key stop)) (\<lambda>k. rbind (rn_result (slot stop)) (\<lambda>s.
               rbind (rn_result (counter stop)) (\<lambda>c. Inr (k, s, c + 1)))),
             ci_asked = rn_asked (key stop) @ rn_asked (slot stop) @ rn_asked (counter stop)\<rparr>
         | Some (t, e) \<Rightarrow> let stop' = Some (earlier_stop stop t) in \<lparr>ci_result = Inl e,
             ci_asked = rn_asked (key stop') @ rn_asked (slot stop') @ rn_asked (counter stop')\<rparr>)"

text \<open>The reads \<open>resolveSecp256r1\<close> makes, on one node at one time.\<close>

definition reads_on :: "rpc_node \<Rightarrow> int \<Rightarrow> challenge_reads" where
  "reads_on rpc now authorityPda p =
     ci_result (readChallengeInputs rpc authorityPda
       \<lparr>cro_commitment = sp_commitment p, cro_minContextSlot = sp_minContextSlot p\<rparr>
       (sp_publicKeyBytes p) (sp_slotOverride p) None now)"

section \<open>What the loop does\<close>

text \<open>One unfolding: it ends after this answer, or goes on after a pause.\<close>

lemma retry_cases:
  fixes node :: "'a node" and now :: int
  defines "r \<equiv> fst (node now)" and "answered \<equiv> now + int (snd (node now))"
  obtains
    (ends) res t where "retry_read node budget fl stop started k now = \<lparr>rn_result = res, rn_end = t, rn_asked = [now]\<rparr>"
      "answered \<le> t"
      "res = r \<or> res = Inl MinContextSlotNotReachedError \<and> fl \<noteq> None \<and> r = Inl SLOT_NOT_REACHED
         \<and> answered - started + 1000 > budget"
      "r = Inl SLOT_NOT_REACHED \<and> fl \<noteq> None \<and> stop = None \<longrightarrow> res = Inl MinContextSlotNotReachedError"
  | (again) pause where "r = Inl SLOT_NOT_REACHED" "fl \<noteq> None" "100 \<le> pause" "answered + pause \<le> started + budget"
      "\<not> group_stopped stop (answered + pause)"
      "retry_read node budget fl stop started k now =
        (let rest = retry_read node budget fl stop started (Suc k) (answered + pause)
         in rest\<lparr>rn_asked := now # rn_asked rest\<rparr>)"
proof (cases r)
  case (Inr x)
  then show thesis by (intro ends [of "Inr x" answered]) (simp_all add: retry_read.simps r_def answered_def)
next
  case (Inl e)
  note b = backoff_bounds [of k]
  consider "fl = None \<or> e \<noteq> SLOT_NOT_REACHED" | "fl \<noteq> None" "e = SLOT_NOT_REACHED" "group_stopped stop answered"
    | "fl \<noteq> None" "e = SLOT_NOT_REACHED" "\<not> group_stopped stop answered" "answered - started + backoff (Suc k) > budget"
    | "fl \<noteq> None" "e = SLOT_NOT_REACHED" "\<not> group_stopped stop answered" "\<not> answered - started + backoff (Suc k) > budget"
        "group_stopped stop (group_sleep stop answered (backoff (Suc k)))"
    | "fl \<noteq> None" "e = SLOT_NOT_REACHED" "\<not> group_stopped stop answered" "\<not> answered - started + backoff (Suc k) > budget"
        "\<not> group_stopped stop (group_sleep stop answered (backoff (Suc k)))"
    by blast
  then show thesis
  proof cases
    case 1
    then show thesis using Inl
      by (intro ends [of "Inl e" answered]) (auto simp: retry_read.simps r_def answered_def Let_def)
  next
    case 2
    then show thesis using Inl
      by (intro ends [of "Inl e" answered])
        (auto simp: retry_read.simps r_def answered_def Let_def group_stopped_def split: option.splits)
  next
    case 3
    then show thesis using Inl b
      by (intro ends [of "Inl MinContextSlotNotReachedError" answered]) (auto simp: retry_read.simps r_def answered_def Let_def)
  next
    case 4
    then show thesis using Inl b
      by (intro ends [of "Inl e" "group_sleep stop answered (backoff (Suc k))"])
        (auto simp: retry_read.simps r_def answered_def Let_def group_stopped_def group_sleep_def split: option.splits if_splits)
  next
    case 5
    have s: "group_sleep stop answered (backoff (Suc k)) = answered + backoff (Suc k)"
      "\<not> group_stopped stop (answered + backoff (Suc k))"
      using slept_fully [OF 5(3,5)] b by simp_all
    show thesis
    proof (rule again)
      show "retry_read node budget fl stop started k now =
        (let rest = retry_read node budget fl stop started (Suc k) (answered + backoff (Suc k))
         in rest\<lparr>rn_asked := now # rn_asked rest\<rparr>)"
        using 5 Inl s by (subst retry_read.simps) (auto simp: r_def answered_def Let_def)
    qed (use 5 Inl b s in \<open>auto simp: r_def\<close>)
  qed
qed

text \<open>A trace: when the node was asked, and what ended it.\<close>

definition trace_ok :: "'a node \<Rightarrow> int \<Rightarrow> int option \<Rightarrow> int option \<Rightarrow> int \<Rightarrow> int \<Rightarrow> 'a run \<Rightarrow> bool" where
  "trace_ok node budget fl stop started now run \<longleftrightarrow>
     (\<exists>pre lst. rn_asked run = pre @ [lst] \<and> hd (rn_asked run) = now
       \<and> successively (\<lambda>a b. a + 100 \<le> b) (rn_asked run)
       \<and> (\<forall>t \<in> set pre. fst (node t) = Inl SLOT_NOT_REACHED)
       \<and> (pre \<noteq> [] \<longrightarrow> fl \<noteq> None \<and> lst \<le> started + budget)
       \<and> (\<forall>t \<in> set (tl (rn_asked run)). \<not> group_stopped stop t)
       \<and> lst + int (snd (node lst)) \<le> rn_end run
       \<and> (rn_result run = fst (node lst)
          \<or> rn_result run = Inl MinContextSlotNotReachedError \<and> fl \<noteq> None \<and> fst (node lst) = Inl SLOT_NOT_REACHED
            \<and> lst + int (snd (node lst)) - started + 1000 > budget)
       \<and> (fst (node lst) = Inl SLOT_NOT_REACHED \<and> fl \<noteq> None \<and> stop = None
          \<longrightarrow> rn_result run = Inl MinContextSlotNotReachedError))"

lemma retry_trace: "trace_ok node budget fl stop started now (retry_read node budget fl stop started k now)"
proof (induction "nat (started + budget + 1 - now)" arbitrary: k now rule: less_induct)
  case less
  show ?case
  proof (cases rule: retry_cases [where node = node and now = now and budget = budget and fl = fl and stop = stop and started = started and k = k])
    case (ends res t)
    then show ?thesis unfolding trace_ok_def by (intro exI [of _ "[]"] exI [of _ now]) auto
  next
    case (again pause)
    let ?next = "now + int (snd (node now)) + pause"
    let ?rest = "retry_read node budget fl stop started (Suc k) ?next"
    have "trace_ok node budget fl stop started ?next ?rest"
      by (rule less.hyps) (use again(3,4) in simp)
    then obtain pre lst where t: "rn_asked ?rest = pre @ [lst]" "hd (rn_asked ?rest) = ?next"
        "successively (\<lambda>a b. a + 100 \<le> b) (rn_asked ?rest)"
        "\<forall>t \<in> set pre. fst (node t) = Inl SLOT_NOT_REACHED" "pre \<noteq> [] \<longrightarrow> lst \<le> started + budget"
        "\<forall>t \<in> set (tl (rn_asked ?rest)). \<not> group_stopped stop t"
        "lst + int (snd (node lst)) \<le> rn_end ?rest"
        "rn_result ?rest = fst (node lst)
          \<or> rn_result ?rest = Inl MinContextSlotNotReachedError \<and> fl \<noteq> None \<and> fst (node lst) = Inl SLOT_NOT_REACHED
            \<and> lst + int (snd (node lst)) - started + 1000 > budget"
        "fst (node lst) = Inl SLOT_NOT_REACHED \<and> fl \<noteq> None \<and> stop = None
          \<longrightarrow> rn_result ?rest = Inl MinContextSlotNotReachedError"
      unfolding trace_ok_def by blast
    obtain more where asked: "rn_asked ?rest = ?next # more" using t(1,2) by (cases pre) auto
    have "lst \<le> started + budget" using t(1,5) asked again(4) by (cases pre) auto
    moreover have "successively (\<lambda>a b. a + 100 \<le> b) (now # rn_asked ?rest)"
      using t(3) again(3) by (simp add: asked)
    moreover have "\<forall>t \<in> set (rn_asked ?rest). \<not> group_stopped stop t" using t(6) again(5) by (simp add: asked)
    ultimately show ?thesis
      unfolding trace_ok_def again(6) Let_def using t again(1,2)
      by (intro exI [of _ "now # pre"] exI [of _ lst]) auto
  qed
qed

lemma spaced_last:
  "successively (\<lambda>a b. a + 100 \<le> b) (x # xs) \<Longrightarrow> x + 100 * int (length xs) \<le> last (x # xs)" for x :: int
  by (induction xs arbitrary: x) fastforce+

lemma wait_nonneg: "0 \<le> minContextSlotWaitMs c"
  by (simp add: minContextSlotWaitMs_def FINALIZED_MIN_CONTEXT_SLOT_WAIT_MS_def MIN_CONTEXT_SLOT_WAIT_MS_def)

text \<open>
  A challenge read is bounded. It asks the node at once, then again at intervals of at least
  100 ms, never later than the wait of its commitment (10 s, or 30 s at \<open>finalized\<close>), so at most
  101 (301) times; without a floor it asks once; and once the group has stopped it asks no more.
\<close>

lemma atOrAfterContextSlot_bounded:
  fixes read :: "'a node" and config :: read_config and stop :: "int option" and now :: int
  defines "run \<equiv> atOrAfterContextSlot read config stop now"
    and "wait \<equiv> minContextSlotWaitMs (rc_commitment config)"
  shows "rn_asked run \<noteq> [] \<and> hd (rn_asked run) = now \<and> successively (\<lambda>a b. a + 100 \<le> b) (rn_asked run)
    \<and> last (rn_asked run) \<le> now + wait \<and> int (length (rn_asked run)) \<le> wait div 100 + 1
    \<and> (rc_minContextSlot config = None \<longrightarrow> rn_asked run = [now])
    \<and> list_all (\<lambda>t. \<not> group_stopped stop t) (tl (rn_asked run))"
proof -
  have "trace_ok read wait (rc_minContextSlot config) stop now now run"
    unfolding run_def wait_def atOrAfterContextSlot_def by (rule retry_trace)
  then obtain pre lst where t: "rn_asked run = pre @ [lst]" "hd (rn_asked run) = now"
      "successively (\<lambda>a b. a + 100 \<le> b) (rn_asked run)" "pre \<noteq> [] \<longrightarrow> rc_minContextSlot config \<noteq> None \<and> lst \<le> now + wait"
      "\<forall>t \<in> set (tl (rn_asked run)). \<not> group_stopped stop t"
    unfolding trace_ok_def by blast
  have l: "last (rn_asked run) \<le> now + wait" using t(1,2,4) wait_nonneg by (cases pre) (auto simp: wait_def)
  obtain more where m: "rn_asked run = now # more" using t(1,2) by (cases pre) auto
  have "now + 100 * int (length more) \<le> now + wait" using spaced_last [of now more] t(3) l m by simp
  then have "int (length (rn_asked run)) \<le> wait div 100 + 1" using m by simp
  moreover have "rn_asked run = [now]" if "rc_minContextSlot config = None" using that t(1,2,4) by auto
  ultimately show ?thesis using t l m by (simp add: list_all_iff)
qed

text \<open>
  What a challenge read ends with. A value is the node's own answer to the last question; an
  error of the node other than "slot not reached" is passed on; and "slot not reached" itself is
  never the outcome of a read with a floor outside a stopped group: such a read either outwaits it
  or ends in \<open>MinContextSlotNotReachedError\<close>, and the latter only when another pause could have
  passed the wait and the node had not reached the floor yet.
\<close>

lemma atOrAfterContextSlot_outcome:
  fixes read :: "'a node" and config :: read_config and stop :: "int option" and now :: int
  defines "run \<equiv> atOrAfterContextSlot read config stop now"
  shows "case rn_result run of
      Inr x \<Rightarrow> fst (read (last (rn_asked run))) = Inr x
    | Inl e \<Rightarrow>
        fst (read (last (rn_asked run))) = Inl e
          \<and> \<not> (stop = None \<and> rc_minContextSlot config \<noteq> None \<and> e = SLOT_NOT_REACHED)
        \<or> e = MinContextSlotNotReachedError \<and> rc_minContextSlot config \<noteq> None
          \<and> fst (read (last (rn_asked run))) = Inl SLOT_NOT_REACHED
          \<and> now + minContextSlotWaitMs (rc_commitment config) - 1000
            < last (rn_asked run) + int (snd (read (last (rn_asked run))))"
proof -
  have "trace_ok read (minContextSlotWaitMs (rc_commitment config)) (rc_minContextSlot config) stop now now run"
    unfolding run_def atOrAfterContextSlot_def by (rule retry_trace)
  then obtain pre lst where t: "rn_asked run = pre @ [lst]"
      "rn_result run = fst (read lst)
        \<or> rn_result run = Inl MinContextSlotNotReachedError \<and> rc_minContextSlot config \<noteq> None
          \<and> fst (read lst) = Inl SLOT_NOT_REACHED
          \<and> lst + int (snd (read lst)) - now + 1000 > minContextSlotWaitMs (rc_commitment config)"
      "fst (read lst) = Inl SLOT_NOT_REACHED \<and> rc_minContextSlot config \<noteq> None \<and> stop = None
        \<longrightarrow> rn_result run = Inl MinContextSlotNotReachedError"
    unfolding trace_ok_def by blast
  have "SLOT_NOT_REACHED \<noteq> MinContextSlotNotReachedError"
    by (simp add: SLOT_NOT_REACHED_def MinContextSlotNotReachedError_def)
  then have "\<not> (Inl MinContextSlotNotReachedError = fst (read lst) \<and> Inl SLOT_NOT_REACHED = fst (read lst))"
    by (metis sum.inject(1))
  then show ?thesis using t by (auto split: sum.splits)
qed

text \<open>
  C28. A challenge read settles. It asks the node at once, then again at intervals of at least
  100 ms, never later than the wait of its commitment (10 s, or 30 s at \<open>finalized\<close>), so at most
  101 (301) times; without a floor it asks once; and once the group has stopped it asks no more. It
  ends with the node's answer to the last question, or with its error: an error other than "slot not
  reached" is passed on, and a read with a floor outside a stopped group outwaits "slot not reached"
  or ends in \<open>MinContextSlotNotReachedError\<close>, the latter only when another pause could have passed
  the wait and the node had not reached the floor yet.
\<close>

theorem atOrAfterContextSlot_settles:
  fixes read :: "'a node" and config :: read_config and stop :: "int option" and now :: int
  defines "run \<equiv> atOrAfterContextSlot read config stop now"
    and "wait \<equiv> minContextSlotWaitMs (rc_commitment config)"
  shows "rn_asked run \<noteq> [] \<and> hd (rn_asked run) = now \<and> successively (\<lambda>a b. a + 100 \<le> b) (rn_asked run)
    \<and> last (rn_asked run) \<le> now + wait \<and> int (length (rn_asked run)) \<le> wait div 100 + 1
    \<and> (rc_minContextSlot config = None \<longrightarrow> rn_asked run = [now])
    \<and> list_all (\<lambda>t. \<not> group_stopped stop t) (tl (rn_asked run))
    \<and> (case rn_result run of
        Inr x \<Rightarrow> fst (read (last (rn_asked run))) = Inr x
      | Inl e \<Rightarrow>
          fst (read (last (rn_asked run))) = Inl e
            \<and> \<not> (stop = None \<and> rc_minContextSlot config \<noteq> None \<and> e = SLOT_NOT_REACHED)
          \<or> e = MinContextSlotNotReachedError \<and> rc_minContextSlot config \<noteq> None
            \<and> fst (read (last (rn_asked run))) = Inl SLOT_NOT_REACHED
            \<and> now + wait - 1000 < last (rn_asked run) + int (snd (read (last (rn_asked run)))))"
  using atOrAfterContextSlot_bounded [of read config stop now] atOrAfterContextSlot_outcome [of read config stop now]
  unfolding run_def wait_def by blast

theorem atOrAfterContextSlot_settles_witness:
  "let run = atOrAfterContextSlot (\<lambda>t. (Inl (Error ''down'') :: int result, 10))
      \<lparr>rc_commitment = Confirmed, rc_minContextSlot = Some 9\<rparr> None 0
   in rn_result run = Inl (Error ''down'') \<and> int (length (rn_asked run)) \<le> 101 \<and> last (rn_asked run) \<le> 10000"
proof -
  let ?c = "\<lparr>rc_commitment = Confirmed, rc_minContextSlot = Some 9\<rparr>"
  have "Error ''down'' \<noteq> SLOT_NOT_REACHED" by (simp add: SLOT_NOT_REACHED_def)
  then show ?thesis
    using atOrAfterContextSlot_settles [of "\<lambda>t. (Inl (Error ''down'') :: int result, 10)" ?c None 0]
    by (auto simp: Let_def minContextSlotWaitMs_def MIN_CONTEXT_SLOT_WAIT_MS_def split: sum.splits)
qed

section \<open>Freshness\<close>

text \<open>
  A node answers a read with a floor only from a state at or past it: the account as it was at
  some slot not below the floor.
\<close>

definition honours_floor :: "(int \<Rightarrow> bytes option) \<Rightarrow> rpc_node \<Rightarrow> address \<Rightarrow> bool" where
  "honours_floor account rpc a \<longleftrightarrow>
     (\<forall>config t v. fst (nd_getAccountInfo rpc a config t) = Inr v \<longrightarrow>
       (\<exists>slot. v = account slot \<and> (\<forall>m. rc_minContextSlot config = Some m \<longrightarrow> m \<le> slot)))"

lemma run_provenance:
  "rn_result (atOrAfterContextSlot read config stop now) = Inr x \<Longrightarrow> \<exists>t. fst (read t) = Inr x"
  using retry_trace [of read "minContextSlotWaitMs (rc_commitment config)" "rc_minContextSlot config" stop now now 0]
  by (auto simp: atOrAfterContextSlot_def trace_ok_def)

lemma account_bytes_fresh:
  assumes "honours_floor account rpc a" "rn_result (readAuthorityAccountBytes rpc a opts stop now) = Inr bs"
  shows "\<exists>slot. account slot = Some bs \<and> (\<forall>m. rc_minContextSlot (challengeReadConfig opts) = Some m \<longrightarrow> m \<le> slot)"
proof -
  obtain info where i: "rn_result (atOrAfterContextSlot (nd_getAccountInfo rpc a (challengeReadConfig opts))
      (challengeReadConfig opts) stop now) = Inr info" "info = Some bs"
    using assms(2) by (auto simp: readAuthorityAccountBytes_def run_map_def rbind_eq_Inr Let_def split: option.splits)
  then show ?thesis using run_provenance [OF i(1)] assms(1) unfolding honours_floor_def by metis
qed

lemma inputs_counter:
  assumes "ci_result (readChallengeInputs rpc a opts key slot beside now) = Inr (k, s, n)"
  shows "rn_result (readChallengeCounter rpc a (Some opts) (map_option fst beside) now) = Inr (n - 1)"
    and "key = None \<Longrightarrow> rn_result (readChallengeKey rpc a (Some opts) (map_option fst beside) now) = Inr k"
    and "key = Some k' \<Longrightarrow> k = k'"
    and "slot = None \<Longrightarrow> rn_result (readChallengeSlot rpc (Some opts) (map_option fst beside) now) = Inr s"
    and "slot = Some s' \<Longrightarrow> s = s'"
  using assms by (auto simp: readChallengeInputs_def have_or_def rbind_eq_Inr Let_def split: option.splits if_splits)

text \<open>
  A challenge read with a floor is not stale. If the node answers only from states at or past
  the floor, and the authority has not changed since the slot of its previous transaction, then a
  successful read returns one more than the counter that transaction left, and the key the account
  holds, so the program's counter check passes.
\<close>

theorem readChallengeInputs_fresh:
  assumes node: "honours_floor account rpc authorityPda"
    and floor: "cro_minContextSlot opts = Some m" and quiet: "\<And>slot. m \<le> slot \<Longrightarrow> account slot = Some bs"
    and ok: "ci_result (readChallengeInputs rpc authorityPda opts None slotOverride beside now) = Inr (key, slot, counter)"
  shows "counter = le_val (u8_slice bs 8 12) + 1 \<and> key = u8_slice bs 80 113 \<and> length key = 33
    \<and> bs ! 0 = ACCOUNT_DISCRIMINATOR AUTHORITY"
proof -
  have f: "rc_minContextSlot (challengeReadConfig (Some opts)) = Some m"
    using floor by (simp add: challengeReadConfig_def)
  obtain b where b: "rn_result (readAuthorityAccountBytes rpc authorityPda (Some opts) (map_option fst beside) now) = Inr b"
      "counter_of b = Inr (counter - 1)"
    using inputs_counter(1) [OF ok] by (auto simp: readChallengeCounter_def run_map_def rbind_eq_Inr)
  then have "b = bs" using account_bytes_fresh [OF node b(1)] f quiet by fastforce
  moreover have "key_of_authority b = Inr key"
    using inputs_counter(2) [OF ok refl] b(1) by (auto simp: readChallengeKey_def run_map_def rbind_eq_Inr)
  ultimately show ?thesis
    using b(2) by (auto simp: counter_of_def key_of_authority_def u8_slice_def split: if_splits)
qed

theorem readChallengeInputs_fresh_witness:
  "let bs = [ACCOUNT_DISCRIMINATOR AUTHORITY, 1, 0, 0, 0, 0, 0, 0, 5, 0, 0, 0] @ replicate 101 0;
       rpc = \<lparr>nd_getAccountInfo = (\<lambda>_ _ t. (Inr (Some bs), 0)), nd_getSlot = (\<lambda>_ _. (Inr 100, 0))\<rparr>
   in \<exists>key. ci_result (readChallengeInputs rpc ''a'' \<lparr>cro_commitment = None, cro_minContextSlot = Some 9\<rparr> None None None 0)
        = Inr (key, 100, 6)"
proof -
  let ?bs = "[ACCOUNT_DISCRIMINATOR AUTHORITY, 1, 0, 0, 0, 0, 0, 0, 5, 0, 0, 0] @ replicate 101 (0 :: byte)"
  let ?rpc = "\<lparr>nd_getAccountInfo = (\<lambda>_ _ t. (Inr (Some ?bs), 0)), nd_getSlot = (\<lambda>_ _. (Inr 100, 0))\<rparr>"
  let ?o = "\<lparr>cro_commitment = None, cro_minContextSlot = Some 9\<rparr>"
  have a: "atOrAfterContextSlot (\<lambda>t. (Inr v, 0)) config stop now = \<lparr>rn_result = Inr v, rn_end = now, rn_asked = [now]\<rparr>"
    for v config stop now by (simp add: atOrAfterContextSlot_def retry_read.simps)
  have "\<exists>k n. ci_result (readChallengeInputs ?rpc ''a'' ?o None None None 0) = Inr (k, 100, n)"
    by (simp add: readChallengeInputs_def group_stopped_def have_or_def readChallengeKey_def readChallengeSlot_def readChallengeCounter_def
        readAuthorityAccountBytes_def run_map_def a failure_of_def key_of_authority_def counter_of_def Let_def)
  then obtain k n where ok: "ci_result (readChallengeInputs ?rpc ''a'' ?o None None None 0) = Inr (k, 100, n)" by blast
  have h: "honours_floor (\<lambda>_. Some ?bs) ?rpc ''a''" 
    by (auto simp: honours_floor_def) (metis option.inject order_refl)
  have "n = le_val (u8_slice ?bs 8 12) + 1"
    using readChallengeInputs_fresh [OF h _ _ ok, of 9 ?bs] by simp
  then have "n = 6" by (simp add: u8_slice_def)
  with ok show ?thesis by (auto simp only: Let_def)
qed

end
