(* ===== verification/V1Tokens.thy ===== *)
theory V1Tokens
  imports Builders "HOL-Library.Multiset"
begin

text \<open>
  Token accounts and the retired v1 deployment: the SPL helpers of \<open>spl.ts\<close>, and of \<open>v1.ts\<close> the
  lookup of v1 wallets, the TLV extensions of Token-2022 accounts, and the split of a vault's token
  accounts into those a migration can move and those it cannot.

  The node is a record of functions. A read that can be pinned takes the floor it is given and the
  number of the attempt, and answers with the slot it was answered at.
\<close>

section \<open>The node\<close>

record account =
  ac_owner :: address
  ac_lamports :: int
  ac_data :: bytes

type_synonym row = "address \<times> bytes"
type_synonym memcmp = "nat \<times> bytes"

record node_rpc =
  nr_getSlot :: "int result"
  nr_accountInfo :: "address \<Rightarrow> account option result"
  nr_programAccounts :: "address \<Rightarrow> memcmp list \<Rightarrow> row list result"
  nr_scan :: "address \<Rightarrow> memcmp list \<Rightarrow> int option \<Rightarrow> nat \<Rightarrow> (int \<times> row list) result"
  nr_multiple :: "address list \<Rightarrow> int option \<Rightarrow> nat \<Rightarrow> (int \<times> account option list) result"
  nr_tokens :: "address \<Rightarrow> address \<Rightarrow> int option \<Rightarrow> nat \<Rightarrow> (int \<times> row list) result"

text \<open>The address decoder throws on fewer than 32 bytes and ignores what follows them.\<close>

definition addressFromBytes :: "kit \<Rightarrow> bytes \<Rightarrow> address result" where
  "addressFromBytes K b =
     (if length b < 32 then Inl (LibError ''CODECS__INVALID_BYTE_LENGTH'') else Inr (k_decAddr K (take 32 b)))"

text \<open>\<open>xs.slice(i, i + 100)\<close> for \<open>i = 0, 100, ...\<close>.\<close>

function pages :: "'a list \<Rightarrow> 'a list list" where
  "pages xs = (if xs = [] then [] else take 100 xs # pages (drop 100 xs))"
  by pat_completeness auto
termination by (relation "measure length") auto

declare pages.simps [simp del]

lemma concat_pages [simp]: "concat (pages xs) = xs"
  by (induction xs rule: pages.induct) (subst pages.simps, auto)

text \<open>\<open>[...new Set(xs)]\<close>: the first occurrences, in order.\<close>

definition js_unique :: "'a list \<Rightarrow> 'a list" where
  "js_unique xs = rev (remdups (rev xs))"

section \<open>SPL\<close>

definition ASSOCIATED_TOKEN_PROGRAM_ADDRESS :: address where
  "ASSOCIATED_TOKEN_PROGRAM_ADDRESS = ''ATokenGPvbdGVxr1b2hvZbsiqW5xWH25efTNsLJA8knL''"

definition getAssociatedTokenAddress :: "kit \<Rightarrow> address \<Rightarrow> address \<Rightarrow> address \<Rightarrow> address result" where
  "getAssociatedTokenAddress K mint owner tokenProgram =
     rbind (k_pda K ASSOCIATED_TOKEN_PROGRAM_ADDRESS [k_encAddr K owner, k_encAddr K tokenProgram, k_encAddr K mint])
       (\<lambda>(ata, _). Inr ata)"

definition createAssociatedTokenAccountIdempotentIx ::
  "address \<Rightarrow> address \<Rightarrow> address \<Rightarrow> address \<Rightarrow> address \<Rightarrow> instruction" where
  "createAssociatedTokenAccountIdempotentIx payer ata owner mint tokenProgram =
     \<lparr>ix_program = ASSOCIATED_TOKEN_PROGRAM_ADDRESS,
      ix_accounts = Some [meta payer WRITABLE_SIGNER, meta ata WRITABLE, meta owner READONLY, meta mint READONLY,
        meta SYSTEM_PROGRAM_ADDRESS READONLY, meta tokenProgram READONLY],
      ix_data = Some (u8_of [1])\<rparr>"

definition tokenAccountMint :: "kit \<Rightarrow> bytes \<Rightarrow> address result" where
  "tokenAccountMint K data = addressFromBytes K (u8_slice data 0 32)"

definition tokenAccountOwner :: "kit \<Rightarrow> bytes \<Rightarrow> address result" where
  "tokenAccountOwner K data = addressFromBytes K (u8_slice data 32 64)"

definition tokenAccountAmount :: "bytes \<Rightarrow> int result" where
  "tokenAccountAmount data = dv_get 8 data 64"

section \<open>v1 wallets\<close>

definition V1_DISC_WALLET :: byte where "V1_DISC_WALLET = 1"
definition V1_DISC_AUTHORITY :: byte where "V1_DISC_AUTHORITY = 2"
definition V1_DISC_SESSION :: byte where "V1_DISC_SESSION = 3"
definition V1_DISC_DEFERRED_EXEC :: byte where "V1_DISC_DEFERRED_EXEC = 4"

record v1_wallet_record = v1_accounts +
  vr_role :: "byte option"
  vr_authorityType :: "byte option"
  vr_ownerPubkey :: bytes

definition v1_record_of :: "kit \<Rightarrow> address \<Rightarrow> row \<Rightarrow> v1_wallet_record result" where
  "v1_record_of K programId r = (case r of (authority, data) \<Rightarrow>
     rbind (addressFromBytes K (u8_slice data 16 48)) (\<lambda>wallet.
     rbind (findV1VaultPda K wallet programId) (\<lambda>(vault, _).
     Inr \<lparr>v1_wallet = wallet, v1_vault = vault, v1_authority = authority, vr_role = u8_at data 2,
          vr_authorityType = u8_at data 1,
          vr_ownerPubkey = (if u8_at data 1 = Some 1 then u8_slice data 80 113 else u8_slice data 48 80)\<rparr>)))"

definition findV1WalletsByOwner ::
  "kit \<Rightarrow> node_rpc \<Rightarrow> bytes \<Rightarrow> address \<Rightarrow> bool \<Rightarrow> v1_wallet_record list result" where
  "findV1WalletsByOwner K rpc ownerIdSeed programId ed25519 =
     (if length ownerIdSeed \<noteq> 32 then Inl (Error ''ownerIdSeed must be 32 bytes'')
      else
        rbind (nr_programAccounts rpc programId
                 [(0, [V1_DISC_AUTHORITY, if ed25519 then 0 else 1]), (48, ownerIdSeed)]) (\<lambda>accounts.
        rmap (v1_record_of K programId) accounts))"

record v1_wallet_state =
  vs_ownerAuthType :: "byte option"
  vs_ownerRole :: "byte option"
  vs_vaultLamports :: int

definition readV1WalletState :: "node_rpc \<Rightarrow> v1_accounts \<Rightarrow> v1_wallet_state option result" where
  "readV1WalletState rpc a =
     rbind (nr_multiple rpc [v1_wallet a, v1_authority a, v1_vault a] None 1) (\<lambda>(_, infos).
     let at = (\<lambda>i. if i < length infos then infos ! i else None) in
     Inr (case at 0 of
        None \<Rightarrow> None
      | Some walletInfo \<Rightarrow>
          if ac_data walletInfo = [] \<or> u8_at (ac_data walletInfo) 0 \<noteq> Some V1_DISC_WALLET then None
          else (case at 1 of
             None \<Rightarrow> None
           | Some authInfo \<Rightarrow>
               if u8_at (ac_data authInfo) 0 \<noteq> Some V1_DISC_AUTHORITY then None
               else Some \<lparr>vs_ownerAuthType = u8_at (ac_data authInfo) 1, vs_ownerRole = u8_at (ac_data authInfo) 2,
                          vs_vaultLamports = (case at 2 of Some v \<Rightarrow> ac_lamports v | None \<Rightarrow> 0)\<rparr>)))"

section \<open>Token-2022 extensions\<close>

datatype unmovable_reason = R_frozen | R_transfer_hook | R_non_transferable | R_paused | R_frozen_on_arrival
  | R_cpi_guard | R_mint_missing | R_destination_frozen | R_excluded

definition TOKEN_STATE_OFFSET :: nat where "TOKEN_STATE_OFFSET = 108"
definition TOKEN_STATE_FROZEN :: byte where "TOKEN_STATE_FROZEN = 2"
definition TLV_START :: nat where "TLV_START = 166"
definition EXT_TRANSFER_FEE_AMOUNT :: nat where "EXT_TRANSFER_FEE_AMOUNT = 2"
definition EXT_DEFAULT_ACCOUNT_STATE :: nat where "EXT_DEFAULT_ACCOUNT_STATE = 6"
definition EXT_NON_TRANSFERABLE :: nat where "EXT_NON_TRANSFERABLE = 9"
definition EXT_CPI_GUARD :: nat where "EXT_CPI_GUARD = 11"
definition EXT_NON_TRANSFERABLE_ACCOUNT :: nat where "EXT_NON_TRANSFERABLE_ACCOUNT = 13"
definition EXT_TRANSFER_HOOK :: nat where "EXT_TRANSFER_HOOK = 14"
definition EXT_PAUSABLE :: nat where "EXT_PAUSABLE = 26"

definition u16_at :: "bytes \<Rightarrow> nat \<Rightarrow> nat" where
  "u16_at data off = unat (data ! off) OR push_bit 8 (unat (data ! (off + 1)))"

function tlv_loop :: "bytes \<Rightarrow> nat \<Rightarrow> (nat \<times> bytes) list \<Rightarrow> (nat \<times> bytes) list" where
  "tlv_loop data off out =
     (if off + 4 \<le> length data then
        let ty = u16_at data off; len = u16_at data (off + 2) in
        if ty = 0 \<and> len = 0 then out
        else tlv_loop data (off + 4 + len) (jsmap_set ty (u8_slice data (off + 4) (off + 4 + len)) out)
      else out)"
  by pat_completeness auto
termination by (relation "measure (\<lambda>(data, off, _). length data - off)") auto

declare tlv_loop.simps [simp del]

definition tlvExtensions :: "bytes \<Rightarrow> (nat \<times> bytes) list" where
  "tlvExtensions data = tlv_loop data TLV_START []"

definition mintTransferHook :: "kit \<Rightarrow> bytes \<Rightarrow> address option" where
  "mintTransferHook K mintData = (case map_of (tlvExtensions mintData) EXT_TRANSFER_HOOK of
     None \<Rightarrow> None
   | Some v \<Rightarrow> if length v < 64 then None
       else let program = u8_slice v 32 64 in
         if list_ex (\<lambda>b. b \<noteq> 0) program then Some (k_decAddr K program) else None)"

definition mintBlocker :: "kit \<Rightarrow> bytes \<Rightarrow> unmovable_reason option" where
  "mintBlocker K mintData =
     (let ext = tlvExtensions mintData in
      if jsmap_has ext EXT_NON_TRANSFERABLE then Some R_non_transferable
      else if mintTransferHook K mintData \<noteq> None then Some R_transfer_hook
      else if (case map_of ext EXT_PAUSABLE of Some p \<Rightarrow> length p \<ge> 33 \<and> p ! 32 \<noteq> 0 | None \<Rightarrow> False) then Some R_paused
      else if (case map_of ext EXT_DEFAULT_ACCOUNT_STATE of Some d \<Rightarrow> u8_at d 0 = Some TOKEN_STATE_FROZEN | None \<Rightarrow> False)
      then Some R_frozen_on_arrival
      else None)"

definition tokenAccountWithheldFees :: "bytes \<Rightarrow> bool" where
  "tokenAccountWithheldFees accountData = (case map_of (tlvExtensions accountData) EXT_TRANSFER_FEE_AMOUNT of
     None \<Rightarrow> False | Some fees \<Rightarrow> length fees \<ge> 8 \<and> list_ex (\<lambda>b. b \<noteq> 0) (u8_slice fees 0 8))"

definition tokenAccountFrozen :: "bytes \<Rightarrow> bool" where
  "tokenAccountFrozen accountData \<longleftrightarrow>
     length accountData > TOKEN_STATE_OFFSET \<and> u8_at accountData TOKEN_STATE_OFFSET = Some TOKEN_STATE_FROZEN"

definition tokenAccountBlocker :: "bytes \<Rightarrow> unmovable_reason option" where
  "tokenAccountBlocker accountData =
     (if u8_at accountData TOKEN_STATE_OFFSET = Some TOKEN_STATE_FROZEN then Some R_frozen
      else let ext = tlvExtensions accountData in
        if jsmap_has ext EXT_NON_TRANSFERABLE_ACCOUNT then Some R_non_transferable
        else if (case map_of ext EXT_CPI_GUARD of Some guard \<Rightarrow> u8_at guard 0 \<noteq> Some 0 | None \<Rightarrow> False) then Some R_cpi_guard
        else None)"

section \<open>A vault's token accounts\<close>

record v1_vault_token =
  vt_ata :: address
  vt_mint :: address
  vt_amount :: int
  vt_tokenProgram :: address
  vt_frozen :: bool
  vt_blocker :: "unmovable_reason option"
  vt_withheldFees :: bool

definition vault_token_of :: "kit \<Rightarrow> address \<Rightarrow> row \<Rightarrow> v1_vault_token result" where
  "vault_token_of K tokenProgram r = (case r of (pubkey, data) \<Rightarrow>
     rbind (tokenAccountMint K data) (\<lambda>mint. rbind (tokenAccountAmount data) (\<lambda>amount.
     Inr \<lparr>vt_ata = pubkey, vt_mint = mint, vt_amount = amount, vt_tokenProgram = tokenProgram,
          vt_frozen = (u8_at data TOKEN_STATE_OFFSET = Some TOKEN_STATE_FROZEN),
          vt_blocker = tokenAccountBlocker data, vt_withheldFees = tokenAccountWithheldFees data\<rparr>)))"

definition enumerateV1VaultTokens :: "kit \<Rightarrow> node_rpc \<Rightarrow> address \<Rightarrow> v1_vault_token list result" where
  "enumerateV1VaultTokens K rpc vault =
     rbind (rmap (\<lambda>tokenProgram.
              rbind (nr_tokens rpc vault tokenProgram None 1) (\<lambda>(_, rows). rmap (vault_token_of K tokenProgram) rows))
            [TOKEN_PROGRAM_ADDRESS, TOKEN_2022_PROGRAM_ADDRESS]) (\<lambda>parts. Inr (concat parts))"

record classified =
  cf_movable :: "v1_vault_token list"
  cf_skipped :: "(v1_vault_token \<times> unmovable_reason) list"

definition unmovable_because :: "kit \<Rightarrow> (address \<rightharpoonup> account option) \<Rightarrow> v1_vault_token \<Rightarrow> unmovable_reason option" where
  "unmovable_because K mintInfo t =
     (let mint = (case mintInfo (vt_mint t) of Some (Some i) \<Rightarrow> Some i | _ \<Rightarrow> None) in
      case vt_blocker t of
        Some r \<Rightarrow> Some r
      | None \<Rightarrow>
          if vt_frozen t then Some R_frozen
          else (case mint of
             None \<Rightarrow> Some R_mint_missing
           | Some i \<Rightarrow>
               if ac_owner i \<noteq> vt_tokenProgram t then Some R_mint_missing
               else if vt_tokenProgram t = TOKEN_2022_PROGRAM_ADDRESS then mintBlocker K (ac_data i) else None))"

definition read_mints :: "node_rpc \<Rightarrow> address list \<Rightarrow> (address \<times> account option) list result" where
  "read_mints rpc mints =
     rbind (rmap (\<lambda>page. rbind (nr_multiple rpc page None 1) (\<lambda>(_, infos). Inr (zip page infos))) (pages mints))
       (\<lambda>parts. Inr (fold (\<lambda>(k, v). jsmap_set k v) (concat parts) []))"

text \<open>
  The two loops: the excluded accounts first, then the candidates. What \<open>excluded\<close> and \<open>reason\<close>
  push stays in the order of the tokens.
\<close>

definition classifyV1VaultTokens ::
  "kit \<Rightarrow> node_rpc \<Rightarrow> v1_vault_token list \<Rightarrow> address list \<Rightarrow> classified result" where
  "classifyV1VaultTokens K rpc tokens exclude =
     (let excluded = filter (\<lambda>t. vt_ata t \<in> set exclude) tokens;
          candidates = filter (\<lambda>t. vt_ata t \<notin> set exclude) tokens
      in rbind (read_mints rpc (js_unique (map vt_mint candidates))) (\<lambda>mintInfo.
         let reason = unmovable_because K (map_of mintInfo) in
         Inr \<lparr>cf_movable = filter (\<lambda>t. reason t = None) candidates,
              cf_skipped = map (\<lambda>t. (t, R_excluded)) excluded
                @ map (\<lambda>t. (t, the (reason t))) (filter (\<lambda>t. reason t \<noteq> None) candidates)\<rparr>))"

definition harvestWithheldIx :: "address \<Rightarrow> address list \<Rightarrow> instruction" where
  "harvestWithheldIx mint sources =
     \<lparr>ix_program = TOKEN_2022_PROGRAM_ADDRESS,
      ix_accounts = Some (meta mint WRITABLE # map (\<lambda>a. meta a WRITABLE) sources),
      ix_data = Some (u8_of [26, 4])\<rparr>"

text \<open>Every token account is either moved or reported, with a reason that holds of it.\<close>

lemma classify_partition:
  assumes "classifyV1VaultTokens K rpc tokens exclude = Inr c"
  shows "mset (cf_movable c @ map fst (cf_skipped c)) = mset tokens"
proof -
  obtain mintInfo where c: "c = \<lparr>cf_movable = filter (\<lambda>t. unmovable_because K (map_of mintInfo) t = None)
        (filter (\<lambda>t. vt_ata t \<notin> set exclude) tokens),
      cf_skipped = map (\<lambda>t. (t, R_excluded)) (filter (\<lambda>t. vt_ata t \<in> set exclude) tokens)
        @ map (\<lambda>t. (t, the (unmovable_because K (map_of mintInfo) t)))
            (filter (\<lambda>t. unmovable_because K (map_of mintInfo) t \<noteq> None) (filter (\<lambda>t. vt_ata t \<notin> set exclude) tokens))\<rparr>"
    using assms by (auto simp: classifyV1VaultTokens_def rbind_eq_Inr Let_def)
  have split: "mset (filter P xs) + mset (filter (\<lambda>x. \<not> P x) xs) = mset xs" for P and xs :: "v1_vault_token list"
    by (induction xs) auto
  show ?thesis
    using split [of "\<lambda>t. unmovable_because K (map_of mintInfo) t = None" "filter (\<lambda>t. vt_ata t \<notin> set exclude) tokens"]
      split [of "\<lambda>t. vt_ata t \<notin> set exclude" tokens]
    by (simp add: c comp_def ac_simps)
qed

end
