(* ===== verification/Json.thy ===== *)
theory Json
  imports Prelude
begin

text \<open>
  JSON text as JavaScript reads and writes it: \<open>JSON.parse\<close>, \<open>JSON.stringify\<close> and the UTF-8 decoding
  in front of it. A number is its exact decimal value \<open>m * 10 ^ e\<close> with no trailing zero in \<open>m\<close>; the
  rounding of literals with more digits than a double holds is not modelled. An object is the list
  of its members, a repeated key keeping its first place and its last value.
\<close>

section \<open>Values\<close>

datatype json = JNull | JBool bool | JNum int int | JStr string | JArr "json list" | JObj "(string \<times> json) list"

function norm_num :: "int \<Rightarrow> int \<Rightarrow> json" where
  "norm_num m e = (if m = 0 then JNum 0 0 else if m mod 10 = 0 then norm_num (m div 10) (e + 1) else JNum m e)"
  by pat_completeness auto
termination by (relation "measure (\<lambda>(m, _). nat \<bar>m\<bar>)") auto

declare norm_num.simps [simp del]

definition json_int :: "int \<Rightarrow> json" where
  "json_int n = norm_num n 0"

text \<open>\<open>value.key\<close>: reading a member of \<open>null\<close> throws, of another non-object gives \<open>undefined\<close>.\<close>

definition json_get :: "json \<Rightarrow> string \<Rightarrow> json option result" where
  "json_get v k = (case v of JNull \<Rightarrow> Inl (TypeError ''Cannot read properties of null'')
     | JObj ms \<Rightarrow> Inr (map_of ms k) | _ \<Rightarrow> Inr None)"

section \<open>Parsing\<close>

definition code :: "char \<Rightarrow> nat" where "code c = of_char c"

abbreviation QUOTE :: char where "QUOTE \<equiv> CHR 0x22"
abbreviation BSLASH :: char where "BSLASH \<equiv> CHR 0x5C"

definition is_ws :: "char \<Rightarrow> bool" where
  "is_ws c \<longleftrightarrow> c \<in> {CHR 0x20, CHR 0x09, CHR 0x0A, CHR 0x0D}"

definition skip_ws :: "string \<Rightarrow> string" where
  "skip_ws s = dropWhile is_ws s"

definition is_digit :: "char \<Rightarrow> bool" where
  "is_digit c \<longleftrightarrow> 48 \<le> code c \<and> code c \<le> 57"

definition digit_val :: "char \<Rightarrow> int" where
  "digit_val c = int (code c) - 48"

definition digits_val :: "string \<Rightarrow> int" where
  "digits_val ds = foldl (\<lambda>n d. 10 * n + digit_val d) 0 ds"

text \<open>The optional fraction and exponent of a number: the digits, the value, the rest.\<close>

definition parse_frac :: "string \<Rightarrow> (string \<times> string) option" where
  "parse_frac s = (case s of
     c # cs \<Rightarrow> if c = CHR ''.'' then
         (let ds = takeWhile is_digit cs in if ds = [] then None else Some (ds, dropWhile is_digit cs))
       else Some ([], s)
   | [] \<Rightarrow> Some ([], s))"

definition parse_exp :: "string \<Rightarrow> (int \<times> string) option" where
  "parse_exp s = (case s of
     c # cs \<Rightarrow> if c = CHR ''e'' \<or> c = CHR ''E'' then
         (let neg = (case cs of d # _ \<Rightarrow> d = CHR ''-'' | [] \<Rightarrow> False);
              cs' = (case cs of d # ds \<Rightarrow> if d = CHR ''-'' \<or> d = CHR ''+'' then ds else cs | [] \<Rightarrow> cs);
              ds = takeWhile is_digit cs'
          in if ds = [] then None
             else Some (if neg then - digits_val ds else digits_val ds, dropWhile is_digit cs'))
       else Some (0, s)
   | [] \<Rightarrow> Some (0, s))"

definition parse_number :: "string \<Rightarrow> (json \<times> string) option" where
  "parse_number s =
     (let neg = (case s of c # _ \<Rightarrow> c = CHR ''-'' | [] \<Rightarrow> False);
          s' = (if neg then tl s else s);
          ds = takeWhile is_digit s';
          rest = dropWhile is_digit s'
      in if ds = [] \<or> (hd ds = CHR ''0'' \<and> tl ds \<noteq> []) then None
         else case parse_frac rest of
           None \<Rightarrow> None
         | Some (fs, rest) \<Rightarrow> (case parse_exp rest of
             None \<Rightarrow> None
           | Some (e, rest) \<Rightarrow>
               let m = digits_val (ds @ fs) in
               Some (norm_num (if neg then - m else m) (e - int (length fs)), rest)))"

definition hex_val :: "char \<Rightarrow> nat option" where
  "hex_val c = (let n = code c in
     if 48 \<le> n \<and> n \<le> 57 then Some (n - 48)
     else if 97 \<le> n \<and> n \<le> 102 then Some (n - 87)
     else if 65 \<le> n \<and> n \<le> 70 then Some (n - 55) else None)"

definition hex4 :: "char \<Rightarrow> char \<Rightarrow> char \<Rightarrow> char \<Rightarrow> nat option" where
  "hex4 a b c d = (case (hex_val a, hex_val b, hex_val c, hex_val d) of
     (Some a, Some b, Some c, Some d) \<Rightarrow> Some (((a * 16 + b) * 16 + c) * 16 + d) | _ \<Rightarrow> None)"

text \<open>A code point in UTF-8; a lone surrogate, which UTF-8 has no bytes for, becomes U+FFFD.\<close>

definition utf8_of_code :: "nat \<Rightarrow> string" where
  "utf8_of_code n = map char_of
     (if n < 0x80 then [n]
      else if n < 0x800 then [0xC0 + n div 64, 0x80 + n mod 64]
      else if 0xD800 \<le> n \<and> n < 0xE000 then [0xEF, 0xBF, 0xBD]
      else if n < 0x10000 then [0xE0 + n div 4096, 0x80 + n div 64 mod 64, 0x80 + n mod 64]
      else [0xF0 + n div 262144, 0x80 + n div 4096 mod 64, 0x80 + n div 64 mod 64, 0x80 + n mod 64])"

definition simple_escape :: "char \<Rightarrow> char option" where
  "simple_escape e =
     (if e = QUOTE \<or> e = BSLASH \<or> e = CHR ''/'' then Some e
      else if e = CHR ''b'' then Some (CHR 0x08) else if e = CHR ''f'' then Some (CHR 0x0C)
      else if e = CHR ''n'' then Some (CHR 0x0A) else if e = CHR ''r'' then Some (CHR 0x0D)
      else if e = CHR ''t'' then Some (CHR 0x09) else None)"

text \<open>One \<open>\<backslash>uXXXX\<close>, or two that make a surrogate pair, after the \<open>u\<close>: the text and the rest.\<close>

definition unicode_escape :: "string \<Rightarrow> (string \<times> string) option" where
  "unicode_escape s = (case s of
     a # b # c # d # rest \<Rightarrow> (case hex4 a b c d of
         None \<Rightarrow> None
       | Some n \<Rightarrow>
           (if 0xD800 \<le> n \<and> n < 0xDC00 then
              (case rest of
                 x # y # a # b # c # d # rest' \<Rightarrow>
                   (case (if x = BSLASH \<and> y = CHR ''u'' then hex4 a b c d else None) of
                      Some l \<Rightarrow> if 0xDC00 \<le> l \<and> l < 0xE000
                        then Some (utf8_of_code (0x10000 + (n - 0xD800) * 1024 + (l - 0xDC00)), rest')
                        else Some (utf8_of_code n, rest)
                    | None \<Rightarrow> Some (utf8_of_code n, rest))
               | _ \<Rightarrow> Some (utf8_of_code n, rest))
            else Some (utf8_of_code n, rest)))
   | _ \<Rightarrow> None)"

lemma unicode_escape_shorter: "unicode_escape s = Some (t, r) \<Longrightarrow> length r < length s"
  by (auto simp: unicode_escape_def split: list.splits option.splits if_splits)

text \<open>The rest of a string literal, after its opening quote.\<close>

function (sequential) parse_chars :: "string \<Rightarrow> (string \<times> string) option" where
  "parse_chars [] = None"
| "parse_chars (c # cs) =
     (if c = QUOTE then Some ([], cs)
      else if code c < 32 then None
      else if c = BSLASH then
        (case cs of
           [] \<Rightarrow> None
         | e # es \<Rightarrow>
             if e = CHR ''u'' then
               (case unicode_escape es of None \<Rightarrow> None
                | Some (t, rest) \<Rightarrow> map_option (\<lambda>(u, r). (t @ u, r)) (parse_chars rest))
             else (case simple_escape e of None \<Rightarrow> None
                | Some x \<Rightarrow> map_option (\<lambda>(u, r). (x # u, r)) (parse_chars es)))
      else map_option (\<lambda>(u, r). (c # u, r)) (parse_chars cs))"
  by pat_completeness auto
termination
  by (relation "measure length") (auto dest: unicode_escape_shorter)

lemma skip_ws_length: "skip_ws s = c # cs \<Longrightarrow> length cs < length s"
  using length_dropWhile_le [of is_ws s] by (simp add: skip_ws_def)

text \<open>
  Values. The comparison of lengths in the two loops always holds, a value being at least one
  character long; it shows that the recursion ends.
\<close>

function (sequential) parse_value :: "string \<Rightarrow> (json \<times> string) option"
  and parse_elements :: "string \<Rightarrow> (json list \<times> string) option"
  and parse_members :: "string \<Rightarrow> ((string \<times> json) list \<times> string) option" where
  "parse_value s = (case skip_ws s of
     [] \<Rightarrow> None
   | c # cs \<Rightarrow>
       if c = QUOTE then map_option (\<lambda>(t, r). (JStr t, r)) (parse_chars cs)
       else if c = CHR ''['' then
         (case skip_ws cs of
            d # ds \<Rightarrow> if d = CHR '']'' then Some (JArr [], ds)
              else map_option (\<lambda>(vs, r). (JArr vs, r)) (parse_elements cs)
          | [] \<Rightarrow> None)
       else if c = CHR ''{'' then
         (case skip_ws cs of
            d # ds \<Rightarrow> if d = CHR ''}'' then Some (JObj [], ds)
              else map_option (\<lambda>(ms, r). (JObj (fold (\<lambda>(k, v). jsmap_set k v) ms []), r)) (parse_members cs)
          | [] \<Rightarrow> None)
       else if take 4 (c # cs) = ''true'' then Some (JBool True, drop 3 cs)
       else if take 5 (c # cs) = ''false'' then Some (JBool False, drop 4 cs)
       else if take 4 (c # cs) = ''null'' then Some (JNull, drop 3 cs)
       else parse_number (c # cs))"
| "parse_elements s = (case parse_value s of
     None \<Rightarrow> None
   | Some (v, r) \<Rightarrow> (case skip_ws r of
       c # r' \<Rightarrow>
         if c = CHR '']'' then Some ([v], r')
         else if c = CHR '','' \<and> length r' < length s
         then map_option (\<lambda>(vs, r). (v # vs, r)) (parse_elements r')
         else None
     | [] \<Rightarrow> None))"
| "parse_members s = (case skip_ws s of
     [] \<Rightarrow> None
   | q # cs \<Rightarrow> if q \<noteq> QUOTE then None else (case parse_chars cs of
       None \<Rightarrow> None
     | Some (k, r) \<Rightarrow> (case skip_ws r of
         [] \<Rightarrow> None
       | d # r' \<Rightarrow> if d \<noteq> CHR '':'' \<or> \<not> length r' < length s then None else (case parse_value r' of
           None \<Rightarrow> None
         | Some (v, r'') \<Rightarrow> (case skip_ws r'' of
             c # r''' \<Rightarrow>
               if c = CHR ''}'' then Some ([(k, v)], r''')
               else if c = CHR '','' \<and> length r''' < length s
               then map_option (\<lambda>(ms, r). ((k, v) # ms, r)) (parse_members r''')
               else None
           | [] \<Rightarrow> None)))))"
  by pat_completeness auto

termination
  by (relation "measure (\<lambda>x. case x of Inl s \<Rightarrow> 2 * length s
      | Inr (Inl s) \<Rightarrow> 2 * length s + 1 | Inr (Inr s) \<Rightarrow> 2 * length s + 1)")
    (auto dest: skip_ws_length)

declare parse_value.simps [simp del] parse_elements.simps [simp del] parse_members.simps [simp del]

definition JSON_parse :: "string \<Rightarrow> json result" where
  "JSON_parse s = (case parse_value s of
     Some (v, r) \<Rightarrow> if skip_ws r = [] then Inr v else Inl (SyntaxError ''Unexpected non-whitespace character after JSON'')
   | None \<Rightarrow> Inl (SyntaxError ''Unexpected token in JSON''))"

section \<open>TextDecoder\<close>

text \<open>
  The UTF-8 decoding of \<open>new TextDecoder().decode\<close>: a leading byte order mark is dropped, and every
  maximal start of an ill-formed sequence becomes U+FFFD. \<open>valid_tail\<close> counts how many of the
  continuation bytes asked for are there, the first within its own bounds.
\<close>

fun valid_tail :: "nat \<Rightarrow> nat \<Rightarrow> nat \<Rightarrow> bytes \<Rightarrow> nat" where
  "valid_tail (Suc k) lo hi (b # bs) = (if lo \<le> unat b \<and> unat b \<le> hi then Suc (valid_tail k 0x80 0xBF bs) else 0)"
| "valid_tail _ _ _ _ = 0"

definition utf8_lead :: "nat \<Rightarrow> nat \<times> nat \<times> nat" where
  "utf8_lead n = (if n = 0xE0 then (2, 0xA0, 0xBF) else if n = 0xED then (2, 0x80, 0x9F)
     else if n = 0xF0 then (3, 0x90, 0xBF) else if n = 0xF4 then (3, 0x80, 0x8F)
     else (if n \<le> 0xDF then 1 else if n \<le> 0xEF then 2 else 3, 0x80, 0xBF))"

function (sequential) utf8_decode :: "bytes \<Rightarrow> string" where
  "utf8_decode [] = []"
| "utf8_decode (b # bs) =
     (let n = unat b in
      if n < 0x80 then byte_char b # utf8_decode bs
      else if n < 0xC2 \<or> 0xF4 < n then utf8_of_code 0xFFFD @ utf8_decode bs
      else case utf8_lead n of (need, lo, hi) \<Rightarrow>
        let good = valid_tail need lo hi bs in
        (if good = need then map byte_char (b # take need bs) else utf8_of_code 0xFFFD)
          @ utf8_decode (drop good bs))"
  by pat_completeness auto
termination by (relation "measure length") auto

declare utf8_decode.simps(2) [simp del]

definition text_decode :: "bytes \<Rightarrow> string" where
  "text_decode bs = utf8_decode (if take 3 bs = [0xEF, 0xBB, 0xBF] then drop 3 bs else bs)"

lemma unat_of_char: "unat (of_char c :: byte) = code c"
proof -
  have "unat (of_char c :: byte) = unat (of_nat (of_char c) :: byte)" by (simp only: of_nat_of_char)
  also have "\<dots> = of_char c" using of_char_mod_256 [of c, where ?'a = nat] by (simp add: unat_of_nat del: of_char_mod_256)
  finally show ?thesis by (simp add: code_def)
qed

lemma utf8_decode_ascii: "list_all (\<lambda>c. code c < 128) s \<Longrightarrow> utf8_decode (utf8 s) = s"
  by (induction s) (simp_all add: utf8_def utf8_decode.simps(2) Let_def unat_of_char)

lemma text_decode_ascii: "list_all (\<lambda>c. code c < 128) s \<Longrightarrow> text_decode (utf8 s) = s"
proof -
  assume s: "list_all (\<lambda>c. code c < 128) s"
  then have "utf8_decode (utf8 s) = s" by (rule utf8_decode_ascii)
  moreover have "take 3 (utf8 s) \<noteq> [0xEF, 0xBB, 0xBF]"
  proof (cases s)
    case (Cons c cs)
    have "of_char c \<noteq> (0xEF :: byte)" using s Cons unat_of_char [of c] by (auto dest: arg_cong [of _ _ unat])
    then show ?thesis using Cons by (simp add: utf8_def)
  qed (simp add: utf8_def)
  ultimately show ?thesis by (simp add: text_decode_def)
qed

section \<open>Printing\<close>

function nat_digits :: "nat \<Rightarrow> string" where
  "nat_digits n = (if n < 10 then [char_of (48 + n)] else nat_digits (n div 10) @ [char_of (48 + n mod 10)])"
  by pat_completeness auto
termination by (relation "measure id") auto

declare nat_digits.simps [simp del]

text \<open>\<open>Number.prototype.toString\<close> of \<open>m * 10 ^ e\<close>, the digits of \<open>m\<close> being the shortest ones.\<close>

definition js_number :: "int \<Rightarrow> int \<Rightarrow> string" where
  "js_number m e =
     (let ds = nat_digits (nat \<bar>m\<bar>); k = int (length ds); n = k + e;
          txt = (if k \<le> n \<and> n \<le> 21 then ds @ replicate (nat (n - k)) (CHR ''0'')
            else if 0 < n \<and> n \<le> 21 then take (nat n) ds @ ''.'' @ drop (nat n) ds
            else if -6 < n \<and> n \<le> 0 then ''0.'' @ replicate (nat (- n)) (CHR ''0'') @ ds
            else (if k = 1 then ds else hd ds # ''.'' @ tl ds) @ ''e''
              @ (if n - 1 > 0 then ''+'' else ''-'') @ nat_digits (nat \<bar>n - 1\<bar>))
      in if m < 0 then CHR ''-'' # txt else txt)"

definition hex_digit :: "nat \<Rightarrow> char" where
  "hex_digit n = (if n < 10 then char_of (48 + n) else char_of (87 + n))"

definition escape_char :: "char \<Rightarrow> string" where
  "escape_char c =
     (if c = QUOTE \<or> c = BSLASH then [BSLASH, c]
      else if c = CHR 0x08 then [BSLASH, CHR ''b''] else if c = CHR 0x0C then [BSLASH, CHR ''f'']
      else if c = CHR 0x0A then [BSLASH, CHR ''n''] else if c = CHR 0x0D then [BSLASH, CHR ''r'']
      else if c = CHR 0x09 then [BSLASH, CHR ''t'']
      else if code c < 32 then [BSLASH, CHR ''u'', CHR ''0'', CHR ''0'', hex_digit (code c div 16), hex_digit (code c mod 16)]
      else [c])"

definition json_quote :: "string \<Rightarrow> string" where
  "json_quote s = QUOTE # concat (map escape_char s) @ [QUOTE]"

fun commas :: "string list \<Rightarrow> string" where
  "commas [] = []"
| "commas [s] = s"
| "commas (s # t # ss) = s @ CHR '','' # commas (t # ss)"

primrec JSON_stringify :: "json \<Rightarrow> string" where
  "JSON_stringify JNull = ''null''"
| "JSON_stringify (JBool b) = (if b then ''true'' else ''false'')"
| "JSON_stringify (JNum m e) = js_number m e"
| "JSON_stringify (JStr s) = json_quote s"
| "JSON_stringify (JArr vs) = CHR ''['' # commas (map JSON_stringify vs) @ '']''"
| "JSON_stringify (JObj ms) =
     CHR ''{'' # commas (map (\<lambda>(k, t). json_quote k @ CHR '':'' # t) (map (map_prod id JSON_stringify) ms)) @ ''}''"

section \<open>Reading back what was written\<close>

text \<open>Strings.\<close>

lemma code_less_256: "code c < 256"
  by (simp add: code_def)

lemma char_of_code [simp]: "char_of (code c) = c"
  by (simp add: code_def)

lemma code_char_of: "n < 256 \<Longrightarrow> code (char_of n) = n"
  by (simp add: code_def)

lemma hex_val_digit: "n < 16 \<Longrightarrow> hex_val (hex_digit n) = Some n"
  by (auto simp: hex_val_def hex_digit_def Let_def code_char_of)

lemma hex4_control:
  assumes "code c < 32"
  shows "hex4 (CHR ''0'') (CHR ''0'') (hex_digit (code c div 16)) (hex_digit (code c mod 16)) = Some (code c)"
proof -
  have "hex_val (CHR ''0'') = Some 0" by (simp add: hex_val_def code_def)
  then show ?thesis using assms by (simp add: hex4_def hex_val_digit)
qed

lemma parse_escaped:
  "parse_chars (escape_char c @ t) = map_option (\<lambda>(u, r). (c # u, r)) (parse_chars t)"
proof -
  have "code QUOTE = 34" "code BSLASH = 92" by (simp_all add: code_def)
  moreover have "unicode_escape (CHR ''0'' # CHR ''0'' # hex_digit (code c div 16) # hex_digit (code c mod 16) # t)
      = Some ([c], t)" if "code c < 32"
    using that by (simp add: unicode_escape_def hex4_control utf8_of_code_def)
  ultimately show ?thesis
    by (auto simp: escape_char_def simple_escape_def)
qed

lemma parse_chars_escaped:
  "parse_chars (concat (map escape_char s) @ QUOTE # rest) = Some (s, rest)"
  by (induction s) (simp_all add: parse_escaped)

text \<open>Numbers.\<close>

lemma digit_char: "n < 10 \<Longrightarrow> is_digit (char_of (48 + n))" "n < 10 \<Longrightarrow> digit_val (char_of (48 + n)) = int n"
  by (simp_all add: is_digit_def digit_val_def code_char_of)

lemma code_48: "code x = 48 \<longleftrightarrow> x = CHR ''0''"
proof -
  have "code (CHR ''0'') = 48" by (simp add: code_def)
  then show ?thesis by (metis char_of_code)
qed

lemma digits_val_snoc: "digits_val (ds @ [d]) = 10 * digits_val ds + digit_val d"
  by (simp add: digits_val_def)

lemma nat_digits_ok:
  "list_all is_digit (nat_digits n) \<and> digits_val (nat_digits n) = int n \<and> nat_digits n \<noteq> []
   \<and> (n > 0 \<longrightarrow> hd (nat_digits n) \<noteq> CHR ''0'')"
proof (induction n rule: nat_digits.induct)
  case (1 n)
  show ?case
  proof (cases "n < 10")
    case True
    then have "char_of (48 + n) = CHR ''0'' \<longrightarrow> n = 0" using code_48 [of "char_of (48 + n)"] by (simp add: code_char_of)
    then show ?thesis using True digit_char [of n] by (subst (1 2 3 4) nat_digits.simps) (auto simp: digits_val_def)
  next
    case False
    then have eq: "nat_digits n = nat_digits (n div 10) @ [char_of (48 + n mod 10)]" by (simp add: nat_digits.simps)
    have "int n = int (10 * (n div 10) + n mod 10)" by (simp only: mult_div_mod_eq)
    then have "int n = 10 * int (n div 10) + int (n mod 10)" by (simp only: of_nat_add of_nat_mult of_nat_numeral)
    then show ?thesis using 1 [OF False] False digit_char [of "n mod 10"]
      by (simp add: eq digits_val_snoc)
  qed
qed

lemma digits_val_zeros: "digits_val (ds @ replicate k (CHR ''0'')) = digits_val ds * 10 ^ k"
proof (induction k)
  case (Suc k)
  have "digits_val (ds @ replicate (Suc k) (CHR ''0'')) = 10 * digits_val (ds @ replicate k (CHR ''0''))"
    by (simp add: digits_val_snoc digit_val_def code_def flip: replicate_append_same append_assoc)
  with Suc show ?case by simp
qed simp

lemma norm_num_shift: "m \<noteq> 0 \<Longrightarrow> norm_num (m * 10 ^ k) e = norm_num m (e + int k)"
proof (induction k arbitrary: e)
  case (Suc k)
  have "norm_num (m * 10 ^ Suc k) e = norm_num (m * 10 ^ k) (e + 1)"
    using Suc.prems by (subst norm_num.simps) (simp add: mult.assoc)
  then show ?case using Suc.IH [OF Suc.prems, of "e + 1"] by (simp add: algebra_simps)
qed simp

lemma norm_num_cases:
  obtains "m = 0" "norm_num m e = JNum 0 0"
  | a k where "a mod 10 \<noteq> 0" "m = a * 10 ^ k" "norm_num m e = JNum a (e + int k)"
proof (induction m e rule: norm_num.induct)
  case (1 m e)
  consider "m = 0" | "m \<noteq> 0" "m mod 10 = 0" | "m mod 10 \<noteq> 0" by auto
  then show ?case
  proof cases
    case 2
    then have s: "norm_num m e = norm_num (m div 10) (e + 1)" by (subst norm_num.simps) simp
    show ?thesis
    proof (rule "1.IH" [OF 2])
      assume "m div 10 = 0" then show ?thesis using 2 by auto
    next
      fix a k assume a: "a mod 10 \<noteq> 0" "m div 10 = a * 10 ^ k" "norm_num (m div 10) (e + 1) = JNum a (e + 1 + int k)"
      then have "m = a * 10 ^ Suc k" using 2(2) by auto
      then show ?thesis using "1.prems"(2) [of a "Suc k"] a s by simp
    qed
  next
    case 3
    then have "m \<noteq> 0" by auto
    then show ?thesis using 3 "1.prems"(2) [of m 0] by (simp add: norm_num.simps [of m e])
  qed (use "1.prems" in \<open>simp add: norm_num.simps\<close>)
qed

definition ends_number :: "string \<Rightarrow> bool" where
  "ends_number rest = (case rest of [] \<Rightarrow> True | c # _ \<Rightarrow> c \<in> set '',]}'')"

lemma ends_number_stops:
  assumes "ends_number rest"
  shows "takeWhile is_digit rest = []" "dropWhile is_digit rest = rest" "parse_frac rest = Some ([], rest)"
    "parse_exp rest = Some (0, rest)" "skip_ws rest = rest"
  using assms by (auto simp: ends_number_def is_digit_def code_def parse_frac_def parse_exp_def skip_ws_def is_ws_def
      split: list.splits)

lemma parse_digits:
  assumes "ends_number rest" "list_all is_digit ds" "ds \<noteq> []" "hd ds = CHR ''0'' \<longrightarrow> tl ds = []"
  shows "parse_number ((if neg then [CHR ''-''] else []) @ ds @ rest)
    = Some (norm_num (if neg then - digits_val ds else digits_val ds) 0, rest)"
proof -
  have t: "takeWhile is_digit (ds @ rest) = ds" "dropWhile is_digit (ds @ rest) = rest"
    using assms(2) ends_number_stops(1,2) [OF assms(1)]
    by (auto simp: list_all_iff takeWhile_append2 dropWhile_append2)
  have h: "is_digit (hd ds)" using assms(2,3) by (cases ds) auto
  then have "hd ds \<noteq> CHR ''-''" by (auto simp: is_digit_def code_def)
  then show ?thesis
    using assms(3,4) t ends_number_stops(3,4) [OF assms(1)]
    by (cases neg; cases ds) (auto simp: parse_number_def Let_def)
qed

lemma js_number_int:
  assumes "json_int n = JNum m e" "\<bar>n\<bar> < 10 ^ 21"
  obtains ds where "js_number m e = (if n < 0 then [CHR ''-''] else []) @ ds" "list_all is_digit ds" "ds \<noteq> []"
    "hd ds = CHR ''0'' \<longrightarrow> tl ds = []" "digits_val ds = \<bar>n\<bar>"
proof (rule norm_num_cases [of n 0])
  assume "n = 0" "norm_num n 0 = JNum 0 0"
  then have "m = 0" "e = 0" using assms(1) by (simp_all add: json_int_def)
  then show thesis
    using \<open>n = 0\<close> that [of "nat_digits 0"] nat_digits_ok [of 0]
    by (simp add: js_number_def nat_digits.simps [of 0] Let_def)
next
  fix a k assume a: "a mod 10 \<noteq> 0" "n = a * 10 ^ k" "norm_num n 0 = JNum a (0 + int k)"
  then have me: "m = a" "e = int k" using assms(1) by (simp_all add: json_int_def)
  have pos: "\<bar>a\<bar> > 0" using a(1) by auto
  let ?ds = "nat_digits (nat \<bar>a\<bar>)"
  have d: "list_all is_digit ?ds" "digits_val ?ds = \<bar>a\<bar>" "?ds \<noteq> []" "hd ?ds \<noteq> CHR ''0''"
    using nat_digits_ok [of "nat \<bar>a\<bar>"] pos by auto
  have v: "digits_val (?ds @ replicate k (CHR ''0'')) = \<bar>n\<bar>" by (simp add: digits_val_zeros d(2) a(2) abs_mult)
  have len: "10 ^ (length ds - 1) \<le> digits_val ds" if "list_all is_digit ds" "ds \<noteq> []" "hd ds \<noteq> CHR ''0''" for ds
    using that
  proof (induction ds rule: rev_induct)
    case (snoc x xs)
    have x: "0 \<le> digit_val x" using snoc.prems(1) by (simp add: is_digit_def digit_val_def)
    show ?case
    proof (cases xs)
      case Nil
      have "code x \<noteq> 48" using snoc.prems(3) Nil by (simp add: code_48)
      then show ?thesis using snoc.prems(1) Nil by (simp add: digits_val_def is_digit_def digit_val_def)
    next
      case (Cons y ys)
      then have "10 ^ (length xs - 1) \<le> digits_val xs" using snoc by simp
      moreover have "(10 :: int) ^ (length (xs @ [x]) - 1) = 10 * 10 ^ (length xs - 1)" using Cons by simp
      ultimately show ?thesis using x unfolding digits_val_snoc by linarith
    qed
  qed simp
  have zs: "list_all is_digit (?ds @ replicate k (CHR ''0''))"
    using d(1) by (auto simp: is_digit_def code_def list_all_iff)
  have "(10 :: int) ^ (length (?ds @ replicate k (CHR ''0'')) - 1) \<le> \<bar>n\<bar>"
    using len [OF zs] d v by simp
  then have "(10 :: int) ^ (length ?ds + k - 1) < 10 ^ 21" using assms(2) by simp
  then have "length ?ds + k - 1 < 21" by (rule power_less_imp_less_exp [rotated]) simp
  then have small: "int (length ?ds) + int k \<le> 21" using d(3) by (cases ?ds) auto
  have sgn: "(a < 0) = (n < 0)" using a(2) by (simp add: mult_less_0_iff)
  show thesis
  proof (rule that [of "?ds @ replicate k (CHR ''0'')"])
    show "js_number m e = (if n < 0 then [CHR ''-''] else []) @ ?ds @ replicate k (CHR ''0'')"
      using small by (simp add: js_number_def me sgn Let_def)
  qed (use d v in \<open>auto simp: is_digit_def code_def list_all_iff\<close>)
qed

text \<open>
  Values: integers of up to 21 digits, and objects without repeated keys, at any depth.
\<close>

primrec json_wf :: "json \<Rightarrow> bool" where
  "json_wf JNull = True"
| "json_wf (JBool b) = True"
| "json_wf (JNum m e) = (\<exists>n. json_int n = JNum m e \<and> \<bar>n\<bar> < 10 ^ 21)"
| "json_wf (JStr s) = True"
| "json_wf (JArr vs) = list_all id (map json_wf vs)"
| "json_wf (JObj ms) = (distinct (map fst ms) \<and> list_all snd (map (map_prod id json_wf) ms))"

lemma fold_jsmap_distinct:
  assumes "distinct (map fst acc @ map fst ms)"
  shows "fold (\<lambda>(k, v). jsmap_set k v) ms acc = acc @ ms"
  using assms
proof (induction ms arbitrary: acc)
  case (Cons kv ms)
  obtain k v where kv: "kv = (k, v)" by (cases kv)
  have new: "jsmap_set k v a = a @ [(k, v)]" if "k \<notin> fst ` set a" for a :: "('a \<times> 'b) list"
    using that by (induction a) auto
  have "k \<notin> fst ` set acc" using Cons.prems kv by auto
  then have "fold (\<lambda>(k, v). jsmap_set k v) (kv # ms) acc = fold (\<lambda>(k, v). jsmap_set k v) ms (acc @ [(k, v)])"
    by (simp add: kv new)
  also have "\<dots> = (acc @ [(k, v)]) @ ms" using Cons.prems kv by (intro Cons.IH) simp
  finally show ?case using kv by simp
qed simp

lemma digit_first:
  assumes "is_digit c"
  shows "\<not> is_ws c" "c \<noteq> QUOTE" "c \<noteq> CHR ''[''" "c \<noteq> CHR ''{''" "c \<noteq> CHR ''t''" "c \<noteq> CHR ''f''" "c \<noteq> CHR ''n''"
    "c \<noteq> CHR '']''"
  using assms by (auto simp: is_digit_def is_ws_def code_def)

lemma skip_ws_Cons [simp]: "\<not> is_ws c \<Longrightarrow> skip_ws (c # cs) = c # cs"
  by (simp add: skip_ws_def)

lemma is_ws_marks [simp]: "\<not> is_ws QUOTE" "\<not> is_ws (CHR ''['')" "\<not> is_ws (CHR ''{'')" "\<not> is_ws (CHR '']'')"
    "\<not> is_ws (CHR ''}'')" "\<not> is_ws (CHR '','')" "\<not> is_ws (CHR '':'')" "\<not> is_ws (CHR ''-'')"
    "\<not> is_ws (CHR ''t'')" "\<not> is_ws (CHR ''f'')" "\<not> is_ws (CHR ''n'')"
  by (simp_all add: is_ws_def)

lemma ends_number_marks [simp]: "ends_number []" "ends_number (CHR '','' # r)" "ends_number (CHR '']'' # r)"
    "ends_number (CHR ''}'' # r)"
  by (simp_all add: ends_number_def)

lemma parse_printed_number:
  assumes "json_wf (JNum m e)" "ends_number rest"
  shows "parse_value (js_number m e @ rest) = Some (JNum m e, rest)"
    and "\<exists>c cs. js_number m e = c # cs \<and> \<not> is_ws c \<and> c \<noteq> CHR '']''"
proof -
  obtain n where n: "json_int n = JNum m e" "\<bar>n\<bar> < 10 ^ 21" using assms(1) by auto
  then obtain ds where ds: "js_number m e = (if n < 0 then [CHR ''-''] else []) @ ds" "list_all is_digit ds" "ds \<noteq> []"
    "hd ds = CHR ''0'' \<longrightarrow> tl ds = []" "digits_val ds = \<bar>n\<bar>" by (rule js_number_int)
  then obtain d ds' where d: "ds = d # ds'" "is_digit d" by (cases ds) auto
  note f = digit_first [OF d(2)]
  show "\<exists>c cs. js_number m e = c # cs \<and> \<not> is_ws c \<and> c \<noteq> CHR '']''" using ds(1) d f by auto
  have "(if n < 0 then - digits_val ds else digits_val ds) = n" using ds(5) by auto
  then have "parse_number (js_number m e @ rest) = Some (JNum m e, rest)"
    using parse_digits [OF assms(2) ds(2-4), of "n < 0"] n(1) by (simp add: ds(1) json_int_def)
  then show "parse_value (js_number m e @ rest) = Some (JNum m e, rest)"
    using ds(1) d f by (auto simp: parse_value.simps split: if_splits)
qed

lemma printed_first:
  assumes "json_wf v"
  shows "\<exists>c cs. JSON_stringify v = c # cs \<and> \<not> is_ws c \<and> c \<noteq> CHR '']''"
proof (cases v)
  case (JNum m e)
  then show ?thesis using parse_printed_number(2) [of m e "[]"] assms by simp
qed (auto simp: json_quote_def)

lemma parse_printed_elements:
  assumes "vs \<noteq> []" "\<And>v rest. v \<in> set vs \<Longrightarrow> ends_number rest \<Longrightarrow> parse_value (JSON_stringify v @ rest) = Some (v, rest)"
  shows "parse_elements (commas (map JSON_stringify vs) @ CHR '']'' # rest) = Some (vs, rest)"
  using assms
proof (induction "map JSON_stringify vs" arbitrary: vs rule: commas.induct)
  case (2 s)
  then obtain v where "vs = [v]" by (cases vs) auto
  then show ?case using 2 by (simp add: parse_elements.simps)
next
  case (3 s t ss)
  then obtain v w ws where vs: "vs = v # w # ws" by (cases vs; cases "tl vs") auto
  have "parse_elements (commas (map JSON_stringify (w # ws)) @ CHR '']'' # rest) = Some (w # ws, rest)"
    using 3(1) [of "w # ws"] 3(2-) vs by simp
  then show ?case using 3(4) [of v] vs by (subst parse_elements.simps) simp
qed simp

abbreviation print_member :: "string \<times> json \<Rightarrow> string" where
  "print_member \<equiv> \<lambda>(k, v). json_quote k @ CHR '':'' # JSON_stringify v"

lemma parse_one_member:
  assumes "\<And>rest. ends_number rest \<Longrightarrow> parse_value (JSON_stringify v @ rest) = Some (v, rest)" "ends_number (c # r)"
  shows "parse_members (print_member (k, v) @ c # r) =
    (if c = CHR ''}'' then Some ([(k, v)], r)
     else if c = CHR '','' then map_option (\<lambda>(ms, r). ((k, v) # ms, r)) (parse_members r) else None)"
proof -
  let ?s = "print_member (k, v) @ c # r"
  have s: "?s = QUOTE # concat (map escape_char k) @ QUOTE # CHR '':'' # JSON_stringify v @ c # r"
    by (simp add: json_quote_def)
  have c: "skip_ws (c # r) = c # r" using ends_number_stops(5) [OF assms(2)] .
  show ?thesis
    unfolding s by (subst parse_members.simps) (simp add: parse_chars_escaped assms(1) [OF assms(2)] c)
qed

lemma parse_printed_members:
  assumes "ms \<noteq> []" "\<And>k v rest. (k, v) \<in> set ms \<Longrightarrow> ends_number rest \<Longrightarrow> parse_value (JSON_stringify v @ rest) = Some (v, rest)"
  shows "parse_members (commas (map print_member ms) @ CHR ''}'' # rest) = Some (ms, rest)"
  using assms
proof (induction "map print_member ms" arbitrary: ms rule: commas.induct)
  case (2 s)
  then obtain k v where ms: "ms = [(k, v)]" by (cases ms) auto
  then show ?case using parse_one_member [of v "CHR ''}''" rest k] 2(3) by simp
next
  case (3 s t ss)
  then obtain k v w ws where ms: "ms = (k, v) # w # ws" by (cases ms; cases "tl ms") auto
  let ?r = "commas (map print_member (w # ws)) @ CHR ''}'' # rest"
  have "parse_members ?r = Some (w # ws, rest)"
    by (rule 3(1)) (use 3(2-) ms in auto)
  moreover have "commas (map print_member ms) @ CHR ''}'' # rest = print_member (k, v) @ CHR '','' # ?r"
    using ms by simp
  ultimately show ?case using parse_one_member [of v "CHR '',''" ?r k] 3(4) [of k v] ms by simp
qed simp

theorem parse_printed:
  "json_wf v \<Longrightarrow> ends_number rest \<Longrightarrow> parse_value (JSON_stringify v @ rest) = Some (v, rest)"
proof (induction v arbitrary: rest)
  case (JNum m e)
  then show ?case using parse_printed_number(1) by simp
next
  case (JStr s)
  then show ?case by (simp add: json_quote_def parse_value.simps parse_chars_escaped)
next
  case (JArr vs)
  have wf: "json_wf v" if "v \<in> set vs" for v using that JArr.prems(1) by (simp add: list_all_iff)
  show ?case
  proof (cases vs)
    case Nil
    then show ?thesis by (simp add: parse_value.simps)
  next
    case (Cons v vs')
    let ?t = "commas (map JSON_stringify vs) @ CHR '']'' # rest"
    obtain c cs where c: "JSON_stringify v = c # cs" "\<not> is_ws c" "c \<noteq> CHR '']''"
      using printed_first [OF wf [of v]] Cons by auto
    then obtain cs' where t: "?t = c # cs'" using Cons by (cases vs') auto
    have "parse_elements ?t = Some (vs, rest)"
      using Cons JArr.IH wf by (intro parse_printed_elements) auto
    then show ?thesis using c t by (simp add: parse_value.simps)
  qed
next
  case (JObj ms)
  have wf: "json_wf v" if "(k, v) \<in> set ms" for k v using that JObj.prems(1) by (force simp: list_all_iff)
  have d: "distinct (map fst ms)" using JObj.prems(1) by simp
  show ?case
  proof (cases ms)
    case Nil
    then show ?thesis by (simp add: parse_value.simps)
  next
    case (Cons m ms')
    let ?t = "commas (map print_member ms) @ CHR ''}'' # rest"
    obtain cs' where t: "?t = QUOTE # cs'" using Cons by (cases m; cases ms') (auto simp: json_quote_def)
    have "parse_members ?t = Some (ms, rest)"
    proof (rule parse_printed_members)
      fix k v r assume "(k, v) \<in> set ms" "ends_number r"
      then show "parse_value (JSON_stringify v @ r) = Some (v, r)"
        using JObj.IH [of "(k, v)" v r] wf by (simp add: snds.simps)
    qed (use Cons in simp)
    moreover have "JSON_stringify (JObj ms) @ rest = CHR ''{'' # ?t"
      by (simp add: comp_def) (intro arg_cong [of _ _ commas] map_cong; auto)
    ultimately show ?thesis using t fold_jsmap_distinct [of "[]" ms] d
      by (simp add: parse_value.simps)
  qed
qed (simp_all add: parse_value.simps)

corollary JSON_parse_stringify: "json_wf v \<Longrightarrow> JSON_parse (JSON_stringify v) = Inr v"
  using parse_printed [of v "[]"] by (simp add: JSON_parse_def skip_ws_def)

end
