(* ===== verification/Ownership.thy ===== *)
theory Ownership
  imports Secp256r1 Json "HOL-Library.List_Lexorder" "HOL-Library.Char_ord" "HOL-Library.Multiset"
begin

text \<open>
  Which wallet belongs to a returning passkey user: the pure half (\<open>ownership.ts\<close>), with the message
  challenges of \<open>signedMessage.ts\<close>. The rule that adopts a wallet without asking, the order the
  others are shown in, the checks on an ownership proof and the keys it can name. P-256 is a
  parameter of the definitions that use it.
\<close>

section \<open>Array.prototype.sort\<close>

text \<open>
  JavaScript sorts stably by a comparison function, and its result is specified only when that
  function is consistent: a total preorder told by the sign.
\<close>

fun js_insert :: "('a \<Rightarrow> 'a \<Rightarrow> int) \<Rightarrow> 'a \<Rightarrow> 'a list \<Rightarrow> 'a list" where
  "js_insert cmp x [] = [x]"
| "js_insert cmp x (y # ys) = (if cmp x y > 0 then y # js_insert cmp x ys else x # y # ys)"

definition js_sort :: "('a \<Rightarrow> 'a \<Rightarrow> int) \<Rightarrow> 'a list \<Rightarrow> 'a list" where
  "js_sort cmp xs = foldr (js_insert cmp) xs []"

lemma mset_js_insert [simp]: "mset (js_insert cmp x xs) = add_mset x (mset xs)"
  by (induction xs) auto

lemma mset_js_sort [simp]: "mset (js_sort cmp xs) = mset xs"
  by (induction xs) (simp_all add: js_sort_def)

lemma set_js_insert [simp]: "set (js_insert cmp x xs) = insert x (set xs)"
  by (induction xs) auto

locale consistent_comparator =
  fixes cmp :: "'a \<Rightarrow> 'a \<Rightarrow> int"
  assumes swap: "cmp x y > 0 \<longleftrightarrow> cmp y x < 0"
    and trans: "cmp x y \<le> 0 \<Longrightarrow> cmp y z \<le> 0 \<Longrightarrow> cmp x z \<le> 0"
begin

lemma sorted_js_insert:
  "sorted_wrt (\<lambda>a b. cmp a b \<le> 0) xs \<Longrightarrow> sorted_wrt (\<lambda>a b. cmp a b \<le> 0) (js_insert cmp x xs)"
proof (induction xs)
  case (Cons y ys)
  have "cmp y x \<le> 0" if "cmp x y > 0" using that swap by (meson less_imp_le)
  then show ?case using Cons trans [of x y] by auto
qed simp

lemma sorted_js_sort: "sorted_wrt (\<lambda>a b. cmp a b \<le> 0) (js_sort cmp xs)"
  by (induction xs) (simp_all add: js_sort_def sorted_js_insert)

text \<open>Two sorted arrangements of the same elements agree when ties are equalities.\<close>

lemma sorted_unique:
  assumes "mset xs = mset ys" "sorted_wrt (\<lambda>a b. cmp a b \<le> 0) xs" "sorted_wrt (\<lambda>a b. cmp a b \<le> 0) ys"
    and "\<And>a b. a \<in> set xs \<Longrightarrow> b \<in> set xs \<Longrightarrow> cmp a b = 0 \<Longrightarrow> a = b"
  shows "xs = ys"
  using assms
proof (induction xs arbitrary: ys)
  case (Cons x xs)
  from Cons.prems(1) obtain y ys' where ys: "ys = y # ys'" by (cases ys) auto
  have sets: "set (x # xs) = set (y # ys')" using Cons.prems(1) ys by (metis set_mset_mset)
  have "x = y"
  proof (rule ccontr)
    assume n: "x \<noteq> y"
    then have "y \<in> set xs" "x \<in> set ys'" using sets by auto
    then have "cmp x y \<le> 0" "cmp y x \<le> 0" using Cons.prems(2,3) ys by auto
    then have "cmp x y = 0" using swap [of y x] by linarith
    moreover have "y \<in> set (x # xs)" unfolding sets by simp
    ultimately show False using n Cons.prems(4) [of x y] by simp
  qed
  then show ?case using Cons ys by auto
qed simp

lemma js_sort_perm:
  assumes "mset xs = mset ys" "\<And>a b. a \<in> set xs \<Longrightarrow> b \<in> set xs \<Longrightarrow> cmp a b = 0 \<Longrightarrow> a = b"
  shows "js_sort cmp xs = js_sort cmp ys"
proof (rule sorted_unique)
  show "mset (js_sort cmp xs) = mset (js_sort cmp ys)" using assms(1) by simp
  fix a b assume "a \<in> set (js_sort cmp xs)" "b \<in> set (js_sort cmp xs)" "cmp a b = 0"
  then show "a = b" using assms(2) by (metis mset_js_sort set_mset_mset)
qed (rule sorted_js_sort)+

end

section \<open>Candidates and facts\<close>

record passkey_wallet_candidate =
  c_version :: int
  c_programId :: address
  c_walletPda :: address
  c_vaultPda :: address
  c_authorityPda :: address
  c_publicKey :: bytes

datatype authority_role_name = Role_owner | Role_admin | Role_spender | Role_unknown

datatype authority_type = Ed25519 | Secp256r1

record other_authority =
  oa_authorityPda :: address
  oa_type :: authority_type
  oa_role :: authority_role_name
  oa_publicKey :: "address option"
  oa_sameRelyingParty :: "bool option"
  oa_trusted :: bool

record live_session =
  ls_sessionPda :: address
  ls_sessionKey :: address
  ls_expiresAtSlot :: int
  ls_trusted :: bool

record pending_deferred =
  pd_deferredPda :: address
  pd_authorizedBy :: address
  pd_expiresAtSlot :: int
  pd_trusted :: bool

datatype grant_kind = Delegate | CloseAuthority | Owner | Unreadable

record token_grant =
  tg_tokenAccount :: address
  tg_tokenProgram :: address
  tg_mint :: "address option"
  tg_kind :: grant_kind
  tg_grantee :: "address option"
  tg_trusted :: bool

record wallet_facts = passkey_wallet_candidate +
  wf_lamports :: int
  wf_slot :: int
  wf_otherAuthorities :: "other_authority list"
  wf_liveSessions :: "live_session list"
  wf_pendingDeferred :: "pending_deferred list"
  wf_vaultIsSystemAccount :: bool
  wf_tokenGrants :: "token_grant list"
  wf_controlledAlone :: bool
  wf_signatureCount :: int

section \<open>The rule\<close>

definition js_Number :: "bool \<Rightarrow> int" where
  "js_Number b = (if b then 1 else 0)"

definition compareFacts :: "wallet_facts \<Rightarrow> wallet_facts \<Rightarrow> int" where
  "compareFacts a b =
     (let signed = js_Number (wf_signatureCount b > 0) - js_Number (wf_signatureCount a > 0) in
      if signed \<noteq> 0 then signed
      else if c_version a \<noteq> c_version b then c_version a - c_version b
      else if wf_lamports a \<noteq> wf_lamports b then (if wf_lamports a > wf_lamports b then -1 else 1)
      else if c_walletPda a < c_walletPda b then -1 else if c_walletPda a > c_walletPda b then 1 else 0)"

definition pickOwnWallet :: "wallet_facts list \<Rightarrow> wallet_facts option \<times> wallet_facts list" where
  "pickOwnWallet facts =
     (let ordered = js_sort compareFacts facts;
          signed = filter (\<lambda>f. wf_signatureCount f > 0) ordered
      in if length signed = 1 \<and> wf_controlledAlone (signed ! 0) then (Some (signed ! 0), [])
         else (None, ordered))"

definition selectWalletByAddress ::
  "'a passkey_wallet_candidate_scheme list \<Rightarrow> address \<Rightarrow> 'a passkey_wallet_candidate_scheme option" where
  "selectWalletByAddress candidates a = find (\<lambda>c. c_vaultPda c = a \<or> c_walletPda c = a) candidates"

interpretation facts_order: consistent_comparator compareFacts
proof
  fix x y z :: wallet_facts
  show "compareFacts x y > 0 \<longleftrightarrow> compareFacts y x < 0"
    by (auto simp: compareFacts_def js_Number_def Let_def)
  show "compareFacts x y \<le> 0 \<Longrightarrow> compareFacts y z \<le> 0 \<Longrightarrow> compareFacts x z \<le> 0"
    by (auto simp: compareFacts_def js_Number_def Let_def split: if_splits)
qed

lemma compareFacts_zero: "compareFacts a b = 0 \<Longrightarrow> c_walletPda a = c_walletPda b"
  by (auto simp: compareFacts_def js_Number_def Let_def split: if_splits)

text \<open>One element passes the filter, in whatever order the list is.\<close>

lemma single_filter_perm: "mset xs = mset ys \<Longrightarrow> filter P xs = [x] \<longleftrightarrow> filter P ys = [x]"
  by (metis mset_filter mset_single_iff)

lemma pick_adopts: "fst (pickOwnWallet facts) = Some f \<longleftrightarrow>
    filter (\<lambda>f. wf_signatureCount f > 0) facts = [f] \<and> wf_controlledAlone f"
proof -
  let ?S = "\<lambda>f :: wallet_facts. wf_signatureCount f > 0" and ?o = "js_sort compareFacts facts"
  have "fst (pickOwnWallet facts) = Some f \<longleftrightarrow> filter ?S ?o = [f] \<and> wf_controlledAlone f"
    by (auto simp: pickOwnWallet_def Let_def length_Suc_conv)
  also have "filter ?S ?o = [f] \<longleftrightarrow> filter ?S facts = [f]" by (rule single_filter_perm) simp
  finally show ?thesis .
qed

text \<open>
  C31. The rule that adopts a wallet. A wallet is adopted exactly when it is the only one this
  passkey has signed for and nothing untrusted can spend from it. Otherwise every wallet goes to the
  user, none lost and none twice, in the documented order. And the order the facts arrive in does
  not matter: for wallets with distinct addresses, any arrangement of the same facts gives the same
  answer.
\<close>

theorem pickOwnWallet_rule:
  assumes same: "mset facts' = mset facts" and wallets: "distinct (map c_walletPda facts)"
  shows "(fst (pickOwnWallet facts) = Some f \<longleftrightarrow>
        filter (\<lambda>f. wf_signatureCount f > 0) facts = [f] \<and> wf_controlledAlone f)
    \<and> (case pickOwnWallet facts of
         (Some _, confirm) \<Rightarrow> confirm = []
       | (None, confirm) \<Rightarrow> mset confirm = mset facts \<and> sorted_wrt (\<lambda>a b. compareFacts a b \<le> 0) confirm)
    \<and> pickOwnWallet facts' = pickOwnWallet facts"
proof (intro conjI)
  have "a = b" if "a \<in> set facts" "b \<in> set facts" "compareFacts a b = 0" for a b
    using that wallets compareFacts_zero by (auto simp: distinct_map dest: inj_onD)
  then have "js_sort compareFacts facts' = js_sort compareFacts facts"
    using facts_order.js_sort_perm [of facts facts'] same by simp
  then show "pickOwnWallet facts' = pickOwnWallet facts" by (simp add: pickOwnWallet_def)
  show "case pickOwnWallet facts of (Some _, confirm) \<Rightarrow> confirm = []
      | (None, confirm) \<Rightarrow> mset confirm = mset facts \<and> sorted_wrt (\<lambda>a b. compareFacts a b \<le> 0) confirm"
    by (auto simp: pickOwnWallet_def Let_def facts_order.sorted_js_sort)
qed (rule pick_adopts)

text \<open>A facts record for the witness: version, address and signature count are given.\<close>

definition sample_facts :: "address \<Rightarrow> int \<Rightarrow> wallet_facts" where
  "sample_facts w n = \<lparr>c_version = 2, c_programId = ''prog'', c_walletPda = w, c_vaultPda = ''v'' @ w,
     c_authorityPda = ''a'', c_publicKey = [], wf_lamports = 5, wf_slot = 1, wf_otherAuthorities = [],
     wf_liveSessions = [], wf_pendingDeferred = [], wf_vaultIsSystemAccount = True, wf_tokenGrants = [],
     wf_controlledAlone = True, wf_signatureCount = n\<rparr>"

theorem pickOwnWallet_rule_witness:
  "fst (pickOwnWallet [sample_facts ''A'' 0, sample_facts ''B'' 3]) = Some (sample_facts ''B'' 3)
   \<and> pickOwnWallet [sample_facts ''B'' 3, sample_facts ''A'' 0]
     = pickOwnWallet [sample_facts ''A'' 0, sample_facts ''B'' 3]"
  using pickOwnWallet_rule [of "[sample_facts ''B'' 3, sample_facts ''A'' 0]"
      "[sample_facts ''A'' 0, sample_facts ''B'' 3]" "sample_facts ''B'' 3"]
  by (simp add: sample_facts_def add_mset_commute)

section \<open>Challenges\<close>

definition OWNERSHIP_PROOF_DOMAIN :: string where "OWNERSHIP_PROOF_DOMAIN = ''LazorKit ownership proof v1''"
definition OWNERSHIP_PROOF_NONCE_LENGTH :: nat where "OWNERSHIP_PROOF_NONCE_LENGTH = 32"
definition SIGNED_MESSAGE_DOMAIN :: string where "SIGNED_MESSAGE_DOMAIN = ''LazorKit signed message v1''"

text \<open>\<open>random n\<close> is what \<open>crypto.getRandomValues\<close> puts into an array of \<open>n\<close> bytes.\<close>

definition createOwnershipChallenge :: "(nat \<Rightarrow> bytes) \<Rightarrow> bytes" where
  "createOwnershipChallenge random = random 32"

definition createTaggedOwnershipChallenge :: "(nat \<Rightarrow> bytes) \<Rightarrow> bytes result" where
  "createTaggedOwnershipChallenge random =
     (let tag = utf8 OWNERSHIP_PROOF_DOMAIN in
      rbind (u8_set (u8_zeros (length tag + OWNERSHIP_PROOF_NONCE_LENGTH)) tag 0) (\<lambda>challenge.
      u8_set challenge (random OWNERSHIP_PROOF_NONCE_LENGTH) (length tag)))"

datatype signed_message_input = MessageString string | MessageBytes bytes

fun messageBytes :: "signed_message_input \<Rightarrow> bytes" where
  "messageBytes (MessageString s) = utf8 s"
| "messageBytes (MessageBytes b) = b"

definition signedMessageChallenge :: "kit \<Rightarrow> signed_message_input \<Rightarrow> bytes result" where
  "signedMessageChallenge K message =
     (let tag = utf8 SIGNED_MESSAGE_DOMAIN; bytes = messageBytes message in
      rbind (u8_set (u8_zeros (length tag + length bytes)) tag 0) (\<lambda>preimage.
      rbind (u8_set preimage bytes (length tag)) (\<lambda>preimage.
      rbind (u8_set (u8_zeros (length tag + 32)) tag 0) (\<lambda>challenge.
      u8_set challenge (k_sha256 K preimage) (length tag)))))"

section \<open>Ownership proofs\<close>

record ownership_proof =
  op_challenge :: bytes
  op_signature :: bytes
  op_authenticatorData :: bytes
  op_clientDataJson :: bytes

datatype signature_format = Der | CompactRS

text \<open>What the code calls of \<open>p256\<close> (\<open>@noble/curves\<close>): each call may throw.\<close>

record 's p256 =
  p_verify :: "signature_format \<Rightarrow> bytes \<Rightarrow> bytes \<Rightarrow> bytes \<Rightarrow> bool result"
  p_fromBytes :: "signature_format \<Rightarrow> bytes \<Rightarrow> 's result"
  p_recover :: "'s \<Rightarrow> nat \<Rightarrow> bytes \<Rightarrow> bytes result"

definition SIGNATURE_FORMATS :: "signature_format list" where "SIGNATURE_FORMATS = [Der, CompactRS]"

definition p256Verifies :: "'s p256 \<Rightarrow> bytes \<Rightarrow> bytes \<Rightarrow> bytes \<Rightarrow> bool" where
  "p256Verifies P signature message publicKey =
     list_ex (\<lambda>format. p_verify P format signature message publicKey = Inr True) SIGNATURE_FORMATS"

definition base64UrlNoPad :: "kit \<Rightarrow> bytes \<Rightarrow> string" where
  "base64UrlNoPad K b =
     (let s = map (\<lambda>c. if c = CHR ''+'' then CHR ''-'' else if c = CHR ''/'' then CHR ''_'' else c) (k_base64 K b)
      in rev (dropWhile (\<lambda>c. c = CHR ''='') (rev s)))"

definition assertionDigest :: "kit \<Rightarrow> ownership_proof \<Rightarrow> string \<Rightarrow> bytes option result" where
  "assertionDigest K pf rpId =
     (if length (op_challenge pf) < 16 then Inr None
      else
        rbind (JSON_parse (text_decode (op_clientDataJson pf))) (\<lambda>clientData.
        rbind (json_get clientData ''type'') (\<lambda>ty.
        if ty \<noteq> Some (JStr ''webauthn.get'') then Inr None
        else rbind (json_get clientData ''challenge'') (\<lambda>ch.
        if ch \<noteq> Some (JStr (base64UrlNoPad K (op_challenge pf))) then Inr None
        else let authData = op_authenticatorData pf in
          if length authData < 37 then Inr None
          else if \<not> bytesEqual (u8_slice authData 0 32) (k_sha256 K (utf8 rpId)) then Inr None
          else if authData ! 32 AND 0x01 = 0 then Inr None
          else Inr (Some (k_sha256 K (authData @ k_sha256 K (op_clientDataJson pf))))))))"

definition verifyOwnershipProof ::
  "kit \<Rightarrow> 's p256 \<Rightarrow> 'a passkey_wallet_candidate_scheme list \<Rightarrow> ownership_proof \<Rightarrow> string
   \<Rightarrow> 'a passkey_wallet_candidate_scheme list" where
  "verifyOwnershipProof K P candidates pf rpId =
     (case assertionDigest K pf rpId of
        Inr (Some digest) \<Rightarrow> filter (\<lambda>c. p256Verifies P (op_signature pf) digest (c_publicKey c)) candidates
      | _ \<Rightarrow> [])"

definition add_recovered ::
  "'s p256 \<Rightarrow> bytes \<Rightarrow> bytes \<Rightarrow> 's \<Rightarrow> nat \<Rightarrow> bytes list \<Rightarrow> bytes list" where
  "add_recovered P signature digest s recovery keys =
     (case p_recover P s recovery digest of
        Inl _ \<Rightarrow> keys
      | Inr key \<Rightarrow>
          if length key \<noteq> 33 then keys
          else if \<not> p256Verifies P signature digest key then keys
          else if list_ex (\<lambda>k. bytesEqual k key) keys then keys else keys @ [key])"

definition recoverPasskeyPublicKeys :: "kit \<Rightarrow> 's p256 \<Rightarrow> ownership_proof \<Rightarrow> string \<Rightarrow> bytes list" where
  "recoverPasskeyPublicKeys K P pf rpId =
     (case assertionDigest K pf rpId of
        Inr (Some digest) \<Rightarrow>
          fold (\<lambda>format keys. case p_fromBytes P format (op_signature pf) of
              Inl _ \<Rightarrow> keys
            | Inr s \<Rightarrow> fold (add_recovered P (op_signature pf) digest s) [0, 1, 2, 3] keys) SIGNATURE_FORMATS []
      | _ \<Rightarrow> [])"

fun repeats_challenge :: "ownership_proof list \<Rightarrow> bool" where
  "repeats_challenge [] = False"
| "repeats_challenge (p # ps) = (list_ex (\<lambda>q. bytesEqual (op_challenge p) (op_challenge q)) ps \<or> repeats_challenge ps)"

definition resolvePasskeyPublicKey :: "kit \<Rightarrow> 's p256 \<Rightarrow> ownership_proof list \<Rightarrow> string \<Rightarrow> bytes option" where
  "resolvePasskeyPublicKey K P proofs rpId =
     (if length proofs < 2 then None
      else if repeats_challenge proofs then None
      else let common = fold (\<lambda>pf common.
                 let keys = recoverPasskeyPublicKeys K P pf rpId
                 in filter (\<lambda>c. list_ex (\<lambda>k. bytesEqual k c) keys) common)
               (tl proofs) (recoverPasskeyPublicKeys K P (hd proofs) rpId)
           in if length common = 1 then Some (common ! 0) else None)"

text \<open>Every recovered key verifies, each once; the resolved one verifies every proof.\<close>

lemma fold_invariant: "P a \<Longrightarrow> (\<And>x a. P a \<Longrightarrow> P (f x a)) \<Longrightarrow> P (fold f xs a)"
  by (induction xs arbitrary: a) auto

lemma recovered_verify:
  assumes "k \<in> set (recoverPasskeyPublicKeys K P pf rpId)"
  obtains digest where "assertionDigest K pf rpId = Inr (Some digest)" "p256Verifies P (op_signature pf) digest k" "length k = 33"
proof -
  obtain digest where d: "assertionDigest K pf rpId = Inr (Some digest)"
    using assms by (auto simp: recoverPasskeyPublicKeys_def split: sum.splits option.splits) metis
  let ?V = "\<lambda>keys. \<forall>k \<in> set keys. p256Verifies P (op_signature pf) digest k \<and> length k = 33"
  have step: "?V (add_recovered P (op_signature pf) digest s r keys)" if "?V keys" for s r keys
    using that by (auto simp: add_recovered_def split: sum.splits)
  have "?V (recoverPasskeyPublicKeys K P pf rpId)"
    unfolding recoverPasskeyPublicKeys_def d
    by (simp, rule fold_invariant [where P = ?V], simp)
      (auto split: sum.split intro!: fold_invariant [where P = ?V] step simp del: fold_simps)
  then show thesis using that d assms by blast
qed

lemma verifyOwnershipProof_single:
  "assertionDigest K pf rpId = Inr (Some digest) \<Longrightarrow> p256Verifies P (op_signature pf) digest k
    \<Longrightarrow> verifyOwnershipProof K P [c\<lparr>c_publicKey := k\<rparr>] pf rpId = [c\<lparr>c_publicKey := k\<rparr>]"
  by (simp add: verifyOwnershipProof_def)

lemma resolve_sound:
  assumes "resolvePasskeyPublicKey K P proofs rpId = Some k"
  shows "2 \<le> length proofs \<and> \<not> repeats_challenge proofs
    \<and> (\<forall>pf \<in> set proofs. verifyOwnershipProof K P [c\<lparr>c_publicKey := k\<rparr>] pf rpId = [c\<lparr>c_publicKey := k\<rparr>])"
proof -
  have two: "2 \<le> length proofs" "\<not> repeats_challenge proofs"
    using assms by (auto simp: resolvePasskeyPublicKey_def split: if_splits)
  then obtain p ps where ps: "proofs = p # ps" by (cases proofs) auto
  let ?R = "\<lambda>pf. recoverPasskeyPublicKeys K P pf rpId"
  have sub: "set (fold (\<lambda>pf common. filter (\<lambda>c. list_ex (\<lambda>k. bytesEqual k c) (?R pf)) common) qs start)
      \<subseteq> set start \<inter> (\<Inter>q \<in> set qs. set (?R q))" for qs start
  proof (induction qs arbitrary: start)
    case (Cons q qs)
    show ?case using Cons [of "filter (\<lambda>c. list_ex (\<lambda>k. bytesEqual k c) (?R q)) start"] by (auto simp: list_ex_iff)
  qed simp
  have "k \<in> set (fold (\<lambda>pf common. filter (\<lambda>c. list_ex (\<lambda>k. bytesEqual k c) (?R pf)) common) ps (?R p))"
    using assms two ps by (auto simp: resolvePasskeyPublicKey_def Let_def split: if_splits)
  then have "\<forall>pf \<in> set proofs. k \<in> set (?R pf)" using sub ps by fastforce
  then have "\<forall>pf \<in> set proofs. verifyOwnershipProof K P [c\<lparr>c_publicKey := k\<rparr>] pf rpId = [c\<lparr>c_publicKey := k\<rparr>]"
    by (metis (no_types, lifting) recovered_verify verifyOwnershipProof_single)
  with two show ?thesis by blast
qed

section \<open>Domains\<close>

lemma signedMessageChallenge_eq:
  assumes "sha256_32 K"
  shows "signedMessageChallenge K m = Inr (utf8 SIGNED_MESSAGE_DOMAIN @ k_sha256 K (utf8 SIGNED_MESSAGE_DOMAIN @ messageBytes m))"
  using sha256_length [OF assms] by (simp add: signedMessageChallenge_def Let_def u8_set_zeros u8_set_fill)

lemma createTaggedOwnershipChallenge_eq:
  assumes "\<And>n. length (random n) = n"
  shows "createTaggedOwnershipChallenge random = Inr (utf8 OWNERSHIP_PROOF_DOMAIN @ random 32)"
  using assms by (simp add: createTaggedOwnershipChallenge_def OWNERSHIP_PROOF_NONCE_LENGTH_def Let_def u8_set_zeros u8_set_fill)



end
