(* ===== verification/Discovery.thy ===== *)
theory Discovery
  imports ChallengeReads V1Tokens Ownership
begin

text \<open>
  Finding a passkey's wallets and everything that can spend from them: the discovery methods of the
  \<open>LazorKit\<close> class and the helpers above it in \<open>client.ts\<close>. Reads run side by side in the code are
  made in the order it lists them; where several fail, the first in that order is the error.
\<close>

section \<open>Helpers\<close>

record ownership_discs =
  od_wallet :: byte
  od_authority :: byte
  od_session :: byte
  od_deferred :: byte

definition OWNERSHIP_DISCS :: "int \<Rightarrow> ownership_discs" where
  "OWNERSHIP_DISCS version =
     (if version = 1 then \<lparr>od_wallet = V1_DISC_WALLET, od_authority = V1_DISC_AUTHORITY,
        od_session = V1_DISC_SESSION, od_deferred = V1_DISC_DEFERRED_EXEC\<rparr>
      else \<lparr>od_wallet = ACCOUNT_DISCRIMINATOR WALLET, od_authority = ACCOUNT_DISCRIMINATOR AUTHORITY,
        od_session = ACCOUNT_DISCRIMINATOR SESSION, od_deferred = ACCOUNT_DISCRIMINATOR DEFERRED_EXEC\<rparr>)"

definition WATCHED_MINTS :: "address list" where
  "WATCHED_MINTS = [''So11111111111111111111111111111111111111112'', ''EPjFWdd5AufqSSqeM2qN1xzybapC8G4wEGGkZwyTDt1v'',
     ''Es9vMFrzaCERmJfrF4H2FYD4KCoNkY11McCe8BenwNYB'', ''4zMMC9srt5Ri5X14GAgXhaHii3GnPAEERYPJgZJDncDU'']"

text \<open>\<open>address(s)\<close> of the package: the text itself, or a throw.\<close>

definition check_address :: "kit \<Rightarrow> string \<Rightarrow> address result" where
  "check_address K s = (if k_isAddress K s then Inr s else Inl (LibError ''ADDRESSES__INVALID_BASE58_ENCODED_ADDRESS''))"

definition watchedMints :: "kit \<Rightarrow> string list \<Rightarrow> address list result" where
  "watchedMints K extra =
     rbind (rmap (check_address K) extra) (\<lambda>ms.
     Inr (fold (\<lambda>m mints. if m \<in> set mints then mints else mints @ [m]) ms WATCHED_MINTS))"

definition TOKEN_DELEGATE :: nat where "TOKEN_DELEGATE = 72"
definition TOKEN_CLOSE_AUTHORITY :: nat where "TOKEN_CLOSE_AUTHORITY = 129"
definition TOKEN_ACCOUNT_LEN :: nat where "TOKEN_ACCOUNT_LEN = 165"

text \<open>\<open>readU32\<close> and \<open>readU64\<close> where the length has been checked.\<close>

definition uint_at :: "nat \<Rightarrow> bytes \<Rightarrow> nat \<Rightarrow> int" where
  "uint_at w data off = le_val (u8_slice data off (off + w))"

definition unreadableGrant :: "address \<Rightarrow> address \<Rightarrow> token_grant" where
  "unreadableGrant tokenAccount tokenProgram =
     \<lparr>tg_tokenAccount = tokenAccount, tg_tokenProgram = tokenProgram, tg_mint = None, tg_kind = Unreadable,
      tg_grantee = None, tg_trusted = False\<rparr>"

definition grants_of_account :: "kit \<Rightarrow> address \<Rightarrow> address \<Rightarrow> string set \<Rightarrow> row \<Rightarrow> token_grant list" where
  "grants_of_account K tokenProgram vault trustedKeys r = (case r of (pubkey, data) \<Rightarrow>
     if length data < TOKEN_ACCOUNT_LEN then [unreadableGrant pubkey tokenProgram]
     else concat (map (\<lambda>(kind, off).
       if uint_at 4 data off = 0 then []
       else let grantee = k_decAddr K (u8_slice data (off + 4) (off + 36)) in
         if grantee = vault then []
         else [\<lparr>tg_tokenAccount = pubkey, tg_tokenProgram = tokenProgram, tg_mint = Some (k_decAddr K (u8_slice data 0 32)),
                tg_kind = kind, tg_grantee = Some grantee, tg_trusted = (grantee \<in> trustedKeys)\<rparr>])
       [(Delegate, TOKEN_DELEGATE), (CloseAuthority, TOKEN_CLOSE_AUTHORITY)]))"

definition grantsOn :: "kit \<Rightarrow> row list \<Rightarrow> address \<Rightarrow> address \<Rightarrow> string set \<Rightarrow> token_grant list" where
  "grantsOn K accounts tokenProgram vault trustedKeys =
     concat (map (grants_of_account K tokenProgram vault trustedKeys) accounts)"

definition watchedAtasOf :: "kit \<Rightarrow> address \<Rightarrow> address list \<Rightarrow> address list result" where
  "watchedAtasOf K vault mints = rmap (\<lambda>mint. getAssociatedTokenAddress K mint vault TOKEN_PROGRAM_ADDRESS) mints"

definition grants_of_watched :: "kit \<Rightarrow> address \<Rightarrow> string set \<Rightarrow> address \<times> address \<times> account option \<Rightarrow> token_grant list" where
  "grants_of_watched K vault trustedKeys w = (case w of (ata, mint, info) \<Rightarrow>
     (case info of
        None \<Rightarrow> []
      | Some i \<Rightarrow>
          if ac_owner i \<noteq> TOKEN_PROGRAM_ADDRESS then []
          else if length (ac_data i) < 64 then [unreadableGrant ata TOKEN_PROGRAM_ADDRESS]
          else let owner = k_decAddr K (u8_slice (ac_data i) 32 64) in
            if owner = vault then []
            else [\<lparr>tg_tokenAccount = ata, tg_tokenProgram = TOKEN_PROGRAM_ADDRESS, tg_mint = Some mint,
                   tg_kind = Owner, tg_grantee = Some owner, tg_trusted = (owner \<in> trustedKeys)\<rparr>]))"

definition vaultTokenGrants ::
  "kit \<Rightarrow> address \<Rightarrow> row list \<Rightarrow> row list \<Rightarrow> (address \<times> address \<times> account option) list \<Rightarrow> string set
   \<Rightarrow> token_grant list" where
  "vaultTokenGrants K vault spl token2022 watched trustedKeys =
     grantsOn K spl TOKEN_PROGRAM_ADDRESS vault trustedKeys
     @ grantsOn K token2022 TOKEN_2022_PROGRAM_ADDRESS vault trustedKeys
     @ concat (map (grants_of_watched K vault trustedKeys) watched)"

text \<open>The phrases keep their fixed part.\<close>

fun grantPhrase :: "grant_kind \<Rightarrow> string" where
  "grantPhrase Delegate = ''has a delegate''"
| "grantPhrase CloseAuthority = ''has a close authority other than the vault''"
| "grantPhrase Owner = ''(the vault's own account for a mint) belongs to another owner''"
| "grantPhrase Unreadable = ''cannot be read as a token account''"

definition destinationTokenAccountProblem ::
  "kit \<Rightarrow> address \<Rightarrow> account \<Rightarrow> address \<Rightarrow> address \<Rightarrow> string option" where
  "destinationTokenAccountProblem K dest info tokenProgram vault =
     (if ac_owner info \<noteq> tokenProgram then Some ''is owned by another program''
      else if length (ac_data info) < TOKEN_ACCOUNT_LEN then Some ''cannot be read as a token account''
      else if k_decAddr K (u8_slice (ac_data info) 32 64) \<noteq> vault then Some ''belongs to another owner, not the v2 vault''
      else case grantsOn K [(dest, ac_data info)] tokenProgram vault {} of
        [] \<Rightarrow> None | grant # _ \<Rightarrow> Some (grantPhrase (tg_kind grant)))"

definition isSystemAccount :: "account option \<Rightarrow> bool" where
  "isSystemAccount info = (case info of None \<Rightarrow> True
     | Some i \<Rightarrow> ac_owner i = SYSTEM_PROGRAM_ADDRESS \<and> ac_data i = [])"

definition isLiveWallet :: "address \<Rightarrow> int \<Rightarrow> account option \<Rightarrow> bool" where
  "isLiveWallet programId version info = (case info of None \<Rightarrow> False
     | Some i \<Rightarrow> ac_owner i = programId \<and> length (ac_data i) > 0
         \<and> ac_data i ! 0 = od_wallet (OWNERSHIP_DISCS version))"

definition U64_MAX :: int where "U64_MAX = 0xffffffffffffffff"

definition roleName :: "byte option \<Rightarrow> authority_role_name" where
  "roleName role = (if role = Some 0 then Role_owner else if role = Some 1 then Role_admin
     else if role = Some 2 then Role_spender else Role_unknown)"

definition ZERO_ADDRESS :: address where "ZERO_ADDRESS = ''11111111111111111111111111111111''"

text \<open>Attempts are numbered from 1; the pause between them is not modelled.\<close>

function retry_slot :: "(nat \<Rightarrow> 'a result) \<Rightarrow> nat \<Rightarrow> 'a result" where
  "retry_slot read attempt = (case read attempt of
     Inr x \<Rightarrow> Inr x
   | Inl e \<Rightarrow> if attempt \<ge> 5 \<or> e \<noteq> SLOT_NOT_REACHED then Inl e else retry_slot read (Suc attempt))"
  by pat_completeness auto
termination by (relation "measure (\<lambda>(_, n). 5 - n)") auto

declare retry_slot.simps [simp del]

definition atOrAfterSlot :: "(nat \<Rightarrow> 'a result) \<Rightarrow> 'a result" where
  "atOrAfterSlot read = retry_slot read 1"

definition maxSlot :: "int list \<Rightarrow> int" where
  "maxSlot slots = foldl (\<lambda>a b. if a > b then a else b) (hd slots) (tl slots)"

text \<open>\<open>mapBounded\<close> bounds what is in flight; the results are in the order of the items.\<close>

definition mapBounded :: "'a list \<Rightarrow> nat \<Rightarrow> ('a \<Rightarrow> 'b result) \<Rightarrow> 'b list result" where
  "mapBounded items limit fn = rmap fn items"

section \<open>Reads\<close>

definition readAccounts :: "node_rpc \<Rightarrow> address list \<Rightarrow> int option \<Rightarrow> (int \<times> account option list) result" where
  "readAccounts rpc addresses minContextSlot =
     rbind (rmap (\<lambda>page. atOrAfterSlot (nr_multiple rpc page minContextSlot)) (pages addresses)) (\<lambda>parts.
     Inr (fold (\<lambda>p slot. maxSlot [slot, fst p]) parts (case minContextSlot of Some m \<Rightarrow> m | None \<Rightarrow> 0),
          concat (map snd parts)))"

definition scanWalletAccounts ::
  "kit \<Rightarrow> node_rpc \<Rightarrow> address \<Rightarrow> address \<Rightarrow> byte \<Rightarrow> nat \<Rightarrow> int option \<Rightarrow> (int \<times> row list) result" where
  "scanWalletAccounts K rpc programId wallet disc walletOffset minContextSlot =
     atOrAfterSlot (nr_scan rpc programId [(0, [disc]), (walletOffset, k_encAddr K wallet)] minContextSlot)"

definition readVaultTokenAccounts ::
  "node_rpc \<Rightarrow> address \<Rightarrow> int option \<Rightarrow> (int \<times> row list \<times> row list) result" where
  "readVaultTokenAccounts rpc vault minContextSlot =
     rbind (atOrAfterSlot (nr_tokens rpc vault TOKEN_PROGRAM_ADDRESS minContextSlot)) (\<lambda>(s1, spl).
     rbind (atOrAfterSlot (nr_tokens rpc vault TOKEN_2022_PROGRAM_ADDRESS minContextSlot)) (\<lambda>(s2, token2022).
     Inr (maxSlot [s1, s2], spl, token2022)))"

record spending_state =
  ss_authorities :: "row list"
  ss_sessions :: "row list"
  ss_deferred :: "row list"
  ss_infos :: "account option list"
  ss_spl :: "row list"
  ss_token2022 :: "row list"
  ss_slot :: int

definition info_at :: "account option list \<Rightarrow> nat \<Rightarrow> account option" where
  "info_at infos i = (if i < length infos then infos ! i else None)"

definition readSpendingState ::
  "kit \<Rightarrow> node_rpc \<Rightarrow> address \<Rightarrow> address \<Rightarrow> address \<Rightarrow> ownership_discs \<Rightarrow> address list \<Rightarrow> spending_state result" where
  "readSpendingState K rpc programId wallet vault discs accounts =
     (let scan = scanWalletAccounts K rpc programId wallet in
      rbind (scan (od_authority discs) 16 None) (\<lambda>(authSlot, authorities).
      rbind (scan (od_session discs) 8 (Some authSlot)) (\<lambda>(sessSlot, sessions).
      rbind (scan (od_deferred discs) 72 (Some authSlot)) (\<lambda>(defSlot, deferred).
      let after = maxSlot [sessSlot, defSlot] in
      rbind (readAccounts rpc accounts (Some after)) (\<lambda>(accSlot, infos).
      rbind (readVaultTokenAccounts rpc vault (Some after)) (\<lambda>(tokSlot, spl, token2022).
      Inr \<lparr>ss_authorities = authorities, ss_sessions = sessions, ss_deferred = deferred,
           ss_infos = map (info_at infos) [0..<length accounts], ss_spl = spl, ss_token2022 = token2022,
           ss_slot = maxSlot [accSlot, tokSlot]\<rparr>))))))"

section \<open>Facts\<close>

definition own_intact :: "'a passkey_wallet_candidate_scheme \<Rightarrow> bytes \<Rightarrow> bool" where
  "own_intact c own \<longleftrightarrow> length own \<ge> 145 \<and> u8_at own 1 = Some (word_of_int AUTH_TYPE_SECP256R1)
     \<and> u8_at own 2 = Some (word_of_int ROLE_OWNER) \<and> bytesEqual (u8_slice own 80 113) (c_publicKey c)"

definition other_authority_of :: "kit \<Rightarrow> string set \<Rightarrow> bytes option \<Rightarrow> row \<Rightarrow> other_authority" where
  "other_authority_of K trustedKeys ownRpIdHash r = (case r of (pubkey, data) \<Rightarrow>
     if u8_at data 1 = Some (word_of_int AUTH_TYPE_ED25519) then
       let publicKey = (if length data \<ge> 80 then Some (k_decAddr K (u8_slice data 48 80)) else None) in
       \<lparr>oa_authorityPda = pubkey, oa_type = Ed25519, oa_role = roleName (u8_at data 2), oa_publicKey = publicKey,
        oa_sameRelyingParty = None,
        oa_trusted = (case publicKey of Some k \<Rightarrow> k \<in> trustedKeys | None \<Rightarrow> False)\<rparr>
     else
       \<lparr>oa_authorityPda = pubkey, oa_type = Secp256r1, oa_role = roleName (u8_at data 2), oa_publicKey = None,
        oa_sameRelyingParty = Some (case ownRpIdHash of None \<Rightarrow> False
          | Some h \<Rightarrow> length data \<ge> 145 \<and> bytesEqual (u8_slice data 113 145) h),
        oa_trusted = False\<rparr>)"

definition live_session_of :: "kit \<Rightarrow> string set \<Rightarrow> int \<Rightarrow> row \<Rightarrow> live_session list" where
  "live_session_of K trustedKeys slot r = (case r of (pubkey, data) \<Rightarrow>
     let readable = length data \<ge> 80;
         expiresAtSlot = (if readable then uint_at 8 data 72 else U64_MAX) in
     if expiresAtSlot < slot then []
     else let sessionKey = (if readable then k_decAddr K (u8_slice data 40 72) else ZERO_ADDRESS) in
       [\<lparr>ls_sessionPda = pubkey, ls_sessionKey = sessionKey, ls_expiresAtSlot = expiresAtSlot,
         ls_trusted = (readable \<and> sessionKey \<in> trustedKeys)\<rparr>])"

definition pending_deferred_of :: "kit \<Rightarrow> int \<Rightarrow> row \<Rightarrow> pending_deferred list" where
  "pending_deferred_of K slot r = (case r of (pubkey, data) \<Rightarrow>
     let readable = length data \<ge> 176;
         expiresAtSlot = (if readable then uint_at 8 data 168 else U64_MAX) in
     if expiresAtSlot < slot then []
     else [\<lparr>pd_deferredPda = pubkey,
            pd_authorizedBy = (if readable then k_decAddr K (u8_slice data 104 136) else ZERO_ADDRESS),
            pd_expiresAtSlot = expiresAtSlot, pd_trusted = False\<rparr>])"

definition describeCandidate ::
  "kit \<Rightarrow> node_rpc \<Rightarrow> passkey_wallet_candidate \<Rightarrow> int \<Rightarrow> string set \<Rightarrow> address list \<Rightarrow> wallet_facts option result" where
  "describeCandidate K rpc c slot trustedKeys mints =
     rbind (watchedAtasOf K (c_vaultPda c) mints) (\<lambda>atas.
     rbind (readSpendingState K rpc (c_programId c) (c_walletPda c) (c_vaultPda c) (OWNERSHIP_DISCS (c_version c))
              (c_walletPda c # c_vaultPda c # atas)) (\<lambda>s.
     let walletInfo = info_at (ss_infos s) 0; vaultInfo = info_at (ss_infos s) 1; ataInfos = drop 2 (ss_infos s) in
     if \<not> isLiveWallet (c_programId c) (c_version c) walletInfo then Inr None
     else
       let vaultIsSystemAccount = isSystemAccount vaultInfo;
           own = map_of (ss_authorities s) (c_authorityPda c);
           ownIntact = (case own of None \<Rightarrow> False | Some d \<Rightarrow> own_intact c d);
           ownRpIdHash = (case own of None \<Rightarrow> None | Some d \<Rightarrow> if length d \<ge> 145 then Some (u8_slice d 113 145) else None);
           otherAuthorities = map (other_authority_of K trustedKeys ownRpIdHash)
             (filter (\<lambda>r. fst r \<noteq> c_authorityPda c) (ss_authorities s));
           liveSessions = concat (map (live_session_of K trustedKeys slot) (ss_sessions s));
           pendingDeferred = concat (map (pending_deferred_of K slot) (ss_deferred s));
           tokenGrants = vaultTokenGrants K (c_vaultPda c) (ss_spl s) (ss_token2022 s)
             (map (\<lambda>i. (atas ! i, mints ! i, info_at ataInfos i)) [0..<length atas]) trustedKeys
       in Inr (Some (\<lparr>c_version = c_version c, c_programId = c_programId c, c_walletPda = c_walletPda c,
              c_vaultPda = c_vaultPda c, c_authorityPda = c_authorityPda c, c_publicKey = c_publicKey c,
              wf_lamports = (case vaultInfo of Some v \<Rightarrow> ac_lamports v | None \<Rightarrow> 0), wf_slot = slot,
              wf_otherAuthorities = otherAuthorities, wf_liveSessions = liveSessions,
              wf_pendingDeferred = pendingDeferred, wf_vaultIsSystemAccount = vaultIsSystemAccount,
              wf_tokenGrants = tokenGrants,
              wf_controlledAlone = (ownIntact \<and> vaultIsSystemAccount \<and> list_all oa_trusted otherAuthorities
                \<and> list_all ls_trusted liveSessions \<and> list_all pd_trusted pendingDeferred
                \<and> list_all tg_trusted tokenGrants),
              wf_signatureCount = (if ownIntact then uint_at 4 (the own) 8 else 0)\<rparr>))))"

definition describeWalletCandidates ::
  "kit \<Rightarrow> node_rpc \<Rightarrow> passkey_wallet_candidate list \<Rightarrow> string list \<Rightarrow> string list \<Rightarrow> wallet_facts list result" where
  "describeWalletCandidates K rpc candidates trustedKeys watchMints =
     rbind (rmap (check_address K) trustedKeys) (\<lambda>trusted.
     rbind (watchedMints K watchMints) (\<lambda>mints.
     if candidates = [] then Inr []
     else
       rbind (nr_getSlot rpc) (\<lambda>slot.
       rbind (readAccounts rpc (map c_walletPda candidates) None) (\<lambda>(_, wallets).
       let live = map fst (filter (\<lambda>(c, i). isLiveWallet (c_programId c) (c_version c) (info_at wallets i))
                    (zip candidates [0..<length candidates])) in
       rbind (mapBounded live 4 (\<lambda>c. describeCandidate K rpc c slot (set trusted) mints)) (\<lambda>described.
       Inr (List.map_filter id described))))))"

section \<open>Candidates\<close>

definition candidate_of ::
  "kit \<Rightarrow> int \<Rightarrow> address \<Rightarrow> row \<Rightarrow> passkey_wallet_candidate list result" where
  "candidate_of K version programId r = (case r of (pubkey, data) \<Rightarrow>
     if length data < 145 \<or> u8_at data 2 \<noteq> Some (word_of_int ROLE_OWNER) then Inr []
     else
       rbind (addressFromBytes K (u8_slice data 16 48)) (\<lambda>walletPda.
       rbind (if version = 2 then findVaultPda K walletPda programId else findV1VaultPda K walletPda programId)
         (\<lambda>(vaultPda, _).
       Inr [\<lparr>c_version = version, c_programId = programId, c_walletPda = walletPda, c_vaultPda = vaultPda,
             c_authorityPda = pubkey, c_publicKey = u8_slice data 80 113\<rparr>])))"

definition scan_candidates ::
  "kit \<Rightarrow> node_rpc \<Rightarrow> bytes \<Rightarrow> string \<Rightarrow> int \<Rightarrow> address \<Rightarrow> passkey_wallet_candidate list result" where
  "scan_candidates K rpc credentialIdHash rpId version programId =
     rbind (nr_programAccounts rpc programId
              [(0, [od_authority (OWNERSHIP_DISCS version), word_of_int AUTH_TYPE_SECP256R1]),
               (48, credentialIdHash), (113, k_sha256 K (utf8 rpId))]) (\<lambda>accounts.
     rbind (rmap (candidate_of K version programId) accounts) (\<lambda>parts. Inr (concat parts)))"

definition findPasskeyWalletCandidates ::
  "kit \<Rightarrow> node_rpc \<Rightarrow> address \<Rightarrow> bytes \<Rightarrow> string \<Rightarrow> bool option \<Rightarrow> passkey_wallet_candidate list result" where
  "findPasskeyWalletCandidates K rpc programId credentialIdHash rpId includeV1 =
     rbind (assertByteLength credentialIdHash 32 ''credentialIdHash'') (\<lambda>_.
     rbind (scan_candidates K rpc credentialIdHash rpId 2 programId) (\<lambda>v2.
     rbind (if includeV1 = Some False then Inr []
            else scan_candidates K rpc credentialIdHash rpId 1 (legacyProgramIdFor programId)) (\<lambda>v1.
     Inr (v2 @ v1))))"

record wallet_authority_record =
  war_walletPda :: address
  war_authorityPda :: address
  war_vaultPda :: address
  war_role :: "byte option"
  war_authorityType :: "byte option"

definition findWalletsByAuthority ::
  "kit \<Rightarrow> node_rpc \<Rightarrow> address \<Rightarrow> bytes \<Rightarrow> bool \<Rightarrow> wallet_authority_record list result" where
  "findWalletsByAuthority K rpc programId credential ed25519 =
     rbind (assertByteLength credential 32 ''credential'') (\<lambda>_.
     rbind (nr_programAccounts rpc programId
              [(0, u8_of [uint (ACCOUNT_DISCRIMINATOR AUTHORITY), if ed25519 then AUTH_TYPE_ED25519 else AUTH_TYPE_SECP256R1]),
               (48, credential)]) (\<lambda>accounts.
     rmap (\<lambda>(pubkey, data).
       rbind (addressFromBytes K (u8_slice data 16 48)) (\<lambda>walletPda.
       rbind (findVaultPda K walletPda programId) (\<lambda>(vaultPda, _).
       Inr \<lparr>war_walletPda = walletPda, war_authorityPda = pubkey, war_vaultPda = vaultPda,
            war_role = u8_at data 2, war_authorityType = u8_at data 1\<rparr>))) accounts))"

record own_passkey_wallet =
  ow_adopt :: "wallet_facts option"
  ow_needsConfirmation :: "wallet_facts list"
  ow_unproven :: nat

definition findOwnPasskeyWallet ::
  "kit \<Rightarrow> 's p256 \<Rightarrow> node_rpc \<Rightarrow> address \<Rightarrow> bytes \<Rightarrow> string \<Rightarrow> ownership_proof \<Rightarrow> string list \<Rightarrow> string list
   \<Rightarrow> bool option \<Rightarrow> own_passkey_wallet result" where
  "findOwnPasskeyWallet K P rpc programId credentialIdHash rpId pf trustedKeys watchMints includeV1 =
     rbind (findPasskeyWalletCandidates K rpc programId credentialIdHash rpId includeV1) (\<lambda>candidates.
     let proven = verifyOwnershipProof K P candidates pf rpId;
         unproven = length candidates - length proven in
     if proven = [] then Inr \<lparr>ow_adopt = None, ow_needsConfirmation = [], ow_unproven = unproven\<rparr>
     else
       rbind (describeWalletCandidates K rpc proven trustedKeys watchMints) (\<lambda>facts.
       case pickOwnWallet facts of (adopt, needsConfirmation) \<Rightarrow>
       Inr \<lparr>ow_adopt = adopt, ow_needsConfirmation = needsConfirmation, ow_unproven = unproven\<rparr>))"

end
