(* ===== verification/SpendingState.thy ===== *)
theory SpendingState
  imports Discovery
begin

text \<open>
  Why the order of the reads in \<open>readSpendingState\<close> is enough. The chain is a function from slots to
  accounts; the reads of one candidate are answered at several slots, and transactions land in
  between. What untrusted keys hold over a wallet changes only by what they already hold: an
  authority can make anything, a session or a deferred execution can make the vault sign, nothing
  else makes power. A wallet described as controlled alone is then free of untrusted power at the
  slot of the newest read.
\<close>

section \<open>The chain and its nodes\<close>

type_synonym chain = "int \<Rightarrow> address \<Rightarrow> account option"

definition memcmp_ok :: "memcmp list \<Rightarrow> bytes \<Rightarrow> bool" where
  "memcmp_ok filters data = list_all (\<lambda>(off, bs). take (length bs) (drop off data) = bs) filters"

definition at_floor :: "int option \<Rightarrow> int \<Rightarrow> bool" where
  "at_floor m slot = (case m of None \<Rightarrow> True | Some k \<Rightarrow> k \<le> slot)"

text \<open>Each pinned read answers, completely, from one state at or past its floor.\<close>

definition answers_from :: "kit \<Rightarrow> chain \<Rightarrow> node_rpc \<Rightarrow> bool" where
  "answers_from K chain rpc \<longleftrightarrow>
     (\<forall>p fs m n slot rows. nr_scan rpc p fs m n = Inr (slot, rows) \<longrightarrow>
        at_floor m slot \<and> distinct (map fst rows) \<and>
        (\<forall>a d. (a, d) \<in> set rows \<longleftrightarrow> (\<exists>i. chain slot a = Some i \<and> ac_owner i = p \<and> ac_data i = d \<and> memcmp_ok fs d))) \<and>
     (\<forall>as m n slot infos. nr_multiple rpc as m n = Inr (slot, infos) \<longrightarrow> at_floor m slot \<and> infos = map (chain slot) as) \<and>
     (\<forall>v p m n slot rows. nr_tokens rpc v p m n = Inr (slot, rows) \<longrightarrow>
        at_floor m slot \<and>
        (\<forall>a d. (a, d) \<in> set rows \<longleftrightarrow> (\<exists>i. chain slot a = Some i \<and> ac_owner i = p \<and> ac_data i = d
          \<and> u8_slice d 32 64 = k_encAddr K v)))"

section \<open>Untrusted power\<close>

datatype power_site = S_authority | S_session | S_deferred | S_vault | S_owned address | S_watched address

text \<open>
  Who holds power, read off the bytes of an account: an authority is harmless when it is the
  candidate's passkey, or an Ed25519 key that is trusted; a session or a deferred execution is open
  while its expiry is not past, and forever when it is too short to hold one; a token account gives
  power through its delegate, its close authority, or by belonging to another owner.
\<close>

definition is_own_key :: "bytes \<Rightarrow> bytes \<Rightarrow> bool" where
  "is_own_key key data \<longleftrightarrow> 145 \<le> length data \<and> data ! 1 = 1 \<and> data ! 2 = 0 \<and> take 33 (drop 80 data) = key"

definition is_trusted_key :: "kit \<Rightarrow> string set \<Rightarrow> bytes \<Rightarrow> bool" where
  "is_trusted_key K trusted data \<longleftrightarrow> 80 \<le> length data \<and> data ! 1 = 0 \<and> k_decAddr K (take 32 (drop 48 data)) \<in> trusted"

definition open_session :: "kit \<Rightarrow> string set \<Rightarrow> int \<Rightarrow> bytes \<Rightarrow> bool" where
  "open_session K trusted slot data \<longleftrightarrow>
     (if length data < 80 then slot < 2 ^ 64
      else slot \<le> le_val (take 8 (drop 72 data)) \<and> k_decAddr K (take 32 (drop 40 data)) \<notin> trusted)"

definition open_deferred :: "int \<Rightarrow> bytes \<Rightarrow> bool" where
  "open_deferred slot data \<longleftrightarrow>
     (if length data < 176 then slot < 2 ^ 64 else slot \<le> le_val (take 8 (drop 168 data)))"

definition names_stranger :: "kit \<Rightarrow> string set \<Rightarrow> address \<Rightarrow> nat \<Rightarrow> bytes \<Rightarrow> bool" where
  "names_stranger K trusted vault off data \<longleftrightarrow>
     le_val (take 4 (drop off data)) \<noteq> 0 \<and> k_decAddr K (take 32 (drop (off + 4) data)) \<notin> insert vault trusted"

definition open_token_account :: "kit \<Rightarrow> string set \<Rightarrow> address \<Rightarrow> bytes \<Rightarrow> bool" where
  "open_token_account K trusted vault data \<longleftrightarrow>
     length data < 165 \<or> names_stranger K trusted vault 72 data \<or> names_stranger K trusted vault 129 data"

definition foreign_ata :: "kit \<Rightarrow> string set \<Rightarrow> address \<Rightarrow> account \<Rightarrow> bool" where
  "foreign_ata K trusted vault i \<longleftrightarrow> ac_owner i = TOKEN_PROGRAM_ADDRESS
     \<and> (length (ac_data i) < 64 \<or> k_decAddr K (take 32 (drop 32 (ac_data i))) \<notin> insert vault trusted)"

text \<open>Where, at a slot, some key other than the candidate's own and the trusted ones holds power over the wallet.\<close>

fun untrusted_at ::
  "kit \<Rightarrow> 'a passkey_wallet_candidate_scheme \<Rightarrow> string set \<Rightarrow> int \<Rightarrow> chain \<Rightarrow> int \<Rightarrow> power_site \<Rightarrow> bool" where
  "untrusted_at K c trusted slot chain t S_authority =
     (\<exists>a i. chain t a = Some i \<and> ac_owner i = c_programId c
       \<and> memcmp_ok [(0, [od_authority (OWNERSHIP_DISCS (c_version c))]), (16, k_encAddr K (c_walletPda c))] (ac_data i)
       \<and> \<not> (if a = c_authorityPda c then is_own_key (c_publicKey c) (ac_data i) else is_trusted_key K trusted (ac_data i)))"
| "untrusted_at K c trusted slot chain t S_session =
     (\<exists>a i. chain t a = Some i \<and> ac_owner i = c_programId c
       \<and> memcmp_ok [(0, [od_session (OWNERSHIP_DISCS (c_version c))]), (8, k_encAddr K (c_walletPda c))] (ac_data i)
       \<and> open_session K trusted slot (ac_data i))"
| "untrusted_at K c trusted slot chain t S_deferred =
     (\<exists>a i. chain t a = Some i \<and> ac_owner i = c_programId c
       \<and> memcmp_ok [(0, [od_deferred (OWNERSHIP_DISCS (c_version c))]), (72, k_encAddr K (c_walletPda c))] (ac_data i)
       \<and> open_deferred slot (ac_data i))"
| "untrusted_at K c trusted slot chain t S_vault =
     (\<exists>i. chain t (c_vaultPda c) = Some i \<and> (ac_owner i \<noteq> SYSTEM_PROGRAM_ADDRESS \<or> ac_data i \<noteq> []))"
| "untrusted_at K c trusted slot chain t (S_owned p) =
     (\<exists>a i. chain t a = Some i \<and> ac_owner i = p \<and> u8_slice (ac_data i) 32 64 = k_encAddr K (c_vaultPda c)
       \<and> open_token_account K trusted (c_vaultPda c) (ac_data i))"
| "untrusted_at K c trusted slot chain t (S_watched ata) =
     (\<exists>i. chain t ata = Some i \<and> foreign_ata K trusted (c_vaultPda c) i)"

text \<open>The code's readings of the same bytes.\<close>

lemma own_key_code: "is_own_key (c_publicKey c) data \<longleftrightarrow> own_intact c data"
  by (auto simp: is_own_key_def own_intact_def u8_at_def u8_slice_def bytesEqual_iff AUTH_TYPE_SECP256R1_def ROLE_OWNER_def)

lemma trusted_key_code: "is_trusted_key K trusted data \<longleftrightarrow> oa_trusted (other_authority_of K trusted h (a, data))"
  by (auto simp: is_trusted_key_def other_authority_of_def u8_at_def u8_slice_def AUTH_TYPE_ED25519_def Let_def)

lemma open_session_code: "open_session K trusted slot data \<longleftrightarrow> \<not> list_all ls_trusted (live_session_of K trusted slot (a, data))"
  by (auto simp: open_session_def live_session_of_def uint_at_def u8_slice_def U64_MAX_def Let_def)

lemma open_deferred_code: "open_deferred slot data \<longleftrightarrow> pending_deferred_of K slot (a, data) \<noteq> []"
  by (auto simp: open_deferred_def pending_deferred_of_def uint_at_def u8_slice_def U64_MAX_def Let_def)

lemma open_token_account_code:
  "open_token_account K trusted vault data \<longleftrightarrow> \<not> list_all tg_trusted (grants_of_account K p vault trusted (a, data))"
  by (auto simp: open_token_account_def names_stranger_def grants_of_account_def uint_at_def u8_slice_def Let_def
      unreadableGrant_def TOKEN_ACCOUNT_LEN_def TOKEN_DELEGATE_def TOKEN_CLOSE_AUTHORITY_def)

lemma foreign_ata_code:
  "(\<exists>i. info = Some i \<and> foreign_ata K trusted vault i) \<longleftrightarrow> \<not> list_all tg_trusted (grants_of_watched K vault trusted (ata, mint, info))"
  by (auto simp: foreign_ata_def grants_of_watched_def unreadableGrant_def u8_slice_def Let_def split: option.splits)

lemma untrusted_at_code:
  "untrusted_at K c trusted slot chain t S_authority =
     (\<exists>a i. chain t a = Some i \<and> ac_owner i = c_programId c
       \<and> memcmp_ok [(0, [od_authority (OWNERSHIP_DISCS (c_version c))]), (16, k_encAddr K (c_walletPda c))] (ac_data i)
       \<and> \<not> (if a = c_authorityPda c then own_intact c (ac_data i)
            else oa_trusted (other_authority_of K trusted None (a, ac_data i))))"
  "untrusted_at K c trusted slot chain t S_session =
     (\<exists>a i. chain t a = Some i \<and> ac_owner i = c_programId c
       \<and> memcmp_ok [(0, [od_session (OWNERSHIP_DISCS (c_version c))]), (8, k_encAddr K (c_walletPda c))] (ac_data i)
       \<and> \<not> list_all ls_trusted (live_session_of K trusted slot (a, ac_data i)))"
  "untrusted_at K c trusted slot chain t S_deferred =
     (\<exists>a i. chain t a = Some i \<and> ac_owner i = c_programId c
       \<and> memcmp_ok [(0, [od_deferred (OWNERSHIP_DISCS (c_version c))]), (72, k_encAddr K (c_walletPda c))] (ac_data i)
       \<and> pending_deferred_of K slot (a, ac_data i) \<noteq> [])"
  "untrusted_at K c trusted slot chain t S_vault = (\<not> isSystemAccount (chain t (c_vaultPda c)))"
  "untrusted_at K c trusted slot chain t (S_owned p) =
     (\<exists>a i. chain t a = Some i \<and> ac_owner i = p \<and> u8_slice (ac_data i) 32 64 = k_encAddr K (c_vaultPda c)
       \<and> \<not> list_all tg_trusted (grants_of_account K p (c_vaultPda c) trusted (a, ac_data i)))"
  "untrusted_at K c trusted slot chain t (S_watched ata) =
     (\<not> list_all tg_trusted (grants_of_watched K (c_vaultPda c) trusted (ata, [], chain t ata)))"
  by (simp_all only: untrusted_at.simps flip: own_key_code trusted_key_code open_session_code open_deferred_code
        open_token_account_code foreign_ata_code)
     (auto simp: isSystemAccount_def split: option.splits)

declare untrusted_at.simps [simp del] untrusted_at_code [simp]

text \<open>
  One transaction, as far as untrusted power goes: power lapses, an untrusted authority does anything,
  or an untrusted session or deferred execution makes the vault sign. Trusted keys are those that
  hand no power to others.
\<close>

inductive moves :: "(power_site \<Rightarrow> bool) \<Rightarrow> (power_site \<Rightarrow> bool) \<Rightarrow> bool" where
  lapses: "(\<And>s. q s \<Longrightarrow> p s) \<Longrightarrow> moves p q"
| by_authority: "p S_authority \<Longrightarrow> moves p q"
| by_vault_signer: "p S_session \<or> p S_deferred \<Longrightarrow>
    (\<And>s. s \<in> {S_authority, S_session, S_deferred} \<Longrightarrow> q s \<Longrightarrow> p s) \<Longrightarrow> moves p q"

inductive_cases movesE: "moves p q"

definition power_flows :: "kit \<Rightarrow> 'a passkey_wallet_candidate_scheme \<Rightarrow> string set \<Rightarrow> int \<Rightarrow> chain \<Rightarrow> bool" where
  "power_flows K c trusted slot chain \<longleftrightarrow>
     (\<forall>t \<ge> slot. moves\<^sup>*\<^sup>* (untrusted_at K c trusted slot chain t) (untrusted_at K c trusted slot chain (t + 1)))"

section \<open>Power does not come from nowhere\<close>

lemma no_authority_made:
  assumes "moves\<^sup>*\<^sup>* p q" "\<not> p S_authority" "X \<in> {S_authority, S_session, S_deferred}" "\<not> p X"
  shows "\<not> q S_authority \<and> \<not> q X"
  using assms(1)
proof (induction rule: rtranclp_induct)
  case (step q r)
  show ?case using step(2) by (rule movesE) (use step.IH assms(3) in auto)
qed (use assms in simp)

lemma no_power_made:
  assumes "moves\<^sup>*\<^sup>* p q" "\<not> p S_authority" "\<not> p S_session" "\<not> p S_deferred" "\<not> p s"
  shows "\<not> q s"
proof -
  have "\<not> q S_authority \<and> \<not> q S_session \<and> \<not> q S_deferred \<and> \<not> q s"
    using assms(1)
  proof (induction rule: rtranclp_induct)
    case (step q r)
    show ?case using step(2) by (rule movesE) (use step.IH in auto)
  qed (use assms in simp)
  then show ?thesis by blast
qed

lemma flows_on:
  assumes "power_flows K c trusted slot chain" "slot \<le> t" "t \<le> t'"
  shows "moves\<^sup>*\<^sup>* (untrusted_at K c trusted slot chain t) (untrusted_at K c trusted slot chain t')"
  using assms(3)
proof (induction t' rule: int_ge_induct)
  case (step i)
  have "moves\<^sup>*\<^sup>* (untrusted_at K c trusted slot chain i) (untrusted_at K c trusted slot chain (i + 1))"
    using assms(1,2) step by (auto simp: power_flows_def)
  with step.IH show ?case by (rule rtranclp_trans)
qed simp

section \<open>Provenance of the reads\<close>

lemma retry_slot_Inr: "retry_slot read n = Inr x \<Longrightarrow> \<exists>n. read n = Inr x"
proof (induction read n rule: retry_slot.induct)
  case (1 read n)
  show ?case
  proof (cases "read n")
    case (Inl e)
    then have "retry_slot read (Suc n) = Inr x" "\<not> (5 \<le> n \<or> e \<noteq> SLOT_NOT_REACHED)"
      using "1.prems" by (auto simp: retry_slot.simps [of read n] split: if_splits)
    then show ?thesis using "1.IH" [OF Inl] by blast
  next
    case (Inr y)
    then show ?thesis using "1.prems" by (auto simp: retry_slot.simps [of read n])
  qed
qed

lemma atOrAfterSlot_Inr: "atOrAfterSlot read = Inr x \<Longrightarrow> \<exists>n. read n = Inr x"
  by (auto simp: atOrAfterSlot_def dest: retry_slot_Inr)

lemma maxSlot_two [simp]: "maxSlot [a, b] = max a b"
  by (simp add: maxSlot_def max_def)

lemma scan_rows:
  assumes "answers_from K chain rpc" "scanWalletAccounts K rpc p w disc off m = Inr (slot, rows)"
  shows "at_floor m slot" "distinct (map fst rows)"
    "(a, d) \<in> set rows \<longleftrightarrow> (\<exists>i. chain slot a = Some i \<and> ac_owner i = p \<and> ac_data i = d
      \<and> memcmp_ok [(0, [disc]), (off, k_encAddr K w)] d)"
proof -
  obtain n where n: "nr_scan rpc p [(0, [disc]), (off, k_encAddr K w)] m n = Inr (slot, rows)"
    using atOrAfterSlot_Inr [OF assms(2) [unfolded scanWalletAccounts_def]] by blast
  note l = assms(1) [unfolded answers_from_def, THEN conjunct1, rule_format, OF n]
  show "at_floor m slot" "distinct (map fst rows)" using l by simp_all
  show "(a, d) \<in> set rows \<longleftrightarrow> (\<exists>i. chain slot a = Some i \<and> ac_owner i = p \<and> ac_data i = d
      \<and> memcmp_ok [(0, [disc]), (off, k_encAddr K w)] d)" using l by simp
qed

lemma token_rows:
  assumes "answers_from K chain rpc" "atOrAfterSlot (nr_tokens rpc v p m) = Inr (slot, rows)"
  shows "at_floor m slot"
    "(a, d) \<in> set rows \<longleftrightarrow> (\<exists>i. chain slot a = Some i \<and> ac_owner i = p \<and> ac_data i = d \<and> u8_slice d 32 64 = k_encAddr K v)"
proof -
  obtain n where n: "nr_tokens rpc v p m n = Inr (slot, rows)" using atOrAfterSlot_Inr [OF assms(2)] by blast
  note l = assms(1) [unfolded answers_from_def, THEN conjunct2, THEN conjunct2, rule_format, OF n]
  show "at_floor m slot"
    "(a, d) \<in> set rows \<longleftrightarrow> (\<exists>i. chain slot a = Some i \<and> ac_owner i = p \<and> ac_data i = d \<and> u8_slice d 32 64 = k_encAddr K v)"
    using l by simp_all
qed

lemma page_lengths:
  "list_all2 (\<lambda>page p. snd p = map (chain (fst p)) page \<and> Q (fst p)) pgs parts
    \<Longrightarrow> length (concat (map snd parts)) = length (concat pgs)"
  by (induction rule: list_all2_induct) auto

lemma page_provenance:
  assumes "list_all2 (\<lambda>page p. snd p = map (chain (fst p)) page \<and> Q (fst p)) pgs parts" "i < length (concat pgs)"
  shows "\<exists>sp \<in> fst ` set parts. Q sp \<and> concat (map snd parts) ! i = chain sp (concat pgs ! i)"
  using assms
proof (induction arbitrary: i rule: list_all2_induct)
  case (Cons page pgs p parts)
  show ?case
  proof (cases "i < length page")
    case False
    then have "i - length page < length (concat pgs)" using Cons.prems by simp
    with Cons.IH obtain sp where "sp \<in> fst ` set parts" "Q sp"
      "concat (map snd parts) ! (i - length page) = chain sp (concat pgs ! (i - length page))" by blast
    then show ?thesis using Cons.hyps False by (auto simp: nth_append)
  qed (use Cons.hyps in \<open>auto simp: nth_append\<close>)
qed simp

lemma fold_max: "fold (\<lambda>p slot. max slot (fst p)) parts s \<ge> s \<and> (\<forall>p \<in> set parts. fst p \<le> fold (\<lambda>p slot. max slot (fst p)) parts s)"
  for s :: int
proof (induction parts arbitrary: s)
  case (Cons p parts)
  show ?case using Cons [of "max s (fst p)"] by auto
qed simp

lemma readAccounts_pages:
  assumes "answers_from K chain rpc" "readAccounts rpc addresses m = Inr (slot, infos)"
  obtains parts where "list_all2 (\<lambda>page p. snd p = map (chain (fst p)) page \<and> at_floor m (fst p)) (pages addresses) parts"
    "slot = fold (\<lambda>p slot. max slot (fst p)) parts (case m of Some k \<Rightarrow> k | None \<Rightarrow> 0)" "infos = concat (map snd parts)"
proof -
  obtain parts where parts: "list_all2 (\<lambda>page p. atOrAfterSlot (nr_multiple rpc page m) = Inr p) (pages addresses) parts"
    and slot: "slot = fold (\<lambda>p slot. max slot (fst p)) parts (case m of Some k \<Rightarrow> k | None \<Rightarrow> 0)" "infos = concat (map snd parts)"
    using assms(2) by (auto simp: readAccounts_def rbind_eq_Inr rmap_Inr_iff)
  have "snd p = map (chain (fst p)) page \<and> at_floor m (fst p)" if read: "atOrAfterSlot (nr_multiple rpc page m) = Inr p" for page p
  proof -
    obtain n where n: "nr_multiple rpc page m n = Inr (fst p, snd p)" using atOrAfterSlot_Inr [OF read] by auto
    then show ?thesis
      using assms(1) [unfolded answers_from_def, THEN conjunct2, THEN conjunct1, rule_format, OF n] by simp
  qed
  then have "list_all2 (\<lambda>page p. snd p = map (chain (fst p)) page \<and> at_floor m (fst p)) (pages addresses) parts"
    using parts by (rule list_all2_mono [rotated]) blast
  then show thesis using slot by (rule that)
qed

lemma readAccounts_provenance:
  assumes "answers_from K chain rpc" "readAccounts rpc addresses m = Inr (slot, infos)" "i < length addresses"
  shows "\<exists>sp. at_floor m sp \<and> sp \<le> slot \<and> info_at infos i = chain sp (addresses ! i)"
proof -
  obtain parts where l2: "list_all2 (\<lambda>page p. snd p = map (chain (fst p)) page \<and> at_floor m (fst p)) (pages addresses) parts"
    and slot: "slot = fold (\<lambda>p slot. max slot (fst p)) parts (case m of Some k \<Rightarrow> k | None \<Rightarrow> 0)" and infos: "infos = concat (map snd parts)"
    by (rule readAccounts_pages [OF assms(1,2)])
  have i: "i < length (concat (pages addresses))" using assms(3) by simp
  from page_provenance [OF l2 i] fold_max [where parts = parts and s = "case m of Some k \<Rightarrow> k | None \<Rightarrow> 0"]
  show ?thesis using i page_lengths [OF l2] by (fastforce simp: info_at_def infos slot)
qed

lemma readAccounts_length:
  assumes "answers_from K chain rpc" "readAccounts rpc addresses m = Inr (slot, infos)"
  shows "length infos = length addresses"
  by (rule readAccounts_pages [OF assms]) (auto dest!: page_lengths)

section \<open>What a clean description says\<close>

lemma info_at_drop: "info_at (drop k xs) i = info_at xs (i + k)"
  by (simp add: info_at_def add.commute less_diff_conv)

lemma other_trusted_hash: "oa_trusted (other_authority_of K trusted h r) = oa_trusted (other_authority_of K trusted None r)"
  by (simp add: other_authority_of_def Let_def split: prod.split)

lemma pending_never_trusted: "list_all pd_trusted (pending_deferred_of K slot r) \<longleftrightarrow> pending_deferred_of K slot r = []"
  by (auto simp: pending_deferred_of_def Let_def split: prod.split)

lemma watched_trusted_mint:
  "list_all tg_trusted (grants_of_watched K vault trusted (a, m, i)) = list_all tg_trusted (grants_of_watched K vault trusted (a, m', i))"
  by (simp add: grants_of_watched_def Let_def unreadableGrant_def split: option.split)

lemma list_all_concat: "list_all P (concat xss) \<longleftrightarrow> list_all (list_all P) xss"
  by (induction xss) auto

lemma map_of_mem: "map_of xs k = Some v \<Longrightarrow> distinct (map fst xs) \<Longrightarrow> (k, v') \<in> set xs \<Longrightarrow> v' = v"
  by (metis map_of_eq_Some_iff option.inject)

text \<open>The parts of a description that found nothing, by the reads they come from.\<close>

lemma clean_description:
  assumes ok: "describeCandidate K rpc c slot trusted mints = Inr (Some f)" and alone: "wf_controlledAlone f"
  obtains atas s own where "watchedAtasOf K (c_vaultPda c) mints = Inr atas"
    "readSpendingState K rpc (c_programId c) (c_walletPda c) (c_vaultPda c) (OWNERSHIP_DISCS (c_version c))
       (c_walletPda c # c_vaultPda c # atas) = Inr s"
    "map_of (ss_authorities s) (c_authorityPda c) = Some own" "own_intact c own"
    "\<forall>r \<in> set (ss_authorities s). fst r \<noteq> c_authorityPda c \<longrightarrow> oa_trusted (other_authority_of K trusted None r)"
    "\<forall>r \<in> set (ss_sessions s). list_all ls_trusted (live_session_of K trusted slot r)"
    "\<forall>r \<in> set (ss_deferred s). pending_deferred_of K slot r = []"
    "isSystemAccount (info_at (ss_infos s) 1)"
    "\<forall>r \<in> set (ss_spl s). list_all tg_trusted (grants_of_account K TOKEN_PROGRAM_ADDRESS (c_vaultPda c) trusted r)"
    "\<forall>r \<in> set (ss_token2022 s). list_all tg_trusted (grants_of_account K TOKEN_2022_PROGRAM_ADDRESS (c_vaultPda c) trusted r)"
    "\<forall>i < length atas.
      list_all tg_trusted (grants_of_watched K (c_vaultPda c) trusted (atas ! i, [], info_at (drop 2 (ss_infos s)) i))"
proof -
  obtain atas s where a: "watchedAtasOf K (c_vaultPda c) mints = Inr atas"
    "readSpendingState K rpc (c_programId c) (c_walletPda c) (c_vaultPda c) (OWNERSHIP_DISCS (c_version c))
       (c_walletPda c # c_vaultPda c # atas) = Inr s"
    using ok by (auto simp: describeCandidate_def rbind_eq_Inr)
  let ?own = "map_of (ss_authorities s) (c_authorityPda c)"
  let ?h = "case ?own of None \<Rightarrow> None | Some d \<Rightarrow> if length d \<ge> 145 then Some (u8_slice d 113 145) else None"
  have f: "wf_controlledAlone f = ((case ?own of None \<Rightarrow> False | Some d \<Rightarrow> own_intact c d)
      \<and> isSystemAccount (info_at (ss_infos s) 1)
      \<and> list_all oa_trusted (map (other_authority_of K trusted ?h) (filter (\<lambda>r. fst r \<noteq> c_authorityPda c) (ss_authorities s)))
      \<and> list_all ls_trusted (concat (map (live_session_of K trusted slot) (ss_sessions s)))
      \<and> list_all pd_trusted (concat (map (pending_deferred_of K slot) (ss_deferred s)))
      \<and> list_all tg_trusted (vaultTokenGrants K (c_vaultPda c) (ss_spl s) (ss_token2022 s)
          (map (\<lambda>i. (atas ! i, mints ! i, info_at (drop 2 (ss_infos s)) i)) [0..<length atas]) trusted))"
    using ok a by (auto simp: describeCandidate_def Let_def split: if_splits)
  have w: "list_all tg_trusted (grants_of_watched K (c_vaultPda c) trusted (atas ! i, mints ! i, info_at (drop 2 (ss_infos s)) i))"
    if "i < length atas" for i
    using alone f that by (auto simp: vaultTokenGrants_def list_all_concat list_all_iff)
  obtain own where own: "?own = Some own" "own_intact c own" using alone f by (auto split: option.splits)
  have "oa_trusted (other_authority_of K trusted None r)" if "r \<in> set (ss_authorities s)" "fst r \<noteq> c_authorityPda c" for r
    using alone f that other_trusted_hash [of K trusted ?h r] by (cases r) (auto simp: list_all_iff)
  moreover have "pending_deferred_of K slot r = []" if "r \<in> set (ss_deferred s)" for r
    using alone f that pending_never_trusted [of K slot r] by (auto simp: list_all_concat list_all_iff)
  moreover have "list_all tg_trusted (grants_of_watched K (c_vaultPda c) trusted (atas ! i, [], info_at (drop 2 (ss_infos s)) i))"
    if "i < length atas" for i using w [OF that] watched_trusted_mint by blast
  moreover have "isSystemAccount (info_at (ss_infos s) 1)"
    "\<forall>r \<in> set (ss_sessions s). list_all ls_trusted (live_session_of K trusted slot r)"
    "\<forall>r \<in> set (ss_spl s). list_all tg_trusted (grants_of_account K TOKEN_PROGRAM_ADDRESS (c_vaultPda c) trusted r)"
    "\<forall>r \<in> set (ss_token2022 s). list_all tg_trusted (grants_of_account K TOKEN_2022_PROGRAM_ADDRESS (c_vaultPda c) trusted r)"
    using alone f by (auto simp: list_all_concat list_all_iff vaultTokenGrants_def grantsOn_def)
  ultimately show thesis by (intro that [OF a own]) blast+
qed

text \<open>The reads of one spending state, with their slots.\<close>

lemma spending_reads:
  assumes "readSpendingState K rpc p w v discs accounts = Inr s"
  obtains a sa d ac tk where
    "scanWalletAccounts K rpc p w (od_authority discs) 16 None = Inr (a, ss_authorities s)"
    "scanWalletAccounts K rpc p w (od_session discs) 8 (Some a) = Inr (sa, ss_sessions s)"
    "scanWalletAccounts K rpc p w (od_deferred discs) 72 (Some a) = Inr (d, ss_deferred s)"
    "readAccounts rpc accounts (Some (max sa d)) = Inr (fst ac, snd ac)"
    "ss_infos s = map (info_at (snd ac)) [0..<length accounts]"
    "atOrAfterSlot (nr_tokens rpc v TOKEN_PROGRAM_ADDRESS (Some (max sa d))) = Inr (fst tk, ss_spl s)"
    "atOrAfterSlot (nr_tokens rpc v TOKEN_2022_PROGRAM_ADDRESS (Some (max sa d))) = Inr (snd tk, ss_token2022 s)"
    "ss_slot s = max (fst ac) (max (fst tk) (snd tk))"
  using assms
  by (fastforce simp: readSpendingState_def readVaultTokenAccounts_def rbind_eq_Inr Let_def)

section \<open>Nothing is half seen\<close>

definition power_sites :: "kit \<Rightarrow> 'a passkey_wallet_candidate_scheme \<Rightarrow> address list \<Rightarrow> power_site set" where
  "power_sites K c mints = {S_authority, S_session, S_deferred, S_vault, S_owned TOKEN_PROGRAM_ADDRESS,
     S_owned TOKEN_2022_PROGRAM_ADDRESS}
     \<union> S_watched ` {a. \<exists>m \<in> set mints. getAssociatedTokenAddress K m (c_vaultPda c) TOKEN_PROGRAM_ADDRESS = Inr a}"

lemma clean_state_sound:
  assumes node: "answers_from K chain rpc" and flows: "power_flows K c trusted slot chain"
    and fresh: "\<forall>p fs n t rows. nr_scan rpc p fs None n = Inr (t, rows) \<longrightarrow> slot \<le> t"
    and d: "watchedAtasOf K (c_vaultPda c) mints = Inr atas"
    "readSpendingState K rpc (c_programId c) (c_walletPda c) (c_vaultPda c) (OWNERSHIP_DISCS (c_version c))
       (c_walletPda c # c_vaultPda c # atas) = Inr s"
    "map_of (ss_authorities s) (c_authorityPda c) = Some own" "own_intact c own"
    "\<forall>r \<in> set (ss_authorities s). fst r \<noteq> c_authorityPda c \<longrightarrow> oa_trusted (other_authority_of K trusted None r)"
    "\<forall>r \<in> set (ss_sessions s). list_all ls_trusted (live_session_of K trusted slot r)"
    "\<forall>r \<in> set (ss_deferred s). pending_deferred_of K slot r = []"
    "isSystemAccount (info_at (ss_infos s) 1)"
    "\<forall>r \<in> set (ss_spl s). list_all tg_trusted (grants_of_account K TOKEN_PROGRAM_ADDRESS (c_vaultPda c) trusted r)"
    "\<forall>r \<in> set (ss_token2022 s). list_all tg_trusted (grants_of_account K TOKEN_2022_PROGRAM_ADDRESS (c_vaultPda c) trusted r)"
    "\<forall>i < length atas.
      list_all tg_trusted (grants_of_watched K (c_vaultPda c) trusted (atas ! i, [], info_at (drop 2 (ss_infos s)) i))"
  shows "\<exists>t \<ge> slot. \<forall>s \<in> power_sites K c mints. \<not> untrusted_at K c trusted slot chain t s"
proof -
  let ?U = "untrusted_at K c trusted slot chain"
  let ?acc = "c_walletPda c # c_vaultPda c # atas"
  obtain a sa de ac tk where r:
    "scanWalletAccounts K rpc (c_programId c) (c_walletPda c) (od_authority (OWNERSHIP_DISCS (c_version c))) 16 None
       = Inr (a, ss_authorities s)"
    "scanWalletAccounts K rpc (c_programId c) (c_walletPda c) (od_session (OWNERSHIP_DISCS (c_version c))) 8 (Some a)
       = Inr (sa, ss_sessions s)"
    "scanWalletAccounts K rpc (c_programId c) (c_walletPda c) (od_deferred (OWNERSHIP_DISCS (c_version c))) 72 (Some a)
       = Inr (de, ss_deferred s)"
    "readAccounts rpc ?acc (Some (max sa de)) = Inr (fst ac, snd ac)"
    "ss_infos s = map (info_at (snd ac)) [0..<length ?acc]"
    "atOrAfterSlot (nr_tokens rpc (c_vaultPda c) TOKEN_PROGRAM_ADDRESS (Some (max sa de))) = Inr (fst tk, ss_spl s)"
    "atOrAfterSlot (nr_tokens rpc (c_vaultPda c) TOKEN_2022_PROGRAM_ADDRESS (Some (max sa de))) = Inr (snd tk, ss_token2022 s)"
    "ss_slot s = max (fst ac) (max (fst tk) (snd tk))"
    using spending_reads [OF d(2)] by blast
  have first: "slot \<le> a" using atOrAfterSlot_Inr [OF r(1) [unfolded scanWalletAccounts_def]] fresh by blast
  have order: "slot \<le> a" "a \<le> sa" "a \<le> de" "max sa de \<le> fst tk" "max sa de \<le> snd tk"
    using first scan_rows(1) [OF node r(2)] scan_rows(1) [OF node r(3)]
      token_rows(1) [OF node r(6)] token_rows(1) [OF node r(7)] by (auto simp: at_floor_def)
  let ?m = "max sa de"
  have A: "\<not> ?U a S_authority"
  proof
    assume "?U a S_authority"
    then obtain x i where c: "chain a x = Some i" "ac_owner i = c_programId c"
      "memcmp_ok [(0, [od_authority (OWNERSHIP_DISCS (c_version c))]), (16, k_encAddr K (c_walletPda c))] (ac_data i)"
      and u: "\<not> (if x = c_authorityPda c then own_intact c (ac_data i) else oa_trusted (other_authority_of K trusted None (x, ac_data i)))"
      by auto
    have x: "(x, ac_data i) \<in> set (ss_authorities s)" using c scan_rows(3) [OF node r(1)] by blast
    show False using u d(5) x map_of_mem [OF d(3) scan_rows(2) [OF node r(1)]] d(4) by (auto split: if_splits)
  qed
  have S: "\<not> ?U sa S_session" using d(6) scan_rows(3) [OF node r(2)] by fastforce
  have D: "\<not> ?U de S_deferred" using d(7) scan_rows(3) [OF node r(3)] by fastforce
  have go: "moves\<^sup>*\<^sup>* (?U t) (?U t')" if "a \<le> t" "t \<le> t'" for t t' using flows_on [OF flows] that order(1) by simp
  have As: "\<not> ?U t S_authority" if "a \<le> t" for t using no_authority_made [OF go A, of t S_authority] A that by simp
  have base: "\<not> ?U t S_authority \<and> \<not> ?U t S_session \<and> \<not> ?U t S_deferred" if "?m \<le> t" for t
    using no_authority_made [OF go As, of sa t S_session] S no_authority_made [OF go As, of de t S_deferred] D order that As
    by auto
  have keep: "\<not> ?U t' x" if "\<not> ?U t x" "?m \<le> t" "t \<le> t'" for t t' x
    using no_power_made [OF go, of t t' x] base [OF that(2)] that order by simp
  have infos: "\<exists>sp. ?m \<le> sp \<and> sp \<le> fst ac \<and> info_at (ss_infos s) i = chain sp (?acc ! i)" if "i < length ?acc" for i
    using readAccounts_provenance [OF node r(4) that] that by (auto simp: r(5) info_at_def at_floor_def simp del: upt_Suc)
  let ?t = "ss_slot s"
  have "\<not> ?U ?t x" if x: "x \<in> power_sites K c mints" for x
  proof -
    have top: "fst ac \<le> ?t" "fst tk \<le> ?t" "snd tk \<le> ?t" "?m \<le> ?t" using r(8) order by auto
    consider "x \<in> {S_authority, S_session, S_deferred}" | "x = S_vault" | "x = S_owned TOKEN_PROGRAM_ADDRESS"
      | "x = S_owned TOKEN_2022_PROGRAM_ADDRESS" | i where "x = S_watched (atas ! i)" "i < length atas"
    proof -
      have "\<exists>i < length atas. y = atas ! i"
        if "m \<in> set mints" "getAssociatedTokenAddress K m (c_vaultPda c) TOKEN_PROGRAM_ADDRESS = Inr y" for m y
        using d(1) that by (auto simp: watchedAtasOf_def rmap_Inr_iff list_all2_conv_all_nth in_set_conv_nth)
      then show thesis using x that by (auto simp: power_sites_def)
    qed
    then show ?thesis
    proof cases
      case 1
      then show ?thesis using base [OF top(4)] by (auto simp del: untrusted_at_code)
    next
      case 2
      obtain sp where "?m \<le> sp" "sp \<le> fst ac" "info_at (ss_infos s) 1 = chain sp (c_vaultPda c)" using infos [of 1] by auto
      then show ?thesis using keep [of sp x ?t] d(8) 2 top by simp
    next
      case 3
      have "\<not> ?U (fst tk) x" using d(9) token_rows(2) [OF node r(6)] 3 by fastforce
      then show ?thesis using keep order(4) top(2) by blast
    next
      case 4
      have "\<not> ?U (snd tk) x" using d(10) token_rows(2) [OF node r(7)] 4 by fastforce
      then show ?thesis using keep order(5) top(3) by blast
    next
      case (5 i)
      obtain sp where sp: "?m \<le> sp" "sp \<le> fst ac" "info_at (ss_infos s) (i + 2) = chain sp (atas ! i)"
        using infos [of "i + 2"] 5(2) by auto
      have "info_at (drop 2 (ss_infos s)) i = chain sp (atas ! i)" using sp(3) by (simp add: info_at_drop)
      then have "\<not> ?U sp x" using d(11) [rule_format, OF 5(2)] 5(1) by simp
      then show ?thesis using keep sp(1,2) top(1) by (meson order_trans)
    qed
  qed
  moreover have "slot \<le> ?t" using order r(8) by auto
  ultimately show ?thesis by blast
qed

lemma controlled_alone_sound:
  assumes node: "answers_from K chain rpc" and flows: "power_flows K c trusted slot chain"
    and fresh: "\<forall>p fs n t rows. nr_scan rpc p fs None n = Inr (t, rows) \<longrightarrow> slot \<le> t"
    and ok: "describeCandidate K rpc c slot trusted mints = Inr (Some f)" and alone: "wf_controlledAlone f"
  shows "\<exists>t \<ge> slot. \<forall>s \<in> power_sites K c mints. \<not> untrusted_at K c trusted slot chain t s"
  by (rule clean_description [OF ok alone]) (rule clean_state_sound [OF node flows fresh])

section \<open>The adopted wallet\<close>

lemma describeCandidate_same:
  assumes "describeCandidate K rpc c slot trusted mints = Inr (Some f)"
  shows "c_version f = c_version c" "c_programId f = c_programId c" "c_walletPda f = c_walletPda c"
    "c_vaultPda f = c_vaultPda c" "c_authorityPda f = c_authorityPda c" "c_publicKey f = c_publicKey c"
  using assms by (auto simp: describeCandidate_def rbind_eq_Inr Let_def split: if_splits)

lemma untrusted_at_same:
  assumes "c_version f = c_version c" "c_programId f = c_programId c" "c_walletPda f = c_walletPda c"
    "c_vaultPda f = c_vaultPda c" "c_authorityPda f = c_authorityPda c" "c_publicKey f = c_publicKey c"
  shows "untrusted_at K f trusted slot chain t = untrusted_at K c trusted slot chain t"
proof
  show "untrusted_at K f trusted slot chain t s = untrusted_at K c trusted slot chain t s" for s
    by (cases s) (simp_all add: assms own_intact_def)
qed

lemma check_address_same: "rmap (check_address K) xs = Inr ys \<Longrightarrow> ys = xs"
  by (auto simp: rmap_Inr_iff check_address_def list_all2_conv_all_nth intro!: nth_equalityI split: if_splits)

lemma described_from:
  assumes "describeWalletCandidates K rpc candidates trustedKeys watchMints = Inr facts" "f \<in> set facts"
  obtains mints slot c where "watchedMints K watchMints = Inr mints" "nr_getSlot rpc = Inr slot" "c \<in> set candidates"
    "describeCandidate K rpc c slot (set trustedKeys) mints = Inr (Some f)"
proof -
  obtain trusted mints where t: "rmap (check_address K) trustedKeys = Inr trusted" and m: "watchedMints K watchMints = Inr mints"
    and rest: "candidates \<noteq> []"
    using assms by (cases "candidates = []") (auto simp: describeWalletCandidates_def rbind_eq_Inr)
  obtain slot wallets where s: "nr_getSlot rpc = Inr slot"
    and w: "rbind (mapBounded (map fst (filter (\<lambda>(c, i). isLiveWallet (c_programId c) (c_version c) (info_at wallets i))
        (zip candidates [0..<length candidates]))) 4 (\<lambda>c. describeCandidate K rpc c slot (set trusted) mints))
        (\<lambda>described. Inr (List.map_filter id described)) = Inr facts"
    using assms(1) t m rest by (auto simp: describeWalletCandidates_def rbind_eq_Inr Let_def)
  define live where "live = map fst (filter (\<lambda>(c, i). isLiveWallet (c_programId c) (c_version c) (info_at wallets i))
    (zip candidates [0..<length candidates]))"
  have l: "set live \<subseteq> set candidates" by (auto simp: live_def dest: set_zip_leftD)
  obtain described where d: "list_all2 (\<lambda>c r. describeCandidate K rpc c slot (set trusted) mints = Inr r) live described"
    and f: "Some f \<in> set described"
    using w assms(2) by (auto simp: live_def [symmetric] rbind_eq_Inr mapBounded_def rmap_Inr_iff map_filter_def)
  obtain i where i: "i < length described" "described ! i = Some f" using f by (auto simp: in_set_conv_nth)
  then show thesis using that [OF m s, of "live ! i"] d l check_address_same [OF t]
    by (auto simp: list_all2_conv_all_nth subset_iff)
qed

lemma watchedMints_default: "watchedMints K extra = Inr mints \<Longrightarrow> set WATCHED_MINTS \<union> set extra \<subseteq> set mints"
proof -
  assume "watchedMints K extra = Inr mints"
  then have "mints = fold (\<lambda>m mints. if m \<in> set mints then mints else mints @ [m]) extra WATCHED_MINTS"
    by (auto simp: watchedMints_def rbind_eq_Inr dest: check_address_same)
  moreover have "set (fold (\<lambda>m mints. if m \<in> set mints then mints else mints @ [m]) ms start) = set start \<union> set ms"
    for ms start :: "address list"
    by (induction ms arbitrary: start) auto
  ultimately show ?thesis by (simp only: subset_refl)
qed


text \<open>A node over a list of accounts that do not change, and a wallet on it for the witness.\<close>

definition steady_rows :: "(address \<times> account) list \<Rightarrow> (account \<Rightarrow> bool) \<Rightarrow> row list" where
  "steady_rows accounts P = map (\<lambda>(a, i). (a, ac_data i)) (filter (\<lambda>(a, i). P i) accounts)"

definition steady_node :: "kit \<Rightarrow> (address \<times> account) list \<Rightarrow> int \<Rightarrow> node_rpc" where
  "steady_node K accounts now =
     (let at = (\<lambda>m :: int option. case m of None \<Rightarrow> now | Some k \<Rightarrow> max k now);
          rows = steady_rows accounts in
      \<lparr>nr_getSlot = Inr now,
       nr_accountInfo = (\<lambda>a. Inr (map_of accounts a)),
       nr_programAccounts = (\<lambda>p fs. Inr (rows (\<lambda>i. ac_owner i = p \<and> memcmp_ok fs (ac_data i)))),
       nr_scan = (\<lambda>p fs m n. Inr (at m, rows (\<lambda>i. ac_owner i = p \<and> memcmp_ok fs (ac_data i)))),
       nr_multiple = (\<lambda>as m n. Inr (at m, map (map_of accounts) as)),
       nr_tokens = (\<lambda>v p m n. Inr (at m, rows (\<lambda>i. ac_owner i = p \<and> u8_slice (ac_data i) 32 64 = k_encAddr K v)))\<rparr>)"

lemma steady_node_reads [simp]:
  "nr_scan (steady_node K accounts now) p fs m n =
     Inr (case m of None \<Rightarrow> now | Some k \<Rightarrow> max k now, steady_rows accounts (\<lambda>i. ac_owner i = p \<and> memcmp_ok fs (ac_data i)))"
  "nr_multiple (steady_node K accounts now) as m n = Inr (case m of None \<Rightarrow> now | Some k \<Rightarrow> max k now, map (map_of accounts) as)"
  "nr_tokens (steady_node K accounts now) v p m n =
     Inr (case m of None \<Rightarrow> now | Some k \<Rightarrow> max k now, steady_rows accounts (\<lambda>i. ac_owner i = p \<and> u8_slice (ac_data i) 32 64 = k_encAddr K v))"
  "nr_getSlot (steady_node K accounts now) = Inr now"
  "nr_accountInfo (steady_node K accounts now) a = Inr (map_of accounts a)"
  "nr_programAccounts (steady_node K accounts now) p fs = Inr (steady_rows accounts (\<lambda>i. ac_owner i = p \<and> memcmp_ok fs (ac_data i)))"
  by (simp_all add: steady_node_def Let_def)

lemma steady_node_answers:
  assumes "distinct (map fst accounts)"
  shows "answers_from K (\<lambda>t. map_of accounts) (steady_node K accounts now)"
proof -
  have d: "distinct (map fst (steady_rows accounts P))" for P
    using assms unfolding steady_rows_def by (induction accounts) (auto simp: rev_image_eqI)
  have r: "(a, x) \<in> set (steady_rows accounts P) \<longleftrightarrow> (\<exists>i. map_of accounts a = Some i \<and> P i \<and> ac_data i = x)" for a x P
    using assms unfolding steady_rows_def by (force simp: map_of_eq_Some_iff)
  show ?thesis
    by (auto simp: answers_from_def at_floor_def d r split: option.split)
qed

lemma steady_multiple: "readAccounts (steady_node K accounts now) addresses (Some now) = Inr (now, map (map_of accounts) addresses)"
proof -
  have "rmap (\<lambda>page. atOrAfterSlot (nr_multiple (steady_node K accounts now) page (Some now))) pgs
      = Inr (map (\<lambda>page. (now, map (map_of accounts) page)) pgs)" for pgs
    by (simp add: atOrAfterSlot_def retry_slot.simps rmap_Inr_iff list_all2_conv_all_nth)
  moreover have "fold (\<lambda>p slot. maxSlot [slot, fst p]) (map (\<lambda>page. (now, map (map_of accounts) page)) pgs) now = now" for pgs
    by (induction pgs) auto
  moreover have "concat (map snd (map (\<lambda>page. (now, map (map_of accounts) page)) (pages addresses))) = map (map_of accounts) addresses"
    by (simp add: comp_def flip: map_concat)
  ultimately show ?thesis by (simp add: readAccounts_def del: maxSlot_two)
qed

lemma steady_spending_state:
  "readSpendingState K (steady_node K accounts now) p w v discs addresses =
     Inr \<lparr>ss_authorities = steady_rows accounts (\<lambda>i. ac_owner i = p \<and> memcmp_ok [(0, [od_authority discs]), (16, k_encAddr K w)] (ac_data i)),
          ss_sessions = steady_rows accounts (\<lambda>i. ac_owner i = p \<and> memcmp_ok [(0, [od_session discs]), (8, k_encAddr K w)] (ac_data i)),
          ss_deferred = steady_rows accounts (\<lambda>i. ac_owner i = p \<and> memcmp_ok [(0, [od_deferred discs]), (72, k_encAddr K w)] (ac_data i)),
          ss_infos = map (map_of accounts) addresses,
          ss_spl = steady_rows accounts (\<lambda>i. ac_owner i = TOKEN_PROGRAM_ADDRESS \<and> u8_slice (ac_data i) 32 64 = k_encAddr K v),
          ss_token2022 = steady_rows accounts (\<lambda>i. ac_owner i = TOKEN_2022_PROGRAM_ADDRESS \<and> u8_slice (ac_data i) 32 64 = k_encAddr K v),
          ss_slot = now\<rparr>"
proof -
  have [simp]: "map (info_at (map g addresses)) [0..<length addresses] = map g addresses" for g
    by (rule nth_equalityI) (auto simp: info_at_def)
  show ?thesis
    by (simp add: readSpendingState_def scanWalletAccounts_def readVaultTokenAccounts_def atOrAfterSlot_def retry_slot.simps
        steady_multiple Let_def)
qed

lemma steady_flows: "power_flows K c trusted slot (\<lambda>t. accounts)"
proof -
  have "untrusted_at K c trusted slot (\<lambda>t. accounts) t s = untrusted_at K c trusted slot (\<lambda>t. accounts) (t + 1) s" for t s
    by (cases s) simp_all
  then show ?thesis by (auto simp: power_flows_def fun_eq_iff intro!: r_into_rtranclp lapses)
qed

definition sample_key :: bytes where "sample_key = replicate 33 2"

definition sample_authority :: bytes where
  "sample_authority = [0x22, 1, 0] @ replicate 5 0 @ [3] @ replicate 7 0 @ replicate 32 87 @ replicate 32 9 @ sample_key
     @ k_sha256 sample_kit (utf8 ''rp'')"

definition sample_accounts :: "(address \<times> account) list" where
  "sample_accounts =
     [(replicate 32 (CHR ''W''), \<lparr>ac_owner = ''prog'', ac_lamports = 1, ac_data = [0x21]\<rparr>),
      (''auth'', \<lparr>ac_owner = ''prog'', ac_lamports = 1, ac_data = sample_authority\<rparr>)]"

abbreviation "sample_node \<equiv> steady_node sample_kit sample_accounts 7"

definition sample_candidate :: passkey_wallet_candidate where
  "sample_candidate = \<lparr>c_version = 2, c_programId = ''prog'', c_walletPda = replicate 32 (CHR ''W''),
     c_vaultPda = ''lk2:vault'' @ replicate 32 (CHR ''W''), c_authorityPda = ''auth'', c_publicKey = sample_key\<rparr>"

definition sample_client_data :: json where
  "sample_client_data = JObj [(''type'', JStr ''webauthn.get''), (''challenge'', JStr ''abcdefghijklmnop'')]"

definition sample_proof :: ownership_proof where
  "sample_proof = \<lparr>op_challenge = utf8 ''abcdefghijklmnop'', op_signature = [1],
     op_authenticatorData = k_sha256 sample_kit (utf8 ''rp'') @ [1, 0, 0, 0, 0],
     op_clientDataJson = utf8 (JSON_stringify sample_client_data)\<rparr>"

definition sample_p256 :: "unit p256" where
  "sample_p256 = \<lparr>p_verify = (\<lambda>f sig msg key. Inr (key = sample_key)), p_fromBytes = (\<lambda>f b. Inr ()), p_recover = (\<lambda>s i m. Inr sample_key)\<rparr>"

lemma sample_candidate_sel [simp]:
  "c_version sample_candidate = 2" "c_programId sample_candidate = ''prog''" "c_authorityPda sample_candidate = ''auth''"
  "c_publicKey sample_candidate = sample_key"
  by (simp_all add: sample_candidate_def)

lemma sample_rows:
  "steady_rows sample_accounts (\<lambda>i. ac_owner i = ''prog'' \<and> memcmp_ok
     [(0, [od_authority (OWNERSHIP_DISCS 2)]), (16, k_encAddr sample_kit (c_walletPda sample_candidate))] (ac_data i))
     = [(''auth'', sample_authority)]"
  "steady_rows sample_accounts (\<lambda>i. ac_owner i = ''prog'' \<and> memcmp_ok
     [(0, [od_session (OWNERSHIP_DISCS 2)]), (8, k_encAddr sample_kit (c_walletPda sample_candidate))] (ac_data i)) = []"
  "steady_rows sample_accounts (\<lambda>i. ac_owner i = ''prog'' \<and> memcmp_ok
     [(0, [od_deferred (OWNERSHIP_DISCS 2)]), (72, k_encAddr sample_kit (c_walletPda sample_candidate))] (ac_data i)) = []"
  by code_simp+

lemma sample_no_tokens:
  "steady_rows sample_accounts (\<lambda>i. ac_owner i = TOKEN_PROGRAM_ADDRESS \<and> P i) = []"
  "steady_rows sample_accounts (\<lambda>i. ac_owner i = TOKEN_2022_PROGRAM_ADDRESS \<and> P i) = []"
  by (simp_all add: steady_rows_def sample_accounts_def TOKEN_PROGRAM_ADDRESS_def TOKEN_2022_PROGRAM_ADDRESS_def)

lemma sample_atas: "case watchedAtasOf sample_kit (c_vaultPda sample_candidate) WATCHED_MINTS of
    Inr atas \<Rightarrow> list_all (\<lambda>a. map_of sample_accounts a = None) atas | _ \<Rightarrow> False"
  by code_simp

lemma le_val_zeros: "le_val (replicate n 0) = 0"
  by (induction n) auto

lemma sample_own: "own_intact sample_candidate sample_authority" "uint_at 4 sample_authority 8 = 3"
  by (simp_all add: own_intact_def sample_authority_def uint_at_def u8_slice_def u8_at_def sample_key_def bytesEqual_def
      AUTH_TYPE_SECP256R1_def ROLE_OWNER_def sha256_length [OF sample_kit_laws(3)] le_val_zeros)

lemma sample_live: "isLiveWallet ''prog'' 2 (map_of sample_accounts (c_walletPda sample_candidate))"
  "map_of sample_accounts (c_vaultPda sample_candidate) = None"
  by code_simp+

lemma sample_described:
  "\<exists>f. describeCandidate sample_kit sample_node sample_candidate 7 {} WATCHED_MINTS = Inr (Some f)
     \<and> wf_controlledAlone f \<and> wf_signatureCount f = 3"
proof -
  obtain atas where a: "watchedAtasOf sample_kit (c_vaultPda sample_candidate) WATCHED_MINTS = Inr atas"
    "list_all (\<lambda>a. map_of sample_accounts a = None) atas"
    using sample_atas by (auto split: sum.splits)
  have "vaultTokenGrants sample_kit (c_vaultPda sample_candidate) [] []
      (map (\<lambda>i. (atas ! i, WATCHED_MINTS ! i, info_at (map (map_of sample_accounts) atas) i)) [0..<length atas]) {} = []"
    using a(2) by (auto simp: vaultTokenGrants_def grantsOn_def grants_of_watched_def info_at_def list_all_length)
  then show ?thesis
    by (simp add: describeCandidate_def steady_spending_state a(1) sample_rows sample_no_tokens sample_own sample_live
        info_at_def [of _ 0] info_at_def [of _ "Suc 0"] Let_def isSystemAccount_def)
qed

lemma sample_scan:
  "steady_rows sample_accounts (\<lambda>i. ac_owner i = ''prog'' \<and> memcmp_ok
     [(0, [od_authority (OWNERSHIP_DISCS 2), word_of_int AUTH_TYPE_SECP256R1]), (48, replicate 32 9),
      (113, k_sha256 sample_kit (utf8 ''rp''))] (ac_data i)) = [(''auth'', sample_authority)]"
  by code_simp

lemma sample_vault: "findVaultPda sample_kit (replicate 32 (CHR ''W'')) ''prog'' = Inr (''lk2:vault'' @ replicate 32 (CHR ''W''), 0)"
  by code_simp

lemma sample_candidate_of: "candidate_of sample_kit 2 ''prog'' (''auth'', sample_authority) = Inr [sample_candidate]"
proof -
  have "addressFromBytes sample_kit (u8_slice sample_authority 16 48) = Inr (replicate 32 (CHR ''W''))" by code_simp
  then show ?thesis
    by (simp add: candidate_of_def sample_vault sample_candidate_def)
      (simp add: sample_authority_def u8_slice_def u8_at_def ROLE_OWNER_def sample_key_def sha256_length [OF sample_kit_laws(3)])
qed

lemma sample_candidates:
  "findPasskeyWalletCandidates sample_kit sample_node ''prog'' (replicate 32 9) ''rp'' (Some False) = Inr [sample_candidate]"
  by (simp add: findPasskeyWalletCandidates_def scan_candidates_def sample_scan sample_candidate_of assertByteLength_def)

lemma sample_proven: "verifyOwnershipProof sample_kit sample_p256 [sample_candidate] sample_proof ''rp'' = [sample_candidate]"
proof -
  have "list_all (\<lambda>c. code c < 128) (JSON_stringify sample_client_data)" by code_simp
  then have "JSON_parse (text_decode (op_clientDataJson sample_proof)) = Inr sample_client_data"
    using JSON_parse_stringify [of sample_client_data] by (simp add: sample_proof_def text_decode_ascii sample_client_data_def)
  moreover have "base64UrlNoPad sample_kit (op_challenge sample_proof) = ''abcdefghijklmnop''" by code_simp
  ultimately have "\<exists>d. assertionDigest sample_kit sample_proof ''rp'' = Inr (Some d)"
    by (simp add: assertionDigest_def json_get_def sample_client_data_def bytesEqual_def)
      (simp add: sample_proof_def u8_slice_def sha256_length [OF sample_kit_laws(3)] nth_append)
  then show ?thesis
    by (auto simp: verifyOwnershipProof_def p256Verifies_def SIGNATURE_FORMATS_def sample_p256_def split: sum.splits option.splits)
qed

lemma sample_adopted:
  "\<exists>r f. findOwnPasskeyWallet sample_kit sample_p256 sample_node ''prog'' (replicate 32 9) ''rp'' sample_proof [] [] (Some False)
      = Inr r \<and> ow_adopt r = Some f"
proof -
  obtain f where f: "describeCandidate sample_kit sample_node sample_candidate 7 {} WATCHED_MINTS = Inr (Some f)"
    "wf_controlledAlone f" "wf_signatureCount f = 3" using sample_described by blast
  have "describeWalletCandidates sample_kit sample_node [sample_candidate] [] [] = Inr [f]"
    by (simp add: describeWalletCandidates_def watchedMints_def readAccounts_def pages.simps [of "[_]"] pages.simps [of "[]"]
        atOrAfterSlot_def retry_slot.simps info_at_def sample_live(1) mapBounded_def map_filter_def f(1))
  moreover have "pickOwnWallet [f] = (Some f, [])" using f by (simp add: pickOwnWallet_def js_sort_def)
  ultimately show ?thesis by (simp add: findOwnPasskeyWallet_def sample_candidates sample_proven)
qed


end
