(* ===== verification/Migration.thy ===== *)
theory Migration
  imports SpendingState Client
begin

text \<open>
  Moving a v1 wallet's funds: \<open>migrateV1Wallet\<close> of \<open>client.ts\<close> with the checks it makes first. The
  method is cut where its comments cut it: the v1 side, the destination, the tokens, the instruction.
  Messages keep their fixed part.
\<close>

section \<open>Who owns what\<close>

definition expiryAt :: "bytes \<Rightarrow> nat \<Rightarrow> int" where
  "expiryAt data offset = (if length data \<ge> offset + 8 then uint_at 8 data offset else U64_MAX)"

definition owner_key :: "owner_fields \<Rightarrow> bytes" where
  "owner_key f = (case of_secp256r1Pubkey f of Some k \<Rightarrow> k | None \<Rightarrow> [])"

definition owner_rp_hash :: "kit \<Rightarrow> owner_fields \<Rightarrow> bytes" where
  "owner_rp_hash K f = k_sha256 K (utf8 (case of_rpId f of Some r \<Rightarrow> r | None \<Rightarrow> []))"

definition assertV1PasskeyOwner :: "kit \<Rightarrow> node_rpc \<Rightarrow> address \<Rightarrow> create_wallet_owner \<Rightarrow> unit result" where
  "assertV1PasskeyOwner K rpc authority owner =
     rbind (resolveOwnerFields K owner) (\<lambda>f.
     rbind (nr_accountInfo rpc authority) (\<lambda>value.
     case value of
       None \<Rightarrow> Inl (Error ''v1 authority not found'')
     | Some i \<Rightarrow> let data = ac_data i in
         if length data < 145 then Inl (Error ''the v1 authority is not a passkey authority'')
         else if \<not> bytesEqual (u8_slice data 80 113) (owner_key f)
         then Inl (Error ''owner.compressedPubkey is not the v1 authority's public key'')
         else if \<not> bytesEqual (u8_slice data 113 145) (owner_rp_hash K f)
         then Inl (Error ''owner.rpId is not the relying party the v1 wallet was created under'')
         else Inr ()))"

record vetted =
  ve_problem :: "string option"
  ve_slot :: int
  ve_signatureCount :: int

text \<open>The reasons to refuse, in the order the code checks them.\<close>

definition vet_problem ::
  "kit \<Rightarrow> address \<Rightarrow> owner_fields \<Rightarrow> int \<Rightarrow> address \<Rightarrow> address list \<Rightarrow> address list \<Rightarrow> spending_state \<Rightarrow> string option" where
  "vet_problem K programId f slot vault watchedAtas mints s =
     (let walletInfo = info_at (ss_infos s) 0; vaultInfo = info_at (ss_infos s) 1; watchedInfos = drop 2 (ss_infos s);
          a = snd (ss_authorities s ! 0) in
      if \<not> isLiveWallet programId 2 walletInfo then Some ''is not a wallet of program''
      else if length (ss_authorities s) \<noteq> 1 then Some ''a migration destination must have only its owner''
      else if u8_at a 1 \<noteq> Some (word_of_int (of_authType f)) \<or> u8_at a 2 \<noteq> Some (word_of_int ROLE_OWNER)
        \<or> \<not> bytesEqual (u8_slice a 48 80) (of_credentialOrPubkey f)
      then Some ''is not owned by this key alone''
      else if of_authType f = AUTH_TYPE_SECP256R1
        \<and> (\<not> bytesEqual (u8_slice a 80 113) (owner_key f) \<or> \<not> bytesEqual (u8_slice a 113 145) (owner_rp_hash K f))
      then Some ''lists this passkey's credential with another public key or relying party''
      else if list_ex (\<lambda>x. expiryAt (snd x) 72 \<ge> slot) (ss_sessions s) then Some ''has a live session''
      else if list_ex (\<lambda>x. expiryAt (snd x) 168 \<ge> slot) (ss_deferred s) then Some ''has a pending deferred execution''
      else if \<not> isSystemAccount vaultInfo
      then Some (if map_option ac_owner vaultInfo = Some SYSTEM_PROGRAM_ADDRESS
        then ''carries data, so it is no longer a plain system account'' else ''is owned by program'')
      else case vaultTokenGrants K vault (ss_spl s) (ss_token2022 s)
          (map (\<lambda>i. (watchedAtas ! i, mints ! i, info_at watchedInfos i)) [0..<length watchedAtas]) {} of
        grant # _ \<Rightarrow> Some (grantPhrase (tg_kind grant))
      | [] \<Rightarrow> None)"

definition vetDestination ::
  "kit \<Rightarrow> node_rpc \<Rightarrow> address \<Rightarrow> address \<Rightarrow> create_wallet_owner \<Rightarrow> address list \<Rightarrow> vetted result" where
  "vetDestination K rpc programId wallet owner mints =
     rbind (resolveOwnerFields K owner) (\<lambda>f.
     rbind (nr_getSlot rpc) (\<lambda>slot.
     rbind (findVaultPda K wallet programId) (\<lambda>(vault, _).
     rbind (watchedAtasOf K vault mints) (\<lambda>watchedAtas.
     rbind (readSpendingState K rpc programId wallet vault (OWNERSHIP_DISCS 2) (wallet # vault # watchedAtas)) (\<lambda>s.
     case vet_problem K programId f slot vault watchedAtas mints s of
       Some problem \<Rightarrow> Inr \<lparr>ve_problem = Some problem, ve_slot = ss_slot s, ve_signatureCount = 0\<rparr>
     | None \<Rightarrow>
         rbind (if of_authType f = AUTH_TYPE_SECP256R1 then dv_get 4 (snd (ss_authorities s ! 0)) 8 else Inr 0) (\<lambda>count.
         Inr \<lparr>ve_problem = None, ve_slot = ss_slot s, ve_signatureCount = count\<rparr>))))))"

definition vetMigrationDestination ::
  "kit \<Rightarrow> node_rpc \<Rightarrow> address \<Rightarrow> address \<Rightarrow> create_wallet_owner \<Rightarrow> string list \<Rightarrow> string option result" where
  "vetMigrationDestination K rpc programId wallet owner watchMints =
     rbind (watchedMints K watchMints) (\<lambda>mints.
     rbind (vetDestination K rpc programId wallet owner mints) (\<lambda>v. Inr (ve_problem v)))"

record signed_authority =
  sd_walletPda :: address
  sd_authorityPda :: address
  sd_role :: "byte option"

definition signed_authority_of :: "kit \<Rightarrow> owner_fields \<Rightarrow> row \<Rightarrow> signed_authority list result" where
  "signed_authority_of K f r = (case r of (pubkey, data) \<Rightarrow>
     if length data < 145 \<or> \<not> bytesEqual (u8_slice data 80 113) (owner_key f)
       \<or> \<not> bytesEqual (u8_slice data 113 145) (owner_rp_hash K f) \<or> uint_at 4 data 8 = 0
     then Inr []
     else rbind (addressFromBytes K (u8_slice data 16 48)) (\<lambda>walletPda.
       Inr [\<lparr>sd_walletPda = walletPda, sd_authorityPda = pubkey, sd_role = u8_at data 2\<rparr>]))"

definition signedPasskeyAuthorities ::
  "kit \<Rightarrow> node_rpc \<Rightarrow> address \<Rightarrow> create_wallet_owner \<Rightarrow> signed_authority list result" where
  "signedPasskeyAuthorities K rpc programId owner =
     rbind (resolveOwnerFields K owner) (\<lambda>f.
     rbind (nr_programAccounts rpc programId
              [(0, [ACCOUNT_DISCRIMINATOR AUTHORITY, word_of_int AUTH_TYPE_SECP256R1]),
               (48, of_credentialOrPubkey f), (113, owner_rp_hash K f)]) (\<lambda>accounts.
     rbind (rmap (signed_authority_of K f) accounts) (\<lambda>parts. Inr (concat parts))))"

section \<open>Arguments and results\<close>

record migrate_params =
  mp_payer :: address
  mp_owner :: create_wallet_owner
  mp_userSeed :: "bytes option"
  mp_v1Wallet :: "address option"
  mp_destinationUserSeed :: "bytes option"
  mp_v1ProgramId :: "address option"
  mp_excludeTokenAccounts :: "address list"
  mp_refundDestination :: "address option"
  mp_minContextSlot :: "int option"
  mp_commitment :: "commitment option"
  mp_watchMints :: "string list"

datatype migrate_step =
    MigrateEd25519 instruction "instruction list"
  | MigrateSecp256r1 bytes "webauthn_response \<Rightarrow> instruction list result"

record migration =
  mg_v1 :: v1_accounts
  mg_destinationWallet :: address
  mg_destinationUserSeed :: "bytes option"
  mg_v2Vault :: address
  mg_tokens :: "v1_vault_token list"
  mg_skippedTokens :: "(v1_vault_token \<times> unmovable_reason) list"
  mg_setupInstructions :: "instruction list"
  mg_migrate :: migrate_step

section \<open>The v1 side\<close>

definition v1_program :: "address \<Rightarrow> migrate_params \<Rightarrow> address" where
  "v1_program programId p = (case mp_v1ProgramId p of Some a \<Rightarrow> a | None \<Rightarrow> legacyProgramIdFor programId)"

definition assert_not_retired :: "address \<Rightarrow> unit result" where
  "assert_not_retired programId =
     (if programId \<in> set (filter (\<lambda>x. x \<noteq> PROGRAM_ID_MAINNET \<and> x \<noteq> PROGRAM_ID_DEVNET) [PROGRAM_ID_MAINNET_V1, PROGRAM_ID_DEVNET_V1])
      then Inl (Error ''this client is built at a retired v1 deployment'') else Inr ())"

text \<open>An empty string counts as no \<open>v1Wallet\<close>.\<close>

definition named_v1_wallet :: "migrate_params \<Rightarrow> address option" where
  "named_v1_wallet p = (case mp_v1Wallet p of Some w \<Rightarrow> if w = [] then None else Some w | None \<Rightarrow> None)"

definition migrate_source :: "kit \<Rightarrow> owner_fields \<Rightarrow> address \<Rightarrow> migrate_params \<Rightarrow> v1_accounts result" where
  "migrate_source K f v1ProgramId p = (case named_v1_wallet p of
     Some w \<Rightarrow>
       rbind (findV1VaultPda K w v1ProgramId) (\<lambda>(vault, _).
       rbind (findV1AuthorityPda K w (of_credentialOrPubkey f) v1ProgramId) (\<lambda>(authority, _).
       Inr \<lparr>v1_wallet = w, v1_vault = vault, v1_authority = authority\<rparr>))
   | None \<Rightarrow> (case mp_userSeed p of
       Some seed \<Rightarrow> deriveV1Accounts K seed (of_credentialOrPubkey f) v1ProgramId
     | None \<Rightarrow> Inl (Error ''migrateV1Wallet needs either userSeed or v1Wallet'')))"

definition check_source ::
  "kit \<Rightarrow> node_rpc \<Rightarrow> owner_fields \<Rightarrow> migrate_params \<Rightarrow> v1_accounts \<Rightarrow> unit result" where
  "check_source K rpc f p v1 =
     rbind (readV1WalletState rpc v1) (\<lambda>state.
     case state of
       None \<Rightarrow> Inl (Error (if named_v1_wallet p \<noteq> None then ''no v1 wallet for this owner'' else ''no v1 wallet exists for this userSeed''))
     | Some st \<Rightarrow>
         if vs_ownerRole st \<noteq> Some (word_of_int ROLE_OWNER)
         then Inl (Error ''MigrateWallet requires an Owner-rank v1 authority'')
         else if of_authType f = AUTH_TYPE_SECP256R1 then assertV1PasskeyOwner K rpc (v1_authority v1) (mp_owner p)
         else Inr ())"

section \<open>The destination\<close>

text \<open>The one wallet the passkey has signed for, if it passes the vet, with the slot of the vet.\<close>

definition reusable_wallet ::
  "kit \<Rightarrow> node_rpc \<Rightarrow> address \<Rightarrow> owner_fields \<Rightarrow> migrate_params \<Rightarrow> address list \<Rightarrow> (address \<times> int) option result" where
  "reusable_wallet K rpc programId f p mints =
     (if of_authType f \<noteq> AUTH_TYPE_SECP256R1 then Inr None
      else
        rbind (signedPasskeyAuthorities K rpc programId (mp_owner p)) (\<lambda>signed.
        if length signed = 1 \<and> sd_role (signed ! 0) = Some (word_of_int ROLE_OWNER) then
          rbind (vetDestination K rpc programId (sd_walletPda (signed ! 0)) (mp_owner p) mints) (\<lambda>v.
          Inr (if ve_problem v = None \<and> ve_signatureCount v > 0 then Some (sd_walletPda (signed ! 0), ve_slot v) else None))
        else Inr None))"

record destination =
  de_wallet :: address
  de_seed :: "bytes option"
  de_vettedAt :: "int option"
  de_createFrom :: "bytes option"

definition named_destination ::
  "kit \<Rightarrow> node_rpc \<Rightarrow> bytes \<Rightarrow> address \<Rightarrow> owner_fields \<Rightarrow> migrate_params \<Rightarrow> address list
   \<Rightarrow> (address \<times> bytes option \<times> int option) result" where
  "named_destination K rpc random programId f p mints =
     (case mp_userSeed p of
        Some seed \<Rightarrow> rbind (findWalletPda K seed programId) (\<lambda>(w, _). Inr (w, Some seed, None))
      | None \<Rightarrow>
          rbind (reusable_wallet K rpc programId f p mints) (\<lambda>reuse.
          case reuse of
            Some (w, slot) \<Rightarrow> Inr (w, None, Some slot)
          | None \<Rightarrow> let seed = (case mp_destinationUserSeed p of Some s \<Rightarrow> s | None \<Rightarrow> random) in
              rbind (findWalletPda K seed programId) (\<lambda>(w, _). Inr (w, Some seed, None))))"

definition choose_destination ::
  "kit \<Rightarrow> node_rpc \<Rightarrow> bytes \<Rightarrow> address \<Rightarrow> owner_fields \<Rightarrow> migrate_params \<Rightarrow> address list \<Rightarrow> destination result" where
  "choose_destination K rpc random programId f p mints =
     rbind (named_destination K rpc random programId f p mints) (\<lambda>(v2Wallet, seed, vettedAt).
     case vettedAt of
       Some slot \<Rightarrow> Inr \<lparr>de_wallet = v2Wallet, de_seed = seed, de_vettedAt = Some slot, de_createFrom = None\<rparr>
     | None \<Rightarrow>
         rbind (nr_accountInfo rpc v2Wallet) (\<lambda>walletAccount.
         if isSystemAccount walletAccount
         then Inr \<lparr>de_wallet = v2Wallet, de_seed = seed, de_vettedAt = None, de_createFrom = seed\<rparr>
         else
           rbind (vetDestination K rpc programId v2Wallet (mp_owner p) mints) (\<lambda>v.
           if ve_problem v \<noteq> None then Inl (Error ''refusing to migrate into the seed's v2 wallet'')
           else Inr \<lparr>de_wallet = v2Wallet, de_seed = seed, de_vettedAt = Some (ve_slot v), de_createFrom = None\<rparr>)))"

section \<open>The tokens\<close>

record dest_account =
  da_dest :: address
  da_frozen :: bool
  da_problem :: "string option"

definition dest_entry ::
  "kit \<Rightarrow> address \<Rightarrow> v1_vault_token \<times> address \<times> account option \<Rightarrow> (address \<times> dest_account) list \<Rightarrow> (address \<times> dest_account) list" where
  "dest_entry K v2Vault e destState = (case e of (t, dest, info) \<Rightarrow>
     if isSystemAccount info then destState
     else jsmap_set (vt_ata t)
       \<lparr>da_dest = dest, da_frozen = tokenAccountFrozen (ac_data (the info)),
        da_problem = destinationTokenAccountProblem K dest (the info) (vt_tokenProgram t) v2Vault\<rparr> destState)"

definition dest_page ::
  "kit \<Rightarrow> node_rpc \<Rightarrow> address \<Rightarrow> int option \<Rightarrow> v1_vault_token list \<Rightarrow> (v1_vault_token \<times> address \<times> account option) list result" where
  "dest_page K rpc v2Vault vettedAt page =
     rbind (rmap (\<lambda>t. getAssociatedTokenAddress K (vt_mint t) v2Vault (vt_tokenProgram t)) page) (\<lambda>dests.
     rbind (readAccounts rpc dests vettedAt) (\<lambda>(_, infos). Inr (zip page (zip dests infos))))"

definition dest_state ::
  "kit \<Rightarrow> node_rpc \<Rightarrow> address \<Rightarrow> int option \<Rightarrow> v1_vault_token list \<Rightarrow> (address \<times> dest_account) list result" where
  "dest_state K rpc v2Vault vettedAt toCheck =
     rbind (rmap (dest_page K rpc v2Vault vettedAt) (pages toCheck)) (\<lambda>parts.
     Inr (fold (dest_entry K v2Vault) (concat parts) []))"

definition split_tokens ::
  "(address \<times> dest_account) list \<Rightarrow> classified \<Rightarrow> v1_vault_token list \<times> (v1_vault_token \<times> unmovable_reason) list" where
  "split_tokens destState c =
     (let frozen = (\<lambda>t. case map_of destState (vt_ata t) of Some d \<Rightarrow> da_frozen d | None \<Rightarrow> False);
          thawed = (\<lambda>t. case map_of destState (vt_ata t) of Some d \<Rightarrow> \<not> da_frozen d | None \<Rightarrow> False);
          onArrival = filter (\<lambda>s. snd s = R_frozen_on_arrival) (cf_skipped c)
      in (filter (\<lambda>t. \<not> frozen t) (cf_movable c) @ map fst (filter (\<lambda>s. thawed (fst s)) onArrival),
          filter (\<lambda>s. snd s \<noteq> R_frozen_on_arrival) (cf_skipped c)
            @ map (\<lambda>t. (t, R_destination_frozen)) (filter frozen (cf_movable c))
            @ filter (\<lambda>s. \<not> thawed (fst s)) onArrival))"

definition rigged :: "(address \<times> dest_account) list \<Rightarrow> v1_vault_token list \<Rightarrow> v1_vault_token list" where
  "rigged destState tokens = filter (\<lambda>t. case map_of destState (vt_ata t) of Some d \<Rightarrow> da_problem d \<noteq> None | None \<Rightarrow> False) tokens"

definition plan_tokens ::
  "kit \<Rightarrow> node_rpc \<Rightarrow> address \<Rightarrow> address \<Rightarrow> int option \<Rightarrow> address list
   \<Rightarrow> (v1_vault_token list \<times> (v1_vault_token \<times> unmovable_reason) list) result" where
  "plan_tokens K rpc v1Vault v2Vault vettedAt exclude =
     rbind (enumerateV1VaultTokens K rpc v1Vault) (\<lambda>all.
     rbind (classifyV1VaultTokens K rpc all exclude) (\<lambda>c.
     rbind (dest_state K rpc v2Vault vettedAt
              (cf_movable c @ map fst (filter (\<lambda>s. snd s = R_frozen_on_arrival) (cf_skipped c)))) (\<lambda>destState.
     case split_tokens destState c of (tokens, skipped) \<Rightarrow>
     if rigged destState tokens \<noteq> [] then Inl (Error ''refusing to migrate: destination token account'')
     else if length tokens > 255 then Inl (Error ''one migration moves at most 255'')
     else Inr (tokens, skipped))))"

section \<open>The instructions\<close>

definition token_pair :: "kit \<Rightarrow> address \<Rightarrow> v1_vault_token \<Rightarrow> migrate_token_pair result" where
  "token_pair K v2Vault t =
     rbind (getAssociatedTokenAddress K (vt_mint t) v2Vault (vt_tokenProgram t)) (\<lambda>dest.
     Inr \<lparr>sourceAta = vt_ata t, destAta = dest, mt_mint = vt_mint t, mt_tokenProgram = vt_tokenProgram t\<rparr>)"

definition create_dest :: "address \<Rightarrow> address \<Rightarrow> migrate_token_pair \<Rightarrow> instruction" where
  "create_dest payer v2Vault m =
     createAssociatedTokenAccountIdempotentIx payer (destAta m) v2Vault (mt_mint m) (mt_tokenProgram m)"

definition withheld_by_mint :: "v1_vault_token list \<Rightarrow> (address \<times> address list) list" where
  "withheld_by_mint tokens =
     fold (\<lambda>t m. if vt_withheldFees t
       then jsmap_set (vt_mint t) ((case map_of m (vt_mint t) of Some as \<Rightarrow> as | None \<Rightarrow> []) @ [vt_ata t]) m else m) tokens []"

definition harvest_instructions :: "v1_vault_token list \<Rightarrow> instruction list" where
  "harvest_instructions tokens = map (\<lambda>(mint, sources). harvestWithheldIx mint sources) (withheld_by_mint tokens)"

definition migrate_payload ::
  "kit \<Rightarrow> address \<Rightarrow> address \<Rightarrow> address \<Rightarrow> migrate_token_pair list \<Rightarrow> bytes result" where
  "migrate_payload K v2Vault v1Wallet refundDestination pairs =
     concatBytes ([k_encAddr K v2Vault, k_encAddr K v1Wallet, u8_of [int (length pairs)], k_encAddr K refundDestination]
       @ map (\<lambda>t. k_encAddr K (sourceAta t)) pairs)"

definition finalize_migration ::
  "address \<Rightarrow> v1_accounts \<Rightarrow> address \<Rightarrow> address \<Rightarrow> address \<Rightarrow> migrate_token_pair list \<Rightarrow> instruction list
   \<Rightarrow> prepared_secp256r1 \<Rightarrow> webauthn_response \<Rightarrow> instruction list result" where
  "finalize_migration payer v1 v2Vault refundDestination v1ProgramId pairs harvest prepared response =
     rbind (finalizeSecp256r1 prepared response) (\<lambda>(authPayload, precompileIx).
     rbind (createMigrateWalletIx payer (v1_wallet v1) (v1_authority v1) (v1_vault v1) v2Vault refundDestination
              payer False (Some pairs) (Some authPayload) v1ProgramId) (\<lambda>migrateIx.
     Inr (harvest @ [precompileIx, migrateIx])))"

definition migration_reads :: "migrate_params \<Rightarrow> bytes \<Rightarrow> bytes \<Rightarrow> address \<Rightarrow> secp256r1_params" where
  "migration_reads p credential key authority =
     \<lparr>sp_credentialIdHash = credential, sp_publicKeyBytes = Some key, sp_authorityPda = Some authority,
      sp_slotOverride = None, sp_minContextSlot = mp_minContextSlot p, sp_commitment = mp_commitment p\<rparr>"

definition migrate_step_of ::
  "kit \<Rightarrow> challenge_reads \<Rightarrow> address \<Rightarrow> migrate_params \<Rightarrow> address \<Rightarrow> v1_accounts \<Rightarrow> address \<Rightarrow> v1_vault_token list
   \<Rightarrow> migrate_token_pair list \<Rightarrow> migrate_step result" where
  "migrate_step_of K reads programId p v1ProgramId v1 v2Vault tokens pairs =
     (let harvest = harvest_instructions tokens;
          refundDestination = (case mp_refundDestination p of Some a \<Rightarrow> a | None \<Rightarrow> mp_payer p) in
      rbind (migrate_payload K v2Vault (v1_wallet v1) refundDestination pairs) (\<lambda>signedPayload.
      case mp_owner p of
        OwnerEd25519 publicKey \<Rightarrow>
          rbind (createMigrateWalletIx (mp_payer p) (v1_wallet v1) (v1_authority v1) (v1_vault v1) v2Vault
                   refundDestination publicKey True (Some pairs) None v1ProgramId) (\<lambda>ix.
          Inr (MigrateEd25519 ix (harvest @ [ix])))
      | OwnerSecp256r1 credential key _ \<Rightarrow>
          rbind (reads (v1_authority v1) (migration_reads p credential key (v1_authority v1))) (\<lambda>(_, slot, counter).
          rbind (buildPasskeySigning K programId DISC_MIGRATE_WALLET SYSVAR_IX_INDEX_MIGRATE_WALLET signedPayload slot
                   counter (mp_payer p) (v1_wallet v1) key (Some v1ProgramId)) (\<lambda>prepared.
          Inr (MigrateSecp256r1 (ps_challenge prepared)
            (finalize_migration (mp_payer p) v1 v2Vault refundDestination v1ProgramId pairs harvest prepared))))))"

text \<open>
  The whole method. \<open>feeRpc\<close> and \<open>rand\<close> are what \<open>createWallet\<close> reads for the protocol fee, \<open>random\<close>
  the 32 random bytes of a fresh seed, \<open>reads\<close> the challenge reads.
\<close>

definition migrateV1Wallet ::
  "kit \<Rightarrow> node_rpc \<Rightarrow> rpc_account \<Rightarrow> int \<Rightarrow> bytes \<Rightarrow> challenge_reads \<Rightarrow> migrate_params \<Rightarrow> migration stateful" where
  "migrateV1Wallet K rpc feeRpc rand random reads p c =
     (let programId = cl_programId c; v1ProgramId = v1_program programId p in
      sbind (pure
        (rbind (resolveOwnerFields K (mp_owner p)) (\<lambda>f.
         rbind (assert_not_retired programId) (\<lambda>_.
         rbind (migrate_source K f v1ProgramId p) (\<lambda>v1.
         rbind (check_source K rpc f p v1) (\<lambda>_.
         rbind (watchedMints K (mp_watchMints p)) (\<lambda>mints.
         rbind (choose_destination K rpc random programId f p mints) (\<lambda>d.
         rbind (findVaultPda K (de_wallet d) programId) (\<lambda>(v2Vault, _).
         rbind (plan_tokens K rpc (v1_vault v1) v2Vault (de_vettedAt d) (mp_excludeTokenAccounts p)) (\<lambda>(tokens, skipped).
         Inr (v1, d, v2Vault, tokens, skipped))))))))))) (\<lambda>(v1, d, v2Vault, tokens, skipped).
      sbind (case de_createFrom d of
               Some seed \<Rightarrow> sbind (createWallet K feeRpc rand (mp_payer p) seed (mp_owner p)) (\<lambda>cw. pure (Inr (cw_instructions cw)))
             | None \<Rightarrow> pure (Inr [])) (\<lambda>creation.
      pure
        (rbind (rmap (token_pair K v2Vault) tokens) (\<lambda>pairs.
         rbind (migrate_step_of K reads programId p v1ProgramId v1 v2Vault tokens pairs) (\<lambda>step.
         Inr \<lparr>mg_v1 = v1, mg_destinationWallet = de_wallet d,
              mg_destinationUserSeed = (if mp_userSeed p \<noteq> None then None else de_seed d), mg_v2Vault = v2Vault,
              mg_tokens = tokens, mg_skippedTokens = skipped,
              mg_setupInstructions = creation @ map (create_dest (mp_payer p) v2Vault) pairs, mg_migrate = step\<rparr>))))) c)"

section \<open>The program's side\<close>

text \<open>One \<open>MigrateWallet\<close>, as the program sees it.\<close>

record migrate_call =
  mc_payer :: address
  mc_v1 :: v1_accounts
  mc_vault :: address
  mc_refund :: address
  mc_pairs :: "migrate_token_pair list"

definition migrate_metas :: "migrate_call \<Rightarrow> account_meta list" where
  "migrate_metas i = [meta (mc_payer i) SIGNER_RW, meta (v1_wallet (mc_v1 i)) RW, meta (v1_authority (mc_v1 i)) RW,
     meta (v1_vault (mc_v1 i)) RW, meta (mc_vault i) RW, meta (mc_refund i) RW, meta SYSTEM_PROGRAM_ADDRESS RO,
     meta SYSVAR_INSTRUCTIONS_ADDRESS RO, meta (mc_payer i) RO]
     @ concat (map (\<lambda>t. [meta (sourceAta t) RW, meta (destAta t) RW, meta (mt_mint t) RO, meta (mt_tokenProgram t) RO])
         (mc_pairs i))"

definition migrate_region :: "kit \<Rightarrow> migrate_call \<Rightarrow> bytes" where
  "migrate_region K i = k_encAddr K (mc_vault i) @ k_encAddr K (v1_wallet (mc_v1 i)) @ u8_of [int (length (mc_pairs i))]
     @ k_encAddr K (mc_refund i) @ concat (map (\<lambda>t. k_encAddr K (sourceAta t)) (mc_pairs i))"

lemma concat_quads:
  assumes "i < length ts"
  shows "concat (map (\<lambda>t. [a t, b t, c t, d t]) ts) ! (i * 4) = a (ts ! i)"
    "i * 4 < length (concat (map (\<lambda>t. [a t, b t, c t, d t]) ts))"
proof -
  show "concat (map (\<lambda>t. [a t, b t, c t, d t]) ts) ! (i * 4) = a (ts ! i)"
    using assms
  proof (induction ts arbitrary: i)
    case (Cons t ts)
    then show ?case by (cases i) simp_all
  qed simp
  show "i * 4 < length (concat (map (\<lambda>t. [a t, b t, c t, d t]) ts))"
    using assms by (simp add: length_concat comp_def sum_list_triv)
qed

lemma migrate_source_key:
  assumes "i < length (mc_pairs m)"
  shows "key_at (infos_of K (withRuntimeRoles (migrate_metas m) fp)) (9 + i * 4) = Inr (k_encAddr K (sourceAta (mc_pairs m ! i)))"
  using concat_quads [OF assms, of "\<lambda>t. meta (sourceAta t) RW" "\<lambda>t. meta (destAta t) RW" "\<lambda>t. meta (mt_mint t) RO"
      "\<lambda>t. meta (mt_tokenProgram t) RO"]
  by (simp add: key_at_runtime migrate_metas_def)

interpretation migrate_flow: passkey_operation K DISC_MIGRATE_WALLET SYSVAR_IX_INDEX_MIGRATE_WALLET
    mc_payer "\<lambda>i. withRuntimeRoles (migrate_metas i) fp" "\<lambda>i ap. u8_of [int (length (mc_pairs i))] @ ap"
    "migrate_region K" process_migrate "\<lambda>i. length (mc_pairs i) \<le> 255"
  for K fp
proof unfold_locales
  fix i ap
  show payer: "payer_key (infos_of K (withRuntimeRoles (migrate_metas i) fp)) = Inr (k_encAddr K (mc_payer i))"
    by (simp add: migrate_metas_def payer_key_runtime role_signer_def)
  assume n: "length (mc_pairs i) \<le> 255"
  let ?infos = "infos_of K (withRuntimeRoles (migrate_metas i) fp)"
  have "rmap (\<lambda>j. key_at ?infos (9 + j * 4)) [0..<length (mc_pairs i)]
      = Inr (map (\<lambda>t. k_encAddr K (sourceAta t)) (mc_pairs i))"
    by (auto simp: rmap_Inr_iff list_all2_conv_all_nth migrate_source_key)
  moreover have "unat (word_of_int (int (length (mc_pairs i))) :: byte) = length (mc_pairs i)"
    using n by (simp add: unat_of_nat)
  moreover have "key_at ?infos 8 = Inr (k_encAddr K (mc_payer i))" "key_at ?infos 4 = Inr (k_encAddr K (mc_vault i))"
    "key_at ?infos 1 = Inr (k_encAddr K (v1_wallet (mc_v1 i)))" "key_at ?infos 5 = Inr (k_encAddr K (mc_refund i))"
    by (simp_all add: key_at_runtime migrate_metas_def)
  ultimately show "process_migrate ?infos (u8_of [int (length (mc_pairs i))] @ ap) = Inr (migrate_region K i, ap)"
    using payer by (simp add: process_migrate_def migrate_region_def)
qed (simp_all add: sysvar_idx_defs migrate_metas_def withRuntimeRoles_nth)

section \<open>What a migration is made of\<close>

lemma sbind_eq_Inr: "sbind m g c = (Inr y, c') \<longleftrightarrow> (\<exists>x d. m c = (Inr x, d) \<and> g x d = (Inr y, c'))"
  by (auto simp: sbind_def split: prod.splits sum.splits)

lemma migrateV1Wallet_parts:
  assumes "migrateV1Wallet K rpc feeRpc rand random reads p c = (Inr m, c')"
  obtains f v1 mints d bump tokens skipped pairs creation step where
    "resolveOwnerFields K (mp_owner p) = Inr f" "migrate_source K f (v1_program (cl_programId c) p) p = Inr v1"
    "check_source K rpc f p v1 = Inr ()" "watchedMints K (mp_watchMints p) = Inr mints"
    "choose_destination K rpc random (cl_programId c) f p mints = Inr d"
    "findVaultPda K (de_wallet d) (cl_programId c) = Inr (mg_v2Vault m, bump)"
    "plan_tokens K rpc (v1_vault v1) (mg_v2Vault m) (de_vettedAt d) (mp_excludeTokenAccounts p) = Inr (tokens, skipped)"
    "fst ((case de_createFrom d of
        Some seed \<Rightarrow> sbind (createWallet K feeRpc rand (mp_payer p) seed (mp_owner p)) (\<lambda>cw. pure (Inr (cw_instructions cw)))
      | None \<Rightarrow> pure (Inr [])) c) = Inr creation"
    "rmap (token_pair K (mg_v2Vault m)) tokens = Inr pairs"
    "migrate_step_of K reads (cl_programId c) p (v1_program (cl_programId c) p) v1 (mg_v2Vault m) tokens pairs = Inr step"
    "mg_v1 m = v1" "mg_destinationWallet m = de_wallet d" "mg_tokens m = tokens" "mg_skippedTokens m = skipped"
    "mg_setupInstructions m = creation @ map (create_dest (mp_payer p) (mg_v2Vault m)) pairs" "mg_migrate m = step"
  using assms by (auto simp: migrateV1Wallet_def Let_def sbind_eq_Inr pure_def [of _ c] pure_def [of "rbind _ _"] rbind_eq_Inr)

lemma plan_tokens_parts:
  assumes "plan_tokens K rpc v1Vault v2Vault vettedAt exclude = Inr (tokens, skipped)"
  obtains all c destState where "enumerateV1VaultTokens K rpc v1Vault = Inr all"
    "classifyV1VaultTokens K rpc all exclude = Inr c"
    "dest_state K rpc v2Vault vettedAt
       (cf_movable c @ map fst (filter (\<lambda>s. snd s = R_frozen_on_arrival) (cf_skipped c))) = Inr destState"
    "split_tokens destState c = (tokens, skipped)" "rigged destState tokens = []" "length tokens \<le> 255"
  using assms by (auto simp: plan_tokens_def rbind_eq_Inr case_prod_unfold prod_eq_iff split: if_splits)

lemma token_pairs:
  assumes "rmap (token_pair K v2Vault) tokens = Inr pairs"
  shows "length pairs = length tokens" "map sourceAta pairs = map vt_ata tokens"
proof -
  have l: "list_all2 (\<lambda>t q. token_pair K v2Vault t = Inr q) tokens pairs" using assms by (simp add: rmap_Inr_iff)
  then show len: "length pairs = length tokens" by (simp add: list_all2_lengthD)
  show "map sourceAta pairs = map vt_ata tokens"
    using l by (induction rule: list_all2_induct) (auto simp: token_pair_def rbind_eq_Inr)
qed

text \<open>
  C34. What the passkey signs when it migrates is what the v1 program checks. If the v1 authority is as
  the challenge reads saw it, every migration prepared for a passkey finalizes with any well-formed
  authenticator response, and the program's verdict on the transaction is WebAuthn's verdict on the
  challenge. The challenge names the destination vault, the v1 wallet, where the rent goes, and every
  token account that moves, in order; it is bound to the v1 program.
\<close>

theorem migration_accepted_as_signed:
  assumes K: "sha256_32 K" and resp: "response_wf K response"
    and migrated: "migrateV1Wallet K rpc feeRpc rand random reads p c = (Inr m, c')"
    and passkey: "mp_owner p = OwnerSecp256r1 credential key rpId"
    and read: "reads (v1_authority (mg_v1 m)) (migration_reads p credential key (v1_authority (mg_v1 m))) = Inr (k, slot, counter)"
    and chain: "chain_ok K \<lparr>rs_authorityPda = v1_authority (mg_v1 m), rs_publicKeyBytes = key, rs_slot = slot, rs_counter = counter\<rparr>
      (v1_wallet (mg_v1 m)) current_slot auth"
  shows "\<exists>challenge finalize instructions. mg_migrate m = MigrateSecp256r1 challenge finalize
    \<and> finalize response = Inr instructions
    \<and> accepts_as_signed K fee_layer webauthn current_slot fp auth challenge response counter instructions
    \<and> challenge = k_sha256 K (challenge_bytes K (u8_of [DISC_MIGRATE_WALLET])
        (k_encAddr K (mg_v2Vault m) @ k_encAddr K (v1_wallet (mg_v1 m)) @ u8_of [int (length (mg_tokens m))]
         @ k_encAddr K (case mp_refundDestination p of Some a \<Rightarrow> a | None \<Rightarrow> mp_payer p)
         @ concat (map (k_encAddr K) (map vt_ata (mg_tokens m))))
        SYSVAR_IX_INDEX_MIGRATE_WALLET slot counter (mp_payer p) (v1_wallet (mg_v1 m)) (v1_program (cl_programId c) p))"
proof -
  obtain pairs where pl: "length (mg_tokens m) \<le> 255" and pa: "rmap (token_pair K (mg_v2Vault m)) (mg_tokens m) = Inr pairs"
    and st: "migrate_step_of K reads (cl_programId c) p (v1_program (cl_programId c) p) (mg_v1 m) (mg_v2Vault m) (mg_tokens m) pairs
      = Inr (mg_migrate m)"
    by (rule migrateV1Wallet_parts [OF migrated]) (auto elim: plan_tokens_parts)
  let ?refund = "case mp_refundDestination p of Some a \<Rightarrow> a | None \<Rightarrow> mp_payer p"
  let ?prog = "v1_program (cl_programId c) p"
  let ?i = "\<lparr>mc_payer = mp_payer p, mc_v1 = mg_v1 m, mc_vault = mg_v2Vault m, mc_refund = ?refund, mc_pairs = pairs\<rparr>"
  let ?r = "\<lparr>rs_authorityPda = v1_authority (mg_v1 m), rs_publicKeyBytes = key, rs_slot = slot, rs_counter = counter\<rparr>"
  note tp = token_pairs [OF pa]
  have wf: "length (mc_pairs ?i) \<le> 255" using pl tp(1) by simp
  have payload: "migrate_payload K (mg_v2Vault m) (v1_wallet (mg_v1 m)) ?refund pairs = Inr (migrate_region K ?i)"
    by (simp add: migrate_payload_def migrate_region_def)
  obtain prepared where prep: "prepareSecp256r1 K (u8_of [DISC_MIGRATE_WALLET]) (migrate_region K ?i) SYSVAR_IX_INDEX_MIGRATE_WALLET
      (rs_slot ?r) (rs_counter ?r) (mc_payer ?i) (v1_wallet (mg_v1 m)) ?prog (rs_publicKeyBytes ?r) = Inr prepared"
    and step: "mg_migrate m = MigrateSecp256r1 (ps_challenge prepared)
      (finalize_migration (mp_payer p) (mg_v1 m) (mg_v2Vault m) ?refund ?prog pairs (harvest_instructions (mg_tokens m)) prepared)"
    using st by (auto simp: migrate_step_of_def passkey read payload rbind_eq_Inr buildPasskeySigning_def Let_def simp del: u8_of_simps)
  obtain ap pre where fin: "finalizeSecp256r1 prepared response = Inr (ap, pre)"
    and acc: "accepts_as_signed K fee_layer webauthn current_slot fp auth (ps_challenge prepared) response (rs_counter ?r)
      (harvest_instructions (mg_tokens m) @ [pre, \<lparr>ix_program = ?prog, ix_accounts = Some (migrate_metas ?i),
        ix_data = Some (word_of_int DISC_MIGRATE_WALLET # u8_of [int (length (mc_pairs ?i))] @ ap)\<rparr>])"
    using migrate_flow.flow_accepted [OF K wf resp chain prep, where fee_layer = fee_layer and ms = "migrate_metas ?i"
        and feePayer = fp and fp = fp and webauthn = webauthn and hd_ixs = "harvest_instructions (mg_tokens m)"]
    by (auto simp: program_dispatch_def no_fee_disc DISC_MIGRATE_WALLET_def)
  have "finalize_migration (mp_payer p) (mg_v1 m) (mg_v2Vault m) ?refund ?prog pairs (harvest_instructions (mg_tokens m)) prepared response
      = Inr (harvest_instructions (mg_tokens m) @ [pre, \<lparr>ix_program = ?prog, ix_accounts = Some (migrate_metas ?i),
        ix_data = Some (word_of_int DISC_MIGRATE_WALLET # u8_of [int (length (mc_pairs ?i))] @ ap)\<rparr>])"
    by (simp add: finalize_migration_def fin createMigrateWalletIx_def migrate_metas_def)
  moreover have "map (\<lambda>t. k_encAddr K (sourceAta t)) pairs = map (k_encAddr K) (map vt_ata (mg_tokens m))"
    using arg_cong [OF tp(2), of "map (k_encAddr K)"] by (simp add: comp_def)
  ultimately show ?thesis
    using acc step prep tp(1) by (auto simp: prepareSecp256r1_eq migrate_region_def)
qed

section \<open>A migration, for the witnesses\<close>

text \<open>
  A passkey's v1 wallet with one token account, moved to a wallet created from a given seed. The kit
  cuts program addresses to 32 characters, as real ones have 32 bytes.
\<close>

definition migration_kit :: kit where
  "migration_kit = sample_kit\<lparr>k_pda := (\<lambda>p seeds. Inr (take 32 (take 5 p @ map byte_char (concat seeds)), 0))\<rparr>"

definition old_wallet :: address where "old_wallet = replicate 32 (CHR ''V'')"
definition old_vault :: address where "old_vault = ''oldvault'' @ replicate 24 (CHR ''V'')"
definition old_authority :: address where "old_authority = ''oldauthority'' @ replicate 20 (CHR ''V'')"
definition old_mint :: address where "old_mint = replicate 32 (CHR ''M'')"

definition old_owner_data :: bytes where
  "old_owner_data = [2, 1] @ replicate 46 0 @ replicate 32 9 @ sample_key @ k_sha256 sample_kit (utf8 ''rp'')"

definition old_accounts :: "(address \<times> account) list" where
  "old_accounts =
     [(old_wallet, \<lparr>ac_owner = ''old'', ac_lamports = 1, ac_data = [1]\<rparr>),
      (old_authority, \<lparr>ac_owner = ''old'', ac_lamports = 1, ac_data = old_owner_data\<rparr>),
      (''tok'', \<lparr>ac_owner = TOKEN_PROGRAM_ADDRESS, ac_lamports = 1,
         ac_data = map of_char old_mint @ map of_char old_vault @ 5 # replicate 100 0\<rparr>),
      (old_mint, \<lparr>ac_owner = TOKEN_PROGRAM_ADDRESS, ac_lamports = 1, ac_data = []\<rparr>)]"

definition old_params :: migrate_params where
  "old_params = \<lparr>mp_payer = ''payer'', mp_owner = OwnerSecp256r1 (replicate 32 9) sample_key ''rp'', mp_userSeed = None,
     mp_v1Wallet = Some old_wallet, mp_destinationUserSeed = Some (replicate 32 4), mp_v1ProgramId = Some ''old'',
     mp_excludeTokenAccounts = [], mp_refundDestination = None, mp_minContextSlot = None, mp_commitment = None, mp_watchMints = []\<rparr>"

abbreviation "old_v1 \<equiv> \<lparr>v1_wallet = old_wallet, v1_vault = old_vault, v1_authority = old_authority\<rparr>"
abbreviation "old_fields \<equiv> \<lparr>of_authType = AUTH_TYPE_SECP256R1, of_credentialOrPubkey = replicate 32 9,
  of_secp256r1Pubkey = Some sample_key, of_rpId = Some ''rp''\<rparr>"
abbreviation "old_token \<equiv> \<lparr>vt_ata = ''tok'', vt_mint = old_mint, vt_amount = 5, vt_tokenProgram = TOKEN_PROGRAM_ADDRESS,
  vt_frozen = False, vt_blocker = None, vt_withheldFees = False\<rparr>"
abbreviation "old_node \<equiv> steady_node migration_kit old_accounts 7"
abbreviation "old_client \<equiv> new_client ''prog'' (Some False)"

definition new_wallet :: address where "new_wallet = ''proglk2:wallet'' @ replicate 18 (CHR 4)"
definition new_vault :: address where "new_vault = ''proglk2:vaultproglk2:wallet'' @ replicate 5 (CHR 4)"

lemma migration_kit_sha [simp]: "k_sha256 migration_kit = k_sha256 sample_kit"
  by (simp add: migration_kit_def)

lemma migration_kit_laws: "sha256_32 migration_kit"
  using sample_kit_laws(3) by (simp add: sha256_32_def)

lemma old_resolves: "resolveOwnerFields migration_kit (mp_owner old_params) = Inr old_fields"
  by (simp add: old_params_def assertByteLength_def assertNonZeroBytes_def sample_key_def list_all_iff)

lemma old_source: "migrate_source migration_kit old_fields ''old'' old_params = Inr old_v1"
  "readV1WalletState old_node old_v1 = Inr (Some \<lparr>vs_ownerAuthType = Some 1, vs_ownerRole = Some 0, vs_vaultLamports = 0\<rparr>)"
  by code_simp+

lemma old_check: "check_source migration_kit old_node old_fields old_params old_v1 = Inr ()"
proof -
  have "map_of old_accounts old_authority = Some \<lparr>ac_owner = ''old'', ac_lamports = 1, ac_data = old_owner_data\<rparr>" by code_simp
  then have "assertV1PasskeyOwner migration_kit old_node old_authority (mp_owner old_params) = Inr ()"
    by (simp add: assertV1PasskeyOwner_def old_resolves Let_def owner_key_def owner_rp_hash_def)
      (simp add: old_owner_data_def u8_slice_def sha256_length [OF sample_kit_laws(3)] sample_key_def)
  then show ?thesis using old_source(2) by (simp add: check_source_def ROLE_OWNER_def)
qed

lemma old_new_addresses:
  "findWalletPda migration_kit (replicate 32 4) ''prog'' = Inr (new_wallet, 0)"
  "findVaultPda migration_kit new_wallet ''prog'' = Inr (new_vault, 0)"
  "map_of old_accounts new_wallet = None"
  by code_simp+

lemma old_destination:
  "choose_destination migration_kit old_node (replicate 32 0) ''prog'' old_fields old_params mints
     = Inr \<lparr>de_wallet = new_wallet, de_seed = Some (replicate 32 4), de_vettedAt = None, de_createFrom = Some (replicate 32 4)\<rparr>"
proof -
  have "signedPasskeyAuthorities migration_kit old_node ''prog'' (mp_owner old_params) = Inr []"
    by (simp add: signedPasskeyAuthorities_def old_resolves)
      (simp add: steady_rows_def old_accounts_def TOKEN_PROGRAM_ADDRESS_def)
  moreover have "mp_userSeed old_params = None" "mp_destinationUserSeed old_params = Some (replicate 32 4)"
    by (simp_all add: old_params_def)
  ultimately show ?thesis
    by (simp add: choose_destination_def named_destination_def reusable_wallet_def old_new_addresses isSystemAccount_def)
qed

lemma old_tokens: "enumerateV1VaultTokens migration_kit old_node old_vault = Inr [old_token]"
  "classifyV1VaultTokens migration_kit old_node [old_token] [] = Inr \<lparr>cf_movable = [old_token], cf_skipped = []\<rparr>"
  by code_simp+

lemma steady_infos: "\<exists>slot. readAccounts (steady_node K accounts now) addresses m = Inr (slot, map (map_of accounts) addresses)"
proof -
  let ?at = "case m of None \<Rightarrow> now | Some k \<Rightarrow> max k now"
  have "rmap (\<lambda>page. atOrAfterSlot (nr_multiple (steady_node K accounts now) page m)) pgs
      = Inr (map (\<lambda>page. (?at, map (map_of accounts) page)) pgs)" for pgs
    by (simp add: atOrAfterSlot_def retry_slot.simps rmap_Inr_iff list_all2_conv_all_nth)
  moreover have "concat (map snd (map (\<lambda>page. (?at, map (map_of accounts) page)) (pages addresses))) = map (map_of accounts) addresses"
    by (simp add: comp_def flip: map_concat)
  ultimately show ?thesis by (simp add: readAccounts_def)
qed

lemma old_dest: "\<exists>dest. getAssociatedTokenAddress migration_kit old_mint new_vault TOKEN_PROGRAM_ADDRESS = Inr dest \<and> map_of old_accounts dest = None"
proof -
  have "case getAssociatedTokenAddress migration_kit old_mint new_vault TOKEN_PROGRAM_ADDRESS of
      Inr d \<Rightarrow> map_of old_accounts d = None | Inl _ \<Rightarrow> False" by code_simp
  then show ?thesis by (auto split: sum.splits)
qed

lemma old_plan: "plan_tokens migration_kit old_node old_vault new_vault None [] = Inr ([old_token], [])"
proof -
  obtain dest where d: "getAssociatedTokenAddress migration_kit old_mint new_vault TOKEN_PROGRAM_ADDRESS = Inr dest" "map_of old_accounts dest = None"
    using old_dest by blast
  have "dest_state migration_kit old_node new_vault None [old_token] = Inr []"
    using steady_infos [of migration_kit old_accounts 7 "[dest]" None]
    by (auto simp: dest_state_def dest_page_def d dest_entry_def isSystemAccount_def pages.simps [of "[_]"] pages.simps [of "[]"])
  then show ?thesis by (simp add: plan_tokens_def old_tokens split_tokens_def rigged_def Let_def)
qed

lemma old_creation: "\<exists>cw. createWallet migration_kit (\<lambda>_. Inr None) 0 ''payer'' (replicate 32 4) (mp_owner old_params) old_client = (Inr cw, old_client)"
proof -
  have "case createWallet migration_kit (\<lambda>_. Inr None) 0 ''payer'' (replicate 32 4) (mp_owner old_params) old_client of
      (Inr d, c) \<Rightarrow> cl_programId c = ''prog'' \<and> \<not> cl_protocolFees c \<and> cl_protocolConfig c = None \<and> cl_registeredPayers c = {}
    | _ \<Rightarrow> False" by code_simp
  then show ?thesis by (auto simp: new_client_def split: prod.splits sum.splits)
qed

lemma old_migrates:
  "\<exists>m c'. migrateV1Wallet migration_kit old_node (\<lambda>_. Inr None) 0 (replicate 32 0) (\<lambda>_ _. Inr ([], 100, 6)) old_params old_client = (Inr m, c')
     \<and> mg_v1 m = old_v1 \<and> mg_destinationWallet m = new_wallet \<and> mg_v2Vault m = new_vault \<and> mg_tokens m = [old_token]"
proof -
  obtain cw where cw: "createWallet migration_kit (\<lambda>_. Inr None) 0 ''payer'' (replicate 32 4) (mp_owner old_params) old_client = (Inr cw, old_client)"
    using old_creation by blast
  obtain dest where d: "getAssociatedTokenAddress migration_kit old_mint new_vault TOKEN_PROGRAM_ADDRESS = Inr dest" using old_dest by blast
  have p: "mp_payer old_params = ''payer''" "mp_owner old_params = OwnerSecp256r1 (replicate 32 9) sample_key ''rp''"
    "mp_excludeTokenAccounts old_params = []" "mp_watchMints old_params = []" "v1_program ''prog'' old_params = ''old''"
    "assert_not_retired ''prog'' = Inr ()" "cl_programId old_client = ''prog''"
    by (simp_all add: old_params_def v1_program_def assert_not_retired_def PROGRAM_ID_MAINNET_V1_def PROGRAM_ID_DEVNET_V1_def new_client_def)
  show ?thesis
    using old_resolves cw
    by (simp add: migrateV1Wallet_def Let_def sbind_eq_Inr pure_def p old_source(1) old_check old_destination old_new_addresses
        old_plan watchedMints_def token_pair_def d migrate_step_of_def migrate_payload_def buildPasskeySigning_def prepareSecp256r1_eq)
qed

theorem migration_accepted_as_signed_witness:
  "\<exists>m c' challenge finalize instructions.
     migrateV1Wallet migration_kit old_node (\<lambda>_. Inr None) 0 (replicate 32 0) (\<lambda>_ _. Inr ([], 100, 6)) old_params old_client = (Inr m, c')
     \<and> mg_migrate m = MigrateSecp256r1 challenge finalize \<and> finalize w_response = Inr instructions
     \<and> program_verdict migration_kit True (\<lambda>_ _ _. Inr ()) 120 None
         \<lparr>sa_wallet = k_encAddr migration_kit old_wallet, sa_counter = 5, sa_pubkey = sample_key\<rparr> instructions = Inr 6"
proof -
  obtain m c' where m: "migrateV1Wallet migration_kit old_node (\<lambda>_. Inr None) 0 (replicate 32 0) (\<lambda>_ _. Inr ([], 100, 6)) old_params old_client
      = (Inr m, c')" and v1: "mg_v1 m = old_v1" using old_migrates by blast
  have owner: "mp_owner old_params = OwnerSecp256r1 (replicate 32 9) sample_key ''rp''" by (simp add: old_params_def)
  have resp: "response_wf migration_kit w_response" using w_response_wf by (simp add: response_wf_def)
  have chain: "chain_ok migration_kit \<lparr>rs_authorityPda = v1_authority (mg_v1 m), rs_publicKeyBytes = sample_key, rs_slot = 100, rs_counter = 6\<rparr>
      (v1_wallet (mg_v1 m)) 120 \<lparr>sa_wallet = k_encAddr migration_kit old_wallet, sa_counter = 5, sa_pubkey = sample_key\<rparr>"
    by (simp add: chain_ok_def v1 MAX_SLOT_AGE_def sample_key_def)
  show ?thesis
    using migration_accepted_as_signed [OF migration_kit_laws resp m owner refl chain, of True "\<lambda>_ _ _. Inr ()" None] m
    by (auto simp: accepts_as_signed_def)
qed

end
