(* ===== verification/MigrationSafety.thy ===== *)
theory MigrationSafety
  imports Migration
begin

text \<open>
  Where a migration lands: nothing is lost on the way, and nothing is delivered into a wallet or a
  token account that someone else can empty.
\<close>

section \<open>A vetted wallet\<close>

text \<open>The destination as a candidate of discovery, whose one authority sits at \<open>a\<close>.\<close>

definition vetted_candidate :: "address \<Rightarrow> address \<Rightarrow> address \<Rightarrow> bytes \<Rightarrow> address \<Rightarrow> passkey_wallet_candidate" where
  "vetted_candidate programId wallet vault key a =
     \<lparr>c_version = 2, c_programId = programId, c_walletPda = wallet, c_vaultPda = vault, c_authorityPda = a, c_publicKey = key\<rparr>"

lemma vetted_candidate_sel [simp]:
  "c_version (vetted_candidate p w v k a) = 2" "c_programId (vetted_candidate p w v k a) = p"
  "c_walletPda (vetted_candidate p w v k a) = w" "c_vaultPda (vetted_candidate p w v k a) = v"
  "c_authorityPda (vetted_candidate p w v k a) = a" "c_publicKey (vetted_candidate p w v k a) = k"
  by (simp_all add: vetted_candidate_def)

lemma expired_session: "\<not> expiryAt d 72 \<ge> slot \<Longrightarrow> live_session_of K trusted slot (a, d) = []"
  by (auto simp: expiryAt_def live_session_of_def Let_def split: if_splits)

lemma expired_deferred: "\<not> expiryAt d 168 \<ge> slot \<Longrightarrow> pending_deferred_of K slot (a, d) = []"
  by (auto simp: expiryAt_def pending_deferred_of_def Let_def split: if_splits)

lemma no_grants:
  assumes "vaultTokenGrants K vault spl t22 (map (\<lambda>i. (atas ! i, mints ! i, info_at infos i)) [0..<length atas]) {} = []"
  shows "\<forall>r \<in> set spl. list_all tg_trusted (grants_of_account K TOKEN_PROGRAM_ADDRESS vault {} r)"
    "\<forall>r \<in> set t22. list_all tg_trusted (grants_of_account K TOKEN_2022_PROGRAM_ADDRESS vault {} r)"
    "\<forall>i < length atas. list_all tg_trusted (grants_of_watched K vault {} (atas ! i, [], info_at infos i))"
proof -
  show "\<forall>r \<in> set spl. list_all tg_trusted (grants_of_account K TOKEN_PROGRAM_ADDRESS vault {} r)"
    "\<forall>r \<in> set t22. list_all tg_trusted (grants_of_account K TOKEN_2022_PROGRAM_ADDRESS vault {} r)"
    using assms by (auto simp: vaultTokenGrants_def grantsOn_def)
  have "grants_of_watched K vault {} (atas ! i, mints ! i, info_at infos i) = []" if "i < length atas" for i
    using assms that by (auto simp: vaultTokenGrants_def)
  then show "\<forall>i < length atas. list_all tg_trusted (grants_of_watched K vault {} (atas ! i, [], info_at infos i))"
    by (metis (no_types) watched_trusted_mint list.pred_inject(1))
qed

lemma vet_problem_None:
  assumes "vet_problem K programId f slot vault atas mints s = None"
  shows "isLiveWallet programId 2 (info_at (ss_infos s) 0)" "length (ss_authorities s) = 1"
    "u8_at (snd (ss_authorities s ! 0)) 1 = Some (word_of_int (of_authType f))"
    "u8_at (snd (ss_authorities s ! 0)) 2 = Some (word_of_int ROLE_OWNER)"
    "of_authType f = AUTH_TYPE_SECP256R1 \<Longrightarrow> bytesEqual (u8_slice (snd (ss_authorities s ! 0)) 80 113) (owner_key f)"
    "of_authType f = AUTH_TYPE_SECP256R1 \<Longrightarrow> bytesEqual (u8_slice (snd (ss_authorities s ! 0)) 113 145) (owner_rp_hash K f)"
    "\<not> list_ex (\<lambda>x. expiryAt (snd x) 72 \<ge> slot) (ss_sessions s)" "\<not> list_ex (\<lambda>x. expiryAt (snd x) 168 \<ge> slot) (ss_deferred s)"
    "isSystemAccount (info_at (ss_infos s) 1)"
    "vaultTokenGrants K vault (ss_spl s) (ss_token2022 s)
       (map (\<lambda>i. (atas ! i, mints ! i, info_at (drop 2 (ss_infos s)) i)) [0..<length atas]) {} = []"
  using assms by (simp_all add: vet_problem_def Let_def split: if_splits list.splits)

lemma vetted_wallet_sound:
  assumes node: "answers_from K chain rpc" and now: "nr_getSlot rpc = Inr slot"
    and fresh: "\<forall>p fs n t rows. nr_scan rpc p fs None n = Inr (t, rows) \<longrightarrow> slot \<le> t"
    and K: "sha256_32 K"
    and vet: "vetDestination K rpc programId wallet (OwnerSecp256r1 credential key rpId) mints = Inr v" and clean: "ve_problem v = None"
    and vault: "findVaultPda K wallet programId = Inr (vault, bump)"
    and flows: "\<forall>a. power_flows K (vetted_candidate programId wallet vault key a) {} slot chain"
  shows "\<exists>a. \<exists>t \<ge> slot. \<forall>s \<in> power_sites K (vetted_candidate programId wallet vault key a) mints.
    \<not> untrusted_at K (vetted_candidate programId wallet vault key a) {} slot chain t s"
proof -
  let ?f = "\<lparr>of_authType = AUTH_TYPE_SECP256R1, of_credentialOrPubkey = credential, of_secp256r1Pubkey = Some key, of_rpId = Some rpId\<rparr>"
  obtain atas s where f: "resolveOwnerFields K (OwnerSecp256r1 credential key rpId) = Inr ?f"
    and atas: "watchedAtasOf K vault mints = Inr atas"
    and s: "readSpendingState K rpc programId wallet vault (OWNERSHIP_DISCS 2) (wallet # vault # atas) = Inr s"
    and v: "vet_problem K programId ?f slot vault atas mints s = None"
    using vet now vault clean by (auto simp: vetDestination_def rbind_eq_Inr split: option.splits)
  note no = vet_problem_None [OF v]
  have one: "length (ss_authorities s) = 1" using no by simp
  then obtain a own where au: "ss_authorities s = [(a, own)]" by (auto simp: length_Suc_conv)
  let ?c = "vetted_candidate programId wallet vault key a"
  have own: "u8_at own 1 = Some (word_of_int AUTH_TYPE_SECP256R1)" "u8_at own 2 = Some (word_of_int ROLE_OWNER)"
    "bytesEqual (u8_slice own 80 113) key" "bytesEqual (u8_slice own 113 145) (owner_rp_hash K ?f)"
    using no au by (auto simp: owner_key_def)
  have "length (u8_slice own 113 145) = 32" using own(4) sha256_length [OF K] by (simp add: owner_rp_hash_def)
  then have "length own \<ge> 145" by (simp add: u8_slice_def)
  then have intact: "own_intact ?c own" using own by (simp add: own_intact_def)
  have live: "\<not> list_ex (\<lambda>x. expiryAt (snd x) 72 \<ge> slot) (ss_sessions s)" "\<not> list_ex (\<lambda>x. expiryAt (snd x) 168 \<ge> slot) (ss_deferred s)"
    "isSystemAccount (info_at (ss_infos s) 1)" using no by simp_all
  have grants: "vaultTokenGrants K vault (ss_spl s) (ss_token2022 s)
      (map (\<lambda>i. (atas ! i, mints ! i, info_at (drop 2 (ss_infos s)) i)) [0..<length atas]) {} = []" using no by simp
  note g = no_grants [OF grants]
  have "\<forall>r \<in> set (ss_sessions s). list_all ls_trusted (live_session_of K {} slot r)"
    "\<forall>r \<in> set (ss_deferred s). pending_deferred_of K slot r = []"
    using live(1,2) by (auto simp: list_ex_iff expired_session expired_deferred)
  moreover have "map_of (ss_authorities s) (c_authorityPda ?c) = Some own" by (simp add: au)
  moreover have "\<forall>r \<in> set (ss_authorities s). fst r \<noteq> c_authorityPda ?c \<longrightarrow> oa_trusted (other_authority_of K {} None r)" by (simp add: au)
  ultimately have "\<exists>t \<ge> slot. \<forall>x \<in> power_sites K ?c mints. \<not> untrusted_at K ?c {} slot chain t x"
    using clean_state_sound [OF node flows [rule_format, of a] fresh, of mints atas s own] atas s intact live(3) g by simp
  then show ?thesis by blast
qed

section \<open>Token accounts\<close>

lemma split_tokens_partition:
  assumes "split_tokens destState c = (tokens, skipped)"
  shows "mset (tokens @ map fst skipped) = mset (cf_movable c @ map fst (cf_skipped c))"
    "set tokens \<subseteq> set (cf_movable c @ map fst (filter (\<lambda>s. snd s = R_frozen_on_arrival) (cf_skipped c)))"
proof -
  have split: "mset (filter P xs) + mset (filter (\<lambda>x. \<not> P x) xs) = mset xs" for P and xs :: "'x list"
    by (induction xs) auto
  have split': "mset (map g (filter P xs)) + mset (map g (filter (\<lambda>x. \<not> P x) xs)) = mset (map g xs)"
    for P g and xs :: "(v1_vault_token \<times> unmovable_reason) list" by (induction xs) auto
  let ?on = "filter (\<lambda>s. snd s = R_frozen_on_arrival) (cf_skipped c)"
  let ?fr = "\<lambda>t. case map_of destState (vt_ata t) of Some d \<Rightarrow> da_frozen d | None \<Rightarrow> False"
  let ?th = "\<lambda>t. case map_of destState (vt_ata t) of Some d \<Rightarrow> \<not> da_frozen d | None \<Rightarrow> False"
  have t: "tokens = filter (\<lambda>t. \<not> ?fr t) (cf_movable c) @ map fst (filter (\<lambda>s. ?th (fst s)) ?on)"
    "skipped = filter (\<lambda>s. snd s \<noteq> R_frozen_on_arrival) (cf_skipped c)
      @ map (\<lambda>t. (t, R_destination_frozen)) (filter ?fr (cf_movable c)) @ filter (\<lambda>s. \<not> ?th (fst s)) ?on"
    using assms by (auto simp: split_tokens_def Let_def)
  show "set tokens \<subseteq> set (cf_movable c @ map fst ?on)" by (auto simp: t(1))
  have "mset (cf_movable c) = mset (filter (\<lambda>t. \<not> ?fr t) (cf_movable c)) + mset (filter ?fr (cf_movable c))"
    using split [of ?fr "cf_movable c"] by (simp add: add.commute)
  moreover have "mset (map fst (cf_skipped c)) = mset (map fst (filter (\<lambda>s. snd s \<noteq> R_frozen_on_arrival) (cf_skipped c))) + mset (map fst ?on)"
    using split' [of fst "\<lambda>s. snd s = R_frozen_on_arrival" "cf_skipped c"] by (simp add: add.commute)
  moreover have "mset (map fst ?on) = mset (map fst (filter (\<lambda>s. ?th (fst s)) ?on)) + mset (map fst (filter (\<lambda>s. \<not> ?th (fst s)) ?on))"
    using split' [of fst "\<lambda>s. ?th (fst s)" ?on] by simp
  ultimately show "mset (tokens @ map fst skipped) = mset (cf_movable c @ map fst (cf_skipped c))"
    unfolding t by (simp add: comp_def del: filter_filter)
qed

text \<open>What is known of an existing destination account when the tokens are chosen.\<close>

lemma map_of_dest_entry:
  "map_of (dest_entry K v2Vault (t, dest, info) acc) k =
    (if k = vt_ata t \<and> \<not> isSystemAccount info
     then Some \<lparr>da_dest = dest, da_frozen = tokenAccountFrozen (ac_data (the info)),
       da_problem = destinationTokenAccountProblem K dest (the info) (vt_tokenProgram t) v2Vault\<rparr>
     else map_of acc k)"
  by (simp add: dest_entry_def)

lemma dest_entries_other:
  "k \<notin> vt_ata ` fst ` set es \<Longrightarrow> map_of (fold (dest_entry K v2Vault) es acc) k = map_of acc k"
  by (induction es arbitrary: acc) (auto simp: map_of_dest_entry)

lemma dest_entries:
  assumes "distinct (map (vt_ata \<circ> fst) es)" "(t, dest, info) \<in> set es" "map_of acc (vt_ata t) = None"
  shows "map_of (fold (dest_entry K v2Vault) es acc) (vt_ata t) =
    (if isSystemAccount info then None
     else Some \<lparr>da_dest = dest, da_frozen = tokenAccountFrozen (ac_data (the info)),
       da_problem = destinationTokenAccountProblem K dest (the info) (vt_tokenProgram t) v2Vault\<rparr>)"
  using assms
proof (induction es arbitrary: acc)
  case (Cons e es)
  show ?case
  proof (cases "e = (t, dest, info)")
    case True
    have "vt_ata t \<notin> vt_ata ` fst ` set es" using Cons.prems(1) True by (auto simp: image_comp)
    then show ?thesis
      using True Cons.prems(3) dest_entries_other [of "vt_ata t" es K v2Vault "dest_entry K v2Vault e acc"] by (simp add: map_of_dest_entry)
  next
    case False
    then have mem: "(t, dest, info) \<in> set es" using Cons.prems(2) by simp
    moreover have "vt_ata t \<noteq> vt_ata (fst e)"
    proof
      assume "vt_ata t = vt_ata (fst e)"
      then have "(vt_ata \<circ> fst) e \<in> (vt_ata \<circ> fst) ` set es" using imageI [OF mem, of "vt_ata \<circ> fst"] by simp
      then show False using Cons.prems(1) by (simp only: list.map distinct.simps set_map) blast
    qed
    ultimately show ?thesis using Cons.IH [of "dest_entry K v2Vault e acc"] Cons.prems
      by (cases e) (auto simp: map_of_dest_entry)
  qed
qed simp

lemma dest_page_rows:
  assumes node: "answers_from K chain rpc" and ok: "dest_page K rpc v2Vault vettedAt page = Inr part"
  shows "map fst part = page"
    "(t, dest, info) \<in> set part \<Longrightarrow> getAssociatedTokenAddress K (vt_mint t) v2Vault (vt_tokenProgram t) = Inr dest
      \<and> (\<exists>sp. at_floor vettedAt sp \<and> info = chain sp dest)"
proof -
  obtain dests slot infos where d: "list_all2 (\<lambda>t dest. getAssociatedTokenAddress K (vt_mint t) v2Vault (vt_tokenProgram t) = Inr dest) page dests"
    and r: "readAccounts rpc dests vettedAt = Inr (slot, infos)" and part: "part = zip page (zip dests infos)"
    using ok by (auto simp: dest_page_def rbind_eq_Inr rmap_Inr_iff)
  have len: "length infos = length dests" "length dests = length page"
    using readAccounts_length [OF node r] d by (auto dest: list_all2_lengthD)
  then show "map fst part = page" by (simp add: part)
  assume "(t, dest, info) \<in> set part"
  then obtain i where i: "i < length page" "t = page ! i" "dest = dests ! i" "info = infos ! i"
    using len by (auto simp: part in_set_zip)
  moreover have "\<exists>sp. at_floor vettedAt sp \<and> info_at infos i = chain sp (dests ! i)"
    using readAccounts_provenance [OF node r, of i] i len by auto
  ultimately show "getAssociatedTokenAddress K (vt_mint t) v2Vault (vt_tokenProgram t) = Inr dest
      \<and> (\<exists>sp. at_floor vettedAt sp \<and> info = chain sp dest)"
    using d len by (auto simp: list_all2_conv_all_nth info_at_def)
qed

lemma dest_state_known:
  assumes node: "answers_from K chain rpc" and ok: "dest_state K rpc v2Vault vettedAt toCheck = Inr destState"
    and once: "distinct (map vt_ata toCheck)" and t: "t \<in> set toCheck"
  shows "\<exists>dest sp. getAssociatedTokenAddress K (vt_mint t) v2Vault (vt_tokenProgram t) = Inr dest \<and> at_floor vettedAt sp
    \<and> map_of destState (vt_ata t) = (if isSystemAccount (chain sp dest) then None
        else Some \<lparr>da_dest = dest, da_frozen = tokenAccountFrozen (ac_data (the (chain sp dest))),
          da_problem = destinationTokenAccountProblem K dest (the (chain sp dest)) (vt_tokenProgram t) v2Vault\<rparr>)"
proof -
  obtain parts where parts: "list_all2 (\<lambda>page part. dest_page K rpc v2Vault vettedAt page = Inr part) (pages toCheck) parts"
    and ds: "destState = fold (dest_entry K v2Vault) (concat parts) []"
    using ok by (auto simp: dest_state_def rbind_eq_Inr rmap_Inr_iff)
  have fsts: "map fst (concat parts) = concat pgs" if "list_all2 (\<lambda>page part. dest_page K rpc v2Vault vettedAt page = Inr part) pgs parts" for pgs
    using that by (induction rule: list_all2_induct) (auto simp: dest_page_rows(1) [OF node])
  then have m: "map fst (concat parts) = toCheck" using fsts [OF parts] by simp
  then obtain dest info where e: "(t, dest, info) \<in> set (concat parts)" using t by fastforce
  then obtain part where "part \<in> set parts" "(t, dest, info) \<in> set part" by auto
  then have row: "getAssociatedTokenAddress K (vt_mint t) v2Vault (vt_tokenProgram t) = Inr dest
      \<and> (\<exists>sp. at_floor vettedAt sp \<and> info = chain sp dest)"
    using parts dest_page_rows(2) [OF node] by (auto simp: list_all2_conv_all_nth in_set_conv_nth [of _ parts])
  have "distinct (map (vt_ata \<circ> fst) (concat parts))" using once m by (metis map_map)
  from dest_entries [OF this e, of "[]" K v2Vault] row show ?thesis by (auto simp: ds)
qed

lemma plan_tokens_safe:
  assumes node: "answers_from K chain rpc" and plan: "plan_tokens K rpc v1Vault v2Vault vettedAt exclude = Inr (tokens, skipped)"
    and enum: "enumerateV1VaultTokens K rpc v1Vault = Inr all" and once: "distinct (map vt_ata all)"
  shows "mset (tokens @ map fst skipped) = mset all"
    "t \<in> set tokens \<Longrightarrow> \<exists>dest sp. getAssociatedTokenAddress K (vt_mint t) v2Vault (vt_tokenProgram t) = Inr dest \<and> at_floor vettedAt sp
      \<and> (isSystemAccount (chain sp dest) \<or> (\<exists>i. chain sp dest = Some i \<and> \<not> tokenAccountFrozen (ac_data i)
          \<and> destinationTokenAccountProblem K dest i (vt_tokenProgram t) v2Vault = None))"
proof -
  obtain cl ds where cl: "classifyV1VaultTokens K rpc all exclude = Inr cl"
    and ds: "dest_state K rpc v2Vault vettedAt (cf_movable cl @ map fst (filter (\<lambda>s. snd s = R_frozen_on_arrival) (cf_skipped cl))) = Inr ds"
    and sp: "split_tokens ds cl = (tokens, skipped)" and rig: "rigged ds tokens = []"
    by (rule plan_tokens_parts [OF plan]) (use enum in auto)
  note part = classify_partition [OF cl]
  show "mset (tokens @ map fst skipped) = mset all" using split_tokens_partition(1) [OF sp] part by simp
  have "mset (map vt_ata (cf_movable cl @ map fst (cf_skipped cl))) = mset (map vt_ata all)" using part by (metis mset_map)
  then have "distinct (map vt_ata (cf_movable cl @ map fst (cf_skipped cl)))" using once by (metis mset_eq_imp_distinct_iff)
  then have dis: "distinct (map vt_ata (cf_movable cl @ map fst (filter (\<lambda>s. snd s = R_frozen_on_arrival) (cf_skipped cl))))"
    by (auto simp: distinct_map_filter comp_def)
  assume t: "t \<in> set tokens"
  then obtain dest sp' where known: "getAssociatedTokenAddress K (vt_mint t) v2Vault (vt_tokenProgram t) = Inr dest" "at_floor vettedAt sp'"
    "map_of ds (vt_ata t) = (if isSystemAccount (chain sp' dest) then None
        else Some \<lparr>da_dest = dest, da_frozen = tokenAccountFrozen (ac_data (the (chain sp' dest))),
          da_problem = destinationTokenAccountProblem K dest (the (chain sp' dest)) (vt_tokenProgram t) v2Vault\<rparr>)"
    using dest_state_known [OF node ds dis, of t] split_tokens_partition(2) [OF sp] by blast
  have "\<not> (case map_of ds (vt_ata t) of Some d \<Rightarrow> da_frozen d | None \<Rightarrow> False)" using t sp by (auto simp: split_tokens_def Let_def split: option.splits)
  moreover have "\<not> (case map_of ds (vt_ata t) of Some d \<Rightarrow> da_problem d \<noteq> None | None \<Rightarrow> False)"
    using t rig by (auto simp: rigged_def filter_empty_conv)
  moreover have "\<not> isSystemAccount (chain sp' dest) \<Longrightarrow> \<exists>i. chain sp' dest = Some i" by (cases "chain sp' dest") (auto simp: isSystemAccount_def)
  ultimately show "\<exists>dest sp. getAssociatedTokenAddress K (vt_mint t) v2Vault (vt_tokenProgram t) = Inr dest \<and> at_floor vettedAt sp
      \<and> (isSystemAccount (chain sp dest) \<or> (\<exists>i. chain sp dest = Some i \<and> \<not> tokenAccountFrozen (ac_data i)
          \<and> destinationTokenAccountProblem K dest i (vt_tokenProgram t) v2Vault = None))"
    using known by (intro exI [of _ dest] exI [of _ sp']) (auto split: if_splits)
qed

section \<open>The whole migration\<close>

lemma named_destination_seed:
  assumes "named_destination K rpc random programId f p mints = Inr (w, seed, vettedAt)" "vettedAt = None"
  shows "\<exists>sd bump. seed = Some sd \<and> findWalletPda K sd programId = Inr (w, bump)"
proof (cases "mp_userSeed p")
  case None
  then obtain reuse where "reusable_wallet K rpc programId f p mints = Inr reuse"
    using assms by (auto simp: named_destination_def rbind_eq_Inr)
  then show ?thesis using assms None by (cases reuse) (auto simp: named_destination_def rbind_eq_Inr Let_def)
next
  case (Some sd)
  show ?thesis using assms(1) unfolding named_destination_def Some by (auto simp: rbind_eq_Inr)
qed

lemma choose_destination_vetted:
  assumes "choose_destination K rpc random programId f p mints = Inr d"
  shows "(\<exists>seed bump. de_createFrom d = Some seed \<and> findWalletPda K seed programId = Inr (de_wallet d, bump))
    \<or> (\<exists>v. vetDestination K rpc programId (de_wallet d) (mp_owner p) mints = Inr v \<and> ve_problem v = None)"
proof -
  obtain w seed vettedAt where n: "named_destination K rpc random programId f p mints = Inr (w, seed, vettedAt)"
    using assms by (auto simp: choose_destination_def rbind_eq_Inr)
  show ?thesis
  proof (cases vettedAt)
    case None
    have "\<exists>sd bump. seed = Some sd \<and> findWalletPda K sd programId = Inr (w, bump)"
      using n None by (rule named_destination_seed)
    then show ?thesis using assms n None by (auto simp: choose_destination_def rbind_eq_Inr split: if_splits)
  next
    case (Some sl)
    then have "reusable_wallet K rpc programId f p mints = Inr (Some (w, sl))"
      using n by (auto simp: named_destination_def rbind_eq_Inr Let_def split: option.splits)
    then show ?thesis using assms n Some by (auto simp: choose_destination_def reusable_wallet_def rbind_eq_Inr split: if_splits)
  qed
qed

lemma createWallet_addresses:
  assumes "fst (createWallet K feeRpc rand payer seed owner c) = Inr cw"
  shows "\<exists>b b'. findWalletPda K seed (cl_programId c) = Inr (cw_walletPda cw, b)
    \<and> findVaultPda K (cw_walletPda cw) (cl_programId c) = Inr (cw_vaultPda cw, b')"
proof -
  obtain c' where "createWallet K feeRpc rand payer seed owner c = (Inr cw, c')" using assms by (metis prod.collapse)
  then show ?thesis by (auto simp: createWallet_def Let_def sbind_eq_Inr pure_def rbind_eq_Inr)
qed

text \<open>Where the funds go: to a wallet the setup creates, or to one vetted at the slot read or later.\<close>

lemma destination_created_or_vetted:
  assumes "sha256_32 K" "answers_from K chain rpc" "nr_getSlot rpc = Inr slot"
    and "\<forall>p fs n t rows. nr_scan rpc p fs None n = Inr (t, rows) \<longrightarrow> slot \<le> t"
    and mints: "watchedMints K (mp_watchMints p) = Inr mints"
    and d: "choose_destination K rpc random programId f p mints = Inr d"
    and vault: "findVaultPda K (de_wallet d) programId = Inr (vault, bump)"
    and program: "programId = cl_programId c"
    and creation: "fst ((case de_createFrom d of
        Some seed \<Rightarrow> sbind (createWallet K feeRpc rand (mp_payer p) seed (mp_owner p)) (\<lambda>cw. pure (Inr (cw_instructions cw)))
      | None \<Rightarrow> pure (Inr [])) c) = Inr creation"
    and passkey: "mp_owner p = OwnerSecp256r1 credential key rpId"
    and flows: "\<forall>a. power_flows K (vetted_candidate programId (de_wallet d) vault key a) {} slot chain"
  shows "(\<exists>seed cw. fst (createWallet K feeRpc rand (mp_payer p) seed (mp_owner p) c) = Inr cw
        \<and> cw_walletPda cw = de_wallet d \<and> cw_vaultPda cw = vault \<and> creation = cw_instructions cw)
     \<or> (\<exists>a t mints. slot \<le> t \<and> set WATCHED_MINTS \<union> set (mp_watchMints p) \<subseteq> set mints
        \<and> (\<forall>s \<in> power_sites K (vetted_candidate programId (de_wallet d) vault key a) mints.
            \<not> untrusted_at K (vetted_candidate programId (de_wallet d) vault key a) {} slot chain t s))"
proof -
  consider seed b where "de_createFrom d = Some seed" "findWalletPda K seed programId = Inr (de_wallet d, b)"
    | v where "vetDestination K rpc programId (de_wallet d) (mp_owner p) mints = Inr v" "ve_problem v = None"
    using choose_destination_vetted [OF d] by metis
  then show ?thesis
  proof cases
    case 1
    then obtain cw where cw: "fst (createWallet K feeRpc rand (mp_payer p) seed (mp_owner p) c) = Inr cw" "creation = cw_instructions cw"
      using creation by (auto simp: sbind_def pure_def split: prod.splits sum.splits)
    then show ?thesis using createWallet_addresses [OF cw(1)] 1(2) vault program by auto
  next
    case 2
    then show ?thesis
      using vetted_wallet_sound [OF assms(2-4,1) 2(1) [unfolded passkey] 2(2) vault flows] watchedMints_default [OF mints] by blast
  qed
qed



end
