(* ===== verification/DeferredPayload.thy ===== *)
theory DeferredPayload
  imports Passkey Json
begin

text \<open>
  The text a deferred execution travels in between its two transactions: \<open>serializeDeferredPayload\<close>
  and \<open>deserializeDeferredPayload\<close> of \<open>types.ts\<close>. The reader checks the shape of the outer object and
  the version and hands the rest on as it finds it, so a parsed payload keeps JSON values where the
  code keeps them untyped.
\<close>

section \<open>The two functions\<close>

definition DEFERRED_PAYLOAD_VERSION :: int where "DEFERRED_PAYLOAD_VERSION = 2"

text \<open>A member that is \<open>undefined\<close> is left out of the text.\<close>

definition optional_member :: "string \<Rightarrow> address option \<Rightarrow> (string \<times> json) list" where
  "optional_member k v = (case v of Some a \<Rightarrow> [(k, JStr a)] | None \<Rightarrow> [])"

definition compact_json :: "kit \<Rightarrow> compact_instruction \<Rightarrow> json" where
  "compact_json K ix = JObj [(''programIdIndex'', json_int (programIdIndex ix)),
     (''accountIndexes'', JArr (map json_int (accountIndexes ix))), (''data'', JStr (k_base64 K (ci_data ix)))]"

definition account_json :: "account_meta \<Rightarrow> json" where
  "account_json a = JObj [(''address'', JStr (am_address a)), (''role'', json_int (role_num (am_role a)))]"

definition payload_json :: "kit \<Rightarrow> deferred_payload \<Rightarrow> json" where
  "payload_json K p = JObj ([(''version'', json_int DEFERRED_PAYLOAD_VERSION),
     (''walletPda'', JStr (dp_walletPda p)), (''deferredExecPda'', JStr (dp_deferredExecPda p)),
     (''compactInstructions'', JArr (map (compact_json K) (dp_compactInstructions p))),
     (''remainingAccounts'', JArr (map account_json (dp_remainingAccounts p)))]
     @ optional_member ''executor'' (dp_executor p) @ optional_member ''refundDestination'' (dp_refundDestination p))"

definition serializeDeferredPayload :: "kit \<Rightarrow> deferred_payload \<Rightarrow> string" where
  "serializeDeferredPayload K p = JSON_stringify (payload_json K p)"

record parsed_payload =
  pp_walletPda :: address
  pp_deferredExecPda :: address
  pp_compactInstructions :: "(json option \<times> json option \<times> bytes) list"
  pp_remainingAccounts :: "(json option \<times> json option) list"
  pp_executor :: "address option"
  pp_refundDestination :: "address option"

definition parsed_compact :: "kit \<Rightarrow> json \<Rightarrow> (json option \<times> json option \<times> bytes) result" where
  "parsed_compact K ix =
     rbind (json_get ix ''programIdIndex'') (\<lambda>p. rbind (json_get ix ''accountIndexes'') (\<lambda>as.
     rbind (json_get ix ''data'') (\<lambda>d.
     rbind (case d of Some (JStr s) \<Rightarrow> k_unbase64 K s | _ \<Rightarrow> Inl (TypeError ''data is not a string'')) (\<lambda>bs.
     Inr (p, as, bs)))))"

definition parsed_account :: "json \<Rightarrow> (json option \<times> json option) result" where
  "parsed_account a = rbind (json_get a ''address'') (\<lambda>x. rbind (json_get a ''role'') (\<lambda>r. Inr (x, r)))"

definition checked_address :: "kit \<Rightarrow> json option \<Rightarrow> address option result" where
  "checked_address K v = (case v of
     Some (JStr s) \<Rightarrow> if k_isAddress K s then Inr (Some s) else Inl (LibError ''ADDRESSES__INVALID_BASE58_ENCODED_ADDRESS'')
   | _ \<Rightarrow> Inr None)"

text \<open>The shape the reader asks for: the members it goes on with.\<close>

definition json_string :: "json option \<Rightarrow> string option" where
  "json_string v = (case v of Some (JStr s) \<Rightarrow> Some s | _ \<Rightarrow> None)"

definition json_array :: "json option \<Rightarrow> json list option" where
  "json_array v = (case v of Some (JArr vs) \<Rightarrow> Some vs | _ \<Rightarrow> None)"

definition payload_shape :: "json \<Rightarrow> ((string \<times> json) list \<times> string \<times> string \<times> json list \<times> json list) option" where
  "payload_shape v = (case v of
     JObj ms \<Rightarrow>
       (case (json_string (map_of ms ''walletPda''), json_string (map_of ms ''deferredExecPda''),
              json_array (map_of ms ''compactInstructions''), json_array (map_of ms ''remainingAccounts'')) of
          (Some w, Some d, Some cs, Some rs) \<Rightarrow>
            if (map_of ms ''executor'' \<noteq> None \<and> json_string (map_of ms ''executor'') = None)
               \<or> (map_of ms ''refundDestination'' \<noteq> None \<and> json_string (map_of ms ''refundDestination'') = None)
            then None else Some (ms, w, d, cs, rs)
        | _ \<Rightarrow> None)
   | _ \<Rightarrow> None)"

definition deserializeDeferredPayload :: "kit \<Rightarrow> string \<Rightarrow> parsed_payload result" where
  "deserializeDeferredPayload K serialized =
     rbind (JSON_parse serialized) (\<lambda>v.
     case payload_shape v of
       None \<Rightarrow> Inl (Error ''Invalid DeferredPayload JSON shape'')
     | Some (ms, walletPda, deferredExecPda, cs, rs) \<Rightarrow>
         if map_of ms ''version'' \<noteq> Some (json_int DEFERRED_PAYLOAD_VERSION)
         then Inl (Error ''DeferredPayload is of another version'')
         else
           rbind (rmap (parsed_compact K) cs) (\<lambda>compactInstructions.
           rbind (rmap parsed_account rs) (\<lambda>remainingAccounts.
           rbind (checked_address K (map_of ms ''executor'')) (\<lambda>executor.
           rbind (checked_address K (map_of ms ''refundDestination'')) (\<lambda>refundDestination.
           Inr \<lparr>pp_walletPda = walletPda, pp_deferredExecPda = deferredExecPda,
                pp_compactInstructions = compactInstructions, pp_remainingAccounts = remainingAccounts,
                pp_executor = executor, pp_refundDestination = refundDestination\<rparr>)))))"

section \<open>Reading the values at their declared types\<close>

definition int_of_json :: "json \<Rightarrow> int option" where
  "int_of_json v = (case v of JNum m e \<Rightarrow> if e \<ge> 0 then Some (m * 10 ^ nat e) else None | _ \<Rightarrow> None)"

definition ints_of_json :: "json \<Rightarrow> int list option" where
  "ints_of_json v = (case v of JArr vs \<Rightarrow> those (map int_of_json vs) | _ \<Rightarrow> None)"

definition typed_compact :: "json option \<times> json option \<times> bytes \<Rightarrow> compact_instruction option" where
  "typed_compact c = (case c of
     (Some p, Some as, bs) \<Rightarrow> (case (int_of_json p, ints_of_json as) of
       (Some p, Some as) \<Rightarrow> Some \<lparr>programIdIndex = p, accountIndexes = as, ci_data = bs\<rparr> | _ \<Rightarrow> None)
   | _ \<Rightarrow> None)"

definition role_of_json :: "json \<Rightarrow> account_role option" where
  "role_of_json v = (case int_of_json v of
     Some n \<Rightarrow> if 0 \<le> n \<and> n \<le> 3 then Some (role_of_num n) else None | None \<Rightarrow> None)"

definition typed_account :: "json option \<times> json option \<Rightarrow> account_meta option" where
  "typed_account a = (case a of
     (Some (JStr x), Some r) \<Rightarrow> map_option (\<lambda>r. \<lparr>am_address = x, am_role = r\<rparr>) (role_of_json r) | _ \<Rightarrow> None)"

definition typed_payload :: "parsed_payload \<Rightarrow> deferred_payload option" where
  "typed_payload q = (case (those (map typed_compact (pp_compactInstructions q)), those (map typed_account (pp_remainingAccounts q))) of
     (Some cs, Some rs) \<Rightarrow> Some \<lparr>dp_walletPda = pp_walletPda q, dp_deferredExecPda = pp_deferredExecPda q,
        dp_compactInstructions = cs, dp_remainingAccounts = rs, dp_executor = pp_executor q,
        dp_refundDestination = pp_refundDestination q\<rparr>
   | _ \<Rightarrow> None)"

section \<open>The round trip\<close>

lemma payload_shape_object: "payload_shape v = Some (ms, r) \<Longrightarrow> v = JObj ms"
  by (cases v) (auto simp: payload_shape_def split: option.splits if_splits)

lemma int_of_json_int [simp]: "int_of_json (json_int n) = Some n"
  by (rule norm_num_cases [of n 0]) (auto simp: json_int_def int_of_json_def)

lemma json_wf_int: "\<bar>n\<bar> < 10 ^ 21 \<Longrightarrow> json_wf (json_int n)"
  by (rule norm_num_cases [of n 0]) (auto simp: json_int_def intro: exI [of _ n])

lemma those_Some [simp]: "those (map Some xs) = Some xs"
  by (induction xs) auto

lemma those_map: "(\<And>x. x \<in> set xs \<Longrightarrow> f x = Some (g x)) \<Longrightarrow> those (map f xs) = Some (map g xs)"
  by (induction xs) auto

definition payload_wf :: "kit \<Rightarrow> deferred_payload \<Rightarrow> bool" where
  "payload_wf K p \<longleftrightarrow>
     list_all (\<lambda>ix. 0 \<le> programIdIndex ix \<and> programIdIndex ix < 256
       \<and> list_all (\<lambda>i. 0 \<le> i \<and> i < 256) (accountIndexes ix)) (dp_compactInstructions p)
     \<and> (\<forall>a \<in> set_option (dp_executor p) \<union> set_option (dp_refundDestination p). k_isAddress K a)"

lemma payload_json_wf:
  assumes "payload_wf K p"
  shows "json_wf (payload_json K p)"
proof -
  have small: "json_wf (json_int n)" if "0 \<le> n" "n < 256" for n using that by (intro json_wf_int) simp
  have role: "json_wf (json_int (role_num r))" for r by (cases r) (auto intro: json_wf_int)
  have c: "json_wf (compact_json K ix)" if "ix \<in> set (dp_compactInstructions p)" for ix
    using that assms small by (auto simp: compact_json_def payload_wf_def list_all_iff)
  have "json_wf (account_json a)" for a using role by (simp add: account_json_def)
  then show ?thesis using c small [of DEFERRED_PAYLOAD_VERSION]
    by (auto simp: payload_json_def optional_member_def DEFERRED_PAYLOAD_VERSION_def list_all_iff split: option.splits)
qed

lemma parsed_compact_json:
  "base64_codec K \<Longrightarrow> parsed_compact K (compact_json K ix)
    = Inr (Some (json_int (programIdIndex ix)), Some (JArr (map json_int (accountIndexes ix))), ci_data ix)"
  by (simp add: parsed_compact_def compact_json_def json_get_def base64_codec_def)

lemma parsed_account_json:
  "parsed_account (account_json a) = Inr (Some (JStr (am_address a)), Some (json_int (role_num (am_role a))))"
  by (simp add: parsed_account_def account_json_def json_get_def)

lemma typed_back:
  "typed_compact (Some (json_int (programIdIndex ix)), Some (JArr (map json_int (accountIndexes ix))), ci_data ix) = Some ix"
  "typed_account (Some (JStr (am_address a)), Some (json_int (role_num (am_role a)))) = Some a"
proof -
  have "those (map int_of_json (map json_int (accountIndexes ix))) = Some (accountIndexes ix)"
    using those_map [of "accountIndexes ix" "\<lambda>n. int_of_json (json_int n)" id] by (simp add: comp_def)
  then show "typed_compact (Some (json_int (programIdIndex ix)), Some (JArr (map json_int (accountIndexes ix))), ci_data ix)
      = Some ix"
    by (simp add: typed_compact_def ints_of_json_def)
  have "role_of_json (json_int (role_num r)) = Some r" for r
    by (cases r) (simp_all add: role_of_json_def role_of_num_def)
  then show "typed_account (Some (JStr (am_address a)), Some (json_int (role_num (am_role a)))) = Some a"
    by (simp add: typed_account_def)
qed

text \<open>
  A deferred payload survives its transport. A payload whose indexes are bytes and whose
  executor and refund destination are addresses is read back, at its declared types, from the text it
  was written to; and no text of another version is ever accepted, whatever else it holds.
\<close>

theorem deferred_payload_transport:
  assumes K: "base64_codec K" and wf: "payload_wf K p"
  shows "rbind (deserializeDeferredPayload K (serializeDeferredPayload K p)) (\<lambda>q. Inr (typed_payload q)) = Inr (Some p)
    \<and> (deserializeDeferredPayload K text = Inr q \<longrightarrow>
        (\<exists>ms. JSON_parse text = Inr (JObj ms) \<and> map_of ms ''version'' = Some (json_int DEFERRED_PAYLOAD_VERSION)))"
proof (intro conjI impI)
  let ?ms = "case payload_json K p of JObj ms \<Rightarrow> ms"
  have parse: "JSON_parse (serializeDeferredPayload K p) = Inr (payload_json K p)"
    using JSON_parse_stringify [OF payload_json_wf [OF wf]] by (simp add: serializeDeferredPayload_def)
  have shape: "payload_shape (payload_json K p) = Some (?ms, dp_walletPda p, dp_deferredExecPda p,
      map (compact_json K) (dp_compactInstructions p), map account_json (dp_remainingAccounts p))"
    by (simp add: payload_shape_def payload_json_def optional_member_def json_string_def json_array_def split: option.split)
  have ver: "map_of ?ms ''version'' = Some (json_int DEFERRED_PAYLOAD_VERSION)" by (simp add: payload_json_def)
  have opt: "checked_address K (map_of ?ms ''executor'') = Inr (dp_executor p)"
    "checked_address K (map_of ?ms ''refundDestination'') = Inr (dp_refundDestination p)"
    using wf by (auto simp: payload_json_def optional_member_def checked_address_def payload_wf_def split: option.split)
  have cs: "rmap (parsed_compact K) (map (compact_json K) (dp_compactInstructions p))
      = Inr (map (\<lambda>ix. (Some (json_int (programIdIndex ix)), Some (JArr (map json_int (accountIndexes ix))), ci_data ix))
          (dp_compactInstructions p))"
    by (simp add: rmap_map parsed_compact_json [OF K] rmap_total)
  have rs: "rmap parsed_account (map account_json (dp_remainingAccounts p))
      = Inr (map (\<lambda>a. (Some (JStr (am_address a)), Some (json_int (role_num (am_role a))))) (dp_remainingAccounts p))"
    by (simp add: rmap_map parsed_account_json rmap_total)
  have tb: "those (map (\<lambda>ix. typed_compact (Some (json_int (programIdIndex ix)),
        Some (JArr (map json_int (accountIndexes ix))), ci_data ix)) (dp_compactInstructions p)) = Some (dp_compactInstructions p)"
    "those (map (\<lambda>a. typed_account (Some (JStr (am_address a)), Some (json_int (role_num (am_role a)))))
        (dp_remainingAccounts p)) = Some (dp_remainingAccounts p)"
    by (simp_all add: typed_back)
  show "rbind (deserializeDeferredPayload K (serializeDeferredPayload K p)) (\<lambda>q. Inr (typed_payload q)) = Inr (Some p)"
    unfolding deserializeDeferredPayload_def parse rbind_Inr shape
    by (simp add: ver opt cs rs typed_payload_def comp_def tb)
  assume ok: "deserializeDeferredPayload K text = Inr q"
  then obtain v where v: "JSON_parse text = Inr v" by (auto simp: deserializeDeferredPayload_def rbind_eq_Inr)
  then obtain ms w d cs rs where sh: "payload_shape v = Some (ms, w, d, cs, rs)"
    using ok by (cases "payload_shape v") (auto simp: deserializeDeferredPayload_def)
  then show "\<exists>ms. JSON_parse text = Inr (JObj ms) \<and> map_of ms ''version'' = Some (json_int DEFERRED_PAYLOAD_VERSION)"
    using ok v payload_shape_object [OF sh] by (auto simp: deserializeDeferredPayload_def split: if_splits)
qed

theorem deferred_payload_transport_witness:
  "let p = \<lparr>dp_walletPda = ''w'', dp_deferredExecPda = ''d'',
        dp_compactInstructions = [\<lparr>programIdIndex = 7, accountIndexes = [131, 2], ci_data = [1, 34]\<rparr>],
        dp_remainingAccounts = [\<lparr>am_address = ''x'', am_role = WRITABLE_SIGNER\<rparr>], dp_executor = None,
        dp_refundDestination = Some (replicate 32 (CHR ''r''))\<rparr>
   in rbind (deserializeDeferredPayload sample_kit (serializeDeferredPayload sample_kit p)) (\<lambda>q. Inr (typed_payload q)) = Inr (Some p)"
  unfolding Let_def
  by (rule deferred_payload_transport [THEN conjunct1])
    (simp_all add: sample_kit_laws payload_wf_def, simp add: sample_kit_def)

end
