(* ===== verification/Relayer.thy ===== *)
theory Relayer
  imports Pdas
begin

text \<open>
  The relayer under \<open>deploy/relayer/src\<close>, which pays for other people's transactions: what it will
  sponsor (\<open>allowlist.mjs\<close>), how it reads and signs version 1 transactions (\<open>txv1.mjs\<close>), and the two
  stages of its policy (\<open>policy.mjs\<close>). A transaction is the decoded \<open>VersionedTransaction\<close> of
  web3.js. A refusal is a \<open>policy_error\<close>; of its message the rule, the instruction and the error
  code are kept.
\<close>

section \<open>Programs\<close>

definition LAZORKIT_V2_DEVNET :: address where "LAZORKIT_V2_DEVNET = ''57bTNWqtYTJbWuLWASKo6GqUTAK6oFDUR5c6hEc6V8nv''"
definition RELAY_SYSTEM_PROGRAM :: address where "RELAY_SYSTEM_PROGRAM = ''11111111111111111111111111111111''"
definition RELAY_TOKEN_PROGRAM :: address where "RELAY_TOKEN_PROGRAM = ''TokenkegQfeZyiNwAJbNbGKPFXCWuBvf9Ss623VQ5DA''"
definition RELAY_TOKEN_2022_PROGRAM :: address where "RELAY_TOKEN_2022_PROGRAM = ''TokenzQdBNbLqP5VEhdkAS6EPFLC1PHnBqCXEpPxuEb''"
definition ATA_PROGRAM :: address where "ATA_PROGRAM = ''ATokenGPvbdGVxr1b2hvZbsiqW5xWH25efTNsLJA8knL''"
definition COMPUTE_BUDGET_PROGRAM :: address where "COMPUTE_BUDGET_PROGRAM = ''ComputeBudget111111111111111111111111111111''"
definition ALT_PROGRAM :: address where "ALT_PROGRAM = ''AddressLookupTab1e1111111111111111111111111''"
definition RELAY_SECP256R1_PROGRAM :: address where "RELAY_SECP256R1_PROGRAM = ''Secp256r1SigVerify1111111111111111111111111''"

lemmas program_defs = LAZORKIT_V2_DEVNET_def RELAY_SYSTEM_PROGRAM_def RELAY_TOKEN_PROGRAM_def RELAY_TOKEN_2022_PROGRAM_def
  ATA_PROGRAM_def COMPUTE_BUDGET_PROGRAM_def ALT_PROGRAM_def RELAY_SECP256R1_PROGRAM_def

definition ALLOWED_PROGRAMS :: "(address \<times> string) list" where
  "ALLOWED_PROGRAMS =
     [(LAZORKIT_V2_DEVNET, ''LazorKit v2''), (RELAY_SECP256R1_PROGRAM, ''Secp256r1''), (RELAY_SYSTEM_PROGRAM, ''System''),
      (RELAY_TOKEN_PROGRAM, ''Token''), (RELAY_TOKEN_2022_PROGRAM, ''Token-2022''), (ATA_PROGRAM, ''ATA''),
      (COMPUTE_BUDGET_PROGRAM, ''ComputeBudget''), (ALT_PROGRAM, ''ALT'')]"

definition allowed :: "address \<Rightarrow> bool" where "allowed p = jsmap_has ALLOWED_PROGRAMS p"

definition REQUIRE_ONE_OF :: "address list" where "REQUIRE_ONE_OF = [LAZORKIT_V2_DEVNET]"

definition KNOWN_OTHER :: "(address \<times> string) list" where
  "KNOWN_OTHER =
     [(''4h3XoNReAgEcHVxcZ8sw2aufi9MTr7BbvYYjzjWDyDxS'', ''LazorKit v1 (not allowed)''),
      (''MemoSq4gqABAXKb96qnH8TysNcWxMyWCqXgDLGmfcHr'', ''Memo (not allowed)''),
      (''Memo1UhkJRfHyvLMcVucJwxXeuD728EqVDDwQDxFMNo'', ''Memo v1 (not allowed)''),
      (''Ed25519SigVerify111111111111111111111111111'', ''Ed25519 precompile (not allowed)''),
      (''KeccakSecp256k11111111111111111111111111111'', ''Secp256k1 precompile (not allowed)''),
      (''BPFLoaderUpgradeab1e11111111111111111111111'', ''BPF Upgradeable Loader (not allowed)'')]"

definition programLabel :: "address \<Rightarrow> string" where
  "programLabel p = (case map_of ALLOWED_PROGRAMS p of Some l \<Rightarrow> l
     | None \<Rightarrow> (case map_of KNOWN_OTHER p of Some l \<Rightarrow> l | None \<Rightarrow> p))"

section \<open>Version 1 transactions on the wire\<close>

definition TX_V1_PREFIX :: byte where "TX_V1_PREFIX = 0x81"
definition TX_V1_MAX_BYTES :: nat where "TX_V1_MAX_BYTES = 4096"
definition TX_V1_MAX_ADDRESSES :: nat where "TX_V1_MAX_ADDRESSES = 64"
definition MAX_COMPUTE_UNIT_LIMIT :: int where "MAX_COMPUTE_UNIT_LIMIT = 1400000"
definition MAX_LOADED_ACCOUNTS_DATA_SIZE_LIMIT :: int where "MAX_LOADED_ACCOUNTS_DATA_SIZE_LIMIT = 64 * 1024 * 1024"
definition SIGNATURE_BYTES :: nat where "SIGNATURE_BYTES = 64"
definition ADDRESS_BYTES :: nat where "ADDRESS_BYTES = 32"
definition ADDRESSES_AT :: nat where "ADDRESSES_AT = 42"
definition CONFIG_MASK_AT :: nat where "CONFIG_MASK_AT = 4"
definition ADDRESS_COUNT_AT :: nat where "ADDRESS_COUNT_AT = 41"
definition PRIORITY_FEE_BITS :: int where "PRIORITY_FEE_BITS = 3"

lemmas txv1_defs = SIGNATURE_BYTES_def ADDRESS_BYTES_def ADDRESSES_AT_def

definition isTxV1 :: "bytes \<Rightarrow> bool" where
  "isTxV1 raw \<longleftrightarrow> length raw > 0 \<and> raw ! 0 = TX_V1_PREFIX"

text \<open>The number of signers and the length of the message; lengths are integers, as the difference can be negative.\<close>

definition txV1Layout :: "bytes \<Rightarrow> (nat \<times> nat) result" where
  "txV1Layout raw =
     (if \<not> isTxV1 raw then Inl (Error ''txv1: not a v1 transaction (the first byte is not 0x81)'')
      else let signers = (if length raw > 1 then unat (raw ! 1) else 0);
               messageLength = int (length raw) - int (SIGNATURE_BYTES * signers) in
        if messageLength < int (ADDRESSES_AT + ADDRESS_BYTES)
        then Inl (Error ''txv1: the bytes cannot hold a message and its signatures'')
        else Inr (signers, nat messageLength))"

definition txV1PriorityFee :: "bytes \<Rightarrow> int option" where
  "txV1PriorityFee raw =
     (if \<not> isTxV1 raw \<or> length raw < ADDRESSES_AT then None
      else if le_val (u8_slice raw CONFIG_MASK_AT (CONFIG_MASK_AT + 4)) AND PRIORITY_FEE_BITS \<noteq> PRIORITY_FEE_BITS then None
      else let at = ADDRESSES_AT + ADDRESS_BYTES * unat (raw ! ADDRESS_COUNT_AT) in
        if length raw < at + 8 then None else Some (le_val (u8_slice raw at (at + 8))))"

definition txV1Signature :: "bytes \<Rightarrow> nat \<Rightarrow> bytes result" where
  "txV1Signature raw index =
     rbind (txV1Layout raw) (\<lambda>(signers, messageLength).
     if index \<ge> signers then Inl (Error ''txv1: no such signature slot'')
     else let at = messageLength + SIGNATURE_BYTES * index in Inr (u8_slice raw at (at + SIGNATURE_BYTES)))"

text \<open>\<open>pubkey\<close> and \<open>sign\<close> are the relayer's key: its 32 bytes and its Ed25519 signature of a message.\<close>

definition signTxV1AsFeePayer :: "bytes \<Rightarrow> bytes \<Rightarrow> (bytes \<Rightarrow> bytes) \<Rightarrow> bytes result" where
  "signTxV1AsFeePayer raw pubkey sign =
     rbind (txV1Layout raw) (\<lambda>(signers, messageLength).
     if signers < 1 then Inl (Error ''txv1: the transaction requires no signatures, so its fee payer cannot sign'')
     else if u8_slice raw ADDRESSES_AT (ADDRESSES_AT + ADDRESS_BYTES) \<noteq> pubkey
     then Inl (Error ''txv1: the fee payer (address 0) is not the relayer'')
     else u8_set raw (sign (take messageLength raw)) messageLength)"

section \<open>Transactions and refusals\<close>

record compiled_ix =
  cx_program :: nat
  cx_accounts :: "nat list"
  cx_data :: bytes

record tx_config =
  tc_computeUnitLimit :: "int option"
  tc_loadedAccountsDataSizeLimit :: "int option"
  tc_heapSize :: "int option"
  tc_priorityFee :: "int option"

datatype tx_version = Legacy | Version nat

record vtx =
  x_version :: tx_version
  x_keys :: "address list"
  x_numRequiredSignatures :: int
  x_numReadonlySignedAccounts :: int
  x_instructions :: "compiled_ix list"
  x_config :: tx_config
  x_blockhash :: string

datatype tx_err = NamedError string | InstructionError nat "int option"

record policy_error =
  pe_code :: int
  pe_rule :: string
  pe_index :: "nat option"
  pe_reason :: "string option"
  pe_err :: "tx_err option"

type_synonym 'a answer = "policy_error + 'a"

definition abind :: "'a answer \<Rightarrow> ('a \<Rightarrow> 'b answer) \<Rightarrow> 'b answer" where
  "abind m f = (case m of Inl e \<Rightarrow> Inl e | Inr x \<Rightarrow> f x)"

lemma abind_simps [simp]: "abind (Inl e) f = Inl e" "abind (Inr x) f = f x"
  by (simp_all add: abind_def)

lemma abind_Inr: "abind m f = Inr y \<longleftrightarrow> (\<exists>x. m = Inr x \<and> f x = Inr y)"
  by (cases m) simp_all

definition ERR_INVALID_PARAMS :: int where "ERR_INVALID_PARAMS = -32602"
definition ERR_REJECTED :: int where "ERR_REJECTED = -32003"
definition ERR_SIMULATION_FAILED :: int where "ERR_SIMULATION_FAILED = -32004"
definition ERR_SEND_FAILED :: int where "ERR_SEND_FAILED = -32005"
definition ERR_RATE_LIMITED :: int where "ERR_RATE_LIMITED = -32029"
definition ERR_TX_V1_DISABLED :: int where "ERR_TX_V1_DISABLED = -32051"
definition MIN_CONTEXT_SLOT_NOT_REACHED :: int where "MIN_CONTEXT_SLOT_NOT_REACHED = -32016"

definition refusal :: "int \<Rightarrow> string \<Rightarrow> policy_error" where
  "refusal code rule = \<lparr>pe_code = code, pe_rule = rule, pe_index = None, pe_reason = None, pe_err = None\<rparr>"

definition reject :: "string \<Rightarrow> 'a answer" where
  "reject rule = Inl (refusal ERR_REJECTED rule)"

definition reject_at :: "string \<Rightarrow> nat \<Rightarrow> 'a answer" where
  "reject_at rule i = Inl ((refusal ERR_REJECTED rule)\<lparr>pe_index := Some i\<rparr>)"

definition key_of :: "vtx \<Rightarrow> nat \<Rightarrow> address option" where
  "key_of tx i = (if i < length (x_keys tx) then Some (x_keys tx ! i) else None)"

section \<open>Stage 1: the message\<close>

definition SYSTEM_FEE_PAYER_ALLOWED :: "int set" where "SYSTEM_FEE_PAYER_ALLOWED = {0, 2, 3}"

definition system_kind :: "bytes \<Rightarrow> int" where
  "system_kind data = (if length data \<ge> 4 then le_val (u8_slice data 0 4) else -1)"

definition inspect_instruction :: "vtx \<Rightarrow> nat \<Rightarrow> compiled_ix \<Rightarrow> address answer" where
  "inspect_instruction tx i ix = (case key_of tx (cx_program ix) of
     None \<Rightarrow> reject_at ''program_not_allowed'' i
   | Some programId \<Rightarrow>
       if \<not> allowed programId then reject_at ''program_not_allowed'' i
       else let touchesPayer = (0 \<in> set (cx_accounts ix)); kind = system_kind (cx_data ix) in
         if programId = RELAY_SYSTEM_PROGRAM then
           if kind = 4 then reject_at ''durable_nonce'' i
           else if touchesPayer \<and> kind \<notin> SYSTEM_FEE_PAYER_ALLOWED then reject_at ''fee_payer_policy'' i
           else Inr programId
         else if touchesPayer \<and> programId \<in> {RELAY_TOKEN_PROGRAM, RELAY_TOKEN_2022_PROGRAM, ALT_PROGRAM}
         then reject_at ''fee_payer_policy'' i
         else Inr programId)"

fun inspect_instructions :: "vtx \<Rightarrow> nat \<Rightarrow> compiled_ix list \<Rightarrow> address list answer" where
  "inspect_instructions tx i [] = Inr []"
| "inspect_instructions tx i (ix # ixs) =
     abind (inspect_instruction tx i ix) (\<lambda>p. abind (inspect_instructions tx (Suc i) ixs) (\<lambda>ps. Inr (p # ps)))"

definition checkTxV1PriorityFee :: "int option \<Rightarrow> int \<Rightarrow> unit answer" where
  "checkTxV1PriorityFee priorityFee maxPriorityFeeLamports = (case priorityFee of
     None \<Rightarrow> Inr ()
   | Some fee \<Rightarrow> if fee \<le> maxPriorityFeeLamports then Inr () else reject ''tx_v1_priority_fee'')"

definition check_limit :: "int option \<Rightarrow> int \<Rightarrow> string \<Rightarrow> unit answer" where
  "check_limit value most rule = (case value of
     None \<Rightarrow> reject rule
   | Some v \<Rightarrow> if v = 0 \<or> v > most then reject rule else Inr ())"

fun no_compute_budget :: "vtx \<Rightarrow> nat \<Rightarrow> compiled_ix list \<Rightarrow> unit answer" where
  "no_compute_budget tx i [] = Inr ()"
| "no_compute_budget tx i (ix # ixs) =
     (if key_of tx (cx_program ix) = Some COMPUTE_BUDGET_PROGRAM then reject_at ''tx_v1_compute_budget_instruction'' i
      else no_compute_budget tx (Suc i) ixs)"

fun precompile_order :: "vtx \<Rightarrow> nat \<Rightarrow> compiled_ix list \<Rightarrow> unit answer" where
  "precompile_order tx i [] = Inr ()"
| "precompile_order tx i (ix # ixs) =
     (if key_of tx (cx_program ix) = Some RELAY_SECP256R1_PROGRAM
        \<and> (case ixs of [] \<Rightarrow> True | nxt # _ \<Rightarrow> key_of tx (cx_program nxt) \<noteq> Some LAZORKIT_V2_DEVNET)
      then reject_at ''tx_v1_precompile_order'' i
      else precompile_order tx (Suc i) ixs)"

record tx_v1_summary =
  t1_computeUnitLimit :: "int option"
  t1_loadedAccountsDataSizeLimit :: "int option"
  t1_priorityFee :: int

definition inspectTxV1 :: "vtx \<Rightarrow> bytes option \<Rightarrow> int \<Rightarrow> tx_v1_summary answer" where
  "inspectTxV1 tx raw maxPriorityFeeLamports =
     (let config = x_config tx in
      abind (case raw of None \<Rightarrow> reject ''tx_v1_size''
             | Some b \<Rightarrow> if length b > TX_V1_MAX_BYTES then reject ''tx_v1_size'' else Inr ()) (\<lambda>_.
      abind (if length (x_keys tx) > TX_V1_MAX_ADDRESSES then reject ''tx_v1_size'' else Inr ()) (\<lambda>_.
      abind (if x_numRequiredSignatures tx < 1 \<or> x_numReadonlySignedAccounts tx \<ge> x_numRequiredSignatures tx
             then reject ''fee_payer'' else Inr ()) (\<lambda>_.
      abind (check_limit (tc_computeUnitLimit config) MAX_COMPUTE_UNIT_LIMIT ''tx_v1_compute_unit_limit'') (\<lambda>_.
      abind (check_limit (tc_loadedAccountsDataSizeLimit config) MAX_LOADED_ACCOUNTS_DATA_SIZE_LIMIT
               ''tx_v1_loaded_accounts_data_size_limit'') (\<lambda>_.
      abind (if tc_heapSize config \<noteq> None then reject ''tx_v1_heap_size'' else Inr ()) (\<lambda>_.
      let priorityFee = (case tc_priorityFee config of Some fee \<Rightarrow> fee | None \<Rightarrow> 0) in
      abind (checkTxV1PriorityFee (Some priorityFee) maxPriorityFeeLamports) (\<lambda>_.
      abind (no_compute_budget tx 0 (x_instructions tx)) (\<lambda>_.
      abind (precompile_order tx 0 (x_instructions tx)) (\<lambda>_.
      Inr \<lparr>t1_computeUnitLimit = tc_computeUnitLimit config,
           t1_loadedAccountsDataSizeLimit = tc_loadedAccountsDataSizeLimit config,
           t1_priorityFee = priorityFee\<rparr>))))))))))"

record policy_options =
  po_relayer :: address
  po_signerKey :: "address option"
  po_maxSignatures :: int
  po_requireLazorkit :: bool
  po_raw :: "bytes option"
  po_maxPriorityFeeLamports :: int

record tx_summary =
  su_feePayer :: "address option"
  su_numSigs :: int
  su_programs :: "address list"
  su_version :: tx_version
  su_txV1 :: "tx_v1_summary option"

definition inspectTransaction :: "vtx \<Rightarrow> policy_options \<Rightarrow> tx_summary answer" where
  "inspectTransaction tx po =
     (let feePayer = key_of tx 0; numSigs = x_numRequiredSignatures tx in
      abind (if feePayer \<noteq> Some (po_relayer po) then reject ''fee_payer'' else Inr ()) (\<lambda>_.
      abind (case po_signerKey po of Some k \<Rightarrow> if k \<noteq> po_relayer po then reject ''signer_key'' else Inr () | None \<Rightarrow> Inr ()) (\<lambda>_.
      abind (if numSigs > po_maxSignatures po then reject ''max_signatures'' else Inr ()) (\<lambda>_.
      abind (if x_instructions tx = [] then reject ''empty'' else Inr ()) (\<lambda>_.
      abind (inspect_instructions tx 0 (x_instructions tx)) (\<lambda>programs.
      abind (if po_requireLazorkit po \<and> \<not> list_ex (\<lambda>p. p \<in> set REQUIRE_ONE_OF) programs
             then reject ''require_one_of_programs'' else Inr ()) (\<lambda>_.
      abind (if x_version tx = Version 1
             then abind (inspectTxV1 tx (po_raw po) (po_maxPriorityFeeLamports po)) (\<lambda>s. Inr (Some s)) else Inr None) (\<lambda>txV1.
      Inr \<lparr>su_feePayer = feePayer, su_numSigs = numSigs, su_programs = programs, su_version = x_version tx,
           su_txV1 = txV1\<rparr>))))))))"

section \<open>What stage 1 lets through\<close>

text \<open>An instruction the relayer sponsors, and what it makes of the fee payer's account.\<close>

definition sponsored_instruction :: "vtx \<Rightarrow> compiled_ix \<Rightarrow> bool" where
  "sponsored_instruction tx ix \<longleftrightarrow> (\<exists>p. key_of tx (cx_program ix) = Some p \<and> p \<in> fst ` set ALLOWED_PROGRAMS
     \<and> (p = RELAY_SYSTEM_PROGRAM \<longrightarrow> system_kind (cx_data ix) \<noteq> 4
          \<and> (0 \<in> set (cx_accounts ix) \<longrightarrow> system_kind (cx_data ix) \<in> {0, 2, 3}))
     \<and> (p \<in> {RELAY_TOKEN_PROGRAM, RELAY_TOKEN_2022_PROGRAM, ALT_PROGRAM} \<longrightarrow> 0 \<notin> set (cx_accounts ix)))"

text \<open>A version 1 transaction that pays only for work it declares.\<close>

definition sponsored_v1 :: "vtx \<Rightarrow> bytes option \<Rightarrow> int \<Rightarrow> bool" where
  "sponsored_v1 tx raw fee_cap \<longleftrightarrow>
     (\<exists>b. raw = Some b \<and> length b \<le> 4096) \<and> length (x_keys tx) \<le> 64
     \<and> 1 \<le> x_numRequiredSignatures tx \<and> x_numReadonlySignedAccounts tx < x_numRequiredSignatures tx
     \<and> (\<exists>cu. tc_computeUnitLimit (x_config tx) = Some cu \<and> cu \<noteq> 0 \<and> cu \<le> 1400000)
     \<and> (\<exists>lad. tc_loadedAccountsDataSizeLimit (x_config tx) = Some lad \<and> lad \<noteq> 0 \<and> lad \<le> 67108864)
     \<and> tc_heapSize (x_config tx) = None
     \<and> (case tc_priorityFee (x_config tx) of Some fee \<Rightarrow> fee | None \<Rightarrow> 0) \<le> fee_cap
     \<and> (\<forall>i < length (x_instructions tx). key_of tx (cx_program (x_instructions tx ! i)) \<noteq> Some COMPUTE_BUDGET_PROGRAM)
     \<and> (\<forall>i < length (x_instructions tx). key_of tx (cx_program (x_instructions tx ! i)) = Some RELAY_SECP256R1_PROGRAM \<longrightarrow>
          Suc i < length (x_instructions tx)
          \<and> key_of tx (cx_program (x_instructions tx ! Suc i)) = Some LAZORKIT_V2_DEVNET)"

lemma inspect_instruction_iff: "inspect_instruction tx i ix = Inr p \<longleftrightarrow> sponsored_instruction tx ix \<and> key_of tx (cx_program ix) = Some p"
proof -
  have other: "RELAY_SYSTEM_PROGRAM \<notin> {RELAY_TOKEN_PROGRAM, RELAY_TOKEN_2022_PROGRAM, ALT_PROGRAM}" by (simp add: program_defs)
  have al: "allowed q \<longleftrightarrow> q \<in> fst ` set ALLOWED_PROGRAMS" for q
    by (auto simp: allowed_def jsmap_has_def map_of_eq_None_iff)
  show ?thesis
    using other
    by (auto simp: inspect_instruction_def sponsored_instruction_def reject_at_def Let_def al SYSTEM_FEE_PAYER_ALLOWED_def
        split: option.splits)
qed

lemma inspect_instructions_iff:
  "inspect_instructions tx i ixs = Inr ps \<longleftrightarrow> list_all (sponsored_instruction tx) ixs
     \<and> map (\<lambda>ix. key_of tx (cx_program ix)) ixs = map Some ps"
  by (induction ixs arbitrary: i ps) (auto simp: abind_Inr inspect_instruction_iff)

lemma no_compute_budget_iff:
  "no_compute_budget tx i ixs = Inr () \<longleftrightarrow> (\<forall>ix \<in> set ixs. key_of tx (cx_program ix) \<noteq> Some COMPUTE_BUDGET_PROGRAM)"
  by (induction ixs arbitrary: i) (auto simp: reject_at_def)

lemma precompile_order_iff:
  "precompile_order tx i ixs = Inr () \<longleftrightarrow> (\<forall>j < length ixs. key_of tx (cx_program (ixs ! j)) = Some RELAY_SECP256R1_PROGRAM \<longrightarrow>
     Suc j < length ixs \<and> key_of tx (cx_program (ixs ! Suc j)) = Some LAZORKIT_V2_DEVNET)"
proof (induction ixs arbitrary: i)
  case (Cons ix ixs)
  show ?case using Cons [of "Suc i"] by (cases ixs) (simp_all add: reject_at_def All_less_Suc2)
qed simp

lemma check_limit_iff: "check_limit value most rule = Inr () \<longleftrightarrow> (\<exists>v. value = Some v \<and> v \<noteq> 0 \<and> v \<le> most)"
  by (auto simp: check_limit_def reject_def split: option.split)

lemma guard_iff: "(if bad then reject rule else Inr ()) = Inr () \<longleftrightarrow> \<not> bad"
  by (simp add: reject_def)

lemma unit_abind_ok: "(\<exists>s. abind m f = Inr s) \<longleftrightarrow> m = Inr () \<and> (\<exists>s. f () = Inr s)"
  by (auto simp: abind_Inr)

lemma size_check_iff:
  "(case raw of None \<Rightarrow> reject rule | Some b \<Rightarrow> if length b > n then reject rule else Inr ()) = Inr () \<longleftrightarrow> (\<exists>b. raw = Some b \<and> length b \<le> n)"
  by (auto simp: reject_def split: option.split)

lemma fee_iff: "checkTxV1PriorityFee (Some fee) cap = Inr () \<longleftrightarrow> fee \<le> cap"
  by (simp add: checkTxV1PriorityFee_def reject_def)

lemma inspectTxV1_iff: "(\<exists>s. inspectTxV1 tx raw cap = Inr s) \<longleftrightarrow> sponsored_v1 tx raw cap"
  unfolding sponsored_v1_def inspectTxV1_def Let_def unit_abind_ok size_check_iff guard_iff check_limit_iff fee_iff
    no_compute_budget_iff precompile_order_iff all_set_conv_all_nth
  by (simp add: TX_V1_MAX_BYTES_def TX_V1_MAX_ADDRESSES_def MAX_COMPUTE_UNIT_LIMIT_def MAX_LOADED_ACCOUNTS_DATA_SIZE_LIMIT_def
      not_less not_le)

lemma inspectTransaction_passes:
  "(\<exists>s. inspectTransaction tx po = Inr s) \<longleftrightarrow>
     key_of tx 0 = Some (po_relayer po) \<and> (\<forall>k. po_signerKey po = Some k \<longrightarrow> k = po_relayer po)
     \<and> x_numRequiredSignatures tx \<le> po_maxSignatures po \<and> x_instructions tx \<noteq> []
     \<and> (\<forall>ix \<in> set (x_instructions tx). sponsored_instruction tx ix)
     \<and> (po_requireLazorkit po \<longrightarrow> (\<exists>ix \<in> set (x_instructions tx). key_of tx (cx_program ix) = Some LAZORKIT_V2_DEVNET))
     \<and> (x_version tx = Version 1 \<longrightarrow> sponsored_v1 tx (po_raw po) (po_maxPriorityFeeLamports po))"
proof -
  let ?ixs = "x_instructions tx"
  have programs: "(\<exists>s. abind (inspect_instructions tx 0 ?ixs) f = Inr s) \<longleftrightarrow>
      list_all (sponsored_instruction tx) ?ixs \<and> (\<exists>ps. map (\<lambda>ix. key_of tx (cx_program ix)) ?ixs = map Some ps \<and> (\<exists>s. f ps = Inr s))"
    for f :: "address list \<Rightarrow> tx_summary answer"
    by (auto simp: abind_Inr inspect_instructions_iff)
  have ps: "\<exists>ps. map (\<lambda>ix. key_of tx (cx_program ix)) ?ixs = map Some ps" if "list_all (sponsored_instruction tx) ?ixs"
    by (rule exI [of _ "map (\<lambda>ix. the (key_of tx (cx_program ix))) ?ixs"])
      (use that in \<open>auto simp: list_all_iff sponsored_instruction_def\<close>)
  have lk: "list_ex (\<lambda>p. p \<in> set REQUIRE_ONE_OF) ps \<longleftrightarrow> (\<exists>ix \<in> set ?ixs. key_of tx (cx_program ix) = Some LAZORKIT_V2_DEVNET)"
    if "map (\<lambda>ix. key_of tx (cx_program ix)) ?ixs = map Some ps" for ps
  proof -
    have "(\<exists>ix \<in> set ?ixs. key_of tx (cx_program ix) = Some LAZORKIT_V2_DEVNET) \<longleftrightarrow>
        Some LAZORKIT_V2_DEVNET \<in> set (map (\<lambda>ix. key_of tx (cx_program ix)) ?ixs)" by force
    then show ?thesis unfolding that by (auto simp: list_ex_iff REQUIRE_ONE_OF_def)
  qed
  have signer: "(case po_signerKey po of Some k \<Rightarrow> if k \<noteq> po_relayer po then reject r else Inr () | None \<Rightarrow> Inr ()) = Inr () \<longleftrightarrow>
      (\<forall>k. po_signerKey po = Some k \<longrightarrow> k = po_relayer po)" for r
    by (auto simp: reject_def split: option.split)
  have v1: "(\<exists>s. abind (if x_version tx = Version 1
        then abind (inspectTxV1 tx (po_raw po) (po_maxPriorityFeeLamports po)) (\<lambda>s. Inr (Some s)) else Inr None) (\<lambda>x. Inr (f x)) = Inr s) \<longleftrightarrow>
      (x_version tx = Version 1 \<longrightarrow> sponsored_v1 tx (po_raw po) (po_maxPriorityFeeLamports po))" for f :: "tx_v1_summary option \<Rightarrow> tx_summary"
    using inspectTxV1_iff [of tx "po_raw po" "po_maxPriorityFeeLamports po"] by (auto simp: abind_Inr)
  have req: "(\<exists>ps. map (\<lambda>ix. key_of tx (cx_program ix)) ?ixs = map Some ps
        \<and> \<not> (po_requireLazorkit po \<and> \<not> list_ex (\<lambda>p. p \<in> set REQUIRE_ONE_OF) ps) \<and> V) \<longleftrightarrow>
      (po_requireLazorkit po \<longrightarrow> (\<exists>ix \<in> set ?ixs. key_of tx (cx_program ix) = Some LAZORKIT_V2_DEVNET)) \<and> V"
    if "list_all (sponsored_instruction tx) ?ixs" for V
    using ps [OF that] lk by auto
  show ?thesis
    unfolding inspectTransaction_def Let_def unit_abind_ok guard_iff signer programs v1 not_not not_less
    using req by (auto simp: list_all_iff)
qed

text \<open>
  C36. The static policy, exactly. The relayer goes on with a transaction if and only if its fee payer
  is the relayer itself, no other signing key is asked for, it needs no more signatures than allowed,
  it has instructions, each of them calls an allowed program named in the message, none of them
  advances a nonce or uses the fee payer as more than the source of a transfer or of rent, one calls
  LazorKit where that is required, and a version 1 transaction is within the size limits, declares its
  limits, asks for no heap and no priority fee over the cap, has no compute-budget instruction, and
  has every passkey precompile directly before a LazorKit instruction.
\<close>

theorem inspectTransaction_iff:
  "(\<exists>s. inspectTransaction tx po = Inr s) \<longleftrightarrow>
     key_of tx 0 = Some (po_relayer po) \<and> (\<forall>k. po_signerKey po = Some k \<longrightarrow> k = po_relayer po)
     \<and> x_numRequiredSignatures tx \<le> po_maxSignatures po \<and> x_instructions tx \<noteq> []
     \<and> (\<forall>ix \<in> set (x_instructions tx). sponsored_instruction tx ix)
     \<and> (po_requireLazorkit po \<longrightarrow> (\<exists>ix \<in> set (x_instructions tx). key_of tx (cx_program ix) = Some LAZORKIT_V2_DEVNET))
     \<and> (x_version tx = Version 1 \<longrightarrow> sponsored_v1 tx (po_raw po) (po_maxPriorityFeeLamports po))"
  by (rule inspectTransaction_passes)

text \<open>A version 1 transaction of a passkey: the precompile, then LazorKit.\<close>

definition sample_tx :: vtx where
  "sample_tx = \<lparr>x_version = Version 1, x_keys = [''relayer'', LAZORKIT_V2_DEVNET, RELAY_SECP256R1_PROGRAM], x_numRequiredSignatures = 1,
     x_numReadonlySignedAccounts = 0,
     x_instructions = [\<lparr>cx_program = 2, cx_accounts = [], cx_data = []\<rparr>, \<lparr>cx_program = 1, cx_accounts = [0], cx_data = [4]\<rparr>],
     x_config = \<lparr>tc_computeUnitLimit = Some 200000, tc_loadedAccountsDataSizeLimit = Some 65536, tc_heapSize = None, tc_priorityFee = None\<rparr>,
     x_blockhash = ''hash''\<rparr>"

definition sample_policy :: policy_options where
  "sample_policy = \<lparr>po_relayer = ''relayer'', po_signerKey = None, po_maxSignatures = 4, po_requireLazorkit = True,
     po_raw = Some [0x81], po_maxPriorityFeeLamports = 0\<rparr>"

theorem inspectTransaction_iff_witness: "\<exists>s. inspectTransaction sample_tx sample_policy = Inr s"
proof -
  have "sponsored_v1 sample_tx (Some [0x81]) 0"
    by (simp add: sponsored_v1_def sample_tx_def key_of_def program_defs All_less_Suc2 numeral_2_eq_2)
  moreover have "sponsored_instruction sample_tx ix" if "ix \<in> set (x_instructions sample_tx)" for ix
    using that by (auto simp: sponsored_instruction_def sample_tx_def key_of_def ALLOWED_PROGRAMS_def program_defs)
  ultimately show ?thesis
    unfolding inspectTransaction_iff by (auto simp: sample_policy_def) (auto simp: sample_tx_def key_of_def)
qed

end
