(* ===== verification/RelayerSim.thy ===== *)
theory RelayerSim
  imports Relayer
begin

text \<open>
  Stage 2 of the relayer's policy (\<open>policy.mjs\<close>): the transaction is simulated, again when the answer
  only shows that the node is behind, and what the simulation shows is checked. The node is a
  parameter: its answer to the \<open>n\<close>th simulation asked from a given slot on, and the confirmed slot it
  reports before the \<open>n\<close>th retry. Pauses between attempts are not modelled.
\<close>

section \<open>Answers of the node\<close>

record sim_value =
  sv_err :: "tx_err option"
  sv_logs :: "string list"
  sv_inner :: "(nat \<times> address list) list"
  sv_lamports :: "int option"
  sv_units :: "int option"

record sim_body =
  sb_error :: "int option"
  sb_result :: "(int option \<times> sim_value) option"

text \<open>The simulated value of an answer that has one: \<open>body.result?.value\<close>.\<close>

definition body_err :: "sim_body \<Rightarrow> tx_err option" where
  "body_err b = (case sb_result b of None \<Rightarrow> None | Some (_, v) \<Rightarrow> sv_err v)"

definition body_logs :: "sim_body \<Rightarrow> string list" where
  "body_logs b = (case sb_result b of None \<Rightarrow> [] | Some (_, v) \<Rightarrow> sv_logs v)"

section \<open>Errors of the LazorKit program\<close>

definition SIGNATURE_REUSED :: int where "SIGNATURE_REUSED = 3006"
definition INVALID_SIGNATURE_AGE :: int where "INVALID_SIGNATURE_AGE = 3007"

definition is_word_char :: "char \<Rightarrow> bool" where
  "is_word_char c = (let n = of_char c :: nat in (48 \<le> n \<and> n \<le> 57) \<or> (65 \<le> n \<and> n \<le> 90) \<or> (97 \<le> n \<and> n \<le> 122) \<or> n = 95)"

text \<open>
  The regular expression \<open>^Program (\w{32,44}) failed: custom program error: \<close> on one line: the run of
  word characters after \<open>Program \<close> ends at a blank, so it is the whole run.
\<close>

definition failed_program :: "string \<Rightarrow> address option" where
  "failed_program l =
     (if take 8 l \<noteq> ''Program '' then None
      else let w = takeWhile is_word_char (drop 8 l); rest = dropWhile is_word_char (drop 8 l) in
        if 32 \<le> length w \<and> length w \<le> 44 \<and> take 31 rest = '' failed: custom program error: '' then Some w else None)"

definition lazorkitError :: "tx_err option \<Rightarrow> address list option \<Rightarrow> string list \<Rightarrow> (nat \<times> int) option" where
  "lazorkitError err programs logs = (case err of
     Some (InstructionError index (Some code)) \<Rightarrow>
       if (case programs of Some ps \<Rightarrow> \<not> (index < length ps \<and> ps ! index = LAZORKIT_V2_DEVNET) | None \<Rightarrow> False) then None
       else (case List.map_filter failed_program logs of
          p # _ \<Rightarrow> if p \<noteq> LAZORKIT_V2_DEVNET then None else Some (index, code)
        | [] \<Rightarrow> Some (index, code))
   | _ \<Rightarrow> None)"

datatype tx_error_meaning = No_meaning | Blockhash_unknown | Counter_used | Slot_too_old

definition explainTxError :: "tx_err option \<Rightarrow> address list option \<Rightarrow> string list \<Rightarrow> tx_error_meaning" where
  "explainTxError err programs logs =
     (if err = Some (NamedError ''BlockhashNotFound'') then Blockhash_unknown
      else case lazorkitError err programs logs of
        Some (_, code) \<Rightarrow> if code = SIGNATURE_REUSED then Counter_used
          else if code = INVALID_SIGNATURE_AGE then Slot_too_old else No_meaning
      | None \<Rightarrow> No_meaning)"

datatype lag = Lag_slot | Lag_blockhash | Lag_counter

definition lagKind :: "sim_body \<Rightarrow> address list option \<Rightarrow> lag option" where
  "lagKind b programs =
     (if sb_error b = Some MIN_CONTEXT_SLOT_NOT_REACHED then Some Lag_slot
      else if body_err b = Some (NamedError ''BlockhashNotFound'') then Some Lag_blockhash
      else case lazorkitError (body_err b) programs (body_logs b) of
        Some (_, code) \<Rightarrow> if code = SIGNATURE_REUSED \<or> code = INVALID_SIGNATURE_AGE then Some Lag_counter else None
      | None \<Rightarrow> None)"

section \<open>The slot a passkey signed\<close>

definition INSTRUCTIONS_SYSVAR :: address where "INSTRUCTIONS_SYSVAR = ''Sysvar1nstructions1111111111111111111111111''"

definition u16_le :: "bytes \<Rightarrow> nat \<Rightarrow> nat" where
  "u16_le d off = nat (le_val (u8_slice d off (off + 2)))"

text \<open>Whether the auth payload starts \<open>m + 18\<close> bytes before the client data at \<open>cdj\<close>.\<close>

definition payload_at :: "vtx \<Rightarrow> compiled_ix \<Rightarrow> nat \<Rightarrow> nat \<Rightarrow> bool" where
  "payload_at tx ix cdj m =
     (let d = cx_data ix; off = cdj - 2 - m - 16; at = unat (d ! (off + 12)) in
      u16_le d (off + 14) = m \<and> at < length (cx_accounts ix)
      \<and> (cx_accounts ix ! at < length (x_keys tx) \<longrightarrow> x_keys tx ! (cx_accounts ix ! at) = INSTRUCTIONS_SYSVAR))"

definition signed_slots :: "vtx \<Rightarrow> compiled_ix \<Rightarrow> int list" where
  "signed_slots tx ix =
     (let d = cx_data ix; end_at = length d in
      if end_at < 16 + 37 + 2 + 2 \<or> d ! (end_at - 1) \<noteq> 0x7d then []
      else concat (map (\<lambda>n. let cdj = end_at - n in
        if d ! cdj \<noteq> 0x7b \<or> u16_le d (cdj - 2) \<noteq> n then []
        else map (\<lambda>m. le_val (u8_slice d (cdj - 2 - m - 16) (cdj - 2 - m - 8)))
          (filter (payload_at tx ix cdj) (filter (\<lambda>m. m + 18 \<le> cdj) [37..<1025])))
        [2..<Suc (min (end_at - 55) 0xffff)]))"

definition passkeySignedSlot :: "vtx \<Rightarrow> int option" where
  "passkeySignedSlot tx =
     fold (\<lambda>i newest.
       if i = 0 \<or> key_of tx (cx_program (x_instructions tx ! i)) \<noteq> Some LAZORKIT_V2_DEVNET
         \<or> key_of tx (cx_program (x_instructions tx ! (i - 1))) \<noteq> Some RELAY_SECP256R1_PROGRAM then newest
       else case signed_slots tx (x_instructions tx ! i) of
         [] \<Rightarrow> newest
       | slot # _ \<Rightarrow> Some (max (case newest of Some n \<Rightarrow> n | None \<Rightarrow> 0) slot))
     [0..<length (x_instructions tx)] None"

section \<open>The simulation\<close>

definition SIGNED_SLOT_AHEAD_MAX :: int where "SIGNED_SLOT_AHEAD_MAX = 150"

record sim_node =
  sn_simulate :: "nat \<Rightarrow> int option \<Rightarrow> sim_body option"
  sn_head :: "nat \<Rightarrow> int option"

text \<open>\<open>x || null\<close> for a slot: zero is no slot.\<close>

definition slot_or_null :: "int \<Rightarrow> int option" where
  "slot_or_null x = (if x = 0 then None else Some x)"

definition the_slot :: "int option \<Rightarrow> int" where
  "the_slot m = (case m of Some x \<Rightarrow> x | None \<Rightarrow> 0)"

record sim_args =
  ar_programs :: "address list"
  ar_relayer :: address
  ar_maxLamports :: int
  ar_preBalance :: "int option"
  ar_slotFloor :: "int option"
  ar_signedSlot :: "int option"

text \<open>The slot to ask from after an answer that looks like lag.\<close>

definition next_floor :: "sim_node \<Rightarrow> sim_args \<Rightarrow> nat \<Rightarrow> lag \<Rightarrow> int option \<Rightarrow> int option" where
  "next_floor node ar n lag minContextSlot =
     (if lag = Lag_slot then minContextSlot
      else let head = the_slot (sn_head node n);
               signed = (if lag = Lag_counter \<and> the_slot (ar_signedSlot ar) \<noteq> 0 \<and> head \<noteq> 0
                            \<and> the_slot (ar_signedSlot ar) \<le> head + SIGNED_SLOT_AHEAD_MAX
                         then the_slot (ar_signedSlot ar) else 0)
           in slot_or_null (Max {the_slot minContextSlot, the_slot (ar_slotFloor ar), head, signed}))"

text \<open>
  The retry loop: the last answer, the last answer with a result, the slot asked from last, and every
  slot asked from, in order. \<open>None\<close> is a node that could not be asked.
\<close>

type_synonym sim_state = "sim_body \<times> sim_body option \<times> int option \<times> int option list"

function sim_loop :: "sim_node \<Rightarrow> sim_args \<Rightarrow> nat \<Rightarrow> nat \<Rightarrow> sim_state \<Rightarrow> (sim_state option \<times> int option list)" where
  "sim_loop node ar retries counterRetries st = (case st of (body, lastResult, minContextSlot, asked) \<Rightarrow>
     if retries \<ge> 5 then (Some st, asked)
     else case lagKind body (Some (ar_programs ar)) of
       None \<Rightarrow> (Some st, asked)
     | Some lag \<Rightarrow>
         if lag = Lag_counter \<and> counterRetries \<ge> 2 then (Some st, asked)
         else let m = next_floor node ar retries lag minContextSlot in
           case sn_simulate node (Suc retries) m of
             None \<Rightarrow> (None, asked @ [m])
           | Some b \<Rightarrow> sim_loop node ar (Suc retries) (if lag = Lag_counter then Suc counterRetries else counterRetries)
               (b, if sb_result b \<noteq> None then Some b else lastResult, m, asked @ [m]))"
  by pat_completeness auto
termination by (relation "measure (\<lambda>(_, _, n, _, _). 5 - n)") auto

declare sim_loop.simps [simp del]

record sim_verdict =
  si_innerPrograms :: "address list"
  si_payerDelta :: int
  si_unitsConsumed :: "int option"
  si_logs :: "string list"
  si_contextSlot :: "int option"

definition simulation_refused :: "string option \<Rightarrow> tx_err option \<Rightarrow> policy_error" where
  "simulation_refused reason err = (refusal ERR_SIMULATION_FAILED ''simulation'')\<lparr>pe_reason := reason, pe_err := err\<rparr>"

text \<open>The inner calls, group by group: the first one that is not allowed is the refusal.\<close>

fun check_inner :: "nat \<Rightarrow> address list \<Rightarrow> address list \<Rightarrow> address list answer" where
  "check_inner index seen [] = Inr seen"
| "check_inner index seen (p # ps) =
     (if \<not> allowed p then reject_at ''program_not_allowed'' index
      else check_inner index (if p \<in> set seen then seen else seen @ [p]) ps)"

fun check_groups :: "address list \<Rightarrow> (nat \<times> address list) list \<Rightarrow> address list answer" where
  "check_groups seen [] = Inr seen"
| "check_groups seen ((index, ps) # gs) = abind (check_inner index seen ps) (\<lambda>seen. check_groups seen gs)"

definition check_value :: "sim_args \<Rightarrow> int option \<Rightarrow> sim_value \<Rightarrow> sim_verdict answer" where
  "check_value ar contextSlot v =
     (if sv_err v \<noteq> None then
        Inl (simulation_refused
          (case lazorkitError (sv_err v) (Some (ar_programs ar)) (sv_logs v) of
             Some (_, code) \<Rightarrow> if code = SIGNATURE_REUSED then Some ''stale_counter'' else None | None \<Rightarrow> None) (sv_err v))
      else
        abind (check_groups [] (sv_inner v)) (\<lambda>inner.
        case (sv_lamports v, ar_preBalance ar) of
          (Some post, Some pre) \<Rightarrow>
            if - (post - pre) > ar_maxLamports ar then reject ''max_allowed_lamports''
            else Inr \<lparr>si_innerPrograms = inner, si_payerDelta = post - pre, si_unitsConsumed = sv_units v, si_logs = sv_logs v,
                      si_contextSlot = contextSlot\<rparr>
        | _ \<Rightarrow> Inl (simulation_refused None None)))"

definition check_answer :: "sim_args \<Rightarrow> sim_state \<Rightarrow> sim_verdict answer" where
  "check_answer ar st = (case st of (body, lastResult, minContextSlot, asked) \<Rightarrow>
     if sb_error body = Some MIN_CONTEXT_SLOT_NOT_REACHED then Inl (simulation_refused (Some ''rpc_behind'') None)
     else let body = (if sb_error body \<noteq> None \<and> lastResult \<noteq> None then the lastResult else body) in
       if sb_error body \<noteq> None then Inl (simulation_refused None None)
       else case sb_result body of
         None \<Rightarrow> Inl (refusal (-32000) ''internal'')
       | Some (slot, v) \<Rightarrow> check_value ar slot v)"

definition checkSimulation :: "sim_node \<Rightarrow> sim_args \<Rightarrow> sim_verdict answer \<times> int option list" where
  "checkSimulation node ar =
     (let m = slot_or_null (the_slot (ar_slotFloor ar)) in
      case sn_simulate node 0 m of
        None \<Rightarrow> (Inl (simulation_refused None None), [m])
      | Some b \<Rightarrow> (case sim_loop node ar 0 0 (b, if sb_result b \<noteq> None then Some b else None, m, [m]) of
          (None, asked) \<Rightarrow> (Inl (simulation_refused None None), asked)
        | (Some st, asked) \<Rightarrow> (check_answer ar st, asked)))"

section \<open>Bounds\<close>

text \<open>What the loop keeps: how often it asked, and from which slots on.\<close>

definition loop_ok :: "sim_args \<Rightarrow> nat \<Rightarrow> int option \<Rightarrow> int option list \<Rightarrow> bool" where
  "loop_ok ar retries m asked \<longleftrightarrow> length asked = Suc retries \<and> last asked = m \<and> retries \<le> 5
     \<and> sorted (map the_slot asked) \<and> (\<forall>a \<in> set asked. the_slot (ar_slotFloor ar) \<le> the_slot a)"

lemma the_slot_or_null [simp]: "the_slot (slot_or_null x) = x"
  by (simp add: slot_or_null_def the_slot_def)

lemma next_floor_grows:
  "the_slot m \<le> the_slot (next_floor node ar n lag m)"
  "the_slot (ar_slotFloor ar) \<le> the_slot m \<Longrightarrow> the_slot (ar_slotFloor ar) \<le> the_slot (next_floor node ar n lag m)"
  by (auto simp: next_floor_def Let_def)

lemma loop_ok_step:
  assumes "loop_ok ar retries m asked" "retries < 5"
  shows "loop_ok ar (Suc retries) (next_floor node ar n lag m) (asked @ [next_floor node ar n lag m])"
proof -
  have ne: "asked \<noteq> []" using assms by (auto simp: loop_ok_def)
  have "\<forall>a \<in> set asked. the_slot a \<le> the_slot m"
    using assms ne by (auto simp: loop_ok_def sorted_iff_nth_mono last_conv_nth in_set_conv_nth)
  then show ?thesis
    using assms ne next_floor_grows [where m = m and node = node and ar = ar and n = n and lag = lag] last_in_set [OF ne]
    by (force simp: loop_ok_def sorted_append)
qed

text \<open>\<open>was_seen\<close>: the answer came from one of the simulations asked.\<close>

definition was_seen :: "sim_node \<Rightarrow> int option list \<Rightarrow> sim_body \<Rightarrow> bool" where
  "was_seen node asked b \<longleftrightarrow> (\<exists>n < length asked. sn_simulate node n (asked ! n) = Some b)"

lemma was_seen_more: "was_seen node asked b \<Longrightarrow> was_seen node (asked @ rest) b"
  by (auto simp: was_seen_def nth_append intro: exI)

lemma sim_loop_ok:
  assumes "sim_loop node ar retries counterRetries st = (out, asked')"
    and "st = (body, lastResult, m, asked)" "loop_ok ar retries m asked"
    and "was_seen node asked body" "\<And>b. lastResult = Some b \<Longrightarrow> was_seen node asked b"
  shows "1 \<le> length asked' \<and> length asked' \<le> 6 \<and> sorted (map the_slot asked') \<and> (\<forall>a \<in> set asked'. the_slot (ar_slotFloor ar) \<le> the_slot a)
    \<and> (\<forall>body' last' m' as. out = Some (body', last', m', as) \<longrightarrow>
         was_seen node asked' body' \<and> (\<forall>b. last' = Some b \<longrightarrow> was_seen node asked' b))"
  using assms
proof (induction node ar retries counterRetries st arbitrary: body lastResult m asked rule: sim_loop.induct)
  case (1 node ar retries counterRetries st)
  note st = "1.prems"(2) and ok = "1.prems"(3)
  have stop: "1 \<le> length asked \<and> length asked \<le> 6 \<and> sorted (map the_slot asked) \<and> (\<forall>a \<in> set asked. the_slot (ar_slotFloor ar) \<le> the_slot a)"
    using ok by (auto simp: loop_ok_def)
  show ?case
  proof (cases "retries \<ge> 5 \<or> (case lagKind body (Some (ar_programs ar)) of None \<Rightarrow> True | Some lag \<Rightarrow> lag = Lag_counter \<and> counterRetries \<ge> 2)")
    case True
    then have "out = Some st \<and> asked' = asked"
      using "1.prems"(1) by (simp add: sim_loop.simps [of node ar retries] st split: option.splits if_splits) blast+
    then show ?thesis using stop "1.prems"(4,5) st by auto
  next
    case False
    then obtain lag where lag: "lagKind body (Some (ar_programs ar)) = Some lag" "\<not> (lag = Lag_counter \<and> counterRetries \<ge> 2)"
      and r: "\<not> retries \<ge> 5" by (auto split: option.splits)
    let ?m = "next_floor node ar retries lag m"
    have step: "loop_ok ar (Suc retries) ?m (asked @ [?m])" using loop_ok_step [OF ok] r by simp
    show ?thesis
    proof (cases "sn_simulate node (Suc retries) ?m")
      case None
      then have "out = None \<and> asked' = asked @ [?m]"
        using "1.prems"(1) lag r by (auto simp: sim_loop.simps [of node ar retries] st Let_def)
      then show ?thesis using step by (auto simp: loop_ok_def)
    next
      case (Some b)
      have seen: "was_seen node (asked @ [?m]) b" using Some ok by (auto simp: was_seen_def loop_ok_def nth_append intro!: exI [of _ "Suc retries"])
      have rec: "sim_loop node ar (Suc retries) (if lag = Lag_counter then Suc counterRetries else counterRetries)
          (b, if sb_result b \<noteq> None then Some b else lastResult, ?m, asked @ [?m]) = (out, asked')"
        using "1.prems"(1) lag r Some by (auto simp: sim_loop.simps [of node ar retries] st Let_def)
      have "b' = b \<or> was_seen node asked b'" if "(if sb_result b \<noteq> None then Some b else lastResult) = Some b'" for b'
        using that "1.prems"(5) by (auto split: if_splits)
      then show ?thesis
        using "1.IH" [OF st [symmetric] refl refl r lag(1) lag(2) refl Some rec refl step seen] seen was_seen_more by blast
    qed
  qed
qed

lemma check_inner_ok:
  "check_inner index seen ps = Inr out \<Longrightarrow> set out = set seen \<union> set ps \<and> (\<forall>p \<in> set ps. allowed p)"
  by (induction ps arbitrary: seen) (auto simp: reject_at_def split: if_splits)

lemma check_groups_ok:
  "check_groups seen gs = Inr out \<Longrightarrow> set out = set seen \<union> (\<Union>g \<in> set gs. set (snd g)) \<and> (\<forall>g \<in> set gs. \<forall>p \<in> set (snd g). allowed p)"
proof (induction seen gs rule: check_groups.induct)
  case (2 seen index ps gs)
  then show ?case using check_inner_ok by (fastforce simp: abind_Inr)
qed simp

lemma check_value_ok:
  assumes "check_value ar slot v = Inr r"
  shows "sv_err v = None" "\<forall>g \<in> set (sv_inner v). \<forall>p \<in> set (snd g). allowed p"
    "set (si_innerPrograms r) = (\<Union>g \<in> set (sv_inner v). set (snd g))"
    "\<exists>post pre. sv_lamports v = Some post \<and> ar_preBalance ar = Some pre \<and> si_payerDelta r = post - pre \<and> pre - post \<le> ar_maxLamports ar"
    "si_contextSlot r = slot"
proof -
  obtain inner where i: "check_groups [] (sv_inner v) = Inr inner" and n: "sv_err v = None"
    using assms by (auto simp: check_value_def abind_Inr split: if_splits)
  show "sv_err v = None" by (rule n)
  show "\<forall>g \<in> set (sv_inner v). \<forall>p \<in> set (snd g). allowed p" using check_groups_ok [OF i] by blast
  show "set (si_innerPrograms r) = (\<Union>g \<in> set (sv_inner v). set (snd g))"
    using check_groups_ok [OF i] assms i n by (auto simp: check_value_def reject_def split: option.splits if_splits)
  show "\<exists>post pre. sv_lamports v = Some post \<and> ar_preBalance ar = Some pre \<and> si_payerDelta r = post - pre \<and> pre - post \<le> ar_maxLamports ar"
    "si_contextSlot r = slot"
    using assms i n by (auto simp: check_value_def reject_def split: option.splits if_splits)
qed

lemma check_answer_ok:
  assumes "check_answer ar (body, lastResult, m, asked) = Inr r"
  shows "\<exists>b slot v. (b = body \<or> lastResult = Some b) \<and> sb_result b = Some (slot, v) \<and> check_value ar slot v = Inr r"
proof -
  define b where "b = (if sb_error body \<noteq> None \<and> lastResult \<noteq> None then the lastResult else body)"
  have "(case sb_result b of None \<Rightarrow> Inl (refusal (-32000) ''internal'') | Some (slot, v) \<Rightarrow> check_value ar slot v) = Inr r"
    using assms by (auto simp: check_answer_def Let_def b_def split: if_splits)
  moreover have "b = body \<or> lastResult = Some b" by (auto simp: b_def)
  ultimately show ?thesis by (auto split: option.splits)
qed

lemma checkSimulation_facts:
  assumes "checkSimulation node ar = (answer, asked)"
  shows "1 \<le> length asked \<and> length asked \<le> 6 \<and> sorted (map the_slot asked)
    \<and> (\<forall>a \<in> set asked. the_slot (ar_slotFloor ar) \<le> the_slot a)
    \<and> (\<forall>r. answer = Inr r \<longrightarrow>
        (\<exists>n b v. n < length asked \<and> sn_simulate node n (asked ! n) = Some b \<and> sb_result b = Some (si_contextSlot r, v)
          \<and> sv_err v = None \<and> (\<forall>g \<in> set (sv_inner v). \<forall>p \<in> set (snd g). p \<in> fst ` set ALLOWED_PROGRAMS)
          \<and> (\<exists>post pre. sv_lamports v = Some post \<and> ar_preBalance ar = Some pre
               \<and> si_payerDelta r = post - pre \<and> pre - post \<le> ar_maxLamports ar)))"
proof -
  let ?m = "slot_or_null (the_slot (ar_slotFloor ar))"
  have al: "allowed q \<longleftrightarrow> q \<in> fst ` set ALLOWED_PROGRAMS" for q
    by (auto simp: allowed_def jsmap_has_def map_of_eq_None_iff)
  show ?thesis
  proof (cases "sn_simulate node 0 ?m")
    case None
    then show ?thesis using assms by (auto simp: checkSimulation_def)
  next
    case (Some b0)
    let ?st = "(b0, if sb_result b0 \<noteq> None then Some b0 else None, ?m, [?m])"
    obtain out as where l: "sim_loop node ar 0 0 ?st = (out, as)" by fastforce
    have start: "loop_ok ar 0 ?m [?m]" "was_seen node [?m] b0" using Some by (simp_all add: loop_ok_def was_seen_def)
    have first: "\<And>b. (if sb_result b0 \<noteq> None then Some b0 else None) = Some b \<Longrightarrow> was_seen node [?m] b"
      using start(2) by (auto split: if_splits)
    note ok = sim_loop_ok [OF l refl start(1,2) first]
    have asked: "asked = as" "answer = (case out of None \<Rightarrow> Inl (simulation_refused None None) | Some st \<Rightarrow> check_answer ar st)"
      using assms Some l by (auto simp: checkSimulation_def split: option.splits)
    have "\<exists>n b v. n < length asked \<and> sn_simulate node n (asked ! n) = Some b \<and> sb_result b = Some (si_contextSlot r, v)
        \<and> check_value ar (si_contextSlot r) v = Inr r" if ans: "answer = Inr r" for r
    proof -
      obtain body last m' x where st: "out = Some (body, last, m', x)" using ans asked(2) by (cases out) auto
      obtain b v where b: "b = body \<or> last = Some b" "sb_result b = Some (si_contextSlot r, v)" "check_value ar (si_contextSlot r) v = Inr r"
        using check_answer_ok [of ar body last m' x r] ans asked(2) st by (metis option.simps(5) check_value_ok(5))
      moreover have "was_seen node asked b" using ok st b(1) by (auto simp: asked(1))
      ultimately show ?thesis by (auto simp: was_seen_def)
    qed
    then show ?thesis
      using ok check_value_ok(1,2,4) unfolding asked(1) al by metis
  qed
qed


text \<open>A node that does not know the blockhash yet when first asked, and a transaction that costs 4000 lamports.\<close>

definition lagging_node :: sim_node where
  "lagging_node = \<lparr>sn_simulate = (\<lambda>n m. Some \<lparr>sb_error = None, sb_result = Some (m,
       \<lparr>sv_err = (if n = 0 then Some (NamedError ''BlockhashNotFound'') else None), sv_logs = [],
        sv_inner = [(1, [RELAY_SYSTEM_PROGRAM])], sv_lamports = Some 6000, sv_units = Some 300\<rparr>)\<rparr>),
     sn_head = (\<lambda>n. Some 9)\<rparr>"

definition sample_args :: sim_args where
  "sample_args = \<lparr>ar_programs = [LAZORKIT_V2_DEVNET], ar_relayer = ''relayer'', ar_maxLamports = 5000, ar_preBalance = Some 10000,
     ar_slotFloor = Some 5, ar_signedSlot = None\<rparr>"


end
