(* ===== verification/RelayerSign.thy ===== *)
theory RelayerSign
  imports RelayerSim Json
begin

text \<open>
  The sign path of the relayer's server (\<open>server.mjs\<close>): the parameters of a call are decoded, the
  transaction inspected and simulated, a slot of the hourly limit taken, and only then is it signed.
  What the server keeps between requests is in \<open>relay_state\<close>. Requests are served concurrently, but the
  code between two awaits runs alone: a request reads \<open>slotFloor\<close> several times while others may raise
  it, so the values it reads are an argument, and taking a rate slot and signing is one step on the
  state.
\<close>

section \<open>Configuration, keys, node\<close>

record relay_cfg =
  rc_maxLamports :: int
  rc_maxTxPerHour :: nat
  rc_requireLazorkit :: bool
  rc_confirmTimeoutMs :: int
  rc_apiKey :: "string option"
  rc_corsOrigins :: "string list option"
  rc_maxSignatures :: int
  rc_txV1 :: bool
  rc_maxPriorityFeeLamports :: int

text \<open>
  What the server takes from its packages and from its key file: web3.js's transactions, base64 and
  base58, and the relayer's key. \<open>w_sign\<close> is \<open>tx.sign\<close> followed by \<open>tx.serialize\<close>: the signed bytes and
  the fee payer's signature, or nothing when it throws.
\<close>

record web3 =
  w_base64 :: "string \<Rightarrow> bytes"
  w_base58 :: "bytes \<Rightarrow> string"
  w_deserialize :: "bytes \<Rightarrow> vtx option"
  w_serialize :: "vtx \<Rightarrow> bytes"
  w_sign :: "vtx \<Rightarrow> (bytes \<times> bytes) option"
  w_relayer :: address
  w_pubkey :: bytes
  w_ed25519 :: "bytes \<Rightarrow> bytes"

record rpc_error =
  re_code :: "int option"
  re_message :: string

record sig_status =
  st_slot :: int
  st_err :: "tx_err option"
  st_confirmationStatus :: string

definition settled :: "sig_status \<Rightarrow> bool" where
  "settled st \<longleftrightarrow> st_confirmationStatus st = ''confirmed'' \<or> st_confirmationStatus st = ''finalized''"

text \<open>The node one request talks to; the \<open>n\<close>th attempt at reading the balance, the simulation of given bytes.\<close>

record relay_node =
  rn_balance :: "nat \<Rightarrow> int option \<Rightarrow> rpc_error + int"
  rn_simulation :: "bytes \<Rightarrow> sim_node"
  rn_lookUp :: "string \<Rightarrow> rpc_error + sig_status option"

record relay_state =
  rs_signedAt :: "int list"
  rs_slotFloor :: int

definition internal_error :: policy_error where
  "internal_error = refusal (-32000) ''internal''"

section \<open>Text\<close>

definition lower :: "char \<Rightarrow> char" where
  "lower c = (if 65 \<le> code c \<and> code c \<le> 90 then char_of (code c + 32) else c)"

fun contains :: "string \<Rightarrow> string \<Rightarrow> bool" where
  "contains p [] = (p = [])"
| "contains p (c # cs) = (take (length p) (c # cs) = p \<or> contains p cs)"

text \<open>\<open>/p/i.test(s)\<close> for a pattern of small letters and blanks.\<close>

definition test_i :: "string \<Rightarrow> string \<Rightarrow> bool" where
  "test_i p s = contains p (map lower s)"

definition isMinContextSlotError :: "rpc_error \<Rightarrow> bool" where
  "isMinContextSlotError e \<longleftrightarrow> re_code e = Some MIN_CONTEXT_SLOT_NOT_REACHED \<or> test_i ''minimum context slot'' (re_message e)"

section \<open>Rate limit\<close>

definition HOUR :: int where "HOUR = 3600000"

definition takeRateSlot :: "relay_cfg \<Rightarrow> int \<Rightarrow> relay_state \<Rightarrow> unit answer \<times> relay_state" where
  "takeRateSlot cfg now s =
     (let recent = dropWhile (\<lambda>t. now - t > HOUR) (rs_signedAt s) in
      if length recent \<ge> rc_maxTxPerHour cfg then (Inl (refusal ERR_RATE_LIMITED ''usage_limit''), s\<lparr>rs_signedAt := recent\<rparr>)
      else (Inr (), s\<lparr>rs_signedAt := recent @ [now]\<rparr>))"

section \<open>The sign path\<close>

text \<open>A \<open>signer_key\<close> that is no string is not the relayer's address; any other string stands for it.\<close>

definition signer_key_of :: "web3 \<Rightarrow> json option \<Rightarrow> address option" where
  "signer_key_of w v = (case v of
     None \<Rightarrow> None | Some JNull \<Rightarrow> None | Some (JStr k) \<Rightarrow> Some k | Some _ \<Rightarrow> Some (w_relayer w @ ''?''))"

definition decodeParams :: "relay_cfg \<Rightarrow> web3 \<Rightarrow> json option \<Rightarrow> (vtx \<times> bytes \<times> address option) answer" where
  "decodeParams cfg w params = (case params of
     Some (JObj ms) \<Rightarrow> (case map_of ms ''transaction'' of
       Some (JStr text) \<Rightarrow>
         let raw = w_base64 w text in
         if isTxV1 raw \<and> \<not> rc_txV1 cfg then Inl (refusal ERR_TX_V1_DISABLED ''tx_v1_disabled'')
         else (case w_deserialize w raw of
           None \<Rightarrow>
             abind (if isTxV1 raw then checkTxV1PriorityFee (txV1PriorityFee raw) (rc_maxPriorityFeeLamports cfg) else Inr ()) (\<lambda>_.
             Inl (refusal ERR_INVALID_PARAMS ''''))
         | Some tx \<Rightarrow> Inr (tx, raw, signer_key_of w (map_of ms ''signer_key'')))
     | _ \<Rightarrow> Inl (refusal ERR_INVALID_PARAMS ''''))
   | _ \<Rightarrow> Inl (refusal ERR_INVALID_PARAMS ''''))"

record signed_tx =
  sg_tx :: vtx
  sg_raw :: bytes
  sg_signature :: string

definition or_internal :: "'a result \<Rightarrow> 'a answer" where
  "or_internal m = (case m of Inl _ \<Rightarrow> Inl internal_error | Inr x \<Rightarrow> Inr x)"

definition signAsFeePayer :: "web3 \<Rightarrow> vtx \<Rightarrow> bytes \<Rightarrow> signed_tx answer" where
  "signAsFeePayer w tx raw =
     (if x_version tx = Version 1 then
        abind (or_internal (signTxV1AsFeePayer raw (w_pubkey w) (w_ed25519 w))) (\<lambda>signed.
        abind (or_internal (txV1Signature signed 0)) (\<lambda>sig.
        Inr \<lparr>sg_tx = tx, sg_raw = signed, sg_signature = w_base58 w sig\<rparr>))
      else case w_sign w tx of
        None \<Rightarrow> Inl internal_error
      | Some (signedRaw, sig) \<Rightarrow> Inr \<lparr>sg_tx = tx, sg_raw = signedRaw, sg_signature = w_base58 w sig\<rparr>)"

text \<open>What is known of a transaction whose bytes have landed before.\<close>

record landed_tx =
  ld_signed :: signed_tx
  ld_slot :: int
  ld_confirmed :: bool

type_synonym 'a vetting = "(policy_error \<times> landed_tx option) + 'a"

definition explainIfAlreadySent :: "web3 \<Rightarrow> relay_node \<Rightarrow> vtx \<Rightarrow> bytes \<Rightarrow> policy_error \<Rightarrow> policy_error \<times> landed_tx option" where
  "explainIfAlreadySent w node tx raw e = (case signAsFeePayer w tx raw of
     Inl _ \<Rightarrow> (e, None)
   | Inr copy \<Rightarrow> (case rn_lookUp node (sg_signature copy) of
       Inl _ \<Rightarrow> (e, None)
     | Inr None \<Rightarrow> (e, None)
     | Inr (Some st) \<Rightarrow>
         if st_err st = None then (e, Some \<lparr>ld_signed = copy, ld_slot = st_slot st, ld_confirmed = settled st\<rparr>)
         else ((refusal ERR_SEND_FAILED ''transaction_failed'')\<lparr>pe_err := st_err st\<rparr>, None)))"

text \<open>Reads at or past \<open>slotFloor\<close>, as it is at each attempt.\<close>

function atSlotFloor :: "(nat \<Rightarrow> int option \<Rightarrow> rpc_error + 'a) \<Rightarrow> (nat \<Rightarrow> int) \<Rightarrow> nat \<Rightarrow> rpc_error + 'a" where
  "atSlotFloor read floors attempt = (case read attempt (slot_or_null (floors attempt)) of
     Inr x \<Rightarrow> Inr x
   | Inl e \<Rightarrow> if attempt \<ge> 5 \<or> \<not> isMinContextSlotError e then Inl e else atSlotFloor read floors (Suc attempt))"
  by pat_completeness auto
termination by (relation "measure (\<lambda>(_, _, n). 5 - n)") auto

declare atSlotFloor.simps [simp del]

definition pre_balance :: "relay_node \<Rightarrow> (nat \<Rightarrow> int) \<Rightarrow> int answer" where
  "pre_balance node floors = (case atSlotFloor (rn_balance node) floors 0 of
     Inr x \<Rightarrow> Inr x
   | Inl e \<Rightarrow> if isMinContextSlotError e then Inl (simulation_refused (Some ''rpc_behind'') None) else Inl internal_error)"

definition program_or_lookup :: "vtx \<Rightarrow> compiled_ix \<Rightarrow> string" where
  "program_or_lookup tx ix = (case key_of tx (cx_program ix) of Some p \<Rightarrow> p | None \<Rightarrow> ''(lookup)'')"

definition policy_of :: "relay_cfg \<Rightarrow> web3 \<Rightarrow> bytes \<Rightarrow> address option \<Rightarrow> policy_options" where
  "policy_of cfg w raw signerKey =
     \<lparr>po_relayer = w_relayer w, po_signerKey = signerKey, po_maxSignatures = rc_maxSignatures cfg,
      po_requireLazorkit = rc_requireLazorkit cfg, po_raw = Some raw, po_maxPriorityFeeLamports = rc_maxPriorityFeeLamports cfg\<rparr>"

definition sim_args_of :: "relay_cfg \<Rightarrow> web3 \<Rightarrow> vtx \<Rightarrow> int \<Rightarrow> int \<Rightarrow> sim_args" where
  "sim_args_of cfg w tx preBalance slotFloor =
     \<lparr>ar_programs = map (program_or_lookup tx) (x_instructions tx), ar_relayer = w_relayer w, ar_maxLamports = rc_maxLamports cfg,
      ar_preBalance = Some preBalance, ar_slotFloor = Some slotFloor, ar_signedSlot = passkeySignedSlot tx\<rparr>"

text \<open>\<open>vetAndSign\<close> up to the rate limit. The floor the simulation is given is the seventh value read.\<close>

definition vet :: "relay_cfg \<Rightarrow> web3 \<Rightarrow> relay_node \<Rightarrow> (nat \<Rightarrow> int) \<Rightarrow> json option \<Rightarrow> (vtx \<times> bytes \<times> sim_verdict) vetting" where
  "vet cfg w node floors params = (case decodeParams cfg w params of
     Inl e \<Rightarrow> Inl (e, None)
   | Inr (tx, raw, signerKey) \<Rightarrow> (case inspectTransaction tx (policy_of cfg w raw signerKey) of
       Inl e \<Rightarrow> Inl (e, None)
     | Inr _ \<Rightarrow>
         let txBytes = (if x_version tx = Version 1 then raw else w_serialize w tx) in
         (case pre_balance node floors of
            Inl e \<Rightarrow> Inl (e, None)
          | Inr preBalance \<Rightarrow> (case fst (checkSimulation (rn_simulation node txBytes) (sim_args_of cfg w tx preBalance (floors 6))) of
              Inl e \<Rightarrow> Inl (if pe_rule e = ''simulation'' \<and> pe_err e \<noteq> None then explainIfAlreadySent w node tx raw e else (e, None))
            | Inr sim \<Rightarrow> Inr (tx, raw, sim)))))"

definition vetAndSign ::
  "relay_cfg \<Rightarrow> web3 \<Rightarrow> relay_node \<Rightarrow> (nat \<Rightarrow> int) \<Rightarrow> int \<Rightarrow> json option \<Rightarrow> relay_state \<Rightarrow> (signed_tx \<times> sim_verdict) vetting \<times> relay_state" where
  "vetAndSign cfg w node floors now params s = (case vet cfg w node floors params of
     Inl e \<Rightarrow> (Inl e, s)
   | Inr (tx, raw, sim) \<Rightarrow> (case takeRateSlot cfg now s of
       (Inl e, s') \<Rightarrow> (Inl (e, None), s')
     | (Inr _, s') \<Rightarrow> (case signAsFeePayer w tx raw of
         Inl e \<Rightarrow> (Inl (e, None), s')
       | Inr sg \<Rightarrow> (Inr (sg, sim), s'))))"

text \<open>The signed transaction, and whether it is one that had landed (\<open>ctx.resent\<close>) or a new one with its simulation.\<close>

datatype vet_origin = Resent int bool | Fresh sim_verdict

definition vetAndSignOrLanded ::
  "relay_cfg \<Rightarrow> web3 \<Rightarrow> relay_node \<Rightarrow> (nat \<Rightarrow> int) \<Rightarrow> int \<Rightarrow> json option \<Rightarrow> relay_state \<Rightarrow> (signed_tx \<times> vet_origin) answer \<times> relay_state" where
  "vetAndSignOrLanded cfg w node floors now params s = (case vetAndSign cfg w node floors now params s of
     (Inr (sg, sim), s') \<Rightarrow> (Inr (sg, Fresh sim), s')
   | (Inl (e, Some l), s') \<Rightarrow> (Inr (ld_signed l, Resent (ld_slot l) (ld_confirmed l)), s')
   | (Inl (e, None), s') \<Rightarrow> (Inl e, s'))"

definition raise_floor :: "int \<Rightarrow> relay_state \<Rightarrow> relay_state" where
  "raise_floor slot s = s\<lparr>rs_slotFloor := max (rs_slotFloor s) slot\<rparr>"

section \<open>Runs of the server\<close>

text \<open>
  What the relayer has signed, and for what: a ghost record beside the state. A request may talk to
  any node and read any floors the state has had; between requests the floor may be raised by a
  transaction that confirmed. The clock is \<open>Date.now\<close> and does not go back.
\<close>

record sponsorship =
  sp_at :: int
  sp_params :: "json option"
  sp_node :: relay_node
  sp_floor :: int
  sp_signed :: signed_tx
  sp_payerDelta :: int

record relay_run =
  run_state :: relay_state
  run_clock :: int
  run_history :: "sponsorship list"

definition new_run :: "int \<Rightarrow> relay_run" where
  "new_run now = \<lparr>run_state = \<lparr>rs_signedAt = [], rs_slotFloor = 0\<rparr>, run_clock = now, run_history = []\<rparr>"

definition recorded :: "int \<Rightarrow> json option \<Rightarrow> relay_node \<Rightarrow> int \<Rightarrow> (signed_tx \<times> sim_verdict) vetting \<Rightarrow> sponsorship list" where
  "recorded now params node fl res = (case res of
     Inl _ \<Rightarrow> []
   | Inr (sg, sim) \<Rightarrow> [\<lparr>sp_at = now, sp_params = params, sp_node = node, sp_floor = fl, sp_signed = sg,
       sp_payerDelta = si_payerDelta sim\<rparr>])"

inductive relay_step :: "relay_cfg \<Rightarrow> web3 \<Rightarrow> relay_run \<Rightarrow> relay_run \<Rightarrow> bool" for cfg w where
  request: "run_clock r \<le> now \<Longrightarrow> (\<And>n. floors n \<le> rs_slotFloor (run_state r)) \<Longrightarrow>
    vetAndSign cfg w node floors now params (run_state r) = (res, s') \<Longrightarrow>
    relay_step cfg w r \<lparr>run_state = s', run_clock = now, run_history = run_history r @ recorded now params node (floors 6) res\<rparr>"
| confirmed: "run_clock r \<le> now \<Longrightarrow>
    relay_step cfg w r (r\<lparr>run_state := raise_floor slot (run_state r), run_clock := now\<rparr>)"

text \<open>What every signature stands for, and what it costs.\<close>

definition in_hour :: "int \<Rightarrow> sponsorship \<Rightarrow> bool" where
  "in_hour t e \<longleftrightarrow> t \<le> sp_at e \<and> sp_at e \<le> t + HOUR"

definition simulated_within :: "relay_cfg \<Rightarrow> bytes \<Rightarrow> sponsorship \<Rightarrow> bool" where
  "simulated_within cfg txBytes e \<longleftrightarrow>
     (\<exists>k fl pre n m b slot v post. rn_balance (sp_node e) k fl = Inr pre
       \<and> sn_simulate (rn_simulation (sp_node e) txBytes) n m = Some b \<and> sp_floor e \<le> the_slot m
       \<and> sb_result b = Some (slot, v) \<and> sv_err v = None
       \<and> (\<forall>g \<in> set (sv_inner v). \<forall>p \<in> set (snd g). p \<in> fst ` set ALLOWED_PROGRAMS)
       \<and> sv_lamports v = Some post \<and> sp_payerDelta e = post - pre \<and> - sp_payerDelta e \<le> rc_maxLamports cfg)"

definition sponsored :: "relay_cfg \<Rightarrow> web3 \<Rightarrow> sponsorship \<Rightarrow> bool" where
  "sponsored cfg w e \<longleftrightarrow>
     (\<exists>ms text raw. sp_params e = Some (JObj ms) \<and> map_of ms ''transaction'' = Some (JStr text) \<and> raw = w_base64 w text
       \<and> w_deserialize w raw = Some (sg_tx (sp_signed e))
       \<and> (let tx = sg_tx (sp_signed e) in
           key_of tx 0 = Some (w_relayer w) \<and> x_numRequiredSignatures tx \<le> rc_maxSignatures cfg
         \<and> (\<forall>ix \<in> set (x_instructions tx). sponsored_instruction tx ix)
         \<and> (rc_requireLazorkit cfg \<longrightarrow> (\<exists>ix \<in> set (x_instructions tx). key_of tx (cx_program ix) = Some LAZORKIT_V2_DEVNET))
         \<and> simulated_within cfg (if x_version tx = Version 1 then raw else w_serialize w tx) e
         \<and> (if x_version tx = Version 1
            then rc_txV1 cfg \<and> sponsored_v1 tx (Some raw) (rc_maxPriorityFeeLamports cfg)
              \<and> (let m = length raw - 64 * unat (raw ! 1); sig = w_ed25519 w (take m raw) in
                   sg_raw (sp_signed e) = take m raw @ sig @ drop (m + 64) raw \<and> sg_signature (sp_signed e) = w_base58 w sig)
            else \<exists>sig. w_sign w tx = Some (sg_raw (sp_signed e), sig) \<and> sg_signature (sp_signed e) = w_base58 w sig)))"

text \<open>
  The packages' documented behaviour the sign path relies on: an Ed25519 signature has 64 bytes, and
  web3.js decodes a transaction as version 1 exactly when its first byte says so.
\<close>

definition web3_ok :: "web3 \<Rightarrow> bool" where
  "web3_ok w \<longleftrightarrow> (\<forall>m. length (w_ed25519 w m) = 64)
     \<and> (\<forall>raw tx. w_deserialize w raw = Some tx \<longrightarrow> (x_version tx = Version 1 \<longleftrightarrow> isTxV1 raw))"

section \<open>A signature is sponsored\<close>

lemma or_internal_Inr: "or_internal m = Inr x \<longleftrightarrow> m = Inr x"
  by (auto simp: or_internal_def split: sum.splits)

lemma signed_v1:
  assumes s: "signTxV1AsFeePayer raw pk sign = Inr out" and len: "\<And>m. length (sign m) = 64"
  defines "m \<equiv> length raw - 64 * unat (raw ! 1)"
  shows "out = take m raw @ sign (take m raw) @ drop (m + 64) raw" "txV1Signature out 0 = Inr (sign (take m raw))"
proof -
  let ?n = "unat (raw ! 1)"
  from s have v: "isTxV1 raw" and big: "74 + 64 * ?n \<le> length raw" "1 < length raw" and some: "1 \<le> ?n"
    and set: "u8_set raw (sign (take m raw)) m = Inr out"
    by (auto simp: signTxV1AsFeePayer_def txV1Layout_def txv1_defs m_def Let_def rbind_def nat_diff_distrib nat_mult_distrib split: if_splits)
      (unfold uint_nat, linarith)
  have m: "m + 64 * ?n = length raw" "m + 64 \<le> length raw" "74 \<le> m" using big some by (auto simp: m_def)
  show out: "out = take m raw @ sign (take m raw) @ drop (m + 64) raw"
    using set len m(2) by (simp add: u8_set_def)
  have l: "length out = length raw" and "out ! 0 = raw ! 0" "out ! 1 = raw ! 1"
    using m len by (simp_all add: out nth_append)
  moreover have "int (length raw) - 64 * uint (raw ! 1) = int m" unfolding uint_nat using m(1) by linarith
  ultimately have "txV1Layout out = Inr (?n, m)"
    using v m(3) big(2) by (simp add: txV1Layout_def isTxV1_def txv1_defs Let_def)
  moreover have "u8_slice out m (m + 64) = sign (take m raw)"
    using m len by (simp add: out u8_slice_def)
  ultimately show "txV1Signature out 0 = Inr (sign (take m raw))"
    using some by (simp add: txV1Signature_def rbind_def txv1_defs)
qed

lemma atSlotFloor_Inr: "atSlotFloor read floors n = Inr x \<Longrightarrow> \<exists>k fl. read k fl = Inr x"
  by (induction read floors n rule: atSlotFloor.induct) (subst (asm) atSlotFloor.simps, auto split: sum.splits if_splits)

lemma pre_balance_Inr: "pre_balance node floors = Inr x \<Longrightarrow> \<exists>k fl. rn_balance node k fl = Inr x"
  by (auto simp: pre_balance_def dest: atSlotFloor_Inr split: sum.splits if_splits)

lemma vet_Inr:
  assumes "vet cfg w node floors params = Inr (tx, raw, sim)"
  obtains ms b64 k where "params = Some (JObj ms)" "map_of ms ''transaction'' = Some (JStr b64)" "raw = w_base64 w b64"
    "w_deserialize w raw = Some tx" "isTxV1 raw \<longrightarrow> rc_txV1 cfg" "\<exists>s. inspectTransaction tx (policy_of cfg w raw k) = Inr s"
    "\<exists>pre. pre_balance node floors = Inr pre
      \<and> fst (checkSimulation (rn_simulation node (if x_version tx = Version 1 then raw else w_serialize w tx)) (sim_args_of cfg w tx pre (floors 6))) = Inr sim"
proof -
  from assms obtain k where d: "decodeParams cfg w params = Inr (tx, raw, k)" and rest: "\<exists>s. inspectTransaction tx (policy_of cfg w raw k) = Inr s"
    "\<exists>pre. pre_balance node floors = Inr pre
      \<and> fst (checkSimulation (rn_simulation node (if x_version tx = Version 1 then raw else w_serialize w tx)) (sim_args_of cfg w tx pre (floors 6))) = Inr sim"
    by (auto simp: vet_def Let_def split: sum.splits prod.splits)
  from d obtain ms b64 where "params = Some (JObj ms)" "map_of ms ''transaction'' = Some (JStr b64)" "raw = w_base64 w b64"
    "w_deserialize w raw = Some tx" "isTxV1 raw \<longrightarrow> rc_txV1 cfg"
    by (auto simp: decodeParams_def Let_def abind_Inr split: option.splits json.splits if_splits)
  then show ?thesis using that rest by blast
qed

lemma simulated_Inr:
  assumes pre: "pre_balance node floors = Inr pre"
    and sim: "fst (checkSimulation (rn_simulation node txBytes) (sim_args_of cfg w tx pre (floors 6))) = Inr sim"
    and e: "sp_node e = node" "sp_floor e = floors 6" "sp_payerDelta e = si_payerDelta sim"
  shows "simulated_within cfg txBytes e"
proof -
  let ?ar = "sim_args_of cfg w tx pre (floors 6)" and ?n = "rn_simulation node txBytes"
  obtain asked where c: "checkSimulation ?n ?ar = (Inr sim, asked)" using sim by (metis prod.collapse)
  have ar: "ar_preBalance ?ar = Some pre" "ar_maxLamports ?ar = rc_maxLamports cfg" "the_slot (ar_slotFloor ?ar) = floors 6"
    by (simp_all add: sim_args_of_def the_slot_def)
  obtain n b v post where n: "n < length asked" "sn_simulate ?n n (asked ! n) = Some b" "sb_result b = Some (si_contextSlot sim, v)"
    "sv_err v = None" "\<forall>g \<in> set (sv_inner v). \<forall>p \<in> set (snd g). p \<in> fst ` set ALLOWED_PROGRAMS"
    "sv_lamports v = Some post" "si_payerDelta sim = post - pre" "pre - post \<le> rc_maxLamports cfg"
    using checkSimulation_facts [OF c] unfolding ar by auto
  have "floors 6 \<le> the_slot (asked ! n)" using checkSimulation_facts [OF c] n(1) nth_mem unfolding ar by blast
  moreover obtain k fl where "rn_balance node k fl = Inr pre" using pre_balance_Inr [OF pre] by blast
  ultimately show ?thesis unfolding simulated_within_def e using n by (intro exI conjI) (assumption | simp)+
qed

lemma request_sponsored:
  assumes ok: "web3_ok w" and v: "vetAndSign cfg w node floors now params s = (Inr (sg, sim), s')"
    and e: "sp_params e = params" "sp_node e = node" "sp_floor e = floors 6" "sp_signed e = sg" "sp_payerDelta e = si_payerDelta sim"
  shows "sponsored cfg w e"
proof -
  from v obtain tx raw where vt: "vet cfg w node floors params = Inr (tx, raw, sim)" and sg: "signAsFeePayer w tx raw = Inr sg"
    by (auto simp: vetAndSign_def split: sum.splits prod.splits)
  obtain ms b64 k where d: "params = Some (JObj ms)" "map_of ms ''transaction'' = Some (JStr b64)" "raw = w_base64 w b64"
    and ds: "w_deserialize w raw = Some tx" "isTxV1 raw \<longrightarrow> rc_txV1 cfg"
    and insp: "\<exists>s. inspectTransaction tx (policy_of cfg w raw k) = Inr s"
    and sim: "\<exists>pre. pre_balance node floors = Inr pre
      \<and> fst (checkSimulation (rn_simulation node (if x_version tx = Version 1 then raw else w_serialize w tx)) (sim_args_of cfg w tx pre (floors 6))) = Inr sim"
    by (rule vet_Inr [OF vt])
  have tx: "sg_tx sg = tx" using sg by (auto simp: signAsFeePayer_def abind_Inr split: if_splits option.splits)
  have within: "simulated_within cfg (if x_version tx = Version 1 then raw else w_serialize w tx) e"
    using sim simulated_Inr e by blast
  have v1: "sg_raw sg = take m raw @ w_ed25519 w (take m raw) @ drop (m + 64) raw \<and> sg_signature sg = w_base58 w (w_ed25519 w (take m raw))"
    if "x_version tx = Version 1" "m = length raw - 64 * unat (raw ! 1)" for m
    using sg that signed_v1 [of raw "w_pubkey w" "w_ed25519 w"] ok
    by (auto simp: signAsFeePayer_def abind_Inr or_internal_Inr web3_ok_def)
  have v0: "\<exists>sig. w_sign w tx = Some (sg_raw sg, sig) \<and> sg_signature sg = w_base58 w sig" if "x_version tx \<noteq> Version 1"
    using sg that by (auto simp: signAsFeePayer_def split: option.splits)
  have on: "x_version tx = Version 1 \<Longrightarrow> rc_txV1 cfg" using ok ds unfolding web3_ok_def by blast
  note facts = insp [unfolded inspectTransaction_passes, simplified policy_of_def, simplified]
  show ?thesis unfolding sponsored_def e(1,4) Let_def tx
    by (rule exI [of _ ms], rule exI [of _ b64], rule exI [of _ raw]) (use d ds(1) facts within v1 v0 on in auto)
qed

section \<open>The hourly limit\<close>

definition at_least :: "int \<Rightarrow> int list \<Rightarrow> nat" where
  "at_least x ts = length (filter (\<lambda>t. x \<le> t) ts)"

lemma at_least_recent: "now - HOUR \<le> x \<Longrightarrow> at_least x (dropWhile (\<lambda>t. now - t > HOUR) ts) = at_least x ts"
  by (induction ts) (auto simp: at_least_def)

lemma at_least_length: "at_least x ts \<le> length ts"
  by (simp add: at_least_def)

text \<open>
  What the list of signing times knows: every signature of the last hour is in it, so a window of an
  hour holds no more than it can.
\<close>

definition limited :: "relay_cfg \<Rightarrow> relay_run \<Rightarrow> bool" where
  "limited cfg r \<longleftrightarrow>
     (\<forall>x \<ge> run_clock r - HOUR. at_least x (map sp_at (run_history r)) \<le> at_least x (rs_signedAt (run_state r)))
   \<and> (\<forall>t. length (filter (in_hour t) (run_history r)) \<le> rc_maxTxPerHour cfg)"

lemma window_at_least: "length (filter (in_hour t) es) \<le> at_least t (map sp_at es)"
  by (induction es) (auto simp: in_hour_def at_least_def)

lemma takeRateSlot_limited:
  assumes inv: "limited cfg r" and clock: "run_clock r \<le> now" and t: "takeRateSlot cfg now (run_state r) = (a, s')"
    and h: "h = [] \<or> (\<exists>e u. a = Inr u \<and> h = [e] \<and> sp_at e = now)"
  shows "limited cfg \<lparr>run_state = s', run_clock = now, run_history = run_history r @ h\<rparr>"
proof -
  have kept: "at_least x (map sp_at (run_history r)) \<le> at_least x (dropWhile (\<lambda>t. now - t > HOUR) (rs_signedAt (run_state r)))"
    if "now - HOUR \<le> x" for x
    using inv clock that at_least_recent [OF that] by (auto simp: limited_def)
  have grows: "at_least x (map sp_at (run_history r @ h)) \<le> at_least x (rs_signedAt s')" if "now - HOUR \<le> x" for x
    using kept [OF that] t h by (auto simp: takeRateSlot_def at_least_def Let_def split: if_splits)
  moreover have "length (filter (in_hour u) (run_history r @ h)) \<le> rc_maxTxPerHour cfg" for u
  proof (cases "h = [] \<or> u + HOUR < now")
    case True
    then have "filter (in_hour u) h = []" using h by (auto simp: in_hour_def)
    then show ?thesis using inv by (simp add: limited_def)
  next
    case False
    then have "length (rs_signedAt s') \<le> rc_maxTxPerHour cfg" and "now - HOUR \<le> u"
      using t h by (auto simp: takeRateSlot_def Let_def split: if_splits)
    then show ?thesis
      using window_at_least [of u "run_history r @ h"] grows [of u] at_least_length [of u "rs_signedAt s'"] by linarith
  qed
  ultimately show ?thesis by (simp add: limited_def)
qed

lemma waiting_limited:
  "limited cfg r \<Longrightarrow> run_clock r \<le> now \<Longrightarrow> rs_signedAt s = rs_signedAt (run_state r) \<Longrightarrow>
   limited cfg \<lparr>run_state = s, run_clock = now, run_history = run_history r\<rparr>"
  by (auto simp: limited_def)

lemma request_limited:
  assumes "limited cfg r" "run_clock r \<le> now" and v: "vetAndSign cfg w node floors now params (run_state r) = (res, s')"
  shows "limited cfg \<lparr>run_state = s', run_clock = now, run_history = run_history r @ recorded now params node fl res\<rparr>"
proof (cases "vet cfg w node floors params")
  case (Inl e)
  then show ?thesis using v waiting_limited [OF assms(1,2), of s'] by (auto simp: vetAndSign_def recorded_def)
next
  case (Inr x)
  obtain a s1 where t: "takeRateSlot cfg now (run_state r) = (a, s1)" by fastforce
  have "s' = s1" and "recorded now params node fl res = [] \<or> (\<exists>e u. a = Inr u \<and> recorded now params node fl res = [e] \<and> sp_at e = now)"
    using v Inr t by (auto simp: vetAndSign_def recorded_def split: sum.splits prod.splits)
  then show ?thesis using takeRateSlot_limited [OF assms(1,2) t] by blast
qed

definition exposure_ok :: "relay_cfg \<Rightarrow> web3 \<Rightarrow> relay_run \<Rightarrow> bool" where
  "exposure_ok cfg w r \<longleftrightarrow> limited cfg r \<and> (\<forall>e \<in> set (run_history r). sponsored cfg w e)"

lemma step_exposure:
  assumes ok: "web3_ok w" and "relay_step cfg w r r'" "exposure_ok cfg w r"
  shows "exposure_ok cfg w r'"
  using assms(2,3)
proof (induction rule: relay_step.induct)
  case (request r now floors node params res s')
  have "sponsored cfg w e" if "e \<in> set (recorded now params node (floors 6) res)" for e
    using that request_sponsored [OF ok, of cfg node floors now params "run_state r" _ _ s' e] request.hyps(3)
    by (auto simp: recorded_def split: sum.splits prod.splits)
  then show ?case using request request_limited [of cfg r now] by (auto simp: exposure_ok_def)
next
  case (confirmed r now slot)
  then show ?case using waiting_limited [of cfg r now "raise_floor slot (run_state r)"]
    by (cases r) (auto simp: exposure_ok_def raise_floor_def)
qed

lemma runs_exposure:
  assumes "web3_ok w" "(relay_step cfg w)\<^sup>*\<^sup>* (new_run start) r"
  shows "exposure_ok cfg w r"
  using assms(2)
proof (induction rule: rtranclp_induct)
  case base
  show ?case by (simp add: exposure_ok_def limited_def new_run_def at_least_def)
next
  case (step y z)
  show ?case using assms(1) step.hyps(2) step.IH by (rule step_exposure)
qed

lemma sum_list_bounded:
  fixes f :: "'a \<Rightarrow> int"
  assumes "\<And>x. x \<in> set xs \<Longrightarrow> f x \<le> c"
  shows "(\<Sum>x\<leftarrow>xs. f x) \<le> int (length xs) * c"
  using assms by (induction xs) (auto simp: algebra_simps intro: add_mono)


text \<open>A relayer that signs one transaction an hour, and a version 1 transaction of a passkey.\<close>

definition demo_cfg :: relay_cfg where
  "demo_cfg = \<lparr>rc_maxLamports = 5000, rc_maxTxPerHour = 1, rc_requireLazorkit = True, rc_confirmTimeoutMs = 30000, rc_apiKey = None,
     rc_corsOrigins = None, rc_maxSignatures = 4, rc_txV1 = True, rc_maxPriorityFeeLamports = 0\<rparr>"

definition demo_raw :: bytes where
  "demo_raw = [0x81, 1] @ replicate 40 0 @ replicate 32 7 @ replicate 64 0"

definition demo_web3 :: web3 where
  "demo_web3 = \<lparr>w_base64 = (\<lambda>_. demo_raw), w_base58 = (\<lambda>_. ''signature''),
     w_deserialize = (\<lambda>raw. if raw = demo_raw then Some sample_tx else None), w_serialize = (\<lambda>_. []), w_sign = (\<lambda>_. None),
     w_relayer = ''relayer'', w_pubkey = replicate 32 7, w_ed25519 = (\<lambda>_. replicate 64 9)\<rparr>"

definition demo_node :: relay_node where
  "demo_node = \<lparr>rn_balance = (\<lambda>n m. Inr 10000), rn_simulation = (\<lambda>bs. lagging_node), rn_lookUp = (\<lambda>_. Inr None)\<rparr>"

definition demo_params :: "json option" where
  "demo_params = Some (JObj [(''transaction'', JStr ''tx'')])"

lemma demo_web3_ok: "web3_ok demo_web3"
  by (auto simp: web3_ok_def demo_web3_def demo_raw_def isTxV1_def sample_tx_def TX_V1_PREFIX_def split: if_splits)

lemma demo_signs:
  "case vetAndSign demo_cfg demo_web3 demo_node (\<lambda>_. 0) 1000 demo_params (run_state (new_run 0)) of
     (Inr (sg, sim), s') \<Rightarrow> sg_raw sg = take 74 demo_raw @ replicate 64 9 \<and> si_payerDelta sim = -4000 | _ \<Rightarrow> False"
  by code_simp


end
