(* ===== verification/RelayerSend.thy ===== *)
theory RelayerSend
  imports RelayerSign
begin

text \<open>
  Sending and confirming, and the methods of the relayer's JSON-RPC interface (\<open>server.mjs\<close>). Sending
  is a bounded number of attempts; the wait for confirmation runs against a clock, so the node answers
  each call after a number of milliseconds, or never.
\<close>

section \<open>Sending\<close>

record send_error = rpc_error +
  se_transactionMessage :: "string option"
  se_isSendTransactionError :: bool

definition sendErrorText :: "send_error \<Rightarrow> string" where
  "sendErrorText e = takeWhile (\<lambda>c. c \<noteq> CHR 10) (case se_transactionMessage e of Some t \<Rightarrow> t | None \<Rightarrow> re_message e)"

definition LAG_SEND_ERROR :: "string \<Rightarrow> bool" where
  "LAG_SEND_ERROR t \<longleftrightarrow> test_i ''minimum context slot'' t \<or> test_i ''blockhash not found'' t
     \<or> test_i ''node is behind'' t \<or> test_i ''node is unhealthy'' t"

definition ALREADY_PROCESSED :: "string \<Rightarrow> bool" where
  "ALREADY_PROCESSED t \<longleftrightarrow> test_i ''already been processed'' t"

text \<open>\<open>/^4\d\d\b/\<close>: an HTTP status the client error class starts with.\<close>

definition http_4xx :: "string \<Rightarrow> bool" where
  "http_4xx t = (case t of
     a # b # c # rest \<Rightarrow> a = CHR ''4'' \<and> is_digit b \<and> is_digit c \<and> (case rest of [] \<Rightarrow> True | d # _ \<Rightarrow> \<not> is_word_char d)
   | _ \<Rightarrow> False)"

definition answered :: "send_error \<Rightarrow> bool" where
  "answered e \<longleftrightarrow> se_isSendTransactionError e \<or> http_4xx (re_message e)"

record send_node =
  sd_send :: "nat \<Rightarrow> bytes \<Rightarrow> int option \<Rightarrow> send_error + string"
  sd_lookUp :: "string \<Rightarrow> rpc_error + sig_status option"

definition known_to :: "send_node \<Rightarrow> string \<Rightarrow> bool" where
  "known_to node signature \<longleftrightarrow> (case sd_lookUp node signature of Inr (Some _) \<Rightarrow> True | _ \<Rightarrow> False)"

function send_attempts :: "send_node \<Rightarrow> bytes \<Rightarrow> int option \<Rightarrow> string \<Rightarrow> nat \<Rightarrow> string answer" where
  "send_attempts node raw minContextSlot signature attempt =
     (case sd_send node attempt raw (slot_or_null (the_slot minContextSlot)) of
        Inr s \<Rightarrow> Inr s
      | Inl e \<Rightarrow>
          if attempt < 4 \<and> (LAG_SEND_ERROR (sendErrorText e) \<or> \<not> answered e)
          then send_attempts node raw minContextSlot signature (Suc attempt)
          else if ALREADY_PROCESSED (sendErrorText e) \<or> known_to node signature then Inr signature
          else Inl (refusal ERR_SEND_FAILED ''send''))"
  by pat_completeness auto
termination by (relation "measure (\<lambda>(_, _, _, _, n). 4 - n)") auto

declare send_attempts.simps [simp del]

definition sendWithLagRetry :: "send_node \<Rightarrow> bytes \<Rightarrow> int option \<Rightarrow> string \<Rightarrow> string answer" where
  "sendWithLagRetry node raw minContextSlot signature = send_attempts node raw minContextSlot signature 0"

section \<open>Waiting\<close>

text \<open>A call's answer and after how many milliseconds it comes; \<open>None\<close> is a call that is never answered.\<close>

type_synonym 'a timed = "nat option \<times> (rpc_error + 'a)"

datatype 'a reply = Timed_out | Call_failed | Reply 'a

definition within :: "int \<Rightarrow> int \<Rightarrow> 'a timed \<Rightarrow> 'a reply \<times> int" where
  "within now deadline c = (case fst c of
     Some k \<Rightarrow> if int k \<le> max 0 (deadline - now)
       then (case snd c of Inl _ \<Rightarrow> Call_failed | Inr x \<Rightarrow> Reply x, now + int k)
       else (Timed_out, now + max 0 (deadline - now))
   | None \<Rightarrow> (Timed_out, now + max 0 (deadline - now)))"

record wait_node =
  wt_statuses :: "int \<Rightarrow> sig_status option timed"
  wt_valid :: "int \<Rightarrow> bool timed"
  wt_lookUp :: "int \<Rightarrow> sig_status option timed"

datatype landing = L_confirmed int | L_failed tx_err int | L_expired | L_timeout

definition landing_of :: "sig_status \<Rightarrow> landing" where
  "landing_of st = (case st_err st of Some err \<Rightarrow> L_failed err (st_slot st) | None \<Rightarrow> L_confirmed (st_slot st))"

definition pause :: "nat \<Rightarrow> int \<Rightarrow> int" where
  "pause polls left = min (if polls < 10 then 500 else 1000) (max 0 left)"

lemma within_time: "within now deadline c = (r, t) \<Longrightarrow> now \<le> t \<and> (now \<le> deadline \<longrightarrow> t \<le> deadline) \<and> (now \<le> deadline \<longrightarrow> r = Timed_out \<longrightarrow> t = deadline)"
  by (auto simp: within_def split: option.splits if_splits sum.splits)

text \<open>One turn of the loop: the outcome and its time, or the time and the count of expired answers to go on with.\<close>

datatype turn = Done landing int | Again int nat

definition last_look :: "wait_node \<Rightarrow> int \<Rightarrow> int \<Rightarrow> nat \<Rightarrow> turn" where
  "last_look node deadline t2 seen = (case within t2 deadline (wt_lookUp node t2) of
     (Timed_out, t3) \<Rightarrow> Done L_timeout t3
   | (Call_failed, t3) \<Rightarrow> Again t3 seen
   | (Reply None, t3) \<Rightarrow> Done L_expired t3
   | (Reply (Some _), t3) \<Rightarrow> Again t3 0)"

definition ask_valid :: "wait_node \<Rightarrow> int \<Rightarrow> int \<Rightarrow> nat \<Rightarrow> turn" where
  "ask_valid node deadline t1 expiredSeen = (case within t1 deadline (wt_valid node t1) of
     (Timed_out, t2) \<Rightarrow> Done L_timeout t2
   | (Call_failed, t2) \<Rightarrow> Again t2 expiredSeen
   | (Reply valid, t2) \<Rightarrow>
       let seen = (if valid then 0 else Suc expiredSeen) in
       if seen \<ge> 2 then last_look node deadline t2 seen else Again t2 seen)"

definition poll :: "wait_node \<Rightarrow> int \<Rightarrow> int \<Rightarrow> nat \<Rightarrow> nat \<Rightarrow> turn" where
  "poll node deadline now polls expiredSeen =
     (let t = now + pause polls (deadline - now) in
      case within t deadline (wt_statuses node t) of
        (Timed_out, t1) \<Rightarrow> Done L_timeout t1
      | (Call_failed, t1) \<Rightarrow> Again t1 expiredSeen
      | (Reply (Some st), t1) \<Rightarrow> if settled st then Done (landing_of st) t1 else Again t1 0
      | (Reply None, t1) \<Rightarrow> if Suc polls mod 4 \<noteq> 0 then Again t1 expiredSeen else ask_valid node deadline t1 expiredSeen)"

fun turn_time :: "turn \<Rightarrow> int" where
  "turn_time (Done l t) = t"
| "turn_time (Again t n) = t"

lemma last_look_time: "t \<le> deadline \<Longrightarrow> t \<le> turn_time (last_look node deadline t n) \<and> turn_time (last_look node deadline t n) \<le> deadline"
  by (auto simp: last_look_def dest: within_time split: prod.splits reply.splits option.splits)

lemma ask_valid_time:
  assumes "t \<le> deadline"
  shows "t \<le> turn_time (ask_valid node deadline t n) \<and> turn_time (ask_valid node deadline t n) \<le> deadline"
proof -
  obtain r t2 where w: "within t deadline (wt_valid node t) = (r, t2)" by fastforce
  then have "t \<le> t2" "t2 \<le> deadline" using within_time [OF w] assms by auto
  then show ?thesis
    using w last_look_time [of t2 deadline node "Suc n"] by (cases r) (auto simp: ask_valid_def Let_def)
qed

lemma poll_time:
  assumes "now < deadline"
  shows "now + pause polls (deadline - now) \<le> turn_time (poll node deadline now polls n) \<and> turn_time (poll node deadline now polls n) \<le> deadline"
proof -
  let ?t = "now + pause polls (deadline - now)"
  have t: "?t \<le> deadline" using assms by (simp add: pause_def)
  obtain r t1 where w: "within ?t deadline (wt_statuses node ?t) = (r, t1)" by fastforce
  then have "?t \<le> t1" "t1 \<le> deadline" using within_time [OF w] t by auto
  then show ?thesis
    using w ask_valid_time [of t1 deadline node n] by (cases r) (auto simp: poll_def Let_def split: option.split)
qed

text \<open>The loop: what became of the transaction, when, and after how many polls.\<close>

function wait_loop :: "wait_node \<Rightarrow> int \<Rightarrow> int \<Rightarrow> nat \<Rightarrow> nat \<Rightarrow> landing \<times> int \<times> nat" where
  "wait_loop node deadline now polls expiredSeen =
     (if deadline - now \<le> 0 then (L_timeout, now, polls)
      else case poll node deadline now polls expiredSeen of
        Done l t \<Rightarrow> (l, t, Suc polls)
      | Again t seen \<Rightarrow> wait_loop node deadline t (Suc polls) seen)"
  by pat_completeness auto
termination
proof (relation "measure (\<lambda>(_, deadline, now, _). nat (deadline - now))")
  fix node deadline now polls expiredSeen t seen
  assume "\<not> deadline - now \<le> (0 :: int)" "poll node deadline now polls expiredSeen = Again t seen"
  then show "((node, deadline, t, Suc polls, seen), node, deadline, now, polls, expiredSeen)
      \<in> measure (\<lambda>(_, deadline, now, _). nat (deadline - now))"
    using poll_time [of now deadline polls node expiredSeen] by (auto simp: pause_def split: if_splits)
qed simp

declare wait_loop.simps [simp del]

definition waitConfirmed :: "relay_cfg \<Rightarrow> wait_node \<Rightarrow> int \<Rightarrow> landing \<times> int \<times> nat" where
  "waitConfirmed cfg node start = wait_loop node (start + rc_confirmTimeoutMs cfg) start 0 0"

section \<open>What an outcome rests on\<close>

fun justified :: "wait_node \<Rightarrow> int \<Rightarrow> int \<Rightarrow> int \<Rightarrow> landing \<Rightarrow> bool" where
  "justified node start deadline at (L_confirmed slot) =
     (\<exists>t k st. start \<le> t \<and> t + int k = at \<and> wt_statuses node t = (Some k, Inr (Some st)) \<and> settled st
       \<and> st_err st = None \<and> st_slot st = slot)"
| "justified node start deadline at (L_failed err slot) =
     (\<exists>t k st. start \<le> t \<and> t + int k = at \<and> wt_statuses node t = (Some k, Inr (Some st)) \<and> settled st
       \<and> st_err st = Some err \<and> st_slot st = slot)"
| "justified node start deadline at L_expired =
     (\<exists>ta ka tb kb tc kc. start \<le> ta \<and> ta < tb \<and> tb \<le> tc \<and> tc + int kc = at
       \<and> wt_valid node ta = (Some ka, Inr False) \<and> wt_valid node tb = (Some kb, Inr False) \<and> wt_lookUp node tc = (Some kc, Inr None))"
| "justified node start deadline at L_timeout = (at = deadline)"

definition seen_ok :: "wait_node \<Rightarrow> int \<Rightarrow> int \<Rightarrow> nat \<Rightarrow> bool" where
  "seen_ok node start now n \<longleftrightarrow> n = 0 \<or> (\<exists>ta ka. start \<le> ta \<and> ta \<le> now \<and> wt_valid node ta = (Some ka, Inr False))"

fun turn_ok :: "wait_node \<Rightarrow> int \<Rightarrow> int \<Rightarrow> turn \<Rightarrow> bool" where
  "turn_ok node start deadline (Done l t) = justified node start deadline t l"
| "turn_ok node start deadline (Again t n) = seen_ok node start t n"

lemma within_Reply: "within now deadline c = (Reply x, t) \<Longrightarrow> \<exists>k. c = (Some k, Inr x) \<and> t = now + int k"
  by (cases c) (auto simp: within_def split: option.splits if_splits sum.splits)

lemma seen_ok_mono: "seen_ok node start now n \<Longrightarrow> now \<le> now' \<Longrightarrow> seen_ok node start now' n"
  unfolding seen_ok_def by (meson order_trans)

lemma last_look_ok:
  assumes "t2 \<le> deadline" "start \<le> ta" "ta < tb" "tb \<le> t2" "wt_valid node ta = (Some ka, Inr False)" "wt_valid node tb = (Some kb, Inr False)"
  shows "turn_ok node start deadline (last_look node deadline t2 n)"
proof -
  obtain r t3 where w: "within t2 deadline (wt_lookUp node t2) = (r, t3)" by fastforce
  note time = within_time [OF w]
  have "ta \<le> t3" using assms(3,4) time by linarith
  then have "seen_ok node start t3 n" using assms(2,5) unfolding seen_ok_def by blast
  moreover have "turn_ok node start deadline (Done L_expired t3)" if none: "r = Reply None"
  proof -
    obtain k where "wt_lookUp node t2 = (Some k, Inr None)" "t2 + int k = t3"
      using within_Reply [of t2 deadline "wt_lookUp node t2" None t3] w none by auto
    then show ?thesis using assms(2-6) by (simp, blast)
  qed
  ultimately show ?thesis
    using w time assms(1) by (cases r) (auto simp: last_look_def seen_ok_def split: option.split)
qed

lemma ask_valid_ok:
  assumes "t1 \<le> deadline" "start \<le> t1" "now < t1" "seen_ok node start now n"
  shows "turn_ok node start deadline (ask_valid node deadline t1 n)"
proof -
  obtain r t2 where w: "within t1 deadline (wt_valid node t1) = (r, t2)" by fastforce
  note time = within_time [OF w]
  show ?thesis
  proof (cases "r = Reply False")
    case True
    then obtain kb where kb: "wt_valid node t1 = (Some kb, Inr False)" using within_Reply [of t1 deadline "wt_valid node t1" False t2] w by auto
    have "turn_ok node start deadline (last_look node deadline t2 (Suc n))" if "n \<noteq> 0"
      using that assms(3,4) last_look_ok [of t2 deadline start _ t1 node _ kb] time assms(1) kb
      by (auto simp: seen_ok_def)
    moreover have "seen_ok node start t2 (Suc n)" using kb time assms(2) by (auto simp: seen_ok_def)
    ultimately show ?thesis using True w by (auto simp: ask_valid_def Let_def)
  next
    case False
    then show ?thesis
      using w time assms seen_ok_mono [OF assms(4), of t2] by (cases r) (auto simp: ask_valid_def Let_def seen_ok_def)
  qed
qed

lemma poll_ok:
  assumes "now < deadline" "start \<le> now" "seen_ok node start now n"
  shows "turn_ok node start deadline (poll node deadline now polls n)"
proof -
  let ?t = "now + pause polls (deadline - now)"
  have t: "now < ?t" "?t \<le> deadline" using assms(1) by (auto simp: pause_def)
  obtain r t1 where w: "within ?t deadline (wt_statuses node ?t) = (r, t1)" by fastforce
  note time = within_time [OF w]
  have seen: "seen_ok node start t1 n" using seen_ok_mono [OF assms(3), of t1] time t by auto
  have "turn_ok node start deadline (Done (landing_of st) t1)" if st: "r = Reply (Some st)" "settled st" for st
  proof -
    obtain k where "wt_statuses node ?t = (Some k, Inr (Some st))" "t1 = ?t + int k"
      using within_Reply [of ?t deadline "wt_statuses node ?t" "Some st" t1] w st(1) by auto
    moreover have "start \<le> ?t" using t assms(2) by linarith
    ultimately show ?thesis using st(2) by (cases "st_err st") (auto simp: landing_of_def)
  qed
  moreover have "turn_ok node start deadline (ask_valid node deadline t1 n)"
    using ask_valid_ok [of t1 deadline start now node n] time t assms by auto
  ultimately show ?thesis
    using w time t seen by (cases r) (auto simp: poll_def Let_def seen_ok_def split: option.split)
qed

lemma wait_loop_ok:
  assumes "start \<le> now" "now \<le> deadline" "seen_ok node start now n" "500 * int polls < deadline - start + 500"
    "now < deadline \<Longrightarrow> 500 * int polls \<le> now - start" "wait_loop node deadline now polls n = (l, at, ps)"
  shows "justified node start deadline at l \<and> start \<le> at \<and> at \<le> deadline \<and> 500 * int ps < deadline - start + 500"
  using assms
proof (induction node deadline now polls n arbitrary: l at ps rule: wait_loop.induct)
  case (1 node deadline now polls n)
  show ?case
  proof (cases "now < deadline")
    case False
    then show ?thesis using 1(2,3,5,7) by (subst (asm) wait_loop.simps) auto
  next
    case True
    note time = poll_time [OF True, of polls node n] and ok = poll_ok [OF True 1(2,4), of polls]
    have next_polls: "500 * int (Suc polls) < deadline - start + 500" using 1(6) True by simp
    show ?thesis
    proof (cases "poll node deadline now polls n")
      case (Done l' t)
      moreover have "start \<le> t" using 1(2) time True Done by (auto simp: pause_def split: if_splits)
      ultimately show ?thesis using 1(7) time ok next_polls True by (subst (asm) wait_loop.simps) auto
    next
      case (Again t seen)
      then have "wait_loop node deadline t (Suc polls) seen = (l, at, ps)" using 1(7) True by (subst (asm) wait_loop.simps) auto
      moreover have "t < deadline \<Longrightarrow> 500 * int (Suc polls) \<le> t - start" "start \<le> t"
        using 1(2) 1(6) [OF True] time Again True by (auto simp: pause_def split: if_splits)
      ultimately show ?thesis using 1(1) [OF _ Again] True time ok Again next_polls by auto
    qed
  qed
qed

section \<open>A settled transaction is reported\<close>

text \<open>A node that answers every call within \<open>L\<close> milliseconds, and reports the signature settled from \<open>T\<close> on.\<close>

definition prompt :: "wait_node \<Rightarrow> int \<Rightarrow> bool" where
  "prompt node L \<longleftrightarrow> (\<forall>t. (\<exists>k x. wt_statuses node t = (Some k, x) \<and> int k \<le> L) \<and> (\<exists>k x. wt_valid node t = (Some k, x) \<and> int k \<le> L)
     \<and> (\<exists>k x. wt_lookUp node t = (Some k, x) \<and> int k \<le> L))"

definition settles_from :: "wait_node \<Rightarrow> int \<Rightarrow> bool" where
  "settles_from node T \<longleftrightarrow> (\<forall>t \<ge> T. \<exists>st. snd (wt_statuses node t) = Inr (Some st) \<and> settled st)"

fun timely :: "int \<Rightarrow> turn \<Rightarrow> bool" where
  "timely t (Done l t') \<longleftrightarrow> l \<noteq> L_timeout \<and> t' \<le> t"
| "timely t (Again t' n) \<longleftrightarrow> t' \<le> t"

lemma within_prompt:
  "now + L \<le> deadline \<Longrightarrow> \<exists>k x. c = (Some k, x) \<and> int k \<le> L \<Longrightarrow> within now deadline c = (r, t) \<Longrightarrow>
   r \<noteq> Timed_out \<and> t \<le> now + L \<and> (snd c = Inr y \<longrightarrow> r = Reply y)"
  by (auto simp: within_def split: sum.splits)

lemma last_look_prompt:
  assumes "prompt node L" "t + L \<le> deadline"
  shows "timely (t + L) (last_look node deadline t n)"
proof -
  obtain r t3 where w: "within t deadline (wt_lookUp node t) = (r, t3)" by fastforce
  have "r \<noteq> Timed_out \<and> t3 \<le> t + L" using within_prompt [OF assms(2) _ w] assms(1) by (auto simp: prompt_def)
  then show ?thesis using w by (cases r) (auto simp: last_look_def split: option.split)
qed

lemma timely_mono: "timely t x \<Longrightarrow> t \<le> t' \<Longrightarrow> timely t' x"
  by (cases x) auto

lemma ask_valid_prompt:
  assumes "prompt node L" "t + 2 * L \<le> deadline" "0 \<le> L"
  shows "timely (t + 2 * L) (ask_valid node deadline t n)"
proof -
  obtain r t2 where w: "within t deadline (wt_valid node t) = (r, t2)" by fastforce
  have l: "t + L \<le> deadline" using assms by simp
  have r: "r \<noteq> Timed_out \<and> t2 \<le> t + L" using within_prompt [OF l _ w] assms(1) by (auto simp: prompt_def)
  then have "timely (t + 2 * L) (last_look node deadline t2 (Suc n))"
    using timely_mono [OF last_look_prompt [OF assms(1), of t2 deadline "Suc n"]] assms(2) by simp
  then show ?thesis using w r assms(3) by (cases r) (auto simp: ask_valid_def Let_def)
qed

lemma poll_prompt:
  assumes "prompt node L" "now + 1000 + 3 * L \<le> deadline" "0 \<le> L" "now < deadline"
  shows "timely (now + 1000 + 3 * L) (poll node deadline now polls n)"
    and "settles_from node T \<Longrightarrow> T \<le> now \<Longrightarrow> \<exists>l t. poll node deadline now polls n = Done l t"
proof -
  let ?t = "now + pause polls (deadline - now)"
  obtain r t1 where w: "within ?t deadline (wt_statuses node ?t) = (r, t1)" by fastforce
  have t: "?t \<le> now + 1000" "?t + L \<le> deadline" "now \<le> ?t" using assms by (auto simp: pause_def)
  have ans: "\<exists>k x. wt_statuses node ?t = (Some k, x) \<and> int k \<le> L" using assms(1) by (auto simp: prompt_def)
  have r: "r \<noteq> Timed_out" "t1 \<le> ?t + L" "\<And>y. snd (wt_statuses node ?t) = Inr y \<Longrightarrow> r = Reply y"
    using within_prompt [OF t(2) ans w] by blast+
  have "timely (now + 1000 + 3 * L) (ask_valid node deadline t1 n)"
    using timely_mono [OF ask_valid_prompt [OF assms(1) _ assms(3), of t1 deadline n]] r t assms(2) by simp
  then show "timely (now + 1000 + 3 * L) (poll node deadline now polls n)"
    using w r t assms(3) by (cases r) (auto simp: poll_def Let_def landing_of_def split: option.split)
  assume "settles_from node T" "T \<le> now"
  then obtain st where "snd (wt_statuses node ?t) = Inr (Some st)" "settled st"
    using t(3) unfolding settles_from_def by (meson order_trans)
  then show "\<exists>l t. poll node deadline now polls n = Done l t" using r w by (simp add: poll_def Let_def)
qed

lemma wait_loop_settles:
  assumes "prompt node L" "settles_from node T" "0 \<le> L" "T + 2000 + 6 * L \<le> deadline" "now \<le> T + 1000 + 3 * L"
    "wait_loop node deadline now polls n = (l, at, ps)"
  shows "l \<noteq> L_timeout \<and> at \<le> T + 2000 + 6 * L"
  using assms
proof (induction node deadline now polls n arbitrary: l at ps rule: wait_loop.induct)
  case (1 node deadline now polls n)
  have room: "now < deadline" "now + 1000 + 3 * L \<le> deadline" using 1(4,5,6) by simp_all
  note turn = poll_prompt [OF 1(2) room(2) 1(4) room(1), where polls = polls and n = n]
  show ?case
  proof (cases "poll node deadline now polls n")
    case (Done l' t)
    then show ?thesis using 1(6,7) turn(1) room by (subst (asm) wait_loop.simps) auto
  next
    case (Again t seen)
    then have "now < T" using turn(2) [OF 1(3)] by fastforce
    then have "t \<le> T + 1000 + 3 * L" using turn(1) Again by simp
    moreover have "wait_loop node deadline t (Suc polls) seen = (l, at, ps)"
      using 1(7) room(1) Again by (subst (asm) wait_loop.simps) auto
    ultimately show ?thesis using 1(1) [OF _ Again 1(2-5)] room(1) by simp
  qed
qed


text \<open>A node that takes 200 ms to answer and sees the transaction confirmed from the third second on.\<close>

definition slow_node :: wait_node where
  "slow_node = \<lparr>wt_statuses = (\<lambda>t. (Some 200, Inr (if t < 3000 then None else Some \<lparr>st_slot = 42, st_err = None, st_confirmationStatus = ''confirmed''\<rparr>))),
     wt_valid = (\<lambda>t. (Some 200, Inr True)), wt_lookUp = (\<lambda>t. (Some 200, Inr None))\<rparr>"


end
