(* ===== verification/RelayerHttp.thy ===== *)
theory RelayerHttp
  imports RelayerSend
begin

text \<open>
  The relayer's JSON-RPC methods and the HTTP handler in front of them (\<open>server.mjs\<close>). \<open>new URL\<close> and
  the machine's network addresses are parameters; of an answer the status, the error code or the result
  is kept, not the message text or the log line.
\<close>

section \<open>Methods\<close>

text \<open>What one call meets: its node, the floors it reads, and the times at which it signs and starts to wait.\<close>

record call_env =
  ce_node :: relay_node
  ce_floors :: "nat \<Rightarrow> int"
  ce_now :: int
  ce_send :: send_node
  ce_wait :: wait_node
  ce_start :: int
  ce_blockhash :: "rpc_error + string"

record relay_result =
  rr_signature :: "string option"
  rr_signed_transaction :: bytes
  rr_signer_pubkey :: address

text \<open>What a method answers, and whether it handed bytes to the network: not at all, before the answer, or after it.\<close>

datatype broadcast = Not_sent | Sent bytes | Sent_after bytes

datatype method_result = R_payer address | R_blockhash string | R_signed relay_result

type_synonym method_answer = "method_result answer \<times> broadcast \<times> relay_state"

definition RESPOND_AFTER :: "string list" where "RESPOND_AFTER = [''confirmed'', ''sent'', ''signed'']"

definition respond_after_of :: "json option \<Rightarrow> string option" where
  "respond_after_of params =
     (let v = (case params of Some (JObj ms) \<Rightarrow> (case map_of ms ''respond_after'' of Some JNull \<Rightarrow> None | x \<Rightarrow> x) | _ \<Rightarrow> None) in
      case v of
        None \<Rightarrow> Some ''confirmed''
      | Some (JStr r) \<Rightarrow> if r \<in> set RESPOND_AFTER then Some r else None
      | Some _ \<Rightarrow> None)"

definition getPayerSigner :: "web3 \<Rightarrow> relay_state \<Rightarrow> method_answer" where
  "getPayerSigner w s = (Inr (R_payer (w_relayer w)), Not_sent, s)"

definition getBlockhash :: "call_env \<Rightarrow> relay_state \<Rightarrow> method_answer" where
  "getBlockhash env s = (case ce_blockhash env of
     Inl _ \<Rightarrow> (Inl internal_error, Not_sent, s) | Inr h \<Rightarrow> (Inr (R_blockhash h), Not_sent, s))"

definition signTransaction :: "relay_cfg \<Rightarrow> web3 \<Rightarrow> call_env \<Rightarrow> json option \<Rightarrow> relay_state \<Rightarrow> method_answer" where
  "signTransaction cfg w env params s =
     (case vetAndSignOrLanded cfg w (ce_node env) (ce_floors env) (ce_now env) params s of
        (Inl e, s') \<Rightarrow> (Inl e, Not_sent, s')
      | (Inr (sg, _), s') \<Rightarrow>
          (Inr (R_signed \<lparr>rr_signature = None, rr_signed_transaction = sg_raw sg, rr_signer_pubkey = w_relayer w\<rparr>), Not_sent, s'))"

text \<open>The end of \<open>signAndSendTransaction\<close>: the answer once the transaction is known to have been sent.\<close>

definition await_landing :: "relay_cfg \<Rightarrow> call_env \<Rightarrow> relay_result \<Rightarrow> broadcast \<Rightarrow> relay_state \<Rightarrow> method_answer" where
  "await_landing cfg env result b s = (case fst (waitConfirmed cfg (ce_wait env) (ce_start env)) of
     L_confirmed slot \<Rightarrow> (Inr (R_signed result), b, raise_floor slot s)
   | L_failed err slot \<Rightarrow> (Inl ((refusal ERR_SEND_FAILED ''transaction_failed'')\<lparr>pe_err := Some err\<rparr>), b, s)
   | L_expired \<Rightarrow> (Inl (refusal ERR_SEND_FAILED ''blockhash_expired''), b, s)
   | L_timeout \<Rightarrow> (Inr (R_signed result), b, s))"

definition signAndSendTransaction :: "relay_cfg \<Rightarrow> web3 \<Rightarrow> call_env \<Rightarrow> json option \<Rightarrow> relay_state \<Rightarrow> method_answer" where
  "signAndSendTransaction cfg w env params s = (case respond_after_of params of
     None \<Rightarrow> (Inl (refusal ERR_INVALID_PARAMS ''''), Not_sent, s)
   | Some respondAfter \<Rightarrow> (case vetAndSignOrLanded cfg w (ce_node env) (ce_floors env) (ce_now env) params s of
       (Inl e, s') \<Rightarrow> (Inl e, Not_sent, s')
     | (Inr (sg, origin), s') \<Rightarrow>
         let result = \<lparr>rr_signature = Some (sg_signature sg), rr_signed_transaction = sg_raw sg, rr_signer_pubkey = w_relayer w\<rparr> in
         (case origin of
            Resent slot confirmed \<Rightarrow>
              if respondAfter \<noteq> ''confirmed'' \<or> confirmed then (Inr (R_signed result), Not_sent, s')
              else await_landing cfg env result Not_sent s'
          | Fresh sim \<Rightarrow>
              if respondAfter = ''signed'' then (Inr (R_signed result), Sent_after (sg_raw sg), s')
              else (case sendWithLagRetry (ce_send env) (sg_raw sg) (si_contextSlot sim) (sg_signature sg) of
                Inl e \<Rightarrow> (Inl e, Sent (sg_raw sg), s')
              | Inr _ \<Rightarrow>
                  if respondAfter \<noteq> ''confirmed'' then (Inr (R_signed result), Sent (sg_raw sg), s')
                  else await_landing cfg env result (Sent (sg_raw sg)) s'))))"

section \<open>Hosts and origins\<close>

definition unbracket :: "string \<Rightarrow> string" where
  "unbracket h = map lower (if length h \<ge> 2 \<and> hd h = CHR ''['' \<and> last h = CHR '']'' then butlast (tl h) else h)"

definition machineHostnames :: "string list \<Rightarrow> string set" where
  "machineHostnames addresses =
     {''localhost'', ''127.0.0.1'', ''::1''} \<union> set (map (\<lambda>a. map lower (takeWhile (\<lambda>c. c \<noteq> CHR ''%'') a)) addresses)"

record http_env =
  he_url :: "string \<Rightarrow> (string \<times> string) option"
  he_addresses :: "string list"
  he_allowedHosts :: "string set"

definition corsAny :: "relay_cfg \<Rightarrow> bool" where
  "corsAny cfg \<longleftrightarrow> (case rc_corsOrigins cfg of Some (x # _) \<Rightarrow> x = ''*'' | _ \<Rightarrow> False)"

definition originAllowed :: "relay_cfg \<Rightarrow> http_env \<Rightarrow> string option \<Rightarrow> bool" where
  "originAllowed cfg henv origin = (case origin of
     None \<Rightarrow> False
   | Some org \<Rightarrow>
       if org = '''' \<or> org = ''null'' then False
       else (case rc_corsOrigins cfg of
         Some list \<Rightarrow> corsAny cfg \<or> org \<in> set list
       | None \<Rightarrow> (case he_url henv org of
           None \<Rightarrow> False
         | Some (protocol, hostname) \<Rightarrow>
             (protocol = ''http:'' \<or> protocol = ''https:'') \<and> unbracket hostname \<in> machineHostnames (he_addresses henv))))"

record http_request =
  rq_method :: string
  rq_url :: string
  rq_host :: "string option"
  rq_origin :: "string option"
  rq_contentType :: "string option"
  rq_apiKey :: "string option"
  rq_privateNetwork :: "string option"
  rq_chunks :: "bytes list"

definition corsHeaders :: "relay_cfg \<Rightarrow> http_env \<Rightarrow> http_request \<Rightarrow> (string \<times> string) list" where
  "corsHeaders cfg henv req =
     (let base = [(''Access-Control-Allow-Methods'', ''POST, GET, OPTIONS''), (''Access-Control-Allow-Headers'', ''content-type, x-api-key''),
                  (''Access-Control-Max-Age'', ''600''), (''Vary'', ''Origin'')];
          allow = (if corsAny cfg then [(''Access-Control-Allow-Origin'', ''*'')]
                   else if originAllowed cfg henv (rq_origin req) then [(''Access-Control-Allow-Origin'', the (rq_origin req))] else []) in
      base @ allow @ (if rq_privateNetwork req = Some ''true'' \<and> allow \<noteq> [] then [(''Access-Control-Allow-Private-Network'', ''true'')] else []))"

text \<open>The host name of a \<open>Host\<close> header: up to the port, or the bracketed address.\<close>

definition host_name :: "string \<Rightarrow> string" where
  "host_name host =
     (if host \<noteq> [] \<and> hd host = CHR ''[''
      then if CHR '']'' \<in> set host then takeWhile (\<lambda>c. c \<noteq> CHR '']'') host @ '']'' else ''''
      else takeWhile (\<lambda>c. c \<noteq> CHR '':'') host)"

definition hostAllowed :: "http_env \<Rightarrow> http_request \<Rightarrow> bool" where
  "hostAllowed henv req = (case rq_host req of
     None \<Rightarrow> False
   | Some host \<Rightarrow> host \<noteq> '''' \<and> unbracket (host_name host) \<in> he_allowedHosts henv)"

section \<open>The handler\<close>

definition MAX_BODY :: nat where "MAX_BODY = 64 * 1024"

definition PROTECTED :: "string list" where "PROTECTED = [''signTransaction'', ''signAndSendTransaction'']"

definition methods :: "string list" where
  "methods = [''getPayerSigner'', ''getBlockhash'', ''signTransaction'', ''signAndSendTransaction'']"

datatype http_body = B_empty | B_status | B_error string | B_rpc_error "json option" int "policy_error option" | B_result "json option" method_result

record http_answer =
  ha_status :: nat
  ha_body :: http_body
  ha_cors :: bool

definition is_space :: "char \<Rightarrow> bool" where
  "is_space c \<longleftrightarrow> c \<in> {CHR 9, CHR 10, CHR 11, CHR 12, CHR 13, CHR 32, CHR 0xA0}"

definition trim :: "string \<Rightarrow> string" where
  "trim s = rev (dropWhile is_space (rev (dropWhile is_space s)))"

definition content_type :: "http_request \<Rightarrow> string" where
  "content_type req =
     (let t = (case rq_contentType req of Some t \<Rightarrow> t | None \<Rightarrow> '''') in
      map lower (trim (takeWhile (\<lambda>c. c \<noteq> CHR '';'') t)))"

text \<open>The body, chunk by chunk, until it is too large.\<close>

fun read_body :: "bytes \<Rightarrow> bytes list \<Rightarrow> bytes option" where
  "read_body got [] = Some got"
| "read_body got (c # cs) = (if length got + length c > MAX_BODY then None else read_body (got @ c) cs)"

definition call_method :: "relay_cfg \<Rightarrow> web3 \<Rightarrow> call_env \<Rightarrow> string \<Rightarrow> json option \<Rightarrow> relay_state \<Rightarrow> method_answer" where
  "call_method cfg w env m params s =
     (if m = ''getPayerSigner'' then getPayerSigner w s
      else if m = ''getBlockhash'' then getBlockhash env s
      else if m = ''signTransaction'' then signTransaction cfg w env params s
      else signAndSendTransaction cfg w env params s)"

definition rpc_fail :: "json option \<Rightarrow> int \<Rightarrow> http_answer" where
  "rpc_fail i c = \<lparr>ha_status = 200, ha_body = B_rpc_error i c None, ha_cors = True\<rparr>"

definition handle_call :: "relay_cfg \<Rightarrow> web3 \<Rightarrow> call_env \<Rightarrow> http_request \<Rightarrow> json \<Rightarrow> relay_state \<Rightarrow> http_answer \<times> broadcast \<times> relay_state" where
  "handle_call cfg w env req rpc s = (case rpc of
     JObj ms \<Rightarrow> (case map_of ms ''method'' of
       Some (JStr m) \<Rightarrow>
         let i = map_of ms ''id'' in
         if m \<notin> set methods then (rpc_fail i (-32601), Not_sent, s)
         else if (case rc_apiKey cfg of Some key \<Rightarrow> key \<noteq> '''' \<and> m \<in> set PROTECTED \<and> rq_apiKey req \<noteq> Some key | None \<Rightarrow> False)
         then (\<lparr>ha_status = 401, ha_body = B_rpc_error i (-32001) None, ha_cors = True\<rparr>, Not_sent, s)
         else (case call_method cfg w env m (map_of ms ''params'') s of
           (Inr r, b, s') \<Rightarrow> (\<lparr>ha_status = 200, ha_body = B_result i r, ha_cors = True\<rparr>, b, s')
         | (Inl e, b, s') \<Rightarrow> (\<lparr>ha_status = 200, ha_body = B_rpc_error i (pe_code e) (Some e), ha_cors = True\<rparr>, b, s'))
     | _ \<Rightarrow> (rpc_fail (map_of ms ''id'') (-32600), Not_sent, s))
   | _ \<Rightarrow> (rpc_fail None (-32600), Not_sent, s))"

definition handle ::
  "relay_cfg \<Rightarrow> web3 \<Rightarrow> http_env \<Rightarrow> call_env \<Rightarrow> http_request \<Rightarrow> relay_state \<Rightarrow> http_answer \<times> broadcast \<times> relay_state" where
  "handle cfg w henv env req s =
     (if \<not> hostAllowed henv req then (\<lparr>ha_status = 421, ha_body = B_rpc_error None (-32600) None, ha_cors = False\<rparr>, Not_sent, s)
      else if rq_method req = ''OPTIONS'' then (\<lparr>ha_status = 204, ha_body = B_empty, ha_cors = True\<rparr>, Not_sent, s)
      else if rq_method req = ''GET'' then
        (if rq_url req = ''/'' \<or> rq_url req = ''/health'' \<or> take 2 (rq_url req) = ''/?''
         then (\<lparr>ha_status = 200, ha_body = B_status, ha_cors = True\<rparr>, Not_sent, s)
         else (\<lparr>ha_status = 404, ha_body = B_error ''not found'', ha_cors = True\<rparr>, Not_sent, s))
      else if rq_method req \<noteq> ''POST'' then (\<lparr>ha_status = 405, ha_body = B_error ''method not allowed'', ha_cors = True\<rparr>, Not_sent, s)
      else if content_type req \<noteq> ''application/json''
      then (\<lparr>ha_status = 415, ha_body = B_rpc_error None (-32600) None, ha_cors = True\<rparr>, Not_sent, s)
      else (case read_body [] (rq_chunks req) of
        None \<Rightarrow> (\<lparr>ha_status = 413, ha_body = B_rpc_error None (-32600) None, ha_cors = True\<rparr>, Not_sent, s)
      | Some body \<Rightarrow> (case JSON_parse (utf8_decode body) of
          Inl _ \<Rightarrow> (rpc_fail None (-32700), Not_sent, s)
        | Inr rpc \<Rightarrow> handle_call cfg w env req rpc s)))"

section \<open>Every request is a step of a run\<close>

text \<open>A signature that the node reports on chain, of a transaction that did not fail.\<close>

definition on_chain :: "web3 \<Rightarrow> relay_node \<Rightarrow> bytes \<Rightarrow> bool" where
  "on_chain w node signed_bytes \<longleftrightarrow> (\<exists>tx raw sg st. signAsFeePayer w tx raw = Inr sg \<and> sg_raw sg = signed_bytes
     \<and> rn_lookUp node (sg_signature sg) = Inr (Some st) \<and> st_err st = None)"

text \<open>
  A call is accounted for: its effect on the state is a run of the sign path, what it broadcasts is what
  that run signed, and what it gives out as signed is that or on chain already.
\<close>

definition accounted :: "relay_cfg \<Rightarrow> web3 \<Rightarrow> call_env \<Rightarrow> relay_run \<Rightarrow> method_answer \<Rightarrow> bool" where
  "accounted cfg w env r m \<longleftrightarrow> (\<exists>r' new. (relay_step cfg w)\<^sup>*\<^sup>* r r' \<and> run_state r' = snd (snd m)
     \<and> run_history r' = run_history r @ new \<and> length new \<le> 1
     \<and> (\<forall>x. fst (snd m) = Sent x \<or> fst (snd m) = Sent_after x \<longrightarrow> (\<exists>e \<in> set new. sg_raw (sp_signed e) = x))
     \<and> (\<forall>res. fst m = Inr (R_signed res) \<longrightarrow>
          (\<exists>e \<in> set new. sg_raw (sp_signed e) = rr_signed_transaction res) \<or> on_chain w (ce_node env) (rr_signed_transaction res)))"

lemma accounted_idle: "(\<And>res. a \<noteq> Inr (R_signed res)) \<Longrightarrow> accounted cfg w env r (a, Not_sent, run_state r)"
  unfolding accounted_def by (rule exI [of _ r], rule exI [of _ "[]"]) simp

lemma explained_on_chain:
  assumes "explainIfAlreadySent w node tx raw e' = (e, Some l)"
  shows "on_chain w node (sg_raw (ld_signed l))"
proof (cases "signAsFeePayer w tx raw")
  case (Inl x)
  then show ?thesis using assms by (simp add: explainIfAlreadySent_def)
next
  case (Inr sg)
  then obtain st where "rn_lookUp node (sg_signature sg) = Inr (Some st)" "st_err st = None" "ld_signed l = sg"
    using assms by (auto simp: explainIfAlreadySent_def split: sum.splits option.splits if_splits)
  then show ?thesis using Inr unfolding on_chain_def by blast
qed

lemma landed_on_chain:
  assumes "vetAndSign cfg w node floors now params s = (Inl (e, Some l), s')"
  shows "on_chain w node (sg_raw (ld_signed l))"
proof -
  have "\<exists>tx raw e'. explainIfAlreadySent w node tx raw e' = (e, Some l)"
    using assms by (fastforce simp: vetAndSign_def vet_def Let_def split: sum.splits prod.splits if_splits)
  then show ?thesis using explained_on_chain by blast
qed

text \<open>What one pass of \<open>vetAndSignOrLanded\<close> leaves behind, with a confirmed slot noted after it or not.\<close>

lemma vetting_steps:
  assumes v: "vetAndSignOrLanded cfg w node floors now params (run_state r) = (ans, s')"
    and clock: "run_clock r \<le> now" and floors: "\<And>n. floors n \<le> rs_slotFloor (run_state r)"
    and s2: "s2 = s' \<or> (\<exists>slot. s2 = raise_floor slot s')"
  shows "\<exists>r' new. (relay_step cfg w)\<^sup>*\<^sup>* r r' \<and> run_state r' = s2 \<and> run_history r' = run_history r @ new \<and> length new \<le> 1
    \<and> (\<forall>sg sim. ans = Inr (sg, Fresh sim) \<longrightarrow> (\<exists>e \<in> set new. sp_signed e = sg))
    \<and> (\<forall>sg slot c. ans = Inr (sg, Resent slot c) \<longrightarrow> on_chain w node (sg_raw sg))"
proof -
  obtain res where res: "vetAndSign cfg w node floors now params (run_state r) = (res, s')"
    and out: "ans = (case res of Inr (sg, sim) \<Rightarrow> Inr (sg, Fresh sim)
      | Inl (e, Some l) \<Rightarrow> Inr (ld_signed l, Resent (ld_slot l) (ld_confirmed l)) | Inl (e, None) \<Rightarrow> Inl e)"
    using v by (auto simp: vetAndSignOrLanded_def split: prod.splits sum.splits option.splits)
  let ?new = "recorded now params node (floors 6) res"
  let ?r = "\<lparr>run_state = s', run_clock = now, run_history = run_history r @ ?new\<rparr>"
  have step: "relay_step cfg w r ?r" by (rule relay_step.request [OF clock floors res])
  have facts: "length ?new \<le> 1" "\<forall>sg sim. ans = Inr (sg, Fresh sim) \<longrightarrow> (\<exists>e \<in> set ?new. sp_signed e = sg)"
    by (auto simp: recorded_def out split: sum.splits prod.splits option.splits)
  have chain: "\<forall>sg slot c. ans = Inr (sg, Resent slot c) \<longrightarrow> on_chain w node (sg_raw sg)"
    using res landed_on_chain by (auto simp: out split: sum.splits prod.splits option.splits)
  from s2 show ?thesis
  proof
    assume "s2 = s'"
    then show ?thesis using step facts chain by (intro exI [of _ ?r] exI [of _ ?new]) auto
  next
    assume "\<exists>slot. s2 = raise_floor slot s'"
    then obtain slot where s2: "s2 = raise_floor slot s'" by blast
    have step2: "relay_step cfg w ?r (?r\<lparr>run_state := raise_floor slot (run_state ?r), run_clock := now\<rparr>)"
      by (rule relay_step.confirmed) simp
    have "(relay_step cfg w)\<^sup>*\<^sup>* r ?r" using step by (rule r_into_rtranclp)
    note rtranclp.rtrancl_into_rtrancl [OF this step2]
    then show ?thesis using s2 facts chain by (intro exI [of _ "?r\<lparr>run_state := raise_floor slot (run_state ?r), run_clock := now\<rparr>"] exI [of _ ?new]) auto
  qed
qed

text \<open>So an answer that gives out only what was vetted, and sends only what is fresh, is accounted for.\<close>

lemma accounted_vetting:
  assumes v: "vetAndSignOrLanded cfg w (ce_node env) (ce_floors env) (ce_now env) params (run_state r) = (ans, s')"
    and clock: "run_clock r \<le> ce_now env" and floors: "\<And>n. ce_floors env n \<le> rs_slotFloor (run_state r)"
    and s2: "s2 = s' \<or> (\<exists>slot. s2 = raise_floor slot s')"
    and a: "\<And>res. a = Inr (R_signed res) \<Longrightarrow> \<exists>sg og. ans = Inr (sg, og) \<and> rr_signed_transaction res = sg_raw sg"
    and b: "\<And>x. b = Sent x \<or> b = Sent_after x \<Longrightarrow> \<exists>sg sim. ans = Inr (sg, Fresh sim) \<and> x = sg_raw sg"
  shows "accounted cfg w env r (a, b, s2)"
proof -
  obtain r' new where r': "(relay_step cfg w)\<^sup>*\<^sup>* r r'" "run_state r' = s2" "run_history r' = run_history r @ new" "length new \<le> 1"
    and fresh: "\<And>sg sim. ans = Inr (sg, Fresh sim) \<Longrightarrow> \<exists>e \<in> set new. sp_signed e = sg"
    and old: "\<And>sg slot c. ans = Inr (sg, Resent slot c) \<Longrightarrow> on_chain w (ce_node env) (sg_raw sg)"
    using vetting_steps [OF v clock floors s2] by blast
  have "(\<exists>e \<in> set new. sg_raw (sp_signed e) = rr_signed_transaction res) \<or> on_chain w (ce_node env) (rr_signed_transaction res)"
    if given: "a = Inr (R_signed res)" for res
  proof -
    obtain sg og where "ans = Inr (sg, og)" "rr_signed_transaction res = sg_raw sg" using a [OF given] by blast
    then show ?thesis using fresh old by (cases og) auto
  qed
  moreover have "\<exists>e \<in> set new. sg_raw (sp_signed e) = x" if "b = Sent x \<or> b = Sent_after x" for x
    using b [OF that] fresh by blast
  ultimately show ?thesis unfolding accounted_def using r' by (intro exI [of _ r'] exI [of _ new]) auto
qed

lemma await_landing_cases:
  assumes "await_landing cfg env result b s = (a, b', s')"
  shows "b' = b \<and> (s' = s \<or> (\<exists>slot. s' = raise_floor slot s)) \<and> (\<forall>res. a = Inr (R_signed res) \<longrightarrow> res = result)"
  using assms by (auto simp: await_landing_def split: landing.splits)

lemma signTransaction_accounted:
  assumes "run_clock r \<le> ce_now env" "\<And>n. ce_floors env n \<le> rs_slotFloor (run_state r)"
  shows "accounted cfg w env r (signTransaction cfg w env params (run_state r))"
proof -
  obtain ans s' where v: "vetAndSignOrLanded cfg w (ce_node env) (ce_floors env) (ce_now env) params (run_state r) = (ans, s')" by fastforce
  show ?thesis unfolding signTransaction_def v
    by (cases ans) (auto intro!: accounted_vetting [OF v assms])
qed

lemma signAndSendTransaction_accounted:
  assumes "run_clock r \<le> ce_now env" "\<And>n. ce_floors env n \<le> rs_slotFloor (run_state r)"
  shows "accounted cfg w env r (signAndSendTransaction cfg w env params (run_state r))"
proof (cases "respond_after_of params")
  case None
  then show ?thesis by (simp add: signAndSendTransaction_def accounted_idle)
next
  case (Some ra)
  obtain ans s' where v: "vetAndSignOrLanded cfg w (ce_node env) (ce_floors env) (ce_now env) params (run_state r) = (ans, s')" by fastforce
  note ok = accounted_vetting [OF v assms]
  show ?thesis
  proof (cases ans)
    case (Inl e)
    then show ?thesis using Some v by (auto simp: signAndSendTransaction_def intro!: ok)
  next
    case (Inr x)
    then obtain sg og where x: "ans = Inr (sg, og)" by (cases x) auto
    let ?result = "\<lparr>rr_signature = Some (sg_signature sg), rr_signed_transaction = sg_raw sg, rr_signer_pubkey = w_relayer w\<rparr>"
    have wait: "accounted cfg w env r (await_landing cfg env ?result b s')"
      if sent: "\<And>y. b = Sent y \<or> b = Sent_after y \<Longrightarrow> (\<exists>sim. og = Fresh sim) \<and> y = sg_raw sg" for b
    proof -
      obtain a b' s2 where m: "await_landing cfg env ?result b s' = (a, b', s2)" by (metis prod_cases3)
      note c = await_landing_cases [OF m]
      show ?thesis unfolding m using c sent x by (intro ok) auto
    qed
    show ?thesis
      using Some v x by (auto simp: signAndSendTransaction_def Let_def intro!: ok wait split: vet_origin.split sum.split)
  qed
qed

lemma call_accounted:
  assumes "run_clock r \<le> ce_now env" "\<And>n. ce_floors env n \<le> rs_slotFloor (run_state r)"
  shows "accounted cfg w env r (call_method cfg w env m params (run_state r))"
proof -
  have "accounted cfg w env r (getPayerSigner w (run_state r))" by (simp add: getPayerSigner_def accounted_idle)
  moreover have "accounted cfg w env r (getBlockhash env (run_state r))"
    by (cases "ce_blockhash env") (simp_all add: getBlockhash_def accounted_idle)
  ultimately show ?thesis
    using signTransaction_accounted [OF assms] signAndSendTransaction_accounted [OF assms]
    unfolding call_method_def by (simp only: split: if_split) blast
qed

text \<open>Who gets as far as a method that signs.\<close>

definition authorized :: "relay_cfg \<Rightarrow> http_env \<Rightarrow> http_request \<Rightarrow> bool" where
  "authorized cfg henv req \<longleftrightarrow>
     (\<exists>host. rq_host req = Some host \<and> unbracket (host_name host) \<in> he_allowedHosts henv) \<and> rq_method req = ''POST''
     \<and> content_type req = ''application/json'' \<and> sum_list (map length (rq_chunks req)) \<le> MAX_BODY
     \<and> (\<forall>key. rc_apiKey cfg = Some key \<and> key \<noteq> '''' \<longrightarrow> rq_apiKey req = Some key)"

lemma read_body_Some: "read_body got cs = Some body \<Longrightarrow> length got \<le> MAX_BODY \<Longrightarrow> length got + sum_list (map length cs) \<le> MAX_BODY"
  by (induction got cs rule: read_body.induct) (auto split: if_splits)

lemma call_unprotected: "m \<notin> set PROTECTED \<Longrightarrow> m \<in> set methods \<Longrightarrow>
  call_method cfg w env m params s = (a, b, s') \<Longrightarrow> b = Not_sent \<and> s' = s \<and> (\<forall>res. a \<noteq> Inr (R_signed res))"
proof -
  assume m: "m \<notin> set PROTECTED" "m \<in> set methods" and c: "call_method cfg w env m params s = (a, b, s')"
  have "set methods \<subseteq> set PROTECTED \<union> {''getPayerSigner'', ''getBlockhash''}" by (simp add: methods_def PROTECTED_def)
  with m consider "m = ''getPayerSigner''" | "m = ''getBlockhash''" by auto
  then show ?thesis
  proof cases
    case 1
    then show ?thesis using c by (auto simp: call_method_def getPayerSigner_def)
  next
    case 2
    then show ?thesis using c by (cases "ce_blockhash env") (auto simp: call_method_def getBlockhash_def)
  qed
qed

definition signs_nothing :: "http_answer \<Rightarrow> broadcast \<Rightarrow> relay_state \<Rightarrow> relay_state \<Rightarrow> bool" where
  "signs_nothing a b s s' \<longleftrightarrow> b = Not_sent \<and> s' = s \<and> (\<forall>i res. ha_body a \<noteq> B_result i (R_signed res))"

lemma handle_call_cases:
  assumes c: "handle_call cfg w env req rpc s = (a, b, s')"
  shows "signs_nothing a b s s' \<or> (\<exists>m params ans. call_method cfg w env m params s = (ans, b, s')
    \<and> (\<forall>i res. ha_body a = B_result i (R_signed res) \<longrightarrow> ans = Inr (R_signed res))
    \<and> (\<forall>key. rc_apiKey cfg = Some key \<and> key \<noteq> '''' \<longrightarrow> rq_apiKey req = Some key))"
proof (cases "\<exists>ms m. rpc = JObj ms \<and> map_of ms ''method'' = Some (JStr m) \<and> m \<in> set methods")
  case False
  then show ?thesis using c
    by (auto simp: handle_call_def rpc_fail_def Let_def signs_nothing_def split: json.splits option.splits)
next
  case True
  then obtain ms m where m: "rpc = JObj ms" "map_of ms ''method'' = Some (JStr m)" "m \<in> set methods" by blast
  obtain ans b' s2 where call: "call_method cfg w env m (map_of ms ''params'') s = (ans, b', s2)" by (metis prod_cases3)
  show ?thesis
  proof (cases "case rc_apiKey cfg of Some key \<Rightarrow> key \<noteq> '''' \<and> m \<in> set PROTECTED \<and> rq_apiKey req \<noteq> Some key | None \<Rightarrow> False")
    case True
    then show ?thesis using c m by (auto simp: handle_call_def signs_nothing_def Let_def)
  next
    case key: False
    then have out: "b = b' \<and> s' = s2 \<and> (\<forall>i res. ha_body a = B_result i (R_signed res) \<longrightarrow> ans = Inr (R_signed res))"
      using c m call by (cases ans) (auto simp: handle_call_def Let_def)
    show ?thesis
    proof (cases "m \<in> set PROTECTED")
      case True
      then have "\<forall>key. rc_apiKey cfg = Some key \<and> key \<noteq> '''' \<longrightarrow> rq_apiKey req = Some key" using key by auto
      then show ?thesis using call out by blast
    next
      case False
      then show ?thesis using call_unprotected [OF False m(3) call] out by (auto simp: signs_nothing_def)
    qed
  qed
qed

lemma handle_cases:
  assumes h: "handle cfg w henv env req s = (a, b, s')"
  shows "signs_nothing a b s s' \<or> (authorized cfg henv req \<and> (\<exists>m params ans. call_method cfg w env m params s = (ans, b, s')
    \<and> (\<forall>i res. ha_body a = B_result i (R_signed res) \<longrightarrow> ans = Inr (R_signed res))))"
proof (cases "hostAllowed henv req \<and> rq_method req = ''POST'' \<and> content_type req = ''application/json''")
  case False
  then show ?thesis using h by (auto simp: handle_def signs_nothing_def split: if_splits)
next
  case True
  then have h': "(case read_body [] (rq_chunks req) of
        None \<Rightarrow> (\<lparr>ha_status = 413, ha_body = B_rpc_error None (-32600) None, ha_cors = True\<rparr>, Not_sent, s)
      | Some body \<Rightarrow> (case JSON_parse (utf8_decode body) of
          Inl _ \<Rightarrow> (rpc_fail None (-32700), Not_sent, s)
        | Inr rpc \<Rightarrow> handle_call cfg w env req rpc s)) = (a, b, s')"
    using h by (simp add: handle_def)
  show ?thesis
  proof (cases "signs_nothing a b s s'")
    case False
    then obtain rpc body where c: "handle_call cfg w env req rpc s = (a, b, s')" and body: "read_body [] (rq_chunks req) = Some body"
      using h' by (auto simp: signs_nothing_def rpc_fail_def split: option.splits sum.splits)
    obtain host where "rq_host req = Some host" "unbracket (host_name host) \<in> he_allowedHosts henv"
      using True by (auto simp: hostAllowed_def split: option.splits)
    then show ?thesis using handle_call_cases [OF c] False True read_body_Some [OF body] unfolding authorized_def by auto
  qed blast
qed

text \<open>
  C13. What a request over HTTP can make the relayer do. If it changes the relayer's state, has anything
  broadcast or gets a signed transaction back, then it came by POST as JSON of at most 64 KiB, under a
  host name the relayer listens on (so not from a page whose name was rebound to this machine), and with
  the API key where one is set. What it does then is a run of the sign path, at most one transaction
  long: the state is the one that run leaves, what is broadcast is what it signed, and a signed
  transaction in the answer is that one, or one the node reports on chain already.
\<close>

theorem handle_is_a_run:
  assumes h: "handle cfg w henv env req (run_state r) = (a, b, s')"
    and clock: "run_clock r \<le> ce_now env" and floors: "\<And>n. ce_floors env n \<le> rs_slotFloor (run_state r)"
  shows "(b \<noteq> Not_sent \<or> s' \<noteq> run_state r \<or> (\<exists>i res. ha_body a = B_result i (R_signed res)) \<longrightarrow> authorized cfg henv req)
    \<and> (\<exists>r' new. (relay_step cfg w)\<^sup>*\<^sup>* r r' \<and> run_state r' = s' \<and> run_history r' = run_history r @ new \<and> length new \<le> 1
        \<and> (\<forall>x. b = Sent x \<or> b = Sent_after x \<longrightarrow> (\<exists>e \<in> set new. sg_raw (sp_signed e) = x))
        \<and> (\<forall>i res. ha_body a = B_result i (R_signed res) \<longrightarrow>
             (\<exists>e \<in> set new. sg_raw (sp_signed e) = rr_signed_transaction res) \<or> on_chain w (ce_node env) (rr_signed_transaction res)))"
proof (cases "signs_nothing a b (run_state r) s'")
  case True
  then show ?thesis unfolding signs_nothing_def by (intro conjI exI [of _ r] exI [of _ "[]"]) auto
next
  case False
  then obtain m params ans where auth: "authorized cfg henv req" and c: "call_method cfg w env m params (run_state r) = (ans, b, s')"
    and res: "\<forall>i res. ha_body a = B_result i (R_signed res) \<longrightarrow> ans = Inr (R_signed res)"
    using handle_cases [OF h] by blast
  have "accounted cfg w env r (ans, b, s')" using call_accounted [OF clock floors, of cfg w m params] unfolding c .
  then obtain r' new where "(relay_step cfg w)\<^sup>*\<^sup>* r r'" "run_state r' = s'" "run_history r' = run_history r @ new" "length new \<le> 1"
    "\<forall>x. b = Sent x \<or> b = Sent_after x \<longrightarrow> (\<exists>e \<in> set new. sg_raw (sp_signed e) = x)"
    "\<forall>res. ans = Inr (R_signed res) \<longrightarrow>
      (\<exists>e \<in> set new. sg_raw (sp_signed e) = rr_signed_transaction res) \<or> on_chain w (ce_node env) (rr_signed_transaction res)"
    unfolding accounted_def fst_conv snd_conv by blast
  then show ?thesis using auth res by (intro conjI impI exI [of _ r'] exI [of _ new]) blast+
qed

text \<open>A call of \<open>signTransaction\<close> with the API key, sent to the loopback address.\<close>

definition demo_rpc :: json where
  "demo_rpc = JObj [(''method'', JStr ''signTransaction''), (''params'', JObj [(''transaction'', JStr ''tx'')])]"

definition demo_request :: http_request where
  "demo_request = \<lparr>rq_method = ''POST'', rq_url = ''/'', rq_host = Some ''127.0.0.1:8787'', rq_origin = None,
     rq_contentType = Some ''Application/JSON; charset=utf-8'', rq_apiKey = Some ''k'', rq_privateNetwork = None,
     rq_chunks = [utf8 (JSON_stringify demo_rpc)]\<rparr>"

definition demo_key_cfg :: relay_cfg where "demo_key_cfg = demo_cfg\<lparr>rc_apiKey := Some ''k''\<rparr>"

definition demo_http :: http_env where
  "demo_http = \<lparr>he_url = (\<lambda>_. None), he_addresses = [], he_allowedHosts = {''localhost'', ''127.0.0.1''}\<rparr>"

definition demo_env :: call_env where
  "demo_env = \<lparr>ce_node = demo_node, ce_floors = (\<lambda>_. 0), ce_now = 1000,
     ce_send = \<lparr>sd_send = (\<lambda>n raw m. Inr ''signature''), sd_lookUp = (\<lambda>_. Inr None)\<rparr>, ce_wait = slow_node, ce_start = 0,
     ce_blockhash = Inr ''hash''\<rparr>"

lemma demo_handled:
  "\<exists>a res s'. handle demo_key_cfg demo_web3 demo_http demo_env demo_request (run_state (new_run 0)) = (a, Not_sent, s')
     \<and> ha_body a = B_result None (R_signed res) \<and> rr_signed_transaction res = take 74 demo_raw @ replicate 64 9"
proof -
  have ascii: "list_all (\<lambda>c. code c < 128) (JSON_stringify demo_rpc)" by code_simp
  have "length (JSON_stringify demo_rpc) \<le> 100" by code_simp
  then have body: "read_body [] (rq_chunks demo_request) = Some (utf8 (JSON_stringify demo_rpc))"
    by (simp add: demo_request_def MAX_BODY_def)
  have json: "JSON_parse (utf8_decode (utf8 (JSON_stringify demo_rpc))) = Inr demo_rpc"
    unfolding utf8_decode_ascii [OF ascii] by (rule JSON_parse_stringify) (simp add: demo_rpc_def)
  have gate: "hostAllowed demo_http demo_request" "rq_method demo_request = ''POST''" "content_type demo_request = ''application/json''"
    by code_simp+
  have "case handle_call demo_key_cfg demo_web3 demo_env demo_request demo_rpc (run_state (new_run 0)) of
      (a, b, s') \<Rightarrow> b = Not_sent \<and> (case ha_body a of B_result None (R_signed res) \<Rightarrow> rr_signed_transaction res = take 74 demo_raw @ replicate 64 9 | _ \<Rightarrow> False)"
    by code_simp
  then show ?thesis unfolding handle_def using body json gate
    by (auto split: prod.splits http_body.splits option.splits method_result.splits)
qed

theorem handle_is_a_run_witness:
  "\<exists>r' e. (relay_step demo_key_cfg demo_web3)\<^sup>*\<^sup>* (new_run 0) r' \<and> run_history r' = [e]
    \<and> sg_raw (sp_signed e) = take 74 demo_raw @ replicate 64 9 \<and> authorized demo_key_cfg demo_http demo_request"
proof -
  obtain a res s' where h: "handle demo_key_cfg demo_web3 demo_http demo_env demo_request (run_state (new_run 0)) = (a, Not_sent, s')"
    and a: "ha_body a = B_result None (R_signed res)" "rr_signed_transaction res = take 74 demo_raw @ replicate 64 9"
    using demo_handled by blast
  have c: "run_clock (new_run 0) \<le> ce_now demo_env" "\<And>n. ce_floors demo_env n \<le> rs_slotFloor (run_state (new_run 0))"
    by (simp_all add: new_run_def demo_env_def)
  note run = handle_is_a_run [OF h c]
  have "\<not> on_chain demo_web3 (ce_node demo_env) x" for x by (simp add: on_chain_def demo_env_def demo_node_def)
  then obtain r' new e where r': "(relay_step demo_key_cfg demo_web3)\<^sup>*\<^sup>* (new_run 0) r'" "run_history r' = new" "length new \<le> 1"
    "e \<in> set new" "sg_raw (sp_signed e) = rr_signed_transaction res"
    using run a(1) by (auto simp: new_run_def)
  then have "new = [e]" by (cases new) auto
  then show ?thesis using r' a run by auto
qed

end
