(* ===== verification/LegacyWire.thy ===== *)
theory LegacyWire
  imports Compact Secp256r1
begin

text \<open>
  The wire modules of the SDK for web3.js v1 (\<open>sdk-legacy/src/utils\<close>): \<open>packing.ts\<close>, \<open>compact.ts\<close>,
  \<open>pdas.ts\<close>, \<open>secp256r1.ts\<close> and \<open>signing.ts\<close>. They are a second implementation of the formats the
  program reads, over web3.js v1's \<open>AccountMeta\<close> and \<open>TransactionInstruction\<close> and Node's \<open>Buffer\<close>,
  whose integer writers throw where a \<open>DataView\<close> wraps. A \<open>PublicKey\<close> is its base58 text, as an
  \<open>Address\<close> is, so \<open>toBase58\<close> is the identity and \<open>toBytes\<close> and \<open>toBuffer\<close> are the address codec of
  the \<open>kit\<close> parameter, whose other fields stand for web3.js's \<open>findProgramAddressSync\<close> and the SHA-256
  both packages share. The lemmas give each routine in terms of its counterpart; the definitions
  carry the suffix \<open>_web3\<close>.
\<close>

section \<open>Node buffers and web3.js data\<close>

text \<open>
  \<open>buf_uint w\<close> is \<open>writeUInt8\<close>, \<open>writeUInt16LE\<close>, \<open>writeUInt32LE\<close> or \<open>writeBigUInt64LE\<close> and
  \<open>buf_int64\<close> is \<open>writeBigInt64LE\<close>: a value outside the field's range throws before anything is
  written. \<open>buf_copy\<close> is \<open>Buffer.from(src).copy(buf, off)\<close>, which drops what does not fit.
\<close>

definition buf_uint :: "nat \<Rightarrow> bytes \<Rightarrow> int \<Rightarrow> nat \<Rightarrow> bytes result" where
  "buf_uint w buf v off =
     (if 0 \<le> v \<and> v < 256 ^ w then dv_set w buf off v else Inl (RangeError ''ERR_OUT_OF_RANGE''))"

definition buf_int64 :: "bytes \<Rightarrow> int \<Rightarrow> nat \<Rightarrow> bytes result" where
  "buf_int64 buf v off =
     (if - (2 ^ 63) \<le> v \<and> v < 2 ^ 63 then dv_set 8 buf off v else Inl (RangeError ''ERR_OUT_OF_RANGE''))"

definition buf_copy :: "bytes \<Rightarrow> bytes \<Rightarrow> nat \<Rightarrow> bytes" where
  "buf_copy src buf off = take (length buf) (take off buf @ src @ drop (off + length src) buf)"

record web3_meta =
  wm_pubkey :: address
  wm_isSigner :: bool
  wm_isWritable :: bool

record web3_ix =
  wi_programId :: address
  wi_keys :: "web3_meta list"
  wi_data :: bytes

text \<open>How kit's metas and instructions read in web3.js v1.\<close>

definition meta_web3 :: "account_meta \<Rightarrow> web3_meta" where
  "meta_web3 m = \<lparr>wm_pubkey = am_address m, wm_isSigner = role_signer (am_role m),
                  wm_isWritable = role_writable (am_role m)\<rparr>"

definition ix_web3 :: "instruction \<Rightarrow> web3_ix" where
  "ix_web3 ix = \<lparr>wi_programId = ix_program ix, wi_keys = map meta_web3 (accounts_of ix),
                 wi_data = data_of ix\<rparr>"

definition ok_map :: "('a \<Rightarrow> 'b) \<Rightarrow> 'a result \<Rightarrow> 'b result" where
  "ok_map f r = rbind r (\<lambda>x. Inr (f x))"

text \<open>An array read at an index that may be out of range.\<close>

definition js_at :: "'a list \<Rightarrow> int \<Rightarrow> 'a option" where
  "js_at xs i = (if 0 \<le> i \<and> i < int (length xs) then Some (xs ! nat i) else None)"

section \<open>Packing\<close>

definition encodeAccountIndex_web3 :: "int \<Rightarrow> bool \<Rightarrow> int result" where
  "encodeAccountIndex_web3 index forwardSigner =
     (if index < 0 \<or> index > MAX_ACCOUNT_INDEX
      then Inl (Error ''account index exceeds the ceiling imposed by the forward-signer flag bit'')
      else Inr (if forwardSigner then index OR ACCOUNT_INDEX_FORWARD_SIGNER else index))"

definition decodeAccountIndex_web3 :: "int \<Rightarrow> int \<times> bool" where
  "decodeAccountIndex_web3 b = (b AND ACCOUNT_INDEX_MASK, b AND ACCOUNT_INDEX_FORWARD_SIGNER \<noteq> 0)"

definition accountFlags_web3 :: "bool \<Rightarrow> bool \<Rightarrow> int" where
  "accountFlags_web3 isSigner isWritable = (if isSigner then 1 else 0) OR (if isWritable then 2 else 0)"

definition packCompactInstructions_web3 :: "compact_instruction list \<Rightarrow> bytes result" where
  "packCompactInstructions_web3 instructions =
     concatBytes (u8_of [int (length instructions)]
       # concat (map (\<lambda>ix. let len = int (length (ci_data ix)) in
           [u8_of [programIdIndex ix, int (length (accountIndexes ix))], u8_of (accountIndexes ix),
            u8_of [len AND 0xff, drop_bit 8 len AND 0xff], ci_data ix]) instructions))"

text \<open>The closure \<open>push\<close> of \<open>computeAccountsHash\<close>: the parts one reference adds.\<close>

definition push_meta_web3 :: "kit \<Rightarrow> web3_meta option \<Rightarrow> bytes list result" where
  "push_meta_web3 K m =
     (case m of
        None \<Rightarrow> Inl (Error ''compact ix references an account that was not supplied'')
      | Some m \<Rightarrow> Inr [k_encAddr K (wm_pubkey m), u8_of [accountFlags_web3 (wm_isSigner m) (wm_isWritable m)]])"

definition computeAccountsHash_web3 ::
  "kit \<Rightarrow> web3_meta list \<Rightarrow> compact_instruction list \<Rightarrow> bytes result" where
  "computeAccountsHash_web3 K accountMetas instructions =
     rbind (rmap (\<lambda>ix.
       rbind (push_meta_web3 K (js_at accountMetas (fst (decodeAccountIndex_web3 (programIdIndex ix))))) (\<lambda>p.
       rbind (rmap (\<lambda>b. push_meta_web3 K (js_at accountMetas (fst (decodeAccountIndex_web3 b))))
               (accountIndexes ix)) (\<lambda>as.
       Inr (concat (p # as))))) instructions) (\<lambda>parts.
     rbind (concatBytes (concat parts)) (\<lambda>data. Inr (k_sha256 K data)))"

definition computeInstructionsHash_web3 :: "kit \<Rightarrow> compact_instruction list \<Rightarrow> bytes result" where
  "computeInstructionsHash_web3 K instructions =
     rbind (packCompactInstructions_web3 instructions) (\<lambda>packed. Inr (k_sha256 K packed))"

section \<open>The compact layout\<close>

type_synonym remaining_web3 = "(address \<times> web3_meta) list"

definition note_key_web3 :: "index_map \<Rightarrow> web3_meta \<Rightarrow> remaining_web3 \<Rightarrow> remaining_web3" where
  "note_key_web3 indexMap key remainingMap =
     (let k = wm_pubkey key in
      if jsmap_has indexMap k then remainingMap
      else case map_of remainingMap k of
        Some existing \<Rightarrow>
          jsmap_set k (existing\<lparr>wm_isSigner := wm_isSigner existing \<or> wm_isSigner key,
                                wm_isWritable := wm_isWritable existing \<or> wm_isWritable key\<rparr>) remainingMap
      | None \<Rightarrow>
          jsmap_set k \<lparr>wm_pubkey = wm_pubkey key, wm_isSigner = wm_isSigner key,
                       wm_isWritable = wm_isWritable key\<rparr> remainingMap)"

definition note_ix_web3 :: "index_map \<Rightarrow> web3_ix \<Rightarrow> remaining_web3 \<Rightarrow> remaining_web3" where
  "note_ix_web3 indexMap ix remainingMap =
     (let progKey = wi_programId ix;
          remainingMap = (if \<not> jsmap_has indexMap progKey \<and> \<not> jsmap_has remainingMap progKey
            then jsmap_set progKey \<lparr>wm_pubkey = progKey, wm_isSigner = False, wm_isWritable = False\<rparr> remainingMap
            else remainingMap)
      in fold (note_key_web3 indexMap) (wi_keys ix) remainingMap)"

definition compact_web3 :: "index_map \<Rightarrow> address \<Rightarrow> web3_ix \<Rightarrow> compact_instruction result" where
  "compact_web3 indexMap payer ix =
     rbind (rbind (index_of indexMap (wi_programId ix)) (\<lambda>i. encodeAccountIndex_web3 i False)) (\<lambda>p.
     rbind (rmap (\<lambda>k. rbind (index_of indexMap (wm_pubkey k)) (\<lambda>i.
              encodeAccountIndex_web3 i (wm_isSigner k \<and> wm_pubkey k \<noteq> payer))) (wi_keys ix)) (\<lambda>as.
     Inr \<lparr>programIdIndex = p, accountIndexes = as, ci_data = wi_data ix\<rparr>))"

definition buildCompactLayout_web3 ::
  "address list \<Rightarrow> web3_ix list \<Rightarrow> address \<Rightarrow> (compact_instruction list \<times> web3_meta list) result" where
  "buildCompactLayout_web3 fixedAccounts instructions payer =
     (let indexMap = index_accounts 0 fixedAccounts [];
          remainingMap = fold (note_ix_web3 indexMap) instructions [];
          remainingAccounts = map snd remainingMap;
          indexMap = index_accounts (length fixedAccounts) (map wm_pubkey remainingAccounts) indexMap
      in rbind (rmap (compact_web3 indexMap payer) instructions) (\<lambda>compactInstructions.
         Inr (compactInstructions, remainingAccounts)))"

section \<open>Program-derived addresses\<close>

definition findWalletPda_web3 :: "kit \<Rightarrow> bytes \<Rightarrow> address \<Rightarrow> pda" where
  "findWalletPda_web3 K userSeed programId = k_pda K programId [utf8 SEED_WALLET, userSeed]"

definition findVaultPda_web3 :: "kit \<Rightarrow> address \<Rightarrow> address \<Rightarrow> pda" where
  "findVaultPda_web3 K walletPda programId = k_pda K programId [utf8 SEED_VAULT, k_encAddr K walletPda]"

definition findAuthorityPda_web3 :: "kit \<Rightarrow> address \<Rightarrow> bytes \<Rightarrow> address \<Rightarrow> pda" where
  "findAuthorityPda_web3 K walletPda credentialIdHash programId =
     k_pda K programId [utf8 SEED_AUTHORITY, k_encAddr K walletPda, credentialIdHash]"

definition findSessionPda_web3 :: "kit \<Rightarrow> address \<Rightarrow> bytes \<Rightarrow> address \<Rightarrow> pda" where
  "findSessionPda_web3 K walletPda sessionKey programId =
     k_pda K programId [utf8 SEED_SESSION, k_encAddr K walletPda, sessionKey]"

definition findProtocolConfigPda_web3 :: "kit \<Rightarrow> address \<Rightarrow> pda" where
  "findProtocolConfigPda_web3 K programId = k_pda K programId [utf8 SEED_PROTOCOL_CONFIG]"

definition findFeeRecordPda_web3 :: "kit \<Rightarrow> address \<Rightarrow> address \<Rightarrow> pda" where
  "findFeeRecordPda_web3 K payerPubkey programId =
     k_pda K programId [utf8 SEED_FEE_RECORD, k_encAddr K payerPubkey]"

definition findTreasuryShardPda_web3 :: "kit \<Rightarrow> int \<Rightarrow> address \<Rightarrow> pda" where
  "findTreasuryShardPda_web3 K shardId programId =
     k_pda K programId [utf8 SEED_TREASURY_SHARD, u8_of [shardId]]"

definition findDeferredExecPda_web3 :: "kit \<Rightarrow> address \<Rightarrow> address \<Rightarrow> int \<Rightarrow> address \<Rightarrow> pda" where
  "findDeferredExecPda_web3 K walletPda authorityPda counter programId =
     rbind (buf_uint 4 (u8_zeros 4) counter 0) (\<lambda>counterBuf.
     k_pda K programId
       [utf8 SEED_DEFERRED, k_encAddr K walletPda, k_encAddr K authorityPda, counterBuf])"

section \<open>Passkey signing\<close>

definition generateAuthenticatorData_web3 :: "kit \<Rightarrow> string \<Rightarrow> bytes result" where
  "generateAuthenticatorData_web3 K rpId =
     rbind (u8_set (u8_zeros 37) (k_sha256 K (utf8 rpId)) 0) (\<lambda>data. Inr (u8_put data 32 0x01))"

definition buildAuthPayload_web3 :: "int \<Rightarrow> int \<Rightarrow> int \<Rightarrow> bytes \<Rightarrow> bytes \<Rightarrow> bytes result" where
  "buildAuthPayload_web3 slot counter sysvarIxIndex authenticatorData clientDataJson =
     (let authDataLen = length authenticatorData; cdjLen = length clientDataJson in
      if authDataLen > 0xffff then Inl (Error ''authenticatorData length must fit in u16'')
      else if cdjLen > 0xffff then Inl (Error ''clientDataJson length must fit in u16'')
      else
        rbind (buf_uint 8 (u8_zeros (8 + 4 + 1 + 1 + 2 + authDataLen + 2 + cdjLen)) slot 0) (\<lambda>buf.
        rbind (buf_uint 4 buf counter 8) (\<lambda>buf.
        rbind (buf_uint 1 buf sysvarIxIndex 12) (\<lambda>buf.
        rbind (buf_uint 1 buf 0x80 13) (\<lambda>buf.
        rbind (buf_uint 2 buf (int authDataLen) 14) (\<lambda>buf.
        let buf = buf_copy authenticatorData buf 16 in
        rbind (buf_uint 2 buf (int cdjLen) (16 + authDataLen)) (\<lambda>buf.
        Inr (buf_copy clientDataJson buf (16 + authDataLen + 2)))))))))"

definition buildAuthPayloadPrefix_web3 :: "int \<Rightarrow> int \<Rightarrow> int \<Rightarrow> bytes result" where
  "buildAuthPayloadPrefix_web3 slot counter sysvarIxIndex =
     rbind (buf_uint 8 (u8_zeros 14) slot 0) (\<lambda>buf.
     rbind (buf_uint 4 buf counter 8) (\<lambda>buf.
     rbind (buf_uint 1 buf sysvarIxIndex 12) (\<lambda>buf.
     buf_uint 1 buf 0x80 13)))"

definition buildSecp256r1Challenge_web3 ::
  "kit \<Rightarrow> bytes \<Rightarrow> bytes \<Rightarrow> bytes \<Rightarrow> address \<Rightarrow> address \<Rightarrow> int \<Rightarrow> address \<Rightarrow> bytes result" where
  "buildSecp256r1Challenge_web3 K discriminator authPayload signedPayload payer wallet counter programId =
     rbind (buf_uint 4 (u8_zeros 4) counter 0) (\<lambda>counterBuf.
     Inr (k_sha256 K (concat [discriminator, authPayload, signedPayload, k_encAddr K payer,
       k_encAddr K wallet, counterBuf, k_encAddr K programId])))"

definition prepareSecp256r1_web3 ::
  "kit \<Rightarrow> bytes \<Rightarrow> bytes \<Rightarrow> int \<Rightarrow> int \<Rightarrow> int \<Rightarrow> address \<Rightarrow> address \<Rightarrow> address \<Rightarrow> bytes
   \<Rightarrow> prepared_secp256r1 result" where
  "prepareSecp256r1_web3 K discriminator signedPayload sysvarIxIndex slot counter payer wallet programId
      publicKeyBytes =
     rbind (buildAuthPayloadPrefix_web3 slot counter sysvarIxIndex) (\<lambda>challengePrefix.
     rbind (buildSecp256r1Challenge_web3 K discriminator challengePrefix signedPayload payer wallet
              counter programId) (\<lambda>challenge.
     Inr \<lparr>ps_challenge = challenge,
          ps_internal = \<lparr>si_slot = slot, si_counter = counter, si_sysvarIxIndex = sysvarIxIndex,
                         si_publicKeyBytes = publicKeyBytes\<rparr>\<rparr>))"

definition buildSecp256r1PrecompileIx_web3 :: "bytes \<Rightarrow> bytes \<Rightarrow> bytes \<Rightarrow> web3_ix result" where
  "buildSecp256r1PrecompileIx_web3 publicKey message signature =
     (if length signature \<noteq> 64 then Inl (Error ''Secp256r1 signature must be 64 bytes (raw r||s)'')
      else if length publicKey \<noteq> 33 then Inl (Error ''Secp256r1 public key must be 33 bytes (compressed)'')
      else if length message > 0xffff then Inl (Error ''Precompile message length must fit in u16'')
      else let HEADER_SIZE = 16; sigOffset = HEADER_SIZE; pubkeyOffset = sigOffset + 64;
               msgOffset = pubkeyOffset + 33 + 1
        in rbind (buf_uint 1 (u8_zeros (HEADER_SIZE + 64 + 33 + 1 + length message)) 1 0) (\<lambda>data.
           rbind (buf_uint 1 data 0 1) (\<lambda>data.
           rbind (buf_uint 2 data (int sigOffset) 2) (\<lambda>data.
           rbind (buf_uint 2 data 0xffff 4) (\<lambda>data.
           rbind (buf_uint 2 data (int pubkeyOffset) 6) (\<lambda>data.
           rbind (buf_uint 2 data 0xffff 8) (\<lambda>data.
           rbind (buf_uint 2 data (int msgOffset) 10) (\<lambda>data.
           rbind (buf_uint 2 data (int (length message)) 12) (\<lambda>data.
           rbind (buf_uint 2 data 0xffff 14) (\<lambda>data.
           let data = buf_copy signature data sigOffset;
               data = buf_copy publicKey data pubkeyOffset;
               data = buf_copy message data msgOffset
           in Inr \<lparr>wi_programId = SECP256R1_PROGRAM_ADDRESS, wi_keys = [], wi_data = data\<rparr>))))))))))"

definition finalizeSecp256r1_web3 ::
  "prepared_secp256r1 \<Rightarrow> webauthn_response \<Rightarrow> (bytes \<times> web3_ix) result" where
  "finalizeSecp256r1_web3 prepared response =
     (let i = ps_internal prepared in
      rbind (buildAuthPayload_web3 (si_slot i) (si_counter i) (si_sysvarIxIndex i)
               (wr_authenticatorData response) (wr_clientDataJson response)) (\<lambda>authPayload.
      rbind (concatBytes [wr_authenticatorData response, wr_clientDataJsonHash response]) (\<lambda>msg.
      rbind (buildSecp256r1PrecompileIx_web3 (si_publicKeyBytes i) msg (wr_signature response)) (\<lambda>precompileIx.
      Inr (authPayload, precompileIx)))))"

definition signWithSecp256r1_web3 ::
  "kit \<Rightarrow> bytes \<Rightarrow> (bytes \<Rightarrow> webauthn_response result) \<Rightarrow> bytes \<Rightarrow> bytes \<Rightarrow> int \<Rightarrow> int \<Rightarrow> int \<Rightarrow> address
   \<Rightarrow> address \<Rightarrow> address \<Rightarrow> (bytes \<times> web3_ix) result" where
  "signWithSecp256r1_web3 K publicKeyBytes sign discriminator signedPayload sysvarIxIndex slot counter
      payer wallet programId =
     rbind (prepareSecp256r1_web3 K discriminator signedPayload sysvarIxIndex slot counter payer wallet
              programId publicKeyBytes) (\<lambda>prepared.
     rbind (sign (ps_challenge prepared)) (\<lambda>response. finalizeSecp256r1_web3 prepared response))"

definition buildDataPayloadForAdd_web3 ::
  "int \<Rightarrow> int \<Rightarrow> bytes \<Rightarrow> bytes option \<Rightarrow> string option \<Rightarrow> bytes option \<Rightarrow> bytes result" where
  "buildDataPayloadForAdd_web3 newType newRole credentialOrPubkey secp256r1Pubkey rpId policy =
     (let p = (case policy of Some p \<Rightarrow> p | None \<Rightarrow> [])
      in rbind (buf_uint 2 (u8_zeros 2) (int (length p)) 0) (\<lambda>policyLen.
         concatBytes ([u8_of [newType, newRole], u8_zeros 6, credentialOrPubkey]
           @ key_parts newType secp256r1Pubkey rpId @ [policyLen, p])))"

definition buildDataPayloadForTransfer_web3 ::
  "int \<Rightarrow> bytes \<Rightarrow> bytes option \<Rightarrow> string option \<Rightarrow> bytes result" where
  "buildDataPayloadForTransfer_web3 newType credentialOrPubkey secp256r1Pubkey rpId =
     concatBytes ([u8_of [newType], credentialOrPubkey] @ key_parts newType secp256r1Pubkey rpId)"

definition buildDataPayloadForSession_web3 :: "bytes \<Rightarrow> int \<Rightarrow> bytes option \<Rightarrow> bytes result" where
  "buildDataPayloadForSession_web3 sessionKey expiresAt actionsBuffer =
     (let actionsLen = (case actionsBuffer of Some a \<Rightarrow> length a | None \<Rightarrow> 0) in
      rbind (u8_set (u8_zeros (42 + actionsLen)) sessionKey 0) (\<lambda>buf.
      rbind (buf_int64 (u8_zeros 8) expiresAt 0) (\<lambda>expiresAtBuf.
      rbind (u8_set buf expiresAtBuf 32) (\<lambda>buf.
      let buf = u8_put buf 40 (int actionsLen AND 0xff);
          buf = u8_put buf 41 (drop_bit 8 (int actionsLen) AND 0xff)
      in case actionsBuffer of
           Some a \<Rightarrow> if actionsLen > 0 then u8_set buf a 42 else Inr buf
         | None \<Rightarrow> Inr buf))))"

section \<open>Each routine and its counterpart\<close>

lemma ok_map_simps [simp]: "ok_map f (Inr x) = Inr (f x)" "ok_map f (Inl e) = Inl e"
  by (simp_all add: ok_map_def)

lemma ok_map_rbind: "ok_map f (rbind m g) = rbind m (\<lambda>x. ok_map f (g x))"
  by (cases m) simp_all

lemma buf_copy_within: "off + length src \<le> length buf \<Longrightarrow> u8_set buf src off = Inr (buf_copy src buf off)"
  by (simp add: u8_set_def buf_copy_def)

lemma buf_copy_fill: "length pre = off \<Longrightarrow> length src \<le> n \<Longrightarrow>
    buf_copy src (pre @ u8_zeros n) off = pre @ src @ u8_zeros (n - length src)"
  by (simp add: buf_copy_def u8_zeros_def)

lemma buf_uint_fits: "0 \<le> v \<Longrightarrow> v < 256 ^ w \<Longrightarrow> buf_uint w buf v off = dv_set w buf off v"
  by (simp add: buf_uint_def)

text \<open>A one-byte writer is an element assignment as long as it stays in the buffer.\<close>

lemma dv_set_1: "off < length buf \<Longrightarrow> dv_set 1 buf off v = Inr (u8_put buf off v)"
  by (simp add: dv_set_def u8_set_def u8_put_def upd_conv_take_nth_drop)

lemma web3_index_codec [simp]:
  "encodeAccountIndex_web3 = encodeAccountIndex" "decodeAccountIndex_web3 = decodeAccountIndex"
  "accountFlags_web3 = accountFlags"
  by (simp_all add: fun_eq_iff encodeAccountIndex_web3_def encodeAccountIndex_def
      decodeAccountIndex_web3_def decodeAccountIndex_def accountFlags_web3_def accountFlags_def)

lemma web3_packing [simp]:
  "packCompactInstructions_web3 = packCompactInstructions"
  "computeInstructionsHash_web3 = computeInstructionsHash"
  by (simp_all add: fun_eq_iff packCompactInstructions_web3_def packCompactInstructions_def
      compact_parts_def [abs_def] Let_def computeInstructionsHash_web3_def computeInstructionsHash_def)

lemma js_at_map: "js_at (map f xs) i = map_option f (meta_at xs i)"
  by (auto simp: js_at_def meta_at_def)

lemma push_meta_web3_eq:
  "push_meta_web3 K (map_option meta_web3 (meta_at metas (fst (decodeAccountIndex b)))) = hash_part K metas b"
proof -
  have "flagsOf m = accountFlags (role_signer (am_role m)) (role_writable (am_role m))" for m
    by (cases "am_role m") (simp_all add: flagsOf_def role_signer_def role_writable_def)
  then show ?thesis
    by (simp add: push_meta_web3_def hash_part_def meta_web3_def split: option.split)
qed

lemma web3_accounts_hash: "computeAccountsHash_web3 K (map meta_web3 metas) ixs = computeAccountsHash K metas ixs"
  by (simp add: computeAccountsHash_web3_def computeAccountsHash_def js_at_map push_meta_web3_eq)

text \<open>
  The layout: the two remaining maps hold the same entries, each in its package's notation, so
  the tables and the indexes agree.
\<close>

definition mutable_web3 :: "mutable_meta \<Rightarrow> web3_meta" where
  "mutable_web3 m = \<lparr>wm_pubkey = mm_address m, wm_isSigner = mm_isSigner m, wm_isWritable = mm_isWritable m\<rparr>"

definition remaining_web3 :: "remaining_map \<Rightarrow> remaining_web3" where
  "remaining_web3 rm = map (\<lambda>(k, m). (k, mutable_web3 m)) rm"

lemma remaining_web3_lookup: "map_of (remaining_web3 rm) k = map_option mutable_web3 (map_of rm k)"
  by (simp add: remaining_web3_def map_of_map)

lemma remaining_web3_has [simp]: "jsmap_has (remaining_web3 rm) k = jsmap_has rm k"
  by (simp add: jsmap_has_def remaining_web3_lookup)

lemma remaining_web3_set:
  "jsmap_set k (mutable_web3 m) (remaining_web3 rm) = remaining_web3 (jsmap_set k m rm)"
  by (induction rm) (auto simp: remaining_web3_def)

lemma note_key_web3_sim:
  "note_key_web3 im (meta_web3 m) (remaining_web3 rm) = remaining_web3 (note_account im m rm)"
proof (cases "map_of rm (am_address m)")
  case None
  then show ?thesis
    using remaining_web3_set [of _ "\<lparr>mm_address = am_address m, mm_isSigner = role_signer (am_role m),
        mm_isWritable = role_writable (am_role m)\<rparr>" rm]
    by (simp add: note_key_web3_def note_account_def meta_web3_def flagsFromRole_eq Let_def
        remaining_web3_lookup mutable_web3_def)
next
  case (Some e)
  then show ?thesis
    using remaining_web3_set [of _ "e\<lparr>mm_isSigner := mm_isSigner e \<or> role_signer (am_role m),
        mm_isWritable := mm_isWritable e \<or> role_writable (am_role m)\<rparr>" rm]
    by (simp add: note_key_web3_def note_account_def meta_web3_def flagsFromRole_eq Let_def
        remaining_web3_lookup mutable_web3_def)
qed

lemma note_keys_web3_sim:
  "fold (note_key_web3 im) (map meta_web3 ms) (remaining_web3 rm) = remaining_web3 (fold (note_account im) ms rm)"
  by (induction ms arbitrary: rm) (simp_all add: note_key_web3_sim)

lemma note_ix_web3_sim:
  "note_ix_web3 im (ix_web3 ix) (remaining_web3 rm) = remaining_web3 (note_instruction im ix rm)"
proof -
  have "(if \<not> jsmap_has im p \<and> \<not> jsmap_has rm p
      then jsmap_set p \<lparr>wm_pubkey = p, wm_isSigner = False, wm_isWritable = False\<rparr> (remaining_web3 rm)
      else remaining_web3 rm) = remaining_web3 (note_program im p rm)" for p
    using remaining_web3_set [of p "\<lparr>mm_address = p, mm_isSigner = False, mm_isWritable = False\<rparr>" rm]
    by (simp add: note_program_def mutable_web3_def)
  then show ?thesis
    by (simp add: note_ix_web3_def note_instruction_def ix_web3_def accounts_of_def note_keys_web3_sim Let_def
        split: option.split)
qed

lemma note_ixs_web3_sim:
  "fold (note_ix_web3 im) (map ix_web3 ixs) (remaining_web3 rm) = remaining_web3 (fold (note_instruction im) ixs rm)"
  by (induction ixs arbitrary: rm) (simp_all add: note_ix_web3_sim)

lemma compact_web3_eq: "compact_web3 im payer (ix_web3 ix) = compact_one im payer ix"
  by (simp add: compact_web3_def compact_one_def ix_web3_def rmap_map meta_web3_def compact_account_def [abs_def]
      flagsFromRole_eq rbind_assoc)

lemma web3_layout:
  "buildCompactLayout_web3 fixed (map ix_web3 ixs) payer =
    ok_map (\<lambda>(cs, rest). (cs, map meta_web3 rest)) (buildCompactLayout fixed ixs payer)"
proof -
  have r: "fold (note_ix_web3 im) (map ix_web3 ixs) [] = remaining_web3 (fold (note_instruction im) ixs [])" for im
    using note_ixs_web3_sim [of im ixs "[]"] by (simp add: remaining_web3_def)
  have k: "map wm_pubkey (map snd (remaining_web3 rm)) = map mm_address (map snd rm)" for rm
    by (simp add: remaining_web3_def mutable_web3_def case_prod_unfold comp_def)
  have m: "map snd (remaining_web3 rm) = map meta_web3 (map (\<lambda>m. \<lparr>am_address = mm_address m,
      am_role = roleFromFlags (mm_isSigner m) (mm_isWritable m)\<rparr>) (map snd rm))" for rm
    by (simp add: remaining_web3_def mutable_web3_def meta_web3_def case_prod_unfold comp_def)
  show ?thesis
    unfolding buildCompactLayout_web3_def buildCompactLayout_def Let_def r k
    by (simp only: rmap_map compact_web3_eq ok_map_rbind ok_map_simps case_prod_conv m)
qed

text \<open>A writer on a buffer filled from the left either throws or appends its field.\<close>

lemma buf_uint_step:
  assumes "length pre = off" "n = w + k"
  shows "rbind (buf_uint w (pre @ u8_zeros n) v off) f =
    (if 0 \<le> v \<and> v < 256 ^ w then f ((pre @ le_bytes w v) @ u8_zeros k)
     else Inl (RangeError ''ERR_OUT_OF_RANGE''))"
  using dv_set_step [OF assms, of v f] by (simp add: buf_uint_def)

text \<open>The fields of a challenge fit their widths.\<close>

definition slot_fields_fit :: "int \<Rightarrow> int \<Rightarrow> int \<Rightarrow> bool" where
  "slot_fields_fit slot counter idx \<longleftrightarrow>
     (0 \<le> slot \<and> slot < 2 ^ 64) \<and> (0 \<le> counter \<and> counter < 2 ^ 32) \<and> (0 \<le> idx \<and> idx < 256)"

lemma prefix_steps_web3:
  assumes "n = 14 + k"
  shows "rbind (buf_uint 8 (u8_zeros n) slot 0) (\<lambda>buf. rbind (buf_uint 4 buf counter 8) (\<lambda>buf.
      rbind (buf_uint 1 buf idx 12) (\<lambda>buf. rbind (buf_uint 1 buf 0x80 13) f))) =
    (if slot_fields_fit slot counter idx then f (auth_prefix slot counter idx @ u8_zeros k)
     else Inl (RangeError ''ERR_OUT_OF_RANGE''))"
proof -
  have s1: "rbind (buf_uint 8 (u8_zeros n) slot 0) g = (if 0 \<le> slot \<and> slot < 256 ^ 8
      then g (le_bytes 8 slot @ u8_zeros (6 + k)) else Inl (RangeError ''ERR_OUT_OF_RANGE''))" for g :: "bytes \<Rightarrow> 'a result"
    using buf_uint_step [of "[]" 0 n 8 "6 + k" slot g] assms by simp
  have s2: "rbind (buf_uint 4 (le_bytes 8 slot @ u8_zeros (6 + k)) counter 8) g = (if 0 \<le> counter \<and> counter < 256 ^ 4
      then g ((le_bytes 8 slot @ le_bytes 4 counter) @ u8_zeros (2 + k)) else Inl (RangeError ''ERR_OUT_OF_RANGE''))"
    for g :: "bytes \<Rightarrow> 'a result" by (rule buf_uint_step) simp_all
  have s3: "rbind (buf_uint 1 ((le_bytes 8 slot @ le_bytes 4 counter) @ u8_zeros (2 + k)) idx 12) g =
      (if 0 \<le> idx \<and> idx < 256 ^ 1 then g (((le_bytes 8 slot @ le_bytes 4 counter) @ le_bytes 1 idx) @ u8_zeros (1 + k))
       else Inl (RangeError ''ERR_OUT_OF_RANGE''))" for g :: "bytes \<Rightarrow> 'a result"
    by (rule buf_uint_step) simp_all
  have s4: "rbind (buf_uint 1 (((le_bytes 8 slot @ le_bytes 4 counter) @ le_bytes 1 idx) @ u8_zeros (1 + k)) 0x80 13) f =
      f (((((le_bytes 8 slot @ le_bytes 4 counter) @ le_bytes 1 idx) @ le_bytes 1 0x80)) @ u8_zeros k)"
    by (subst buf_uint_step [where k = k]) simp_all
  show ?thesis unfolding s1 s2 s3 s4 by (simp add: slot_fields_fit_def auth_prefix_def)
qed

lemma buildAuthPayloadPrefix_web3_eq:
  "buildAuthPayloadPrefix_web3 slot counter idx =
    (if slot_fields_fit slot counter idx then Inr (auth_prefix slot counter idx)
     else Inl (RangeError ''ERR_OUT_OF_RANGE''))"
  using prefix_steps_web3 [of 14 0 slot counter idx Inr] by (simp add: buildAuthPayloadPrefix_web3_def)

lemma buildAuthPayload_web3_eq:
  assumes fit: "slot_fields_fit slot counter idx"
  shows "buildAuthPayload_web3 slot counter idx ad cdj = buildAuthPayload slot counter idx ad cdj"
proof (cases "length ad > 0xffff \<or> length cdj > 0xffff")
  case True
  then show ?thesis by (auto simp: buildAuthPayload_web3_def buildAuthPayload_def Let_def)
next
  case False
  let ?n = "8 + 4 + 1 + 1 + 2 + length ad + 2 + length cdj"
  let ?p = "auth_prefix slot counter idx"
  let ?l = "le_bytes 2 (int (length ad))" and ?m = "le_bytes 2 (int (length cdj))"
  have g: "\<not> length ad > 0xffff" "\<not> length cdj > 0xffff" using False by simp_all
  have n: "?n = 14 + (2 + length ad + 2 + length cdj)" by simp
  have s1: "rbind (buf_uint 2 (?p @ u8_zeros (2 + length ad + 2 + length cdj)) (int (length ad)) 14) f
      = f ((?p @ ?l) @ u8_zeros (length ad + 2 + length cdj))" for f :: "bytes \<Rightarrow> bytes result"
    using g by (subst buf_uint_step [where k = "length ad + 2 + length cdj"]) simp_all
  have s2: "buf_copy ad ((?p @ ?l) @ u8_zeros (length ad + 2 + length cdj)) 16
      = (?p @ ?l @ ad) @ u8_zeros (2 + length cdj)"
    by (subst buf_copy_fill) simp_all
  have s3: "rbind (buf_uint 2 ((?p @ ?l @ ad) @ u8_zeros (2 + length cdj)) (int (length cdj)) (16 + length ad)) f
      = f ((?p @ ?l @ ad @ ?m) @ u8_zeros (length cdj))" for f :: "bytes \<Rightarrow> bytes result"
    using g by (subst buf_uint_step [where k = "length cdj"]) simp_all
  have s4: "buf_copy cdj ((?p @ ?l @ ad @ ?m) @ u8_zeros (length cdj)) (16 + length ad + 2)
      = auth_payload_bytes slot counter idx ad cdj"
    by (subst buf_copy_fill) (simp_all add: auth_payload_bytes_def)
  have "buildAuthPayload_web3 slot counter idx ad cdj = Inr (auth_payload_bytes slot counter idx ad cdj)"
    unfolding buildAuthPayload_web3_def Let_def if_not_P [OF g(1)] if_not_P [OF g(2)] prefix_steps_web3 [OF n]
      if_P [OF fit] s1 s2 s3 s4 ..
  then show ?thesis using g by (simp add: buildAuthPayload_cases)
qed

lemma web3_prepare:
  "prepareSecp256r1_web3 K disc payload idx slot counter payer wallet programId pk =
    (if slot_fields_fit slot counter idx
     then prepareSecp256r1 K disc payload idx slot counter payer wallet programId pk
     else Inl (RangeError ''ERR_OUT_OF_RANGE''))"
proof (cases "slot_fields_fit slot counter idx")
  case True
  then have "buf_uint 4 (u8_zeros 4) counter 0 = dv_set 4 (u8_zeros 4) 0 counter"
    by (intro buf_uint_fits) (simp_all add: slot_fields_fit_def)
  with True show ?thesis
    by (simp add: prepareSecp256r1_web3_def prepareSecp256r1_def buildAuthPayloadPrefix_web3_eq
        buildAuthPayloadPrefix_eq buildSecp256r1Challenge_web3_def buildSecp256r1Challenge_def)
qed (simp add: prepareSecp256r1_web3_def buildAuthPayloadPrefix_web3_eq)

lemma buf_fit_step:
  assumes "length pre = off" "n = w + k" "0 \<le> v" "v < 256 ^ w"
  shows "rbind (buf_uint w (pre @ u8_zeros n) v off) f = f ((pre @ le_bytes w v) @ u8_zeros k)"
  using buf_uint_step [OF assms(1,2), of v f] assms(3,4) by simp

lemma buf_copy_step:
  assumes "length pre = off" "n = length src + k"
  shows "buf_copy src (pre @ u8_zeros n) off = (pre @ src) @ u8_zeros k"
  using assms by (simp add: buf_copy_fill)

lemma web3_precompile:
  "buildSecp256r1PrecompileIx_web3 pk msg sig = ok_map ix_web3 (buildSecp256r1PrecompileIx pk msg sig)"
proof (cases "length sig = 64 \<and> length pk = 33 \<and> length msg \<le> 0xffff")
  case False
  then show ?thesis
    by (auto simp: buildSecp256r1PrecompileIx_web3_def buildSecp256r1PrecompileIx_def)
next
  case True
  let ?k = "length msg"
  have l: "length sig = 64" "length pk = 33" "length msg \<le> 0xffff" using True by simp_all
  have g: "\<not> length sig \<noteq> 64" "\<not> length pk \<noteq> 33" "\<not> length msg > 0xffff" using True by simp_all
  have z: "u8_zeros (16 + 64 + 33 + 1 + ?k) = [] @ u8_zeros (114 + ?k)" by simp
  have pad: "u8_zeros (1 + ?k) = [0] @ u8_zeros ?k" by (simp add: u8_zeros_def)
  have "buildSecp256r1PrecompileIx_web3 pk msg sig =
      Inr \<lparr>wi_programId = SECP256R1_PROGRAM_ADDRESS, wi_keys = [], wi_data = precompile_bytes pk msg sig\<rparr>"
    unfolding buildSecp256r1PrecompileIx_web3_def Let_def if_not_P [OF g(1)] if_not_P [OF g(2)] if_not_P [OF g(3)] z
    apply (subst buf_fit_step [where k = "113 + ?k"], simp, simp, simp, simp)
    apply (subst buf_fit_step [where k = "112 + ?k"], simp, simp, simp, simp)
    apply (subst buf_fit_step [where k = "110 + ?k"], simp, simp, simp, simp)
    apply (subst buf_fit_step [where k = "108 + ?k"], simp, simp, simp, simp)
    apply (subst buf_fit_step [where k = "106 + ?k"], simp, simp, simp, simp)
    apply (subst buf_fit_step [where k = "104 + ?k"], simp, simp, simp, simp)
    apply (subst buf_fit_step [where k = "102 + ?k"], simp, simp, simp, simp)
    apply (subst buf_fit_step [where k = "100 + ?k"], simp, simp, simp, use l in simp)
    apply (subst buf_fit_step [where k = "98 + ?k"], simp, simp, simp, simp)
    apply (subst buf_copy_step [where k = "34 + ?k"], simp, simp add: l)
    apply (subst buf_copy_step [where k = "1 + ?k"], simp add: l, simp add: l)
    apply (subst pad, subst append_assoc [symmetric])
    apply (subst buf_copy_step [where k = 0], simp add: l, simp)
    apply (simp add: precompile_bytes_def)
    done
  then show ?thesis
    by (simp add: buildSecp256r1PrecompileIx_eq [OF l] ix_web3_def accounts_of_def data_of_def)
qed

lemma web3_finalize:
  assumes "slot_fields_fit (si_slot (ps_internal p)) (si_counter (ps_internal p)) (si_sysvarIxIndex (ps_internal p))"
  shows "finalizeSecp256r1_web3 p r = ok_map (\<lambda>(payload, ix). (payload, ix_web3 ix)) (finalizeSecp256r1 p r)"
  unfolding finalizeSecp256r1_web3_def finalizeSecp256r1_def Let_def buildAuthPayload_web3_eq [OF assms]
    web3_precompile
  by (simp add: ok_map_def rbind_assoc)

text \<open>Signing in one call: the same signature request, and from the same answer the same result.\<close>

lemma web3_sign:
  "signWithSecp256r1_web3 K pk sign disc payload idx slot counter payer wallet programId =
    (if slot_fields_fit slot counter idx
     then ok_map (\<lambda>(p, ix). (p, ix_web3 ix))
       (signWithSecp256r1 K pk sign disc payload idx slot counter payer wallet programId)
     else Inl (RangeError ''ERR_OUT_OF_RANGE''))"
proof (cases "slot_fields_fit slot counter idx")
  case True
  have i: "ps_internal p = \<lparr>si_slot = slot, si_counter = counter, si_sysvarIxIndex = idx, si_publicKeyBytes = pk\<rparr>"
    if "prepareSecp256r1 K disc payload idx slot counter payer wallet programId pk = Inr p" for p
    using that by (auto simp: prepareSecp256r1_def rbind_eq_Inr)
  show ?thesis
  proof (cases "prepareSecp256r1 K disc payload idx slot counter payer wallet programId pk")
    case (Inr p)
    have "finalizeSecp256r1_web3 p = (\<lambda>r. ok_map (\<lambda>(payload, ix). (payload, ix_web3 ix)) (finalizeSecp256r1 p r))"
      using True by (intro ext web3_finalize) (simp add: i [OF Inr])
    with True Inr show ?thesis
      by (simp add: signWithSecp256r1_web3_def signWithSecp256r1_def web3_prepare ok_map_rbind)
  qed (simp add: signWithSecp256r1_web3_def signWithSecp256r1_def web3_prepare True)
qed (simp add: signWithSecp256r1_web3_def web3_prepare)

text \<open>The signed payloads, and the addresses.\<close>

lemma buf_uint_zeros: "w = n \<Longrightarrow> buf_uint w (u8_zeros n) v 0 =
    (if 0 \<le> v \<and> v < 256 ^ w then Inr (le_bytes w v) else Inl (RangeError ''ERR_OUT_OF_RANGE''))"
  by (simp add: buf_uint_def dv_set_zeros)

lemma buf_int64_zeros: "buf_int64 (u8_zeros 8) v 0 =
    (if - (2 ^ 63) \<le> v \<and> v < 2 ^ 63 then Inr (le_bytes 8 v) else Inl (RangeError ''ERR_OUT_OF_RANGE''))"
  by (simp add: buf_int64_def dv_set_zeros)

lemma web3_payload_add:
  "buildDataPayloadForAdd_web3 ty role cred pk rpId policy =
    (if length (opt_bytes policy) < 65536 then buildDataPayloadForAdd ty role cred pk rpId policy
     else Inl (RangeError ''ERR_OUT_OF_RANGE''))"
  unfolding buildDataPayloadForAdd_web3_def buildDataPayloadForAdd_def
  by (simp add: buf_uint_zeros dv_set_zeros opt_bytes_def Let_def split: option.split)

lemma web3_payload_transfer [simp]: "buildDataPayloadForTransfer_web3 = buildDataPayloadForTransfer"
  by (simp add: fun_eq_iff buildDataPayloadForTransfer_web3_def buildDataPayloadForTransfer_def)

lemma web3_payload_session:
  assumes "length key = 32"
  shows "buildDataPayloadForSession_web3 key expiry actions =
    (if - (2 ^ 63) \<le> expiry \<and> expiry < 2 ^ 63 then buildDataPayloadForSession key expiry actions
     else Inl (RangeError ''ERR_OUT_OF_RANGE''))"
  unfolding buildDataPayloadForSession_web3_def buildDataPayloadForSession_def Let_def dv_set_def
    buf_int64_zeros using assms by (simp add: u8_set_zeros)

lemma web3_pdas:
  "findWalletPda_web3 = findWalletPda" "findVaultPda_web3 = findVaultPda"
  "findAuthorityPda_web3 = findAuthorityPda" "findSessionPda_web3 = findSessionPda"
  "findProtocolConfigPda_web3 = findProtocolConfigPda" "findFeeRecordPda_web3 = findFeeRecordPda"
  "findTreasuryShardPda_web3 = findTreasuryShardPda"
  by (simp_all add: fun_eq_iff find_pda_defs findWalletPda_web3_def findVaultPda_web3_def
      findAuthorityPda_web3_def findSessionPda_web3_def findProtocolConfigPda_web3_def
      findFeeRecordPda_web3_def findTreasuryShardPda_web3_def)

lemma web3_deferred_pda:
  "findDeferredExecPda_web3 K wallet authority counter programId =
    (if 0 \<le> counter \<and> counter < 2 ^ 32 then findDeferredExecPda K wallet authority counter programId
     else Inl (RangeError ''ERR_OUT_OF_RANGE''))"
  by (simp add: findDeferredExecPda_web3_def findDeferredExecPda_def buf_uint_zeros dv_set_zeros)

end
