(* ===== verification/LegacyOwnership.thy ===== *)
theory LegacyOwnership
  imports Discovery LegacyWire
begin

text \<open>
  Wallet discovery of the SDK for web3.js v1: \<open>sdk-legacy/src/utils/ownership.ts\<close>, with
  \<open>signedMessage.ts\<close>, the lookups of \<open>client.ts\<close> built on them and the v1 addresses of \<open>v1.ts\<close>. A
  second implementation of the rule that adopts a wallet: candidates by version layout instead of by
  two scans, pages read one after the other, its own comparator and its own reading of the client
  data. \<open>atOrAfterSlot\<close>, \<open>mapBounded\<close> and the recovery of a signature's format are the same text in
  both SDKs and are used as they are. A web3.js \<open>Connection\<close> is the node record of the kit client.
\<close>

section \<open>Results that agree\<close>

text \<open>
  The two SDKs word their errors differently. Two results agree when one is a value exactly when
  the other is, and then the same value.
\<close>

definition agrees :: "'a result \<Rightarrow> 'a result \<Rightarrow> bool" where
  "agrees r r' \<longleftrightarrow> (\<forall>x. r = Inr x \<longleftrightarrow> r' = Inr x)"

named_theorems agreeing

lemma agrees_refl [simp, agreeing]: "agrees r r"
  by (simp add: agrees_def)

lemma agrees_Inl [simp, agreeing]: "agrees (Inl e) (Inl e')"
  by (simp add: agrees_def)

lemma agrees_sym: "agrees r r' \<Longrightarrow> agrees r' r"
  by (simp add: agrees_def)

lemma agrees_trans: "agrees r r' \<Longrightarrow> agrees r' r'' \<Longrightarrow> agrees r r''"
  by (simp add: agrees_def)

lemma agrees_rbind:
  "agrees m m' \<Longrightarrow> (\<And>x. m' = Inr x \<Longrightarrow> agrees (f x) (f' x)) \<Longrightarrow> agrees (rbind m f) (rbind m' f')"
  by (auto simp: agrees_def rbind_eq_Inr)

lemma agrees_same [agreeing]:
  "(\<And>x. m = Inr x \<Longrightarrow> agrees (f x) (f' x)) \<Longrightarrow> agrees (rbind m f) (rbind m f')"
  by (rule agrees_rbind) simp_all

lemma agrees_if [agreeing]:
  "(b \<Longrightarrow> agrees x x') \<Longrightarrow> (\<not> b \<Longrightarrow> agrees y y') \<Longrightarrow> agrees (if b then x else y) (if b then x' else y')"
  by simp

lemma agrees_rmap: "(\<And>x. x \<in> set xs \<Longrightarrow> agrees (f x) (g x)) \<Longrightarrow> agrees (rmap f xs) (rmap g xs)"
  by (induction xs) (auto intro!: agrees_rbind)

lemma agrees_ok_map [agreeing]: "agrees r r' \<Longrightarrow> agrees (ok_map f r) (ok_map f r')"
  by (auto simp: agrees_def ok_map_def rbind_eq_Inr)

section \<open>web3.js keys\<close>

text \<open>\<open>new PublicKey\<close> of text throws unless it is an address.\<close>

definition pubkey_text :: "kit \<Rightarrow> string \<Rightarrow> address result" where
  "pubkey_text K s = (if k_isAddress K s then Inr s else Inl (Error ''Invalid public key input''))"

definition findV1WalletPda_web3 :: "kit \<Rightarrow> bytes \<Rightarrow> address \<Rightarrow> pda" where
  "findV1WalletPda_web3 K userSeed programId = k_pda K programId [utf8 V1_SEED_WALLET, userSeed]"

definition findV1VaultPda_web3 :: "kit \<Rightarrow> address \<Rightarrow> address \<Rightarrow> pda" where
  "findV1VaultPda_web3 K walletPda programId = k_pda K programId [utf8 V1_SEED_VAULT, k_encAddr K walletPda]"

definition findV1AuthorityPda_web3 :: "kit \<Rightarrow> address \<Rightarrow> bytes \<Rightarrow> address \<Rightarrow> pda" where
  "findV1AuthorityPda_web3 K walletPda idSeed programId =
     k_pda K programId [utf8 V1_SEED_AUTHORITY, k_encAddr K walletPda, idSeed]"

definition deriveV1Accounts_web3 :: "kit \<Rightarrow> bytes \<Rightarrow> bytes \<Rightarrow> address \<Rightarrow> v1_accounts result" where
  "deriveV1Accounts_web3 K userSeed ownerIdSeed programId =
     rbind (findV1WalletPda_web3 K userSeed programId) (\<lambda>(wallet, _).
     rbind (findV1VaultPda_web3 K wallet programId) (\<lambda>(vault, _).
     rbind (findV1AuthorityPda_web3 K wallet ownerIdSeed programId) (\<lambda>(authority, _).
     Inr \<lparr>v1_wallet = wallet, v1_vault = vault, v1_authority = authority\<rparr>)))"

definition getAssociatedTokenAddress_web3 :: "kit \<Rightarrow> address \<Rightarrow> address \<Rightarrow> address \<Rightarrow> address result" where
  "getAssociatedTokenAddress_web3 K mint owner tokenProgram =
     rbind (k_pda K ASSOCIATED_TOKEN_PROGRAM_ADDRESS [k_encAddr K owner, k_encAddr K tokenProgram, k_encAddr K mint])
       (\<lambda>(ata, _). Inr ata)"

section \<open>Layouts\<close>

record version_layout =
  vl_wallet :: byte
  vl_authority :: byte
  vl_session :: byte
  vl_deferred :: byte
  vl_vault :: "kit \<Rightarrow> address \<Rightarrow> address \<Rightarrow> address result"

definition LAYOUTS :: "int \<Rightarrow> version_layout" where
  "LAYOUTS version =
     (if version = 1 then
        \<lparr>vl_wallet = V1_DISC_WALLET, vl_authority = V1_DISC_AUTHORITY, vl_session = V1_DISC_SESSION,
         vl_deferred = V1_DISC_DEFERRED_EXEC,
         vl_vault = (\<lambda>K wallet programId. rbind (findV1VaultPda_web3 K wallet programId) (\<lambda>(vault, _). Inr vault))\<rparr>
      else
        \<lparr>vl_wallet = ACCOUNT_DISCRIMINATOR WALLET, vl_authority = ACCOUNT_DISCRIMINATOR AUTHORITY,
         vl_session = ACCOUNT_DISCRIMINATOR SESSION, vl_deferred = ACCOUNT_DISCRIMINATOR DEFERRED_EXEC,
         vl_vault = (\<lambda>K wallet programId. rbind (findVaultPda_web3 K wallet programId) (\<lambda>(vault, _). Inr vault))\<rparr>)"

definition AUTHORITY_COUNTER :: nat where "AUTHORITY_COUNTER = 8"
definition AUTHORITY_WALLET :: nat where "AUTHORITY_WALLET = 16"
definition AUTHORITY_KEY :: nat where "AUTHORITY_KEY = 48"
definition AUTHORITY_ED25519_LEN :: nat where "AUTHORITY_ED25519_LEN = 80"
definition AUTHORITY_P256_KEY :: nat where "AUTHORITY_P256_KEY = 80"
definition AUTHORITY_RP_ID_HASH :: nat where "AUTHORITY_RP_ID_HASH = 113"
definition AUTHORITY_SECP256R1_LEN :: nat where "AUTHORITY_SECP256R1_LEN = 145"
definition SESSION_WALLET :: nat where "SESSION_WALLET = 8"
definition SESSION_KEY :: nat where "SESSION_KEY = 40"
definition SESSION_EXPIRES_AT :: nat where "SESSION_EXPIRES_AT = 72"
definition DEFERRED_WALLET :: nat where "DEFERRED_WALLET = 72"
definition DEFERRED_AUTHORITY :: nat where "DEFERRED_AUTHORITY = 104"
definition DEFERRED_EXPIRES_AT :: nat where "DEFERRED_EXPIRES_AT = 168"
definition TOKEN_OWNER :: nat where "TOKEN_OWNER = 32"
definition UNREADABLE_EXPIRY :: int where "UNREADABLE_EXPIRY = 0xffffffffffffffff"

lemmas layout_offsets = AUTHORITY_COUNTER_def AUTHORITY_WALLET_def AUTHORITY_KEY_def AUTHORITY_ED25519_LEN_def
  AUTHORITY_P256_KEY_def AUTHORITY_RP_ID_HASH_def AUTHORITY_SECP256R1_LEN_def SESSION_WALLET_def SESSION_KEY_def
  SESSION_EXPIRES_AT_def DEFERRED_WALLET_def DEFERRED_AUTHORITY_def DEFERRED_EXPIRES_AT_def TOKEN_OWNER_def

section \<open>Proofs and the rule\<close>

definition createTaggedOwnershipChallenge_web3 :: "(nat \<Rightarrow> bytes) \<Rightarrow> bytes result" where
  "createTaggedOwnershipChallenge_web3 randomBytes =
     concatBytes [utf8 OWNERSHIP_PROOF_DOMAIN, randomBytes OWNERSHIP_PROOF_NONCE_LENGTH]"

definition signedMessageChallenge_web3 :: "kit \<Rightarrow> signed_message_input \<Rightarrow> bytes result" where
  "signedMessageChallenge_web3 K message =
     rbind (concatBytes [utf8 SIGNED_MESSAGE_DOMAIN, messageBytes message]) (\<lambda>tagged.
     concatBytes [utf8 SIGNED_MESSAGE_DOMAIN, k_sha256 K tagged])"

text \<open>\<open>Buffer.from(b).toString('utf8')\<close> decodes as a \<open>TextDecoder\<close> does, but keeps a byte order mark.\<close>

definition is_object :: "json \<Rightarrow> bool" where
  "is_object v = (case v of JObj _ \<Rightarrow> True | JArr _ \<Rightarrow> True | _ \<Rightarrow> False)"

definition assertionDigest_web3 :: "kit \<Rightarrow> ownership_proof \<Rightarrow> string \<Rightarrow> bytes option result" where
  "assertionDigest_web3 K pf rpId =
     (if length (op_challenge pf) < 16 then Inr None
      else case JSON_parse (utf8_decode (op_clientDataJson pf)) of
        Inl _ \<Rightarrow> Inr None
      | Inr clientData \<Rightarrow>
          if \<not> is_object clientData then Inr None
          else
            rbind (json_get clientData ''type'') (\<lambda>ty.
            rbind (json_get clientData ''challenge'') (\<lambda>signedChallenge.
            if ty \<noteq> Some (JStr ''webauthn.get'') then Inr None
            else if signedChallenge \<noteq> Some (JStr (base64UrlNoPad K (op_challenge pf))) then Inr None
            else let authenticatorData = op_authenticatorData pf in
              if length authenticatorData < 37 then Inr None
              else if \<not> bytesEqual (u8_slice authenticatorData 0 32) (k_sha256 K (utf8 rpId)) then Inr None
              else if authenticatorData ! 32 AND 0x01 = 0 then Inr None
              else rbind (concatBytes [authenticatorData, k_sha256 K (op_clientDataJson pf)]) (\<lambda>b.
                Inr (Some (k_sha256 K b))))))"

definition verifyOwnershipProof_web3 ::
  "kit \<Rightarrow> 's p256 \<Rightarrow> 'a passkey_wallet_candidate_scheme list \<Rightarrow> ownership_proof \<Rightarrow> string
   \<Rightarrow> 'a passkey_wallet_candidate_scheme list" where
  "verifyOwnershipProof_web3 K P candidates pf rpId =
     (case assertionDigest_web3 K pf rpId of
        Inr (Some digest) \<Rightarrow> filter (\<lambda>c. p256Verifies P (op_signature pf) digest (c_publicKey c)) candidates
      | _ \<Rightarrow> [])"

text \<open>\<open>compareStrings\<close>, and the chain of comparisons in \<open>sort\<close>: the first that is not 0 counts.\<close>

definition compareStrings :: "string \<Rightarrow> string \<Rightarrow> int" where
  "compareStrings a b = (if a < b then -1 else if a > b then 1 else 0)"

definition js_or :: "int \<Rightarrow> int \<Rightarrow> int" where
  "js_or a b = (if a \<noteq> 0 then a else b)"

definition compare_web3 :: "wallet_facts \<Rightarrow> wallet_facts \<Rightarrow> int" where
  "compare_web3 a b =
     js_or (js_Number (wf_signatureCount b > 0) - js_Number (wf_signatureCount a > 0))
       (js_or (c_version a - c_version b)
         (js_or (wf_lamports b - wf_lamports a) (compareStrings (c_walletPda a) (c_walletPda b))))"

definition pickOwnWallet_web3 :: "wallet_facts list \<Rightarrow> wallet_facts option \<times> wallet_facts list" where
  "pickOwnWallet_web3 facts =
     (let ordered = js_sort compare_web3 facts;
          signed = filter (\<lambda>f. wf_signatureCount f > 0) ordered
      in if length signed = 1 \<and> wf_controlledAlone (signed ! 0) then (Some (signed ! 0), [])
         else (None, ordered))"

section \<open>Token accounts\<close>

definition isPlainSystemAccount :: "account option \<Rightarrow> bool" where
  "isPlainSystemAccount info = (case info of None \<Rightarrow> True
     | Some i \<Rightarrow> ac_owner i = SYSTEM_PROGRAM_ADDRESS \<and> length (ac_data i) = 0)"

definition sessionExpiry :: "bytes \<Rightarrow> int" where
  "sessionExpiry data = (if length data \<ge> SESSION_EXPIRES_AT + 8 then uint_at 8 data SESSION_EXPIRES_AT else UNREADABLE_EXPIRY)"

definition deferredExpiry :: "bytes \<Rightarrow> int" where
  "deferredExpiry data = (if length data \<ge> DEFERRED_EXPIRES_AT + 8 then uint_at 8 data DEFERRED_EXPIRES_AT else UNREADABLE_EXPIRY)"

text \<open>The loop of \<open>watchedMints\<close>: each mint is checked just before it is looked for.\<close>

fun add_mints :: "kit \<Rightarrow> string list \<Rightarrow> address list \<Rightarrow> address list result" where
  "add_mints K [] mints = Inr mints"
| "add_mints K (m # extra) mints =
     rbind (pubkey_text K m) (\<lambda>mint.
     add_mints K extra (if list_ex (\<lambda>w. w = mint) mints then mints else mints @ [mint]))"

definition watchedMints_web3 :: "kit \<Rightarrow> string list \<Rightarrow> address list result" where
  "watchedMints_web3 K extra = add_mints K extra WATCHED_MINTS"

definition watchedTokenAccounts :: "kit \<Rightarrow> address \<Rightarrow> address list \<Rightarrow> (address \<times> address) list result" where
  "watchedTokenAccounts K vault mints =
     rmap (\<lambda>mint. rbind (getAssociatedTokenAddress_web3 K mint vault TOKEN_PROGRAM_ADDRESS) (\<lambda>a. Inr (a, mint))) mints"

definition tokenAccountGrants ::
  "kit \<Rightarrow> address \<Rightarrow> address \<Rightarrow> bytes \<Rightarrow> address \<Rightarrow> string set \<Rightarrow> token_grant list" where
  "tokenAccountGrants K tokenAccount tokenProgram data vault trusted =
     (if length data < TOKEN_ACCOUNT_LEN then [unreadableGrant tokenAccount tokenProgram]
      else let mint = pubkey_of K (u8_slice data 0 32) in
        concat (map (\<lambda>(kind, offset).
          if uint_at 4 data offset = 0 then []
          else let grantee = pubkey_of K (u8_slice data (offset + 4) (offset + 36)) in
            if grantee = vault then []
            else [\<lparr>tg_tokenAccount = tokenAccount, tg_tokenProgram = tokenProgram, tg_mint = Some mint, tg_kind = kind,
                   tg_grantee = Some grantee, tg_trusted = (grantee \<in> trusted)\<rparr>])
          [(Delegate, TOKEN_DELEGATE), (CloseAuthority, TOKEN_CLOSE_AUTHORITY)]))"

text \<open>One watched account: what the loop pushes for it.\<close>

definition watched_grants :: "kit \<Rightarrow> address \<Rightarrow> string set \<Rightarrow> (address \<times> address) \<times> account option \<Rightarrow> token_grant list" where
  "watched_grants K vault trusted w = (case w of ((a, mint), info) \<Rightarrow>
     (case info of
        None \<Rightarrow> []
      | Some i \<Rightarrow>
          if ac_owner i \<noteq> TOKEN_PROGRAM_ADDRESS then []
          else if length (ac_data i) < TOKEN_OWNER + 32 then [unreadableGrant a TOKEN_PROGRAM_ADDRESS]
          else let owner = pubkey_of K (u8_slice (ac_data i) TOKEN_OWNER (TOKEN_OWNER + 32)) in
            if owner = vault then []
            else [\<lparr>tg_tokenAccount = a, tg_tokenProgram = TOKEN_PROGRAM_ADDRESS, tg_mint = Some mint, tg_kind = Owner,
                   tg_grantee = Some owner, tg_trusted = (owner \<in> trusted)\<rparr>]))"

definition vaultTokenGrants_web3 ::
  "kit \<Rightarrow> address \<Rightarrow> row list \<Rightarrow> row list \<Rightarrow> ((address \<times> address) \<times> account option) list \<Rightarrow> string set
   \<Rightarrow> token_grant list" where
  "vaultTokenGrants_web3 K vault spl token2022 watched trusted =
     concat (map (\<lambda>(pubkey, data). tokenAccountGrants K pubkey TOKEN_PROGRAM_ADDRESS data vault trusted) spl)
     @ concat (map (\<lambda>(pubkey, data). tokenAccountGrants K pubkey TOKEN_2022_PROGRAM_ADDRESS data vault trusted) token2022)
     @ concat (map (watched_grants K vault trusted) watched)"

definition tokenAccountProblem :: "kit \<Rightarrow> address \<Rightarrow> account \<Rightarrow> address \<Rightarrow> address \<Rightarrow> string option" where
  "tokenAccountProblem K a info vault tokenProgram =
     (if ac_owner info \<noteq> tokenProgram then Some ''is owned by another program''
      else if length (ac_data info) < TOKEN_ACCOUNT_LEN then Some ''cannot be read as a token account''
      else if pubkey_of K (u8_slice (ac_data info) TOKEN_OWNER (TOKEN_OWNER + 32)) \<noteq> vault
      then Some ''belongs to another owner, not the v2 vault''
      else case tokenAccountGrants K a tokenProgram (ac_data info) vault {} of
        grant # _ \<Rightarrow> Some (grantPhrase (tg_kind grant)) | [] \<Rightarrow> None)"

section \<open>Reads\<close>

text \<open>\<open>readAccounts\<close>: the loop over the pages, with the newest slot and the accounts so far.\<close>

fun read_pages :: "node_rpc \<Rightarrow> int option \<Rightarrow> address list list \<Rightarrow> int \<Rightarrow> account option list \<Rightarrow> (int \<times> account option list) result" where
  "read_pages rpc minContextSlot [] slot infos = Inr (slot, infos)"
| "read_pages rpc minContextSlot (page # rest) slot infos =
     rbind (atOrAfterSlot (nr_multiple rpc page minContextSlot)) (\<lambda>(at, value).
     read_pages rpc minContextSlot rest (max slot at) (infos @ value))"

definition readAccounts_web3 :: "node_rpc \<Rightarrow> address list \<Rightarrow> int option \<Rightarrow> (int \<times> account option list) result" where
  "readAccounts_web3 rpc keys minContextSlot =
     read_pages rpc minContextSlot (pages keys) (case minContextSlot of Some m \<Rightarrow> m | None \<Rightarrow> 0) []"

definition scanWalletAccounts_web3 ::
  "kit \<Rightarrow> node_rpc \<Rightarrow> address \<Rightarrow> address \<Rightarrow> byte \<Rightarrow> nat \<Rightarrow> int option \<Rightarrow> (int \<times> row list) result" where
  "scanWalletAccounts_web3 K rpc programId wallet disc walletOffset minContextSlot =
     atOrAfterSlot (nr_scan rpc programId [(0, [disc]), (walletOffset, k_encAddr K wallet)] minContextSlot)"

definition readVaultTokenAccounts_web3 ::
  "node_rpc \<Rightarrow> address \<Rightarrow> int option \<Rightarrow> (int \<times> row list \<times> row list) result" where
  "readVaultTokenAccounts_web3 rpc vault minContextSlot =
     (let read = (\<lambda>programId. atOrAfterSlot (nr_tokens rpc vault programId minContextSlot)) in
      rbind (read TOKEN_PROGRAM_ADDRESS) (\<lambda>(s1, spl).
      rbind (read TOKEN_2022_PROGRAM_ADDRESS) (\<lambda>(s2, token2022).
      Inr (max s1 s2, spl, token2022))))"

definition readSpendingState_web3 ::
  "kit \<Rightarrow> node_rpc \<Rightarrow> address \<Rightarrow> address \<Rightarrow> address \<Rightarrow> byte \<times> byte \<times> byte \<Rightarrow> address list \<Rightarrow> spending_state result" where
  "readSpendingState_web3 K rpc programId wallet vault discs accounts = (case discs of (authority, session, deferred) \<Rightarrow>
     let scan = scanWalletAccounts_web3 K rpc programId wallet in
     rbind (scan authority AUTHORITY_WALLET None) (\<lambda>(authSlot, authorities).
     rbind (scan session SESSION_WALLET (Some authSlot)) (\<lambda>(sessSlot, sessions).
     rbind (scan deferred DEFERRED_WALLET (Some authSlot)) (\<lambda>(defSlot, deferred).
     let after = max sessSlot defSlot in
     rbind (readAccounts_web3 rpc accounts (Some after)) (\<lambda>(readSlot, infos).
     rbind (readVaultTokenAccounts_web3 rpc vault (Some after)) (\<lambda>(tokSlot, spl, token2022).
     Inr \<lparr>ss_authorities = authorities, ss_sessions = sessions, ss_deferred = deferred,
          ss_infos = map (info_at infos) [0..<length accounts], ss_spl = spl, ss_token2022 = token2022,
          ss_slot = max readSlot tokSlot\<rparr>))))))"

section \<open>Facts\<close>

definition isLiveWallet_web3 :: "'a passkey_wallet_candidate_scheme \<Rightarrow> account option \<Rightarrow> bool" where
  "isLiveWallet_web3 c info = (case info of None \<Rightarrow> False
     | Some i \<Rightarrow> ac_owner i = c_programId c \<and> length (ac_data i) > 0
         \<and> ac_data i ! 0 = vl_wallet (LAYOUTS (c_version c)))"

text \<open>The body of the loop over the authorities: what it pushes.\<close>

definition push_authority ::
  "kit \<Rightarrow> address \<Rightarrow> string set \<Rightarrow> bytes option \<Rightarrow> row \<Rightarrow> other_authority list" where
  "push_authority K own trusted ownRpIdHash r = (case r of (pubkey, data) \<Rightarrow>
     if pubkey = own then []
     else let role = roleName (u8_at data 2) in
       if u8_at data 1 = Some (word_of_int AUTH_TYPE_ED25519) then
         let publicKey = (if length data \<ge> AUTHORITY_ED25519_LEN
               then Some (pubkey_of K (u8_slice data AUTHORITY_KEY AUTHORITY_ED25519_LEN)) else None);
             isTrusted = (publicKey \<noteq> None \<and> the publicKey \<in> trusted)
         in [\<lparr>oa_authorityPda = pubkey, oa_type = Ed25519, oa_role = role, oa_publicKey = publicKey,
              oa_sameRelyingParty = None, oa_trusted = isTrusted\<rparr>]
       else
         let sameRelyingParty = (ownRpIdHash \<noteq> None \<and> length data \<ge> AUTHORITY_SECP256R1_LEN
               \<and> bytesEqual (u8_slice data AUTHORITY_RP_ID_HASH AUTHORITY_SECP256R1_LEN) (the ownRpIdHash))
         in [\<lparr>oa_authorityPda = pubkey, oa_type = Secp256r1, oa_role = role, oa_publicKey = None,
              oa_sameRelyingParty = Some sameRelyingParty, oa_trusted = False\<rparr>])"

definition push_session :: "kit \<Rightarrow> string set \<Rightarrow> int \<Rightarrow> row \<Rightarrow> live_session list" where
  "push_session K trusted slot r = (case r of (pubkey, data) \<Rightarrow>
     let expiresAtSlot = sessionExpiry data in
     if expiresAtSlot < slot then []
     else let readable = length data \<ge> SESSION_EXPIRES_AT + 8;
              sessionKey = (if readable then pubkey_of K (u8_slice data SESSION_KEY (SESSION_KEY + 32)) else ZERO_ADDRESS)
          in [\<lparr>ls_sessionPda = pubkey, ls_sessionKey = sessionKey, ls_expiresAtSlot = expiresAtSlot,
               ls_trusted = (readable \<and> sessionKey \<in> trusted)\<rparr>])"

definition push_deferred :: "kit \<Rightarrow> int \<Rightarrow> row \<Rightarrow> pending_deferred list" where
  "push_deferred K slot r = (case r of (pubkey, data) \<Rightarrow>
     let expiresAtSlot = deferredExpiry data in
     if expiresAtSlot < slot then []
     else let authorizedBy = (if length data \<ge> DEFERRED_EXPIRES_AT + 8
                then pubkey_of K (u8_slice data DEFERRED_AUTHORITY (DEFERRED_AUTHORITY + 32)) else ZERO_ADDRESS)
          in [\<lparr>pd_deferredPda = pubkey, pd_authorizedBy = authorizedBy, pd_expiresAtSlot = expiresAtSlot,
               pd_trusted = False\<rparr>])"

definition describeCandidate_web3 ::
  "kit \<Rightarrow> node_rpc \<Rightarrow> passkey_wallet_candidate \<Rightarrow> int \<Rightarrow> string set \<Rightarrow> address list \<Rightarrow> wallet_facts option result" where
  "describeCandidate_web3 K rpc c slot trusted mints =
     rbind (watchedTokenAccounts K (c_vaultPda c) mints) (\<lambda>watched.
     let layout = LAYOUTS (c_version c) in
     rbind (readSpendingState_web3 K rpc (c_programId c) (c_walletPda c) (c_vaultPda c)
              (vl_authority layout, vl_session layout, vl_deferred layout)
              ([c_walletPda c, c_vaultPda c] @ map fst watched)) (\<lambda>s.
     let walletInfo = info_at (ss_infos s) 0; vaultInfo = info_at (ss_infos s) 1; watchedInfos = drop 2 (ss_infos s) in
     if \<not> isLiveWallet_web3 c walletInfo then Inr None
     else
       let lamports = (case vaultInfo of Some v \<Rightarrow> ac_lamports v | None \<Rightarrow> 0);
           vaultIsSystemAccount = isPlainSystemAccount vaultInfo;
           tokenGrants = vaultTokenGrants_web3 K (c_vaultPda c) (ss_spl s) (ss_token2022 s)
             (map (\<lambda>i. (watched ! i, info_at watchedInfos i)) [0..<length watched]) trusted;
           own = map_option snd (find (\<lambda>a. fst a = c_authorityPda c) (ss_authorities s));
           ownIntact = (case own of None \<Rightarrow> False | Some d \<Rightarrow>
             length d \<ge> AUTHORITY_SECP256R1_LEN \<and> u8_at d 1 = Some (word_of_int AUTH_TYPE_SECP256R1)
             \<and> u8_at d 2 = Some (word_of_int ROLE_OWNER)
             \<and> bytesEqual (u8_slice d AUTHORITY_P256_KEY AUTHORITY_RP_ID_HASH) (c_publicKey c));
           ownRpIdHash = (case own of None \<Rightarrow> None | Some d \<Rightarrow> if length d \<ge> AUTHORITY_SECP256R1_LEN
             then Some (u8_slice d AUTHORITY_RP_ID_HASH AUTHORITY_SECP256R1_LEN) else None);
           otherAuthorities = concat (map (push_authority K (c_authorityPda c) trusted ownRpIdHash) (ss_authorities s));
           liveSessions = concat (map (push_session K trusted slot) (ss_sessions s));
           pendingDeferred = concat (map (push_deferred K slot) (ss_deferred s))
       in Inr (Some (\<lparr>c_version = c_version c, c_programId = c_programId c, c_walletPda = c_walletPda c,
              c_vaultPda = c_vaultPda c, c_authorityPda = c_authorityPda c, c_publicKey = c_publicKey c,
              wf_lamports = lamports, wf_slot = slot, wf_otherAuthorities = otherAuthorities,
              wf_liveSessions = liveSessions, wf_pendingDeferred = pendingDeferred,
              wf_vaultIsSystemAccount = vaultIsSystemAccount, wf_tokenGrants = tokenGrants,
              wf_controlledAlone = (ownIntact \<and> vaultIsSystemAccount \<and> list_all oa_trusted otherAuthorities
                \<and> list_all ls_trusted liveSessions \<and> list_all pd_trusted pendingDeferred
                \<and> list_all tg_trusted tokenGrants),
              wf_signatureCount = (if ownIntact then uint_at 4 (the own) AUTHORITY_COUNTER else 0)\<rparr>))))"

definition describePasskeyWallets ::
  "kit \<Rightarrow> node_rpc \<Rightarrow> passkey_wallet_candidate list \<Rightarrow> string list \<Rightarrow> string list \<Rightarrow> wallet_facts list result" where
  "describePasskeyWallets K rpc candidates trustedKeys watchMints =
     rbind (rmap (pubkey_text K) trustedKeys) (\<lambda>trusted.
     rbind (watchedMints_web3 K watchMints) (\<lambda>mints.
     if length candidates = 0 then Inr []
     else
       rbind (nr_getSlot rpc) (\<lambda>slot.
       rbind (readAccounts_web3 rpc (map c_walletPda candidates) None) (\<lambda>(_, wallets).
       let live = map fst (filter (\<lambda>(c, i). isLiveWallet_web3 c (info_at wallets i))
                    (zip candidates [0..<length candidates])) in
       rbind (mapBounded live 4 (\<lambda>c. describeCandidate_web3 K rpc c slot (set trusted) mints)) (\<lambda>described.
       Inr (map the (filter (\<lambda>f. f \<noteq> None) described)))))))"

section \<open>Candidates\<close>

definition candidate_web3 :: "kit \<Rightarrow> int \<Rightarrow> address \<Rightarrow> row \<Rightarrow> passkey_wallet_candidate result" where
  "candidate_web3 K version target r = (case r of (pubkey, data) \<Rightarrow>
     let walletPda = pubkey_of K (u8_slice data AUTHORITY_WALLET (AUTHORITY_WALLET + 32)) in
     rbind (vl_vault (LAYOUTS version) K walletPda target) (\<lambda>vaultPda.
     Inr \<lparr>c_version = version, c_programId = target, c_walletPda = walletPda, c_vaultPda = vaultPda,
          c_authorityPda = pubkey, c_publicKey = u8_slice data AUTHORITY_P256_KEY AUTHORITY_RP_ID_HASH\<rparr>))"

definition scan_target ::
  "kit \<Rightarrow> node_rpc \<Rightarrow> bytes \<Rightarrow> string \<Rightarrow> int \<times> address \<Rightarrow> passkey_wallet_candidate list result" where
  "scan_target K rpc credentialIdHash rpId t = (case t of (version, target) \<Rightarrow>
     rbind (nr_programAccounts rpc target
              [(0, [vl_authority (LAYOUTS version), word_of_int AUTH_TYPE_SECP256R1]),
               (AUTHORITY_KEY, credentialIdHash), (AUTHORITY_RP_ID_HASH, k_sha256 K (utf8 rpId))]) (\<lambda>accounts.
     rmap (candidate_web3 K version target)
       (filter (\<lambda>(_, data). length data \<ge> AUTHORITY_SECP256R1_LEN \<and> u8_at data 2 = Some (word_of_int ROLE_OWNER))
         accounts)))"

definition scanPasskeyWalletCandidates ::
  "kit \<Rightarrow> node_rpc \<Rightarrow> address \<Rightarrow> bytes \<Rightarrow> string \<Rightarrow> bool option \<Rightarrow> passkey_wallet_candidate list result" where
  "scanPasskeyWalletCandidates K rpc programId credentialIdHash rpId includeV1 =
     (if length credentialIdHash \<noteq> 32 then Inl (Error ''credentialIdHash must be exactly 32 bytes'')
      else
        let targets = (2, programId) # (if includeV1 = Some False then [] else [(1, legacyProgramIdFor programId)]) in
        rbind (rmap (scan_target K rpc credentialIdHash rpId) targets) (\<lambda>found. Inr (concat found)))"

definition findWalletsByAuthority_web3 ::
  "kit \<Rightarrow> node_rpc \<Rightarrow> address \<Rightarrow> bytes \<Rightarrow> bool \<Rightarrow> wallet_authority_record list result" where
  "findWalletsByAuthority_web3 K rpc programId credential ed25519 =
     (if length credential \<noteq> 32 then Inl (Error ''credential must be exactly 32 bytes'')
      else
        let typeValue = (if ed25519 then AUTH_TYPE_ED25519 else AUTH_TYPE_SECP256R1) in
        rbind (nr_programAccounts rpc programId
                 [(0, u8_of [uint (ACCOUNT_DISCRIMINATOR AUTHORITY), typeValue]), (48, credential)]) (\<lambda>accounts.
        rmap (\<lambda>(authorityPda, data).
          let walletPda = pubkey_of K (u8_slice data 16 48) in
          rbind (findVaultPda_web3 K walletPda programId) (\<lambda>(vaultPda, _).
          Inr \<lparr>war_walletPda = walletPda, war_authorityPda = authorityPda, war_vaultPda = vaultPda,
               war_role = u8_at data 2, war_authorityType = u8_at data 1\<rparr>)) accounts))"

definition findOwnPasskeyWallet_web3 ::
  "kit \<Rightarrow> 's p256 \<Rightarrow> node_rpc \<Rightarrow> address \<Rightarrow> bytes \<Rightarrow> string \<Rightarrow> ownership_proof \<Rightarrow> string list \<Rightarrow> string list
   \<Rightarrow> bool option \<Rightarrow> own_passkey_wallet result" where
  "findOwnPasskeyWallet_web3 K P rpc programId credentialIdHash rpId pf trustedKeys watchMints includeV1 =
     rbind (scanPasskeyWalletCandidates K rpc programId credentialIdHash rpId includeV1) (\<lambda>candidates.
     let proven = verifyOwnershipProof_web3 K P candidates pf rpId;
         unproven = length candidates - length proven in
     if length proven = 0 then Inr \<lparr>ow_adopt = None, ow_needsConfirmation = [], ow_unproven = unproven\<rparr>
     else
       rbind (describePasskeyWallets K rpc proven trustedKeys watchMints) (\<lambda>facts.
       case pickOwnWallet_web3 facts of (adopt, needsConfirmation) \<Rightarrow>
       Inr \<lparr>ow_adopt = adopt, ow_needsConfirmation = needsConfirmation, ow_unproven = unproven\<rparr>))"

section \<open>Addresses, proofs and the order\<close>

lemma web3_v1_pdas [simp]:
  "findV1WalletPda_web3 = findV1WalletPda" "findV1VaultPda_web3 = findV1VaultPda"
  "findV1AuthorityPda_web3 = findV1AuthorityPda" "deriveV1Accounts_web3 = deriveV1Accounts"
  "getAssociatedTokenAddress_web3 = getAssociatedTokenAddress"
  by (simp_all add: fun_eq_iff findV1WalletPda_web3_def findV1WalletPda_def findV1VaultPda_web3_def findV1VaultPda_def
      findV1AuthorityPda_web3_def findV1AuthorityPda_def deriveV1Accounts_web3_def deriveV1Accounts_def
      getAssociatedTokenAddress_web3_def getAssociatedTokenAddress_def)

lemma pubkey_text_agrees: "agrees (pubkey_text K s) (check_address K s)"
  by (simp add: pubkey_text_def check_address_def)

lemma web3_challenges:
  assumes "sha256_32 K" "\<And>n. length (random n) = n"
  shows "signedMessageChallenge_web3 K m = signedMessageChallenge K m"
    "createTaggedOwnershipChallenge_web3 random = createTaggedOwnershipChallenge random"
  using signedMessageChallenge_eq [OF assms(1)] createTaggedOwnershipChallenge_eq [of random] assms(2)
  by (simp_all add: signedMessageChallenge_web3_def createTaggedOwnershipChallenge_web3_def concatBytes_eq
      OWNERSHIP_PROOF_NONCE_LENGTH_def)

definition BYTE_ORDER_MARK :: bytes where "BYTE_ORDER_MARK = [0xEF, 0xBB, 0xBF]"

text \<open>No JSON text starts with a byte order mark.\<close>

lemma marked_text_fails:
  assumes "take 3 b = BYTE_ORDER_MARK"
  shows "\<exists>e. JSON_parse (utf8_decode b) = Inl e"
proof -
  obtain rest where b: "b = [0xEF, 0xBB, 0xBF] @ rest"
    using assms by (metis BYTE_ORDER_MARK_def append_take_drop_id)
  have tail: "valid_tail 2 128 191 (187 # 191 # rest) = 2"
    unfolding numeral_2_eq_2 by simp
  have "utf8_decode b = byte_char 0xEF # byte_char 0xBB # byte_char 0xBF # utf8_decode rest"
    by (simp add: b utf8_decode.simps(2) utf8_lead_def Let_def tail)
  moreover have "byte_char 0xEF = CHR 0xEF" by code_simp
  ultimately have "parse_value (utf8_decode b) = None"
    by (simp add: parse_value.simps skip_ws_def is_ws_def parse_number_def is_digit_def code_def)
  then show ?thesis by (simp add: JSON_parse_def)
qed

definition proof_digest :: "bytes option result \<Rightarrow> bytes option" where
  "proof_digest r = (case r of Inr (Some d) \<Rightarrow> Some d | _ \<Rightarrow> None)"

lemma web3_digest:
  "proof_digest (assertionDigest_web3 K pf rpId) =
    (if take 3 (op_clientDataJson pf) = BYTE_ORDER_MARK then None else proof_digest (assertionDigest K pf rpId))"
proof (cases "take 3 (op_clientDataJson pf) = BYTE_ORDER_MARK")
  case True
  then show ?thesis
    using marked_text_fails [OF True] by (auto simp: assertionDigest_web3_def proof_digest_def)
next
  case False
  then have plain: "text_decode (op_clientDataJson pf) = utf8_decode (op_clientDataJson pf)"
    by (simp add: text_decode_def BYTE_ORDER_MARK_def)
  show ?thesis
  proof (cases "JSON_parse (utf8_decode (op_clientDataJson pf))")
    case (Inl e)
    then show ?thesis using False by (simp add: assertionDigest_web3_def assertionDigest_def proof_digest_def plain)
  next
    case (Inr v)
    then show ?thesis using False
      by (cases v) (simp_all add: assertionDigest_web3_def assertionDigest_def proof_digest_def plain is_object_def
          json_get_def Let_def concatBytes_eq)
  qed
qed

lemma verify_by_digest:
  "verifyOwnershipProof K P cs pf rpId = (case proof_digest (assertionDigest K pf rpId) of
     Some d \<Rightarrow> filter (\<lambda>c. p256Verifies P (op_signature pf) d (c_publicKey c)) cs | None \<Rightarrow> [])"
  "verifyOwnershipProof_web3 K P cs pf rpId = (case proof_digest (assertionDigest_web3 K pf rpId) of
     Some d \<Rightarrow> filter (\<lambda>c. p256Verifies P (op_signature pf) d (c_publicKey c)) cs | None \<Rightarrow> [])"
  by (simp_all add: verifyOwnershipProof_def verifyOwnershipProof_web3_def proof_digest_def split: sum.split option.split)

lemma web3_verify:
  "verifyOwnershipProof_web3 K P cs pf rpId =
    (if take 3 (op_clientDataJson pf) = BYTE_ORDER_MARK then [] else verifyOwnershipProof K P cs pf rpId)"
  by (simp add: verify_by_digest web3_digest)

text \<open>Sorting looks at the sign of the comparison only.\<close>

lemma js_sort_sign:
  assumes "\<And>x y. cmp x y > 0 \<longleftrightarrow> cmp' x y > 0"
  shows "js_sort cmp xs = js_sort cmp' xs"
proof -
  have "js_insert cmp x ys = js_insert cmp' x ys" for x ys
    by (induction ys) (simp_all add: assms)
  then show ?thesis by (simp add: js_sort_def cong: foldr_cong)
qed

lemma web3_pick: "pickOwnWallet_web3 = pickOwnWallet"
proof -
  have "compare_web3 a b > 0 \<longleftrightarrow> compareFacts a b > 0" for a b
    by (auto simp: compare_web3_def compareFacts_def js_or_def compareStrings_def Let_def)
  then show ?thesis
    using js_sort_sign [of compare_web3 compareFacts]
    by (simp add: fun_eq_iff pickOwnWallet_web3_def pickOwnWallet_def)
qed

section \<open>Token accounts and reads\<close>

lemma web3_token_accounts [simp]:
  "isPlainSystemAccount = isSystemAccount"
  "tokenAccountGrants K a p d v tr = grants_of_account K p v tr (a, d)"
  "watched_grants K v tr ((a, m), info) = grants_of_watched K v tr (a, m, info)"
  by (auto simp: fun_eq_iff isPlainSystemAccount_def isSystemAccount_def tokenAccountGrants_def grants_of_account_def
      watched_grants_def grants_of_watched_def TOKEN_ACCOUNT_LEN_def TOKEN_DELEGATE_def TOKEN_CLOSE_AUTHORITY_def
      TOKEN_OWNER_def Let_def split: option.split)

lemma web3_grants:
  assumes "length atas = length mints"
  shows "vaultTokenGrants_web3 K v spl t22 (map (\<lambda>i. (zip atas mints ! i, info i)) [0..<length mints]) tr
    = vaultTokenGrants K v spl t22 (map (\<lambda>i. (atas ! i, mints ! i, info i)) [0..<length mints]) tr"
proof -
  have "map (\<lambda>i. watched_grants K v tr (zip atas mints ! i, info i)) [0..<length mints]
      = map (\<lambda>i. grants_of_watched K v tr (atas ! i, mints ! i, info i)) [0..<length mints]"
    using assms by simp
  then show ?thesis
    by (simp add: vaultTokenGrants_web3_def vaultTokenGrants_def grantsOn_def comp_def case_prod_unfold del: map_eq_conv)
qed

lemma web3_destination_problem:
  "tokenAccountProblem K a info v p = destinationTokenAccountProblem K a info p v"
  by (simp add: tokenAccountProblem_def destinationTokenAccountProblem_def grantsOn_def TOKEN_ACCOUNT_LEN_def
      TOKEN_OWNER_def)

lemma add_mints_agrees:
  "agrees (add_mints K extra mints) (rbind (rmap (check_address K) extra) (\<lambda>ms.
     Inr (fold (\<lambda>m mints. if m \<in> set mints then mints else mints @ [m]) ms mints)))"
proof (induction extra arbitrary: mints)
  case (Cons m extra)
  show ?case
  proof (cases "k_isAddress K m")
    case True
    then show ?thesis
      using Cons [of "if m \<in> set mints then mints else mints @ [m]"]
      by (simp add: pubkey_text_def check_address_def list_ex_iff rbind_assoc)
  qed (simp add: pubkey_text_def check_address_def)
qed simp

lemma watchedMints_agrees [agreeing]: "agrees (watchedMints_web3 K extra) (watchedMints K extra)"
  by (simp add: watchedMints_web3_def watchedMints_def add_mints_agrees)

lemma web3_watched:
  "watchedTokenAccounts K v mints = ok_map (\<lambda>atas. zip atas mints) (watchedAtasOf K v mints)"
proof -
  have "rmap (\<lambda>m. rbind (f m) (\<lambda>a. Inr (a, m))) ms = ok_map (\<lambda>as. zip as ms) (rmap f ms)" for f and ms :: "address list"
    by (induction ms) (simp_all add: ok_map_def rbind_assoc)
  then show ?thesis by (simp add: watchedTokenAccounts_def watchedAtasOf_def)
qed

lemma maxSlot_max [simp]: "maxSlot [a, b] = max a b"
  by (simp add: maxSlot_def max_def)

lemma web3_pages:
  "read_pages rpc m ps s infos = rbind (rmap (\<lambda>page. atOrAfterSlot (nr_multiple rpc page m)) ps) (\<lambda>parts.
     Inr (fold (\<lambda>p slot. maxSlot [slot, fst p]) parts s, infos @ concat (map snd parts)))"
  by (induction ps arbitrary: s infos) (simp_all add: rbind_assoc case_prod_unfold)

lemma web3_reads [simp]:
  "readAccounts_web3 = readAccounts" "scanWalletAccounts_web3 = scanWalletAccounts"
  "readVaultTokenAccounts_web3 = readVaultTokenAccounts"
  by (simp_all add: fun_eq_iff readAccounts_web3_def readAccounts_def web3_pages scanWalletAccounts_web3_def
      scanWalletAccounts_def readVaultTokenAccounts_web3_def readVaultTokenAccounts_def)

lemma web3_spending_state:
  "readSpendingState_web3 K rpc programId wallet vault (od_authority d, od_session d, od_deferred d) accounts
    = readSpendingState K rpc programId wallet vault d accounts"
  by (simp add: readSpendingState_web3_def readSpendingState_def AUTHORITY_WALLET_def SESSION_WALLET_def
      DEFERRED_WALLET_def)

section \<open>Facts and candidates\<close>

lemma layout_discs [simp]:
  "vl_wallet (LAYOUTS v) = od_wallet (OWNERSHIP_DISCS v)" "vl_authority (LAYOUTS v) = od_authority (OWNERSHIP_DISCS v)"
  "vl_session (LAYOUTS v) = od_session (OWNERSHIP_DISCS v)" "vl_deferred (LAYOUTS v) = od_deferred (OWNERSHIP_DISCS v)"
  by (simp_all add: LAYOUTS_def OWNERSHIP_DISCS_def)

lemma web3_live [simp]: "isLiveWallet_web3 c info = isLiveWallet (c_programId c) (c_version c) info"
  by (simp add: isLiveWallet_web3_def isLiveWallet_def split: option.split)

lemma web3_push:
  "push_authority K own tr h = (\<lambda>r. if fst r = own then [] else [other_authority_of K tr h r])"
  "push_session K tr slot = live_session_of K tr slot"
  "push_deferred K slot = pending_deferred_of K slot"
  by (auto simp: fun_eq_iff push_authority_def other_authority_of_def push_session_def live_session_of_def
      push_deferred_def pending_deferred_of_def sessionExpiry_def deferredExpiry_def layout_offsets
      UNREADABLE_EXPIRY_def U64_MAX_def Let_def split: prod.split option.split)

lemma concat_pushes: "concat (map (\<lambda>r. if P r then [] else [f r]) rs) = map f (filter (\<lambda>r. \<not> P r) rs)"
  by (induction rs) simp_all

lemma find_row: "map_option snd (find (\<lambda>r. fst r = a) rs) = map_of rs a"
  by (induction rs) auto

lemma web3_describe:
  "describeCandidate_web3 K rpc c slot tr mints = describeCandidate K rpc c slot tr mints"
proof -
  have "length atas = length mints" if "watchedAtasOf K (c_vaultPda c) mints = Inr atas" for atas
    using that by (simp add: watchedAtasOf_def rmap_Inr_iff list_all2_lengthD)
  then show ?thesis
    unfolding describeCandidate_web3_def describeCandidate_def web3_watched ok_map_def rbind_assoc Let_def
    by (intro rbind_cong refl)
      (simp add: web3_spending_state web3_push concat_pushes find_row layout_offsets own_intact_def
        web3_grants cong: if_cong option.case_cong)
qed

lemma describe_agrees:
  "agrees (describePasskeyWallets K rpc cs trustedKeys watchMints) (describeWalletCandidates K rpc cs trustedKeys watchMints)"
proof -
  have some: "map the (filter (\<lambda>f. \<exists>y. f = Some y) fs) = List.map_filter id fs" for fs :: "wallet_facts option list"
    by (induction fs) (auto simp: map_filter_simps)
  show ?thesis
    unfolding describePasskeyWallets_def describeWalletCandidates_def
    by (intro agrees_rbind agrees_rmap pubkey_text_agrees watchedMints_agrees)
      (simp add: web3_describe some)
qed

text \<open>Filtering before a loop, or skipping inside it.\<close>

lemma rmap_filter:
  "rmap f (filter P xs) = rbind (rmap (\<lambda>x. if P x then rbind (f x) (\<lambda>y. Inr [y]) else Inr []) xs) (\<lambda>ps. Inr (concat ps))"
  by (induction xs) (simp_all add: rbind_assoc)

lemma web3_candidate:
  assumes "version = 1 \<or> version = 2"
  shows "candidate_of K version target = (\<lambda>r.
     if length (snd r) \<ge> 145 \<and> u8_at (snd r) 2 = Some (word_of_int ROLE_OWNER)
     then rbind (candidate_web3 K version target r) (\<lambda>c. Inr [c]) else Inr [])"
  using assms
  by (auto simp: fun_eq_iff candidate_of_def candidate_web3_def addressFromBytes_def LAYOUTS_def web3_pdas layout_offsets
      rbind_assoc case_prod_unfold Let_def)

lemma web3_scan:
  assumes "version = 1 \<or> version = 2"
  shows "scan_target K rpc h rpId (version, target) = scan_candidates K rpc h rpId version target"
  unfolding scan_target_def prod.case
  by (simp add: scan_candidates_def layout_offsets rmap_filter web3_candidate [OF assms] case_prod_unfold)

lemma scan_agrees:
  "agrees (scanPasskeyWalletCandidates K rpc p h rpId includeV1) (findPasskeyWalletCandidates K rpc p h rpId includeV1)"
  by (simp add: scanPasskeyWalletCandidates_def findPasskeyWalletCandidates_def assertByteLength_def web3_scan
      rbind_assoc)

text \<open>
  C19. Both SDKs find the same wallet. For any node, keys and mints the SDK for web3.js v1 finds the
  same candidates as the kit SDK and describes them by the same facts, or both throw. For any proof
  whose client data does not start with a byte order mark the whole search gives the same answer:
  the same wallet is adopted, the same ones are shown in the same order, as many are unproven. A
  proof whose client data starts with one verifies for nobody here; the kit SDK skips the mark.
\<close>

theorem web3_discovery_agrees:
  "agrees (scanPasskeyWalletCandidates K rpc p h rpId includeV1) (findPasskeyWalletCandidates K rpc p h rpId includeV1)
   \<and> agrees (describePasskeyWallets K rpc cs trustedKeys watchMints) (describeWalletCandidates K rpc cs trustedKeys watchMints)
   \<and> (if take 3 (op_clientDataJson pf) = BYTE_ORDER_MARK then verifyOwnershipProof_web3 K P cs pf rpId = []
      else agrees (findOwnPasskeyWallet_web3 K P rpc p h rpId pf trustedKeys watchMints includeV1)
        (findOwnPasskeyWallet K P rpc p h rpId pf trustedKeys watchMints includeV1))"
proof (intro conjI scan_agrees describe_agrees)
  show "if take 3 (op_clientDataJson pf) = BYTE_ORDER_MARK then verifyOwnershipProof_web3 K P cs pf rpId = []
      else agrees (findOwnPasskeyWallet_web3 K P rpc p h rpId pf trustedKeys watchMints includeV1)
        (findOwnPasskeyWallet K P rpc p h rpId pf trustedKeys watchMints includeV1)"
    unfolding findOwnPasskeyWallet_web3_def findOwnPasskeyWallet_def
    by (auto simp: web3_verify web3_pick Let_def intro!: agrees_rbind scan_agrees describe_agrees)
qed

end
