(* ===== verification/LegacyBuilders.thy ===== *)
theory LegacyBuilders
  imports LegacyWire
begin

text \<open>
  \<open>sdk-legacy/src/utils/instructions.ts\<close>: the instruction builders of the SDK for web3.js v1, one
  definition each, with the fields of the parameter object as arguments in the source's order. A
  request for any of the seventeen instructions is one value of \<open>build_request\<close>; the theorem at the
  end says what each SDK makes of it.
\<close>

section \<open>Key lists\<close>

abbreviation wmeta :: "address \<Rightarrow> bool \<Rightarrow> bool \<Rightarrow> web3_meta" where
  "wmeta a s w \<equiv> \<lparr>wm_pubkey = a, wm_isSigner = s, wm_isWritable = w\<rparr>"

definition appendProtocolFeeAccounts_web3 ::
  "web3_meta list \<Rightarrow> address \<Rightarrow> address \<Rightarrow> address \<Rightarrow> web3_meta list" where
  "appendProtocolFeeAccounts_web3 keys protocolConfig feeRecord treasuryShard =
     keys @ [wmeta protocolConfig False False, wmeta feeRecord False True, wmeta treasuryShard False True,
             wmeta SYSTEM_PROGRAM_ADDRESS False False]"

definition append_fee_web3 :: "protocol_fee_accounts option \<Rightarrow> web3_meta list \<Rightarrow> web3_meta list" where
  "append_fee_web3 protocolFee keys = (case protocolFee of None \<Rightarrow> keys
     | Some f \<Rightarrow> appendProtocolFeeAccounts_web3 keys (protocolConfigPda f) (feeRecordPda f) (treasuryShardPda f))"

definition append_authorizer_web3 ::
  "address option \<Rightarrow> bytes option \<Rightarrow> web3_meta list \<Rightarrow> web3_meta list" where
  "append_authorizer_web3 authorizerSigner authPayload keys =
     (case authorizerSigner of
        Some s \<Rightarrow> keys @ [wmeta s True False]
      | None \<Rightarrow> (case authPayload of
          Some _ \<Rightarrow> keys @ [wmeta SYSVAR_INSTRUCTIONS_ADDRESS False False]
        | None \<Rightarrow> keys))"

definition make_web3 :: "address \<Rightarrow> web3_meta list \<Rightarrow> bytes list \<Rightarrow> web3_ix result" where
  "make_web3 programId keys parts =
     rbind (concatBytes parts) (\<lambda>data. Inr \<lparr>wi_programId = programId, wi_keys = keys, wi_data = data\<rparr>)"

section \<open>Wallet, authority and session instructions\<close>

definition createCreateWalletIx_web3 ::
  "address \<Rightarrow> address \<Rightarrow> address \<Rightarrow> address \<Rightarrow> bytes \<Rightarrow> int \<Rightarrow> int \<Rightarrow> bytes \<Rightarrow> bytes option \<Rightarrow> string option
   \<Rightarrow> protocol_fee_accounts option \<Rightarrow> address \<Rightarrow> web3_ix result" where
  "createCreateWalletIx_web3 payer walletPda vaultPda authorityPda userSeed authType authBump
      credentialOrPubkey secp256r1Pubkey rpId protocolFee programId =
     make_web3 programId
       (append_fee_web3 protocolFee
         [wmeta payer True True, wmeta walletPda False True, wmeta vaultPda False True,
          wmeta authorityPda False True, wmeta SYSTEM_PROGRAM_ADDRESS False False,
          wmeta SYSVAR_RENT_ADDRESS False False])
       ([u8_of [DISC_CREATE_WALLET], userSeed, u8_of [authType, authBump], u8_zeros 6,
         credentialOrPubkey] @ key_parts authType secp256r1Pubkey rpId)"

definition createAddAuthorityIx_web3 ::
  "address \<Rightarrow> address \<Rightarrow> address \<Rightarrow> address \<Rightarrow> int \<Rightarrow> int \<Rightarrow> bytes \<Rightarrow> bytes option \<Rightarrow> string option
   \<Rightarrow> bytes option \<Rightarrow> bytes option \<Rightarrow> address option \<Rightarrow> address \<Rightarrow> web3_ix result" where
  "createAddAuthorityIx_web3 payer walletPda adminAuthorityPda newAuthorityPda newType newRole
      credentialOrPubkey secp256r1Pubkey rpId policy authPayload authorizerSigner programId =
     (let policy = (case policy of Some p \<Rightarrow> p | None \<Rightarrow> [])
      in rbind (buf_uint 2 (u8_zeros 2) (int (length policy)) 0) (\<lambda>policyLen.
         make_web3 programId
           (append_authorizer_web3 authorizerSigner authPayload
             [wmeta payer True False, wmeta walletPda False True, wmeta adminAuthorityPda False True,
              wmeta newAuthorityPda False True, wmeta SYSTEM_PROGRAM_ADDRESS False False,
              wmeta SYSVAR_RENT_ADDRESS False False])
           ([u8_of [DISC_ADD_AUTHORITY], u8_of [newType, newRole], u8_zeros 6, credentialOrPubkey]
            @ key_parts newType secp256r1Pubkey rpId @ [policyLen, policy] @ opt_part authPayload)))"

definition createRemoveAuthorityIx_web3 ::
  "address \<Rightarrow> address \<Rightarrow> address \<Rightarrow> address \<Rightarrow> address \<Rightarrow> bytes option \<Rightarrow> address option \<Rightarrow> address
   \<Rightarrow> web3_ix result" where
  "createRemoveAuthorityIx_web3 payer walletPda adminAuthorityPda targetAuthorityPda refundDestination
      authPayload authorizerSigner programId =
     make_web3 programId
       (append_authorizer_web3 authorizerSigner authPayload
         [wmeta payer True False, wmeta walletPda False True, wmeta adminAuthorityPda False True,
          wmeta targetAuthorityPda False True, wmeta refundDestination False True])
       (u8_of [DISC_REMOVE_AUTHORITY] # opt_part authPayload)"

definition createTransferOwnershipIx_web3 ::
  "address \<Rightarrow> address \<Rightarrow> address \<Rightarrow> address \<Rightarrow> address \<Rightarrow> int \<Rightarrow> bytes \<Rightarrow> bytes option \<Rightarrow> string option
   \<Rightarrow> bytes option \<Rightarrow> address option \<Rightarrow> address \<Rightarrow> web3_ix result" where
  "createTransferOwnershipIx_web3 payer walletPda currentOwnerAuthorityPda newOwnerAuthorityPda
      refundDestination newType credentialOrPubkey secp256r1Pubkey rpId authPayload authorizerSigner
      programId =
     make_web3 programId
       (append_authorizer_web3 authorizerSigner authPayload
         [wmeta payer True False, wmeta walletPda False False, wmeta currentOwnerAuthorityPda False True,
          wmeta newOwnerAuthorityPda False True, wmeta refundDestination False True,
          wmeta SYSTEM_PROGRAM_ADDRESS False False, wmeta SYSVAR_RENT_ADDRESS False False])
       ([u8_of [DISC_TRANSFER_OWNERSHIP], u8_of [newType], credentialOrPubkey]
        @ key_parts newType secp256r1Pubkey rpId @ opt_part authPayload)"

definition createExecuteIx_web3 ::
  "address \<Rightarrow> address \<Rightarrow> address \<Rightarrow> address \<Rightarrow> bytes \<Rightarrow> bytes option \<Rightarrow> address option
   \<Rightarrow> web3_meta list option \<Rightarrow> protocol_fee_accounts option \<Rightarrow> address \<Rightarrow> web3_ix result" where
  "createExecuteIx_web3 payer walletPda authorityPda vaultPda packedInstructions authPayload
      authorizerSigner remainingAccounts protocolFee programId =
     make_web3 programId
       (append_fee_web3 protocolFee
         (append_authorizer_web3 authorizerSigner authPayload
           [wmeta payer True True, wmeta walletPda False False, wmeta authorityPda False True,
            wmeta vaultPda False True]
          @ (case remainingAccounts of Some as \<Rightarrow> as | None \<Rightarrow> [])))
       ([u8_of [DISC_EXECUTE], packedInstructions] @ opt_part authPayload)"

definition createCreateSessionIx_web3 ::
  "address \<Rightarrow> address \<Rightarrow> address \<Rightarrow> address \<Rightarrow> bytes \<Rightarrow> int \<Rightarrow> bytes option \<Rightarrow> bytes option
   \<Rightarrow> address option \<Rightarrow> address \<Rightarrow> web3_ix result" where
  "createCreateSessionIx_web3 payer walletPda adminAuthorityPda sessionPda sessionKey expiresAt
      actionsBuffer authPayload authorizerSigner programId =
     rbind (buf_int64 (u8_zeros 8) expiresAt 0) (\<lambda>expiresAtBuf.
     let actionsBuffer = (case actionsBuffer of Some a \<Rightarrow> a | None \<Rightarrow> []);
         actionsLenBuf = u8_put (u8_put (u8_zeros 2) 0 (int (length actionsBuffer) AND 0xff)) 1
           (drop_bit 8 (int (length actionsBuffer)) AND 0xff)
     in make_web3 programId
          (append_authorizer_web3 authorizerSigner authPayload
            [wmeta payer True False, wmeta walletPda False False, wmeta adminAuthorityPda False True,
             wmeta sessionPda False True, wmeta SYSTEM_PROGRAM_ADDRESS False False,
             wmeta SYSVAR_RENT_ADDRESS False False])
          ([u8_of [DISC_CREATE_SESSION], sessionKey, expiresAtBuf, actionsLenBuf]
           @ (if length actionsBuffer > 0 then [actionsBuffer] else []) @ opt_part authPayload))"

definition createAuthorizeIx_web3 ::
  "address \<Rightarrow> address \<Rightarrow> address \<Rightarrow> address \<Rightarrow> bytes \<Rightarrow> bytes \<Rightarrow> int \<Rightarrow> bytes \<Rightarrow> address \<Rightarrow> web3_ix result" where
  "createAuthorizeIx_web3 payer walletPda authorityPda deferredExecPda instructionsHash accountsHash
      expiryOffset authPayload programId =
     rbind (buf_uint 2 (u8_zeros 2) expiryOffset 0) (\<lambda>expiryBuf.
     make_web3 programId
       [wmeta payer True True, wmeta walletPda False False, wmeta authorityPda False True,
        wmeta deferredExecPda False True, wmeta SYSTEM_PROGRAM_ADDRESS False False,
        wmeta SYSVAR_RENT_ADDRESS False False, wmeta SYSVAR_INSTRUCTIONS_ADDRESS False False]
       [u8_of [DISC_AUTHORIZE], instructionsHash, accountsHash, expiryBuf, authPayload])"

definition createExecuteDeferredIx_web3 ::
  "address \<Rightarrow> address \<Rightarrow> address \<Rightarrow> address \<Rightarrow> address \<Rightarrow> bytes \<Rightarrow> web3_meta list option
   \<Rightarrow> protocol_fee_accounts option \<Rightarrow> address \<Rightarrow> web3_ix result" where
  "createExecuteDeferredIx_web3 payer walletPda vaultPda deferredExecPda refundDestination
      packedInstructions remainingAccounts protocolFee programId =
     make_web3 programId
       (append_fee_web3 protocolFee
         ([wmeta payer True True, wmeta walletPda False False, wmeta vaultPda False True,
           wmeta deferredExecPda False True, wmeta refundDestination False True]
          @ (case remainingAccounts of Some as \<Rightarrow> as | None \<Rightarrow> [])))
       [u8_of [DISC_EXECUTE_DEFERRED], packedInstructions]"

definition createReclaimDeferredIx_web3 :: "address \<Rightarrow> address \<Rightarrow> address \<Rightarrow> address \<Rightarrow> web3_ix" where
  "createReclaimDeferredIx_web3 payer deferredExecPda refundDestination programId =
     \<lparr>wi_programId = programId,
      wi_keys = [wmeta payer True False, wmeta deferredExecPda False True, wmeta refundDestination False True],
      wi_data = u8_of [DISC_RECLAIM_DEFERRED]\<rparr>"

definition createRevokeSessionIx_web3 ::
  "address \<Rightarrow> address \<Rightarrow> address \<Rightarrow> address \<Rightarrow> address \<Rightarrow> bytes option \<Rightarrow> address option \<Rightarrow> address
   \<Rightarrow> web3_ix result" where
  "createRevokeSessionIx_web3 payer walletPda adminAuthorityPda sessionPda refundDestination authPayload
      authorizerSigner programId =
     make_web3 programId
       (append_authorizer_web3 authorizerSigner authPayload
         [wmeta payer True False, wmeta walletPda False False, wmeta adminAuthorityPda False True,
          wmeta sessionPda False True, wmeta refundDestination False True])
       (u8_of [DISC_REVOKE_SESSION] # opt_part authPayload)"

section \<open>Protocol administration\<close>

definition createInitializeProtocolIx_web3 ::
  "kit \<Rightarrow> address \<Rightarrow> address \<Rightarrow> address \<Rightarrow> address \<Rightarrow> int \<Rightarrow> int \<Rightarrow> int \<Rightarrow> address \<Rightarrow> web3_ix result" where
  "createInitializeProtocolIx_web3 K payer configPda admin treasury creationFee executionFee numShards programId =
     rbind (buf_uint 8 (u8_zeros 8) creationFee 0) (\<lambda>creationFeeBuf.
     rbind (buf_uint 8 (u8_zeros 8) executionFee 0) (\<lambda>executionFeeBuf.
     make_web3 programId
       [wmeta payer True True, wmeta configPda False True, wmeta SYSTEM_PROGRAM_ADDRESS False False,
        wmeta SYSVAR_RENT_ADDRESS False False]
       [u8_of [DISC_INITIALIZE_PROTOCOL], k_encAddr K admin, k_encAddr K treasury, creationFeeBuf,
        executionFeeBuf, u8_of [numShards]]))"

definition createUpdateProtocolIx_web3 ::
  "kit \<Rightarrow> address \<Rightarrow> address \<Rightarrow> int \<Rightarrow> int \<Rightarrow> bool \<Rightarrow> address \<Rightarrow> address \<Rightarrow> web3_ix result" where
  "createUpdateProtocolIx_web3 K admin configPda creationFee executionFee enabled newTreasury programId =
     rbind (buf_uint 8 (u8_zeros 8) creationFee 0) (\<lambda>creationFeeBuf.
     rbind (buf_uint 8 (u8_zeros 8) executionFee 0) (\<lambda>executionFeeBuf.
     make_web3 programId
       [wmeta admin True False, wmeta configPda False True]
       [u8_of [DISC_UPDATE_PROTOCOL], creationFeeBuf, executionFeeBuf, u8_of [if enabled then 1 else 0],
        u8_zeros 7, k_encAddr K newTreasury]))"

definition createRegisterPayerIx_web3 :: "address \<Rightarrow> address \<Rightarrow> address \<Rightarrow> web3_ix" where
  "createRegisterPayerIx_web3 payer feeRecord programId =
     \<lparr>wi_programId = programId,
      wi_keys = [wmeta payer True True, wmeta feeRecord False True, wmeta SYSTEM_PROGRAM_ADDRESS False False,
        wmeta SYSVAR_RENT_ADDRESS False False],
      wi_data = u8_of [DISC_REGISTER_PAYER]\<rparr>"

definition createWithdrawTreasuryIx_web3 ::
  "address \<Rightarrow> address \<Rightarrow> address \<Rightarrow> address \<Rightarrow> address \<Rightarrow> web3_ix" where
  "createWithdrawTreasuryIx_web3 admin configPda shardPda treasury programId =
     \<lparr>wi_programId = programId,
      wi_keys = [wmeta admin True False, wmeta configPda False False, wmeta shardPda False True,
        wmeta treasury False True, wmeta SYSVAR_RENT_ADDRESS False False],
      wi_data = u8_of [DISC_WITHDRAW_TREASURY]\<rparr>"

definition createInitializeTreasuryShardIx_web3 ::
  "address \<Rightarrow> address \<Rightarrow> address \<Rightarrow> address \<Rightarrow> int \<Rightarrow> address \<Rightarrow> web3_ix" where
  "createInitializeTreasuryShardIx_web3 payer configPda admin shardPda shardId programId =
     \<lparr>wi_programId = programId,
      wi_keys = [wmeta payer True True, wmeta configPda False False, wmeta admin True False,
        wmeta shardPda False True, wmeta SYSTEM_PROGRAM_ADDRESS False False,
        wmeta SYSVAR_RENT_ADDRESS False False],
      wi_data = u8_of [DISC_INITIALIZE_TREASURY_SHARD, shardId]\<rparr>"

section \<open>Migration and cleanup\<close>

definition createMigrateWalletIx_web3 ::
  "address \<Rightarrow> address \<Rightarrow> address \<Rightarrow> address \<Rightarrow> address \<Rightarrow> address \<Rightarrow> address \<Rightarrow> bool
   \<Rightarrow> migrate_token_pair list option \<Rightarrow> bytes option \<Rightarrow> address \<Rightarrow> web3_ix result" where
  "createMigrateWalletIx_web3 payer v1Wallet v1Authority v1Vault destination refundDestination authSigner
      authSignerIsSigner tokens authPayload programId =
     (let tokens = (case tokens of Some ts \<Rightarrow> ts | None \<Rightarrow> [])
      in make_web3 programId
        ([wmeta payer True True, wmeta v1Wallet False True, wmeta v1Authority False True,
          wmeta v1Vault False True, wmeta destination False True, wmeta refundDestination False True,
          wmeta SYSTEM_PROGRAM_ADDRESS False False, wmeta SYSVAR_INSTRUCTIONS_ADDRESS False False,
          wmeta authSigner authSignerIsSigner False]
         @ concat (map (\<lambda>t. [wmeta (sourceAta t) False True, wmeta (destAta t) False True,
                            wmeta (mt_mint t) False False, wmeta (mt_tokenProgram t) False False]) tokens))
        [u8_of [DISC_MIGRATE_WALLET, int (length tokens)],
         (case authPayload of Some p \<Rightarrow> p | None \<Rightarrow> [])])"

definition createCloseExpiredSessionIx_web3 :: "address \<Rightarrow> address \<Rightarrow> address \<Rightarrow> address \<Rightarrow> web3_ix" where
  "createCloseExpiredSessionIx_web3 caller sessionPda refundDestination programId =
     \<lparr>wi_programId = programId,
      wi_keys = [wmeta caller True True, wmeta sessionPda False True, wmeta refundDestination False True],
      wi_data = u8_of [DISC_CLOSE_EXPIRED_SESSION]\<rparr>"

section \<open>Each builder and its counterpart\<close>

text \<open>
  Everything a builder makes of metas and parts reads the same in both packages; what is left of
  a comparison is the integer writers.
\<close>

lemma meta_web3_meta [simp]: "meta_web3 (meta a r) = wmeta a (role_signer r) (role_writable r)"
  by (simp add: meta_web3_def meta_def)

lemma role_flag_simps [simp]:
  "\<not> role_signer READONLY" "\<not> role_signer WRITABLE" "role_signer READONLY_SIGNER" "role_signer WRITABLE_SIGNER"
  "\<not> role_writable READONLY" "role_writable WRITABLE" "\<not> role_writable READONLY_SIGNER"
  "role_writable WRITABLE_SIGNER"
  by (simp_all add: role_signer_def role_writable_def)

lemma append_fee_web3_map: "append_fee_web3 fee (map meta_web3 ms) = map meta_web3 (append_fee fee ms)"
  by (simp add: append_fee_web3_def append_fee_def appendProtocolFeeAccounts_web3_def
      appendProtocolFeeAccounts_def split: option.split)

lemma append_authorizer_web3_map:
  "append_authorizer_web3 s p (map meta_web3 ms) = map meta_web3 (append_authorizer s p ms)"
  by (simp add: append_authorizer_web3_def append_authorizer_def split: option.split)

lemma make_web3_map:
  "keys = map meta_web3 ms \<Longrightarrow> make_web3 programId keys parts = ok_map ix_web3 (make_ix programId ms parts)"
  by (simp add: make_web3_def ix_web3_def accounts_of_def data_of_def)

lemma web3_createWallet:
  "createCreateWalletIx_web3 payer wallet vault authority seed ty bump cred pk rpId fee programId =
    ok_map ix_web3 (createCreateWalletIx payer wallet vault authority seed ty bump cred pk rpId fee programId)"
  unfolding createCreateWalletIx_web3_def createCreateWalletIx_def
  by (intro make_web3_map) (simp flip: append_fee_web3_map)

lemma web3_addAuthority:
  "createAddAuthorityIx_web3 payer wallet admin new ty role cred pk rpId policy payload signer programId =
    (if length (opt_bytes policy) < 65536
     then ok_map ix_web3 (createAddAuthorityIx payer wallet admin new ty role cred pk rpId policy payload signer programId)
     else Inl (RangeError ''ERR_OUT_OF_RANGE''))"
  unfolding createAddAuthorityIx_web3_def createAddAuthorityIx_def opt_bytes_def [symmetric]
  by (auto simp: Let_def buf_uint_zeros dv_set_zeros simp flip: append_authorizer_web3_map
      intro!: make_web3_map simp del: make_ix_eq ok_map_simps)

lemma web3_removeAuthority:
  "createRemoveAuthorityIx_web3 payer wallet admin target refund payload signer programId =
    ok_map ix_web3 (createRemoveAuthorityIx payer wallet admin target refund payload signer programId)"
  unfolding createRemoveAuthorityIx_web3_def createRemoveAuthorityIx_def
  by (intro make_web3_map) (simp flip: append_authorizer_web3_map)

lemma web3_transferOwnership:
  "createTransferOwnershipIx_web3 payer wallet current new refund ty cred pk rpId payload signer programId =
    ok_map ix_web3 (createTransferOwnershipIx payer wallet current new refund ty cred pk rpId payload signer programId)"
  unfolding createTransferOwnershipIx_web3_def createTransferOwnershipIx_def
  by (intro make_web3_map) (simp flip: append_authorizer_web3_map)

lemma web3_execute:
  "createExecuteIx_web3 payer wallet authority vault packed payload signer (map_option (map meta_web3) rest) fee programId =
    ok_map ix_web3 (createExecuteIx payer wallet authority vault packed payload signer rest fee programId)"
  unfolding createExecuteIx_web3_def createExecuteIx_def
  by (intro make_web3_map) (cases rest; simp flip: append_fee_web3_map append_authorizer_web3_map)

lemma web3_createSession:
  "createCreateSessionIx_web3 payer wallet admin session key expiry actions payload signer programId =
    (if - (2 ^ 63) \<le> expiry \<and> expiry < 2 ^ 63
     then ok_map ix_web3 (createCreateSessionIx payer wallet admin session key expiry actions payload signer programId)
     else Inl (RangeError ''ERR_OUT_OF_RANGE''))"
proof -
  have u: "u8_put (u8_put (u8_zeros 2) 0 (v AND 0xff)) 1 (drop_bit 8 v AND 0xff) = u16LE v" for v
    by (simp only: u16LE_def)
  show ?thesis
    unfolding createCreateSessionIx_web3_def createCreateSessionIx_def opt_bytes_def [symmetric] u buf_int64_zeros
    by (auto simp: Let_def simp flip: append_authorizer_web3_map intro!: make_web3_map
        simp del: make_ix_eq ok_map_simps)
qed

lemma web3_authorize:
  "createAuthorizeIx_web3 payer wallet authority deferred ih ah expiry payload programId =
    (if 0 \<le> expiry \<and> expiry < 65536
     then ok_map ix_web3 (createAuthorizeIx payer wallet authority deferred ih ah expiry payload programId)
     else Inl (RangeError ''ERR_OUT_OF_RANGE''))"
  unfolding createAuthorizeIx_web3_def createAuthorizeIx_def
  by (auto simp: buf_uint_zeros intro!: make_web3_map simp del: make_ix_eq ok_map_simps)

lemma web3_executeDeferred:
  "createExecuteDeferredIx_web3 payer wallet vault deferred refund packed (map_option (map meta_web3) rest) fee programId =
    ok_map ix_web3 (createExecuteDeferredIx payer wallet vault deferred refund packed rest fee programId)"
  unfolding createExecuteDeferredIx_web3_def createExecuteDeferredIx_def
  by (intro make_web3_map) (cases rest; simp flip: append_fee_web3_map)

lemma web3_revokeSession:
  "createRevokeSessionIx_web3 payer wallet admin session refund payload signer programId =
    ok_map ix_web3 (createRevokeSessionIx payer wallet admin session refund payload signer programId)"
  unfolding createRevokeSessionIx_web3_def createRevokeSessionIx_def
  by (intro make_web3_map) (simp flip: append_authorizer_web3_map)

lemma web3_migrate:
  "createMigrateWalletIx_web3 payer wallet authority vault dest refund signer isSigner tokens payload programId =
    ok_map ix_web3 (createMigrateWalletIx payer wallet authority vault dest refund signer isSigner tokens payload programId)"
  unfolding createMigrateWalletIx_web3_def createMigrateWalletIx_def Let_def
  by (intro make_web3_map) (simp add: map_concat comp_def)

lemma web3_initializeProtocol:
  "createInitializeProtocolIx_web3 K payer config admin treasury cf ef shards programId =
    (if (0 \<le> cf \<and> cf < 2 ^ 64) \<and> (0 \<le> ef \<and> ef < 2 ^ 64)
     then ok_map ix_web3 (createInitializeProtocolIx K payer config admin treasury cf ef shards programId)
     else Inl (RangeError ''ERR_OUT_OF_RANGE''))"
  unfolding createInitializeProtocolIx_web3_def createInitializeProtocolIx_def
  by (auto simp: buf_uint_zeros intro!: make_web3_map simp del: make_ix_eq ok_map_simps)

lemma web3_updateProtocol:
  "createUpdateProtocolIx_web3 K admin config cf ef enabled treasury programId =
    (if (0 \<le> cf \<and> cf < 2 ^ 64) \<and> (0 \<le> ef \<and> ef < 2 ^ 64)
     then ok_map ix_web3 (createUpdateProtocolIx K admin config cf ef enabled treasury programId)
     else Inl (RangeError ''ERR_OUT_OF_RANGE''))"
  unfolding createUpdateProtocolIx_web3_def createUpdateProtocolIx_def
  by (auto simp: buf_uint_zeros intro!: make_web3_map simp del: make_ix_eq ok_map_simps)

lemma web3_plain_builders:
  "createReclaimDeferredIx_web3 a b c programId = ix_web3 (createReclaimDeferredIx a b c programId)"
  "createRegisterPayerIx_web3 a b programId = ix_web3 (createRegisterPayerIx a b programId)"
  "createWithdrawTreasuryIx_web3 a b c d programId = ix_web3 (createWithdrawTreasuryIx a b c d programId)"
  "createInitializeTreasuryShardIx_web3 a b c d n programId = ix_web3 (createInitializeTreasuryShardIx a b c d n programId)"
  "createCloseExpiredSessionIx_web3 a b c programId = ix_web3 (createCloseExpiredSessionIx a b c programId)"
  by (simp_all add: ix_web3_def accounts_of_def data_of_def createReclaimDeferredIx_web3_def
      createReclaimDeferredIx_def createRegisterPayerIx_web3_def createRegisterPayerIx_def
      createWithdrawTreasuryIx_web3_def createWithdrawTreasuryIx_def createInitializeTreasuryShardIx_web3_def
      createInitializeTreasuryShardIx_def createCloseExpiredSessionIx_web3_def createCloseExpiredSessionIx_def)

section \<open>The two SDKs on one request\<close>

text \<open>The arguments of a builder, but for the program id, as one value per instruction.\<close>

datatype build_request =
    CreateWalletR address address address address bytes int int bytes "bytes option" "string option"
      "protocol_fee_accounts option"
  | AddAuthorityR address address address address int int bytes "bytes option" "string option" "bytes option"
      "bytes option" "address option"
  | RemoveAuthorityR address address address address address "bytes option" "address option"
  | TransferOwnershipR address address address address address int bytes "bytes option" "string option"
      "bytes option" "address option"
  | ExecuteR address address address address bytes "bytes option" "address option" "account_meta list option"
      "protocol_fee_accounts option"
  | CreateSessionR address address address address bytes int "bytes option" "bytes option" "address option"
  | AuthorizeR address address address address bytes bytes int bytes
  | ExecuteDeferredR address address address address address bytes "account_meta list option"
      "protocol_fee_accounts option"
  | ReclaimDeferredR address address address
  | RevokeSessionR address address address address address "bytes option" "address option"
  | InitializeProtocolR address address address address int int int
  | UpdateProtocolR address address int int bool address
  | RegisterPayerR address address
  | WithdrawTreasuryR address address address address
  | InitializeTreasuryShardR address address address address int
  | MigrateWalletR address address address address address address address bool
      "migrate_token_pair list option" "bytes option"
  | CloseExpiredSessionR address address address

fun build_kit :: "kit \<Rightarrow> build_request \<Rightarrow> address \<Rightarrow> instruction result" where
  "build_kit K (CreateWalletR a b c d s ty bump cred pk rp fee) p =
     createCreateWalletIx a b c d s ty bump cred pk rp fee p"
| "build_kit K (AddAuthorityR a b c d ty role cred pk rp policy payload signer) p =
     createAddAuthorityIx a b c d ty role cred pk rp policy payload signer p"
| "build_kit K (RemoveAuthorityR a b c d e payload signer) p = createRemoveAuthorityIx a b c d e payload signer p"
| "build_kit K (TransferOwnershipR a b c d e ty cred pk rp payload signer) p =
     createTransferOwnershipIx a b c d e ty cred pk rp payload signer p"
| "build_kit K (ExecuteR a b c d packed payload signer rest fee) p =
     createExecuteIx a b c d packed payload signer rest fee p"
| "build_kit K (CreateSessionR a b c d key expiry actions payload signer) p =
     createCreateSessionIx a b c d key expiry actions payload signer p"
| "build_kit K (AuthorizeR a b c d ih ah expiry payload) p = createAuthorizeIx a b c d ih ah expiry payload p"
| "build_kit K (ExecuteDeferredR a b c d e packed rest fee) p = createExecuteDeferredIx a b c d e packed rest fee p"
| "build_kit K (ReclaimDeferredR a b c) p = Inr (createReclaimDeferredIx a b c p)"
| "build_kit K (RevokeSessionR a b c d e payload signer) p = createRevokeSessionIx a b c d e payload signer p"
| "build_kit K (InitializeProtocolR a b c d cf ef n) p = createInitializeProtocolIx K a b c d cf ef n p"
| "build_kit K (UpdateProtocolR a b cf ef on t) p = createUpdateProtocolIx K a b cf ef on t p"
| "build_kit K (RegisterPayerR a b) p = Inr (createRegisterPayerIx a b p)"
| "build_kit K (WithdrawTreasuryR a b c d) p = Inr (createWithdrawTreasuryIx a b c d p)"
| "build_kit K (InitializeTreasuryShardR a b c d n) p = Inr (createInitializeTreasuryShardIx a b c d n p)"
| "build_kit K (MigrateWalletR a b c d e f g s tokens payload) p =
     createMigrateWalletIx a b c d e f g s tokens payload p"
| "build_kit K (CloseExpiredSessionR a b c) p = Inr (createCloseExpiredSessionIx a b c p)"

fun build_web3 :: "kit \<Rightarrow> build_request \<Rightarrow> address \<Rightarrow> web3_ix result" where
  "build_web3 K (CreateWalletR a b c d s ty bump cred pk rp fee) p =
     createCreateWalletIx_web3 a b c d s ty bump cred pk rp fee p"
| "build_web3 K (AddAuthorityR a b c d ty role cred pk rp policy payload signer) p =
     createAddAuthorityIx_web3 a b c d ty role cred pk rp policy payload signer p"
| "build_web3 K (RemoveAuthorityR a b c d e payload signer) p = createRemoveAuthorityIx_web3 a b c d e payload signer p"
| "build_web3 K (TransferOwnershipR a b c d e ty cred pk rp payload signer) p =
     createTransferOwnershipIx_web3 a b c d e ty cred pk rp payload signer p"
| "build_web3 K (ExecuteR a b c d packed payload signer rest fee) p =
     createExecuteIx_web3 a b c d packed payload signer (map_option (map meta_web3) rest) fee p"
| "build_web3 K (CreateSessionR a b c d key expiry actions payload signer) p =
     createCreateSessionIx_web3 a b c d key expiry actions payload signer p"
| "build_web3 K (AuthorizeR a b c d ih ah expiry payload) p = createAuthorizeIx_web3 a b c d ih ah expiry payload p"
| "build_web3 K (ExecuteDeferredR a b c d e packed rest fee) p =
     createExecuteDeferredIx_web3 a b c d e packed (map_option (map meta_web3) rest) fee p"
| "build_web3 K (ReclaimDeferredR a b c) p = Inr (createReclaimDeferredIx_web3 a b c p)"
| "build_web3 K (RevokeSessionR a b c d e payload signer) p = createRevokeSessionIx_web3 a b c d e payload signer p"
| "build_web3 K (InitializeProtocolR a b c d cf ef n) p = createInitializeProtocolIx_web3 K a b c d cf ef n p"
| "build_web3 K (UpdateProtocolR a b cf ef on t) p = createUpdateProtocolIx_web3 K a b cf ef on t p"
| "build_web3 K (RegisterPayerR a b) p = Inr (createRegisterPayerIx_web3 a b p)"
| "build_web3 K (WithdrawTreasuryR a b c d) p = Inr (createWithdrawTreasuryIx_web3 a b c d p)"
| "build_web3 K (InitializeTreasuryShardR a b c d n) p = Inr (createInitializeTreasuryShardIx_web3 a b c d n p)"
| "build_web3 K (MigrateWalletR a b c d e f g s tokens payload) p =
     createMigrateWalletIx_web3 a b c d e f g s tokens payload p"
| "build_web3 K (CloseExpiredSessionR a b c) p = Inr (createCloseExpiredSessionIx_web3 a b c p)"

text \<open>
  The numbers a request writes into fields wider than a byte fit them; and the request with those
  numbers taken modulo the width of their field, the session expiry as a signed one.
\<close>

fun request_fits :: "build_request \<Rightarrow> bool" where
  "request_fits (AddAuthorityR a b c d ty role cred pk rp policy payload signer) =
     (length (opt_bytes policy) < 65536)"
| "request_fits (CreateSessionR a b c d key expiry actions payload signer) =
     (- (2 ^ 63) \<le> expiry \<and> expiry < 2 ^ 63)"
| "request_fits (AuthorizeR a b c d ih ah expiry payload) = (0 \<le> expiry \<and> expiry < 65536)"
| "request_fits (InitializeProtocolR a b c d cf ef n) =
     ((0 \<le> cf \<and> cf < 2 ^ 64) \<and> (0 \<le> ef \<and> ef < 2 ^ 64))"
| "request_fits (UpdateProtocolR a b cf ef on t) = ((0 \<le> cf \<and> cf < 2 ^ 64) \<and> (0 \<le> ef \<and> ef < 2 ^ 64))"
| "request_fits _ = True"

fun wrap_request :: "build_request \<Rightarrow> build_request" where
  "wrap_request (CreateSessionR a b c d key expiry actions payload signer) =
     CreateSessionR a b c d key ((expiry + 2 ^ 63) mod 2 ^ 64 - 2 ^ 63) actions payload signer"
| "wrap_request (AuthorizeR a b c d ih ah expiry payload) = AuthorizeR a b c d ih ah (expiry mod 65536) payload"
| "wrap_request (InitializeProtocolR a b c d cf ef n) = InitializeProtocolR a b c d (cf mod 2 ^ 64) (ef mod 2 ^ 64) n"
| "wrap_request (UpdateProtocolR a b cf ef on t) = UpdateProtocolR a b (cf mod 2 ^ 64) (ef mod 2 ^ 64) on t"
| "wrap_request r = r"

lemma build_kit_wrap: "build_kit K (wrap_request r) p = build_kit K r p"
proof -
  have s: "le_bytes 8 ((v + 2 ^ 63) mod 2 ^ 64 - 2 ^ 63) = le_bytes 8 v" for v
    by (simp add: le_bytes_eq_iff mod_diff_left_eq)
  have u: "le_bytes 8 (v mod 2 ^ 64) = le_bytes 8 v" "le_bytes 2 (v mod 65536) = le_bytes 2 v" for v
    using le_bytes_mod [of 8 v] le_bytes_mod [of 2 v] by simp_all
  show ?thesis
    by (cases r) (simp_all only: wrap_request.simps build_kit.simps createCreateSessionIx_def createAuthorizeIx_def
        createInitializeProtocolIx_def createUpdateProtocolIx_def u16LE_eq u64LE_eq s u)
qed

lemma build_kit_total: "is_ok (build_kit K r p)"
  by (cases r) (simp_all add: builder_defs createInitializeProtocolIx_def createUpdateProtocolIx_def dv_set_zeros Let_def)


end
