(* ===== verification/LegacyActions.thy ===== *)
theory LegacyActions
  imports Actions
begin

text \<open>
  \<open>sdk-legacy/src/utils/actions.ts\<close>: the policy serializer of the SDK for web3.js v1, which writes
  amounts with \<open>setBigUint64\<close> where the kit SDK uses a codec that rejects what does not fit, and
  \<open>parseActions\<close>, which reads a policy back off an account with its live counters. \<open>new PublicKey\<close>
  of 32 bytes is the address decoder of the \<open>kit\<close> parameter.
\<close>

section \<open>Serializing\<close>

fun serializeActionData_web3 :: "kit \<Rightarrow> session_action \<Rightarrow> bytes result" where
  "serializeActionData_web3 K (SolLimit remaining _) = writeU64LE (u8_zeros 8) 0 remaining"
| "serializeActionData_web3 K (SolRecurringLimit limit window _) =
     rbind (writeU64LE (u8_zeros 32) 0 limit) (\<lambda>buf.
     rbind (writeU64LE buf 8 0) (\<lambda>buf.
     rbind (writeU64LE buf 16 window) (\<lambda>buf. writeU64LE buf 24 0)))"
| "serializeActionData_web3 K (SolMaxPerTx mx _) = writeU64LE (u8_zeros 8) 0 mx"
| "serializeActionData_web3 K (TokenLimit mint remaining _) =
     rbind (u8_set (u8_zeros 40) (k_encAddr K mint) 0) (\<lambda>buf. writeU64LE buf 32 remaining)"
| "serializeActionData_web3 K (TokenRecurringLimit mint limit window _) =
     rbind (u8_set (u8_zeros 64) (k_encAddr K mint) 0) (\<lambda>buf.
     rbind (writeU64LE buf 32 limit) (\<lambda>buf.
     rbind (writeU64LE buf 40 0) (\<lambda>buf.
     rbind (writeU64LE buf 48 window) (\<lambda>buf. writeU64LE buf 56 0))))"
| "serializeActionData_web3 K (TokenMaxPerTx mint mx _) =
     rbind (u8_set (u8_zeros 40) (k_encAddr K mint) 0) (\<lambda>buf. writeU64LE buf 32 mx)"
| "serializeActionData_web3 K (ProgramWhitelist programId _) = Inr (k_encAddr K programId)"
| "serializeActionData_web3 K (ProgramBlacklist programId _) = Inr (k_encAddr K programId)"

text \<open>The body of the loop of \<open>serializeActions\<close>: the two parts an action adds.\<close>

definition action_part_web3 :: "kit \<Rightarrow> session_action \<Rightarrow> bytes list result" where
  "action_part_web3 K action =
     rbind (serializeActionData_web3 K action) (\<lambda>data.
     let header = u8_put (u8_zeros ACTION_HEADER_SIZE) 0 (SessionActionType action);
         header = writeU16LE header 1 (int (length data))
     in rbind (writeU64LE header 3 (case act_expiresAt action of Some e \<Rightarrow> e | None \<Rightarrow> 0)) (\<lambda>header.
        Inr [header, data]))"

definition serializeActions_web3 :: "kit \<Rightarrow> session_action list \<Rightarrow> bytes result" where
  "serializeActions_web3 K actions =
     (if length actions = 0 then Inr []
      else rbind (rmap (action_part_web3 K) actions) (\<lambda>parts. concatBytes (concat parts)))"

section \<open>Reading a policy back\<close>

text \<open>\<open>BigInt(undefined)\<close> throws; an absent byte counts as 0 in the bitwise \<open>readU16LE\<close>.\<close>

fun read_down :: "bytes \<Rightarrow> nat list \<Rightarrow> int \<Rightarrow> int result" where
  "read_down buf [] v = Inr v"
| "read_down buf (i # is) v =
     (case u8_at buf i of
        None \<Rightarrow> Inl (TypeError ''Cannot convert undefined to a BigInt'')
      | Some b \<Rightarrow> read_down buf is (push_bit 8 v OR uint b))"

definition readU64LE :: "bytes \<Rightarrow> nat \<Rightarrow> int result" where
  "readU64LE buf offset = read_down buf (map (\<lambda>i. offset + i) [7, 6, 5, 4, 3, 2, 1, 0]) 0"

definition readU16LE :: "bytes \<Rightarrow> nat \<Rightarrow> int" where
  "readU16LE buf offset =
     (let at = (\<lambda>i. case u8_at buf i of Some b \<Rightarrow> uint b | None \<Rightarrow> 0)
      in at offset OR push_bit 8 (at (offset + 1)))"

record parsed_action =
  pa_type :: int
  pa_expiresAt :: int
  pa_limit :: "int option"
  pa_spent :: "int option"
  pa_window :: "int option"
  pa_lastReset :: "int option"
  pa_mint :: "address option"
  pa_programId :: "address option"
  pa_raw :: bytes

definition bare_action :: "int \<Rightarrow> int \<Rightarrow> bytes \<Rightarrow> parsed_action" where
  "bare_action type expiresAt data =
     \<lparr>pa_type = type, pa_expiresAt = expiresAt, pa_limit = None, pa_spent = None, pa_window = None,
      pa_lastReset = None, pa_mint = None, pa_programId = None, pa_raw = data\<rparr>"

text \<open>The \<open>switch\<close> over the type: what it sets on the parsed action.\<close>

definition recurring_fields_of :: "bytes \<Rightarrow> nat \<Rightarrow> parsed_action \<Rightarrow> parsed_action result" where
  "recurring_fields_of data at parsed =
     rbind (readU64LE data at) (\<lambda>limit.
     rbind (readU64LE data (at + 8)) (\<lambda>spent.
     rbind (readU64LE data (at + 16)) (\<lambda>window.
     rbind (readU64LE data (at + 24)) (\<lambda>lastReset.
     Inr (parsed\<lparr>pa_limit := Some limit, pa_spent := Some spent, pa_window := Some window,
                 pa_lastReset := Some lastReset\<rparr>)))))"

definition parse_action_data :: "kit \<Rightarrow> int \<Rightarrow> bytes \<Rightarrow> parsed_action \<Rightarrow> parsed_action result" where
  "parse_action_data K type data parsed =
     (let mint = pubkey_of K (u8_slice data 0 32) in
      if type = 1 \<or> type = 3 then
        rbind (readU64LE data 0) (\<lambda>limit. Inr (parsed\<lparr>pa_limit := Some limit\<rparr>))
      else if type = 2 then recurring_fields_of data 0 parsed
      else if type = 4 \<or> type = 6 then
        rbind (readU64LE data 32) (\<lambda>limit. Inr (parsed\<lparr>pa_mint := Some mint, pa_limit := Some limit\<rparr>))
      else if type = 5 then recurring_fields_of data 32 (parsed\<lparr>pa_mint := Some mint\<rparr>)
      else if type = 10 \<or> type = 11 then Inr (parsed\<lparr>pa_programId := Some mint\<rparr>)
      else Inr parsed)"

function parseActions_from :: "kit \<Rightarrow> bytes \<Rightarrow> nat \<Rightarrow> parsed_action list \<Rightarrow> parsed_action list result" where
  "parseActions_from K buffer offset out =
     (if offset < length buffer then
        if offset + ACTION_HEADER_SIZE > length buffer
        then Inl (Error ''Malformed action buffer: truncated header'')
        else let type = uint (buffer ! offset);
                 dataLen = nat (readU16LE buffer (offset + 1))
          in rbind (readU64LE buffer (offset + 3)) (\<lambda>expiresAt.
             let dataStart = offset + ACTION_HEADER_SIZE
             in if dataStart + dataLen > length buffer
                then Inl (Error ''Malformed action buffer: data past the end'')
                else let data = u8_slice buffer dataStart (dataStart + dataLen)
                  in rbind (parse_action_data K type data (bare_action type expiresAt data)) (\<lambda>parsed.
                     parseActions_from K buffer (dataStart + dataLen) (out @ [parsed])))
      else Inr out)"
  by pat_completeness auto
termination
  by (relation "measure (\<lambda>(K, buffer, offset, _). length buffer - offset)") (auto simp: ACTION_HEADER_SIZE_def)

declare parseActions_from.simps [simp del]

definition parseActions :: "kit \<Rightarrow> bytes \<Rightarrow> parsed_action list result" where
  "parseActions K buffer = parseActions_from K buffer 0 []"

section \<open>Both serializers write the same bytes\<close>

definition keys_ok :: "kit \<Rightarrow> session_action \<Rightarrow> bool" where
  "keys_ok K a = (case key_of a of Some k \<Rightarrow> k_isAddress K k | None \<Rightarrow> True)"

lemma u64_step:
  assumes "length pre = off" "n = 8 + k"
  shows "writeU64LE (pre @ u8_zeros n) off v = Inr ((pre @ le_bytes 8 v) @ u8_zeros k)"
  using assms by (simp add: writeU64LE_def dv_set_fill)

lemma u64_first: "n = 8 + k \<Longrightarrow> writeU64LE (u8_zeros n) 0 v = Inr (le_bytes 8 v @ u8_zeros k)"
  by (simp add: writeU64LE_def dv_set_zeros)

lemma recurring_steps:
  assumes "length pre = off" "n = 32"
  shows "rbind (writeU64LE (pre @ u8_zeros n) off l) (\<lambda>buf. rbind (writeU64LE buf (off + 8) 0) (\<lambda>buf.
      rbind (writeU64LE buf (off + 16) w) (\<lambda>buf. writeU64LE buf (off + 24) 0)))
    = Inr (pre @ le_bytes 8 l @ le_bytes 8 0 @ le_bytes 8 w @ le_bytes 8 0)"
  by (subst u64_step [where k = 24], use assms in simp, use assms in simp, simp only: rbind_Inr,
      subst u64_step [where k = 16], use assms in simp, simp, simp only: rbind_Inr,
      subst u64_step [where k = 8], use assms in simp, simp, simp only: rbind_Inr,
      subst u64_step [where k = 0], use assms in simp, simp) simp

lemma serializeActionData_web3_eq:
  assumes "address_codec K" "keys_ok K a"
  shows "serializeActionData_web3 K a = Inr (action_bytes K a)"
proof -
  have key: "u8_set (u8_zeros n) (k_encAddr K k) 0 = Inr (k_encAddr K k @ u8_zeros (n - 32))"
    "length (k_encAddr K k) = 32" if "key_of a = Some k" "32 \<le> n" for k n
    using that assms by (simp_all add: keys_ok_def encAddr_length u8_set_zeros)
  show ?thesis
  proof (cases a)
    case (SolRecurringLimit l w e)
    then show ?thesis using recurring_steps [of "[]" 0 32 l w] by (simp add: action_bytes_def)
  next
    case (TokenRecurringLimit m l w e)
    then show ?thesis
      using key [of m 64] recurring_steps [of "k_encAddr K m" 32 32 l w] by (simp add: action_bytes_def)
  next
    case (TokenLimit m r e)
    then show ?thesis
      using key [of m 40] u64_step [of "k_encAddr K m" 32 8 0 r] by (simp add: action_bytes_def)
  next
    case (TokenMaxPerTx m r e)
    then show ?thesis
      using key [of m 40] u64_step [of "k_encAddr K m" 32 8 0 r] by (simp add: action_bytes_def)
  qed (simp_all add: action_bytes_def u64_first [where k = 0])
qed

lemma action_header:
  "writeU64LE (writeU16LE (u8_put (u8_zeros 11) 0 t) 1 n) 3 e = Inr (word_of_int t # le_bytes 2 n @ le_bytes 8 e)"
proof -
  have h1: "u8_put (u8_zeros 11) 0 t = [word_of_int t] @ u8_zeros 10"
    using u8_put_fill [of "[]" 0 11 t] by simp
  have h2: "writeU16LE ([word_of_int t] @ u8_zeros 10) 1 n = (word_of_int t # le_bytes 2 n) @ u8_zeros 8"
    by (subst writeU16LE_fill) simp_all
  show ?thesis unfolding h1 h2 by (subst u64_step [where k = 0]) simp_all
qed

lemma concat_pairs: "concat (concat (map (\<lambda>a. [f a, g a]) as)) = concat (map (\<lambda>a. f a @ g a) as)"
  by (induction as) simp_all

lemma serializeActions_web3_eq:
  assumes "address_codec K" "list_all (keys_ok K) as"
  shows "serializeActions_web3 K as = Inr (concat (map (wire_action K) as))"
proof -
  have "rmap (action_part_web3 K) as = Inr (map (\<lambda>a. [word_of_int (SessionActionType a)
        # le_bytes 2 (int (length (action_bytes K a))) @ le_bytes 8 (expiry_of a), action_bytes K a]) as)"
  proof (rule rmap_total)
    fix a assume "a \<in> set as"
    then have "serializeActionData_web3 K a = Inr (action_bytes K a)"
      using assms by (intro serializeActionData_web3_eq) (simp_all add: list_all_iff)
    then show "action_part_web3 K a = Inr [word_of_int (SessionActionType a)
        # le_bytes 2 (int (length (action_bytes K a))) @ le_bytes 8 (expiry_of a), action_bytes K a]"
      unfolding action_part_web3_def ACTION_HEADER_SIZE_def Let_def action_header by (simp add: expiry_of_def)
  qed
  then show ?thesis by (simp add: serializeActions_web3_def concat_pairs wire_action_def [abs_def])
qed

lemma encode_u64s_error:
  "uint_codecs K \<Longrightarrow> \<not> list_all u64_ok vs \<Longrightarrow> encode_u64s K vs = Inl (LibError ''CODECS__NUMBER_OUT_OF_RANGE'')"
proof -
  assume K: "uint_codecs K" and bad: "\<not> list_all u64_ok vs"
  have "rmap (k_encU64 K) vs = Inl (LibError ''CODECS__NUMBER_OUT_OF_RANGE'')"
    using bad by (induction vs) (use K in \<open>auto simp: uint_codecs_def u64_ok_def\<close>)
  then show ?thesis by (simp add: encode_u64s_def)
qed

lemma action_part_error:
  assumes "uint_codecs K" "\<not> amounts_ok a"
  shows "action_part K a = Inl (LibError ''CODECS__NUMBER_OUT_OF_RANGE'')"
proof -
  have "encodeActionData K a = Inl (LibError ''CODECS__NUMBER_OUT_OF_RANGE'')"
    using assms encode_u64s_error [OF assms(1)] by (cases a) (simp_all add: amounts_ok_def)
  then show ?thesis by (simp add: action_part_def)
qed

lemma serializeActions_error:
  assumes "uint_codecs K" "\<not> list_all amounts_ok as"
  shows "serializeActions K as = Inl (LibError ''CODECS__NUMBER_OUT_OF_RANGE'')"
proof -
  have "rmap (action_part K) as = Inl (LibError ''CODECS__NUMBER_OUT_OF_RANGE'')"
    using assms(2)
  proof (induction as)
    case (Cons a as)
    then show ?case
      using action_part_is_ok [OF assms(1), of a] action_part_error [OF assms(1), of a]
      by (cases "amounts_ok a") (auto simp: is_ok_iff)
  qed simp
  moreover have "as \<noteq> []" using assms(2) by auto
  ultimately show ?thesis by (simp add: serializeActions_def)
qed

section \<open>Reading back\<close>

lemma or_shift: "push_bit 8 v OR uint (b :: byte) = uint b + 256 * v"
proof -
  have "take_bit 8 (uint b) = uint b" by (simp add: take_bit_eq_mod uint_byte_bounds)
  then have "push_bit 8 v OR uint b = concat_bit 8 (uint b) v" by (simp add: concat_bit_def or.commute)
  also have "\<dots> = uint b + 256 * v"
    by (simp add: concat_bit_eq push_bit_eq_mult take_bit_eq_mod uint_byte_bounds)
  finally show ?thesis .
qed

lemma readU64LE_eq:
  assumes "offset + 8 \<le> length buf"
  shows "readU64LE buf offset = Inr (le_val (u8_slice buf offset (offset + 8)))"
proof -
  have s: "u8_slice buf offset (offset + 8) = map (\<lambda>i. buf ! (offset + i)) [0, 1, 2, 3, 4, 5, 6, 7]"
    using assms by (intro nth_equalityI) (auto simp: u8_slice_def less_Suc_eq numeral_eq_Suc nth_Cons')
  have at: "u8_at buf (offset + i) = Some (buf ! (offset + i))" if "i < 8" for i
    using assms that by (simp add: u8_at_def)
  show ?thesis
    unfolding s readU64LE_def
    by (simp add: at at [of 0, simplified] at [of 1, simplified] at [of 2, simplified] or_shift)
qed

lemma readU16LE_eq:
  assumes "offset + 2 \<le> length buf"
  shows "readU16LE buf offset = le_val (u8_slice buf offset (offset + 2))"
proof -
  have s: "u8_slice buf offset (offset + 2) = [buf ! offset, buf ! (offset + 1)]"
    using assms by (intro nth_equalityI) (auto simp: u8_slice_def less_Suc_eq numeral_eq_Suc)
  show ?thesis
    unfolding s using assms or_shift [of "uint (buf ! (offset + 1))" "buf ! offset"]
    by (simp add: readU16LE_def u8_at_def or.commute)
qed

text \<open>What an action of each type reads as: its own fields and no others.\<close>

fun type_code :: "action_type \<Rightarrow> int" where
  "type_code ASolLimit = 1"
| "type_code ASolRecurringLimit = 2"
| "type_code ASolMaxPerTx = 3"
| "type_code ATokenLimit = 4"
| "type_code ATokenRecurringLimit = 5"
| "type_code ATokenMaxPerTx = 6"
| "type_code AProgramWhitelist = 10"
| "type_code AProgramBlacklist = 11"

definition parsed_as :: "kit \<Rightarrow> action_type \<Rightarrow> int \<Rightarrow> bytes \<Rightarrow> parsed_action" where
  "parsed_as K ty e data =
     (let u = (\<lambda>i. Some (le_val (u8_slice data i (i + 8)))); key = Some (k_decAddr K (take 32 data));
          p = bare_action (type_code ty) e data
      in case ty of
           ASolLimit \<Rightarrow> p\<lparr>pa_limit := u 0\<rparr>
         | ASolMaxPerTx \<Rightarrow> p\<lparr>pa_limit := u 0\<rparr>
         | ASolRecurringLimit \<Rightarrow>
             p\<lparr>pa_limit := u 0, pa_spent := u 8, pa_window := u 16, pa_lastReset := u 24\<rparr>
         | ATokenLimit \<Rightarrow> p\<lparr>pa_mint := key, pa_limit := u 32\<rparr>
         | ATokenMaxPerTx \<Rightarrow> p\<lparr>pa_mint := key, pa_limit := u 32\<rparr>
         | ATokenRecurringLimit \<Rightarrow>
             p\<lparr>pa_mint := key, pa_limit := u 32, pa_spent := u 40, pa_window := u 48, pa_lastReset := u 56\<rparr>
         | AProgramWhitelist \<Rightarrow> p\<lparr>pa_programId := key\<rparr>
         | AProgramBlacklist \<Rightarrow> p\<lparr>pa_programId := key\<rparr>)"

lemma type_code_of: "ActionType_from_u8 b = Inr ty \<Longrightarrow> uint b = type_code ty"
  by (auto simp: ActionType_from_u8_def split: if_splits)

lemma parse_action_data_eq:
  assumes "length data = expected_data_size ty"
  shows "parse_action_data K (type_code ty) data (bare_action (type_code ty) e data) = Inr (parsed_as K ty e data)"
  using assms
  by (cases ty) (simp_all add: parse_action_data_def parsed_as_def recurring_fields_of_def readU64LE_eq bare_action_def
      u8_slice_def Let_def)

lemma parseActions_step:
  assumes ty: "ActionType_from_u8 (buf ! c) = Inr ty" and n: "nat (le_val (u8_slice buf (c + 1) (c + 3))) = n"
    and len: "n = expected_data_size ty" "c + ACTION_HEADER_SIZE + n \<le> length buf"
  shows "parseActions_from K buf c out = parseActions_from K buf (c + ACTION_HEADER_SIZE + n)
    (out @ [parsed_as K ty (le_val (u8_slice buf (c + 3) (c + 11)))
      (u8_slice buf (c + ACTION_HEADER_SIZE) (c + ACTION_HEADER_SIZE + n))])"
proof -
  let ?d = "u8_slice buf (c + ACTION_HEADER_SIZE) (c + ACTION_HEADER_SIZE + n)"
  have l: "c + 11 + n \<le> length buf" using len(2) by (simp add: ACTION_HEADER_SIZE_def)
  have "c + 1 + 2 = c + 3" "c + 1 + 2 \<le> length buf" using l by simp_all
  then have r: "nat (readU16LE buf (c + 1)) = n" using readU16LE_eq [of "c + 1" buf] n by (simp only:)
  have e: "readU64LE buf (c + 3) = Inr (le_val (u8_slice buf (c + 3) (c + 11)))"
    using readU64LE_eq [of "c + 3" buf] l by (simp add: add.assoc)
  have d: "parse_action_data K (uint (buf ! c)) ?d (bare_action (uint (buf ! c)) ex ?d) = Inr (parsed_as K ty ex ?d)" for ex
    using l len(1) unfolding type_code_of [OF ty]
    by (intro parse_action_data_eq) (simp add: ACTION_HEADER_SIZE_def)
  have g: "c < length buf" "\<not> c + ACTION_HEADER_SIZE > length buf" "\<not> c + ACTION_HEADER_SIZE + n > length buf"
    using l by (simp_all add: ACTION_HEADER_SIZE_def)
  show ?thesis
    by (subst parseActions_from.simps) (simp only: g if_True if_False Let_def r e rbind_Inr d)
qed

text \<open>The program's walk over a buffer and this one stay in step.\<close>

definition parsed_view :: "kit \<Rightarrow> bytes \<Rightarrow> action_view \<Rightarrow> parsed_action" where
  "parsed_view K buf v = parsed_as K (av_type v) (av_expires v) (view_data buf v)"

lemma parseActions_follows:
  assumes "parse_actions_from buf c acts = Inr vs" "list_all (\<lambda>v. av_len v = expected_data_size (av_type v)) vs"
  shows "\<exists>more. vs = acts @ more \<and> parseActions_from K buf c out = Inr (out @ map (parsed_view K buf) more)"
  using assms
proof (induction buf c acts arbitrary: out rule: parse_actions_from.induct)
  case (1 buf c acts)
  show ?case
  proof (cases "c < length buf")
    case False
    then show ?thesis using 1(2) by (simp add: parse_actions_from.simps parseActions_from.simps)
  next
    case True
    let ?n = "nat (le_val (u8_slice buf (c + 1) (c + 3)))"
    have h: "\<not> c + ACTION_HEADER_SIZE > length buf"
      using 1(2) True by (subst (asm) parse_actions_from.simps) (auto split: if_splits)
    obtain ty where ty: "ActionType_from_u8 (buf ! c) = Inr ty"
      using 1(2) True h by (subst (asm) parse_actions_from.simps) (auto simp: rbind_eq_Inr)
    define v where "v = \<lparr>av_type = ty, av_expires = le_val (u8_slice buf (c + 3) (c + 11)),
      av_offset = c + ACTION_HEADER_SIZE, av_len = ?n\<rparr>"
    have l: "\<not> c + ACTION_HEADER_SIZE + ?n > length buf" and m: "\<not> length (acts @ [v]) > MAX_ACTIONS"
      and nxt: "parse_actions_from buf (c + ACTION_HEADER_SIZE + ?n) (acts @ [v]) = Inr vs"
      using 1(2) True h ty unfolding v_def
      by (subst (asm) parse_actions_from.simps, simp add: Let_def split: if_splits)+
    obtain more where vs: "vs = (acts @ [v]) @ more" and rec:
      "\<And>out. parseActions_from K buf (c + ACTION_HEADER_SIZE + ?n) out = Inr (out @ map (parsed_view K buf) more)"
      using 1(1) [OF True h ty refl refl refl l refl, folded v_def, OF m nxt 1(3)] by auto
    have n: "?n = expected_data_size ty" using 1(3) unfolding vs by (simp add: v_def)
    have "parsed_view K buf v = parsed_as K ty (le_val (u8_slice buf (c + 3) (c + 11)))
        (u8_slice buf (c + ACTION_HEADER_SIZE) (c + ACTION_HEADER_SIZE + ?n))"
      by (simp add: parsed_view_def v_def view_data_def)
    then have "parseActions_from K buf c out = Inr (out @ map (parsed_view K buf) (v # more))"
      using parseActions_step [OF ty refl n, of K out] l by (simp only: rec not_less) simp
    then show ?thesis using vs by (intro exI [of _ "v # more"]) simp
  qed
qed

text \<open>The fields an action of a type carries, each within u64, and no others.\<close>

definition u64_field :: "bool \<Rightarrow> int option \<Rightarrow> bool" where
  "u64_field present f = (case f of Some v \<Rightarrow> present \<and> u64_ok v | None \<Rightarrow> \<not> present)"

definition well_typed :: "action_type \<Rightarrow> parsed_action \<Rightarrow> bool" where
  "well_typed ty p \<longleftrightarrow>
     pa_type p = type_code ty
     \<and> u64_field (ty \<notin> {AProgramWhitelist, AProgramBlacklist}) (pa_limit p)
     \<and> u64_field (ty \<in> {ASolRecurringLimit, ATokenRecurringLimit}) (pa_spent p)
     \<and> u64_field (ty \<in> {ASolRecurringLimit, ATokenRecurringLimit}) (pa_window p)
     \<and> u64_field (ty \<in> {ASolRecurringLimit, ATokenRecurringLimit}) (pa_lastReset p)
     \<and> (pa_mint p \<noteq> None) = (ty \<in> set token_kinds)
     \<and> (pa_programId p \<noteq> None) = (ty \<in> {AProgramWhitelist, AProgramBlacklist})"

lemma u64_slice_ok: "u64_ok (le_val (u8_slice bs i (i + 8)))"
proof -
  have "le_val (u8_slice bs i (i + 8)) < 256 ^ length (u8_slice bs i (i + 8))" by (rule le_val_less)
  also have "\<dots> \<le> 256 ^ 8" by (rule power_increasing) simp_all
  finally show ?thesis by (simp add: u64_ok_def)
qed

lemma parsed_as_well_typed: "well_typed ty (parsed_as K ty e data)"
  using u64_slice_ok [of data]
  by (cases ty) (simp_all add: well_typed_def parsed_as_def bare_action_def u64_field_def token_kinds_def Let_def
      u64_slice_ok [of data 0, simplified] u64_slice_ok [of data 8, simplified] u64_slice_ok [of data 16, simplified]
      u64_slice_ok [of data 24, simplified] u64_slice_ok [of data 32, simplified] u64_slice_ok [of data 40, simplified]
      u64_slice_ok [of data 48, simplified] u64_slice_ok [of data 56, simplified])

text \<open>
  C18. A policy on an account is read as the program reads it. Whenever the program parses a
  buffer into actions whose data have the sizes of their types, which its validation demands and
  updating the counters keeps, \<open>parseActions\<close> returns one entry per action in the same order: the
  program's type, expiry and data bytes, exactly the fields an action of that type has, the amounts
  and counters as unsigned 64-bit numbers read where the program keeps them.
\<close>

theorem parseActions_reads_policies:
  assumes "parse_actions buf = Inr vs" "list_all (\<lambda>v. av_len v = expected_data_size (av_type v)) vs"
  shows "\<exists>ps. parseActions K buf = Inr ps
    \<and> list_all2 (\<lambda>v p. p = parsed_as K (av_type v) (av_expires v) (view_data buf v) \<and> well_typed (av_type v) p) vs ps"
proof -
  have "parseActions K buf = Inr (map (parsed_view K buf) vs)"
    using parseActions_follows [OF assms(1) [unfolded parse_actions_def] assms(2), of K "[]"]
    by (simp add: parseActions_def)
  then show ?thesis
    by (simp add: list_all2_map2 list_all2_same parsed_view_def parsed_as_well_typed)
qed

text \<open>A live recurring cap: 5 of 100 spent in a window of 1000 slots that began at slot 7.\<close>

definition live_cap :: bytes where
  "live_cap = [2] @ le_bytes 2 32 @ le_bytes 8 0 @ le_bytes 8 100 @ le_bytes 8 5 @ le_bytes 8 1000 @ le_bytes 8 7"

lemma live_cap_parses: "parse_actions live_cap =
    Inr [\<lparr>av_type = ASolRecurringLimit, av_expires = 0, av_offset = 11, av_len = 32\<rparr>]"
  by code_simp

theorem parseActions_reads_policies_witness:
  "\<exists>p. parseActions sample_kit live_cap = Inr [p] \<and> pa_spent p = Some 5 \<and> well_typed ASolRecurringLimit p"
proof -
  have "le_val (u8_slice (view_data live_cap
      \<lparr>av_type = ASolRecurringLimit, av_expires = 0, av_offset = 11, av_len = 32\<rparr>) 8 16) = 5" by code_simp
  then show ?thesis
    using parseActions_reads_policies [OF live_cap_parses, of sample_kit]
    by (auto simp: list_all2_Cons1 parsed_as_def bare_action_def Let_def)
qed

section \<open>What was granted is what is read\<close>

text \<open>An action as an operator reads it right after it was granted.\<close>

fun granted :: "session_action \<Rightarrow> parsed_action" where
  "granted (SolLimit r e) =
     (bare_action 1 0 [])\<lparr>pa_limit := Some (r mod 2 ^ 64)\<rparr>"
| "granted (SolRecurringLimit l w e) =
     (bare_action 2 0 [])\<lparr>pa_limit := Some (l mod 2 ^ 64), pa_spent := Some 0, pa_window := Some (w mod 2 ^ 64),
       pa_lastReset := Some 0\<rparr>"
| "granted (SolMaxPerTx m e) =
     (bare_action 3 0 [])\<lparr>pa_limit := Some (m mod 2 ^ 64)\<rparr>"
| "granted (TokenLimit mint r e) =
     (bare_action 4 0 [])\<lparr>pa_mint := Some mint, pa_limit := Some (r mod 2 ^ 64)\<rparr>"
| "granted (TokenRecurringLimit mint l w e) =
     (bare_action 5 0 [])\<lparr>pa_mint := Some mint, pa_limit := Some (l mod 2 ^ 64), pa_spent := Some 0,
       pa_window := Some (w mod 2 ^ 64), pa_lastReset := Some 0\<rparr>"
| "granted (TokenMaxPerTx mint m e) =
     (bare_action 6 0 [])\<lparr>pa_mint := Some mint, pa_limit := Some (m mod 2 ^ 64)\<rparr>"
| "granted (ProgramWhitelist p e) = (bare_action 10 0 [])\<lparr>pa_programId := Some p\<rparr>"
| "granted (ProgramBlacklist p e) = (bare_action 11 0 [])\<lparr>pa_programId := Some p\<rparr>"

definition granted_action :: "kit \<Rightarrow> session_action \<Rightarrow> parsed_action" where
  "granted_action K a = (granted a)\<lparr>pa_expiresAt := expiry_of a mod 2 ^ 64, pa_raw := action_bytes K a\<rparr>"

lemma key_prefix: "address_codec K \<Longrightarrow> k_isAddress K k \<Longrightarrow> k_decAddr K (take 32 (k_encAddr K k @ rest)) = k"
  by (simp add: address_codec_def)

lemma parsed_as_granted:
  assumes "address_codec K" "keys_ok K a"
  shows "parsed_as K (kind_of a) (expiry_of a mod 2 ^ 64) (action_bytes K a) = granted_action K a"
proof -
  have f: "le_val (u8_slice (k @ le_bytes 8 v @ rest) n (n + 8)) = v mod 2 ^ 64"
    if "length k = n" for k :: bytes and v rest n
    using u64_fields [of k n "n + 8" v rest] that by simp
  have f0: "le_val (u8_slice (le_bytes 8 v @ rest) 0 8) = v mod 2 ^ 64" for v rest
    using f [of "[]" 0 v rest] by simp
  have k: "k_decAddr K (k_encAddr K x) = x" "length (k_encAddr K x) = 32" if "key_of a = Some x" for x
    using that assms by (simp_all add: keys_ok_def encAddr_length address_codec_def)
  show ?thesis
  proof (cases a)
    case (SolRecurringLimit l w e)
    let ?d = "le_bytes 8 l @ le_bytes 8 0 @ le_bytes 8 w @ le_bytes 8 0"
    have "le_val (u8_slice ?d 0 8) = l mod 2 ^ 64" "le_val (u8_slice ?d 8 16) = 0"
      "le_val (u8_slice ?d 16 24) = w mod 2 ^ 64" "le_val (u8_slice ?d 24 32) = 0"
      using f0 [of l] recurring_fields [of "[]" 0 ?d l w] by simp_all
    then show ?thesis
      by (simp add: SolRecurringLimit parsed_as_def granted_action_def action_bytes_def bare_action_def)
  next
    case (TokenRecurringLimit m l w e)
    let ?d = "k_encAddr K m @ le_bytes 8 l @ le_bytes 8 0 @ le_bytes 8 w @ le_bytes 8 0"
    have "le_val (u8_slice ?d 32 40) = l mod 2 ^ 64" "le_val (u8_slice ?d 40 48) = 0"
      "le_val (u8_slice ?d 48 56) = w mod 2 ^ 64" "le_val (u8_slice ?d 56 64) = 0"
      using TokenRecurringLimit k [of m] f [of "k_encAddr K m" 32 l "le_bytes 8 0 @ le_bytes 8 w @ le_bytes 8 0"]
        recurring_fields [of "k_encAddr K m" 32 ?d l w] by simp_all
    then show ?thesis using TokenRecurringLimit k [of m]
      by (simp add: parsed_as_def granted_action_def action_bytes_def bare_action_def)
  next
    case (TokenLimit m v e)
    then show ?thesis using k [of m] f [of "k_encAddr K m" 32 v "[]"]
      by (simp add: parsed_as_def granted_action_def action_bytes_def bare_action_def)
  next
    case (TokenMaxPerTx m v e)
    then show ?thesis using k [of m] f [of "k_encAddr K m" 32 v "[]"]
      by (simp add: parsed_as_def granted_action_def action_bytes_def bare_action_def)
  qed (use k f0 [of _ "[]"] in \<open>simp_all add: parsed_as_def granted_action_def action_bytes_def bare_action_def\<close>)
qed

lemma length_action_bytes_keys:
  "address_codec K \<Longrightarrow> keys_ok K a \<Longrightarrow> length (action_bytes K a) = expected_data_size (kind_of a)"
  by (cases a) (auto simp: action_bytes_def keys_ok_def encAddr_length)

lemma parseActions_wire:
  assumes "address_codec K" "list_all (keys_ok K) as" "buf = pre @ concat (map (wire_action K) as)"
  shows "parseActions_from K buf (length pre) out = Inr (out @ map (granted_action K) as)"
  using assms(2-)
proof (induction as arbitrary: pre out)
  case Nil
  then show ?case by (simp add: parseActions_from.simps)
next
  case (Cons a as)
  have b: "buf = pre @ wire_action K a @ concat (map (wire_action K) as)" using Cons.prems by simp
  have ln: "length (action_bytes K a) = expected_data_size (kind_of a)"
    using Cons.prems by (intro length_action_bytes_keys [OF assms(1)]) simp
  then have l: "length (action_bytes K a) < 65536" using expected_data_size_le [of "kind_of a"] by simp
  note w = wire_action_fields [OF b l]
  have ty: "ActionType_from_u8 (buf ! length pre) = Inr (kind_of a)" by (simp add: w(1) ActionType_roundtrip)
  have n: "nat (le_val (u8_slice buf (length pre + 1) (length pre + 3))) = length (action_bytes K a)"
    by (simp only: w(2) nat_int)
  have g: "parsed_as K (kind_of a) (le_val (u8_slice buf (length pre + 3) (length pre + 11)))
      (u8_slice buf (length pre + ACTION_HEADER_SIZE) (length pre + ACTION_HEADER_SIZE + length (action_bytes K a)))
      = granted_action K a"
    using parsed_as_granted [OF assms(1), of a] Cons.prems w(3,4) by (simp add: ACTION_HEADER_SIZE_def)
  have "parseActions_from K buf (length pre) out =
      parseActions_from K buf (length (pre @ wire_action K a)) (out @ [granted_action K a])"
    using parseActions_step [OF ty n ln, of K out] b unfolding g
    by (simp add: length_wire_action ACTION_HEADER_SIZE_def add.assoc)
  then show ?case using Cons.IH [of "pre @ wire_action K a" "out @ [granted_action K a]"] Cons.prems by simp
qed

text \<open>
  C21. A policy reads back as it was granted, and the two serializers agree on what they both
  accept. For a policy whose mints and programs are addresses, the serializer for web3.js v1 always
  returns bytes, from which \<open>parseActions\<close> recovers every action in order: type, expiry, mint or
  program, and caps, with nothing spent yet. An amount outside u64 is granted modulo 2 to the 64
  there, where the kit SDK refuses the policy; otherwise both write the same bytes.
\<close>

theorem policy_reads_back:
  assumes "address_codec K" "uint_codecs K" "list_all (keys_ok K) as"
  shows "\<exists>buf. serializeActions_web3 K as = Inr buf
    \<and> parseActions K buf = Inr (map (granted_action K) as)
    \<and> serializeActions K as = (if list_all amounts_ok as then Inr buf
        else Inl (LibError ''CODECS__NUMBER_OUT_OF_RANGE''))"
  using serializeActions_web3_eq [OF assms(1,3)] parseActions_wire [OF assms(1,3), of _ "[]" "[]"]
    serializeActions_ok [OF assms(2), of as] serializeActions_error [OF assms(2), of as]
  by (simp add: parseActions_def)

theorem policy_reads_back_witness:
  "\<exists>buf. serializeActions_web3 sample_kit [SolLimit (- 1) None] = Inr buf
    \<and> parseActions sample_kit buf = Inr [granted_action sample_kit (SolLimit (- 1) None)]
    \<and> pa_limit (granted_action sample_kit (SolLimit (- 1) None)) = Some 18446744073709551615
    \<and> serializeActions sample_kit [SolLimit (- 1) None] = Inl (LibError ''CODECS__NUMBER_OUT_OF_RANGE'')"
  using policy_reads_back [OF sample_kit_laws(1,2), of "[SolLimit (- 1) None]"]
  by (simp add: keys_ok_def amounts_ok_def u64_ok_def granted_action_def bare_action_def)

end
