(* ===== verification/LegacyClient.thy ===== *)
theory LegacyClient
  imports Client LegacyBuilders LegacyActions
begin

text \<open>
  \<open>sdk-legacy/src/utils/client.ts\<close>: the \<open>LazorKitClient\<close> class of the SDK for web3.js v1, as far as
  its checks, its fee state, the \<open>prepare*\<close> and \<open>finalize*\<close> pairs, the unified methods and the
  administration methods. What the two clients share in shape (owners, signers, the client's
  caches, the prepared records without account lists) are the types of the kit client; the records
  that carry metas or instructions have their own. As there, RPC reads, the challenge reads, the
  random draw and the signer are arguments.
\<close>

section \<open>Argument checks\<close>

definition assertByteLength_web3 :: "bytes \<Rightarrow> nat \<Rightarrow> string \<Rightarrow> unit result" where
  "assertByteLength_web3 v expected name =
     (if length v \<noteq> expected then Inl (Error (name @ '' must be exactly the expected number of bytes''))
      else Inr ())"

definition assertNonZeroBytes_web3 :: "bytes \<Rightarrow> string \<Rightarrow> unit result" where
  "assertNonZeroBytes_web3 v name =
     (if list_all (\<lambda>b. b = 0) v then Inl (Error (name @ '' must not be all zero bytes'')) else Inr ())"

fun resolveOwnerFields_web3 :: "kit \<Rightarrow> create_wallet_owner \<Rightarrow> owner_fields result" where
  "resolveOwnerFields_web3 K (OwnerEd25519 publicKey) =
     (let publicKeyBytes = k_encAddr K publicKey in
      rbind (assertNonZeroBytes_web3 publicKeyBytes ''publicKey'') (\<lambda>_.
      Inr \<lparr>of_authType = AUTH_TYPE_ED25519, of_credentialOrPubkey = publicKeyBytes,
           of_secp256r1Pubkey = None, of_rpId = None\<rparr>))"
| "resolveOwnerFields_web3 K (OwnerSecp256r1 credentialIdHash compressedPubkey rpId) =
     rbind (assertByteLength_web3 credentialIdHash 32 ''credentialIdHash'') (\<lambda>_.
     rbind (assertByteLength_web3 compressedPubkey 33 ''compressedPubkey'') (\<lambda>_.
     rbind (assertNonZeroBytes_web3 credentialIdHash ''credentialIdHash'') (\<lambda>_.
     rbind (assertNonZeroBytes_web3 compressedPubkey ''compressedPubkey'') (\<lambda>_.
     Inr \<lparr>of_authType = AUTH_TYPE_SECP256R1, of_credentialOrPubkey = credentialIdHash,
          of_secp256r1Pubkey = Some compressedPubkey, of_rpId = Some rpId\<rparr>))))"

definition assertAddAuthorityRole_web3 :: "int \<Rightarrow> bool option \<Rightarrow> bytes option \<Rightarrow> unit result" where
  "assertAddAuthorityRole_web3 role allowOwner policy =
     (if role = ROLE_OWNER \<and> \<not> (case allowOwner of Some b \<Rightarrow> b | None \<Rightarrow> False)
      then Inl (Error ''AddAuthority creates an Owner only with allowOwner: true'')
      else if role < 0 \<or> role > 2
      then Inl (Error ''AddAuthority role must be ROLE_OWNER (0), ROLE_ADMIN (1) or ROLE_SPENDER (2)'')
      else if role = ROLE_SPENDER \<and> (case policy of Some p \<Rightarrow> length p = 0 | None \<Rightarrow> True)
      then Inl (Error ''ROLE_SPENDER (Delegate) requires a non-empty policy'')
      else if role \<noteq> ROLE_SPENDER \<and> (case policy of Some p \<Rightarrow> length p > 0 | None \<Rightarrow> False)
      then Inl (Error ''Only ROLE_SPENDER (Delegate) may carry a policy'')
      else Inr ())"

definition assertSessionActions_web3 :: "session_action list option \<Rightarrow> bool option \<Rightarrow> unit result" where
  "assertSessionActions_web3 actions unrestricted =
     (if (case actions of Some as \<Rightarrow> length as = 0 | None \<Rightarrow> True)
         \<and> \<not> (case unrestricted of Some b \<Rightarrow> b | None \<Rightarrow> False)
      then Inl (Error ''createSession with no actions grants an UNRESTRICTED session key'')
      else Inr ())"

section \<open>Layout, hash and runtime flags\<close>

type_synonym flag_union = "(address \<times> bool \<times> bool) list"

definition merge_flags :: "web3_meta \<Rightarrow> flag_union \<Rightarrow> flag_union" where
  "merge_flags m unions =
     (let u = map_of unions (wm_pubkey m) in
      jsmap_set (wm_pubkey m)
        (wm_isSigner m \<or> (case u of Some (s, _) \<Rightarrow> s | None \<Rightarrow> False),
         wm_isWritable m \<or> (case u of Some (_, w) \<Rightarrow> w | None \<Rightarrow> False)) unions)"

definition withRuntimeFlags :: "web3_meta list \<Rightarrow> address option \<Rightarrow> web3_meta list" where
  "withRuntimeFlags metas feePayer =
     (let unions = fold merge_flags metas [];
          unions = (case feePayer of Some p \<Rightarrow> merge_flags (wmeta p True True) unions | None \<Rightarrow> unions)
      in map (\<lambda>m. case map_of unions (wm_pubkey m) of
                Some (s, w) \<Rightarrow> wmeta (wm_pubkey m) s w
              | None \<Rightarrow> wmeta (wm_pubkey m) False False) metas)"

record layout_web3 =
  lw_compactInstructions :: "compact_instruction list"
  lw_remainingAccounts :: "web3_meta list"
  lw_allAccountMetas :: "web3_meta list"
  lw_accountsHash :: bytes

definition buildCompactLayoutAndHash_web3 ::
  "kit \<Rightarrow> web3_meta list \<Rightarrow> web3_ix list \<Rightarrow> address option \<Rightarrow> layout_web3 result" where
  "buildCompactLayoutAndHash_web3 K fixedAccounts userInstructions feePayer =
     (let fixedKeys = map wm_pubkey fixedAccounts in
      rbind (buildCompactLayout_web3 fixedKeys userInstructions (fixedKeys ! 0))
        (\<lambda>(compactInstructions, remainingAccounts).
      let allAccountMetas = withRuntimeFlags (fixedAccounts @ remainingAccounts) feePayer in
      rbind (computeAccountsHash_web3 K allAccountMetas compactInstructions) (\<lambda>accountsHash.
      Inr \<lparr>lw_compactInstructions = compactInstructions, lw_remainingAccounts = remainingAccounts,
           lw_allAccountMetas = allAccountMetas, lw_accountsHash = accountsHash\<rparr>)))"

definition namesDeferredPayerSlot_web3 :: "compact_instruction list \<Rightarrow> bool" where
  "namesDeferredPayerSlot_web3 compactInstructions =
     (let payerSlot = (\<lambda>b. let index = fst (decodeAccountIndex_web3 b) in index = 0 \<or> index = 4)
      in list_ex (\<lambda>ix. payerSlot (programIdIndex ix) \<or> list_ex payerSlot (accountIndexes ix)) compactInstructions)"

section \<open>The fee state\<close>

definition getProtocolConfig_web3 :: "kit \<Rightarrow> rpc_account \<Rightarrow> protocol_config option stateful" where
  "getProtocolConfig_web3 K rpc c =
     (case cl_protocolConfig c of
        Some v \<Rightarrow> (Inr v, c)
      | None \<Rightarrow>
          (case rbind (findProtocolConfigPda_web3 K (cl_programId c)) (\<lambda>(configPda, _). rpc configPda) of
             Inl e \<Rightarrow> (Inl e, c)
           | Inr info \<Rightarrow>
               let v = (case info of
                     None \<Rightarrow> None
                   | Some data \<Rightarrow>
                       if length data < 88 \<or> data ! 0 \<noteq> ACCOUNT_DISCRIMINATOR PROTOCOL_CONFIG then None
                       else Some \<lparr>pc_numShards = uint (data ! 4), pc_enabled = (data ! 3 \<noteq> 0)\<rparr>)
               in (Inr v, c\<lparr>cl_protocolConfig := Some v\<rparr>)))"

definition resolveProtocolFee_web3 ::
  "kit \<Rightarrow> rpc_account \<Rightarrow> int \<Rightarrow> address \<Rightarrow> protocol_fee_accounts option stateful" where
  "resolveProtocolFee_web3 K rpc randU32 payer c =
     (if \<not> cl_protocolFees c then (Inr None, c)
      else sbind (getProtocolConfig_web3 K rpc) (\<lambda>config.
           pure
             (rbind (findProtocolConfigPda_web3 K (cl_programId c)) (\<lambda>(configPda, _).
              rbind (findFeeRecordPda_web3 K payer (cl_programId c)) (\<lambda>(recordPda, _).
              let shardId = (case config of
                    Some cfg \<Rightarrow> if pc_enabled cfg \<and> pc_numShards cfg > 0 then randU32 mod pc_numShards cfg else 0
                  | None \<Rightarrow> 0)
              in rbind (findTreasuryShardPda_web3 K shardId (cl_programId c)) (\<lambda>(shardPda, _).
                 Inr (Some \<lparr>protocolConfigPda = configPda, feeRecordPda = recordPda,
                            treasuryShardPda = shardPda\<rparr>)))))) c)"

record fee_web3 =
  fw_accounts :: protocol_fee_accounts
  fw_registerIx :: "web3_ix option"

definition resolveProtocolFeeWithRegister_web3 ::
  "kit \<Rightarrow> rpc_account \<Rightarrow> int \<Rightarrow> address \<Rightarrow> fee_web3 option stateful" where
  "resolveProtocolFeeWithRegister_web3 K rpc randU32 payer =
     sbind (resolveProtocolFee_web3 K rpc randU32 payer) (\<lambda>accounts.
     case accounts of
       None \<Rightarrow> pure (Inr None)
     | Some accounts \<Rightarrow>
         sbind (getProtocolConfig_web3 K rpc) (\<lambda>config.
         if (case config of None \<Rightarrow> True | Some cfg \<Rightarrow> \<not> pc_enabled cfg)
         then pure (Inr (Some \<lparr>fw_accounts = accounts, fw_registerIx = None\<rparr>))
         else (\<lambda>c.
           if payer \<in> cl_registeredPayers c
           then (Inr (Some \<lparr>fw_accounts = accounts, fw_registerIx = None\<rparr>), c)
           else case rpc (feeRecordPda accounts) of
               Inl e \<Rightarrow> (Inl e, c)
             | Inr info \<Rightarrow>
                 let exists = (case info of None \<Rightarrow> False
                       | Some data \<Rightarrow> length data > 0 \<and> data ! 0 = ACCOUNT_DISCRIMINATOR FEE_RECORD);
                     c' = c\<lparr>cl_registeredPayers := insert payer (cl_registeredPayers c)\<rparr>
                 in if exists then (Inr (Some \<lparr>fw_accounts = accounts, fw_registerIx = None\<rparr>), c')
                    else (Inr (Some \<lparr>fw_accounts = accounts,
                            fw_registerIx = Some (createRegisterPayerIx_web3 payer (feeRecordPda accounts)
                              (cl_programId c))\<rparr>), c'))))"

section \<open>Authorities and signing\<close>

definition resolveSecp256r1_web3 ::
  "kit \<Rightarrow> challenge_reads \<Rightarrow> address \<Rightarrow> address \<Rightarrow> secp256r1_params \<Rightarrow> secp_resolved result" where
  "resolveSecp256r1_web3 K reads programId walletPda p =
     rbind (assertByteLength_web3 (sp_credentialIdHash p) 32 ''credentialIdHash'') (\<lambda>_.
     rbind (case sp_publicKeyBytes p of
              Some k \<Rightarrow> assertByteLength_web3 k 33 ''publicKeyBytes'' | None \<Rightarrow> Inr ()) (\<lambda>_.
     rbind (case sp_authorityPda p of
              Some a \<Rightarrow> Inr a
            | None \<Rightarrow> rbind (findAuthorityPda_web3 K walletPda (sp_credentialIdHash p) programId) (\<lambda>(a, _). Inr a)) (\<lambda>authorityPda.
     rbind (reads authorityPda p) (\<lambda>(publicKeyBytes, slot, counter).
     Inr \<lparr>rs_authorityPda = authorityPda, rs_publicKeyBytes = publicKeyBytes, rs_slot = slot,
          rs_counter = counter\<rparr>))))"

definition extractSecp256r1Params_web3 :: "secp256r1_signer_config \<Rightarrow> secp256r1_params" where
  "extractSecp256r1Params_web3 s =
     \<lparr>sp_credentialIdHash = sg_credentialIdHash (sc_signer s),
      sp_publicKeyBytes = Some (sg_publicKeyBytes (sc_signer s)),
      sp_authorityPda = sc_authorityPda s, sp_slotOverride = sc_slotOverride s,
      sp_minContextSlot = sc_minContextSlot s, sp_commitment = sc_commitment s\<rparr>"

definition resolveEd25519AuthorityPda_web3 ::
  "kit \<Rightarrow> address \<Rightarrow> address \<Rightarrow> address option \<Rightarrow> address \<Rightarrow> address result" where
  "resolveEd25519AuthorityPda_web3 K programId publicKey authorityPda walletPda =
     (case authorityPda of
        Some a \<Rightarrow> Inr a
      | None \<Rightarrow> rbind (findAuthorityPda_web3 K walletPda (k_encAddr K publicKey) programId) (\<lambda>(a, _). Inr a))"

definition buildPasskeySigning_web3 ::
  "kit \<Rightarrow> address \<Rightarrow> int \<Rightarrow> int \<Rightarrow> bytes \<Rightarrow> int \<Rightarrow> int \<Rightarrow> address \<Rightarrow> address \<Rightarrow> bytes
   \<Rightarrow> prepared_secp256r1 result" where
  "buildPasskeySigning_web3 K programId discriminator sysvarIxIndex signedPayload slot counter payer
      wallet publicKeyBytes =
     prepareSecp256r1_web3 K (u8_of [discriminator]) signedPayload sysvarIxIndex slot counter payer wallet
       programId publicKeyBytes"

section \<open>The prepare and finalize pairs\<close>

definition prepareAddAuthority_web3 ::
  "kit \<Rightarrow> challenge_reads \<Rightarrow> address \<Rightarrow> address \<Rightarrow> address \<Rightarrow> secp256r1_params \<Rightarrow> create_wallet_owner \<Rightarrow> int
   \<Rightarrow> bytes option \<Rightarrow> bool option \<Rightarrow> prepared_add_authority result" where
  "prepareAddAuthority_web3 K reads programId payer walletPda secp256r1 newAuthority role policy allowOwner =
     rbind (assertAddAuthorityRole_web3 role allowOwner policy) (\<lambda>_.
     rbind (resolveOwnerFields_web3 K newAuthority) (\<lambda>f.
     rbind (findAuthorityPda_web3 K walletPda (of_credentialOrPubkey f) programId) (\<lambda>(newAuthorityPda, _).
     rbind (resolveSecp256r1_web3 K reads programId walletPda secp256r1) (\<lambda>r.
     rbind (buildDataPayloadForAdd_web3 (of_authType f) role (of_credentialOrPubkey f) (of_secp256r1Pubkey f)
              (of_rpId f) policy) (\<lambda>dataPayload.
     rbind (concatBytes [dataPayload, k_encAddr K payer]) (\<lambda>signedPayload.
     rbind (buildPasskeySigning_web3 K programId DISC_ADD_AUTHORITY SYSVAR_IX_INDEX_ADD_AUTHORITY signedPayload
              (rs_slot r) (rs_counter r) payer walletPda (rs_publicKeyBytes r)) (\<lambda>signing.
     Inr \<lparr>paa_challenge = ps_challenge signing, paa_signing = signing, paa_payer = payer,
          paa_walletPda = walletPda, paa_adminAuthorityPda = rs_authorityPda r,
          paa_newAuthorityPda = newAuthorityPda, paa_newType = of_authType f, paa_newRole = role,
          paa_policy = policy, paa_credentialOrPubkey = of_credentialOrPubkey f,
          paa_secp256r1Pubkey = of_secp256r1Pubkey f, paa_rpId = of_rpId f, paa_programId = programId\<rparr>)))))))"

definition finalizeAddAuthority_web3 ::
  "prepared_add_authority \<Rightarrow> webauthn_response \<Rightarrow> (web3_ix list \<times> address) result" where
  "finalizeAddAuthority_web3 i response =
     rbind (finalizeSecp256r1_web3 (paa_signing i) response) (\<lambda>(authPayload, precompileIx).
     rbind (createAddAuthorityIx_web3 (paa_payer i) (paa_walletPda i) (paa_adminAuthorityPda i)
              (paa_newAuthorityPda i) (paa_newType i) (paa_newRole i) (paa_credentialOrPubkey i)
              (paa_secp256r1Pubkey i) (paa_rpId i) (paa_policy i) (Some authPayload) None (paa_programId i)) (\<lambda>ix.
     Inr ([precompileIx, ix], paa_newAuthorityPda i)))"

definition prepareRemoveAuthority_web3 ::
  "kit \<Rightarrow> challenge_reads \<Rightarrow> address \<Rightarrow> address \<Rightarrow> address \<Rightarrow> secp256r1_params \<Rightarrow> address \<Rightarrow> address option
   \<Rightarrow> prepared_remove_authority result" where
  "prepareRemoveAuthority_web3 K reads programId payer walletPda secp256r1 targetAuthorityPda refundDestination =
     (let refundDest = (case refundDestination of Some a \<Rightarrow> a | None \<Rightarrow> payer) in
      rbind (resolveSecp256r1_web3 K reads programId walletPda secp256r1) (\<lambda>r.
      rbind (concatBytes [k_encAddr K targetAuthorityPda, k_encAddr K refundDest]) (\<lambda>signedPayload.
      rbind (buildPasskeySigning_web3 K programId DISC_REMOVE_AUTHORITY SYSVAR_IX_INDEX_REMOVE_AUTHORITY
               signedPayload (rs_slot r) (rs_counter r) payer walletPda (rs_publicKeyBytes r)) (\<lambda>signing.
      Inr \<lparr>pra_challenge = ps_challenge signing, pra_signing = signing, pra_payer = payer,
           pra_walletPda = walletPda, pra_adminAuthorityPda = rs_authorityPda r,
           pra_targetAuthorityPda = targetAuthorityPda, pra_refundDestination = refundDest,
           pra_programId = programId\<rparr>))))"

definition finalizeRemoveAuthority_web3 ::
  "prepared_remove_authority \<Rightarrow> webauthn_response \<Rightarrow> web3_ix list result" where
  "finalizeRemoveAuthority_web3 i response =
     rbind (finalizeSecp256r1_web3 (pra_signing i) response) (\<lambda>(authPayload, precompileIx).
     rbind (createRemoveAuthorityIx_web3 (pra_payer i) (pra_walletPda i) (pra_adminAuthorityPda i)
              (pra_targetAuthorityPda i) (pra_refundDestination i) (Some authPayload) None (pra_programId i)) (\<lambda>ix.
     Inr [precompileIx, ix]))"

definition prepareTransferOwnership_web3 ::
  "kit \<Rightarrow> challenge_reads \<Rightarrow> address \<Rightarrow> address \<Rightarrow> address \<Rightarrow> secp256r1_params \<Rightarrow> create_wallet_owner
   \<Rightarrow> address option \<Rightarrow> prepared_transfer_ownership result" where
  "prepareTransferOwnership_web3 K reads programId payer walletPda secp256r1 newOwner refundDestination =
     rbind (resolveOwnerFields_web3 K newOwner) (\<lambda>f.
     rbind (findAuthorityPda_web3 K walletPda (of_credentialOrPubkey f) programId) (\<lambda>(newOwnerAuthorityPda, _).
     let refundDest = (case refundDestination of Some a \<Rightarrow> a | None \<Rightarrow> payer) in
     rbind (resolveSecp256r1_web3 K reads programId walletPda secp256r1) (\<lambda>r.
     rbind (buildDataPayloadForTransfer_web3 (of_authType f) (of_credentialOrPubkey f) (of_secp256r1Pubkey f)
              (of_rpId f)) (\<lambda>dataPayload.
     rbind (concatBytes [dataPayload, k_encAddr K payer, k_encAddr K refundDest]) (\<lambda>signedPayload.
     rbind (buildPasskeySigning_web3 K programId DISC_TRANSFER_OWNERSHIP SYSVAR_IX_INDEX_TRANSFER_OWNERSHIP
              signedPayload (rs_slot r) (rs_counter r) payer walletPda (rs_publicKeyBytes r)) (\<lambda>signing.
     Inr \<lparr>pto_challenge = ps_challenge signing, pto_signing = signing, pto_payer = payer,
          pto_walletPda = walletPda, pto_currentOwnerAuthorityPda = rs_authorityPda r,
          pto_newOwnerAuthorityPda = newOwnerAuthorityPda, pto_refundDestination = refundDest,
          pto_newType = of_authType f, pto_credentialOrPubkey = of_credentialOrPubkey f,
          pto_secp256r1Pubkey = of_secp256r1Pubkey f, pto_rpId = of_rpId f, pto_programId = programId\<rparr>))))))"

definition finalizeTransferOwnership_web3 ::
  "prepared_transfer_ownership \<Rightarrow> webauthn_response \<Rightarrow> (web3_ix list \<times> address) result" where
  "finalizeTransferOwnership_web3 i response =
     rbind (finalizeSecp256r1_web3 (pto_signing i) response) (\<lambda>(authPayload, precompileIx).
     rbind (createTransferOwnershipIx_web3 (pto_payer i) (pto_walletPda i) (pto_currentOwnerAuthorityPda i)
              (pto_newOwnerAuthorityPda i) (pto_refundDestination i) (pto_newType i) (pto_credentialOrPubkey i)
              (pto_secp256r1Pubkey i) (pto_rpId i) (Some authPayload) None (pto_programId i)) (\<lambda>ix.
     Inr ([precompileIx, ix], pto_newOwnerAuthorityPda i)))"

definition session_actions_web3 :: "kit \<Rightarrow> session_action list option \<Rightarrow> bytes option result" where
  "session_actions_web3 K actions =
     (case actions of
        Some as \<Rightarrow> if length as > 0 then rbind (serializeActions_web3 K as) (\<lambda>b. Inr (Some b)) else Inr None
      | None \<Rightarrow> Inr None)"

definition prepareCreateSession_web3 ::
  "kit \<Rightarrow> challenge_reads \<Rightarrow> address \<Rightarrow> address \<Rightarrow> address \<Rightarrow> secp256r1_params \<Rightarrow> address \<Rightarrow> int
   \<Rightarrow> session_action list option \<Rightarrow> bool option \<Rightarrow> prepared_create_session result" where
  "prepareCreateSession_web3 K reads programId payer walletPda secp256r1 sessionKey expiresAt actions unrestricted =
     rbind (assertSessionActions_web3 actions unrestricted) (\<lambda>_.
     let sessionKeyBytes = k_encAddr K sessionKey in
     rbind (findSessionPda_web3 K walletPda sessionKeyBytes programId) (\<lambda>(sessionPda, _).
     rbind (resolveSecp256r1_web3 K reads programId walletPda secp256r1) (\<lambda>r.
     rbind (session_actions_web3 K actions) (\<lambda>actionsBuffer.
     rbind (buildDataPayloadForSession_web3 sessionKeyBytes expiresAt actionsBuffer) (\<lambda>dataPayload.
     rbind (concatBytes [dataPayload, k_encAddr K payer]) (\<lambda>signedPayload.
     rbind (buildPasskeySigning_web3 K programId DISC_CREATE_SESSION SYSVAR_IX_INDEX_CREATE_SESSION signedPayload
              (rs_slot r) (rs_counter r) payer walletPda (rs_publicKeyBytes r)) (\<lambda>signing.
     Inr \<lparr>pcs_challenge = ps_challenge signing, pcs_signing = signing, pcs_payer = payer,
          pcs_walletPda = walletPda, pcs_adminAuthorityPda = rs_authorityPda r, pcs_sessionPda = sessionPda,
          pcs_sessionKey = sessionKeyBytes, pcs_expiresAt = expiresAt, pcs_actionsBuffer = actionsBuffer,
          pcs_programId = programId\<rparr>)))))))"

definition finalizeCreateSession_web3 ::
  "prepared_create_session \<Rightarrow> webauthn_response \<Rightarrow> (web3_ix list \<times> address) result" where
  "finalizeCreateSession_web3 i response =
     rbind (finalizeSecp256r1_web3 (pcs_signing i) response) (\<lambda>(authPayload, precompileIx).
     rbind (createCreateSessionIx_web3 (pcs_payer i) (pcs_walletPda i) (pcs_adminAuthorityPda i) (pcs_sessionPda i)
              (pcs_sessionKey i) (pcs_expiresAt i) (pcs_actionsBuffer i) (Some authPayload) None (pcs_programId i)) (\<lambda>ix.
     Inr ([precompileIx, ix], pcs_sessionPda i)))"

definition prepareRevokeSession_web3 ::
  "kit \<Rightarrow> challenge_reads \<Rightarrow> address \<Rightarrow> address \<Rightarrow> address \<Rightarrow> secp256r1_params \<Rightarrow> address \<Rightarrow> address option
   \<Rightarrow> prepared_revoke_session result" where
  "prepareRevokeSession_web3 K reads programId payer walletPda secp256r1 sessionPda refundDestination =
     (let refundDest = (case refundDestination of Some a \<Rightarrow> a | None \<Rightarrow> payer) in
      rbind (resolveSecp256r1_web3 K reads programId walletPda secp256r1) (\<lambda>r.
      rbind (concatBytes [k_encAddr K sessionPda, k_encAddr K refundDest]) (\<lambda>signedPayload.
      rbind (buildPasskeySigning_web3 K programId DISC_REVOKE_SESSION SYSVAR_IX_INDEX_REVOKE_SESSION signedPayload
               (rs_slot r) (rs_counter r) payer walletPda (rs_publicKeyBytes r)) (\<lambda>signing.
      Inr \<lparr>prs_challenge = ps_challenge signing, prs_signing = signing, prs_payer = payer,
           prs_walletPda = walletPda, prs_adminAuthorityPda = rs_authorityPda r, prs_sessionPda = sessionPda,
           prs_refundDestination = refundDest, prs_programId = programId\<rparr>))))"

definition finalizeRevokeSession_web3 ::
  "prepared_revoke_session \<Rightarrow> webauthn_response \<Rightarrow> web3_ix list result" where
  "finalizeRevokeSession_web3 i response =
     rbind (finalizeSecp256r1_web3 (prs_signing i) response) (\<lambda>(authPayload, precompileIx).
     rbind (createRevokeSessionIx_web3 (prs_payer i) (prs_walletPda i) (prs_adminAuthorityPda i) (prs_sessionPda i)
              (prs_refundDestination i) (Some authPayload) None (prs_programId i)) (\<lambda>ix.
     Inr [precompileIx, ix]))"

record prepared_execute_web3 =
  pew_challenge :: bytes
  pew_signing :: prepared_secp256r1
  pew_payer :: address
  pew_walletPda :: address
  pew_authorityPda :: address
  pew_vaultPda :: address
  pew_packed :: bytes
  pew_remainingAccounts :: "web3_meta list"
  pew_protocolFee :: "protocol_fee_accounts option"
  pew_registerIx :: "web3_ix option"
  pew_programId :: address

text \<open>As in the kit client, \<open>fee\<close> is what the fee resolution beside the challenge reads returned.\<close>

definition prepareExecute_web3 ::
  "kit \<Rightarrow> challenge_reads \<Rightarrow> fee_web3 option result \<Rightarrow> address \<Rightarrow> address \<Rightarrow> address
   \<Rightarrow> secp256r1_params \<Rightarrow> web3_ix list \<Rightarrow> address option \<Rightarrow> prepared_execute_web3 result" where
  "prepareExecute_web3 K reads fee programId payer walletPda secp256r1 instructions feePayer =
     rbind (findVaultPda_web3 K walletPda programId) (\<lambda>(vaultPda, _).
     rbind (resolveSecp256r1_web3 K reads programId walletPda secp256r1) (\<lambda>r.
     rbind fee (\<lambda>fee.
     rbind (buildCompactLayoutAndHash_web3 K
              [wmeta payer True True, wmeta walletPda False False, wmeta (rs_authorityPda r) False True,
               wmeta vaultPda False True, wmeta SYSVAR_INSTRUCTIONS_ADDRESS False False]
              instructions feePayer) (\<lambda>l.
     rbind (packCompactInstructions_web3 (lw_compactInstructions l)) (\<lambda>packed.
     rbind (concatBytes [packed, lw_accountsHash l]) (\<lambda>signedPayload.
     rbind (buildPasskeySigning_web3 K programId DISC_EXECUTE SYSVAR_IX_INDEX_EXECUTE signedPayload
              (rs_slot r) (rs_counter r) payer walletPda (rs_publicKeyBytes r)) (\<lambda>signing.
     Inr \<lparr>pew_challenge = ps_challenge signing, pew_signing = signing, pew_payer = payer,
          pew_walletPda = walletPda, pew_authorityPda = rs_authorityPda r, pew_vaultPda = vaultPda,
          pew_packed = packed, pew_remainingAccounts = lw_remainingAccounts l,
          pew_protocolFee = map_option fw_accounts fee,
          pew_registerIx = (case fee of Some f \<Rightarrow> fw_registerIx f | None \<Rightarrow> None),
          pew_programId = programId\<rparr>)))))))"

definition finalizeExecute_web3 :: "prepared_execute_web3 \<Rightarrow> webauthn_response \<Rightarrow> web3_ix list result" where
  "finalizeExecute_web3 i response =
     rbind (finalizeSecp256r1_web3 (pew_signing i) response) (\<lambda>(authPayload, precompileIx).
     rbind (createExecuteIx_web3 (pew_payer i) (pew_walletPda i) (pew_authorityPda i) (pew_vaultPda i) (pew_packed i)
              (Some authPayload) None (Some (pew_remainingAccounts i)) (pew_protocolFee i) (pew_programId i)) (\<lambda>ix.
     Inr ((case pew_registerIx i of Some reg \<Rightarrow> [reg, precompileIx] | None \<Rightarrow> [precompileIx]) @ [ix])))"

record deferred_payload_web3 =
  dpw_walletPda :: address
  dpw_deferredExecPda :: address
  dpw_compactInstructions :: "compact_instruction list"
  dpw_remainingAccounts :: "web3_meta list"
  dpw_executor :: "address option"
  dpw_refundDestination :: "address option"

record prepared_authorize_web3 =
  paw_challenge :: bytes
  paw_signing :: prepared_secp256r1
  paw_counter :: int
  paw_payer :: address
  paw_executor :: address
  paw_walletPda :: address
  paw_authorityPda :: address
  paw_deferredExecPda :: address
  paw_instructionsHash :: bytes
  paw_accountsHash :: bytes
  paw_expiryOffset :: int
  paw_compactInstructions :: "compact_instruction list"
  paw_remainingAccounts :: "web3_meta list"
  paw_programId :: address

definition prepareAuthorize_web3 ::
  "kit \<Rightarrow> challenge_reads \<Rightarrow> address \<Rightarrow> address \<Rightarrow> address \<Rightarrow> secp256r1_params \<Rightarrow> web3_ix list
   \<Rightarrow> int option \<Rightarrow> address option \<Rightarrow> address option \<Rightarrow> prepared_authorize_web3 result" where
  "prepareAuthorize_web3 K reads programId payer walletPda secp256r1 instructions expiryOffset executor feePayer =
     rbind (findVaultPda_web3 K walletPda programId) (\<lambda>(vaultPda, _).
     rbind (resolveSecp256r1_web3 K reads programId walletPda secp256r1) (\<lambda>r.
     let expiryOffset = (case expiryOffset of Some e \<Rightarrow> e | None \<Rightarrow> 300) in
     rbind (findDeferredExecPda_web3 K walletPda (rs_authorityPda r) (rs_counter r) programId) (\<lambda>(deferredExecPda, _).
     let executor = (case executor of Some e \<Rightarrow> e | None \<Rightarrow> payer) in
     rbind (buildCompactLayoutAndHash_web3 K
              [wmeta executor True True, wmeta walletPda False False, wmeta vaultPda False True,
               wmeta deferredExecPda False True, wmeta payer False True] instructions feePayer) (\<lambda>l.
     rbind (computeInstructionsHash_web3 K (lw_compactInstructions l)) (\<lambda>instructionsHash.
     let expiryOffsetBuf = u8_put (u8_put (u8_zeros 2) 0 (expiryOffset AND 0xff)) 1 (drop_bit 8 expiryOffset AND 0xff) in
     rbind (concatBytes [instructionsHash, lw_accountsHash l, expiryOffsetBuf]) (\<lambda>signedPayload.
     rbind (buildPasskeySigning_web3 K programId DISC_AUTHORIZE SYSVAR_IX_INDEX_AUTHORIZE signedPayload
              (rs_slot r) (rs_counter r) payer walletPda (rs_publicKeyBytes r)) (\<lambda>signing.
     Inr \<lparr>paw_challenge = ps_challenge signing, paw_signing = signing, paw_counter = rs_counter r,
          paw_payer = payer, paw_executor = executor, paw_walletPda = walletPda,
          paw_authorityPda = rs_authorityPda r, paw_deferredExecPda = deferredExecPda,
          paw_instructionsHash = instructionsHash, paw_accountsHash = lw_accountsHash l,
          paw_expiryOffset = expiryOffset, paw_compactInstructions = lw_compactInstructions l,
          paw_remainingAccounts = lw_remainingAccounts l, paw_programId = programId\<rparr>)))))))"

definition finalizeAuthorize_web3 ::
  "prepared_authorize_web3 \<Rightarrow> webauthn_response
   \<Rightarrow> (web3_ix list \<times> address \<times> int \<times> deferred_payload_web3) result" where
  "finalizeAuthorize_web3 i response =
     rbind (finalizeSecp256r1_web3 (paw_signing i) response) (\<lambda>(authPayload, precompileIx).
     rbind (createAuthorizeIx_web3 (paw_payer i) (paw_walletPda i) (paw_authorityPda i) (paw_deferredExecPda i)
              (paw_instructionsHash i) (paw_accountsHash i) (paw_expiryOffset i) authPayload (paw_programId i)) (\<lambda>ix.
     Inr ([precompileIx, ix], paw_deferredExecPda i, paw_counter i,
          \<lparr>dpw_walletPda = paw_walletPda i, dpw_deferredExecPda = paw_deferredExecPda i,
           dpw_compactInstructions = paw_compactInstructions i, dpw_remainingAccounts = paw_remainingAccounts i,
           dpw_executor = Some (paw_executor i), dpw_refundDestination = Some (paw_payer i)\<rparr>)))"

section \<open>The unified methods\<close>

definition register_head :: "fee_web3 option \<Rightarrow> web3_ix list" where
  "register_head fee = (case fee of
     Some f \<Rightarrow> (case fw_registerIx f of Some reg \<Rightarrow> [reg] | None \<Rightarrow> []) | None \<Rightarrow> [])"

record created_wallet_web3 =
  cww_instructions :: "web3_ix list"
  cww_walletPda :: address
  cww_vaultPda :: address
  cww_depositAddress :: address
  cww_authorityPda :: address

definition createWallet_web3 ::
  "kit \<Rightarrow> rpc_account \<Rightarrow> int \<Rightarrow> address \<Rightarrow> bytes \<Rightarrow> create_wallet_owner \<Rightarrow> created_wallet_web3 stateful" where
  "createWallet_web3 K rpc rand payer userSeed owner c =
     (let programId = cl_programId c in
      sbind (pure
        (rbind (assertByteLength_web3 userSeed 32 ''userSeed'') (\<lambda>_.
         rbind (findWalletPda_web3 K userSeed programId) (\<lambda>(walletPda, _).
         rbind (findVaultPda_web3 K walletPda programId) (\<lambda>(vaultPda, _).
         rbind (resolveOwnerFields_web3 K owner) (\<lambda>f.
         rbind (findAuthorityPda_web3 K walletPda (of_credentialOrPubkey f) programId) (\<lambda>(authorityPda, authBump).
         Inr (walletPda, vaultPda, f, authorityPda, authBump)))))))) (\<lambda>(walletPda, vaultPda, f, authorityPda, authBump).
      sbind (resolveProtocolFeeWithRegister_web3 K rpc rand payer) (\<lambda>fee.
      pure
        (rbind (createCreateWalletIx_web3 payer walletPda vaultPda authorityPda userSeed (of_authType f) authBump
                  (of_credentialOrPubkey f) (of_secp256r1Pubkey f) (of_rpId f) (map_option fw_accounts fee) programId) (\<lambda>ix.
         Inr \<lparr>cww_instructions = register_head fee @ [ix], cww_walletPda = walletPda, cww_vaultPda = vaultPda,
              cww_depositAddress = vaultPda, cww_authorityPda = authorityPda\<rparr>)))) c)"

definition addAuthority_web3 ::
  "kit \<Rightarrow> challenge_reads \<Rightarrow> address \<Rightarrow> address \<Rightarrow> address \<Rightarrow> admin_signer \<Rightarrow> create_wallet_owner \<Rightarrow> int
   \<Rightarrow> bytes option \<Rightarrow> bool option \<Rightarrow> (web3_ix list \<times> address) result" where
  "addAuthority_web3 K reads programId payer walletPda adminSigner newAuthority role policy allowOwner =
     rbind (assertAddAuthorityRole_web3 role allowOwner policy) (\<lambda>_.
     rbind (resolveOwnerFields_web3 K newAuthority) (\<lambda>f.
     rbind (findAuthorityPda_web3 K walletPda (of_credentialOrPubkey f) programId) (\<lambda>(newAuthorityPda, _).
     case adminSigner of
       AdminEd25519 publicKey authorityPda \<Rightarrow>
         rbind (resolveEd25519AuthorityPda_web3 K programId publicKey authorityPda walletPda) (\<lambda>adminAuthorityPda.
         rbind (createAddAuthorityIx_web3 payer walletPda adminAuthorityPda newAuthorityPda (of_authType f) role
                  (of_credentialOrPubkey f) (of_secp256r1Pubkey f) (of_rpId f) policy None (Some publicKey) programId) (\<lambda>ix.
         Inr ([ix], newAuthorityPda)))
     | AdminSecp256r1 s \<Rightarrow>
         rbind (prepareAddAuthority_web3 K reads programId payer walletPda (extractSecp256r1Params_web3 s) newAuthority
                  role policy allowOwner) (\<lambda>prepared.
         rbind (sg_sign (sc_signer s) (paa_challenge prepared)) (\<lambda>response.
         finalizeAddAuthority_web3 prepared response)))))"

definition removeAuthority_web3 ::
  "kit \<Rightarrow> challenge_reads \<Rightarrow> address \<Rightarrow> address \<Rightarrow> address \<Rightarrow> admin_signer \<Rightarrow> address \<Rightarrow> address option
   \<Rightarrow> web3_ix list result" where
  "removeAuthority_web3 K reads programId payer walletPda adminSigner targetAuthorityPda refundDestination =
     (let refundDest = (case refundDestination of Some a \<Rightarrow> a | None \<Rightarrow> payer) in
      case adminSigner of
        AdminEd25519 publicKey authorityPda \<Rightarrow>
          rbind (resolveEd25519AuthorityPda_web3 K programId publicKey authorityPda walletPda) (\<lambda>adminAuthorityPda.
          rbind (createRemoveAuthorityIx_web3 payer walletPda adminAuthorityPda targetAuthorityPda refundDest None
                   (Some publicKey) programId) (\<lambda>ix. Inr [ix]))
      | AdminSecp256r1 s \<Rightarrow>
          rbind (prepareRemoveAuthority_web3 K reads programId payer walletPda (extractSecp256r1Params_web3 s)
                   targetAuthorityPda refundDestination) (\<lambda>prepared.
          rbind (sg_sign (sc_signer s) (pra_challenge prepared)) (\<lambda>response.
          finalizeRemoveAuthority_web3 prepared response)))"

definition transferOwnership_web3 ::
  "kit \<Rightarrow> challenge_reads \<Rightarrow> address \<Rightarrow> address \<Rightarrow> address \<Rightarrow> admin_signer \<Rightarrow> create_wallet_owner
   \<Rightarrow> address option \<Rightarrow> (web3_ix list \<times> address) result" where
  "transferOwnership_web3 K reads programId payer walletPda ownerSigner newOwner refundDestination =
     rbind (resolveOwnerFields_web3 K newOwner) (\<lambda>f.
     rbind (findAuthorityPda_web3 K walletPda (of_credentialOrPubkey f) programId) (\<lambda>(newOwnerAuthorityPda, _).
     let refundDest = (case refundDestination of Some a \<Rightarrow> a | None \<Rightarrow> payer) in
     case ownerSigner of
       AdminEd25519 publicKey authorityPda \<Rightarrow>
         rbind (resolveEd25519AuthorityPda_web3 K programId publicKey authorityPda walletPda) (\<lambda>currentOwnerAuthorityPda.
         rbind (createTransferOwnershipIx_web3 payer walletPda currentOwnerAuthorityPda newOwnerAuthorityPda refundDest
                  (of_authType f) (of_credentialOrPubkey f) (of_secp256r1Pubkey f) (of_rpId f) None (Some publicKey)
                  programId) (\<lambda>ix.
         Inr ([ix], newOwnerAuthorityPda)))
     | AdminSecp256r1 s \<Rightarrow>
         rbind (prepareTransferOwnership_web3 K reads programId payer walletPda (extractSecp256r1Params_web3 s) newOwner
                  refundDestination) (\<lambda>prepared.
         rbind (sg_sign (sc_signer s) (pto_challenge prepared)) (\<lambda>response.
         finalizeTransferOwnership_web3 prepared response))))"

definition createSession_web3 ::
  "kit \<Rightarrow> challenge_reads \<Rightarrow> address \<Rightarrow> address \<Rightarrow> address \<Rightarrow> admin_signer \<Rightarrow> address \<Rightarrow> int
   \<Rightarrow> session_action list option \<Rightarrow> bool option \<Rightarrow> (web3_ix list \<times> address) result" where
  "createSession_web3 K reads programId payer walletPda adminSigner sessionKey expiresAt actions unrestricted =
     rbind (assertSessionActions_web3 actions unrestricted) (\<lambda>_.
     let sessionKeyBytes = k_encAddr K sessionKey in
     rbind (findSessionPda_web3 K walletPda sessionKeyBytes programId) (\<lambda>(sessionPda, _).
     rbind (session_actions_web3 K actions) (\<lambda>actionsBuffer.
     case adminSigner of
       AdminEd25519 publicKey authorityPda \<Rightarrow>
         rbind (resolveEd25519AuthorityPda_web3 K programId publicKey authorityPda walletPda) (\<lambda>adminAuthorityPda.
         rbind (createCreateSessionIx_web3 payer walletPda adminAuthorityPda sessionPda sessionKeyBytes expiresAt
                  actionsBuffer None (Some publicKey) programId) (\<lambda>ix.
         Inr ([ix], sessionPda)))
     | AdminSecp256r1 s \<Rightarrow>
         rbind (prepareCreateSession_web3 K reads programId payer walletPda (extractSecp256r1Params_web3 s) sessionKey
                  expiresAt actions unrestricted) (\<lambda>prepared.
         rbind (sg_sign (sc_signer s) (pcs_challenge prepared)) (\<lambda>response.
         finalizeCreateSession_web3 prepared response)))))"

definition revokeSession_web3 ::
  "kit \<Rightarrow> challenge_reads \<Rightarrow> address \<Rightarrow> address \<Rightarrow> address \<Rightarrow> admin_signer \<Rightarrow> address \<Rightarrow> address option
   \<Rightarrow> web3_ix list result" where
  "revokeSession_web3 K reads programId payer walletPda adminSigner sessionPda refundDestination =
     (let refundDest = (case refundDestination of Some a \<Rightarrow> a | None \<Rightarrow> payer) in
      case adminSigner of
        AdminEd25519 publicKey authorityPda \<Rightarrow>
          rbind (resolveEd25519AuthorityPda_web3 K programId publicKey authorityPda walletPda) (\<lambda>adminAuthorityPda.
          rbind (createRevokeSessionIx_web3 payer walletPda adminAuthorityPda sessionPda refundDest None
                   (Some publicKey) programId) (\<lambda>ix. Inr [ix]))
      | AdminSecp256r1 s \<Rightarrow>
          rbind (prepareRevokeSession_web3 K reads programId payer walletPda (extractSecp256r1Params_web3 s)
                   sessionPda refundDestination) (\<lambda>prepared.
          rbind (sg_sign (sc_signer s) (prs_challenge prepared)) (\<lambda>response.
          finalizeRevokeSession_web3 prepared response)))"

text \<open>The \<open>ed25519\<close> and \<open>session\<close> cases of \<open>execute\<close>, and \<open>prepareExecute\<close> on the client.\<close>

definition execute_ed25519_web3 ::
  "kit \<Rightarrow> address \<Rightarrow> address \<Rightarrow> address \<Rightarrow> address \<Rightarrow> address \<Rightarrow> address option \<Rightarrow> web3_ix list
   \<Rightarrow> fee_web3 option \<Rightarrow> web3_ix list result" where
  "execute_ed25519_web3 K programId payer walletPda vaultPda publicKey authorityPda instructions fee =
     rbind (resolveEd25519AuthorityPda_web3 K programId publicKey authorityPda walletPda) (\<lambda>authorityPda.
     rbind (buildCompactLayout_web3 [payer, walletPda, authorityPda, vaultPda, publicKey] instructions payer)
       (\<lambda>(compactInstructions, remainingAccounts).
     rbind (packCompactInstructions_web3 compactInstructions) (\<lambda>packed.
     rbind (createExecuteIx_web3 payer walletPda authorityPda vaultPda packed None (Some publicKey)
              (Some remainingAccounts) (map_option fw_accounts fee) programId) (\<lambda>ix.
     Inr (register_head fee @ [ix])))))"

definition execute_session_web3 ::
  "address \<Rightarrow> address \<Rightarrow> address \<Rightarrow> address \<Rightarrow> address \<Rightarrow> address \<Rightarrow> web3_ix list
   \<Rightarrow> fee_web3 option \<Rightarrow> web3_ix list result" where
  "execute_session_web3 programId payer walletPda vaultPda sessionPda sessionKeyPubkey instructions fee =
     rbind (buildCompactLayout_web3 [payer, walletPda, sessionPda, vaultPda, sessionKeyPubkey] instructions payer)
       (\<lambda>(compactInstructions, remainingAccounts).
     rbind (packCompactInstructions_web3 compactInstructions) (\<lambda>packed.
     rbind (createExecuteIx_web3 payer walletPda sessionPda vaultPda packed None None
              (Some (wmeta sessionKeyPubkey True False # remainingAccounts)) (map_option fw_accounts fee) programId) (\<lambda>ix.
     Inr (register_head fee @ [ix]))))"

definition prepareExecute_on_web3 ::
  "kit \<Rightarrow> challenge_reads \<Rightarrow> rpc_account \<Rightarrow> int \<Rightarrow> address \<Rightarrow> address \<Rightarrow> secp256r1_params
   \<Rightarrow> web3_ix list \<Rightarrow> address option \<Rightarrow> prepared_execute_web3 stateful" where
  "prepareExecute_on_web3 K reads rpc rand payer walletPda secp256r1 instructions feePayer c =
     (case findVaultPda_web3 K walletPda (cl_programId c) of
        Inl e \<Rightarrow> (Inl e, c)
      | Inr _ \<Rightarrow> (case resolveProtocolFeeWithRegister_web3 K rpc rand payer c of
          (fee, c') \<Rightarrow>
            (prepareExecute_web3 K reads fee (cl_programId c) payer walletPda secp256r1 instructions feePayer, c')))"

definition execute_web3 ::
  "kit \<Rightarrow> challenge_reads \<Rightarrow> rpc_account \<Rightarrow> int \<Rightarrow> int \<Rightarrow> address \<Rightarrow> address \<Rightarrow> execute_signer
   \<Rightarrow> web3_ix list \<Rightarrow> address option \<Rightarrow> web3_ix list stateful" where
  "execute_web3 K reads rpc rand rand' payer walletPda signer instructions feePayer c =
     (let programId = cl_programId c in
      sbind (pure (findVaultPda_web3 K walletPda programId)) (\<lambda>(vaultPda, _).
      sbind (resolveProtocolFeeWithRegister_web3 K rpc rand payer) (\<lambda>fee.
      case signer of
        ExecuteEd25519 publicKey authorityPda \<Rightarrow>
          pure (execute_ed25519_web3 K programId payer walletPda vaultPda publicKey authorityPda instructions fee)
      | ExecuteSecp256r1 s \<Rightarrow>
          sbind (prepareExecute_on_web3 K reads rpc rand' payer walletPda (extractSecp256r1Params_web3 s) instructions
                   feePayer) (\<lambda>prepared.
          pure (rbind (sg_sign (sc_signer s) (pew_challenge prepared)) (\<lambda>response.
                finalizeExecute_web3 prepared response)))
      | ExecuteSession sessionPda sessionKeyPubkey \<Rightarrow>
          pure (execute_session_web3 programId payer walletPda vaultPda sessionPda sessionKeyPubkey instructions fee))) c)"

definition authorize_web3 ::
  "kit \<Rightarrow> challenge_reads \<Rightarrow> address \<Rightarrow> address \<Rightarrow> address \<Rightarrow> secp256r1_signer_config \<Rightarrow> web3_ix list
   \<Rightarrow> int option \<Rightarrow> address option \<Rightarrow> address option
   \<Rightarrow> (web3_ix list \<times> address \<times> int \<times> deferred_payload_web3) result" where
  "authorize_web3 K reads programId payer walletPda s instructions expiryOffset executor feePayer =
     rbind (prepareAuthorize_web3 K reads programId payer walletPda (extractSecp256r1Params_web3 s) instructions
              expiryOffset executor feePayer) (\<lambda>prepared.
     rbind (sg_sign (sc_signer s) (paw_challenge prepared)) (\<lambda>response.
     finalizeAuthorize_web3 prepared response))"

definition executeDeferredFromPayload_web3 ::
  "kit \<Rightarrow> rpc_account \<Rightarrow> int \<Rightarrow> address \<Rightarrow> deferred_payload_web3 \<Rightarrow> address option \<Rightarrow> web3_ix list stateful" where
  "executeDeferredFromPayload_web3 K rpc rand payer deferredPayload refundDestination c =
     (let programId = cl_programId c in
      sbind (pure
        (if (case dpw_executor deferredPayload of Some e \<Rightarrow> e \<noteq> payer | None \<Rightarrow> False)
            \<and> namesDeferredPayerSlot_web3 (dpw_compactInstructions deferredPayload)
         then Inl (Error ''This authorization was signed for another key to send ExecuteDeferred'')
         else rbind (findVaultPda_web3 K (dpw_walletPda deferredPayload) programId) (\<lambda>(vaultPda, _).
           rbind (packCompactInstructions_web3 (dpw_compactInstructions deferredPayload)) (\<lambda>packed.
           Inr (vaultPda, packed))))) (\<lambda>(vaultPda, packed).
      let refundDest = (case refundDestination of Some a \<Rightarrow> a | None \<Rightarrow>
            (case dpw_refundDestination deferredPayload of Some a \<Rightarrow> a | None \<Rightarrow> payer)) in
      sbind (resolveProtocolFeeWithRegister_web3 K rpc rand payer) (\<lambda>fee.
      pure (rbind (createExecuteDeferredIx_web3 payer (dpw_walletPda deferredPayload) vaultPda
                     (dpw_deferredExecPda deferredPayload) refundDest packed
                     (Some (dpw_remainingAccounts deferredPayload)) (map_option fw_accounts fee) programId) (\<lambda>ix.
            Inr (register_head fee @ [ix]))))) c)"

definition reclaimDeferred_web3 :: "address \<Rightarrow> address \<Rightarrow> address \<Rightarrow> address option \<Rightarrow> web3_ix list" where
  "reclaimDeferred_web3 programId payer deferredExecPda refundDestination =
     [createReclaimDeferredIx_web3 payer deferredExecPda
        (case refundDestination of Some a \<Rightarrow> a | None \<Rightarrow> payer) programId]"

section \<open>Protocol administration\<close>

definition initializeProtocol_web3 ::
  "kit \<Rightarrow> address \<Rightarrow> address \<Rightarrow> address \<Rightarrow> address \<Rightarrow> int \<Rightarrow> int \<Rightarrow> int \<Rightarrow> (web3_ix list \<times> address) result" where
  "initializeProtocol_web3 K programId payer admin treasury creationFee executionFee numShards =
     rbind (findProtocolConfigPda_web3 K programId) (\<lambda>(configPda, _).
     rbind (createInitializeProtocolIx_web3 K payer configPda admin treasury creationFee executionFee numShards programId)
       (\<lambda>ix. Inr ([ix], configPda)))"

definition updateProtocol_web3 ::
  "kit \<Rightarrow> address \<Rightarrow> address \<Rightarrow> int \<Rightarrow> int \<Rightarrow> bool \<Rightarrow> address \<Rightarrow> web3_ix list result" where
  "updateProtocol_web3 K programId admin creationFee executionFee enabled newTreasury =
     rbind (findProtocolConfigPda_web3 K programId) (\<lambda>(configPda, _).
     rbind (createUpdateProtocolIx_web3 K admin configPda creationFee executionFee enabled newTreasury programId)
       (\<lambda>ix. Inr [ix]))"

definition initializeTreasuryShard_web3 ::
  "kit \<Rightarrow> address \<Rightarrow> address \<Rightarrow> address \<Rightarrow> int \<Rightarrow> (web3_ix list \<times> address) result" where
  "initializeTreasuryShard_web3 K programId payer admin shardId =
     rbind (findProtocolConfigPda_web3 K programId) (\<lambda>(configPda, _).
     rbind (findTreasuryShardPda_web3 K shardId programId) (\<lambda>(shardPda, _).
     Inr ([createInitializeTreasuryShardIx_web3 payer configPda admin shardPda shardId programId], shardPda)))"

definition registerPayer_web3 :: "kit \<Rightarrow> address \<Rightarrow> address \<Rightarrow> (web3_ix list \<times> address) result" where
  "registerPayer_web3 K programId payer =
     rbind (findFeeRecordPda_web3 K payer programId) (\<lambda>(recordPda, _).
     Inr ([createRegisterPayerIx_web3 payer recordPda programId], recordPda))"

definition withdrawTreasury_web3 :: "kit \<Rightarrow> address \<Rightarrow> address \<Rightarrow> int \<Rightarrow> address \<Rightarrow> web3_ix list result" where
  "withdrawTreasury_web3 K programId admin shardId treasury =
     rbind (findProtocolConfigPda_web3 K programId) (\<lambda>(configPda, _).
     rbind (findTreasuryShardPda_web3 K shardId programId) (\<lambda>(shardPda, _).
     Inr [createWithdrawTreasuryIx_web3 admin configPda shardPda treasury programId]))"

end
