(* ===== verification/LegacyAgree.thy ===== *)
theory LegacyAgree
  imports LegacyClient
begin

text \<open>
  The two clients side by side: from the same reads, the same signer and the same arguments, the
  client for web3.js v1 returns the instructions of the kit client, read in its own notation, and
  leaves the same caches.
\<close>

section \<open>Checks and fee state\<close>

lemma web3_checks [simp]:
  "assertByteLength_web3 = assertByteLength" "assertNonZeroBytes_web3 = assertNonZeroBytes"
  "assertAddAuthorityRole_web3 = assertAddAuthorityRole" "assertSessionActions_web3 = assertSessionActions"
  "extractSecp256r1Params_web3 = extractSecp256r1Params" "namesDeferredPayerSlot_web3 = namesDeferredPayerSlot"
  by (auto simp: fun_eq_iff assertByteLength_web3_def assertByteLength_def assertNonZeroBytes_web3_def
      assertNonZeroBytes_def assertAddAuthorityRole_web3_def assertAddAuthorityRole_def
      assertSessionActions_web3_def assertSessionActions_def extractSecp256r1Params_web3_def
      extractSecp256r1Params_def namesDeferredPayerSlot_web3_def namesDeferredPayerSlot_def Let_def
      split: option.splits)

lemma web3_owner_fields [simp]: "resolveOwnerFields_web3 K owner = resolveOwnerFields K owner"
  by (cases owner) (simp_all add: Let_def)

lemma web3_resolvers [simp]:
  "resolveSecp256r1_web3 = resolveSecp256r1" "resolveEd25519AuthorityPda_web3 = resolveEd25519AuthorityPda"
  unfolding fun_eq_iff resolveSecp256r1_web3_def resolveSecp256r1_def resolveEd25519AuthorityPda_web3_def
    resolveEd25519AuthorityPda_def web3_pdas web3_checks by simp_all

lemma web3_config [simp]: "getProtocolConfig_web3 = getProtocolConfig"
  unfolding fun_eq_iff getProtocolConfig_web3_def getProtocolConfig_def decode_protocol_config_def web3_pdas by simp

lemma web3_fee [simp]: "resolveProtocolFee_web3 = resolveProtocolFee"
  by (simp add: fun_eq_iff resolveProtocolFee_web3_def resolveProtocolFee_def web3_pdas)

definition fee_to_web3 :: "fee_resolution \<Rightarrow> fee_web3" where
  "fee_to_web3 f = \<lparr>fw_accounts = fr_accounts f, fw_registerIx = map_option ix_web3 (fr_registerIx f)\<rparr>"

definition run_map :: "('a \<Rightarrow> 'b) \<Rightarrow> 'a result \<times> client \<Rightarrow> 'b result \<times> client" where
  "run_map f = (\<lambda>(r, c). (ok_map f r, c))"

lemma run_map_pair [simp]: "run_map f (r, c) = (ok_map f r, c)"
  by (simp add: run_map_def)

lemma sbind_run_map:
  "(\<And>c. m' c = run_map g (m c)) \<Longrightarrow> (\<And>x c. f' (g x) c = run_map h (f x c)) \<Longrightarrow>
    sbind m' f' c = run_map h (sbind m f c)"
  by (simp add: sbind_def run_map_def split: prod.split sum.split)

lemma sbind_run_map_same:
  "(\<And>x c. f' x c = run_map h (f x c)) \<Longrightarrow> sbind m f' c = run_map h (sbind m f c)"
  by (simp add: sbind_def run_map_def split: prod.split sum.split)

lemma web3_fee_register:
  "resolveProtocolFeeWithRegister_web3 K rpc rand payer c
    = run_map (map_option fee_to_web3) (resolveProtocolFeeWithRegister K rpc rand payer c)"
  unfolding resolveProtocolFeeWithRegister_web3_def resolveProtocolFeeWithRegister_def web3_fee web3_config
  by (intro sbind_run_map_same)
    (auto simp: pure_def fee_to_web3_def Let_def web3_plain_builders intro!: sbind_run_map_same
      split: option.split sum.split)

lemma register_head_web3 [simp]: "register_head (map_option fee_to_web3 fee) = map ix_web3 (with_register fee)"
  by (simp add: register_head_def with_register_def fee_to_web3_def split: option.split)

lemma fee_accounts_web3 [simp]: "map_option fw_accounts (map_option fee_to_web3 fee) = map_option fr_accounts fee"
  by (cases fee) (simp_all add: fee_to_web3_def)

section \<open>Runtime flags\<close>

definition flags_at :: "flag_union \<Rightarrow> address \<Rightarrow> bool \<times> bool" where
  "flags_at u a = (case map_of u a of Some f \<Rightarrow> f | None \<Rightarrow> (False, False))"

lemma flags_at_merge:
  "flags_at (merge_flags m u) a = (if a = wm_pubkey m
     then (wm_isSigner m \<or> fst (flags_at u a), wm_isWritable m \<or> snd (flags_at u a)) else flags_at u a)"
  by (auto simp: flags_at_def merge_flags_def Let_def split: option.splits)

lemma flags_at_fold:
  "flags_at (fold merge_flags (map meta_web3 ms) []) a = (asks_signer ms a, asks_writable ms a)"
proof (induction ms rule: rev_induct)
  case Nil
  then show ?case by (simp add: flags_at_def asks_signer_def asks_writable_def)
next
  case (snoc m ms)
  then show ?case by (auto simp: flags_at_merge asks_signer_def asks_writable_def meta_web3_def)
qed

lemma web3_runtime_flags:
  "withRuntimeFlags (map meta_web3 ms) feePayer = map meta_web3 (withRuntimeRoles ms feePayer)"
proof -
  define u where "u = (case feePayer of Some p \<Rightarrow> merge_flags (wmeta p True True) (fold merge_flags (map meta_web3 ms) [])
    | None \<Rightarrow> fold merge_flags (map meta_web3 ms) [])"
  have at: "flags_at u a = (asks_signer ms a \<or> feePayer = Some a, asks_writable ms a \<or> feePayer = Some a)" for a
    by (auto simp: u_def flags_at_merge flags_at_fold split: option.split)
  have "(case map_of u a of Some (s, w) \<Rightarrow> wmeta a s w | None \<Rightarrow> wmeta a False False)
      = wmeta a (fst (flags_at u a)) (snd (flags_at u a))" for a
    by (simp add: flags_at_def split: option.split)
  then show ?thesis
    unfolding withRuntimeFlags_def Let_def u_def [symmetric]
    by (simp add: at withRuntimeRoles_eq meta_web3_def role_of_bits)
qed

definition layout_to_web3 :: "compact_layout \<Rightarrow> layout_web3" where
  "layout_to_web3 l = \<lparr>lw_compactInstructions = cly_compactInstructions l,
     lw_remainingAccounts = map meta_web3 (cly_remainingAccounts l),
     lw_allAccountMetas = map meta_web3 (cly_allAccountMetas l), lw_accountsHash = cly_accountsHash l\<rparr>"

lemma web3_layout_hash:
  assumes "fixed = map meta_web3 ms" "payer = am_address (ms ! 0)" "ms \<noteq> []"
  shows "buildCompactLayoutAndHash_web3 K fixed (map ix_web3 ixs) feePayer
    = ok_map layout_to_web3 (buildCompactLayoutAndHash K ms ixs payer feePayer)"
proof -
  have k: "map wm_pubkey fixed = map am_address ms" "map am_address ms ! 0 = payer"
    using assms by (simp_all add: meta_web3_def comp_def)
  show ?thesis
    unfolding buildCompactLayoutAndHash_web3_def buildCompactLayoutAndHash_def Let_def k web3_layout
    unfolding assms(1)
    by (auto simp: ok_map_def rbind_assoc web3_runtime_flags web3_accounts_hash layout_to_web3_def
        simp flip: map_append intro!: arg_cong [of _ _ "rbind (buildCompactLayout (map am_address ms) ixs payer)"])
qed

section \<open>Signing\<close>

text \<open>What the challenge reads hand over fits its fields: a slot is a u64, a counter a u32.\<close>

definition reads_fit :: "challenge_reads \<Rightarrow> bool" where
  "reads_fit reads \<longleftrightarrow> (\<forall>a p pk slot counter. reads a p = Inr (pk, slot, counter) \<longrightarrow>
     (0 \<le> slot \<and> slot < 2 ^ 64) \<and> (0 \<le> counter \<and> counter < 2 ^ 32))"

definition prepared_fits :: "prepared_secp256r1 \<Rightarrow> bool" where
  "prepared_fits s \<longleftrightarrow> slot_fields_fit (si_slot (ps_internal s)) (si_counter (ps_internal s))
     (si_sysvarIxIndex (ps_internal s))"

lemma resolve_fits:
  assumes "reads_fit reads" "resolveSecp256r1 K reads programId wallet p = Inr r"
  shows "0 \<le> idx \<Longrightarrow> idx < 256 \<Longrightarrow> slot_fields_fit (rs_slot r) (rs_counter r) idx"
    "0 \<le> rs_counter r \<and> rs_counter r < 2 ^ 32"
  using assms by (auto simp: resolveSecp256r1_def rbind_eq_Inr reads_fit_def slot_fields_fit_def)

lemma web3_signing:
  "slot_fields_fit slot counter idx \<Longrightarrow>
    buildPasskeySigning_web3 K programId disc idx payload slot counter payer wallet pk
      = buildPasskeySigning K programId disc idx payload slot counter payer wallet pk None"
  by (simp add: buildPasskeySigning_web3_def buildPasskeySigning_def web3_prepare)

lemma signing_fits:
  "buildPasskeySigning K programId disc idx payload slot counter payer wallet pk None = Inr s \<Longrightarrow>
    slot_fields_fit slot counter idx \<Longrightarrow> prepared_fits s"
  by (auto simp: buildPasskeySigning_def prepareSecp256r1_def rbind_eq_Inr prepared_fits_def)

lemma web3_finalize_fits:
  "prepared_fits s \<Longrightarrow>
    finalizeSecp256r1_web3 s r = rbind (finalizeSecp256r1 s r) (\<lambda>(payload, ix). Inr (payload, ix_web3 ix))"
  using web3_finalize [of s r] by (simp add: prepared_fits_def ok_map_def case_prod_unfold)

lemma signing_agrees:
  "reads_fit reads \<Longrightarrow> resolveSecp256r1 K reads programId wallet p = Inr r \<Longrightarrow> 0 \<le> idx \<Longrightarrow> idx < 256 \<Longrightarrow>
    buildPasskeySigning_web3 K' programId' disc idx payload (rs_slot r) (rs_counter r) payer wallet' pk
      = buildPasskeySigning K' programId' disc idx payload (rs_slot r) (rs_counter r) payer wallet' pk None"
  by (simp add: web3_signing resolve_fits)

lemmas prepare_simps = sysvar_idx_defs web3_pdas case_prod_unfold

lemma web3_prepareAddAuthority:
  assumes "reads_fit reads" "length (opt_bytes policy) < 65536"
  shows "prepareAddAuthority_web3 K reads programId payer wallet secp new role policy allow
    = prepareAddAuthority K reads programId payer wallet secp new role policy allow"
  unfolding prepareAddAuthority_web3_def prepareAddAuthority_def
  using assms by (auto simp: prepare_simps web3_payload_add intro!: rbind_cong intro: signing_agrees)

lemma web3_prepareRemoveAuthority:
  assumes "reads_fit reads"
  shows "prepareRemoveAuthority_web3 K reads programId payer wallet secp target refund
    = prepareRemoveAuthority K reads programId payer wallet secp target refund"
  unfolding prepareRemoveAuthority_web3_def prepareRemoveAuthority_def
  using assms by (auto simp: prepare_simps Let_def intro!: rbind_cong intro: signing_agrees)

lemma web3_prepareTransferOwnership:
  assumes "reads_fit reads"
  shows "prepareTransferOwnership_web3 K reads programId payer wallet secp new refund
    = prepareTransferOwnership K reads programId payer wallet secp new refund"
  unfolding prepareTransferOwnership_web3_def prepareTransferOwnership_def
  using assms by (auto simp: prepare_simps Let_def intro!: rbind_cong intro: signing_agrees)

text \<open>The actions of a session both serializers accept.\<close>

definition actions_fit :: "kit \<Rightarrow> session_action list option \<Rightarrow> bool" where
  "actions_fit K actions = (case actions of Some as \<Rightarrow> list_all (action_wf K) as | None \<Rightarrow> True)"

lemma web3_session_actions:
  assumes "address_codec K" "uint_codecs K" "actions_fit K actions"
  shows "session_actions_web3 K actions = session_actions_buffer K actions"
proof (cases actions)
  case (Some as)
  then have "list_all (keys_ok K) as" "list_all amounts_ok as"
    using assms(3) by (auto simp: actions_fit_def action_wf_def keys_ok_def list_all_iff)
  then show ?thesis
    using serializeActions_web3_eq [OF assms(1)] serializeActions_ok [OF assms(2)]
    by (simp add: Some session_actions_web3_def session_actions_buffer_def)
qed (simp add: session_actions_web3_def session_actions_buffer_def)

lemma web3_prepareCreateSession:
  assumes "reads_fit reads" "address_codec K" "uint_codecs K" "actions_fit K actions" "k_isAddress K key"
    and "- (2 ^ 63) \<le> expiry \<and> expiry < 2 ^ 63"
  shows "prepareCreateSession_web3 K reads programId payer wallet secp key expiry actions unrestricted
    = prepareCreateSession K reads programId payer wallet secp key expiry actions unrestricted"
proof -
  have p: "buildDataPayloadForSession_web3 (k_encAddr K key) expiry b = buildDataPayloadForSession (k_encAddr K key) expiry b" for b
    using web3_payload_session [of "k_encAddr K key" expiry b] assms(6) encAddr_length [OF assms(2,5)] by simp
  show ?thesis
    unfolding prepareCreateSession_web3_def prepareCreateSession_def Let_def p web3_session_actions [OF assms(2-4)]
    using assms(1) by (auto simp: prepare_simps intro!: rbind_cong intro: signing_agrees)
qed

lemma web3_prepareRevokeSession:
  assumes "reads_fit reads"
  shows "prepareRevokeSession_web3 K reads programId payer wallet secp session refund
    = prepareRevokeSession K reads programId payer wallet secp session refund"
  unfolding prepareRevokeSession_web3_def prepareRevokeSession_def
  using assms by (auto simp: prepare_simps Let_def intro!: rbind_cong intro: signing_agrees)

definition execute_to_web3 :: "prepared_execute \<Rightarrow> prepared_execute_web3" where
  "execute_to_web3 p = \<lparr>pew_challenge = pex_challenge p, pew_signing = pex_signing p, pew_payer = pex_payer p,
     pew_walletPda = pex_walletPda p, pew_authorityPda = pex_authorityPda p, pew_vaultPda = pex_vaultPda p,
     pew_packed = pex_packed p, pew_remainingAccounts = map meta_web3 (pex_remainingAccounts p),
     pew_protocolFee = pex_protocolFee p, pew_registerIx = map_option ix_web3 (pex_registerIx p),
     pew_programId = pex_programId p\<rparr>"

definition payload_to_web3 :: "deferred_payload \<Rightarrow> deferred_payload_web3" where
  "payload_to_web3 d = \<lparr>dpw_walletPda = dp_walletPda d, dpw_deferredExecPda = dp_deferredExecPda d,
     dpw_compactInstructions = dp_compactInstructions d,
     dpw_remainingAccounts = map meta_web3 (dp_remainingAccounts d),
     dpw_executor = dp_executor d, dpw_refundDestination = dp_refundDestination d\<rparr>"

definition authorize_to_web3 :: "prepared_authorize \<Rightarrow> prepared_authorize_web3" where
  "authorize_to_web3 p = \<lparr>paw_challenge = paz_challenge p, paw_signing = paz_signing p, paw_counter = paz_counter p,
     paw_payer = paz_payer p, paw_executor = paz_executor p, paw_walletPda = paz_walletPda p,
     paw_authorityPda = paz_authorityPda p, paw_deferredExecPda = paz_deferredExecPda p,
     paw_instructionsHash = paz_instructionsHash p, paw_accountsHash = paz_accountsHash p,
     paw_expiryOffset = paz_expiryOffset p, paw_compactInstructions = paz_compactInstructions p,
     paw_remainingAccounts = map meta_web3 (paz_remainingAccounts p), paw_programId = paz_programId p\<rparr>"

lemma rbind_ok_map_cong:
  "m' = ok_map g m \<Longrightarrow> (\<And>x. m = Inr x \<Longrightarrow> f' (g x) = ok_map h (f x)) \<Longrightarrow> rbind m' f' = ok_map h (rbind m f)"
  by (cases m) simp_all

lemma rbind_ok_map_cong_same:
  "m' = m \<Longrightarrow> (\<And>x. m = Inr x \<Longrightarrow> f' x = ok_map h (f x)) \<Longrightarrow> rbind m' f' = ok_map h (rbind m f)"
  by (cases m) simp_all

lemma address_of_meta [simp]: "am_address (meta a r) = a"
  by (simp add: meta_def)

lemma web3_execute_layout:
  "buildCompactLayoutAndHash_web3 K [wmeta payer True True, wmeta wallet False False, wmeta authority False True,
      wmeta vault False True, wmeta SYSVAR_INSTRUCTIONS_ADDRESS False False] (map ix_web3 ixs) feePayer
    = ok_map layout_to_web3 (buildCompactLayoutAndHash K [meta payer WRITABLE_SIGNER, meta wallet READONLY,
        meta authority WRITABLE, meta vault WRITABLE, meta SYSVAR_INSTRUCTIONS_ADDRESS READONLY] ixs payer feePayer)"
  by (rule web3_layout_hash) simp_all

lemma web3_deferred_layout:
  "buildCompactLayoutAndHash_web3 K [wmeta executor True True, wmeta wallet False False, wmeta vault False True,
      wmeta deferred False True, wmeta payer False True] (map ix_web3 ixs) feePayer
    = ok_map layout_to_web3 (buildCompactLayoutAndHash K (deferred_fixed_accounts executor wallet vault deferred payer)
        ixs executor feePayer)"
  by (rule web3_layout_hash) (simp_all add: deferred_fixed_accounts_def)

lemma web3_prepareExecute:
  assumes "reads_fit reads"
  shows "prepareExecute_web3 K reads (ok_map (map_option fee_to_web3) fee) programId payer wallet secp (map ix_web3 ixs) feePayer
    = ok_map execute_to_web3 (prepareExecute K reads fee programId payer wallet secp ixs feePayer)"
proof (cases "resolveSecp256r1 K reads programId wallet secp")
  case (Inl e)
  then show ?thesis
    by (cases "findVaultPda K wallet programId")
      (auto simp: prepareExecute_web3_def prepareExecute_def web3_pdas)
next
  case (Inr r)
  have s: "buildPasskeySigning_web3 K programId disc SYSVAR_IX_INDEX_EXECUTE payload (rs_slot r) (rs_counter r) payer wallet pk
      = buildPasskeySigning K programId disc SYSVAR_IX_INDEX_EXECUTE payload (rs_slot r) (rs_counter r) payer wallet pk None" for disc payload pk
    using signing_agrees [OF assms Inr, of SYSVAR_IX_INDEX_EXECUTE] by (simp add: sysvar_idx_defs)
  show ?thesis
    unfolding prepareExecute_web3_def prepareExecute_def Let_def web3_pdas web3_resolvers Inr rbind_Inr
    by (cases "findVaultPda K wallet programId"; cases fee)
      (auto simp: web3_execute_layout ok_map_def rbind_assoc s execute_to_web3_def layout_to_web3_def fee_to_web3_def
        intro!: rbind_cong split: option.split)
qed

lemma web3_prepareAuthorize:
  assumes "reads_fit reads"
  shows "prepareAuthorize_web3 K reads programId payer wallet secp (map ix_web3 ixs) expiry executor feePayer
    = ok_map authorize_to_web3 (prepareAuthorize K reads programId payer wallet secp ixs expiry executor feePayer)"
proof (cases "resolveSecp256r1 K reads programId wallet secp")
  case (Inl e)
  then show ?thesis
    by (cases "findVaultPda K wallet programId")
      (auto simp: prepareAuthorize_web3_def prepareAuthorize_def web3_pdas)
next
  case (Inr r)
  have s: "buildPasskeySigning_web3 K programId disc SYSVAR_IX_INDEX_AUTHORIZE payload (rs_slot r) (rs_counter r) payer wallet pk
      = buildPasskeySigning K programId disc SYSVAR_IX_INDEX_AUTHORIZE payload (rs_slot r) (rs_counter r) payer wallet pk None" for disc payload pk
    using signing_agrees [OF assms Inr, of SYSVAR_IX_INDEX_AUTHORIZE] by (simp add: sysvar_idx_defs)
  have d: "findDeferredExecPda_web3 K wallet (rs_authorityPda r) (rs_counter r) programId
      = findDeferredExecPda K wallet (rs_authorityPda r) (rs_counter r) programId"
    using resolve_fits(2) [OF assms Inr] by (simp add: web3_deferred_pda)
  show ?thesis
    unfolding prepareAuthorize_web3_def prepareAuthorize_def Let_def web3_pdas web3_resolvers Inr rbind_Inr d
      web3_deferred_layout
    by (cases "findVaultPda K wallet programId";
        cases "findDeferredExecPda K wallet (rs_authorityPda r) (rs_counter r) programId")
      (auto simp: ok_map_def rbind_assoc s authorize_to_web3_def layout_to_web3_def intro!: rbind_cong)
qed

section \<open>Finalizing\<close>

lemma finalize_two:
  assumes "prepared_fits s" "\<And>payload. g' payload = ok_map ix_web3 (g payload)"
  shows "rbind (finalizeSecp256r1_web3 s r) (\<lambda>(payload, pre). rbind (g' payload) (\<lambda>ix. Inr (f' pre ix)))
    = rbind (finalizeSecp256r1 s r) (\<lambda>(payload, pre). rbind (g payload) (\<lambda>ix. Inr (f' (ix_web3 pre) (ix_web3 ix))))"
  unfolding web3_finalize_fits [OF assms(1)] assms(2)
  by (auto simp: ok_map_def rbind_assoc intro!: rbind_cong)

lemma web3_finalizeAddAuthority:
  assumes "prepared_fits (paa_signing p)" "length (opt_bytes (paa_policy p)) < 65536"
  shows "finalizeAddAuthority_web3 p r = ok_map (\<lambda>(ixs, a). (map ix_web3 ixs, a)) (finalizeAddAuthority p r)"
  unfolding finalizeAddAuthority_web3_def finalizeAddAuthority_def
  by (subst finalize_two [OF assms(1)]) (auto simp: web3_addAuthority assms(2) ok_map_def rbind_assoc intro!: rbind_cong)

lemma web3_finalizeRemoveAuthority:
  assumes "prepared_fits (pra_signing p)"
  shows "finalizeRemoveAuthority_web3 p r = ok_map (map ix_web3) (finalizeRemoveAuthority p r)"
  unfolding finalizeRemoveAuthority_web3_def finalizeRemoveAuthority_def
  by (subst finalize_two [OF assms web3_removeAuthority]) (auto simp: ok_map_def rbind_assoc intro!: rbind_cong)

lemma web3_finalizeTransferOwnership:
  assumes "prepared_fits (pto_signing p)"
  shows "finalizeTransferOwnership_web3 p r = ok_map (\<lambda>(ixs, a). (map ix_web3 ixs, a)) (finalizeTransferOwnership p r)"
  unfolding finalizeTransferOwnership_web3_def finalizeTransferOwnership_def
  by (subst finalize_two [OF assms web3_transferOwnership]) (auto simp: ok_map_def rbind_assoc intro!: rbind_cong)

lemma web3_finalizeCreateSession:
  assumes "prepared_fits (pcs_signing p)" "- (2 ^ 63) \<le> pcs_expiresAt p \<and> pcs_expiresAt p < 2 ^ 63"
  shows "finalizeCreateSession_web3 p r = ok_map (\<lambda>(ixs, a). (map ix_web3 ixs, a)) (finalizeCreateSession p r)"
  unfolding finalizeCreateSession_web3_def finalizeCreateSession_def
  by (subst finalize_two [OF assms(1)]) (use assms(2) in \<open>auto simp: web3_createSession ok_map_def rbind_assoc intro!: rbind_cong\<close>)

lemma web3_finalizeRevokeSession:
  assumes "prepared_fits (prs_signing p)"
  shows "finalizeRevokeSession_web3 p r = ok_map (map ix_web3) (finalizeRevokeSession p r)"
  unfolding finalizeRevokeSession_web3_def finalizeRevokeSession_def
  by (subst finalize_two [OF assms web3_revokeSession]) (auto simp: ok_map_def rbind_assoc intro!: rbind_cong)

lemma web3_finalizeExecute:
  assumes "prepared_fits (pex_signing p)"
  shows "finalizeExecute_web3 (execute_to_web3 p) r = ok_map (map ix_web3) (finalizeExecute p r)"
  using web3_execute [where rest = "Some (pex_remainingAccounts p)"] assms
  unfolding finalizeExecute_web3_def finalizeExecute_def
  by (subst finalize_two) (auto simp: execute_to_web3_def ok_map_def rbind_assoc intro!: rbind_cong split: option.split)

lemma web3_finalizeAuthorize:
  assumes "prepared_fits (paz_signing p)" "0 \<le> paz_expiryOffset p \<and> paz_expiryOffset p < 65536"
  shows "finalizeAuthorize_web3 (authorize_to_web3 p) r
    = ok_map (\<lambda>(ixs, a, n, d). (map ix_web3 ixs, a, n, payload_to_web3 d)) (finalizeAuthorize p r)"
  unfolding finalizeAuthorize_web3_def finalizeAuthorize_def
  by (subst finalize_two) (use assms in \<open>auto simp: web3_authorize authorize_to_web3_def payload_to_web3_def
      ok_map_def rbind_assoc intro!: rbind_cong\<close>)

text \<open>Every prepared operation signs fields that fit.\<close>

lemma prepared_operations_fit:
  assumes "reads_fit reads"
  shows "prepareAddAuthority K reads programId payer wallet secp new role policy allow = Inr paa \<Longrightarrow>
      prepared_fits (paa_signing paa) \<and> paa_policy paa = policy"
    and "prepareRemoveAuthority K reads programId payer wallet secp target refund = Inr pra \<Longrightarrow>
      prepared_fits (pra_signing pra)"
    and "prepareTransferOwnership K reads programId payer wallet secp new refund = Inr pto \<Longrightarrow>
      prepared_fits (pto_signing pto)"
    and "prepareCreateSession K reads programId payer wallet secp key expiry actions unrestricted = Inr pcs \<Longrightarrow>
      prepared_fits (pcs_signing pcs) \<and> pcs_expiresAt pcs = expiry"
    and "prepareRevokeSession K reads programId payer wallet secp session refund = Inr prs \<Longrightarrow>
      prepared_fits (prs_signing prs)"
    and "prepareExecute K reads fee programId payer wallet secp ixs feePayer = Inr pex \<Longrightarrow>
      prepared_fits (pex_signing pex)"
    and "prepareAuthorize K reads programId payer wallet secp ixs offset executor feePayer = Inr paz \<Longrightarrow>
      prepared_fits (paz_signing paz) \<and> paz_expiryOffset paz = (case offset of Some e \<Rightarrow> e | None \<Rightarrow> 300)"
  using resolve_fits(1) [OF assms]
  by (auto simp: prepareAddAuthority_def prepareRemoveAuthority_def prepareTransferOwnership_def
      prepareCreateSession_def prepareRevokeSession_def prepareExecute_def prepareAuthorize_def rbind_eq_Inr Let_def
      sysvar_idx_defs intro!: signing_fits)

section \<open>The unified methods\<close>

abbreviation with_address :: "instruction list \<times> 'a \<Rightarrow> web3_ix list \<times> 'a" where
  "with_address \<equiv> (\<lambda>(ixs, a). (map ix_web3 ixs, a))"

lemma web3_addAuthority_method:
  assumes "reads_fit reads" "length (opt_bytes policy) < 65536"
  shows "addAuthority_web3 K reads programId payer wallet signer new role policy allow
    = ok_map with_address (addAuthority K reads programId payer wallet signer new role policy allow)"
  unfolding addAuthority_web3_def addAuthority_def
  using assms prepared_operations_fit(1) [OF assms(1)]
  by (auto simp: web3_pdas web3_addAuthority web3_prepareAddAuthority ok_map_def rbind_assoc
      web3_finalizeAddAuthority case_prod_unfold intro!: rbind_cong split: admin_signer.split)

lemma web3_removeAuthority_method:
  assumes "reads_fit reads"
  shows "removeAuthority_web3 K reads programId payer wallet signer target refund
    = ok_map (map ix_web3) (removeAuthority K reads programId payer wallet signer target refund)"
  unfolding removeAuthority_web3_def removeAuthority_def
  using assms prepared_operations_fit(2) [OF assms]
  by (auto simp: web3_removeAuthority web3_prepareRemoveAuthority ok_map_def rbind_assoc Let_def
      web3_finalizeRemoveAuthority intro!: rbind_cong split: admin_signer.split)

lemma web3_transferOwnership_method:
  assumes "reads_fit reads"
  shows "transferOwnership_web3 K reads programId payer wallet signer new refund
    = ok_map with_address (transferOwnership K reads programId payer wallet signer new refund)"
  unfolding transferOwnership_web3_def transferOwnership_def
  using assms prepared_operations_fit(3) [OF assms]
  by (auto simp: web3_pdas web3_transferOwnership web3_prepareTransferOwnership ok_map_def rbind_assoc Let_def
      web3_finalizeTransferOwnership case_prod_unfold intro!: rbind_cong split: admin_signer.split)

lemma web3_createSession_method:
  assumes "reads_fit reads" "address_codec K" "uint_codecs K" "actions_fit K actions" "k_isAddress K key"
    and "- (2 ^ 63) \<le> expiry \<and> expiry < 2 ^ 63"
  shows "createSession_web3 K reads programId payer wallet signer key expiry actions unrestricted
    = ok_map with_address (createSession K reads programId payer wallet signer key expiry actions unrestricted)"
  unfolding createSession_web3_def createSession_def web3_session_actions [OF assms(2-4)]
  using assms prepared_operations_fit(4) [OF assms(1)]
  by (auto simp: web3_pdas web3_createSession web3_prepareCreateSession ok_map_def rbind_assoc Let_def
      web3_finalizeCreateSession case_prod_unfold intro!: rbind_cong split: admin_signer.split)

lemma web3_revokeSession_method:
  assumes "reads_fit reads"
  shows "revokeSession_web3 K reads programId payer wallet signer session refund
    = ok_map (map ix_web3) (revokeSession K reads programId payer wallet signer session refund)"
  unfolding revokeSession_web3_def revokeSession_def
  using assms prepared_operations_fit(5) [OF assms]
  by (auto simp: web3_revokeSession web3_prepareRevokeSession ok_map_def rbind_assoc Let_def
      web3_finalizeRevokeSession intro!: rbind_cong split: admin_signer.split)

lemma web3_authorize_method:
  assumes "reads_fit reads" "case offset of Some e \<Rightarrow> 0 \<le> e \<and> e < 65536 | None \<Rightarrow> True"
  shows "authorize_web3 K reads programId payer wallet s (map ix_web3 ixs) offset executor feePayer
    = ok_map (\<lambda>(ixs, a, n, d). (map ix_web3 ixs, a, n, payload_to_web3 d))
        (authorize K reads programId payer wallet s ixs offset executor feePayer)"
proof -
  have fin: "finalizeAuthorize_web3 (authorize_to_web3 p) r
      = ok_map (\<lambda>(ixs, a, n, d). (map ix_web3 ixs, a, n, payload_to_web3 d)) (finalizeAuthorize p r)"
    if "prepareAuthorize K reads programId payer wallet (extractSecp256r1Params s) ixs offset executor feePayer = Inr p" for p r
    using assms(2) prepared_operations_fit(7) [OF assms(1) that]
    by (intro web3_finalizeAuthorize) (auto split: option.splits)
  show ?thesis
    unfolding authorize_web3_def authorize_def web3_checks web3_prepareAuthorize [OF assms(1)]
    by (rule rbind_ok_map_cong [OF refl], rule rbind_ok_map_cong_same) (simp_all add: authorize_to_web3_def fin [unfolded authorize_to_web3_def])
qed

lemma web3_execute_ed25519:
  "execute_ed25519_web3 K programId payer wallet vault key authority (map ix_web3 ixs) (map_option fee_to_web3 fee)
    = ok_map (map ix_web3) (execute_ed25519 K programId payer wallet vault key authority ixs fee)"
  using web3_execute [where rest = "Some _"]
  by (auto simp: execute_ed25519_web3_def execute_ed25519_def web3_layout ok_map_def rbind_assoc case_prod_unfold
      intro!: rbind_cong simp del: option.map_comp)

lemma web3_execute_session:
  "execute_session_web3 programId payer wallet vault session key (map ix_web3 ixs) (map_option fee_to_web3 fee)
    = ok_map (map ix_web3) (execute_session programId payer wallet vault session key ixs fee)"
proof -
  have "createExecuteIx_web3 payer wallet session vault packed None None
      (Some (wmeta key True False # map meta_web3 rest)) f programId
    = ok_map ix_web3 (createExecuteIx payer wallet session vault packed None None
      (Some (meta key READONLY_SIGNER # rest)) f programId)" for packed rest f
    using web3_execute [where rest = "Some (meta key READONLY_SIGNER # rest)"] by simp
  then show ?thesis
    by (auto simp: execute_session_web3_def execute_session_def web3_layout ok_map_def rbind_assoc case_prod_unfold
        intro!: rbind_cong simp del: option.map_comp)
qed

lemma web3_prepareExecute_on:
  assumes "reads_fit reads"
  shows "prepareExecute_on_web3 K reads rpc rand payer wallet secp (map ix_web3 ixs) feePayer c
    = run_map execute_to_web3 (prepareExecute_on K reads rpc rand payer wallet secp ixs feePayer c)"
  by (simp add: prepareExecute_on_web3_def prepareExecute_on_def web3_pdas web3_fee_register run_map_def
      web3_prepareExecute [OF assms] split: sum.split prod.split)

lemma prepareExecute_on_fits:
  "reads_fit reads \<Longrightarrow> prepareExecute_on K reads rpc rand payer wallet secp ixs feePayer c = (Inr p, c') \<Longrightarrow>
    prepared_fits (pex_signing p)"
  using prepared_operations_fit(6)
  by (fastforce simp: prepareExecute_on_def split: sum.splits prod.splits)

lemma web3_execute_method:
  assumes "reads_fit reads"
  shows "execute_web3 K reads rpc rand rand' payer wallet signer (map ix_web3 ixs) feePayer c0
    = run_map (map ix_web3) (execute K reads rpc rand rand' payer wallet signer ixs feePayer c0)"
proof -
  have p: "pure (ok_map f r) c = run_map f (pure r c)" for f :: "'a \<Rightarrow> 'b" and r c by (simp add: pure_def)
  have k: "sbind (prepareExecute_on_web3 K reads rpc rand' payer wallet secp (map ix_web3 ixs) feePayer) (\<lambda>prepared.
        pure (rbind (sign (pew_challenge prepared)) (\<lambda>response. finalizeExecute_web3 prepared response))) c
      = run_map (map ix_web3) (sbind (prepareExecute_on K reads rpc rand' payer wallet secp ixs feePayer) (\<lambda>prepared.
        pure (rbind (sign (pex_challenge prepared)) (\<lambda>response. finalizeExecute prepared response))) c)" for secp sign c
    using prepareExecute_on_fits [OF assms]
    by (auto simp: sbind_def web3_prepareExecute_on [OF assms] pure_def web3_finalizeExecute ok_map_rbind
        execute_to_web3_def [THEN arg_cong [of _ _ pew_challenge]] split: prod.split sum.split intro!: rbind_cong)
  show ?thesis
    unfolding execute_web3_def execute_def Let_def web3_pdas
    by (intro sbind_run_map_same, clarify, rule sbind_run_map [OF web3_fee_register])
      (simp add: web3_execute_ed25519 web3_execute_session p k split: execute_signer.split)
qed

definition wallet_to_web3 :: "created_wallet \<Rightarrow> created_wallet_web3" where
  "wallet_to_web3 w = \<lparr>cww_instructions = map ix_web3 (cw_instructions w), cww_walletPda = cw_walletPda w,
     cww_vaultPda = cw_vaultPda w, cww_depositAddress = cw_vaultPda w, cww_authorityPda = cw_authorityPda w\<rparr>"

lemma web3_createWallet_method:
  "createWallet_web3 K rpc rand payer seed owner c = run_map wallet_to_web3 (createWallet K rpc rand payer seed owner c)"
  unfolding createWallet_web3_def createWallet_def Let_def web3_pdas web3_checks web3_owner_fields
  by (intro sbind_run_map_same, clarify, rule sbind_run_map [OF web3_fee_register])
    (simp add: pure_def web3_createWallet ok_map_def rbind_assoc wallet_to_web3_def del: option.map_comp)

lemma payload_fields_web3 [simp]:
  "dpw_walletPda (payload_to_web3 d) = dp_walletPda d"
  "dpw_deferredExecPda (payload_to_web3 d) = dp_deferredExecPda d"
  "dpw_compactInstructions (payload_to_web3 d) = dp_compactInstructions d"
  "dpw_remainingAccounts (payload_to_web3 d) = map meta_web3 (dp_remainingAccounts d)"
  "dpw_executor (payload_to_web3 d) = dp_executor d"
  "dpw_refundDestination (payload_to_web3 d) = dp_refundDestination d"
  by (simp_all add: payload_to_web3_def)

lemma web3_executeDeferred_method:
  "fst (executeDeferredFromPayload_web3 K rpc rand payer (payload_to_web3 d) refund c)
    = ok_map (map ix_web3) (executeDeferredFromPayload K (fst (resolveProtocolFeeWithRegister K rpc rand payer c))
        (cl_programId c) payer d refund)"
proof -
  have h: "(case fee of Some f \<Rightarrow> (case fr_registerIx f of Some reg \<Rightarrow> [reg, ix] | None \<Rightarrow> [ix]) | None \<Rightarrow> [ix])
      = with_register fee @ [ix]" for fee ix
    by (simp add: with_register_def split: option.split)
  have e: "createExecuteDeferredIx_web3 payer w v x r packed (Some (map meta_web3 rest)) f p
      = ok_map ix_web3 (createExecuteDeferredIx payer w v x r packed (Some rest) f p)" for w v x r packed rest f p
    using web3_executeDeferred [where rest = "Some rest"] by simp
  obtain fee c' where R: "resolveProtocolFeeWithRegister K rpc rand payer c = (fee, c')" by fastforce
  show ?thesis
    unfolding executeDeferredFromPayload_web3_def executeDeferredFromPayload_def Let_def web3_pdas web3_checks web3_packing h
      payload_fields_web3
    by (cases "findVaultPda K (dp_walletPda d) (cl_programId c)";
        cases "packCompactInstructions (dp_compactInstructions d)"; cases fee)
      (auto simp: sbind_def pure_def web3_fee_register R e ok_map_def rbind_assoc simp del: option.map_comp)
qed

lemma web3_admin_methods:
  "(0 \<le> cf \<and> cf < 2 ^ 64) \<and> (0 \<le> ef \<and> ef < 2 ^ 64) \<Longrightarrow>
    initializeProtocol_web3 K p payer admin treasury cf ef shards
      = ok_map with_address (initializeProtocol K p payer admin treasury cf ef shards)
    \<and> updateProtocol_web3 K p admin cf ef enabled treasury
      = ok_map (map ix_web3) (updateProtocol K p admin cf ef enabled treasury)"
  "initializeTreasuryShard_web3 K p payer admin shard = ok_map with_address (initializeTreasuryShard K p payer admin shard)"
  "registerPayer_web3 K p payer = ok_map with_address (registerPayer K p payer)"
  "withdrawTreasury_web3 K p admin shard treasury = ok_map (map ix_web3) (withdrawTreasury K p admin shard treasury)"
  "reclaimDeferred_web3 p payer deferred refund = map ix_web3 (reclaimDeferred p payer deferred refund)"
  unfolding initializeProtocol_web3_def initializeProtocol_def updateProtocol_web3_def updateProtocol_def
    initializeTreasuryShard_web3_def initializeTreasuryShard_def registerPayer_web3_def registerPayer_def
    withdrawTreasury_web3_def withdrawTreasury_def reclaimDeferred_web3_def reclaimDeferred_def web3_pdas
  by (auto simp: web3_initializeProtocol web3_updateProtocol web3_plain_builders ok_map_def rbind_assoc case_prod_unfold
      intro!: rbind_cong)

section \<open>The two clients\<close>

text \<open>What a caller passes that has to fit a field wider than a byte.\<close>

definition arguments_fit :: "kit \<Rightarrow> bytes option \<Rightarrow> int \<Rightarrow> session_action list option \<Rightarrow> int option \<Rightarrow> bool" where
  "arguments_fit K policy expiresAt actions expiryOffset \<longleftrightarrow>
     length (opt_bytes policy) < 65536
     \<and> (- (2 ^ 63) \<le> expiresAt \<and> expiresAt < 2 ^ 63)
     \<and> actions_fit K actions
     \<and> (case expiryOffset of Some e \<Rightarrow> 0 \<le> e \<and> e < 65536 | None \<Rightarrow> True)"



end
