(* ===== verification/LegacyMigration.thy ===== *)
theory LegacyMigration
  imports MigrationSafety LegacyOwnership LegacyAgree
begin

text \<open>
  Migration from v1 in the SDK for web3.js v1: \<open>migrateV1Wallet\<close> of \<open>sdk-legacy/src/utils/client.ts\<close>
  with the checks it makes first, and what \<open>v1.ts\<close> and \<open>spl.ts\<close> read and build for it. The token
  account and mint decoders of \<open>v1.ts\<close> are the same text in both SDKs and are used as they are.
\<close>

section \<open>v1 wallets and their tokens\<close>

definition findV1WalletsByOwner_web3 ::
  "kit \<Rightarrow> node_rpc \<Rightarrow> bytes \<Rightarrow> address \<Rightarrow> bool \<Rightarrow> v1_wallet_record list result" where
  "findV1WalletsByOwner_web3 K rpc ownerIdSeed programId ed25519 =
     (if length ownerIdSeed \<noteq> 32 then Inl (Error ''ownerIdSeed must be 32 bytes'')
      else
        let discAndType = [V1_DISC_AUTHORITY, if ed25519 then 0 else 1] in
        rbind (nr_programAccounts rpc programId [(0, discAndType), (48, ownerIdSeed)]) (\<lambda>accounts.
        rmap (\<lambda>(authority, data).
          let wallet = pubkey_of K (u8_slice data 16 48) in
          rbind (findV1VaultPda_web3 K wallet programId) (\<lambda>(vault, _).
          let ownerPubkey = (if u8_at data 1 = Some 1 then u8_slice data 80 113 else u8_slice data 48 80) in
          Inr \<lparr>v1_wallet = wallet, v1_vault = vault, v1_authority = authority, vr_role = u8_at data 2,
               vr_authorityType = u8_at data 1, vr_ownerPubkey = ownerPubkey\<rparr>)) accounts))"

definition readV1WalletState_web3 :: "node_rpc \<Rightarrow> v1_accounts \<Rightarrow> v1_wallet_state option result" where
  "readV1WalletState_web3 rpc a =
     rbind (nr_multiple rpc [v1_wallet a, v1_authority a, v1_vault a] None 1) (\<lambda>(_, infos).
     let walletData = map_option ac_data (info_at infos 0); authData = map_option ac_data (info_at infos 1) in
     Inr (if walletData = None \<or> length (the walletData) = 0 then None
       else if u8_at (the walletData) 0 \<noteq> Some V1_DISC_WALLET then None
       else if authData = None \<or> u8_at (the authData) 0 \<noteq> Some V1_DISC_AUTHORITY then None
       else Some \<lparr>vs_ownerAuthType = u8_at (the authData) 1, vs_ownerRole = u8_at (the authData) 2,
                  vs_vaultLamports = (case info_at infos 2 of Some v \<Rightarrow> ac_lamports v | None \<Rightarrow> 0)\<rparr>))"

text \<open>\<open>readBigUInt64LE\<close> throws past the end, as a \<open>DataView\<close> does.\<close>

definition vault_token_web3 :: "kit \<Rightarrow> address \<Rightarrow> row \<Rightarrow> v1_vault_token result" where
  "vault_token_web3 K tokenProgram r = (case r of (pubkey, data) \<Rightarrow>
     let mint = pubkey_of K (u8_slice data 0 32) in
     rbind (dv_get 8 data 64) (\<lambda>amount.
     Inr \<lparr>vt_ata = pubkey, vt_mint = mint, vt_amount = amount, vt_tokenProgram = tokenProgram,
          vt_frozen = (u8_at data TOKEN_STATE_OFFSET = Some TOKEN_STATE_FROZEN),
          vt_blocker = tokenAccountBlocker data, vt_withheldFees = tokenAccountWithheldFees data\<rparr>))"

definition enumerateV1VaultTokens_web3 :: "kit \<Rightarrow> node_rpc \<Rightarrow> address \<Rightarrow> v1_vault_token list result" where
  "enumerateV1VaultTokens_web3 K rpc vault =
     rbind (rmap (\<lambda>tokenProgram.
              rbind (nr_tokens rpc vault tokenProgram None 1) (\<lambda>(_, rows). rmap (vault_token_web3 K tokenProgram) rows))
            [TOKEN_PROGRAM_ADDRESS, TOKEN_2022_PROGRAM_ADDRESS]) (\<lambda>out. Inr (concat out))"

text \<open>\<open>a ?? b\<close>: the first that is not null.\<close>

definition nullish :: "'a option \<Rightarrow> 'a option \<Rightarrow> 'a option" where
  "nullish a b = (case a of Some _ \<Rightarrow> a | None \<Rightarrow> b)"

definition reason_web3 :: "kit \<Rightarrow> (address \<times> account option) list \<Rightarrow> v1_vault_token \<Rightarrow> unmovable_reason option" where
  "reason_web3 K mintInfo t =
     (let mint = (case map_of mintInfo (vt_mint t) of Some i \<Rightarrow> i | None \<Rightarrow> None) in
      nullish (vt_blocker t)
        (nullish (if vt_frozen t then Some R_frozen else None)
          (nullish (if mint = None \<or> ac_owner (the mint) \<noteq> vt_tokenProgram t then Some R_mint_missing else None)
            (if mint \<noteq> None \<and> vt_tokenProgram t = TOKEN_2022_PROGRAM_ADDRESS then mintBlocker K (ac_data (the mint)) else None))))"

definition mint_infos_web3 :: "node_rpc \<Rightarrow> address list \<Rightarrow> (address \<times> account option) list result" where
  "mint_infos_web3 rpc mints =
     rbind (rmap (\<lambda>page. rbind (nr_multiple rpc page None 1) (\<lambda>(_, infos). Inr (zip page infos))) (pages mints))
       (\<lambda>parts. Inr (fold (\<lambda>(k, v). jsmap_set k v) (concat parts) []))"

text \<open>The loop over the candidates: what is movable and what is skipped so far.\<close>

fun sort_candidates ::
  "(v1_vault_token \<Rightarrow> unmovable_reason option) \<Rightarrow> v1_vault_token list \<Rightarrow> classified \<Rightarrow> classified" where
  "sort_candidates reason [] acc = acc"
| "sort_candidates reason (t # ts) acc = sort_candidates reason ts (case reason t of
     Some r \<Rightarrow> acc\<lparr>cf_skipped := cf_skipped acc @ [(t, r)]\<rparr>
   | None \<Rightarrow> acc\<lparr>cf_movable := cf_movable acc @ [t]\<rparr>)"

definition classifyV1VaultTokens_web3 ::
  "kit \<Rightarrow> node_rpc \<Rightarrow> v1_vault_token list \<Rightarrow> address list \<Rightarrow> classified result" where
  "classifyV1VaultTokens_web3 K rpc tokens exclude =
     (let excluded = (\<lambda>t. list_ex (\<lambda>e. e = vt_ata t) exclude);
          skipped = map (\<lambda>t. (t, R_excluded)) (filter excluded tokens);
          candidates = filter (\<lambda>t. \<not> excluded t) tokens
      in rbind (mint_infos_web3 rpc (js_unique (map vt_mint candidates))) (\<lambda>mintInfo.
         Inr (sort_candidates (reason_web3 K mintInfo) candidates \<lparr>cf_movable = [], cf_skipped = skipped\<rparr>)))"

definition harvestWithheldIx_web3 :: "address \<Rightarrow> address list \<Rightarrow> web3_ix" where
  "harvestWithheldIx_web3 mint sources =
     \<lparr>wi_programId = TOKEN_2022_PROGRAM_ADDRESS,
      wi_keys = wmeta mint False True # map (\<lambda>a. wmeta a False True) sources, wi_data = u8_of [26, 4]\<rparr>"

definition createAssociatedTokenAccountIdempotentIx_web3 ::
  "address \<Rightarrow> address \<Rightarrow> address \<Rightarrow> address \<Rightarrow> address \<Rightarrow> web3_ix" where
  "createAssociatedTokenAccountIdempotentIx_web3 payer ata owner mint tokenProgram =
     \<lparr>wi_programId = ASSOCIATED_TOKEN_PROGRAM_ADDRESS,
      wi_keys = [wmeta payer True True, wmeta ata False True, wmeta owner False False, wmeta mint False False,
        wmeta SYSTEM_PROGRAM_ADDRESS False False, wmeta tokenProgram False False],
      wi_data = u8_of [1]\<rparr>"

section \<open>Vetting\<close>

definition assertV1PasskeyOwner_web3 :: "kit \<Rightarrow> node_rpc \<Rightarrow> address \<Rightarrow> create_wallet_owner \<Rightarrow> unit result" where
  "assertV1PasskeyOwner_web3 K rpc authority owner =
     rbind (resolveOwnerFields_web3 K owner) (\<lambda>f.
     rbind (nr_accountInfo rpc authority) (\<lambda>info.
     case info of
       None \<Rightarrow> Inl (Error ''v1 authority not found'')
     | Some i \<Rightarrow> let data = ac_data i in
         if length data < 145 then Inl (Error ''the v1 authority is not a passkey authority'')
         else if u8_slice data 80 113 \<noteq> owner_key f
         then Inl (Error ''owner.compressedPubkey is not the v1 authority's public key'')
         else if u8_slice data 113 145 \<noteq> owner_rp_hash K f
         then Inl (Error ''owner.rpId is not the relying party the v1 wallet was created under'')
         else Inr ()))"

text \<open>The reasons to refuse, in the order the code checks them.\<close>

definition inspect_problem ::
  "kit \<Rightarrow> address \<Rightarrow> owner_fields \<Rightarrow> int \<Rightarrow> address \<Rightarrow> (address \<times> address) list \<Rightarrow> spending_state \<Rightarrow> string option" where
  "inspect_problem K programId f slot vault watched s =
     (let walletInfo = info_at (ss_infos s) 0; vaultInfo = info_at (ss_infos s) 1; watchedInfos = drop 2 (ss_infos s);
          a = snd (ss_authorities s ! 0) in
      if walletInfo = None \<or> ac_owner (the walletInfo) \<noteq> programId
        \<or> u8_at (ac_data (the walletInfo)) 0 \<noteq> Some (ACCOUNT_DISCRIMINATOR WALLET)
      then Some ''is not a wallet of program''
      else if length (ss_authorities s) \<noteq> 1 then Some ''a migration destination must have only its owner''
      else if u8_at a 1 \<noteq> Some (word_of_int (of_authType f)) \<or> u8_at a 2 \<noteq> Some (word_of_int ROLE_OWNER)
        \<or> u8_slice a 48 80 \<noteq> of_credentialOrPubkey f
      then Some ''is not owned by this key alone''
      else if of_authType f = AUTH_TYPE_SECP256R1
        \<and> (u8_slice a 80 113 \<noteq> owner_key f \<or> u8_slice a 113 145 \<noteq> owner_rp_hash K f)
      then Some ''lists this passkey's credential with another public key or relying party''
      else if list_ex (\<lambda>x. sessionExpiry (snd x) \<ge> slot) (ss_sessions s) then Some ''has a live session''
      else if list_ex (\<lambda>x. deferredExpiry (snd x) \<ge> slot) (ss_deferred s) then Some ''has a pending deferred execution''
      else if \<not> isPlainSystemAccount vaultInfo
      then Some (if ac_owner (the vaultInfo) = SYSTEM_PROGRAM_ADDRESS
        then ''carries data, so it is no longer a plain system account'' else ''is owned by program'')
      else case vaultTokenGrants_web3 K vault (ss_spl s) (ss_token2022 s)
          (map (\<lambda>i. (watched ! i, info_at watchedInfos i)) [0..<length watched]) {} of
        grant # _ \<Rightarrow> Some (grantPhrase (tg_kind grant))
      | [] \<Rightarrow> None)"

definition inspectMigrationDestination ::
  "kit \<Rightarrow> node_rpc \<Rightarrow> address \<Rightarrow> address \<Rightarrow> create_wallet_owner \<Rightarrow> address list \<Rightarrow> vetted result" where
  "inspectMigrationDestination K rpc programId wallet owner mints =
     rbind (resolveOwnerFields_web3 K owner) (\<lambda>f.
     rbind (nr_getSlot rpc) (\<lambda>slot.
     rbind (findVaultPda_web3 K wallet programId) (\<lambda>(vault, _).
     rbind (watchedTokenAccounts K vault mints) (\<lambda>watched.
     rbind (readSpendingState_web3 K rpc programId wallet vault
              (ACCOUNT_DISCRIMINATOR AUTHORITY, ACCOUNT_DISCRIMINATOR SESSION, ACCOUNT_DISCRIMINATOR DEFERRED_EXEC)
              ([wallet, vault] @ map fst watched)) (\<lambda>s.
     case inspect_problem K programId f slot vault watched s of
       Some problem \<Rightarrow> Inr \<lparr>ve_problem = Some problem, ve_slot = ss_slot s, ve_signatureCount = 0\<rparr>
     | None \<Rightarrow>
         rbind (if of_authType f = AUTH_TYPE_SECP256R1 then dv_get 4 (snd (ss_authorities s ! 0)) 8 else Inr 0) (\<lambda>count.
         Inr \<lparr>ve_problem = None, ve_slot = ss_slot s, ve_signatureCount = count\<rparr>))))))"

definition vetMigrationDestination_web3 ::
  "kit \<Rightarrow> node_rpc \<Rightarrow> address \<Rightarrow> address \<Rightarrow> create_wallet_owner \<Rightarrow> string list \<Rightarrow> string option result" where
  "vetMigrationDestination_web3 K rpc programId wallet owner watchMints =
     rbind (watchedMints_web3 K watchMints) (\<lambda>mints.
     rbind (inspectMigrationDestination K rpc programId wallet owner mints) (\<lambda>v. Inr (ve_problem v)))"

definition signedPasskeyAuthorities_web3 ::
  "kit \<Rightarrow> node_rpc \<Rightarrow> address \<Rightarrow> create_wallet_owner \<Rightarrow> signed_authority list result" where
  "signedPasskeyAuthorities_web3 K rpc programId owner =
     rbind (resolveOwnerFields_web3 K owner) (\<lambda>f.
     let rpIdHash = owner_rp_hash K f in
     rbind (nr_programAccounts rpc programId
              [(0, [ACCOUNT_DISCRIMINATOR AUTHORITY, word_of_int AUTH_TYPE_SECP256R1]),
               (48, of_credentialOrPubkey f), (113, rpIdHash)]) (\<lambda>accounts.
     Inr (map (\<lambda>(pubkey, data). \<lparr>sd_walletPda = pubkey_of K (u8_slice data 16 48), sd_authorityPda = pubkey,
                 sd_role = u8_at data 2\<rparr>)
            (filter (\<lambda>(_, data). length data \<ge> 145 \<and> u8_slice data 80 113 = owner_key f
               \<and> u8_slice data 113 145 = rpIdHash \<and> uint_at 4 data 8 > 0) accounts))))"

section \<open>The migration\<close>

definition source_web3 :: "kit \<Rightarrow> owner_fields \<Rightarrow> address \<Rightarrow> migrate_params \<Rightarrow> v1_accounts result" where
  "source_web3 K f v1ProgramId p = (case mp_v1Wallet p of
     Some w \<Rightarrow>
       rbind (findV1VaultPda_web3 K w v1ProgramId) (\<lambda>(vault, _).
       rbind (findV1AuthorityPda_web3 K w (of_credentialOrPubkey f) v1ProgramId) (\<lambda>(authority, _).
       Inr \<lparr>v1_wallet = w, v1_vault = vault, v1_authority = authority\<rparr>))
   | None \<Rightarrow> (case mp_userSeed p of
       Some seed \<Rightarrow> deriveV1Accounts_web3 K seed (of_credentialOrPubkey f) v1ProgramId
     | None \<Rightarrow> Inl (Error ''migrateV1Wallet needs either userSeed or v1Wallet'')))"

definition check_source_web3 ::
  "kit \<Rightarrow> node_rpc \<Rightarrow> owner_fields \<Rightarrow> migrate_params \<Rightarrow> v1_accounts \<Rightarrow> unit result" where
  "check_source_web3 K rpc f p v1 =
     rbind (readV1WalletState_web3 rpc v1) (\<lambda>state.
     case state of
       None \<Rightarrow> Inl (Error (if mp_v1Wallet p \<noteq> None then ''no v1 wallet for this owner'' else ''no v1 wallet exists for this userSeed''))
     | Some st \<Rightarrow>
         if vs_ownerRole st \<noteq> Some (word_of_int ROLE_OWNER)
         then Inl (Error ''MigrateWallet requires an Owner-rank v1 authority'')
         else if of_authType f = AUTH_TYPE_SECP256R1 then assertV1PasskeyOwner_web3 K rpc (v1_authority v1) (mp_owner p)
         else Inr ())"

text \<open>
  The destination so far: the v2 wallet, the seed minted for it, and the slot of its vet. The wallet
  the passkey has signed for, if there is one that passes, or a seed's.
\<close>

definition signed_wallet_web3 ::
  "kit \<Rightarrow> node_rpc \<Rightarrow> address \<Rightarrow> owner_fields \<Rightarrow> migrate_params \<Rightarrow> address list \<Rightarrow> (address \<times> int) option result" where
  "signed_wallet_web3 K rpc programId f p mints =
     (if of_authType f = AUTH_TYPE_SECP256R1 then
        rbind (signedPasskeyAuthorities_web3 K rpc programId (mp_owner p)) (\<lambda>signed.
        if length signed = 1 \<and> sd_role (signed ! 0) = Some (word_of_int ROLE_OWNER) then
          rbind (inspectMigrationDestination K rpc programId (sd_walletPda (signed ! 0)) (mp_owner p) mints) (\<lambda>vet.
          Inr (if ve_problem vet = None \<and> ve_signatureCount vet > 0
               then Some (sd_walletPda (signed ! 0), ve_slot vet) else None))
        else Inr None)
      else Inr None)"

definition v2_wallet_web3 ::
  "kit \<Rightarrow> node_rpc \<Rightarrow> bytes \<Rightarrow> address \<Rightarrow> owner_fields \<Rightarrow> migrate_params \<Rightarrow> address list
   \<Rightarrow> (address \<times> bytes option \<times> int option) result" where
  "v2_wallet_web3 K rpc randomBytes programId f p mints = (case mp_userSeed p of
     Some seed \<Rightarrow> rbind (findWalletPda_web3 K seed programId) (\<lambda>(w, _). Inr (w, None, None))
   | None \<Rightarrow>
       rbind (signed_wallet_web3 K rpc programId f p mints) (\<lambda>found.
       case found of
         Some (w, slot) \<Rightarrow> Inr (w, None, Some slot)
       | None \<Rightarrow>
           let destinationUserSeed = (case mp_destinationUserSeed p of Some s \<Rightarrow> s | None \<Rightarrow> randomBytes) in
           rbind (findWalletPda_web3 K destinationUserSeed programId) (\<lambda>(w, _). Inr (w, Some destinationUserSeed, None))))"

record destination_web3 =
  dw_v2Wallet :: address
  dw_destinationUserSeed :: "bytes option"
  dw_vettedAt :: "int option"
  dw_createV2Wallet :: bool

definition choose_web3 ::
  "kit \<Rightarrow> node_rpc \<Rightarrow> bytes \<Rightarrow> address \<Rightarrow> owner_fields \<Rightarrow> migrate_params \<Rightarrow> address list \<Rightarrow> destination_web3 result" where
  "choose_web3 K rpc randomBytes programId f p mints =
     rbind (v2_wallet_web3 K rpc randomBytes programId f p mints) (\<lambda>(v2Wallet, seed, vettedAt).
     if vettedAt = None then
       rbind (nr_accountInfo rpc v2Wallet) (\<lambda>info.
       if isPlainSystemAccount info
       then Inr \<lparr>dw_v2Wallet = v2Wallet, dw_destinationUserSeed = seed, dw_vettedAt = None, dw_createV2Wallet = True\<rparr>
       else
         rbind (inspectMigrationDestination K rpc programId v2Wallet (mp_owner p) mints) (\<lambda>vet.
         if ve_problem vet \<noteq> None then Inl (Error ''refusing to migrate into the seed's v2 wallet'')
         else Inr \<lparr>dw_v2Wallet = v2Wallet, dw_destinationUserSeed = seed, dw_vettedAt = Some (ve_slot vet),
                   dw_createV2Wallet = False\<rparr>))
     else Inr \<lparr>dw_v2Wallet = v2Wallet, dw_destinationUserSeed = seed, dw_vettedAt = vettedAt, dw_createV2Wallet = False\<rparr>)"

text \<open>The two maps \<open>destState\<close> (frozen or open) and \<open>destInfo\<close>, by source token account.\<close>

type_synonym dest_maps = "(address \<times> bool) list \<times> (address \<times> account) list"

definition note_dest_web3 :: "v1_vault_token \<times> account option \<Rightarrow> dest_maps \<Rightarrow> dest_maps" where
  "note_dest_web3 e maps = (case (e, maps) of ((t, info), (destState, destInfo)) \<Rightarrow>
     if isPlainSystemAccount info then maps
     else (jsmap_set (vt_ata t) (tokenAccountFrozen (ac_data (the info))) destState,
           jsmap_set (vt_ata t) (the info) destInfo))"

definition destOf :: "kit \<Rightarrow> address \<Rightarrow> v1_vault_token \<Rightarrow> address result" where
  "destOf K v2Vault t = getAssociatedTokenAddress_web3 K (vt_mint t) v2Vault (vt_tokenProgram t)"

definition dest_page_web3 ::
  "kit \<Rightarrow> node_rpc \<Rightarrow> address \<Rightarrow> int option \<Rightarrow> v1_vault_token list \<Rightarrow> (v1_vault_token \<times> account option) list result" where
  "dest_page_web3 K rpc v2Vault vettedAt page =
     rbind (rmap (destOf K v2Vault) page) (\<lambda>dests.
     rbind (readAccounts_web3 rpc dests vettedAt) (\<lambda>(_, infos). Inr (zip page infos)))"

definition dest_state_web3 ::
  "kit \<Rightarrow> node_rpc \<Rightarrow> address \<Rightarrow> int option \<Rightarrow> v1_vault_token list \<Rightarrow> dest_maps result" where
  "dest_state_web3 K rpc v2Vault vettedAt toCheck =
     rbind (rmap (dest_page_web3 K rpc v2Vault vettedAt) (pages toCheck)) (\<lambda>parts.
     Inr (fold note_dest_web3 (concat parts) ([], [])))"

definition split_web3 ::
  "(address \<times> bool) list \<Rightarrow> classified \<Rightarrow> v1_vault_token list \<times> (v1_vault_token \<times> unmovable_reason) list" where
  "split_web3 destState c =
     (let frozen = (\<lambda>t. map_of destState (vt_ata t) = Some True);
          thawed = (\<lambda>t. map_of destState (vt_ata t) = Some False);
          onArrival = filter (\<lambda>s. snd s = R_frozen_on_arrival) (cf_skipped c)
      in (filter (\<lambda>t. \<not> frozen t) (cf_movable c) @ map fst (filter (\<lambda>s. thawed (fst s)) onArrival),
          filter (\<lambda>s. snd s \<noteq> R_frozen_on_arrival) (cf_skipped c)
            @ map (\<lambda>t. (t, R_destination_frozen)) (filter frozen (cf_movable c))
            @ filter (\<lambda>s. \<not> thawed (fst s)) onArrival))"

definition rigged_web3 ::
  "kit \<Rightarrow> address \<Rightarrow> (address \<times> account) list \<Rightarrow> v1_vault_token list \<Rightarrow> v1_vault_token list result" where
  "rigged_web3 K v2Vault destInfo tokens =
     rbind (rmap (\<lambda>t. case map_of destInfo (vt_ata t) of
         None \<Rightarrow> Inr []
       | Some dest \<Rightarrow>
           rbind (destOf K v2Vault t) (\<lambda>a.
           Inr (if tokenAccountProblem K a dest v2Vault (vt_tokenProgram t) \<noteq> None then [t] else []))) tokens)
       (\<lambda>parts. Inr (concat parts))"

definition plan_web3 ::
  "kit \<Rightarrow> node_rpc \<Rightarrow> address \<Rightarrow> address \<Rightarrow> int option \<Rightarrow> address list
   \<Rightarrow> (v1_vault_token list \<times> (v1_vault_token \<times> unmovable_reason) list) result" where
  "plan_web3 K rpc v1Vault v2Vault vettedAt exclude =
     rbind (enumerateV1VaultTokens_web3 K rpc v1Vault) (\<lambda>all.
     rbind (classifyV1VaultTokens_web3 K rpc all exclude) (\<lambda>c.
     rbind (dest_state_web3 K rpc v2Vault vettedAt
              (cf_movable c @ map fst (filter (\<lambda>s. snd s = R_frozen_on_arrival) (cf_skipped c)))) (\<lambda>(destState, destInfo).
     case split_web3 destState c of (tokens, skippedTokens) \<Rightarrow>
     rbind (rigged_web3 K v2Vault destInfo tokens) (\<lambda>rigged.
     if length rigged > 0 then Inl (Error ''refusing to migrate: destination token account'')
     else if length tokens > 255 then Inl (Error ''one migration moves at most 255'')
     else Inr (tokens, skippedTokens)))))"

datatype migrate_step_web3 =
    MigrateEd25519_web3 web3_ix "web3_ix list"
  | MigrateSecp256r1_web3 bytes "webauthn_response \<Rightarrow> web3_ix list result"

record migration_web3 =
  mw_v1 :: v1_accounts
  mw_destinationWallet :: address
  mw_destinationUserSeed :: "bytes option"
  mw_v2Vault :: address
  mw_tokens :: "v1_vault_token list"
  mw_skippedTokens :: "(v1_vault_token \<times> unmovable_reason) list"
  mw_setupInstructions :: "web3_ix list"
  mw_migrate :: migrate_step_web3

definition pair_web3 :: "kit \<Rightarrow> address \<Rightarrow> v1_vault_token \<Rightarrow> migrate_token_pair result" where
  "pair_web3 K v2Vault t =
     rbind (getAssociatedTokenAddress_web3 K (vt_mint t) v2Vault (vt_tokenProgram t)) (\<lambda>destAta.
     Inr \<lparr>sourceAta = vt_ata t, destAta = destAta, mt_mint = vt_mint t, mt_tokenProgram = vt_tokenProgram t\<rparr>)"

fun withheld_web3 :: "v1_vault_token list \<Rightarrow> (address \<times> address list) list \<Rightarrow> (address \<times> address list) list" where
  "withheld_web3 [] withheldByMint = withheldByMint"
| "withheld_web3 (t # ts) withheldByMint = withheld_web3 ts
     (if \<not> vt_withheldFees t then withheldByMint
      else jsmap_set (vt_mint t)
        ((case map_of withheldByMint (vt_mint t) of Some as \<Rightarrow> as | None \<Rightarrow> []) @ [vt_ata t]) withheldByMint)"

definition finalize_web3 ::
  "address \<Rightarrow> v1_accounts \<Rightarrow> address \<Rightarrow> address \<Rightarrow> address \<Rightarrow> migrate_token_pair list \<Rightarrow> web3_ix list
   \<Rightarrow> prepared_secp256r1 \<Rightarrow> webauthn_response \<Rightarrow> web3_ix list result" where
  "finalize_web3 payer v1 v2Vault refundDestination v1ProgramId migrateTokens harvestInstructions prepared response =
     rbind (finalizeSecp256r1_web3 prepared response) (\<lambda>(authPayload, precompileIx).
     rbind (createMigrateWalletIx_web3 payer (v1_wallet v1) (v1_authority v1) (v1_vault v1) v2Vault refundDestination
              payer False (Some migrateTokens) (Some authPayload) v1ProgramId) (\<lambda>migrateIx.
     Inr (harvestInstructions @ [precompileIx, migrateIx])))"

definition step_web3 ::
  "kit \<Rightarrow> challenge_reads \<Rightarrow> migrate_params \<Rightarrow> address \<Rightarrow> v1_accounts \<Rightarrow> address \<Rightarrow> v1_vault_token list
   \<Rightarrow> migrate_token_pair list \<Rightarrow> migrate_step_web3 result" where
  "step_web3 K reads p v1ProgramId v1 v2Vault tokens migrateTokens =
     (let harvestInstructions = map (\<lambda>(mint, sources). harvestWithheldIx_web3 mint sources) (withheld_web3 tokens []);
          refundDestination = (case mp_refundDestination p of Some a \<Rightarrow> a | None \<Rightarrow> mp_payer p) in
      rbind (concatBytes ([k_encAddr K v2Vault, k_encAddr K (v1_wallet v1), u8_of [int (length tokens)],
               k_encAddr K refundDestination] @ map (\<lambda>t. k_encAddr K (sourceAta t)) migrateTokens)) (\<lambda>signedPayload.
      case mp_owner p of
        OwnerEd25519 publicKey \<Rightarrow>
          rbind (createMigrateWalletIx_web3 (mp_payer p) (v1_wallet v1) (v1_authority v1) (v1_vault v1) v2Vault
                   refundDestination publicKey True (Some migrateTokens) None v1ProgramId) (\<lambda>instruction.
          Inr (MigrateEd25519_web3 instruction (harvestInstructions @ [instruction])))
      | OwnerSecp256r1 credential compressedPubkey _ \<Rightarrow>
          rbind (reads (v1_authority v1) (migration_reads p credential compressedPubkey (v1_authority v1)))
            (\<lambda>(_, slot, counter).
          rbind (prepareSecp256r1_web3 K (u8_of [DISC_MIGRATE_WALLET]) signedPayload 7 slot counter (mp_payer p)
                   (v1_wallet v1) v1ProgramId compressedPubkey) (\<lambda>prepared.
          Inr (MigrateSecp256r1_web3 (ps_challenge prepared)
            (finalize_web3 (mp_payer p) v1 v2Vault refundDestination v1ProgramId migrateTokens harvestInstructions
              prepared))))))"

definition migrateV1Wallet_web3 ::
  "kit \<Rightarrow> node_rpc \<Rightarrow> rpc_account \<Rightarrow> int \<Rightarrow> bytes \<Rightarrow> challenge_reads \<Rightarrow> migrate_params \<Rightarrow> migration_web3 stateful" where
  "migrateV1Wallet_web3 K rpc feeRpc rand randomBytes reads p c =
     (let programId = cl_programId c;
          v1ProgramId = (case mp_v1ProgramId p of Some a \<Rightarrow> a | None \<Rightarrow> legacyProgramIdFor programId);
          retired = filter (\<lambda>x. x \<noteq> PROGRAM_ID_MAINNET \<and> x \<noteq> PROGRAM_ID_DEVNET) [PROGRAM_ID_MAINNET_V1, PROGRAM_ID_DEVNET_V1] in
      sbind (pure
        (rbind (resolveOwnerFields_web3 K (mp_owner p)) (\<lambda>f.
         rbind (if list_ex (\<lambda>x. x = programId) retired
                then Inl (Error ''this client is built at a retired v1 deployment'') else Inr ()) (\<lambda>_.
         rbind (source_web3 K f v1ProgramId p) (\<lambda>v1.
         rbind (check_source_web3 K rpc f p v1) (\<lambda>_.
         rbind (watchedMints_web3 K (mp_watchMints p)) (\<lambda>mints.
         rbind (choose_web3 K rpc randomBytes programId f p mints) (\<lambda>d.
         rbind (findVaultPda_web3 K (dw_v2Wallet d) programId) (\<lambda>(v2Vault, _).
         rbind (plan_web3 K rpc (v1_vault v1) v2Vault (dw_vettedAt d) (mp_excludeTokenAccounts p)) (\<lambda>(tokens, skipped).
         Inr (v1, d, v2Vault, tokens, skipped))))))))))) (\<lambda>(v1, d, v2Vault, tokens, skippedTokens).
      sbind (if dw_createV2Wallet d then
               sbind (createWallet_web3 K feeRpc rand (mp_payer p)
                        (case mp_userSeed p of Some s \<Rightarrow> s | None \<Rightarrow> the (dw_destinationUserSeed d)) (mp_owner p))
                 (\<lambda>created. pure (Inr (cww_instructions created)))
             else pure (Inr [])) (\<lambda>creation.
      pure
        (rbind (rmap (pair_web3 K v2Vault) tokens) (\<lambda>migrateTokens.
         rbind (step_web3 K reads p v1ProgramId v1 v2Vault tokens migrateTokens) (\<lambda>step.
         Inr \<lparr>mw_v1 = v1, mw_destinationWallet = dw_v2Wallet d, mw_destinationUserSeed = dw_destinationUserSeed d,
              mw_v2Vault = v2Vault, mw_tokens = tokens, mw_skippedTokens = skippedTokens,
              mw_setupInstructions = creation @ map (\<lambda>m. createAssociatedTokenAccountIdempotentIx_web3 (mp_payer p)
                (destAta m) v2Vault (mt_mint m) (mt_tokenProgram m)) migrateTokens,
              mw_migrate = step\<rparr>))))) c)"

section \<open>Agreement\<close>

lemma info_at_nth: "(if i < length infos then infos ! i else None) = info_at infos i"
  by (simp add: info_at_def)

lemma web3_wallet_state: "readV1WalletState_web3 = readV1WalletState"
  unfolding fun_eq_iff readV1WalletState_web3_def readV1WalletState_def Let_def info_at_nth
  by (auto intro!: rbind_cong split: option.split)

lemma vault_token_agrees: "agrees (vault_token_web3 K p r) (vault_token_of K p r)"
  by (cases r) (auto simp: agrees_def vault_token_web3_def vault_token_of_def tokenAccountMint_def tokenAccountAmount_def
      addressFromBytes_def dv_get_def rbind_eq_Inr Let_def split: if_splits)

lemma enumerate_agrees: "agrees (enumerateV1VaultTokens_web3 K rpc v) (enumerateV1VaultTokens K rpc v)"
  unfolding enumerateV1VaultTokens_web3_def enumerateV1VaultTokens_def
  by (intro agrees_rbind agrees_rmap) (auto intro!: agrees_same agrees_rmap vault_token_agrees)

lemma web3_reason: "reason_web3 K mintInfo = unmovable_because K (map_of mintInfo)"
  by (auto simp: fun_eq_iff reason_web3_def unmovable_because_def nullish_def Let_def split: option.split)

lemma web3_sorted: "sort_candidates reason ts acc = \<lparr>cf_movable = cf_movable acc @ filter (\<lambda>t. reason t = None) ts,
    cf_skipped = cf_skipped acc @ map (\<lambda>t. (t, the (reason t))) (filter (\<lambda>t. reason t \<noteq> None) ts)\<rparr>"
  by (induction ts arbitrary: acc) (auto split: option.split)

lemma list_ex_equals: "list_ex (\<lambda>e. e = a) xs \<longleftrightarrow> a \<in> set xs"
  by (auto simp: list_ex_iff)

lemma web3_classify: "classifyV1VaultTokens_web3 = classifyV1VaultTokens"
  by (simp add: fun_eq_iff classifyV1VaultTokens_web3_def classifyV1VaultTokens_def mint_infos_web3_def read_mints_def
      web3_sorted web3_reason list_ex_equals Let_def)

lemma web3_passkey_owner: "assertV1PasskeyOwner_web3 = assertV1PasskeyOwner"
  unfolding fun_eq_iff assertV1PasskeyOwner_web3_def assertV1PasskeyOwner_def bytesEqual_iff web3_owner_fields
  by simp

lemma web3_expiries [simp]: "sessionExpiry data = expiryAt data 72" "deferredExpiry data = expiryAt data 168"
  by (simp_all add: sessionExpiry_def deferredExpiry_def expiryAt_def layout_offsets UNREADABLE_EXPIRY_def U64_MAX_def)

lemma live_wallet_first:
  "isLiveWallet p 2 info \<longleftrightarrow> info \<noteq> None \<and> ac_owner (the info) = p
    \<and> u8_at (ac_data (the info)) 0 = Some (ACCOUNT_DISCRIMINATOR WALLET)"
  by (auto simp: isLiveWallet_def OWNERSHIP_DISCS_def u8_at_def split: option.split)

lemma web3_problem:
  assumes "length atas = length mints"
  shows "inspect_problem K p f slot vault (zip atas mints) s = vet_problem K p f slot vault atas mints s"
proof -
  have lens: "length (zip atas mints) = length mints" "length atas = length mints" using assms by simp_all
  have owned: "(if \<not> isSystemAccount v then Some (if map_option ac_owner v = Some a then x else y) else z)
      = (if \<not> isSystemAccount v then Some (if ac_owner (the v) = a then x else y) else z)" for v a and x y :: string and z
    by (cases v) (auto simp: isSystemAccount_def)
  show ?thesis
    unfolding inspect_problem_def vet_problem_def Let_def live_wallet_first bytesEqual_iff web3_expiries lens
      web3_grants [OF assms] owned web3_token_accounts
    by (simp only: de_Morgan_conj not_not)
qed

lemma web3_vet: "inspectMigrationDestination = vetDestination"
proof (intro ext)
  fix K rpc p w owner mints
  have len: "length atas = length mints" if "watchedAtasOf K v mints = Inr atas" for atas v
    using that by (simp add: watchedAtasOf_def rmap_Inr_iff list_all2_lengthD)
  have discs: "(ACCOUNT_DISCRIMINATOR AUTHORITY, ACCOUNT_DISCRIMINATOR SESSION, ACCOUNT_DISCRIMINATOR DEFERRED_EXEC)
      = (od_authority (OWNERSHIP_DISCS 2), od_session (OWNERSHIP_DISCS 2), od_deferred (OWNERSHIP_DISCS 2))"
    by (simp add: OWNERSHIP_DISCS_def)
  show "inspectMigrationDestination K rpc p w owner mints = vetDestination K rpc p w owner mints"
    unfolding inspectMigrationDestination_def vetDestination_def web3_owner_fields web3_pdas web3_watched ok_map_def
      rbind_assoc discs web3_spending_state
    by (auto simp: len web3_problem intro!: rbind_cong)
qed

lemma concat_if_single: "concat (map (\<lambda>x. if Q x then [h x] else []) xs) = map h (filter Q xs)"
  by (induction xs) simp_all

lemma web3_signed: "signedPasskeyAuthorities_web3 K rpc p owner = signedPasskeyAuthorities K rpc p owner"
proof -
  have "rbind (rmap (signed_authority_of K f) rs) (\<lambda>parts. Inr (concat parts)) =
      Inr (map (\<lambda>(pubkey, data). \<lparr>sd_walletPda = pubkey_of K (u8_slice data 16 48), sd_authorityPda = pubkey, sd_role = u8_at data 2\<rparr>)
        (filter (\<lambda>(_, data). length data \<ge> 145 \<and> u8_slice data 80 113 = owner_key f
           \<and> u8_slice data 113 145 = owner_rp_hash K f \<and> uint_at 4 data 8 > 0) rs))" for f rs
  proof -
    have one: "signed_authority_of K f r = Inr (if length (snd r) \<ge> 145 \<and> u8_slice (snd r) 80 113 = owner_key f
        \<and> u8_slice (snd r) 113 145 = owner_rp_hash K f \<and> uint_at 4 (snd r) 8 > 0
      then [\<lparr>sd_walletPda = pubkey_of K (u8_slice (snd r) 16 48), sd_authorityPda = fst r, sd_role = u8_at (snd r) 2\<rparr>] else [])"
      for r
      using le_val_nonneg [of "u8_slice (snd r) 8 12"]
      by (auto simp: signed_authority_of_def addressFromBytes_def bytesEqual_iff uint_at_def less_le split: prod.split)
    show ?thesis by (simp add: one rmap_total concat_if_single case_prod_unfold)
  qed
  then show ?thesis by (simp add: signedPasskeyAuthorities_web3_def signedPasskeyAuthorities_def Let_def)
qed

lemma web3_source:
  assumes "mp_v1Wallet p \<noteq> Some []"
  shows "source_web3 K f v1ProgramId p = migrate_source K f v1ProgramId p"
    "check_source_web3 K rpc f p v1 = check_source K rpc f p v1"
proof -
  have "named_v1_wallet p = mp_v1Wallet p" using assms by (auto simp: named_v1_wallet_def split: option.split)
  then show "source_web3 K f v1ProgramId p = migrate_source K f v1ProgramId p"
    "check_source_web3 K rpc f p v1 = check_source K rpc f p v1"
    unfolding source_web3_def migrate_source_def check_source_web3_def check_source_def web3_wallet_state
      web3_passkey_owner web3_v1_pdas by simp_all
qed

section \<open>The same destination\<close>

definition dest_to_web3 :: "migrate_params \<Rightarrow> destination \<Rightarrow> destination_web3" where
  "dest_to_web3 p d = \<lparr>dw_v2Wallet = de_wallet d,
     dw_destinationUserSeed = (if mp_userSeed p \<noteq> None then None else de_seed d),
     dw_vettedAt = de_vettedAt d, dw_createV2Wallet = (de_createFrom d \<noteq> None)\<rparr>"

lemma web3_reusable: "signed_wallet_web3 K rpc programId f p mints = reusable_wallet K rpc programId f p mints"
  unfolding signed_wallet_web3_def reusable_wallet_def web3_signed web3_vet by simp

lemma web3_named:
  "v2_wallet_web3 K rpc random programId f p mints
    = ok_map (\<lambda>(w, seed, slot). (w, if mp_userSeed p \<noteq> None then None else seed, slot))
        (named_destination K rpc random programId f p mints)"
  by (auto simp: v2_wallet_web3_def named_destination_def web3_pdas web3_reusable ok_map_def rbind_assoc Let_def
      intro!: rbind_cong split: option.split)

lemma named_seed:
  assumes "named_destination K rpc random programId f p mints = Inr (w, seed, None)"
  shows "seed \<noteq> None \<and> (mp_userSeed p \<noteq> None \<longrightarrow> mp_userSeed p = seed)"
proof (cases "mp_userSeed p")
  case (Some s)
  then have "seed = Some s" using assms by (auto simp: named_destination_def rbind_eq_Inr)
  then show ?thesis using Some by simp
qed (use assms in \<open>auto simp: named_destination_def rbind_eq_Inr Let_def split: option.splits\<close>)

lemma web3_choose:
  "choose_web3 K rpc random programId f p mints
    = ok_map (dest_to_web3 p) (choose_destination K rpc random programId f p mints)"
proof (cases "named_destination K rpc random programId f p mints")
  case (Inr n)
  then obtain w seed slot where n: "named_destination K rpc random programId f p mints = Inr (w, seed, slot)"
    by (cases n) auto
  show ?thesis
  proof (cases slot)
    case None
    then show ?thesis
      using n named_seed [of K rpc random programId f p mints w seed]
      by (auto simp: choose_web3_def choose_destination_def web3_named web3_vet dest_to_web3_def ok_map_def rbind_assoc
          intro!: rbind_cong)
  qed (use n in \<open>auto simp: choose_web3_def choose_destination_def web3_named dest_to_web3_def ok_map_def\<close>)
qed (simp add: choose_web3_def choose_destination_def web3_named ok_map_def)

lemma created_seed:
  assumes "choose_destination K rpc random programId f p mints = Inr d" "de_createFrom d = Some s"
  shows "(case mp_userSeed p of Some s \<Rightarrow> s | None \<Rightarrow> the (dw_destinationUserSeed (dest_to_web3 p d))) = s"
  using assms named_seed [of K rpc random programId f p mints]
  by (fastforce simp: choose_destination_def rbind_eq_Inr dest_to_web3_def split: option.splits if_splits)

section \<open>The same tokens\<close>

text \<open>
  The kit client keeps one record per source account, with the problem already worked out for the
  token that read it; the web3.js client keeps two maps and works the problem out at the end, for the
  token it asks about. With the same token per source account the two say the same.
\<close>

definition same_dests ::
  "kit \<Rightarrow> address \<Rightarrow> v1_vault_token list \<Rightarrow> dest_maps \<Rightarrow> (address \<times> dest_account) list \<Rightarrow> bool" where
  "same_dests K v2Vault ts maps m \<longleftrightarrow> (\<forall>a. case map_of m a of
     None \<Rightarrow> map_of (fst maps) a = None \<and> map_of (snd maps) a = None
   | Some d \<Rightarrow> map_of (fst maps) a = Some (da_frozen d) \<and>
       (\<exists>t info. t \<in> set ts \<and> vt_ata t = a \<and> map_of (snd maps) a = Some info
         \<and> getAssociatedTokenAddress K (vt_mint t) v2Vault (vt_tokenProgram t) = Inr (da_dest d)
         \<and> da_problem d = destinationTokenAccountProblem K (da_dest d) info (vt_tokenProgram t) v2Vault))"

lemma same_dests_entry:
  assumes "same_dests K v2Vault ts maps m" "t \<in> set ts"
    and "getAssociatedTokenAddress K (vt_mint t) v2Vault (vt_tokenProgram t) = Inr dest"
  shows "same_dests K v2Vault ts (note_dest_web3 (t, info) maps) (dest_entry K v2Vault (t, dest, info) m)"
proof (cases "isSystemAccount info")
  case False
  obtain ds di where "maps = (ds, di)" by (cases maps)
  then show ?thesis
    using assms False unfolding same_dests_def note_dest_web3_def dest_entry_def
    by (fastforce split: option.splits)
qed (use assms(1) in \<open>auto simp: note_dest_web3_def dest_entry_def split: prod.split\<close>)

lemma same_dests_fold:
  assumes "\<forall>(t, dest, info) \<in> set es. t \<in> set ts
      \<and> getAssociatedTokenAddress K (vt_mint t) v2Vault (vt_tokenProgram t) = Inr dest"
    and "same_dests K v2Vault ts maps m"
  shows "same_dests K v2Vault ts (fold note_dest_web3 (map (\<lambda>(t, dest, info). (t, info)) es) maps) (fold (dest_entry K v2Vault) es m)"
  using assms
proof (induction es arbitrary: maps m)
  case (Cons e es)
  obtain t dest info where "e = (t, dest, info)" by (cases e) auto
  then show ?case using Cons.prems by (auto intro!: Cons.IH same_dests_entry)
qed simp

lemma rmap_ok_map: "rmap (\<lambda>x. ok_map g (f x)) xs = ok_map (map g) (rmap f xs)"
  by (induction xs) (simp_all add: ok_map_def rbind_assoc)

lemma web3_dest_page:
  "dest_page_web3 K rpc v2Vault vettedAt page
    = ok_map (map (\<lambda>(t, dest, info). (t, info))) (dest_page K rpc v2Vault vettedAt page)"
proof -
  have "zip page infos = map (\<lambda>(t, dest, info). (t, info)) (zip page (zip dests infos))"
    if "length dests = length page" for dests :: "address list" and infos :: "account option list"
    using that by (intro nth_equalityI) simp_all
  then show ?thesis
    unfolding dest_page_web3_def dest_page_def destOf_def web3_v1_pdas web3_reads ok_map_def rbind_assoc
    by (auto intro!: rbind_cong simp: rmap_Inr_iff list_all2_lengthD)
qed

lemma dest_page_row:
  assumes "dest_page K rpc v2Vault vettedAt page = Inr part" "(t, dest, info) \<in> set part"
  shows "t \<in> set page \<and> getAssociatedTokenAddress K (vt_mint t) v2Vault (vt_tokenProgram t) = Inr dest"
proof -
  obtain dests slot infos where
    "list_all2 (\<lambda>t dest. getAssociatedTokenAddress K (vt_mint t) v2Vault (vt_tokenProgram t) = Inr dest) page dests"
    and "part = zip page (zip dests infos)"
    using assms(1) by (auto simp: dest_page_def rbind_eq_Inr rmap_Inr_iff)
  then show ?thesis using assms(2) by (auto simp: in_set_zip list_all2_conv_all_nth)
qed

lemma web3_dest_pages:
  "rmap (dest_page_web3 K rpc v2Vault vettedAt) pgs
    = ok_map (map (map (\<lambda>(t, dest, info). (t, info)))) (rmap (dest_page K rpc v2Vault vettedAt) pgs)"
  by (simp only: rmap_ok_map [symmetric] web3_dest_page [symmetric])

lemma web3_dest_state:
  assumes "dest_state K rpc v2Vault vettedAt ts = Inr m"
  shows "\<exists>maps. dest_state_web3 K rpc v2Vault vettedAt ts = Inr maps \<and> same_dests K v2Vault ts maps m"
proof -
  obtain parts where parts: "list_all2 (\<lambda>page part. dest_page K rpc v2Vault vettedAt page = Inr part) (pages ts) parts"
    and m: "m = fold (dest_entry K v2Vault) (concat parts) []"
    using assms by (auto simp: dest_state_def rbind_eq_Inr rmap_Inr_iff)
  have "t \<in> set ts \<and> getAssociatedTokenAddress K (vt_mint t) v2Vault (vt_tokenProgram t) = Inr dest"
    if e: "(t, dest, info) \<in> set (concat parts)" for t dest info
  proof -
    obtain i where i: "i < length parts" "(t, dest, info) \<in> set (parts ! i)" using e by (auto simp: in_set_conv_nth [of _ parts])
    let ?page = "pages ts ! i"
    have "i < length (pages ts)" "dest_page K rpc v2Vault vettedAt ?page = Inr (parts ! i)"
      using parts i(1) by (simp_all add: list_all2_conv_all_nth)
    then have "?page \<in> set (pages ts)" "t \<in> set ?page"
      "getAssociatedTokenAddress K (vt_mint t) v2Vault (vt_tokenProgram t) = Inr dest"
      using dest_page_row i(2) by auto
    moreover from this have "t \<in> set (concat (pages ts))" by (simp only: set_concat) blast
    ultimately show ?thesis by simp
  qed
  then have "\<forall>(t, dest, info) \<in> set (concat parts). t \<in> set ts
      \<and> getAssociatedTokenAddress K (vt_mint t) v2Vault (vt_tokenProgram t) = Inr dest" by blast
  from same_dests_fold [OF this, of "([], [])" "[]"]
  have "same_dests K v2Vault ts (fold note_dest_web3 (map (\<lambda>(t, dest, info). (t, info)) (concat parts)) ([], [])) m"
    by (simp add: m same_dests_def)
  moreover have "dest_state_web3 K rpc v2Vault vettedAt ts
      = Inr (fold note_dest_web3 (map (\<lambda>(t, dest, info). (t, info)) (concat parts)) ([], []))"
    using parts by (simp add: dest_state_web3_def web3_dest_pages map_concat rmap_Inr_iff [symmetric])
  ultimately show ?thesis by blast
qed

lemma dest_state_fails:
  "dest_state K rpc v2Vault vettedAt ts = Inl e \<Longrightarrow> dest_state_web3 K rpc v2Vault vettedAt ts = Inl e"
  by (cases "rmap (dest_page K rpc v2Vault vettedAt) (pages ts)")
    (simp_all add: dest_state_def dest_state_web3_def web3_dest_pages)

lemma web3_split:
  assumes "same_dests K v2Vault ts maps m"
  shows "split_web3 (fst maps) c = split_tokens m c"
proof -
  have "(map_of (fst maps) a = Some True) = (case map_of m a of Some d \<Rightarrow> da_frozen d | None \<Rightarrow> False)"
    "(map_of (fst maps) a = Some False) = (case map_of m a of Some d \<Rightarrow> \<not> da_frozen d | None \<Rightarrow> False)" for a
    using assms unfolding same_dests_def by (auto split: option.splits dest!: spec [of _ a])
  then show ?thesis by (simp add: split_web3_def split_tokens_def)
qed

lemma web3_rigged:
  assumes same: "same_dests K v2Vault ts maps m" and one: "inj_on vt_ata (set ts)" and sub: "set tokens \<subseteq> set ts"
  shows "rigged_web3 K v2Vault (snd maps) tokens = Inr (rigged m tokens)"
proof -
  have "(case map_of (snd maps) (vt_ata t) of None \<Rightarrow> Inr []
     | Some dest \<Rightarrow> rbind (destOf K v2Vault t) (\<lambda>a.
         Inr (if tokenAccountProblem K a dest v2Vault (vt_tokenProgram t) \<noteq> None then [t] else [])))
    = Inr (if case map_of m (vt_ata t) of Some d \<Rightarrow> da_problem d \<noteq> None | None \<Rightarrow> False then [t] else [])"
    if "t \<in> set tokens" for t
  proof (cases "map_of m (vt_ata t)")
    case None
    then show ?thesis using same unfolding same_dests_def by (auto dest!: spec [of _ "vt_ata t"])
  next
    case (Some d)
    then obtain t' info where t': "t' \<in> set ts" "vt_ata t' = vt_ata t" "map_of (snd maps) (vt_ata t) = Some info"
      "getAssociatedTokenAddress K (vt_mint t') v2Vault (vt_tokenProgram t') = Inr (da_dest d)"
      "da_problem d = destinationTokenAccountProblem K (da_dest d) info (vt_tokenProgram t') v2Vault"
      using same unfolding same_dests_def by (auto dest!: spec [of _ "vt_ata t"])
    then have "t' = t" using inj_onD [OF one] that sub by blast
    then show ?thesis using t' Some by (simp add: destOf_def web3_destination_problem)
  qed
  then show ?thesis by (simp add: rigged_web3_def rigged_def rmap_total concat_if_single [where h = "\<lambda>t. t"])
qed

text \<open>What a node promises of \<open>getTokenAccountsByOwner\<close>: an account is listed once.\<close>

definition lists_once :: "kit \<Rightarrow> node_rpc \<Rightarrow> bool" where
  "lists_once K rpc \<longleftrightarrow> (\<forall>v all. enumerateV1VaultTokens K rpc v = Inr all \<longrightarrow> distinct (map vt_ata all))"

lemma listed_once:
  assumes "distinct (map vt_ata all)" "classifyV1VaultTokens K rpc all exclude = Inr c"
  shows "inj_on vt_ata (set (cf_movable c @ map fst (filter (\<lambda>s. snd s = R_frozen_on_arrival) (cf_skipped c))))"
proof -
  have "set (cf_movable c @ map fst (cf_skipped c)) = set all" using classify_partition [OF assms(2)] by (metis set_mset_mset)
  then have "set (cf_movable c @ map fst (filter (\<lambda>s. snd s = R_frozen_on_arrival) (cf_skipped c))) \<subseteq> set all" by auto
  then show ?thesis using assms(1) by (auto simp: distinct_map intro: inj_on_subset)
qed

lemma plan_agrees:
  assumes "lists_once K rpc"
  shows "agrees (plan_web3 K rpc v1Vault v2Vault vettedAt exclude) (plan_tokens K rpc v1Vault v2Vault vettedAt exclude)"
  unfolding plan_web3_def plan_tokens_def web3_classify
proof (intro agrees_rbind [OF enumerate_agrees] agrees_same)
  fix all and c :: classified
  let ?ts = "cf_movable c @ map fst (filter (\<lambda>s. snd s = R_frozen_on_arrival) (cf_skipped c))"
  assume "enumerateV1VaultTokens K rpc v1Vault = Inr all" and c: "classifyV1VaultTokens K rpc all exclude = Inr c"
  then have once: "inj_on vt_ata (set ?ts)" using assms listed_once [OF _ c] by (simp add: lists_once_def)
  show "agrees (rbind (dest_state_web3 K rpc v2Vault vettedAt ?ts) (\<lambda>(destState, destInfo).
      case split_web3 destState c of (tokens, skippedTokens) \<Rightarrow>
        rbind (rigged_web3 K v2Vault destInfo tokens) (\<lambda>rigged.
        if length rigged > 0 then Inl (Error ''refusing to migrate: destination token account'')
        else if length tokens > 255 then Inl (Error ''one migration moves at most 255'')
        else Inr (tokens, skippedTokens))))
    (rbind (dest_state K rpc v2Vault vettedAt ?ts) (\<lambda>destState.
      case split_tokens destState c of (tokens, skipped) \<Rightarrow>
        if rigged destState tokens \<noteq> [] then Inl (Error ''refusing to migrate: destination token account'')
        else if length tokens > 255 then Inl (Error ''one migration moves at most 255'')
        else Inr (tokens, skipped)))"
  proof (cases "dest_state K rpc v2Vault vettedAt ?ts")
    case (Inr m)
    then obtain ds di where maps: "dest_state_web3 K rpc v2Vault vettedAt ?ts = Inr (ds, di)"
      and same: "same_dests K v2Vault ?ts (ds, di) m"
      using web3_dest_state by (metis surj_pair)
    obtain tokens skipped where sp: "split_tokens m c = (tokens, skipped)" by (cases "split_tokens m c")
    show ?thesis
      using web3_split [OF same, of c] web3_rigged [OF same once split_tokens_partition(2) [OF sp]]
      by (simp add: maps Inr sp)
  qed (simp add: dest_state_fails)
qed

section \<open>The same instructions\<close>

lemma web3_withheld: "withheld_web3 ts m = fold (\<lambda>t m. if vt_withheldFees t
    then jsmap_set (vt_mint t) ((case map_of m (vt_mint t) of Some as \<Rightarrow> as | None \<Rightarrow> []) @ [vt_ata t]) m else m) ts m"
  by (induction ts arbitrary: m) simp_all

lemma web3_token_instructions:
  "harvestWithheldIx_web3 mint sources = ix_web3 (harvestWithheldIx mint sources)"
  "createAssociatedTokenAccountIdempotentIx_web3 payer ata owner mint tp
    = ix_web3 (createAssociatedTokenAccountIdempotentIx payer ata owner mint tp)"
  by (simp_all add: harvestWithheldIx_web3_def harvestWithheldIx_def createAssociatedTokenAccountIdempotentIx_web3_def
      createAssociatedTokenAccountIdempotentIx_def ix_web3_def accounts_of_def data_of_def)

lemma web3_harvest:
  "map (\<lambda>(mint, sources). harvestWithheldIx_web3 mint sources) (withheld_web3 ts []) = map ix_web3 (harvest_instructions ts)"
  by (simp add: harvest_instructions_def withheld_by_mint_def web3_withheld web3_token_instructions case_prod_unfold)

lemma web3_pair: "pair_web3 = token_pair"
  by (simp add: fun_eq_iff pair_web3_def token_pair_def)

lemma web3_finalize_migration:
  assumes "prepared_fits s"
  shows "finalize_web3 payer v1 v2Vault refund v1ProgramId pairs (map ix_web3 harvest) s r
    = ok_map (map ix_web3) (finalize_migration payer v1 v2Vault refund v1ProgramId pairs harvest s r)"
  unfolding finalize_web3_def finalize_migration_def
  by (subst finalize_two [OF assms web3_migrate]) (auto simp: ok_map_def rbind_assoc intro!: rbind_cong)

fun step_to_web3 :: "migrate_step \<Rightarrow> migrate_step_web3" where
  "step_to_web3 (MigrateEd25519 ix ixs) = MigrateEd25519_web3 (ix_web3 ix) (map ix_web3 ixs)"
| "step_to_web3 (MigrateSecp256r1 challenge finalize) =
     MigrateSecp256r1_web3 challenge (\<lambda>r. ok_map (map ix_web3) (finalize r))"

lemma web3_step:
  assumes "reads_fit reads" "length pairs = length tokens"
  shows "step_web3 K reads p v1ProgramId v1 v2Vault tokens pairs
    = ok_map step_to_web3 (migrate_step_of K reads programId p v1ProgramId v1 v2Vault tokens pairs)"
proof (cases "mp_owner p")
  case (OwnerEd25519 pk)
  then show ?thesis
    using assms(2) unfolding step_web3_def migrate_step_of_def migrate_payload_def Let_def web3_harvest web3_migrate
    by (auto simp: ok_map_def rbind_assoc intro!: rbind_cong)
next
  case (OwnerSecp256r1 credential key rp)
  have fits: "slot_fields_fit slot counter 7" if "reads a q = Inr (x, slot, counter)" for a q x slot counter
    using assms(1) that by (auto simp: reads_fit_def slot_fields_fit_def)
  have prepared: "prepared_fits s" if "prepareSecp256r1 K d pl 7 slot counter py w pid k = Inr s" "slot_fields_fit slot counter 7"
    for d pl slot counter py w pid k s
    using that by (auto simp: prepareSecp256r1_def rbind_eq_Inr prepared_fits_def)
  show ?thesis
    using assms(2) unfolding step_web3_def migrate_step_of_def migrate_payload_def Let_def web3_harvest
      buildPasskeySigning_def OwnerSecp256r1 ok_map_def rbind_assoc
    by (auto simp: web3_prepare fits sysvar_idx_defs rbind_assoc web3_finalize_migration prepared fun_eq_iff ok_map_def
        intro!: rbind_cong)
qed

section \<open>The same migration\<close>

definition migration_to_web3 :: "migration \<Rightarrow> migration_web3" where
  "migration_to_web3 m = \<lparr>mw_v1 = mg_v1 m, mw_destinationWallet = mg_destinationWallet m,
     mw_destinationUserSeed = mg_destinationUserSeed m, mw_v2Vault = mg_v2Vault m, mw_tokens = mg_tokens m,
     mw_skippedTokens = mg_skippedTokens m, mw_setupInstructions = map ix_web3 (mg_setupInstructions m),
     mw_migrate = step_to_web3 (mg_migrate m)\<rparr>"

lemma web3_vet_method: "agrees (vetMigrationDestination_web3 K rpc pid w owner ms) (vetMigrationDestination K rpc pid w owner ms)"
  unfolding vetMigrationDestination_web3_def vetMigrationDestination_def web3_vet
  by (intro agrees_rbind [OF watchedMints_agrees]) simp

text \<open>Rows that match the scan's filter on bytes 48 to 80 are at least that long.\<close>

lemma web3_v1_wallets:
  assumes "\<And>rows a data. nr_programAccounts rpc pid [(0, [V1_DISC_AUTHORITY, if ed then 0 else 1]), (48, seed)] = Inr rows \<Longrightarrow>
      (a, data) \<in> set rows \<Longrightarrow> 48 \<le> length data"
  shows "findV1WalletsByOwner_web3 K rpc seed pid ed = findV1WalletsByOwner K rpc seed pid ed"
proof -
  have "addressFromBytes K (u8_slice data 16 48) = Inr (pubkey_of K (u8_slice data 16 48))" if "48 \<le> length data" for data
    using that by (simp add: addressFromBytes_def)
  then show ?thesis
    unfolding findV1WalletsByOwner_web3_def findV1WalletsByOwner_def Let_def
    using assms by (fastforce simp: v1_record_of_def intro!: rbind_cong rmap_cong)
qed

lemma web3_retired:
  "(if list_ex (\<lambda>x. x = pid) (filter (\<lambda>x. x \<noteq> PROGRAM_ID_MAINNET \<and> x \<noteq> PROGRAM_ID_DEVNET) [PROGRAM_ID_MAINNET_V1, PROGRAM_ID_DEVNET_V1])
    then Inl (Error ''this client is built at a retired v1 deployment'') else Inr ()) = assert_not_retired pid"
  unfolding list_ex_equals assert_not_retired_def ..

lemma choice_agrees:
  assumes "lists_once K rpc" "mp_v1Wallet p \<noteq> Some []"
  shows "agrees
    (rbind (resolveOwnerFields K (mp_owner p)) (\<lambda>f.
     rbind (assert_not_retired pid) (\<lambda>_.
     rbind (source_web3 K f v1ProgramId p) (\<lambda>v1.
     rbind (check_source_web3 K rpc f p v1) (\<lambda>_.
     rbind (watchedMints_web3 K (mp_watchMints p)) (\<lambda>mints.
     rbind (choose_web3 K rpc random pid f p mints) (\<lambda>d.
     rbind (findVaultPda K (dw_v2Wallet d) pid) (\<lambda>(v2Vault, _).
     rbind (plan_web3 K rpc (v1_vault v1) v2Vault (dw_vettedAt d) (mp_excludeTokenAccounts p)) (\<lambda>(tokens, skipped).
     Inr (v1, d, v2Vault, tokens, skipped))))))))))
    (ok_map (\<lambda>(v1, d, rest). (v1, dest_to_web3 p d, rest))
    (rbind (resolveOwnerFields K (mp_owner p)) (\<lambda>f.
     rbind (assert_not_retired pid) (\<lambda>_.
     rbind (migrate_source K f v1ProgramId p) (\<lambda>v1.
     rbind (check_source K rpc f p v1) (\<lambda>_.
     rbind (watchedMints K (mp_watchMints p)) (\<lambda>mints.
     rbind (choose_destination K rpc random pid f p mints) (\<lambda>d.
     rbind (findVaultPda K (de_wallet d) pid) (\<lambda>(v2Vault, _).
     rbind (plan_tokens K rpc (v1_vault v1) v2Vault (de_vettedAt d) (mp_excludeTokenAccounts p)) (\<lambda>(tokens, skipped).
     Inr (v1, d, v2Vault, tokens, skipped)))))))))))"
  unfolding web3_source [OF assms(2)] web3_choose ok_map_def rbind_assoc
  by (intro agrees_same agrees_rbind [OF watchedMints_agrees])
    (auto simp: dest_to_web3_def rbind_assoc intro!: agrees_same agrees_rbind [OF plan_agrees [OF assms(1)]])

lemma agrees_run:
  assumes "agrees x' (ok_map g x)" "\<And>y. x = Inr y \<Longrightarrow> f' (g y) c = run_map h (f y c)"
  shows "agrees (fst (sbind (pure x') f' c)) (ok_map h (fst (sbind (pure x) f c)))
    \<and> snd (sbind (pure x') f' c) = snd (sbind (pure x) f c)"
proof (cases x)
  case (Inl e)
  then obtain e' where "x' = Inl e'" using assms(1) by (cases x') (auto simp: agrees_def)
  then show ?thesis by (simp add: Inl sbind_def pure_def)
next
  case (Inr y)
  then have "x' = Inr (g y)" using assms(1) by (simp add: agrees_def)
  then show ?thesis using assms(2) [OF Inr] by (simp add: Inr sbind_def pure_def run_map_def split: prod.split)
qed

lemma web3_setup:
  assumes "choose_destination K rpc random pid f p mints = Inr d"
  shows "(if dw_createV2Wallet (dest_to_web3 p d) then
      sbind (createWallet_web3 K feeRpc rand (mp_payer p)
               (case mp_userSeed p of Some s \<Rightarrow> s | None \<Rightarrow> the (dw_destinationUserSeed (dest_to_web3 p d))) (mp_owner p))
        (\<lambda>created. pure (Inr (cww_instructions created)))
      else pure (Inr [])) c
    = run_map (map ix_web3) ((case de_createFrom d of
        Some seed \<Rightarrow> sbind (createWallet K feeRpc rand (mp_payer p) seed (mp_owner p)) (\<lambda>cw. pure (Inr (cw_instructions cw)))
      | None \<Rightarrow> pure (Inr [])) c)"
proof (cases "de_createFrom d")
  case None
  then show ?thesis by (simp add: dest_to_web3_def pure_def)
next
  case (Some s)
  have made: "dw_createV2Wallet (dest_to_web3 p d)" using Some by (simp add: dest_to_web3_def)
  show ?thesis
    unfolding created_seed [OF assms Some] if_P [OF made] Some option.case
    by (rule sbind_run_map [OF web3_createWallet_method]) (simp add: pure_def wallet_to_web3_def)
qed

lemma web3_result:
  assumes "reads_fit reads"
  shows "rbind (rmap (pair_web3 K v2Vault) tokens) (\<lambda>pairs.
      rbind (step_web3 K reads p v1ProgramId v1 v2Vault tokens pairs) (\<lambda>step.
      Inr \<lparr>mw_v1 = v1, mw_destinationWallet = dw_v2Wallet (dest_to_web3 p d),
           mw_destinationUserSeed = dw_destinationUserSeed (dest_to_web3 p d),
           mw_v2Vault = v2Vault, mw_tokens = tokens, mw_skippedTokens = skipped,
           mw_setupInstructions = map ix_web3 creation @ map (\<lambda>m. createAssociatedTokenAccountIdempotentIx_web3 (mp_payer p)
             (destAta m) v2Vault (mt_mint m) (mt_tokenProgram m)) pairs,
           mw_migrate = step\<rparr>))
    = ok_map migration_to_web3 (rbind (rmap (token_pair K v2Vault) tokens) (\<lambda>pairs.
        rbind (migrate_step_of K reads pid p v1ProgramId v1 v2Vault tokens pairs) (\<lambda>step.
        Inr \<lparr>mg_v1 = v1, mg_destinationWallet = de_wallet d,
             mg_destinationUserSeed = (if mp_userSeed p \<noteq> None then None else de_seed d), mg_v2Vault = v2Vault,
             mg_tokens = tokens, mg_skippedTokens = skipped,
             mg_setupInstructions = creation @ map (create_dest (mp_payer p) v2Vault) pairs, mg_migrate = step\<rparr>)))"
  unfolding web3_pair
proof (rule rbind_ok_map_cong_same [OF refl], rule rbind_ok_map_cong [OF web3_step [OF assms]])
  fix pairs assume "rmap (token_pair K v2Vault) tokens = Inr pairs"
  then show "length pairs = length tokens" by (simp add: rmap_Inr_iff list_all2_lengthD)
qed (simp add: migration_to_web3_def dest_to_web3_def web3_token_instructions create_dest_def)

text \<open>
  C10. \<open>migrateV1Wallet\<close> of the two SDKs. From the same node, the same random bytes and the same challenge
  reads they refuse alike, and where they do not, the same v1 wallet is emptied into the same v2
  wallet and vault, with the same tokens moved and the same skipped for the same reasons; the setup
  and the migrate step are the same instructions, the passkey signs the same challenge, and its answer
  finalizes to the same transaction. What the client remembers of the protocol fee is the same too.
\<close>

theorem web3_migration_agrees:
  assumes "reads_fit reads" "lists_once K rpc" "mp_v1Wallet p \<noteq> Some []"
  shows "agrees (fst (migrateV1Wallet_web3 K rpc feeRpc rand random reads p c))
      (ok_map migration_to_web3 (fst (migrateV1Wallet K rpc feeRpc rand random reads p c)))
    \<and> snd (migrateV1Wallet_web3 K rpc feeRpc rand random reads p c) = snd (migrateV1Wallet K rpc feeRpc rand random reads p c)"
  unfolding migrateV1Wallet_web3_def migrateV1Wallet_def Let_def v1_program_def [symmetric] web3_owner_fields web3_pdas web3_retired
proof (rule agrees_run [OF choice_agrees [OF assms(2,3)]], goal_cases)
  case (1 y)
  then obtain v1 d v2Vault tokens skipped f mints where y: "y = (v1, d, v2Vault, tokens, skipped)"
    and d: "choose_destination K rpc random (cl_programId c) f p mints = Inr d"
    by (auto simp: rbind_eq_Inr)
  show ?case
    unfolding y prod.case
    by (rule sbind_run_map [OF web3_setup [OF d]]) (simp only: pure_def run_map_pair web3_result [OF assms(1), of _ _ _ _ _ _ _ _ _ "cl_programId c"])
qed

lemma steady_lists_once:
  assumes "distinct (map fst accounts)"
  shows "lists_once K (steady_node K accounts now)"
  unfolding lists_once_def
proof (intro allI impI)
  fix v all assume all: "enumerateV1VaultTokens K (steady_node K accounts now) v = Inr all"
  let ?rows = "\<lambda>p. steady_rows accounts (\<lambda>i. ac_owner i = p \<and> u8_slice (ac_data i) 32 64 = k_encAddr K v)"
  obtain as bs where "list_all2 (\<lambda>r t. vault_token_of K TOKEN_PROGRAM_ADDRESS r = Inr t) (?rows TOKEN_PROGRAM_ADDRESS) as"
    "list_all2 (\<lambda>r t. vault_token_of K TOKEN_2022_PROGRAM_ADDRESS r = Inr t) (?rows TOKEN_2022_PROGRAM_ADDRESS) bs" "all = as @ bs"
    using all by (auto simp: enumerateV1VaultTokens_def rbind_eq_Inr rmap_Inr_iff)
  moreover have "map vt_ata ts = map fst rs" if "list_all2 (\<lambda>r t. vault_token_of K q r = Inr t) rs ts" for q rs ts
    using that by (induction rule: list_all2_induct) (auto simp: vault_token_of_def rbind_eq_Inr)
  ultimately have "map vt_ata all = map fst (?rows TOKEN_PROGRAM_ADDRESS) @ map fst (?rows TOKEN_2022_PROGRAM_ADDRESS)" by simp
  also have "distinct \<dots>"
    using assms unfolding steady_rows_def
    by (induction accounts) (auto simp: TOKEN_PROGRAM_ADDRESS_def TOKEN_2022_PROGRAM_ADDRESS_def rev_image_eqI)
  finally show "distinct (map vt_ata all)" .
qed

theorem web3_migration_agrees_witness:
  "\<exists>m. fst (migrateV1Wallet migration_kit old_node (\<lambda>_. Inr None) 0 (replicate 32 0) (\<lambda>_ _. Inr ([], 100, 6)) old_params old_client) = Inr m
    \<and> fst (migrateV1Wallet_web3 migration_kit old_node (\<lambda>_. Inr None) 0 (replicate 32 0) (\<lambda>_ _. Inr ([], 100, 6)) old_params old_client)
      = Inr (migration_to_web3 m) \<and> mw_tokens (migration_to_web3 m) = [old_token]"
proof -
  obtain m c' where m: "migrateV1Wallet migration_kit old_node (\<lambda>_. Inr None) 0 (replicate 32 0) (\<lambda>_ _. Inr ([], 100, 6)) old_params old_client
      = (Inr m, c')" "mg_tokens m = [old_token]" using old_migrates by blast
  have "distinct (map fst old_accounts)" by code_simp
  then have once: "lists_once migration_kit old_node" by (rule steady_lists_once)
  have fit: "reads_fit (\<lambda>_ _. Inr ([], 100, 6))" by (simp add: reads_fit_def)
  have named: "mp_v1Wallet old_params \<noteq> Some []" by code_simp
  show ?thesis
    using web3_migration_agrees [OF fit once named, of "\<lambda>_. Inr None" 0 "replicate 32 0" old_client] m
    by (simp add: agrees_def migration_to_web3_def)
qed

end
