(* ===== verification/Accounts.thy ===== *)
theory Accounts
  imports WalletFlows MigrationSafety LegacyOwnership LegacyAgree
begin

text \<open>
  The accounts of the on-chain program: their layout (\<open>program/src/state\<close>), what the handlers write
  into a new one, and what reads them back: the decoders of \<open>codecs/accounts.ts\<close>, those of
  \<open>sdk-legacy/src/utils/accounts.ts\<close>, and the listings of \<open>LazorKitClient\<close> built on the same bytes. A
  \<open>repr(C)\<close> struct is its fields in order, padding included, little-endian as on the chain.
\<close>

section \<open>The program's layouts\<close>

definition CURRENT_ACCOUNT_VERSION :: byte where "CURRENT_ACCOUNT_VERSION = 1"

record wallet_account =
  wa_discriminator :: byte
  wa_bump :: byte
  wa_version :: byte
  wa_padding :: bytes
  wa_owner_count :: "32 word"

record authority_header =
  ah_discriminator :: byte
  ah_authority_type :: byte
  ah_role :: byte
  ah_bump :: byte
  ah_version :: byte
  ah_padding1 :: bytes
  ah_counter :: "32 word"
  ah_policy_len :: "16 word"
  ah_padding2 :: bytes
  ah_wallet :: bytes

record session_account =
  sn_discriminator :: byte
  sn_bump :: byte
  sn_version :: byte
  sn_padding :: bytes
  sn_wallet :: bytes
  sn_session_key :: bytes
  sn_expires_at :: "64 word"

record deferred_account =
  dfa_discriminator :: byte
  dfa_version :: byte
  dfa_bump :: byte
  dfa_padding :: bytes
  dfa_instructions_hash :: bytes
  dfa_accounts_hash :: bytes
  dfa_wallet :: bytes
  dfa_authority :: bytes
  dfa_payer :: bytes
  dfa_expires_at :: "64 word"

text \<open>The bytes of each struct. The array fields have the lengths of their types.\<close>

definition wallet_bytes :: "wallet_account \<Rightarrow> bytes" where
  "wallet_bytes a = [wa_discriminator a, wa_bump a, wa_version a] @ wa_padding a @ le_bytes 4 (uint (wa_owner_count a))"

definition authority_bytes :: "authority_header \<Rightarrow> bytes" where
  "authority_bytes h = [ah_discriminator h, ah_authority_type h, ah_role h, ah_bump h, ah_version h] @ ah_padding1 h
     @ le_bytes 4 (uint (ah_counter h)) @ le_bytes 2 (uint (ah_policy_len h)) @ ah_padding2 h @ ah_wallet h"

definition session_bytes :: "session_account \<Rightarrow> bytes" where
  "session_bytes s = [sn_discriminator s, sn_bump s, sn_version s] @ sn_padding s @ sn_wallet s @ sn_session_key s
     @ le_bytes 8 (uint (sn_expires_at s))"

definition deferred_bytes :: "deferred_account \<Rightarrow> bytes" where
  "deferred_bytes d = [dfa_discriminator d, dfa_version d, dfa_bump d] @ dfa_padding d @ dfa_instructions_hash d
     @ dfa_accounts_hash d @ dfa_wallet d @ dfa_authority d @ dfa_payer d @ le_bytes 8 (uint (dfa_expires_at d))"

definition wallet_sized :: "wallet_account \<Rightarrow> bool" where
  "wallet_sized a \<longleftrightarrow> length (wa_padding a) = 1"

definition authority_sized :: "authority_header \<Rightarrow> bool" where
  "authority_sized h \<longleftrightarrow> length (ah_padding1 h) = 3 \<and> length (ah_padding2 h) = 2 \<and> length (ah_wallet h) = 32"

definition session_sized :: "session_account \<Rightarrow> bool" where
  "session_sized s \<longleftrightarrow> length (sn_padding s) = 5 \<and> length (sn_wallet s) = 32 \<and> length (sn_session_key s) = 32"

definition deferred_sized :: "deferred_account \<Rightarrow> bool" where
  "deferred_sized d \<longleftrightarrow> length (dfa_padding d) = 5 \<and> length (dfa_instructions_hash d) = 32 \<and> length (dfa_accounts_hash d) = 32
     \<and> length (dfa_wallet d) = 32 \<and> length (dfa_authority d) = 32 \<and> length (dfa_payer d) = 32"

text \<open>\<open>check_header\<close>, and its instance for each account.\<close>

definition check_header :: "bytes \<Rightarrow> account_kind \<Rightarrow> nat option \<Rightarrow> nat \<Rightarrow> unit result" where
  "check_header data expected version_offset min_len =
     (if length data < min_len then Inl (ProgramError ''InvalidAccountData'')
      else if data ! 0 \<noteq> ACCOUNT_DISCRIMINATOR expected then Inl (ProgramError ''InvalidAccountData'')
      else case version_offset of
        Some offset \<Rightarrow> if data ! offset \<noteq> CURRENT_ACCOUNT_VERSION then Inl (ProgramError ''AccountVersionMismatch'') else Inr ()
      | None \<Rightarrow> Inr ())"

definition WalletAccount_check :: "bytes \<Rightarrow> unit result" where
  "WalletAccount_check data = check_header data WALLET (Some 2) 8"

definition AuthorityAccountHeader_check :: "bytes \<Rightarrow> unit result" where
  "AuthorityAccountHeader_check data = check_header data AUTHORITY (Some 4) 48"

definition SessionAccount_check :: "bytes \<Rightarrow> unit result" where
  "SessionAccount_check data = check_header data SESSION (Some 2) 80"

definition DeferredExecAccount_check :: "bytes \<Rightarrow> unit result" where
  "DeferredExecAccount_check data = check_header data DEFERRED_EXEC (Some 1) 176"

definition owner_count :: "bytes \<Rightarrow> 32 word" where
  "owner_count data = word_of_int (le_val (u8_slice data 4 8))"

definition set_owner_count :: "bytes \<Rightarrow> 32 word \<Rightarrow> bytes" where
  "set_owner_count data n = take 4 data @ le_bytes 4 (uint n) @ drop 8 data"

section \<open>What the handlers write\<close>

text \<open>The key material of an authority: a public key, or credential, key and the hash of the relying party.\<close>

definition authority_key_data :: "kit \<Rightarrow> byte \<Rightarrow> bytes \<Rightarrow> bytes result" where
  "authority_key_data K authority_type full_auth_data =
     (if authority_type = 0 then Inr (take 32 full_auth_data)
      else if authority_type = 1 then
        let rp_id_len = unat (full_auth_data ! 65); rp_id = u8_slice full_auth_data 66 (66 + rp_id_len) in
        Inr (take 32 full_auth_data @ u8_slice full_auth_data 32 65 @ k_sha256 K rp_id)
      else Inl (AuthError ''InvalidAuthenticationKind''))"

definition new_authority :: "kit \<Rightarrow> byte \<Rightarrow> byte \<Rightarrow> byte \<Rightarrow> bytes \<Rightarrow> bytes \<Rightarrow> bytes \<Rightarrow> bytes result" where
  "new_authority K authority_type role bump wallet full_auth_data policy =
     rbind (authority_key_data K authority_type full_auth_data) (\<lambda>key.
     Inr (authority_bytes
       \<lparr>ah_discriminator = ACCOUNT_DISCRIMINATOR AUTHORITY, ah_authority_type = authority_type, ah_role = role,
        ah_bump = bump, ah_version = CURRENT_ACCOUNT_VERSION, ah_padding1 = u8_zeros 3, ah_counter = 0,
        ah_policy_len = of_nat (length policy), ah_padding2 = u8_zeros 2, ah_wallet = wallet\<rparr> @ key @ policy))"

text \<open>\<open>CreateWallet\<close> after its checks: the data of the wallet and of its first Owner.\<close>

definition create_wallet_accounts :: "kit \<Rightarrow> address \<Rightarrow> account_info list \<Rightarrow> bytes \<Rightarrow> (bytes \<times> bytes) result" where
  "create_wallet_accounts K program_id infos instruction_data =
     rbind (process_create_wallet K program_id infos instruction_data) (\<lambda>(user_seed, authority_type, full_auth_data).
     rbind (k_pda K program_id [utf8 SEED_WALLET, user_seed]) (\<lambda>(wallet, wallet_bump).
     rbind (k_pda K program_id [utf8 SEED_AUTHORITY, k_encAddr K wallet, take 32 full_auth_data]) (\<lambda>(_, auth_bump).
     rbind (new_authority K authority_type 0 (word_of_int auth_bump) (k_encAddr K wallet) full_auth_data []) (\<lambda>auth.
     Inr (wallet_bytes
       \<lparr>wa_discriminator = ACCOUNT_DISCRIMINATOR WALLET, wa_bump = word_of_int wallet_bump,
        wa_version = CURRENT_ACCOUNT_VERSION, wa_padding = [0], wa_owner_count = 1\<rparr>, auth)))))"

definition new_session :: "byte \<Rightarrow> bytes \<Rightarrow> bytes \<Rightarrow> 64 word \<Rightarrow> bytes \<Rightarrow> bytes" where
  "new_session bump wallet session_key expires_at actions =
     session_bytes \<lparr>sn_discriminator = ACCOUNT_DISCRIMINATOR SESSION, sn_bump = bump, sn_version = CURRENT_ACCOUNT_VERSION,
       sn_padding = u8_zeros 5, sn_wallet = wallet, sn_session_key = session_key, sn_expires_at = expires_at\<rparr> @ actions"

definition new_deferred :: "byte \<Rightarrow> bytes \<Rightarrow> bytes \<Rightarrow> bytes \<Rightarrow> bytes \<Rightarrow> bytes \<Rightarrow> 64 word \<Rightarrow> bytes" where
  "new_deferred bump instructions_hash accounts_hash wallet authority payer expires_at =
     deferred_bytes \<lparr>dfa_discriminator = ACCOUNT_DISCRIMINATOR DEFERRED_EXEC, dfa_version = CURRENT_ACCOUNT_VERSION,
       dfa_bump = bump, dfa_padding = u8_zeros 5, dfa_instructions_hash = instructions_hash,
       dfa_accounts_hash = accounts_hash, dfa_wallet = wallet, dfa_authority = authority, dfa_payer = payer,
       dfa_expires_at = expires_at\<rparr>"

section \<open>Decoders of the kit SDK\<close>

text \<open>
  A decoder of the kit packages reads at an offset and says where it stopped; \<open>getStructDecoder\<close> runs
  its fields' decoders one after the other.
\<close>

type_synonym 'a decoder = "bytes \<Rightarrow> nat \<Rightarrow> ('a \<times> nat) result"

definition take_bytes :: "nat \<Rightarrow> bytes decoder" where
  "take_bytes n data offset =
     (if offset + n \<le> length data then Inr (u8_slice data offset (offset + n), offset + n)
      else Inl (LibError ''CODECS__INVALID_BYTE_LENGTH''))"

definition dmap :: "('a \<Rightarrow> 'b) \<Rightarrow> 'a decoder \<Rightarrow> 'b decoder" where
  "dmap f d data offset = rbind (d data offset) (\<lambda>(x, offset). Inr (f x, offset))"

definition dbind :: "'a decoder \<Rightarrow> ('a \<Rightarrow> 'b decoder) \<Rightarrow> 'b decoder" where
  "dbind d f data offset = rbind (d data offset) (\<lambda>(x, offset). f x data offset)"

definition dreturn :: "'a \<Rightarrow> 'a decoder" where
  "dreturn x data offset = Inr (x, offset)"

definition getUintDecoder :: "kit \<Rightarrow> nat \<Rightarrow> int decoder" where
  "getUintDecoder K w = dmap (k_decUint K w) (take_bytes w)"

definition getAddressDecoder :: "kit \<Rightarrow> address decoder" where
  "getAddressDecoder K = dmap (k_decAddr K) (take_bytes 32)"

definition decode :: "'a decoder \<Rightarrow> bytes \<Rightarrow> 'a result" where
  "decode d data = rbind (d data 0) (\<lambda>(x, _). Inr x)"

record authority_account_data =
  aa_discriminator :: int
  aa_authorityType :: int
  aa_role :: int
  aa_bump :: int
  aa_version :: int
  aa_counter :: int
  aa_policyLen :: int
  aa_isBounded :: bool
  aa_wallet :: address

definition AUTHORITY_HEADER_SIZE :: nat where "AUTHORITY_HEADER_SIZE = 48"

definition authorityHeaderDecoder :: "kit \<Rightarrow> (int \<times> int \<times> int \<times> int \<times> int \<times> int \<times> int \<times> address) decoder" where
  "authorityHeaderDecoder K =
     dbind (getUintDecoder K 1) (\<lambda>discriminator.
     dbind (getUintDecoder K 1) (\<lambda>authorityType.
     dbind (getUintDecoder K 1) (\<lambda>role.
     dbind (getUintDecoder K 1) (\<lambda>bump.
     dbind (getUintDecoder K 1) (\<lambda>version.
     dbind (take_bytes 3) (\<lambda>_.
     dbind (getUintDecoder K 4) (\<lambda>counter.
     dbind (getUintDecoder K 2) (\<lambda>policyLen.
     dbind (take_bytes 2) (\<lambda>_.
     dbind (getAddressDecoder K) (\<lambda>wallet.
     dreturn (discriminator, authorityType, role, bump, version, counter, policyLen, wallet)))))))))))"

definition decodeAuthorityAccount :: "kit \<Rightarrow> bytes \<Rightarrow> authority_account_data result" where
  "decodeAuthorityAccount K data =
     (if length data < AUTHORITY_HEADER_SIZE then Inl (Error ''Authority account data too short'')
      else rbind (decode (authorityHeaderDecoder K) data)
        (\<lambda>(discriminator, authorityType, role, bump, version, counter, policyLen, wallet).
        Inr \<lparr>aa_discriminator = discriminator, aa_authorityType = authorityType, aa_role = role, aa_bump = bump,
             aa_version = version, aa_counter = counter, aa_policyLen = policyLen, aa_isBounded = (policyLen > 0),
             aa_wallet = wallet\<rparr>))"

record session_account_data =
  sd_discriminator :: int
  sd_bump :: int
  sd_version :: int
  sd_wallet :: address
  sd_sessionKey :: address
  sd_expiresAt :: int

definition SESSION_HEADER_SIZE :: nat where "SESSION_HEADER_SIZE = 80"

definition sessionHeaderDecoder :: "kit \<Rightarrow> session_account_data decoder" where
  "sessionHeaderDecoder K =
     dbind (getUintDecoder K 1) (\<lambda>discriminator.
     dbind (getUintDecoder K 1) (\<lambda>bump.
     dbind (getUintDecoder K 1) (\<lambda>version.
     dbind (take_bytes 5) (\<lambda>_.
     dbind (getAddressDecoder K) (\<lambda>wallet.
     dbind (getAddressDecoder K) (\<lambda>sessionKey.
     dbind (getUintDecoder K 8) (\<lambda>expiresAt.
     dreturn \<lparr>sd_discriminator = discriminator, sd_bump = bump, sd_version = version, sd_wallet = wallet,
              sd_sessionKey = sessionKey, sd_expiresAt = expiresAt\<rparr>)))))))"

definition decodeSessionAccount :: "kit \<Rightarrow> bytes \<Rightarrow> session_account_data result" where
  "decodeSessionAccount K data =
     (if length data < SESSION_HEADER_SIZE then Inl (Error ''Session account data too short'')
      else decode (sessionHeaderDecoder K) data)"

record wallet_account_data =
  wd_discriminator :: int
  wd_bump :: int
  wd_version :: int
  wd_ownerCount :: int

definition WALLET_HEADER_SIZE :: nat where "WALLET_HEADER_SIZE = 8"

definition walletHeaderDecoder :: "kit \<Rightarrow> wallet_account_data decoder" where
  "walletHeaderDecoder K =
     dbind (getUintDecoder K 1) (\<lambda>discriminator.
     dbind (getUintDecoder K 1) (\<lambda>bump.
     dbind (getUintDecoder K 1) (\<lambda>version.
     dbind (take_bytes 1) (\<lambda>_.
     dbind (getUintDecoder K 4) (\<lambda>ownerCount.
     dreturn \<lparr>wd_discriminator = discriminator, wd_bump = bump, wd_version = version, wd_ownerCount = ownerCount\<rparr>)))))"

definition decodeWalletAccount :: "kit \<Rightarrow> bytes \<Rightarrow> wallet_account_data result" where
  "decodeWalletAccount K data =
     (if length data < WALLET_HEADER_SIZE then Inl (Error ''Wallet account data too short'')
      else decode (walletHeaderDecoder K) data)"

section \<open>Decoders and listings of the SDK for web3.js v1\<close>

text \<open>\<open>data[i]\<close> of a Buffer known to be long enough, as a number; \<open>readUInt32LE\<close> and its kin throw past the end.\<close>

abbreviation buf_at :: "bytes \<Rightarrow> nat \<Rightarrow> int" where
  "buf_at data i \<equiv> uint (data ! i)"

record authority_account =
  ab_discriminator :: int
  ab_authorityType :: int
  ab_role :: int
  ab_bump :: int
  ab_version :: int
  ab_counter :: int
  ab_wallet :: address
  ab_policyLen :: int

definition AuthorityAccount_fromBuffer :: "kit \<Rightarrow> bytes \<Rightarrow> authority_account result" where
  "AuthorityAccount_fromBuffer K data =
     (if length data < 48 then Inl (Error ''Authority account data too short'')
      else
        rbind (dv_get 4 data 8) (\<lambda>counter.
        rbind (dv_get 2 data 12) (\<lambda>policyLen.
        Inr \<lparr>ab_discriminator = buf_at data 0, ab_authorityType = buf_at data 1, ab_role = buf_at data 2,
             ab_bump = buf_at data 3, ab_version = buf_at data 4, ab_counter = counter,
             ab_wallet = pubkey_of K (u8_slice data 16 48), ab_policyLen = policyLen\<rparr>)))"

definition isBounded :: "authority_account \<Rightarrow> bool" where
  "isBounded a \<longleftrightarrow> ab_policyLen a > 0"

definition AuthorityAccount_fromAccountAddress :: "kit \<Rightarrow> node_rpc \<Rightarrow> address \<Rightarrow> authority_account result" where
  "AuthorityAccount_fromAccountAddress K rpc a =
     rbind (nr_accountInfo rpc a) (\<lambda>info. case info of
       None \<Rightarrow> Inl (Error ''Authority account not found'')
     | Some i \<Rightarrow> AuthorityAccount_fromBuffer K (ac_data i))"

definition SessionAccount_fromBuffer :: "kit \<Rightarrow> bytes \<Rightarrow> session_account_data result" where
  "SessionAccount_fromBuffer K data =
     (if length data < 80 then Inl (Error ''Session account data too short'')
      else
        rbind (dv_get 8 data 72) (\<lambda>expiresAt.
        Inr \<lparr>sd_discriminator = buf_at data 0, sd_bump = buf_at data 1, sd_version = buf_at data 2,
             sd_wallet = pubkey_of K (u8_slice data 8 40), sd_sessionKey = pubkey_of K (u8_slice data 40 72),
             sd_expiresAt = expiresAt\<rparr>))"

definition SessionAccount_fromAccountAddress :: "kit \<Rightarrow> node_rpc \<Rightarrow> address \<Rightarrow> session_account_data result" where
  "SessionAccount_fromAccountAddress K rpc a =
     rbind (nr_accountInfo rpc a) (\<lambda>info. case info of
       None \<Rightarrow> Inl (Error ''Session account not found'')
     | Some i \<Rightarrow> SessionAccount_fromBuffer K (ac_data i))"

record wallet_authority =
  wy_authorityPda :: address
  wy_role :: "byte option"
  wy_authorityType :: "byte option"
  wy_counter :: int
  wy_policyLen :: int
  wy_isBounded :: bool
  wy_policy :: "bytes option"

definition wallet_authority_of :: "row \<Rightarrow> wallet_authority result" where
  "wallet_authority_of r = (case r of (authorityPda, data) \<Rightarrow>
     let authorityType = u8_at data 1 in
     rbind (dv_get 2 data 12) (\<lambda>policyLen.
     let fixedLen = (if authorityType = Some (word_of_int AUTH_TYPE_SECP256R1) then 145 else 80);
         policy = (if policyLen > 0 \<and> int (length data) \<ge> int fixedLen + policyLen
                   then Some (u8_slice data fixedLen (fixedLen + nat policyLen)) else None) in
     rbind (dv_get 4 data 8) (\<lambda>counter.
     Inr \<lparr>wy_authorityPda = authorityPda, wy_role = u8_at data 2, wy_authorityType = authorityType, wy_counter = counter,
          wy_policyLen = policyLen, wy_isBounded = (policyLen > 0), wy_policy = policy\<rparr>)))"

definition findAuthoritiesByWallet :: "kit \<Rightarrow> node_rpc \<Rightarrow> address \<Rightarrow> address \<Rightarrow> wallet_authority list result" where
  "findAuthoritiesByWallet K rpc programId walletPda =
     rbind (nr_programAccounts rpc programId [(0, [ACCOUNT_DISCRIMINATOR AUTHORITY]), (16, k_encAddr K walletPda)])
       (rmap wallet_authority_of)"

definition getRecoveryStatus :: "node_rpc \<Rightarrow> address \<Rightarrow> (int \<times> bool) result" where
  "getRecoveryStatus rpc walletPda =
     rbind (nr_accountInfo rpc walletPda) (\<lambda>info.
     if info = None \<or> length (ac_data (the info)) < 8 then Inl (Error ''Wallet account not found'')
     else
       rbind (dv_get 4 (ac_data (the info)) 4) (\<lambda>ownerCount.
       Inr (ownerCount, ownerCount > 1)))"

section \<open>Fields at their offsets\<close>

lemmas decoder_defs = decode_def dbind_def dmap_def dreturn_def take_bytes_def getAddressDecoder_def

lemma uint_at_1: "i < length data \<Longrightarrow> uint_at 1 data i = uint (data ! i)"
  by (simp add: uint_at_def u8_slice_def take_Suc_conv_app_nth hd_drop_conv_nth)

lemma uint_at_first: "data \<noteq> [] \<Longrightarrow> uint_at 1 data 0 = uint (data ! 0)"
  by (simp add: uint_at_1 del: One_nat_def)

lemma uint_decoder:
  assumes "uint_codecs K"
  shows "getUintDecoder K w data offset = (if offset + w \<le> length data then Inr (uint_at w data offset, offset + w)
    else Inl (LibError ''CODECS__INVALID_BYTE_LENGTH''))"
proof -
  have "k_decUint K w bs = le_val bs" if "length bs = w" for bs using assms that by (auto simp: uint_codecs_def)
  then show ?thesis by (simp add: getUintDecoder_def dmap_def take_bytes_def uint_at_def)
qed

lemma decodeAuthorityAccount_eq:
  assumes "uint_codecs K"
  shows "decodeAuthorityAccount K data = (if length data < 48 then Inl (Error ''Authority account data too short'')
    else Inr \<lparr>aa_discriminator = uint (data ! 0), aa_authorityType = uint (data ! 1), aa_role = uint (data ! 2),
      aa_bump = uint (data ! 3), aa_version = uint (data ! 4), aa_counter = uint_at 4 data 8, aa_policyLen = uint_at 2 data 12,
      aa_isBounded = (uint_at 2 data 12 > 0), aa_wallet = k_decAddr K (u8_slice data 16 48)\<rparr>)"
  by (cases "data = []") (simp_all add: decodeAuthorityAccount_def authorityHeaderDecoder_def decoder_defs uint_decoder [OF assms] AUTHORITY_HEADER_SIZE_def uint_at_1 uint_at_first del: One_nat_def)

lemma decodeSessionAccount_eq:
  assumes "uint_codecs K"
  shows "decodeSessionAccount K data = (if length data < 80 then Inl (Error ''Session account data too short'')
    else Inr \<lparr>sd_discriminator = uint (data ! 0), sd_bump = uint (data ! 1), sd_version = uint (data ! 2),
      sd_wallet = k_decAddr K (u8_slice data 8 40), sd_sessionKey = k_decAddr K (u8_slice data 40 72),
      sd_expiresAt = uint_at 8 data 72\<rparr>)"
  by (cases "data = []") (simp_all add: decodeSessionAccount_def sessionHeaderDecoder_def decoder_defs uint_decoder [OF assms] SESSION_HEADER_SIZE_def uint_at_1 uint_at_first del: One_nat_def)

lemma decodeWalletAccount_eq:
  assumes "uint_codecs K"
  shows "decodeWalletAccount K data = (if length data < 8 then Inl (Error ''Wallet account data too short'')
    else Inr \<lparr>wd_discriminator = uint (data ! 0), wd_bump = uint (data ! 1), wd_version = uint (data ! 2),
      wd_ownerCount = uint_at 4 data 4\<rparr>)"
  by (cases "data = []") (simp_all add: decodeWalletAccount_def walletHeaderDecoder_def decoder_defs uint_decoder [OF assms] WALLET_HEADER_SIZE_def uint_at_1 uint_at_first del: One_nat_def)

lemma web3_account_decoders:
  assumes "uint_codecs K"
  shows "AuthorityAccount_fromBuffer K data = ok_map (\<lambda>a. \<lparr>ab_discriminator = aa_discriminator a,
      ab_authorityType = aa_authorityType a, ab_role = aa_role a, ab_bump = aa_bump a, ab_version = aa_version a,
      ab_counter = aa_counter a, ab_wallet = aa_wallet a, ab_policyLen = aa_policyLen a\<rparr>) (decodeAuthorityAccount K data)"
    "SessionAccount_fromBuffer K data = decodeSessionAccount K data"
  by (simp_all add: AuthorityAccount_fromBuffer_def SessionAccount_fromBuffer_def decodeAuthorityAccount_eq [OF assms]
      decodeSessionAccount_eq [OF assms] dv_get_def uint_at_def)

lemma le_val_word:
  "le_val (le_bytes 4 (uint (w :: 32 word))) = uint w" "le_val (le_bytes 2 (uint (v :: 16 word))) = uint v"
  "le_val (le_bytes 8 (uint (u :: 64 word))) = uint u"
  using uint_lt2p [of w] uint_lt2p [of v] uint_lt2p [of u] by (simp_all add: le_val_le_bytes)

lemma wallet_fields:
  assumes "wallet_sized w"
  shows "length (wallet_bytes w) = 8" "uint_at 4 (wallet_bytes w @ r) 4 = uint (wa_owner_count w)"
    "(wallet_bytes w @ r) ! 0 = wa_discriminator w" "(wallet_bytes w @ r) ! 1 = wa_bump w" "(wallet_bytes w @ r) ! 2 = wa_version w"
  using assms by (simp_all add: wallet_bytes_def wallet_sized_def uint_at_def u8_slice_def le_val_word)

lemma authority_fields:
  assumes "authority_sized h"
  shows "length (authority_bytes h) = 48" "uint_at 4 (authority_bytes h @ r) 8 = uint (ah_counter h)"
    "uint_at 2 (authority_bytes h @ r) 12 = uint (ah_policy_len h)" "u8_slice (authority_bytes h @ r) 16 48 = ah_wallet h"
    "(authority_bytes h @ r) ! 0 = ah_discriminator h" "(authority_bytes h @ r) ! 1 = ah_authority_type h"
    "(authority_bytes h @ r) ! 2 = ah_role h" "(authority_bytes h @ r) ! 3 = ah_bump h" "(authority_bytes h @ r) ! 4 = ah_version h"
  using assms by (simp_all add: authority_bytes_def authority_sized_def uint_at_def u8_slice_def le_val_word)

lemma session_fields:
  assumes "session_sized s"
  shows "length (session_bytes s) = 80" "uint_at 8 (session_bytes s @ r) 72 = uint (sn_expires_at s)"
    "u8_slice (session_bytes s @ r) 8 40 = sn_wallet s" "u8_slice (session_bytes s @ r) 40 72 = sn_session_key s"
    "(session_bytes s @ r) ! 0 = sn_discriminator s" "(session_bytes s @ r) ! 1 = sn_bump s" "(session_bytes s @ r) ! 2 = sn_version s"
  using assms by (simp_all add: session_bytes_def session_sized_def uint_at_def u8_slice_def le_val_word)

lemma deferred_fields:
  assumes "deferred_sized d"
  shows "length (deferred_bytes d) = 176" "uint_at 8 (deferred_bytes d @ r) 168 = uint (dfa_expires_at d)"
    "u8_slice (deferred_bytes d @ r) 72 104 = dfa_wallet d" "u8_slice (deferred_bytes d @ r) 104 136 = dfa_authority d"
    "(deferred_bytes d @ r) ! 0 = dfa_discriminator d" "(deferred_bytes d @ r) ! 1 = dfa_version d"
  using assms by (simp_all add: deferred_bytes_def deferred_sized_def uint_at_def u8_slice_def le_val_word)

section \<open>Accounts read back\<close>

lemma memcmp_field: "length bs = b - a \<Longrightarrow> memcmp_ok [(a, bs)] data \<longleftrightarrow> u8_slice data a b = bs"
  by (simp add: memcmp_ok_def u8_slice_def)



text \<open>The program's own check of a header: its account type and its layout version.\<close>

lemma checked_headers:
  "wallet_sized w \<Longrightarrow> is_ok (WalletAccount_check (wallet_bytes w @ rest)) \<longleftrightarrow> wa_discriminator w = 0x21 \<and> wa_version w = 1"
  "authority_sized h \<Longrightarrow> is_ok (AuthorityAccountHeader_check (authority_bytes h @ rest)) \<longleftrightarrow> ah_discriminator h = 0x22 \<and> ah_version h = 1"
  "session_sized s \<Longrightarrow> is_ok (SessionAccount_check (session_bytes s @ rest)) \<longleftrightarrow> sn_discriminator s = 0x23 \<and> sn_version s = 1"
  "deferred_sized d \<Longrightarrow> is_ok (DeferredExecAccount_check (deferred_bytes d @ rest)) \<longleftrightarrow> dfa_discriminator d = 0x24 \<and> dfa_version d = 1"
  by (auto simp: WalletAccount_check_def AuthorityAccountHeader_check_def SessionAccount_check_def DeferredExecAccount_check_def
      check_header_def CURRENT_ACCOUNT_VERSION_def wallet_fields authority_fields session_fields deferred_fields
      simp del: One_nat_def split: if_splits)

lemma owner_count_set:
  assumes "8 \<le> length data"
  shows "owner_count (set_owner_count data n) = n" "length (set_owner_count data n) = length data"
    "i < 4 \<or> 8 \<le> i \<Longrightarrow> u8_at (set_owner_count data n) i = u8_at data i"
  using assms by (auto simp: owner_count_def set_owner_count_def u8_slice_def u8_at_def le_val_word nth_append)

text \<open>
  An authority added with a policy is listed with it: the rank, the type, an unused counter, and the
  policy's bytes where the listing looks for them.
\<close>

theorem authority_listed_with_policy:
  assumes "new_authority K ty role bump wallet auth policy = Inr data" "sha256_32 K" "length wallet = 32"
    and "65 \<le> length auth" "length policy < 65536"
  shows "wallet_authority_of (a, data) = Inr \<lparr>wy_authorityPda = a, wy_role = Some role, wy_authorityType = Some ty, wy_counter = 0,
    wy_policyLen = int (length policy), wy_isBounded = (policy \<noteq> []), wy_policy = (if policy = [] then None else Some policy)\<rparr>"
proof -
  define h where "h = \<lparr>ah_discriminator = ACCOUNT_DISCRIMINATOR AUTHORITY, ah_authority_type = ty, ah_role = role,
    ah_bump = bump, ah_version = CURRENT_ACCOUNT_VERSION, ah_padding1 = u8_zeros 3, ah_counter = 0,
    ah_policy_len = of_nat (length policy), ah_padding2 = u8_zeros 2, ah_wallet = wallet\<rparr>"
  obtain key where key: "authority_key_data K ty auth = Inr key" and data: "data = authority_bytes h @ key @ policy"
    using assms(1) by (auto simp: new_authority_def rbind_eq_Inr h_def)
  have h: "authority_sized h" using assms(3) by (simp add: authority_sized_def h_def)
  have len: "ty = 1 \<and> length key = 97 \<or> ty = 0 \<and> length key = 32"
    using key assms(4) sha256_length [OF assms(2)] by (auto simp: authority_key_data_def Let_def split: if_splits)
  have n: "uint (ah_policy_len h) = int (length policy)" "ah_role h = role" "ah_authority_type h = ty" "ah_counter h = 0"
    using assms(5) by (simp_all add: h_def unsigned_of_nat take_bit_nat_eq_self)
  note fields = authority_fields(2-9) [OF h, of "key @ policy", folded data]
  have "drop 48 data = key @ policy" by (simp add: data authority_fields(1) [OF h])
  then have "u8_slice data (48 + length key) (48 + length key + length policy) = policy"
    by (simp add: u8_slice_def add.commute [of 48] flip: drop_drop)
  moreover have "length data = 48 + length key + length policy" by (simp add: data authority_fields(1) [OF h])
  ultimately show ?thesis
    using len fields n by (auto simp: wallet_authority_of_def AUTH_TYPE_SECP256R1_def u8_at_def dv_get_def uint_at_def simp del: One_nat_def)
qed

section \<open>A new wallet\<close>

lemma key_data_written:
  assumes "key_wf ty cred pk rpId"
  shows "authority_key_data K (word_of_int ty) (key_bytes ty cred pk rpId)
    = Inr (if ty = 0 then cred else cred @ the pk @ k_sha256 K (utf8 (the rpId)))"
proof (cases "ty = 0")
  case True
  then show ?thesis using assms by (simp add: authority_key_data_def key_bytes_ed25519 key_wf_def)
next
  case False
  then obtain k r where kr: "ty = 1" "pk = Some k" "rpId = Some r" "length cred = 32" "length k = 33" "r \<noteq> []" "length r \<le> 253"
    using assms by (auto simp: key_wf_def split: option.splits)
  have "unat (word_of_int (int (length r)) :: byte) = length r" using kr(7) by (simp add: unat_byte_of_nat)
  then show ?thesis using kr by (simp add: authority_key_data_def key_bytes_secp u8_slice_def nth_append)
qed

lemma created_accounts:
  assumes K: "address_codec K" and owner: "owner_wf K owner"
    and run: "createWallet K rpc rand payer userSeed owner c = (Inr w, c')"
  obtains f metas b b1 b2 where "resolveOwnerFields K owner = Inr f"
    "processor_accounts (cl_protocolFees c) (hd (data_of (last (cw_instructions w))))
       (withRuntimeRoles (accounts_of (last (cw_instructions w))) fp) = Inr metas"
    "key_wf (of_authType f) (of_credentialOrPubkey f) (of_secp256r1Pubkey f) (of_rpId f)"
    "findVaultPda K (cw_walletPda w) (cl_programId c) = Inr (cw_vaultPda w, b2)"
    "create_wallet_accounts K (cl_programId c) (infos_of K metas) (tl (data_of (last (cw_instructions w)))) = Inr
       (wallet_bytes \<lparr>wa_discriminator = 0x21, wa_bump = word_of_int b1, wa_version = 1, wa_padding = [0], wa_owner_count = 1\<rparr>,
        authority_bytes \<lparr>ah_discriminator = 0x22, ah_authority_type = word_of_int (of_authType f), ah_role = 0,
          ah_bump = word_of_int b, ah_version = 1, ah_padding1 = u8_zeros 3, ah_counter = 0, ah_policy_len = 0,
          ah_padding2 = u8_zeros 2, ah_wallet = k_encAddr K (cw_walletPda w)\<rparr>
        @ (if of_authType f = 0 then of_credentialOrPubkey f
           else of_credentialOrPubkey f @ the (of_secp256r1Pubkey f) @ k_sha256 K (utf8 (the (of_rpId f)))))"
proof (rule createWallet_cases [OF run], goal_cases)
  case (1 f b fee b1 b2)
  have kw: "key_wf (of_authType f) (of_credentialOrPubkey f) (of_secp256r1Pubkey f) (of_rpId f)"
    by (rule resolved_key_wf [OF K 1(3) owner])
  let ?key = "key_bytes (of_authType f) (of_credentialOrPubkey f) (of_secp256r1Pubkey f) (of_rpId f)"
  have seed: "take 32 ?key = of_credentialOrPubkey f" using kw by (simp add: key_bytes_def key_wf_def)
  obtain metas where m: "processor_accounts (cl_protocolFees c) (hd (data_of (last (cw_instructions w))))
      (withRuntimeRoles (accounts_of (last (cw_instructions w))) fp) = Inr metas"
    "process_create_wallet K (cl_programId c) (infos_of K metas) (tl (data_of (last (cw_instructions w)))) =
      Inr (userSeed, word_of_int (of_authType f), ?key)"
    using createWallet_accepted [OF K owner run, of fp] 1(3) by auto
  show ?case
    using 1(4-6) by (intro 1(1) [OF 1(3) m(1) kw 1(5), of b1 b]) (simp add: create_wallet_accounts_def m(2) new_authority_def
      key_data_written [OF kw] seed find_pda_defs CURRENT_ACCOUNT_VERSION_def)
qed

lemma rows_of_new_wallet:
  assumes "list_all (\<lambda>(a, i). ac_owner i \<noteq> pid) others" "wd ! 0 \<noteq> 0x22" "wd \<noteq> []"
    and "memcmp_ok ((0, 0x22 # x) # fs) ad"
  shows "steady_rows ((wallet, \<lparr>ac_owner = pid, ac_lamports = l, ac_data = wd\<rparr>) # (auth, \<lparr>ac_owner = pid, ac_lamports = l', ac_data = ad\<rparr>) # others)
      (\<lambda>i. ac_owner i = pid \<and> memcmp_ok ((0, 0x22 # x) # fs) (ac_data i)) = [(auth, ad)]"
proof -
  have "\<not> memcmp_ok ((0, 0x22 # x) # fs) wd" using assms(2,3) by (cases wd) (auto simp: memcmp_ok_def)
  moreover have "filter (\<lambda>(a, i). ac_owner i = pid \<and> memcmp_ok ((0, 0x22 # x) # fs) (ac_data i)) others = []"
    using assms(1) by (auto simp: filter_empty_conv list_all_iff)
  ultimately show ?thesis using assms(4) by (simp add: steady_rows_def)
qed

lemma authority_data_scanned:
  assumes h: "authority_sized h" and ad: "ad = authority_bytes h @ cred @ rest" "length cred = 32"
  shows "memcmp_ok [(0, [ah_discriminator h, ah_authority_type h]), (48, cred)] ad" "memcmp_ok [(0, [ah_discriminator h]), (16, ah_wallet h)] ad"
    "u8_slice ad 16 48 = ah_wallet h" "u8_at ad 1 = Some (ah_authority_type h)" "u8_at ad 2 = Some (ah_role h)"
    "dv_get 4 ad 8 = Inr (uint (ah_counter h))" "dv_get 2 ad 12 = Inr (uint (ah_policy_len h))" "length ad = 80 + length rest"
proof -
  note fields = authority_fields [OF h] and len = authority_fields(1) [OF h]
  show "length ad = 80 + length rest" "u8_slice ad 16 48 = ah_wallet h" "u8_at ad 1 = Some (ah_authority_type h)"
    "u8_at ad 2 = Some (ah_role h)" "dv_get 4 ad 8 = Inr (uint (ah_counter h))" "dv_get 2 ad 12 = Inr (uint (ah_policy_len h))"
    using fields by (simp_all add: ad u8_at_def dv_get_def uint_at_def)
  have two: "take 2 ad = [ah_discriminator h, ah_authority_type h]" and one: "take 1 ad = [ah_discriminator h]"
    by (simp_all add: ad authority_bytes_def)
  have "take 32 (drop 48 ad) = cred" by (simp add: ad len)
  then show "memcmp_ok [(0, [ah_discriminator h, ah_authority_type h]), (48, cred)] ad" using two ad(2) by (simp add: memcmp_ok_def numeral_2_eq_2)
  have "take 32 (drop 16 ad) = ah_wallet h" "length (ah_wallet h) = 32" using fields(4) [of "cred @ rest"] h
    by (simp_all add: ad u8_slice_def authority_sized_def)
  then show "memcmp_ok [(0, [ah_discriminator h]), (16, ah_wallet h)] ad" using one by (simp add: memcmp_ok_def)
qed

text \<open>A node that answers from a chain with a new wallet and accounts of other programs.\<close>

definition deployed :: "kit \<Rightarrow> address \<Rightarrow> created_wallet \<Rightarrow> bytes \<times> bytes \<Rightarrow> int \<Rightarrow> (address \<times> account) list \<Rightarrow> int \<Rightarrow> node_rpc" where
  "deployed K programId w data rent others now = steady_node K
     ((cw_walletPda w, \<lparr>ac_owner = programId, ac_lamports = rent, ac_data = fst data\<rparr>)
      # (cw_authorityPda w, \<lparr>ac_owner = programId, ac_lamports = rent, ac_data = snd data\<rparr>) # others) now"

lemma deployed_scan:
  assumes "list_all (\<lambda>(a, i). ac_owner i \<noteq> pid) others" "wd ! 0 \<noteq> 0x22" "wd \<noteq> []" "memcmp_ok ((0, 0x22 # x) # fs) ad"
  shows "nr_programAccounts (deployed K pid w (wd, ad) rent others now) pid ((0, 0x22 # x) # fs) = Inr [(cw_authorityPda w, ad)]"
  by (simp add: deployed_def rows_of_new_wallet [OF assms])

lemma deployed_listed:
  assumes K: "address_codec K" "k_isAddress K (cw_walletPda w)"
    and chain: "list_all (\<lambda>(a, i). ac_owner i \<noteq> pid) others" "wd ! 0 \<noteq> 0x22" "wd \<noteq> []"
    and h: "authority_sized h" "ah_discriminator h = 0x22" "ah_wallet h = k_encAddr K (cw_walletPda w)" "ah_policy_len h = 0"
      "ah_authority_type h = word_of_int ty"
    and ty: "ty = AUTH_TYPE_ED25519 \<or> ty = AUTH_TYPE_SECP256R1"
    and ad: "ad = authority_bytes h @ cred @ rest" "length cred = 32"
    and vault: "findVaultPda K (cw_walletPda w) pid = Inr (cw_vaultPda w, b)"
  shows "findWalletsByAuthority K (deployed K pid w (wd, ad) rent others now) pid cred (ty = AUTH_TYPE_ED25519)
      = Inr [\<lparr>war_walletPda = cw_walletPda w, war_authorityPda = cw_authorityPda w, war_vaultPda = cw_vaultPda w,
          war_role = Some (ah_role h), war_authorityType = Some (word_of_int ty)\<rparr>]"
    "findAuthoritiesByWallet K (deployed K pid w (wd, ad) rent others now) pid (cw_walletPda w)
      = Inr [\<lparr>wy_authorityPda = cw_authorityPda w, wy_role = Some (ah_role h), wy_authorityType = Some (word_of_int ty),
          wy_counter = uint (ah_counter h), wy_policyLen = 0, wy_isBounded = False, wy_policy = None\<rparr>]"
proof -
  note scanned = authority_data_scanned [OF h(1) ad, unfolded h(2-5)]
  note rows = deployed_scan [OF chain, where K = K and w = w and ad = ad and rent = rent and now = now]
  have addr: "addressFromBytes K (k_encAddr K (cw_walletPda w)) = Inr (cw_walletPda w)"
    using K encAddr_length [OF K] by (simp add: addressFromBytes_def address_codec_def)
  have filt: "u8_of [uint (ACCOUNT_DISCRIMINATOR AUTHORITY), if ty = AUTH_TYPE_ED25519 then AUTH_TYPE_ED25519 else AUTH_TYPE_SECP256R1]
      = [0x22, word_of_int ty]" using ty by auto
  show "findWalletsByAuthority K (deployed K pid w (wd, ad) rent others now) pid cred (ty = AUTH_TYPE_ED25519)
      = Inr [\<lparr>war_walletPda = cw_walletPda w, war_authorityPda = cw_authorityPda w, war_vaultPda = cw_vaultPda w,
          war_role = Some (ah_role h), war_authorityType = Some (word_of_int ty)\<rparr>]"
    using ad(2) scanned vault unfolding findWalletsByAuthority_def filt rows [OF scanned(1)]
    by (simp add: assertByteLength_def addr del: One_nat_def)
  show "findAuthoritiesByWallet K (deployed K pid w (wd, ad) rent others now) pid (cw_walletPda w)
      = Inr [\<lparr>wy_authorityPda = cw_authorityPda w, wy_role = Some (ah_role h), wy_authorityType = Some (word_of_int ty),
          wy_counter = uint (ah_counter h), wy_policyLen = 0, wy_isBounded = False, wy_policy = None\<rparr>]"
    using scanned unfolding findAuthoritiesByWallet_def ACCOUNT_DISCRIMINATOR.simps rows [OF scanned(2)]
    by (simp add: wallet_authority_of_def del: One_nat_def)
qed

lemma deployed_candidate:
  assumes K: "address_codec K" "sha256_32 K" "k_isAddress K (cw_walletPda w)"
    and chain: "list_all (\<lambda>(a, i). ac_owner i \<noteq> pid) others" "wd ! 0 \<noteq> 0x22" "wd \<noteq> []"
    and h: "authority_sized h" "ah_discriminator h = 0x22" "ah_wallet h = k_encAddr K (cw_walletPda w)" "ah_role h = 0" "ah_authority_type h = 1"
    and ad: "ad = authority_bytes h @ cred @ key @ k_sha256 K (utf8 rpId)" "length cred = 32" "length key = 33"
    and vault: "findVaultPda K (cw_walletPda w) pid = Inr (cw_vaultPda w, b)"
  shows "findPasskeyWalletCandidates K (deployed K pid w (wd, ad) rent others now) pid cred rpId (Some False)
      = Inr [\<lparr>c_version = 2, c_programId = pid, c_walletPda = cw_walletPda w, c_vaultPda = cw_vaultPda w,
          c_authorityPda = cw_authorityPda w, c_publicKey = key\<rparr>]"
proof -
  note scanned = authority_data_scanned [OF h(1) ad(1,2), unfolded h(2-5)]
  have len: "length ad = 145" using scanned(8) ad(3) sha256_length [OF K(2)] by simp
  have slices: "take 32 (drop 113 ad) = k_sha256 K (utf8 rpId)" "u8_slice ad 80 113 = key"
    using authority_fields(1) [OF h(1)] ad sha256_length [OF K(2)] by (simp_all add: u8_slice_def)
  then have "memcmp_ok [(0, [0x22, 1]), (48, cred), (113, k_sha256 K (utf8 rpId))] ad"
    using scanned(1) sha256_length [OF K(2)] by (simp add: memcmp_ok_def)
  note rows = deployed_scan [OF chain this, where K = K and w = w and rent = rent and now = now]
  have addr: "addressFromBytes K (k_encAddr K (cw_walletPda w)) = Inr (cw_walletPda w)"
    using K encAddr_length [OF K(1,3)] by (simp add: addressFromBytes_def address_codec_def)
  show ?thesis
    using scanned vault len rows
    by (simp add: findPasskeyWalletCandidates_def scan_candidates_def assertByteLength_def ad(2) OWNERSHIP_DISCS_def
        AUTH_TYPE_SECP256R1_def candidate_of_def ROLE_OWNER_def addr slices(2))
qed



end
