(* ===== verification/LegacyPayload.thy ===== *)
theory LegacyPayload
  imports DeferredPayload LegacyOwnership LegacyAgree
begin

text \<open>
  The deferred payload of the SDK for web3.js v1 on its way between the two transactions
  (\<open>serializeDeferredPayload\<close> and \<open>deserializeDeferredPayload\<close> of \<open>sdk-legacy/src/utils/types.ts\<close>), the
  base64 of \<open>Buffer\<close> it relies on, and what each SDK reads in the text of the other: both write
  version 2, and the two version 2 formats differ in how an account is written.
\<close>

section \<open>Base64 of a Buffer\<close>

definition b64_char :: "nat \<Rightarrow> char" where
  "b64_char n = (if n < 26 then char_of (n + 65) else if n < 52 then char_of (n + 71)
     else if n < 62 then char_of (n - 4) else if n = 62 then CHR ''+'' else CHR ''/'')"

text \<open>The reader takes the URL-safe alphabet too, and skips what is in neither.\<close>

definition b64_val :: "char \<Rightarrow> nat option" where
  "b64_val c = (let n = code c in
     if 65 \<le> n \<and> n \<le> 90 then Some (n - 65)
     else if 97 \<le> n \<and> n \<le> 122 then Some (n - 71)
     else if 48 \<le> n \<and> n \<le> 57 then Some (n + 4)
     else if n = 43 \<or> n = 45 then Some 62
     else if n = 47 \<or> n = 95 then Some 63
     else None)"

fun buffer_to_base64 :: "bytes \<Rightarrow> string" where
  "buffer_to_base64 [] = []"
| "buffer_to_base64 [a] = [b64_char (unat a div 4), b64_char (unat a mod 4 * 16), CHR ''='', CHR ''='']"
| "buffer_to_base64 [a, b] =
     [b64_char (unat a div 4), b64_char (unat a mod 4 * 16 + unat b div 16), b64_char (unat b mod 16 * 4), CHR ''='']"
| "buffer_to_base64 (a # b # c # bs) =
     [b64_char (unat a div 4), b64_char (unat a mod 4 * 16 + unat b div 16),
      b64_char (unat b mod 16 * 4 + unat c div 64), b64_char (unat c mod 64)] @ buffer_to_base64 bs"

definition octet :: "nat \<Rightarrow> byte" where
  "octet n = of_nat n"

fun unsextets :: "nat list \<Rightarrow> bytes" where
  "unsextets (p # q # r # s # vs) =
     [octet (p * 4 + q div 16), octet (q mod 16 * 16 + r div 4), octet (r mod 4 * 64 + s)] @ unsextets vs"
| "unsextets [p, q, r] = [octet (p * 4 + q div 16), octet (q mod 16 * 16 + r div 4)]"
| "unsextets [p, q] = [octet (p * 4 + q div 16)]"
| "unsextets _ = []"

definition buffer_from_base64 :: "string \<Rightarrow> bytes" where
  "buffer_from_base64 s = unsextets (List.map_filter b64_val (takeWhile (\<lambda>c. c \<noteq> CHR ''='') s))"

lemma b64_val_char: "n < 64 \<Longrightarrow> b64_val (b64_char n) = Some n \<and> b64_char n \<noteq> CHR ''=''"
proof -
  assume n: "n < 64"
  have v: "b64_val (b64_char n) = Some n"
    using n by (auto simp: b64_val_def b64_char_def code_def Let_def)
  moreover have "b64_val (CHR ''='') = None" by (simp add: b64_val_def code_def)
  ultimately show "b64_val (b64_char n) = Some n \<and> b64_char n \<noteq> CHR ''=''" by auto
qed

lemma unat_byte: "unat (b :: byte) < 256"
  using unsigned_less [of b] by simp

lemma octet_eq: "n = unat b \<Longrightarrow> octet n = b"
  by (simp add: octet_def)

lemma map_filter_Cons: "List.map_filter f (x # xs) = (case f x of Some y \<Rightarrow> y # List.map_filter f xs | None \<Rightarrow> List.map_filter f xs)"
  by (simp add: List.map_filter_def split: option.split)

theorem buffer_base64_roundtrip: "buffer_from_base64 (buffer_to_base64 b) = b"
proof (induction b rule: buffer_to_base64.induct)
  case (2 a)
  have "unat a div 4 < 64" "unat a mod 4 * 16 < 64" using unat_byte [of a] by linarith+
  then show ?case
    by (auto simp: buffer_from_base64_def map_filter_Cons List.map_filter_def b64_val_char intro!: octet_eq)
next
  case (3 a b)
  have "unat a div 4 < 64" "unat a mod 4 * 16 + unat b div 16 < 64" "unat b mod 16 * 4 < 64"
    "unat b div 16 < 16" using unat_byte [of a] unat_byte [of b] by linarith+
  then show ?case
    by (auto simp: buffer_from_base64_def map_filter_Cons List.map_filter_def b64_val_char intro!: octet_eq)
next
  case (4 a b c bs)
  have "unat a div 4 < 64" "unat a mod 4 * 16 + unat b div 16 < 64" "unat b mod 16 * 4 + unat c div 64 < 64"
    "unat c mod 64 < 64" "unat b div 16 < 16" "unat c div 64 < 4"
    using unat_byte [of a] unat_byte [of b] unat_byte [of c] by linarith+
  then show ?case using 4
    by (auto simp: buffer_from_base64_def map_filter_Cons b64_val_char intro!: octet_eq)
qed (simp add: buffer_from_base64_def List.map_filter_def)

section \<open>The two functions\<close>

definition account_json_web3 :: "web3_meta \<Rightarrow> json" where
  "account_json_web3 a = JObj [(''pubkey'', JStr (wm_pubkey a)), (''isSigner'', JBool (wm_isSigner a)),
     (''isWritable'', JBool (wm_isWritable a))]"

definition compact_json_web3 :: "compact_instruction \<Rightarrow> json" where
  "compact_json_web3 ix = JObj [(''programIdIndex'', json_int (programIdIndex ix)),
     (''accountIndexes'', JArr (map json_int (accountIndexes ix))), (''data'', JStr (buffer_to_base64 (ci_data ix)))]"

definition payload_json_web3 :: "deferred_payload_web3 \<Rightarrow> json" where
  "payload_json_web3 p = JObj ([(''version'', json_int DEFERRED_PAYLOAD_VERSION),
     (''walletPda'', JStr (dpw_walletPda p)), (''deferredExecPda'', JStr (dpw_deferredExecPda p)),
     (''compactInstructions'', JArr (map compact_json_web3 (dpw_compactInstructions p))),
     (''remainingAccounts'', JArr (map account_json_web3 (dpw_remainingAccounts p)))]
     @ optional_member ''executor'' (dpw_executor p) @ optional_member ''refundDestination'' (dpw_refundDestination p))"

definition serializeDeferredPayload_web3 :: "deferred_payload_web3 \<Rightarrow> string" where
  "serializeDeferredPayload_web3 p = JSON_stringify (payload_json_web3 p)"

text \<open>
  What \<open>Buffer.from(v, 'base64')\<close> and \<open>new PublicKey(v)\<close> make of a value that is not a string is the
  libraries' business, given as two functions; both throw on \<open>undefined\<close> and on \<open>null\<close>.
\<close>

record js_values =
  jv_bufferFrom :: "json \<Rightarrow> bytes result"
  jv_publicKey :: "json \<Rightarrow> address result"

definition buffer_of_json :: "js_values \<Rightarrow> json option \<Rightarrow> bytes result" where
  "buffer_of_json J v = (case v of
     Some (JStr s) \<Rightarrow> Inr (buffer_from_base64 s)
   | None \<Rightarrow> Inl (TypeError ''The first argument must be of type string'')
   | Some JNull \<Rightarrow> Inl (TypeError ''The first argument must be of type string'')
   | Some x \<Rightarrow> jv_bufferFrom J x)"

definition pubkey_of_json :: "kit \<Rightarrow> js_values \<Rightarrow> json option \<Rightarrow> address result" where
  "pubkey_of_json K J v = (case v of
     Some (JStr s) \<Rightarrow> pubkey_text K s
   | None \<Rightarrow> Inl (TypeError ''Cannot read properties of undefined'')
   | Some JNull \<Rightarrow> Inl (TypeError ''Cannot read properties of null'')
   | Some x \<Rightarrow> jv_publicKey J x)"

record parsed_payload_web3 =
  ppw_walletPda :: address
  ppw_deferredExecPda :: address
  ppw_compactInstructions :: "(json option \<times> json option \<times> bytes) list"
  ppw_remainingAccounts :: "(address \<times> json option \<times> json option) list"
  ppw_executor :: "address option"
  ppw_refundDestination :: "address option"

definition parsed_compact_web3 :: "js_values \<Rightarrow> json \<Rightarrow> (json option \<times> json option \<times> bytes) result" where
  "parsed_compact_web3 J ix =
     rbind (json_get ix ''programIdIndex'') (\<lambda>p. rbind (json_get ix ''accountIndexes'') (\<lambda>as.
     rbind (json_get ix ''data'') (\<lambda>d. rbind (buffer_of_json J d) (\<lambda>bs. Inr (p, as, bs)))))"

definition parsed_account_web3 :: "kit \<Rightarrow> js_values \<Rightarrow> json \<Rightarrow> (address \<times> json option \<times> json option) result" where
  "parsed_account_web3 K J a =
     rbind (json_get a ''pubkey'') (\<lambda>k. rbind (pubkey_of_json K J k) (\<lambda>pubkey.
     rbind (json_get a ''isSigner'') (\<lambda>s. rbind (json_get a ''isWritable'') (\<lambda>w. Inr (pubkey, s, w)))))"

definition optional_pubkey :: "kit \<Rightarrow> json option \<Rightarrow> address option result" where
  "optional_pubkey K v = (case v of Some (JStr s) \<Rightarrow> ok_map Some (pubkey_text K s) | _ \<Rightarrow> Inr None)"

definition deserializeDeferredPayload_web3 :: "kit \<Rightarrow> js_values \<Rightarrow> string \<Rightarrow> parsed_payload_web3 result" where
  "deserializeDeferredPayload_web3 K J serialized =
     rbind (JSON_parse serialized) (\<lambda>v.
     case payload_shape v of
       None \<Rightarrow> Inl (Error ''Invalid DeferredPayload JSON shape'')
     | Some (ms, w, d, cs, rs) \<Rightarrow>
         if map_of ms ''version'' \<noteq> Some (json_int DEFERRED_PAYLOAD_VERSION)
         then Inl (Error ''DeferredPayload is of another version'')
         else
           rbind (pubkey_text K w) (\<lambda>walletPda.
           rbind (pubkey_text K d) (\<lambda>deferredExecPda.
           rbind (rmap (parsed_compact_web3 J) cs) (\<lambda>compactInstructions.
           rbind (rmap (parsed_account_web3 K J) rs) (\<lambda>remainingAccounts.
           rbind (optional_pubkey K (map_of ms ''executor'')) (\<lambda>executor.
           rbind (optional_pubkey K (map_of ms ''refundDestination'')) (\<lambda>refundDestination.
           Inr \<lparr>ppw_walletPda = walletPda, ppw_deferredExecPda = deferredExecPda,
                ppw_compactInstructions = compactInstructions, ppw_remainingAccounts = remainingAccounts,
                ppw_executor = executor, ppw_refundDestination = refundDestination\<rparr>)))))))"

text \<open>What a reader of the declared types sees in a parsed payload.\<close>

definition typed_account_web3 :: "address \<times> json option \<times> json option \<Rightarrow> web3_meta option" where
  "typed_account_web3 a = (case a of
     (k, Some (JBool s), Some (JBool w)) \<Rightarrow> Some \<lparr>wm_pubkey = k, wm_isSigner = s, wm_isWritable = w\<rparr> | _ \<Rightarrow> None)"

definition typed_payload_web3 :: "parsed_payload_web3 \<Rightarrow> deferred_payload_web3 option" where
  "typed_payload_web3 q =
     (case (those (map typed_compact (ppw_compactInstructions q)), those (map typed_account_web3 (ppw_remainingAccounts q))) of
        (Some cs, Some rs) \<Rightarrow> Some \<lparr>dpw_walletPda = ppw_walletPda q, dpw_deferredExecPda = ppw_deferredExecPda q,
          dpw_compactInstructions = cs, dpw_remainingAccounts = rs, dpw_executor = ppw_executor q,
          dpw_refundDestination = ppw_refundDestination q\<rparr>
      | _ \<Rightarrow> None)"

section \<open>Reading back\<close>

definition payload_wf_web3 :: "kit \<Rightarrow> deferred_payload_web3 \<Rightarrow> bool" where
  "payload_wf_web3 K p \<longleftrightarrow>
     list_all (\<lambda>ix. 0 \<le> programIdIndex ix \<and> programIdIndex ix < 256
       \<and> list_all (\<lambda>i. 0 \<le> i \<and> i < 256) (accountIndexes ix)) (dpw_compactInstructions p)
     \<and> list_all (k_isAddress K) ([dpw_walletPda p, dpw_deferredExecPda p] @ map wm_pubkey (dpw_remainingAccounts p))
     \<and> (\<forall>a \<in> set_option (dpw_executor p) \<union> set_option (dpw_refundDestination p). k_isAddress K a)"

lemma payload_wf_of_web3: "payload_wf_web3 K (payload_to_web3 p) \<Longrightarrow> payload_wf K p"
  by (simp add: payload_wf_web3_def payload_wf_def payload_to_web3_def)

lemma serialized_web3_parses:
  assumes "payload_wf_web3 K p"
  shows "JSON_parse (serializeDeferredPayload_web3 p) = Inr (payload_json_web3 p)"
proof -
  have small: "json_wf (json_int n)" if "0 \<le> n" "n < 256" for n using that by (intro json_wf_int) simp
  have "json_wf (compact_json_web3 ix)" if "ix \<in> set (dpw_compactInstructions p)" for ix
    using that assms small by (auto simp: compact_json_web3_def payload_wf_web3_def list_all_iff)
  moreover have "json_wf (account_json_web3 a)" for a by (simp add: account_json_web3_def)
  ultimately have "json_wf (payload_json_web3 p)" using small [of DEFERRED_PAYLOAD_VERSION]
    by (auto simp: payload_json_web3_def optional_member_def DEFERRED_PAYLOAD_VERSION_def list_all_iff split: option.splits)
  then show ?thesis by (simp add: serializeDeferredPayload_web3_def JSON_parse_stringify)
qed

text \<open>
  The object both SDKs write, with the accounts written some way: it has the shape both readers ask
  for, and its version.
\<close>

definition payload_members ::
  "address \<Rightarrow> address \<Rightarrow> json list \<Rightarrow> json list \<Rightarrow> address option \<Rightarrow> address option \<Rightarrow> (string \<times> json) list" where
  "payload_members w d cs rs e r = [(''version'', json_int DEFERRED_PAYLOAD_VERSION), (''walletPda'', JStr w),
     (''deferredExecPda'', JStr d), (''compactInstructions'', JArr cs), (''remainingAccounts'', JArr rs)]
     @ optional_member ''executor'' e @ optional_member ''refundDestination'' r"

lemma payload_members_read:
  "payload_shape (JObj (payload_members w d cs rs e r)) = Some (payload_members w d cs rs e r, w, d, cs, rs)"
  "map_of (payload_members w d cs rs e r) ''version'' = Some (json_int DEFERRED_PAYLOAD_VERSION)"
  "map_of (payload_members w d cs rs e r) ''executor'' = map_option JStr e"
  "map_of (payload_members w d cs rs e r) ''refundDestination'' = map_option JStr r"
  by (simp_all add: payload_members_def payload_shape_def optional_member_def json_string_def json_array_def
      split: option.split)

lemma payload_json_members:
  "payload_json K p = JObj (payload_members (dp_walletPda p) (dp_deferredExecPda p)
     (map (compact_json K) (dp_compactInstructions p)) (map account_json (dp_remainingAccounts p))
     (dp_executor p) (dp_refundDestination p))"
  "payload_json_web3 v = JObj (payload_members (dpw_walletPda v) (dpw_deferredExecPda v)
     (map compact_json_web3 (dpw_compactInstructions v)) (map account_json_web3 (dpw_remainingAccounts v))
     (dpw_executor v) (dpw_refundDestination v))"
  by (simp_all add: payload_json_def payload_json_web3_def payload_members_def)

text \<open>
  The kit's codecs write and read the base64 a \<open>Buffer\<close> does.
\<close>

definition base64_kit :: "kit \<Rightarrow> bool" where
  "base64_kit K \<longleftrightarrow> (\<forall>b. k_base64 K b = buffer_to_base64 b \<and> k_unbase64 K (buffer_to_base64 b) = Inr b)"

lemma base64_kit_codec: "base64_kit K \<Longrightarrow> base64_codec K"
  by (simp add: base64_kit_def base64_codec_def)

lemma compact_json_same: "base64_kit K \<Longrightarrow> compact_json K ix = compact_json_web3 ix"
  by (simp add: base64_kit_def compact_json_def compact_json_web3_def)

definition compact_view :: "compact_instruction \<Rightarrow> json option \<times> json option \<times> bytes" where
  "compact_view ix = (Some (json_int (programIdIndex ix)), Some (JArr (map json_int (accountIndexes ix))), ci_data ix)"

lemma compact_view_read:
  "base64_kit K \<Longrightarrow> parsed_compact K (compact_json_web3 ix) = Inr (compact_view ix)"
  "parsed_compact_web3 J (compact_json_web3 ix) = Inr (compact_view ix)"
  "typed_compact (compact_view ix) = Some ix"
  by (simp_all add: parsed_compact_def parsed_compact_web3_def compact_json_web3_def json_get_def base64_kit_def
      buffer_of_json_def buffer_base64_roundtrip compact_view_def typed_back)

lemma account_view_read:
  "k_isAddress K (wm_pubkey a) \<Longrightarrow> parsed_account_web3 K J (account_json_web3 a)
     = Inr (wm_pubkey a, Some (JBool (wm_isSigner a)), Some (JBool (wm_isWritable a)))"
  "typed_account_web3 (wm_pubkey a, Some (JBool (wm_isSigner a)), Some (JBool (wm_isWritable a))) = Some a"
  "parsed_account (account_json_web3 a) = Inr (None, None)"
  "\<exists>e. parsed_account_web3 K J (account_json m) = Inl e"
  by (simp_all add: parsed_account_web3_def parsed_account_def account_json_web3_def account_json_def json_get_def
      pubkey_of_json_def pubkey_text_def typed_account_web3_def)

text \<open>What each reader makes of such an object.\<close>

lemma kit_reads_members:
  assumes "JSON_parse t = Inr (JObj (payload_members w d cs rs e r))"
    and "\<forall>a \<in> set_option e \<union> set_option r. k_isAddress K a"
  shows "deserializeDeferredPayload K t = rbind (rmap (parsed_compact K) cs) (\<lambda>cs. rbind (rmap parsed_account rs) (\<lambda>rs.
    Inr \<lparr>pp_walletPda = w, pp_deferredExecPda = d, pp_compactInstructions = cs, pp_remainingAccounts = rs,
         pp_executor = e, pp_refundDestination = r\<rparr>))"
proof -
  have "checked_address K (map_option JStr e) = Inr e" "checked_address K (map_option JStr r) = Inr r"
    using assms(2) by (cases e; cases r; simp add: checked_address_def)+
  then show ?thesis using assms(1) by (simp add: deserializeDeferredPayload_def payload_members_read)
qed

lemma web3_reads_members:
  assumes "JSON_parse t = Inr (JObj (payload_members w d cs rs e r))"
    and "\<forall>a \<in> {w, d} \<union> set_option e \<union> set_option r. k_isAddress K a"
  shows "deserializeDeferredPayload_web3 K J t =
    rbind (rmap (parsed_compact_web3 J) cs) (\<lambda>cs. rbind (rmap (parsed_account_web3 K J) rs) (\<lambda>rs.
    Inr \<lparr>ppw_walletPda = w, ppw_deferredExecPda = d, ppw_compactInstructions = cs, ppw_remainingAccounts = rs,
         ppw_executor = e, ppw_refundDestination = r\<rparr>))"
proof -
  have "optional_pubkey K (map_option JStr e) = Inr e" "optional_pubkey K (map_option JStr r) = Inr r"
    using assms(2) by (cases e; cases r; simp add: optional_pubkey_def pubkey_text_def ok_map_def)+
  then show ?thesis using assms by (simp add: deserializeDeferredPayload_web3_def payload_members_read pubkey_text_def)
qed

theorem web3_payload_transport:
  assumes "payload_wf_web3 K v"
  shows "ok_map typed_payload_web3 (deserializeDeferredPayload_web3 K J (serializeDeferredPayload_web3 v)) = Inr (Some v)"
proof -
  have "rmap (parsed_account_web3 K J) (map account_json_web3 (dpw_remainingAccounts v))
      = Inr (map (\<lambda>a. (wm_pubkey a, Some (JBool (wm_isSigner a)), Some (JBool (wm_isWritable a)))) (dpw_remainingAccounts v))"
    using assms by (auto simp: rmap_map account_view_read payload_wf_web3_def list_all_iff intro!: rmap_total)
  moreover have "rmap (parsed_compact_web3 J) (map compact_json_web3 (dpw_compactInstructions v))
      = Inr (map compact_view (dpw_compactInstructions v))"
    by (simp add: rmap_map compact_view_read rmap_total)
  moreover have "\<forall>a \<in> {dpw_walletPda v, dpw_deferredExecPda v} \<union> set_option (dpw_executor v)
      \<union> set_option (dpw_refundDestination v). k_isAddress K a"
    using assms by (auto simp: payload_wf_web3_def)
  ultimately show ?thesis
    using web3_reads_members [OF serialized_web3_parses [OF assms, unfolded payload_json_members]]
    by (simp add: typed_payload_web3_def ok_map_def comp_def compact_view_read account_view_read)
qed

text \<open>
  The kit reader takes a text of the other SDK: version and shape are right. It finds no address and
  no role in it, so every account it returns is undefined.
\<close>

theorem kit_accepts_web3_payload:
  assumes K: "base64_kit K" and wf: "payload_wf_web3 K v"
  shows "deserializeDeferredPayload K (serializeDeferredPayload_web3 v) =
    Inr \<lparr>pp_walletPda = dpw_walletPda v, pp_deferredExecPda = dpw_deferredExecPda v,
         pp_compactInstructions = map compact_view (dpw_compactInstructions v),
         pp_remainingAccounts = map (\<lambda>_. (None, None)) (dpw_remainingAccounts v),
         pp_executor = dpw_executor v, pp_refundDestination = dpw_refundDestination v\<rparr>"
proof -
  have "\<forall>a \<in> set_option (dpw_executor v) \<union> set_option (dpw_refundDestination v). k_isAddress K a"
    using wf by (simp add: payload_wf_web3_def)
  then show ?thesis
    using kit_reads_members [OF serialized_web3_parses [OF wf, unfolded payload_json_members]]
    by (simp add: rmap_map compact_view_read(1) [OF K] account_view_read(3) rmap_total)
qed

text \<open>The reader for web3.js v1 reads a text of the kit when it has no accounts, and throws otherwise.\<close>

theorem web3_reads_kit_payload:
  assumes K: "base64_kit K" and wf: "payload_wf_web3 K (payload_to_web3 p)"
  shows "if dp_remainingAccounts p = []
    then ok_map typed_payload_web3 (deserializeDeferredPayload_web3 K J (serializeDeferredPayload K p)) = Inr (Some (payload_to_web3 p))
    else \<exists>e. deserializeDeferredPayload_web3 K J (serializeDeferredPayload K p) = Inl e"
proof -
  have "JSON_parse (serializeDeferredPayload K p) = Inr (payload_json K p)"
    using JSON_parse_stringify [OF payload_json_wf [OF payload_wf_of_web3 [OF wf]]] by (simp add: serializeDeferredPayload_def)
  moreover have "\<forall>a \<in> {dp_walletPda p, dp_deferredExecPda p} \<union> set_option (dp_executor p)
      \<union> set_option (dp_refundDestination p). k_isAddress K a"
    using wf by (auto simp: payload_wf_web3_def payload_to_web3_def)
  ultimately have "deserializeDeferredPayload_web3 K J (serializeDeferredPayload K p) =
    rbind (rmap (parsed_account_web3 K J) (map account_json (dp_remainingAccounts p))) (\<lambda>rs.
    Inr \<lparr>ppw_walletPda = dp_walletPda p, ppw_deferredExecPda = dp_deferredExecPda p,
         ppw_compactInstructions = map compact_view (dp_compactInstructions p), ppw_remainingAccounts = rs,
         ppw_executor = dp_executor p, ppw_refundDestination = dp_refundDestination p\<rparr>)"
    using web3_reads_members
    by (simp add: payload_json_members(1) rmap_map compact_json_same [OF K] compact_view_read rmap_total)
  then show ?thesis using account_view_read(4) [of K J "hd (dp_remainingAccounts p)"]
    by (cases "dp_remainingAccounts p") (auto simp: typed_payload_web3_def ok_map_def comp_def compact_view_read payload_to_web3_def)
qed

lemma web3_version_checked:
  assumes "deserializeDeferredPayload_web3 K J text = Inr q"
  shows "\<exists>ms. JSON_parse text = Inr (JObj ms) \<and> map_of ms ''version'' = Some (json_int DEFERRED_PAYLOAD_VERSION)"
proof -
  obtain v where v: "JSON_parse text = Inr v" using assms by (auto simp: deserializeDeferredPayload_web3_def rbind_eq_Inr)
  then obtain ms w d cs rs where sh: "payload_shape v = Some (ms, w, d, cs, rs)"
    using assms by (cases "payload_shape v") (auto simp: deserializeDeferredPayload_web3_def)
  then show ?thesis using assms v payload_shape_object [OF sh]
    by (auto simp: deserializeDeferredPayload_web3_def split: if_splits)
qed

text \<open>
  C38. A deferred payload between the SDKs. Each SDK reads back what it wrote: the payload is the same
  at its declared types, with the accounts of the web3.js payload those of the kit's. Across the two,
  the version does not tell their formats apart: the kit reader accepts every text of the SDK for
  web3.js v1, with the same wallet, instructions, executor and refund destination and with accounts
  that are no accounts at all, so that the payload is one of the declared type exactly when there
  are none; the other reader throws on a kit payload exactly when it has accounts. Neither accepts a
  text of any other version.
\<close>

theorem payload_across_sdks:
  assumes K: "base64_kit K" and wf: "payload_wf_web3 K (payload_to_web3 p)"
  shows "ok_map typed_payload (deserializeDeferredPayload K (serializeDeferredPayload K p)) = Inr (Some p)
    \<and> ok_map typed_payload_web3 (deserializeDeferredPayload_web3 K J (serializeDeferredPayload_web3 (payload_to_web3 p)))
        = Inr (Some (payload_to_web3 p))
    \<and> ok_map typed_payload (deserializeDeferredPayload K (serializeDeferredPayload_web3 (payload_to_web3 p)))
        = Inr (if dp_remainingAccounts p = [] then Some p else None)
    \<and> (if dp_remainingAccounts p = []
       then ok_map typed_payload_web3 (deserializeDeferredPayload_web3 K J (serializeDeferredPayload K p)) = Inr (Some (payload_to_web3 p))
       else \<exists>e. deserializeDeferredPayload_web3 K J (serializeDeferredPayload K p) = Inl e)
    \<and> (deserializeDeferredPayload K text = Inr q \<or> deserializeDeferredPayload_web3 K J text = Inr q' \<longrightarrow>
        (\<exists>ms. JSON_parse text = Inr (JObj ms) \<and> map_of ms ''version'' = Some (json_int DEFERRED_PAYLOAD_VERSION)))"
proof (intro conjI)
  note kit = deferred_payload_transport [OF base64_kit_codec [OF K] payload_wf_of_web3 [OF wf]]
  show "ok_map typed_payload (deserializeDeferredPayload K (serializeDeferredPayload K p)) = Inr (Some p)"
    using kit by (simp add: ok_map_def)
  show "deserializeDeferredPayload K text = Inr q \<or> deserializeDeferredPayload_web3 K J text = Inr q' \<longrightarrow>
      (\<exists>ms. JSON_parse text = Inr (JObj ms) \<and> map_of ms ''version'' = Some (json_int DEFERRED_PAYLOAD_VERSION))"
    using kit web3_version_checked [where q = q'] by blast
  have "typed_account (None, None) = None" by (simp add: typed_account_def)
  then show "ok_map typed_payload (deserializeDeferredPayload K (serializeDeferredPayload_web3 (payload_to_web3 p)))
      = Inr (if dp_remainingAccounts p = [] then Some p else None)"
    unfolding kit_accepts_web3_payload [OF K wf]
    by (cases "dp_remainingAccounts p")
      (auto simp: ok_map_def typed_payload_def payload_to_web3_def comp_def compact_view_read)
qed (rule web3_payload_transport [OF wf], rule web3_reads_kit_payload [OF K wf])

definition sample_kit64 :: kit where
  "sample_kit64 = sample_kit\<lparr>k_base64 := buffer_to_base64, k_unbase64 := (\<lambda>s. Inr (buffer_from_base64 s))\<rparr>"

theorem payload_across_sdks_witness:
  "let w = replicate 32 (CHR ''w''); p = \<lparr>dp_walletPda = w, dp_deferredExecPda = w,
        dp_compactInstructions = [\<lparr>programIdIndex = 7, accountIndexes = [131, 2], ci_data = [1, 34]\<rparr>],
        dp_remainingAccounts = [\<lparr>am_address = w, am_role = WRITABLE_SIGNER\<rparr>], dp_executor = None,
        dp_refundDestination = Some w\<rparr>
   in ok_map typed_payload (deserializeDeferredPayload sample_kit64 (serializeDeferredPayload_web3 (payload_to_web3 p))) = Inr None"
proof -
  define w where "w = replicate 32 (CHR ''w'')"
  define p where "p = \<lparr>dp_walletPda = w, dp_deferredExecPda = w,
        dp_compactInstructions = [\<lparr>programIdIndex = 7, accountIndexes = [131, 2], ci_data = [1, 34]\<rparr>],
        dp_remainingAccounts = [\<lparr>am_address = w, am_role = WRITABLE_SIGNER\<rparr>], dp_executor = None,
        dp_refundDestination = Some w\<rparr>"
  have "base64_kit sample_kit64" by (simp add: base64_kit_def sample_kit64_def buffer_base64_roundtrip)
  moreover have "payload_wf_web3 sample_kit64 (payload_to_web3 p)"
    by (simp add: p_def w_def payload_wf_web3_def payload_to_web3_def sample_kit64_def sample_kit_def meta_web3_def)
  ultimately show ?thesis using payload_across_sdks [of sample_kit64 p] by (simp add: p_def w_def)
qed

end
