(* ===== verification/LegacyReads.thy ===== *)
theory LegacyReads
  imports ChallengeReads
begin

text \<open>
  The challenge reads of the SDK for web3.js v1 (\<open>sdk-legacy/src/utils/challengeReads.ts\<close>). A web3.js
  \<open>Connection\<close> has a commitment of its own, with the retired names beside the three of today, and
  what it throws may have lost its code, so that a node that is behind is also known by its message.
  The loop, the readers and the group are otherwise those of the kit, and are shown to be.

  A thrown value is kept as what the SDK looks at: whether it is an object, its \<open>code\<close> when that is a
  number and its \<open>message\<close> when that is a string.
\<close>

section \<open>Configuration\<close>

datatype web3_commitment = WProcessed | WConfirmed | WFinalized | WRecent | WSingle | WSingleGossip | WRoot | WMax

definition CHALLENGE_READ_COMMITMENT_web3 :: web3_commitment where "CHALLENGE_READ_COMMITMENT_web3 = WConfirmed"
definition MIN_CONTEXT_SLOT_WAIT_MS_web3 :: int where "MIN_CONTEXT_SLOT_WAIT_MS_web3 = 10000"
definition FINALIZED_MIN_CONTEXT_SLOT_WAIT_MS_web3 :: int where "FINALIZED_MIN_CONTEXT_SLOT_WAIT_MS_web3 = 30000"

record options_web3 =
  ow_commitment :: "web3_commitment option"
  ow_minContextSlot :: "int option"

record config_web3 =
  cw_commitment :: web3_commitment
  cw_minContextSlot :: "int option"

datatype thrown = NotAnObject | Thrown (t_code: "int option") (t_message: "string option")

type_synonym 'a node_web3 = "int \<Rightarrow> (thrown + 'a) \<times> nat"

record connection =
  cn_commitment :: "web3_commitment option"
  cn_getAccountInfoAndContext :: "address \<Rightarrow> config_web3 \<Rightarrow> bytes option node_web3"
  cn_getSlot :: "config_web3 \<Rightarrow> int node_web3"

definition defaultChallengeCommitment :: "connection \<Rightarrow> web3_commitment" where
  "defaultChallengeCommitment connection =
     (if cn_commitment connection = Some WProcessed \<or> cn_commitment connection = Some WRecent
      then WProcessed else CHALLENGE_READ_COMMITMENT_web3)"

definition minContextSlotWaitMs_web3 :: "web3_commitment \<Rightarrow> int" where
  "minContextSlotWaitMs_web3 c = (if c = WFinalized \<or> c = WMax \<or> c = WRoot
     then FINALIZED_MIN_CONTEXT_SLOT_WAIT_MS_web3 else MIN_CONTEXT_SLOT_WAIT_MS_web3)"

definition challengeReadConfig_web3 :: "connection \<Rightarrow> options_web3 option \<Rightarrow> config_web3" where
  "challengeReadConfig_web3 connection opts =
     \<lparr>cw_commitment = (case Option.bind opts ow_commitment of Some c \<Rightarrow> c | None \<Rightarrow> defaultChallengeCommitment connection),
      cw_minContextSlot = Option.bind opts ow_minContextSlot\<rparr>"

section \<open>A node that is behind\<close>

definition ascii_lower :: "char \<Rightarrow> char" where
  "ascii_lower c = (let n = (of_char c :: nat) in if 65 \<le> n \<and> n \<le> 90 then char_of (n + 32) else c)"

fun has_substring :: "string \<Rightarrow> string \<Rightarrow> bool" where
  "has_substring p [] = (p = [])"
| "has_substring p (c # s) = (take (length p) (c # s) = p \<or> has_substring p s)"

definition minContextSlotNotReached :: "thrown \<Rightarrow> bool" where
  "minContextSlotNotReached e = (case e of NotAnObject \<Rightarrow> False
     | Thrown code message \<Rightarrow> code = Some (- 32016)
         \<or> (case message of None \<Rightarrow> False
            | Some m \<Rightarrow> has_substring ''minimum context slot has not been reached'' (map ascii_lower m)))"

section \<open>The retry loop\<close>

text \<open>What a read ends with: a value, what the connection threw, or an error of the SDK's own.\<close>

datatype failure_web3 = Rethrown thrown | Raised exn

record 'a run_web3 =
  rw_result :: "failure_web3 + 'a"
  rw_end :: int
  rw_asked :: "int list"

definition backoff_web3 :: "nat \<Rightarrow> int" where
  "backoff_web3 attempt = min (100 * int attempt) 1000"

function retry_read_web3 ::
  "'a node_web3 \<Rightarrow> int \<Rightarrow> int option \<Rightarrow> int option \<Rightarrow> int \<Rightarrow> nat \<Rightarrow> int \<Rightarrow> 'a run_web3" where
  "retry_read_web3 read budget minContextSlot stop started k now =
     (let answered = now + int (snd (read now)) in
      case fst (read now) of
        Inr x \<Rightarrow> \<lparr>rw_result = Inr x, rw_end = answered, rw_asked = [now]\<rparr>
      | Inl e \<Rightarrow>
          if minContextSlot = None \<or> \<not> minContextSlotNotReached e
          then \<lparr>rw_result = Inl (Rethrown e), rw_end = answered, rw_asked = [now]\<rparr>
          else if group_stopped stop answered
          then \<lparr>rw_result = Inl (Rethrown e), rw_end = answered, rw_asked = [now]\<rparr>
          else let waitedMs = answered - started; delay = backoff_web3 (Suc k) in
            if waitedMs + delay > budget
            then \<lparr>rw_result = Inl (Raised MinContextSlotNotReachedError), rw_end = answered, rw_asked = [now]\<rparr>
            else let woken = group_sleep stop answered delay in
              if group_stopped stop woken
              then \<lparr>rw_result = Inl (Rethrown e), rw_end = woken, rw_asked = [now]\<rparr>
              else let rest = retry_read_web3 read budget minContextSlot stop started (Suc k) woken
                in rest\<lparr>rw_asked := now # rw_asked rest\<rparr>)"
  by pat_completeness auto

lemma backoff_web3: "backoff_web3 = backoff"
  by (simp add: fun_eq_iff backoff_web3_def backoff_def)

termination retry_read_web3
proof (relation "measure (\<lambda>(_, budget, _, _, started, _, now). nat (started + budget + 1 - now))")
  fix read :: "'a node_web3" and budget started now :: int and floor stop :: "int option" and k :: nat
    and x e xb xc xd
  assume a: "x = now + int (snd (read now))" "\<not> group_stopped stop x" "xb = x - started" "xc = backoff_web3 (Suc k)"
    "\<not> xb + xc > budget" "xd = group_sleep stop x xc" "\<not> group_stopped stop xd"
  have "xd = x + xc" using slept_fully(1) [of stop x xc] a backoff_bounds(1) [of k] by (auto simp: backoff_web3)
  then have "xd > now" "xd \<le> started + budget" using a backoff_bounds(1) [of k] by (auto simp: backoff_web3)
  then show "((read, budget, floor, stop, started, Suc k, xd), read, budget, floor, stop, started, k, now)
      \<in> measure (\<lambda>(_, budget, _, _, started, _, now). nat (started + budget + 1 - now))" by simp
qed auto

declare retry_read_web3.simps [simp del]

definition atOrAfterContextSlot_web3 :: "'a node_web3 \<Rightarrow> config_web3 \<Rightarrow> int option \<Rightarrow> int \<Rightarrow> 'a run_web3" where
  "atOrAfterContextSlot_web3 read config stop now =
     retry_read_web3 read (minContextSlotWaitMs_web3 (cw_commitment config)) (cw_minContextSlot config) stop now 0 now"

section \<open>The readers\<close>

definition then_web3 :: "('a \<Rightarrow> 'b result) \<Rightarrow> 'a run_web3 \<Rightarrow> 'b run_web3" where
  "then_web3 f r = \<lparr>rw_result = (case rw_result r of Inl e \<Rightarrow> Inl e
       | Inr x \<Rightarrow> (case f x of Inl e \<Rightarrow> Inl (Raised e) | Inr y \<Rightarrow> Inr y)),
     rw_end = rw_end r, rw_asked = rw_asked r\<rparr>"

definition readAuthorityAccount_web3 ::
  "connection \<Rightarrow> address \<Rightarrow> options_web3 option \<Rightarrow> int option \<Rightarrow> int \<Rightarrow> bytes option run_web3" where
  "readAuthorityAccount_web3 connection authorityPda opts stop now =
     (let config = challengeReadConfig_web3 connection opts in
      atOrAfterContextSlot_web3 (cn_getAccountInfoAndContext connection authorityPda config) config stop now)"

definition readChallengeCounter_web3 ::
  "connection \<Rightarrow> address \<Rightarrow> options_web3 option \<Rightarrow> int option \<Rightarrow> int \<Rightarrow> int run_web3" where
  "readChallengeCounter_web3 connection authorityPda opts stop now =
     then_web3 (\<lambda>info. case info of
         None \<Rightarrow> Inl (Error (''Authority account not found: '' @ authorityPda))
       | Some data \<Rightarrow> if length data < 12 then Inl (Error ''Authority account data too short'')
           else Inr (le_val (u8_slice data 8 12)))
       (readAuthorityAccount_web3 connection authorityPda opts stop now)"

definition readChallengeKey_web3 ::
  "connection \<Rightarrow> address \<Rightarrow> options_web3 option \<Rightarrow> int option \<Rightarrow> int \<Rightarrow> bytes run_web3" where
  "readChallengeKey_web3 connection authorityPda opts stop now =
     then_web3 (\<lambda>info. case info of
         None \<Rightarrow> Inl (Error (''Authority account not found: '' @ authorityPda))
       | Some data \<Rightarrow>
           if length data < 113 then Inl (Error ''Authority account too small for Secp256r1'')
           else if data ! 0 \<noteq> ACCOUNT_DISCRIMINATOR AUTHORITY then Inl (Error ''Not an Authority account'')
           else if data ! 1 \<noteq> 1 then Inl (Error ''Authority is not Secp256r1'')
           else Inr (u8_slice data 80 (80 + 33)))
       (readAuthorityAccount_web3 connection authorityPda opts stop now)"

definition readChallengeSlot_web3 ::
  "connection \<Rightarrow> options_web3 option \<Rightarrow> int option \<Rightarrow> int \<Rightarrow> int run_web3" where
  "readChallengeSlot_web3 connection opts stop now =
     (let config = challengeReadConfig_web3 connection opts in
      atOrAfterContextSlot_web3 (cn_getSlot connection config) config stop now)"

definition readAuthorityCounter_web3 ::
  "connection \<Rightarrow> address \<Rightarrow> options_web3 option \<Rightarrow> int \<Rightarrow> int run_web3" where
  "readAuthorityCounter_web3 connection authorityPda opts now = readChallengeCounter_web3 connection authorityPda opts None now"

definition readAuthorityPubkey_web3 ::
  "connection \<Rightarrow> address \<Rightarrow> options_web3 option \<Rightarrow> int \<Rightarrow> bytes run_web3" where
  "readAuthorityPubkey_web3 connection authorityPda opts now = readChallengeKey_web3 connection authorityPda opts None now"

section \<open>The group\<close>

definition failure_of_web3 :: "'a run_web3 \<Rightarrow> (int \<times> failure_web3) list" where
  "failure_of_web3 r = (case rw_result r of Inl e \<Rightarrow> [(rw_end r, e)] | Inr _ \<Rightarrow> [])"

fun first_failure_web3 :: "(int \<times> failure_web3) list \<Rightarrow> (int \<times> failure_web3) option" where
  "first_failure_web3 [] = None"
| "first_failure_web3 ((t, e) # fs) = (case first_failure_web3 fs of
     None \<Rightarrow> Some (t, e) | Some (t', e') \<Rightarrow> if t' < t then Some (t', e') else Some (t, e))"

record inputs_web3 =
  iw_result :: "failure_web3 + (bytes \<times> int \<times> int)"
  iw_asked :: "int list"

definition have_or_web3 :: "'a option \<Rightarrow> (int option \<Rightarrow> 'a run_web3) \<Rightarrow> int \<Rightarrow> int option \<Rightarrow> 'a run_web3" where
  "have_or_web3 have read now stop = (case have of
     Some x \<Rightarrow> \<lparr>rw_result = Inr x, rw_end = now, rw_asked = []\<rparr> | None \<Rightarrow> read stop)"

text \<open>As in the kit, \<open>beside\<close> is the failure of a read the caller runs in the same group.\<close>

definition readChallengeInputs_web3 ::
  "connection \<Rightarrow> address \<Rightarrow> options_web3 \<Rightarrow> bytes option \<Rightarrow> int option \<Rightarrow> (int \<times> failure_web3) option \<Rightarrow> int
   \<Rightarrow> inputs_web3" where
  "readChallengeInputs_web3 connection authorityPda opts publicKeyBytes slotOverride beside now =
     (let stop = map_option fst beside;
          key = have_or_web3 publicKeyBytes (\<lambda>stop. readChallengeKey_web3 connection authorityPda (Some opts) stop now) now;
          slot = have_or_web3 slotOverride (\<lambda>stop. readChallengeSlot_web3 connection (Some opts) stop now) now;
          counter = (\<lambda>stop. readChallengeCounter_web3 connection authorityPda (Some opts) stop now)
      in if group_stopped stop now then \<lparr>iw_result = Inl (snd (the beside)), iw_asked = []\<rparr>
         else case first_failure_web3 (failure_of_web3 (key stop) @ failure_of_web3 (slot stop) @ failure_of_web3 (counter stop)) of
           None \<Rightarrow> \<lparr>iw_result = (case (rw_result (key stop), rw_result (slot stop), rw_result (counter stop)) of
               (Inr k, Inr s, Inr c) \<Rightarrow> Inr (k, s, c + 1)
             | (Inl e, _, _) \<Rightarrow> Inl e | (_, Inl e, _) \<Rightarrow> Inl e | (_, _, Inl e) \<Rightarrow> Inl e),
             iw_asked = rw_asked (key stop) @ rw_asked (slot stop) @ rw_asked (counter stop)\<rparr>
         | Some (t, e) \<Rightarrow> let stop' = Some (earlier_stop stop t) in \<lparr>iw_result = Inl e,
             iw_asked = rw_asked (key stop') @ rw_asked (slot stop') @ rw_asked (counter stop')\<rparr>)"

section \<open>The same reads\<close>

text \<open>
  A view of what a connection throws as an error of the kit's RPC client: any function that tells a
  node that is behind as the SDK does. Under it a connection is a node of the kit, and a read of the
  one SDK a read of the other.
\<close>

definition tells_behind :: "(thrown \<Rightarrow> exn) \<Rightarrow> bool" where
  "tells_behind v \<longleftrightarrow> (\<forall>e. v e = SLOT_NOT_REACHED \<longleftrightarrow> minContextSlotNotReached e)"

primrec failure_view :: "(thrown \<Rightarrow> exn) \<Rightarrow> failure_web3 \<Rightarrow> exn" where
  "failure_view v (Rethrown e) = v e"
| "failure_view v (Raised x) = x"

definition node_view :: "(thrown \<Rightarrow> exn) \<Rightarrow> 'a node_web3 \<Rightarrow> 'a node" where
  "node_view v n t = (map_sum v id (fst (n t)), snd (n t))"

definition run_view :: "(thrown \<Rightarrow> exn) \<Rightarrow> 'a run_web3 \<Rightarrow> 'a run" where
  "run_view v r = \<lparr>rn_result = map_sum (failure_view v) id (rw_result r), rn_end = rw_end r, rn_asked = rw_asked r\<rparr>"

definition inputs_view :: "(thrown \<Rightarrow> exn) \<Rightarrow> inputs_web3 \<Rightarrow> challenge_inputs" where
  "inputs_view v i = \<lparr>ci_result = map_sum (failure_view v) id (iw_result i), ci_asked = iw_asked i\<rparr>"

fun commitment_view :: "web3_commitment \<Rightarrow> commitment" where
  "commitment_view WProcessed = Processed" | "commitment_view WRecent = Processed"
| "commitment_view WConfirmed = Confirmed" | "commitment_view WSingle = Confirmed" | "commitment_view WSingleGossip = Confirmed"
| "commitment_view WFinalized = Finalized" | "commitment_view WRoot = Finalized" | "commitment_view WMax = Finalized"

definition kit_options :: "connection \<Rightarrow> options_web3 option \<Rightarrow> challenge_read_options" where
  "kit_options c opts = (let config = challengeReadConfig_web3 c opts in
     \<lparr>cro_commitment = Some (commitment_view (cw_commitment config)), cro_minContextSlot = cw_minContextSlot config\<rparr>)"

definition kit_node :: "(thrown \<Rightarrow> exn) \<Rightarrow> connection \<Rightarrow> options_web3 option \<Rightarrow> rpc_node" where
  "kit_node v c opts = (let as_asked = (\<lambda>config. \<lparr>cw_commitment = cw_commitment (challengeReadConfig_web3 c opts),
       cw_minContextSlot = rc_minContextSlot config\<rparr>) in
     \<lparr>nd_getAccountInfo = (\<lambda>a config. node_view v (cn_getAccountInfoAndContext c a (as_asked config))),
      nd_getSlot = (\<lambda>config. node_view v (cn_getSlot c (as_asked config)))\<rparr>)"

lemma wait_view: "minContextSlotWaitMs_web3 c = minContextSlotWaitMs (commitment_view c)"
  by (cases c) (simp_all add: minContextSlotWaitMs_web3_def minContextSlotWaitMs_def
      FINALIZED_MIN_CONTEXT_SLOT_WAIT_MS_web3_def FINALIZED_MIN_CONTEXT_SLOT_WAIT_MS_def
      MIN_CONTEXT_SLOT_WAIT_MS_web3_def MIN_CONTEXT_SLOT_WAIT_MS_def)

lemma node_view_simps [simp]:
  "fst (node_view v n t) = map_sum v id (fst (n t))" "snd (node_view v n t) = snd (n t)"
  by (simp_all add: node_view_def)

lemma run_view_simps [simp]:
  "run_view v \<lparr>rw_result = r, rw_end = t, rw_asked = ts\<rparr>
     = \<lparr>rn_result = map_sum (failure_view v) id r, rn_end = t, rn_asked = ts\<rparr>"
  "run_view v (w\<lparr>rw_asked := ts\<rparr>) = (run_view v w)\<lparr>rn_asked := ts\<rparr>"
  "rn_asked (run_view v w) = rw_asked w"
  by (simp_all add: run_view_def)

lemma retry_view:
  assumes "tells_behind v"
  shows "run_view v (retry_read_web3 read budget fl stop started k now)
    = retry_read (node_view v read) budget fl stop started k now"
proof (induction read budget fl stop started k now rule: retry_read_web3.induct)
  case (1 read budget fl stop started k now)
  let ?answered = "now + int (snd (read now))"
  note sim = retry_read.simps [of "node_view v read" budget fl stop started k now]
    retry_read_web3.simps [of read budget fl stop started k now]
  show ?case
  proof (cases "fst (read now)")
    case (Inr x)
    then show ?thesis unfolding sim by simp
  next
    case (Inl e)
    have [simp]: "v e = SLOT_NOT_REACHED \<longleftrightarrow> minContextSlotNotReached e" using assms by (simp add: tells_behind_def)
    have "rw_asked w = rn_asked (run_view v w)" for w :: "'a run_web3" by simp
    then show ?thesis unfolding sim
      using 1 [OF refl Inl] by (simp add: Inl Let_def backoff_web3 del: run_view_simps(3))
  qed
qed

lemma config_of_kit_options:
  "challengeReadConfig (Some (kit_options c opts)) = \<lparr>rc_commitment = commitment_view (cw_commitment (challengeReadConfig_web3 c opts)),
     rc_minContextSlot = cw_minContextSlot (challengeReadConfig_web3 c opts)\<rparr>"
  by (simp add: kit_options_def challengeReadConfig_def Let_def)

lemma config_web3_eta: "\<lparr>cw_commitment = cw_commitment r, cw_minContextSlot = cw_minContextSlot r\<rparr> = r"
  by simp

lemma then_view: "run_view v (then_web3 f r) = run_map f (run_view v r)"
  by (simp add: run_view_def then_web3_def run_map_def rbind_def split: sum.split)

lemma account_view:
  assumes "tells_behind v"
  shows "run_map (\<lambda>info. case info of None \<Rightarrow> Inl (Error (''Authority account not found: '' @ a)) | Some data \<Rightarrow> Inr data)
      (run_view v (readAuthorityAccount_web3 c a opts stop now))
    = readAuthorityAccountBytes (kit_node v c opts) a (Some (kit_options c opts)) stop now"
  by (simp add: readAuthorityAccount_web3_def readAuthorityAccountBytes_def atOrAfterContextSlot_web3_def
      atOrAfterContextSlot_def retry_view [OF assms] config_of_kit_options kit_node_def wait_view config_web3_eta
      Let_def)

lemma run_map_map: "run_map g (run_map f r) = run_map (\<lambda>x. rbind (f x) g) r"
  by (simp add: run_map_def rbind_assoc)

lemma found_then:
  "rbind (case info of None \<Rightarrow> Inl x | Some data \<Rightarrow> Inr data) f = (case info of None \<Rightarrow> Inl x | Some data \<Rightarrow> f data)"
  by (simp split: option.split)

lemma readers_view:
  assumes "tells_behind v"
  shows "run_view v (readChallengeCounter_web3 c a opts stop now)
      = readChallengeCounter (kit_node v c opts) a (Some (kit_options c opts)) stop now"
    and "run_view v (readChallengeKey_web3 c a opts stop now)
      = readChallengeKey (kit_node v c opts) a (Some (kit_options c opts)) stop now"
    and "run_view v (readChallengeSlot_web3 c opts stop now)
      = readChallengeSlot (kit_node v c opts) (Some (kit_options c opts)) stop now"
proof -
  show "run_view v (readChallengeCounter_web3 c a opts stop now)
      = readChallengeCounter (kit_node v c opts) a (Some (kit_options c opts)) stop now"
    and "run_view v (readChallengeKey_web3 c a opts stop now)
      = readChallengeKey (kit_node v c opts) a (Some (kit_options c opts)) stop now"
    unfolding readChallengeCounter_def readChallengeKey_def account_view [OF assms, symmetric]
    by (simp_all add: readChallengeCounter_web3_def readChallengeKey_web3_def then_view run_map_map found_then counter_of_def [abs_def]
        key_of_authority_def [abs_def])
  show "run_view v (readChallengeSlot_web3 c opts stop now)
      = readChallengeSlot (kit_node v c opts) (Some (kit_options c opts)) stop now"
    by (simp add: readChallengeSlot_web3_def readChallengeSlot_def atOrAfterContextSlot_web3_def
      atOrAfterContextSlot_def retry_view [OF assms] config_of_kit_options kit_node_def wait_view config_web3_eta
      Let_def)
qed

lemma first_failure_view:
  "first_failure (map (map_prod id (failure_view v)) fs) = map_option (map_prod id (failure_view v)) (first_failure_web3 fs)"
  by (induction fs rule: first_failure_web3.induct) (auto split: option.split)

lemma failure_of_view: "failure_of (run_view v r) = map (map_prod id (failure_view v)) (failure_of_web3 r)"
  by (simp add: failure_of_def failure_of_web3_def run_view_def split: sum.split)

lemma have_or_view: "run_view v (have_or_web3 h f now stop) = have_or h (\<lambda>stop. run_view v (f stop)) now stop"
  by (simp add: have_or_web3_def have_or_def split: option.split)

theorem readChallengeInputs_view:
  assumes v: "tells_behind v"
  shows "inputs_view v (readChallengeInputs_web3 c a opts key slot beside now)
    = readChallengeInputs (kit_node v c (Some opts)) a (kit_options c (Some opts)) key slot
        (map_option (map_prod id (failure_view v)) beside) now"
proof -
  define k where "k stop = have_or_web3 key (\<lambda>stop. readChallengeKey_web3 c a (Some opts) stop now) now stop" for stop
  define s where "s stop = have_or_web3 slot (\<lambda>stop. readChallengeSlot_web3 c (Some opts) stop now) now stop" for stop
  define n where "n stop = readChallengeCounter_web3 c a (Some opts) stop now" for stop
  define fails where "fails stop = first_failure_web3 (failure_of_web3 (k stop) @ failure_of_web3 (s stop) @ failure_of_web3 (n stop))"
    for stop
  have stop: "map_option fst (map_option (map_prod id (failure_view v)) beside) = map_option fst beside"
    by (simp add: option.map_comp comp_def)
  have fails: "first_failure (failure_of (run_view v (k t)) @ failure_of (run_view v (s t)) @ failure_of (run_view v (n t)))
      = map_option (map_prod id (failure_view v)) (fails t)" for t
    unfolding fails_def failure_of_view first_failure_view [symmetric] by simp
  have none: "map_sum (failure_view v) id (case (rw_result (k t), rw_result (s t), rw_result (n t)) of
        (Inr k, Inr s, Inr c) \<Rightarrow> Inr (k, s, c + 1) | (Inl e, _, _) \<Rightarrow> Inl e | (_, Inl e, _) \<Rightarrow> Inl e | (_, _, Inl e) \<Rightarrow> Inl e)
      = rbind (rn_result (run_view v (k t))) (\<lambda>k. rbind (rn_result (run_view v (s t))) (\<lambda>s.
        rbind (rn_result (run_view v (n t))) (\<lambda>c. Inr (k, s, c + 1))))" for t
    by (simp add: run_view_def split: sum.split)
  have legacy: "readChallengeInputs_web3 c a opts key slot beside now =
      (if group_stopped (map_option fst beside) now then \<lparr>iw_result = Inl (snd (the beside)), iw_asked = []\<rparr>
       else let t = map_option fst beside in case fails t of
         None \<Rightarrow> \<lparr>iw_result = (case (rw_result (k t), rw_result (s t), rw_result (n t)) of
             (Inr k, Inr s, Inr c) \<Rightarrow> Inr (k, s, c + 1) | (Inl e, _, _) \<Rightarrow> Inl e | (_, Inl e, _) \<Rightarrow> Inl e | (_, _, Inl e) \<Rightarrow> Inl e),
           iw_asked = rw_asked (k t) @ rw_asked (s t) @ rw_asked (n t)\<rparr>
       | Some (t', e) \<Rightarrow> let t'' = Some (earlier_stop t t') in \<lparr>iw_result = Inl e,
           iw_asked = rw_asked (k t'') @ rw_asked (s t'') @ rw_asked (n t'')\<rparr>)"
    unfolding readChallengeInputs_web3_def Let_def k_def s_def n_def fails_def by (rule refl)
  have kit: "run_view v (k t) = have_or key (\<lambda>stop. readChallengeKey (kit_node v c (Some opts)) a (Some (kit_options c (Some opts))) stop now) now t"
    "run_view v (s t) = have_or slot (\<lambda>stop. readChallengeSlot (kit_node v c (Some opts)) (Some (kit_options c (Some opts))) stop now) now t"
    "run_view v (n t) = readChallengeCounter (kit_node v c (Some opts)) a (Some (kit_options c (Some opts))) t now" for t
    by (simp_all add: k_def s_def n_def have_or_view readers_view [OF v])
  show ?thesis
    unfolding readChallengeInputs_def stop Let_def kit [symmetric] fails none [symmetric] legacy
    by (cases beside) (auto simp: inputs_view_def group_stopped_def split: option.split)
qed

section \<open>Freshness\<close>

definition honours_floor_web3 :: "(int \<Rightarrow> bytes option) \<Rightarrow> connection \<Rightarrow> address \<Rightarrow> bool" where
  "honours_floor_web3 account c a \<longleftrightarrow>
     (\<forall>config t v. fst (cn_getAccountInfoAndContext c a config t) = Inr v \<longrightarrow>
       (\<exists>slot. v = account slot \<and> (\<forall>m. cw_minContextSlot config = Some m \<longrightarrow> m \<le> slot)))"

lemma honours_floor_view: "honours_floor_web3 account c a \<Longrightarrow> honours_floor account (kit_node v c opts) a"
proof -
  assume h: "honours_floor_web3 account c a"
  have "map_sum v id r = Inr x \<Longrightarrow> r = Inr x" for r :: "thrown + bytes option" and x by (cases r) auto
  then show "honours_floor account (kit_node v c opts) a"
    using h unfolding honours_floor_def honours_floor_web3_def kit_node_def by (simp add: Let_def) fastforce
qed

text \<open>What the program asks of a signature over the account: the key it holds, one more than its counter.\<close>

definition signs_next :: "bytes \<Rightarrow> bytes \<Rightarrow> int \<Rightarrow> bool" where
  "signs_next bs key counter \<longleftrightarrow> counter = le_val (u8_slice bs 8 12) + 1 \<and> key = u8_slice bs 80 113 \<and> length key = 33
     \<and> bs ! 0 = ACCOUNT_DISCRIMINATOR AUTHORITY"

definition plain_view :: "thrown \<Rightarrow> exn" where
  "plain_view e = (if minContextSlotNotReached e then SLOT_NOT_REACHED else LibError ''RPC'')"

lemma plain_view: "tells_behind plain_view"
  by (simp add: tells_behind_def plain_view_def SLOT_NOT_REACHED_def)

text \<open>
  C30. A challenge read with a floor is not stale, in either SDK. If the node answers only from states
  at or past the floor, and the authority has not changed since the slot of its previous
  transaction, then a successful read returns one more than the counter that transaction left and
  the key the account holds, so that the program's counter check passes. And the two SDKs read
  alike: with a connection seen as a node and the commitment the connection's own default gives, the
  reads of the SDK for web3.js v1 ask at the same times and end with the same key, slot and counter,
  or the same failure, as those of the kit.
\<close>

theorem challenge_reads_fresh:
  assumes quiet: "\<And>slot. m \<le> slot \<Longrightarrow> account slot = Some bs"
  shows "(honours_floor account rpc a \<and> cro_minContextSlot opts = Some m
      \<and> ci_result (readChallengeInputs rpc a opts None slotOverride beside now) = Inr (key, slot, counter)
      \<longrightarrow> signs_next bs key counter)
    \<and> (honours_floor_web3 account c a \<and> ow_minContextSlot opts' = Some m
      \<and> iw_result (readChallengeInputs_web3 c a opts' None slotOverride beside' now) = Inr (key', slot', counter')
      \<longrightarrow> signs_next bs key' counter')
    \<and> (tells_behind v \<longrightarrow> inputs_view v (readChallengeInputs_web3 c a opts' have slotOverride beside' now)
        = readChallengeInputs (kit_node v c (Some opts')) a (kit_options c (Some opts')) have slotOverride
            (map_option (map_prod id (failure_view v)) beside') now)"
proof (intro conjI impI; (elim conjE)?)
  assume "honours_floor account rpc a" "cro_minContextSlot opts = Some m"
    "ci_result (readChallengeInputs rpc a opts None slotOverride beside now) = Inr (key, slot, counter)"
  then show "signs_next bs key counter" using readChallengeInputs_fresh [OF _ _ quiet] by (simp add: signs_next_def)
next
  assume h: "honours_floor_web3 account c a" "ow_minContextSlot opts' = Some m"
    and ok: "iw_result (readChallengeInputs_web3 c a opts' None slotOverride beside' now) = Inr (key', slot', counter')"
  have "ci_result (inputs_view plain_view (readChallengeInputs_web3 c a opts' None slotOverride beside' now)) = Inr (key', slot', counter')"
    using ok by (simp add: inputs_view_def)
  moreover have "cro_minContextSlot (kit_options c (Some opts')) = Some m"
    using h(2) by (simp add: kit_options_def challengeReadConfig_web3_def Let_def)
  ultimately show "signs_next bs key' counter'"
    using readChallengeInputs_fresh [OF honours_floor_view [OF h(1)] _ quiet]
    unfolding readChallengeInputs_view [OF plain_view] signs_next_def by blast
qed (rule readChallengeInputs_view)

theorem challenge_reads_fresh_witness:
  "let bs = [ACCOUNT_DISCRIMINATOR AUTHORITY, 1, 0, 0, 0, 0, 0, 0, 5, 0, 0, 0] @ replicate 101 0;
       c = \<lparr>cn_commitment = Some WRecent, cn_getAccountInfoAndContext = (\<lambda>_ _ t. (Inr (Some bs), 0)),
            cn_getSlot = (\<lambda>_ _. (Inr 100, 0))\<rparr>
   in \<exists>key. iw_result (readChallengeInputs_web3 c ''a'' \<lparr>ow_commitment = None, ow_minContextSlot = Some 9\<rparr> None None None 0)
        = Inr (key, 100, 6)"
proof -
  let ?bs = "[ACCOUNT_DISCRIMINATOR AUTHORITY, 1, 0, 0, 0, 0, 0, 0, 5, 0, 0, 0] @ replicate 101 (0 :: byte)"
  let ?c = "\<lparr>cn_commitment = Some WRecent, cn_getAccountInfoAndContext = (\<lambda>_ _ t. (Inr (Some ?bs), 0)),
      cn_getSlot = (\<lambda>_ _. (Inr 100, 0))\<rparr>"
  let ?o = "\<lparr>ow_commitment = None, ow_minContextSlot = Some 9\<rparr>"
  have a: "atOrAfterContextSlot_web3 (\<lambda>t. (Inr v, 0)) config stop now = \<lparr>rw_result = Inr v, rw_end = now, rw_asked = [now]\<rparr>"
    for v config stop now by (simp add: atOrAfterContextSlot_web3_def retry_read_web3.simps)
  have "\<exists>k n. iw_result (readChallengeInputs_web3 ?c ''a'' ?o None None None 0) = Inr (k, 100, n)"
    by (simp add: readChallengeInputs_web3_def group_stopped_def have_or_web3_def readChallengeKey_web3_def readChallengeSlot_web3_def
        readChallengeCounter_web3_def readAuthorityAccount_web3_def then_web3_def a failure_of_web3_def Let_def)
  then obtain k n where ok: "iw_result (readChallengeInputs_web3 ?c ''a'' ?o None None None 0) = Inr (k, 100, n)" by blast
  have "honours_floor_web3 (\<lambda>_. Some ?bs) ?c ''a''"
    by (auto simp: honours_floor_web3_def) (metis option.inject order_refl)
  then have "signs_next ?bs k n"
    using challenge_reads_fresh [of 9 "\<lambda>_. Some ?bs" ?bs] ok by (metis options_web3.select_convs(2))
  then have "n = 6" by (simp add: signs_next_def u8_slice_def)
  with ok show ?thesis by (auto simp only: Let_def)
qed

end
