(* ===== verification/LegacyErrors.thy ===== *)
theory LegacyErrors
  imports Prelude
begin

text \<open>
  The error helpers of the SDK for web3.js v1 (\<open>sdk-legacy/src/utils/errors.ts\<close>) against the error
  codes the program declares (\<open>program/src/error.rs\<close>): the table of names, and the code read out of
  the text of a failed transaction.
\<close>

section \<open>What the program raises\<close>

datatype (plugins only: code) auth_error =
    InvalidAuthorityPayload | PermissionDenied | InvalidInstruction | InvalidPubkey
  | InvalidMessageHash | SignatureReused | InvalidSignatureAge | InvalidSessionDuration
  | SessionExpired | AuthorityDoesNotSupportSession | InvalidAuthenticationKind | InvalidMessage
  | SelfReentrancyNotAllowed | DeferredAuthorizationExpired | DeferredHashMismatch | InvalidExpiryWindow
  | UnauthorizedReclaim | DeferredAuthorizationNotExpired | InvalidSessionAccount | ActionBufferInvalid
  | ActionProgramNotWhitelisted | ActionProgramBlacklisted | ActionSolMaxPerTxExceeded | ActionSolLimitExceeded
  | ActionSolRecurringLimitExceeded | ActionTokenLimitExceeded | ActionTokenRecurringLimitExceeded | ActionWhitelistBlacklistConflict
  | ActionTokenMaxPerTxExceeded | SessionVaultOwnerChanged | SessionVaultDataLenChanged | SessionTokenAuthorityChanged
  | DelegateRequiresPolicy | PolicyBearingAuthorityCannotDelegate | PolicyRankMismatch | SessionNotExpired
  | ActionUnlistedSolOutflow | ActionUnlistedTokenOutflow

datatype (plugins only: code) protocol_error =
    ProtocolAlreadyInitialized | InvalidProtocolAdmin | InvalidIntegratorRecord | InsufficientFeeBalance
  | IntegratorAlreadyRegistered | InvalidTreasury | FeeAccountsRequired | ProtocolNotInitialized
  | InvalidTreasuryShard | InvalidFeeRecord | AccountVersionMismatch | FeeExceedsMaximum
  | UnauthorizedInitializer | NoPendingAdmin | WrongProgramAddress | RetiredDeployment

fun auth_code :: "auth_error \<Rightarrow> int" where
  "auth_code InvalidAuthorityPayload = 3001"
| "auth_code PermissionDenied = 3002"
| "auth_code InvalidInstruction = 3003"
| "auth_code InvalidPubkey = 3004"
| "auth_code InvalidMessageHash = 3005"
| "auth_code SignatureReused = 3006"
| "auth_code InvalidSignatureAge = 3007"
| "auth_code InvalidSessionDuration = 3008"
| "auth_code SessionExpired = 3009"
| "auth_code AuthorityDoesNotSupportSession = 3010"
| "auth_code InvalidAuthenticationKind = 3011"
| "auth_code InvalidMessage = 3012"
| "auth_code SelfReentrancyNotAllowed = 3013"
| "auth_code DeferredAuthorizationExpired = 3014"
| "auth_code DeferredHashMismatch = 3015"
| "auth_code InvalidExpiryWindow = 3016"
| "auth_code UnauthorizedReclaim = 3017"
| "auth_code DeferredAuthorizationNotExpired = 3018"
| "auth_code InvalidSessionAccount = 3019"
| "auth_code ActionBufferInvalid = 3020"
| "auth_code ActionProgramNotWhitelisted = 3021"
| "auth_code ActionProgramBlacklisted = 3022"
| "auth_code ActionSolMaxPerTxExceeded = 3023"
| "auth_code ActionSolLimitExceeded = 3024"
| "auth_code ActionSolRecurringLimitExceeded = 3025"
| "auth_code ActionTokenLimitExceeded = 3026"
| "auth_code ActionTokenRecurringLimitExceeded = 3027"
| "auth_code ActionWhitelistBlacklistConflict = 3028"
| "auth_code ActionTokenMaxPerTxExceeded = 3029"
| "auth_code SessionVaultOwnerChanged = 3030"
| "auth_code SessionVaultDataLenChanged = 3031"
| "auth_code SessionTokenAuthorityChanged = 3032"
| "auth_code DelegateRequiresPolicy = 3033"
| "auth_code PolicyBearingAuthorityCannotDelegate = 3034"
| "auth_code PolicyRankMismatch = 3035"
| "auth_code SessionNotExpired = 3036"
| "auth_code ActionUnlistedSolOutflow = 3037"
| "auth_code ActionUnlistedTokenOutflow = 3038"

fun protocol_code :: "protocol_error \<Rightarrow> int" where
  "protocol_code ProtocolAlreadyInitialized = 4001"
| "protocol_code InvalidProtocolAdmin = 4002"
| "protocol_code InvalidIntegratorRecord = 4004"
| "protocol_code InsufficientFeeBalance = 4005"
| "protocol_code IntegratorAlreadyRegistered = 4006"
| "protocol_code InvalidTreasury = 4007"
| "protocol_code FeeAccountsRequired = 4008"
| "protocol_code ProtocolNotInitialized = 4009"
| "protocol_code InvalidTreasuryShard = 4010"
| "protocol_code InvalidFeeRecord = 4011"
| "protocol_code AccountVersionMismatch = 4013"
| "protocol_code FeeExceedsMaximum = 4014"
| "protocol_code UnauthorizedInitializer = 4015"
| "protocol_code NoPendingAdmin = 4016"
| "protocol_code WrongProgramAddress = 4017"
| "protocol_code RetiredDeployment = 4018"

text \<open>\<open>From<...> for ProgramError\<close>: both go out as a custom code. The name is the variant's.\<close>

datatype program_error = Auth auth_error | Protocol protocol_error

primrec custom_code :: "program_error \<Rightarrow> int" where
  "custom_code (Auth e) = auth_code e"
| "custom_code (Protocol e) = protocol_code e"

fun auth_name :: "auth_error \<Rightarrow> string" where
  "auth_name InvalidAuthorityPayload = ''InvalidAuthorityPayload''"
| "auth_name PermissionDenied = ''PermissionDenied''"
| "auth_name InvalidInstruction = ''InvalidInstruction''"
| "auth_name InvalidPubkey = ''InvalidPubkey''"
| "auth_name InvalidMessageHash = ''InvalidMessageHash''"
| "auth_name SignatureReused = ''SignatureReused''"
| "auth_name InvalidSignatureAge = ''InvalidSignatureAge''"
| "auth_name InvalidSessionDuration = ''InvalidSessionDuration''"
| "auth_name SessionExpired = ''SessionExpired''"
| "auth_name AuthorityDoesNotSupportSession = ''AuthorityDoesNotSupportSession''"
| "auth_name InvalidAuthenticationKind = ''InvalidAuthenticationKind''"
| "auth_name InvalidMessage = ''InvalidMessage''"
| "auth_name SelfReentrancyNotAllowed = ''SelfReentrancyNotAllowed''"
| "auth_name DeferredAuthorizationExpired = ''DeferredAuthorizationExpired''"
| "auth_name DeferredHashMismatch = ''DeferredHashMismatch''"
| "auth_name InvalidExpiryWindow = ''InvalidExpiryWindow''"
| "auth_name UnauthorizedReclaim = ''UnauthorizedReclaim''"
| "auth_name DeferredAuthorizationNotExpired = ''DeferredAuthorizationNotExpired''"
| "auth_name InvalidSessionAccount = ''InvalidSessionAccount''"
| "auth_name ActionBufferInvalid = ''ActionBufferInvalid''"
| "auth_name ActionProgramNotWhitelisted = ''ActionProgramNotWhitelisted''"
| "auth_name ActionProgramBlacklisted = ''ActionProgramBlacklisted''"
| "auth_name ActionSolMaxPerTxExceeded = ''ActionSolMaxPerTxExceeded''"
| "auth_name ActionSolLimitExceeded = ''ActionSolLimitExceeded''"
| "auth_name ActionSolRecurringLimitExceeded = ''ActionSolRecurringLimitExceeded''"
| "auth_name ActionTokenLimitExceeded = ''ActionTokenLimitExceeded''"
| "auth_name ActionTokenRecurringLimitExceeded = ''ActionTokenRecurringLimitExceeded''"
| "auth_name ActionWhitelistBlacklistConflict = ''ActionWhitelistBlacklistConflict''"
| "auth_name ActionTokenMaxPerTxExceeded = ''ActionTokenMaxPerTxExceeded''"
| "auth_name SessionVaultOwnerChanged = ''SessionVaultOwnerChanged''"
| "auth_name SessionVaultDataLenChanged = ''SessionVaultDataLenChanged''"
| "auth_name SessionTokenAuthorityChanged = ''SessionTokenAuthorityChanged''"
| "auth_name DelegateRequiresPolicy = ''DelegateRequiresPolicy''"
| "auth_name PolicyBearingAuthorityCannotDelegate = ''PolicyBearingAuthorityCannotDelegate''"
| "auth_name PolicyRankMismatch = ''PolicyRankMismatch''"
| "auth_name SessionNotExpired = ''SessionNotExpired''"
| "auth_name ActionUnlistedSolOutflow = ''ActionUnlistedSolOutflow''"
| "auth_name ActionUnlistedTokenOutflow = ''ActionUnlistedTokenOutflow''"

fun protocol_name :: "protocol_error \<Rightarrow> string" where
  "protocol_name ProtocolAlreadyInitialized = ''ProtocolAlreadyInitialized''"
| "protocol_name InvalidProtocolAdmin = ''InvalidProtocolAdmin''"
| "protocol_name InvalidIntegratorRecord = ''InvalidIntegratorRecord''"
| "protocol_name InsufficientFeeBalance = ''InsufficientFeeBalance''"
| "protocol_name IntegratorAlreadyRegistered = ''IntegratorAlreadyRegistered''"
| "protocol_name InvalidTreasury = ''InvalidTreasury''"
| "protocol_name FeeAccountsRequired = ''FeeAccountsRequired''"
| "protocol_name ProtocolNotInitialized = ''ProtocolNotInitialized''"
| "protocol_name InvalidTreasuryShard = ''InvalidTreasuryShard''"
| "protocol_name InvalidFeeRecord = ''InvalidFeeRecord''"
| "protocol_name AccountVersionMismatch = ''AccountVersionMismatch''"
| "protocol_name FeeExceedsMaximum = ''FeeExceedsMaximum''"
| "protocol_name UnauthorizedInitializer = ''UnauthorizedInitializer''"
| "protocol_name NoPendingAdmin = ''NoPendingAdmin''"
| "protocol_name WrongProgramAddress = ''WrongProgramAddress''"
| "protocol_name RetiredDeployment = ''RetiredDeployment''"

primrec variant_name :: "program_error \<Rightarrow> string" where
  "variant_name (Auth e) = auth_name e"
| "variant_name (Protocol e) = protocol_name e"

section \<open>The table\<close>

definition ERROR_NAMES :: "(int \<times> string) list" where
  "ERROR_NAMES =
    [(3001, ''InvalidAuthorityPayload''), (3002, ''PermissionDenied''), (3003, ''InvalidInstruction''),
     (3004, ''InvalidPubkey''), (3005, ''InvalidMessageHash''), (3006, ''SignatureReused''),
     (3007, ''InvalidSignatureAge''), (3008, ''InvalidSessionDuration''), (3009, ''SessionExpired''),
     (3010, ''AuthorityDoesNotSupportSession''), (3011, ''InvalidAuthenticationKind''), (3012, ''InvalidMessage''),
     (3013, ''SelfReentrancyNotAllowed''), (3014, ''DeferredAuthorizationExpired''), (3015, ''DeferredHashMismatch''),
     (3016, ''InvalidExpiryWindow''), (3017, ''UnauthorizedReclaim''), (3018, ''DeferredAuthorizationNotExpired''),
     (3019, ''InvalidSessionAccount''), (3020, ''ActionBufferInvalid''), (3021, ''ActionProgramNotWhitelisted''),
     (3022, ''ActionProgramBlacklisted''), (3023, ''ActionSolMaxPerTxExceeded''), (3024, ''ActionSolLimitExceeded''),
     (3025, ''ActionSolRecurringLimitExceeded''), (3026, ''ActionTokenLimitExceeded''), (3027, ''ActionTokenRecurringLimitExceeded''),
     (3028, ''ActionWhitelistBlacklistConflict''), (3029, ''ActionTokenMaxPerTxExceeded''), (3030, ''SessionVaultOwnerChanged''),
     (3031, ''SessionVaultDataLenChanged''), (3032, ''SessionTokenAuthorityChanged''), (3033, ''DelegateRequiresPolicy''),
     (3034, ''PolicyBearingAuthorityCannotDelegate''), (3035, ''PolicyRankMismatch''), (3036, ''SessionNotExpired''),
     (3037, ''ActionUnlistedSolOutflow''), (3038, ''ActionUnlistedTokenOutflow''), (4001, ''ProtocolAlreadyInitialized''),
     (4002, ''InvalidProtocolAdmin''), (4004, ''InvalidIntegratorRecord''), (4005, ''InsufficientFeeBalance''),
     (4006, ''IntegratorAlreadyRegistered''), (4007, ''InvalidTreasury''), (4008, ''FeeAccountsRequired''),
     (4009, ''ProtocolNotInitialized''), (4010, ''InvalidTreasuryShard''), (4011, ''InvalidFeeRecord''),
     (4013, ''AccountVersionMismatch''), (4014, ''FeeExceedsMaximum''), (4015, ''UnauthorizedInitializer''),
     (4016, ''NoPendingAdmin''), (4017, ''WrongProgramAddress''), (4018, ''RetiredDeployment'')]"

definition errorFromCode :: "int \<Rightarrow> string option" where
  "errorFromCode code = map_of ERROR_NAMES code"

section \<open>Reading the code from a message\<close>

definition hex_digit :: "char \<Rightarrow> nat option" where
  "hex_digit c = (let n = (of_char c :: nat) in
     if 48 \<le> n \<and> n \<le> 57 then Some (n - 48)
     else if 97 \<le> n \<and> n \<le> 102 then Some (n - 87)
     else if 65 \<le> n \<and> n \<le> 70 then Some (n - 55) else None)"

definition dec_digit :: "char \<Rightarrow> nat option" where
  "dec_digit c = (let n = (of_char c :: nat) in if 48 \<le> n \<and> n \<le> 57 then Some (n - 48) else None)"

text \<open>
  \<open>parseInt\<close> of digits the expression has matched. The number is exact, as it is in JavaScript below
  $2^{53}$; a program error is 32 bits.
\<close>

definition parse_digits :: "(char \<Rightarrow> nat option) \<Rightarrow> int \<Rightarrow> string \<Rightarrow> int" where
  "parse_digits digit base ds = foldl (\<lambda>n c. n * base + int (case digit c of Some d \<Rightarrow> d | None \<Rightarrow> 0)) 0 ds"

text \<open>The two expressions at the start of a text: the digits they capture.\<close>

definition HEX_MARK :: string where "HEX_MARK = ''custom program error: 0x''"
definition DEC_MARK :: string where "DEC_MARK = ''Custom(''"

definition hex_here :: "string \<Rightarrow> string option" where
  "hex_here s = (let ds = takeWhile (\<lambda>c. hex_digit c \<noteq> None) (drop (length HEX_MARK) s) in
     if take (length HEX_MARK) s = HEX_MARK \<and> ds \<noteq> [] then Some ds else None)"

definition dec_here :: "string \<Rightarrow> string option" where
  "dec_here s = (let ds = takeWhile (\<lambda>c. dec_digit c \<noteq> None) (drop (length DEC_MARK) s);
       rest = drop (length DEC_MARK + length ds) s in
     if take (length DEC_MARK) s = DEC_MARK \<and> ds \<noteq> [] \<and> take 1 rest = '')'' then Some ds else None)"

fun leftmost :: "(string \<Rightarrow> string option) \<Rightarrow> string \<Rightarrow> string option" where
  "leftmost m [] = m []"
| "leftmost m (c # s) = (case m (c # s) of Some ds \<Rightarrow> Some ds | None \<Rightarrow> leftmost m s)"

text \<open>\<open>msg\<close> is \<open>String(err)\<close>.\<close>

definition extractErrorCode :: "string \<Rightarrow> int option" where
  "extractErrorCode msg = (case leftmost hex_here msg of
     Some ds \<Rightarrow> Some (parse_digits hex_digit 16 ds)
   | None \<Rightarrow> map_option (parse_digits dec_digit 10) (leftmost dec_here msg))"

section \<open>The table is the program's\<close>

text \<open>The declarations of the program, in order.\<close>

definition declared :: "program_error list" where
  "declared = map Auth
    [InvalidAuthorityPayload, PermissionDenied, InvalidInstruction, InvalidPubkey,
     InvalidMessageHash, SignatureReused, InvalidSignatureAge, InvalidSessionDuration,
     SessionExpired, AuthorityDoesNotSupportSession, InvalidAuthenticationKind, InvalidMessage,
     SelfReentrancyNotAllowed, DeferredAuthorizationExpired, DeferredHashMismatch, InvalidExpiryWindow,
     UnauthorizedReclaim, DeferredAuthorizationNotExpired, InvalidSessionAccount, ActionBufferInvalid,
     ActionProgramNotWhitelisted, ActionProgramBlacklisted, ActionSolMaxPerTxExceeded, ActionSolLimitExceeded,
     ActionSolRecurringLimitExceeded, ActionTokenLimitExceeded, ActionTokenRecurringLimitExceeded, ActionWhitelistBlacklistConflict,
     ActionTokenMaxPerTxExceeded, SessionVaultOwnerChanged, SessionVaultDataLenChanged, SessionTokenAuthorityChanged,
     DelegateRequiresPolicy, PolicyBearingAuthorityCannotDelegate, PolicyRankMismatch, SessionNotExpired,
     ActionUnlistedSolOutflow, ActionUnlistedTokenOutflow]
    @ map Protocol
    [ProtocolAlreadyInitialized, InvalidProtocolAdmin, InvalidIntegratorRecord, InsufficientFeeBalance,
     IntegratorAlreadyRegistered, InvalidTreasury, FeeAccountsRequired, ProtocolNotInitialized,
     InvalidTreasuryShard, InvalidFeeRecord, AccountVersionMismatch, FeeExceedsMaximum,
     UnauthorizedInitializer, NoPendingAdmin, WrongProgramAddress, RetiredDeployment]"

lemma all_declared: "e \<in> set declared"
proof (cases e)
  case (Auth a)
  then show ?thesis by (cases a) (simp_all add: declared_def)
next
  case (Protocol p)
  then show ?thesis by (cases p) (simp_all add: declared_def)
qed

lemma table_of_declared: "ERROR_NAMES = map (\<lambda>e. (custom_code e, variant_name e)) declared"
  by (simp add: ERROR_NAMES_def declared_def)

lemma codes_distinct: "distinct (map custom_code declared)"
  by (simp add: declared_def)

text \<open>The table names a code exactly when the program declares it, and by its variant.\<close>

theorem errorFromCode_iff: "errorFromCode c = Some n \<longleftrightarrow> (\<exists>e. custom_code e = c \<and> variant_name e = n)"
proof
  assume "errorFromCode c = Some n"
  then have "(c, n) \<in> set ERROR_NAMES" by (simp add: errorFromCode_def map_of_SomeD)
  then show "\<exists>e. custom_code e = c \<and> variant_name e = n" unfolding table_of_declared by auto
next
  assume "\<exists>e. custom_code e = c \<and> variant_name e = n"
  then obtain e where "c = custom_code e" "n = variant_name e" by blast
  moreover have "distinct (map fst ERROR_NAMES)" using codes_distinct by (simp add: table_of_declared comp_def)
  ultimately show "errorFromCode c = Some n"
    using all_declared [of e] by (auto simp: errorFromCode_def table_of_declared intro!: map_of_is_SomeI)
qed

section \<open>A failed simulation names its error\<close>

text \<open>The runtime writes a custom code in lower-case hexadecimal.\<close>

definition hex_char :: "nat \<Rightarrow> char" where
  "hex_char n = (if n < 10 then char_of (n + 48) else char_of (n + 87))"

fun to_hex :: "nat \<Rightarrow> string" where
  "to_hex n = (if n < 16 then [hex_char n] else to_hex (n div 16) @ [hex_char (n mod 16)])"

declare to_hex.simps [simp del]

lemma hex_digit_char: "n < 16 \<Longrightarrow> hex_digit (hex_char n) = Some n"
  by (auto simp: hex_digit_def hex_char_def Let_def)

lemma to_hex_digits: "list_all (\<lambda>c. hex_digit c \<noteq> None) (to_hex n) \<and> to_hex n \<noteq> [] \<and> parse_digits hex_digit 16 (to_hex n) = int n"
proof (induction n rule: to_hex.induct)
  case (1 n)
  show ?case
  proof (cases "n < 16")
    case True
    then show ?thesis by (simp add: to_hex.simps [of n] parse_digits_def hex_digit_char)
  next
    case False
    moreover have "int (n div 16) * 16 + int (n mod 16) = int n"
      by (metis div_mult_mod_eq of_nat_add of_nat_mult of_nat_numeral)
    ultimately show ?thesis using 1 by (simp add: to_hex.simps [of n] parse_digits_def hex_digit_char)
  qed
qed

lemma leftmost_skip: "\<forall>k < length pre. m (drop k (pre @ s)) = None \<Longrightarrow> leftmost m (pre @ s) = leftmost m s"
proof (induction pre)
  case (Cons c pre)
  have "m (drop 0 ((c # pre) @ s)) = None" using Cons.prems by (metis length_greater_0_conv list.distinct(1))
  moreover have "\<forall>k < length pre. m (drop k (pre @ s)) = None" using Cons.prems by auto
  ultimately show ?case using Cons.IH by simp
qed simp

theorem message_names_error:
  assumes "post = [] \<or> hex_digit (hd post) = None"
    and "\<forall>k < length pre. hex_here (drop k (pre @ HEX_MARK @ to_hex (nat (custom_code e)) @ post)) = None"
  shows "extractErrorCode (pre @ HEX_MARK @ to_hex (nat (custom_code e)) @ post) = Some (custom_code e)
    \<and> errorFromCode (custom_code e) = Some (variant_name e)"
proof -
  let ?ds = "to_hex (nat (custom_code e))"
  have pos: "int (nat (custom_code e)) = custom_code e"
    using all_declared [of e] by (auto simp: declared_def)
  have "takeWhile (\<lambda>c. hex_digit c \<noteq> None) (?ds @ post) = ?ds"
    using to_hex_digits [of "nat (custom_code e)"] assms(1)
    by (cases post) (auto simp: takeWhile_append list_all_iff)
  then have here: "hex_here (HEX_MARK @ ?ds @ post) = Some ?ds"
    using to_hex_digits [of "nat (custom_code e)"] by (simp add: hex_here_def Let_def)
  have "leftmost hex_here (HEX_MARK @ ?ds @ post) = Some ?ds"
    using here by (cases "HEX_MARK @ ?ds @ post") auto
  then show ?thesis
    using leftmost_skip [OF assms(2)] to_hex_digits [of "nat (custom_code e)"] pos errorFromCode_iff
    by (auto simp: extractErrorCode_def)
qed

end
