(* ===== verification/LegacyTransfer.thy ===== *)
theory LegacyTransfer
  imports LegacyAgree LegacyReads
begin

text \<open>
  What \<open>LazorKitClient\<close> has and the kit client has not (\<open>sdk-legacy/src/utils/client.ts\<close>): the guess
  of the program from the RPC endpoint, and \<open>transferSol\<close>. \<open>SystemProgram.transfer\<close> of web3.js is a
  function of the two accounts and the lamports, and may throw.
\<close>

section \<open>The constructor\<close>

definition inferProgramIdFromRpc :: "string \<Rightarrow> address result" where
  "inferProgramIdFromRpc rpcEndpoint = (let rpc = map ascii_lower rpcEndpoint in
     if has_substring ''mainnet'' rpc then Inr PROGRAM_ID_MAINNET
     else if has_substring ''devnet'' rpc then Inr PROGRAM_ID_DEVNET
     else if has_substring ''localhost'' rpc \<or> has_substring ''127.0.0.1'' rpc \<or> has_substring ''0.0.0.0'' rpc
     then Inr PROGRAM_ID_DEVNET
     else Inl (Error ''LazorKitClient: cannot infer program ID from RPC endpoint''))"

definition new_client_web3 :: "string \<Rightarrow> address option \<Rightarrow> bool option \<Rightarrow> client result" where
  "new_client_web3 rpcEndpoint programId protocolFees =
     rbind (case programId of Some p \<Rightarrow> Inr p | None \<Rightarrow> inferProgramIdFromRpc rpcEndpoint) (\<lambda>p.
     Inr \<lparr>cl_programId = p, cl_protocolFees = (case protocolFees of Some b \<Rightarrow> b | None \<Rightarrow> True),
          cl_protocolConfig = None, cl_registeredPayers = {}\<rparr>)"

lemma has_substring_iff: "has_substring p s \<longleftrightarrow> (\<exists>pre post. s = pre @ p @ post)"
proof (induction s)
  case (Cons c s)
  have "take (length p) (c # s) = p \<longleftrightarrow> (\<exists>post. c # s = p @ post)"
    by (metis append_eq_conv_conj append_take_drop_id)
  moreover have "(\<exists>pre post. c # s = pre @ p @ post) \<longleftrightarrow> (\<exists>post. c # s = p @ post) \<or> (\<exists>pre post. s = pre @ p @ post)"
    by (metis append_Cons append_Nil list.inject neq_Nil_conv)
  ultimately show ?case using Cons.IH by simp
qed simp

text \<open>
  An endpoint that names mainnet never gets the devnet program, and without an explicit program the
  client is for one of the two current programs or is not made at all.
\<close>

theorem inferred_program:
  "has_substring ''mainnet'' (map ascii_lower rpc) \<Longrightarrow> inferProgramIdFromRpc rpc = Inr PROGRAM_ID_MAINNET"
  "new_client_web3 rpc None fees = Inr c \<Longrightarrow> cl_programId c = PROGRAM_ID_MAINNET \<or> cl_programId c = PROGRAM_ID_DEVNET"
  by (auto simp: inferProgramIdFromRpc_def new_client_web3_def rbind_eq_Inr Let_def split: if_splits)

section \<open>transferSol\<close>

text \<open>
  \<open>Number(n)\<close> of a \<open>bigint\<close>: the nearest double, ties to even (finite below $2^{1024}$). Up to
  $2^{53}$ it is the number itself.
\<close>

fun bit_length :: "nat \<Rightarrow> nat" where
  "bit_length n = (if n = 0 then 0 else Suc (bit_length (n div 2)))"

declare bit_length.simps [simp del]

definition Number_of :: "int \<Rightarrow> int" where
  "Number_of n =
     (if \<bar>n\<bar> < 2 ^ 53 then n
      else let m = nat \<bar>n\<bar>; e = bit_length m - 53; q = m div 2 ^ e; r = m mod 2 ^ e;
               q' = (if 2 * r > 2 ^ e \<or> (2 * r = 2 ^ e \<and> odd q) then q + 1 else q)
           in sgn n * int (q' * 2 ^ e))"

datatype lamports = BigInt int | Num int

definition transferSol_web3 ::
  "kit \<Rightarrow> (address \<Rightarrow> address \<Rightarrow> int \<Rightarrow> web3_ix result) \<Rightarrow> challenge_reads \<Rightarrow> rpc_account \<Rightarrow> int \<Rightarrow> int
   \<Rightarrow> address \<Rightarrow> address \<Rightarrow> execute_signer \<Rightarrow> address \<Rightarrow> lamports \<Rightarrow> web3_ix list stateful" where
  "transferSol_web3 K transfer reads rpc rand rand' payer walletPda signer recipient lamports c =
     sbind (pure (findVaultPda_web3 K walletPda (cl_programId c))) (\<lambda>(vaultPda, _).
       let amount = (case lamports of BigInt n \<Rightarrow> Number_of n | Num n \<Rightarrow> n) in
       sbind (pure (transfer vaultPda recipient amount)) (\<lambda>ix.
       execute_web3 K reads rpc rand rand' payer walletPda signer [ix] None)) c"

lemma bit_length_bounds: "0 < n \<Longrightarrow> 2 ^ (bit_length n - 1) \<le> n \<and> n < 2 ^ bit_length n"
proof (induction n rule: bit_length.induct)
  case (1 n)
  show ?case
  proof (cases "n = 1")
    case True
    then show ?thesis by (simp add: bit_length.simps)
  next
    case False
    then have "0 < n div 2" using 1(2) by simp
    then have ih: "2 ^ (bit_length (n div 2) - 1) \<le> n div 2" "n div 2 < 2 ^ bit_length (n div 2)" using 1 by auto
    have b: "bit_length n = Suc (bit_length (n div 2))" using 1(2) by (simp add: bit_length.simps [of n])
    moreover have "bit_length (n div 2) \<noteq> 0" using ih(2) \<open>0 < n div 2\<close> by (metis less_one not_gr_zero power_0)
    ultimately have "2 ^ (bit_length n - 1) = 2 * (2 ^ (bit_length (n div 2) - 1) :: nat)"
      by (cases "bit_length (n div 2)") simp_all
    moreover have "2 ^ bit_length n = 2 * (2 ^ bit_length (n div 2) :: nat)" by (simp add: b)
    ultimately show ?thesis using ih by linarith
  qed
qed

lemma bit_length_le: "n < 2 ^ k \<Longrightarrow> bit_length n \<le> k"
proof (rule ccontr)
  assume n: "n < 2 ^ k" and l: "\<not> bit_length n \<le> k"
  have "bit_length 0 = 0" by (simp add: bit_length.simps)
  then have "n \<noteq> 0" "k \<le> bit_length n - 1" using l by (cases "n = 0"; simp)+
  then have "(2 :: nat) ^ k \<le> n"
    using bit_length_bounds [of n] power_increasing [of k "bit_length n - 1" "2 :: nat"] by linarith
  then show False using n by simp
qed

text \<open>Up to $2^{53}$ a number is kept; below $2^{64}$ it is moved by at most $2^{10}$.\<close>

lemma Number_of_exact: "\<bar>n\<bar> \<le> 2 ^ 53 \<Longrightarrow> Number_of n = n"
proof (cases "\<bar>n\<bar> < 2 ^ 53")
  case False
  assume "\<bar>n\<bar> \<le> 2 ^ 53"
  then have n: "nat \<bar>n\<bar> = 2 ^ 53" using False by simp
  have "bit_length (2 ^ 53) \<le> 54" by (intro bit_length_le) simp
  moreover have "\<not> bit_length (2 ^ 53) < 54"
    using bit_length_bounds [of "2 ^ 53"] power_increasing [of "bit_length (2 ^ 53)" 53 "2 :: nat"] by fastforce
  ultimately have "bit_length (2 ^ 53) = 54" by linarith
  then show ?thesis using n False by (auto simp: Number_of_def Let_def sgn_if)
qed (simp add: Number_of_def)

lemma rounded_near:
  fixes m p q r :: nat
  assumes "m = q * p + r" "r < p" "p \<le> 2 ^ 11"
  shows "\<bar>int ((if 2 * r > p \<or> (2 * r = p \<and> odd q) then q + 1 else q) * p) - int m\<bar> \<le> 2 ^ 10"
proof -
  define x where "x = q * p"
  have "(q + 1) * p = x + p" "q * p = x" by (simp_all add: x_def)
  then show ?thesis using assms by (simp only: x_def [symmetric] split: if_split) auto
qed

lemma Number_of_near:
  assumes "0 \<le> n" "n < 2 ^ 64"
  shows "\<bar>Number_of n - n\<bar> \<le> 2 ^ 10"
proof (cases "\<bar>n\<bar> < 2 ^ 53")
  case False
  define m where "m = nat \<bar>n\<bar>"
  define e where "e = bit_length m - 53"
  have "bit_length m \<le> 64" using assms by (intro bit_length_le) (simp add: m_def)
  then have "(2 :: nat) ^ e \<le> 2 ^ 11" by (intro power_increasing) (simp_all add: e_def)
  moreover have "Number_of n = int ((if 2 * (m mod 2 ^ e) > 2 ^ e \<or> (2 * (m mod 2 ^ e) = 2 ^ e \<and> odd (m div 2 ^ e))
      then m div 2 ^ e + 1 else m div 2 ^ e) * 2 ^ e)"
    using False assms by (simp add: Number_of_def Let_def m_def e_def)
  moreover have "int m = n" using assms by (simp add: m_def)
  ultimately show ?thesis using rounded_near [OF div_mult_mod_eq [symmetric], of m "2 ^ e"] by simp
qed (simp add: Number_of_def)

text \<open>
  \<open>transferSol\<close> is one transfer from the vault run by \<open>execute\<close>, which does what the kit's does. The
  amount of a \<open>bigint\<close> goes through a double: it is the amount asked for up to $2^{53}$ lamports, and
  within $2^{10}$ lamports of it above; one more than $2^{53}$ is sent as $2^{53}$.
\<close>

theorem transferSol_is_execute:
  assumes "reads_fit reads" "findVaultPda K wallet (cl_programId c) = Inr (vault, bump)"
    and "transfer vault recipient (case lamports of BigInt n \<Rightarrow> Number_of n | Num n \<Rightarrow> n) = Inr (ix_web3 ix)"
  shows "transferSol_web3 K transfer reads rpc rand rand' payer wallet signer recipient lamports c
    = LegacyAgree.run_map (map ix_web3) (execute K reads rpc rand rand' payer wallet signer [ix] None c)"
  using assms(2,3) web3_execute_method [OF assms(1), of K rpc rand rand' payer wallet signer "[ix]" None c]
  by (simp add: transferSol_web3_def sbind_def pure_def web3_pdas)

theorem transferSol_amount:
  "\<bar>n\<bar> \<le> 2 ^ 53 \<Longrightarrow> transferSol_web3 K transfer reads rpc rand rand' payer wallet signer recipient (BigInt n)
     = transferSol_web3 K transfer reads rpc rand rand' payer wallet signer recipient (Num n)"
  "transferSol_web3 K transfer reads rpc rand rand' payer wallet signer recipient (BigInt (2 ^ 53 + 1))
     = transferSol_web3 K transfer reads rpc rand rand' payer wallet signer recipient (BigInt (2 ^ 53))"
proof -
  show "\<bar>n\<bar> \<le> 2 ^ 53 \<Longrightarrow> transferSol_web3 K transfer reads rpc rand rand' payer wallet signer recipient (BigInt n)
     = transferSol_web3 K transfer reads rpc rand rand' payer wallet signer recipient (Num n)"
    by (simp add: fun_eq_iff transferSol_web3_def Number_of_exact)
  have "bit_length (2 ^ 53 + 1) \<le> 54" by (intro bit_length_le) simp
  moreover have "\<not> bit_length (2 ^ 53 + 1) < 54"
    using bit_length_bounds [of "2 ^ 53 + 1"] power_increasing [of "bit_length (2 ^ 53 + 1)" 53 "2 :: nat"] by fastforce
  ultimately have "bit_length (2 ^ 53 + 1) = 54" by linarith
  then have "Number_of (2 ^ 53 + 1) = 2 ^ 53" by (simp add: Number_of_def Let_def)
  then show "transferSol_web3 K transfer reads rpc rand rand' payer wallet signer recipient (BigInt (2 ^ 53 + 1))
     = transferSol_web3 K transfer reads rpc rand rand' payer wallet signer recipient (BigInt (2 ^ 53))"
    by (simp add: fun_eq_iff transferSol_web3_def Number_of_exact)
qed

end
