(* ===== verification/RelayerStart.thy ===== *)
theory RelayerStart
  imports RelayerHttp
begin

text \<open>
  The relayer's start (\<open>server.mjs\<close>): the checks on its options, its key file, the checks against the
  cluster before it listens, and the hosts it answers for. Options come as numbers and flags; the file
  system, the node, the parsing of the key file, the choice of a LAN address and whether an address can
  be listened on are parameters. A start that fails is an \<open>Inl\<close>: the process exits.
\<close>

section \<open>Options\<close>

record start_options =
  so_port :: int
  so_confirmTimeout :: int
  so_maxLamports :: int
  so_maxTxPerHour :: nat
  so_maxPriorityFeeLamports :: int
  so_allowPlain :: bool
  so_allowPlainEnv :: bool
  so_requireLazorkit :: bool
  so_txV1 :: bool
  so_apiKey :: "string option"
  so_corsOrigin :: "string option"
  so_anyCluster :: bool
  so_lan :: bool
  so_keypairPath :: string

fun split_on :: "char \<Rightarrow> string \<Rightarrow> string list" where
  "split_on d [] = [[]]"
| "split_on d (c # s) = (if c = d then [] # split_on d s
     else (case split_on d s of w # ws \<Rightarrow> (c # w) # ws | [] \<Rightarrow> [[c]]))"

definition cors_list :: "string option \<Rightarrow> string list option" where
  "cors_list v = (case v of None \<Rightarrow> None
     | Some s \<Rightarrow> if s = [] then None else Some (filter (\<lambda>w. w \<noteq> []) (map trim (split_on (CHR '','') s))))"

definition cfg_of :: "start_options \<Rightarrow> relay_cfg" where
  "cfg_of o' = \<lparr>rc_maxLamports = so_maxLamports o', rc_maxTxPerHour = so_maxTxPerHour o',
     rc_requireLazorkit = (\<not> (so_allowPlain o' \<or> so_allowPlainEnv o')),
     rc_confirmTimeoutMs = 1000 * so_confirmTimeout o', rc_apiKey = so_apiKey o',
     rc_corsOrigins = cors_list (so_corsOrigin o'), rc_maxSignatures = 4, rc_txV1 = so_txV1 o',
     rc_maxPriorityFeeLamports = so_maxPriorityFeeLamports o'\<rparr>"

definition check_options :: "start_options \<Rightarrow> relay_cfg result" where
  "check_options o' = (let cfg = cfg_of o' in
     if so_port o' < 1 \<or> so_port o' > 65535 then Inl (Error ''--port must be 1-65535'')
     else if rc_confirmTimeoutMs cfg < 1000 \<or> rc_confirmTimeoutMs cfg > 300000
     then Inl (Error ''--confirm-timeout must be 1-300 (seconds)'')
     else if so_allowPlain o' \<and> so_requireLazorkit o'
     then Inl (Error ''--allow-plain and --require-lazorkit contradict each other.'')
     else if (case rc_corsOrigins cfg of None \<Rightarrow> False | Some l \<Rightarrow> ''*'' \<in> set l \<and> length l > 1)
     then Inl (Error ''--cors-origin * cannot be combined with a list of origins.'')
     else Inr cfg)"

section \<open>The key file\<close>

text \<open>\<open>f_keypair\<close> is the public key of a file that parses as a keypair.\<close>

record file_system =
  f_home :: string
  f_exists :: "string \<Rightarrow> bool"
  f_realpath :: "string \<Rightarrow> string"
  f_mode :: "string \<Rightarrow> nat"
  f_keypair :: "string \<Rightarrow> address option"

definition loadKeypair :: "file_system \<Rightarrow> string \<Rightarrow> address result" where
  "loadKeypair fs p =
     (let forbidden = [f_home fs @ ''/.config/solana/id.json''];
          real = (if f_exists fs p then f_realpath fs p else p) in
      if real \<in> set forbidden \<or> ''keys'' \<in> set (split_on (CHR ''/'') real) then Inl (Error ''refusing to use the keypair'')
      else if \<not> f_exists fs p then Inl (Error ''no keypair'')
      else if f_mode fs p mod 512 mod 64 \<noteq> 0 then Inl (Error ''readable by other users'')
      else (case f_keypair fs p of Some key \<Rightarrow> Inr key | None \<Rightarrow> Inl (Error ''not a Solana keypair file'')))"

section \<open>The cluster\<close>

definition DEVNET_GENESIS :: string where "DEVNET_GENESIS = ''EtWTRABZaYq6iMfeYKouRu166VU2xqa1wcaWoxPkrZBG''"
definition MAINNET_GENESIS :: string where "MAINNET_GENESIS = ''5eykt4UsFv8P8NJdTREpY1vzqKqZKvdpKuc147dw2N9d''"
definition BPF_LOADER_UPGRADEABLE :: address where "BPF_LOADER_UPGRADEABLE = ''BPFLoaderUpgradeab1e11111111111111111111111''"

record start_node =
  sn_genesis :: "string result"
  sn_account :: "address \<Rightarrow> nat \<Rightarrow> (address \<times> bytes) option result"
  sn_balance :: "address \<Rightarrow> int result"

definition upgrade_authority_check :: "kit \<Rightarrow> start_node \<Rightarrow> address \<Rightarrow> unit result" where
  "upgrade_authority_check K node relayer =
     rbind (sn_account node LAZORKIT_V2_DEVNET 36) (\<lambda>program.
     case program of
       None \<Rightarrow> Inr ()
     | Some (owner, data) \<Rightarrow>
         if owner \<noteq> BPF_LOADER_UPGRADEABLE then Inr ()
         else rbind (sn_account node (pubkey_of K (u8_slice data 4 36)) 45) (\<lambda>pd.
           case pd of
             None \<Rightarrow> Inr ()
           | Some (_, pdata) \<Rightarrow>
               if 12 < length pdata \<and> pdata ! 12 = 1 \<and> pubkey_of K (u8_slice pdata 13 45) = relayer
               then Inl (Error ''this keypair is the upgrade authority of the program'') else Inr ()))"

definition preflight :: "kit \<Rightarrow> start_node \<Rightarrow> bool \<Rightarrow> address \<Rightarrow> (string \<times> int) result" where
  "preflight K node anyCluster relayer =
     rbind (case sn_genesis node of Inl _ \<Rightarrow> Inl (Error ''cannot reach RPC'') | Inr g \<Rightarrow> Inr g) (\<lambda>genesis.
     if genesis = MAINNET_GENESIS then Inl (Error ''mainnet. This relayer is for devnet only.'')
     else if genesis \<noteq> DEVNET_GENESIS \<and> \<not> anyCluster then Inl (Error ''not devnet'')
     else rbind (upgrade_authority_check K node relayer) (\<lambda>_.
       rbind (sn_balance node relayer) (\<lambda>balance. Inr (genesis, balance))))"

section \<open>Listening\<close>

definition listening_hosts :: "(string \<Rightarrow> bool) \<Rightarrow> bool \<Rightarrow> string option \<Rightarrow> string set result" where
  "listening_hosts listens lan lanAddress =
     (if \<not> listens ''127.0.0.1'' then Inl (Error ''cannot listen on 127.0.0.1'')
      else let hosts = {''localhost'', ''127.0.0.1''} \<union> (if listens ''::1'' then {''::1''} else {}) in
      if \<not> lan then Inr hosts
      else (case lanAddress of
          None \<Rightarrow> Inl (Error ''--lan: no private IPv4 address found'')
        | Some ip \<Rightarrow> if listens ip then Inr (hosts \<union> {unbracket ip}) else Inl (Error ''cannot listen on the LAN address'')))"

record started =
  sd_cfg :: relay_cfg
  sd_relayer :: address
  sd_genesis :: string
  sd_hosts :: "string set"

definition start_relayer ::
  "kit \<Rightarrow> file_system \<Rightarrow> start_node \<Rightarrow> (string \<Rightarrow> bool) \<Rightarrow> string option \<Rightarrow> start_options \<Rightarrow> started result" where
  "start_relayer K fs node listens lanAddress o' =
     rbind (check_options o') (\<lambda>cfg.
     rbind (loadKeypair fs (so_keypairPath o')) (\<lambda>relayer.
     rbind (preflight K node (so_anyCluster o') relayer) (\<lambda>(genesis, _).
     rbind (listening_hosts listens (so_lan o') lanAddress) (\<lambda>hosts.
     Inr \<lparr>sd_cfg = cfg, sd_relayer = relayer, sd_genesis = genesis, sd_hosts = hosts\<rparr>))))"

section \<open>What a running relayer has been checked for\<close>

lemma loadKeypair_private:
  assumes "loadKeypair fs p = Inr key"
  shows "f_exists fs p \<and> f_keypair fs p = Some key \<and> f_mode fs p mod 64 = 0
    \<and> f_realpath fs p \<noteq> f_home fs @ ''/.config/solana/id.json'' \<and> ''keys'' \<notin> set (split_on (CHR ''/'') (f_realpath fs p))"
proof -
  have "f_mode fs p mod 512 mod 64 = f_mode fs p mod 64" by (simp add: mod_mod_cancel)
  then show ?thesis using assms by (auto simp: loadKeypair_def Let_def split: if_splits option.splits)
qed

lemma preflight_cluster:
  assumes "preflight K node anyCluster relayer = Inr (genesis, balance)"
  shows "sn_genesis node = Inr genesis \<and> genesis \<noteq> MAINNET_GENESIS \<and> (genesis = DEVNET_GENESIS \<or> anyCluster)
    \<and> upgrade_authority_check K node relayer = Inr ()"
  using assms by (auto simp: preflight_def rbind_eq_Inr split: if_splits sum.splits)

lemma not_upgrade_authority:
  assumes "upgrade_authority_check K node relayer = Inr ()"
    and "sn_account node LAZORKIT_V2_DEVNET 36 = Inr (Some (BPF_LOADER_UPGRADEABLE, data))"
    and "sn_account node (pubkey_of K (u8_slice data 4 36)) 45 = Inr (Some (owner, pdata))" "12 < length pdata" "pdata ! 12 = 1"
  shows "pubkey_of K (u8_slice pdata 13 45) \<noteq> relayer"
  using assms by (auto simp: upgrade_authority_check_def)

text \<open>
  A relayer that runs is not on mainnet, holds a key of its own from a file nobody else can read, is
  not the upgrade authority of the deployed program, waits between one second and five minutes for a
  confirmation, sponsors plain transactions only when told to, and answers for the loopback names and
  its LAN address only.
\<close>

theorem start_relayer_safe:
  assumes "start_relayer K fs node listens lanAddress o' = Inr s"
  shows "sn_genesis node = Inr (sd_genesis s) \<and> sd_genesis s \<noteq> MAINNET_GENESIS
    \<and> (sd_genesis s = DEVNET_GENESIS \<or> so_anyCluster o')
    \<and> f_keypair fs (so_keypairPath o') = Some (sd_relayer s) \<and> f_mode fs (so_keypairPath o') mod 64 = 0
    \<and> upgrade_authority_check K node (sd_relayer s) = Inr ()
    \<and> 1000 \<le> rc_confirmTimeoutMs (sd_cfg s) \<and> rc_confirmTimeoutMs (sd_cfg s) \<le> 300000
    \<and> (rc_requireLazorkit (sd_cfg s) \<or> so_allowPlain o' \<or> so_allowPlainEnv o')
    \<and> (he_allowedHosts henv = sd_hosts s \<and> hostAllowed henv req \<longrightarrow>
        (\<exists>host. rq_host req = Some host \<and> unbracket (host_name host)
           \<in> {''localhost'', ''127.0.0.1'', ''::1''} \<union> unbracket ` set_option (if so_lan o' then lanAddress else None)))"
proof -
  obtain genesis balance where parts: "check_options o' = Inr (sd_cfg s)" "loadKeypair fs (so_keypairPath o') = Inr (sd_relayer s)"
    "preflight K node (so_anyCluster o') (sd_relayer s) = Inr (genesis, balance)" "sd_genesis s = genesis"
    "listening_hosts listens (so_lan o') lanAddress = Inr (sd_hosts s)"
    using assms by (auto simp: start_relayer_def rbind_eq_Inr)
  have "sd_hosts s \<subseteq> {''localhost'', ''127.0.0.1'', ''::1''} \<union> unbracket ` set_option (if so_lan o' then lanAddress else None)"
    using parts(5) by (auto simp: listening_hosts_def Let_def split: if_splits option.splits)
  moreover have "sd_cfg s = cfg_of o' \<and> 1000 \<le> rc_confirmTimeoutMs (cfg_of o') \<and> rc_confirmTimeoutMs (cfg_of o') \<le> 300000"
    using parts(1) by (auto simp: check_options_def Let_def split: if_splits)
  ultimately show ?thesis
    using loadKeypair_private [OF parts(2)] preflight_cluster [OF parts(3)] parts(4)
    by (auto simp: hostAllowed_def cfg_of_def split: option.splits)
qed

end
