(* ===== verification/Spec2Isabelle.thy ===== *)
theory Spec2Isabelle
  imports SessionFlows WalletFlows ChallengeReads MigrationSafety DeferredPayload RelayerHttp
    LegacyMigration Accounts LegacyPayload LegacyReads LegacyErrors LegacyTransfer RelayerStart
begin

text \<open>
  A verification library for the TypeScript SDK of the LazorKit protocol, a smart-wallet program on
  Solana whose wallets are controlled by passkeys (WebAuthn, P-256) and by Ed25519 keys.

  \<^bold>\<open>The program.\<close> The SDK under \<^verbatim>\<open>src/sdk/sdk-kit/src\<close> turns calls such as "execute these
  instructions from this wallet" into Solana instructions, and, for a passkey, into a challenge to
  sign first. What it builds is checked byte by byte by the on-chain program under
  \<^verbatim>\<open>src/program/src\<close>: a transaction whose challenge, account order or account privileges differ
  from what the program recomputes is rejected after the user has approved it. The theorems
  therefore mostly relate the two sides: the SDK's encoders to the program's parsers, and the SDK's
  prepare/finalize flows to the program's authenticator. Beside building instructions the SDK decides:
  which wallet of a passkey to adopt, and where the funds of a retired v1 wallet may go. The relayer
  under \<^verbatim>\<open>src/deploy/relayer\<close> decides which transactions to pay for. For these parts the theorems say
  what a decision guarantees.

  \<^bold>\<open>Parts and theories\<close>, in the order they import each other:

  \<^item> \<open>Prelude\<close>: bytes, little-endian fields, \<open>DataView\<close> and \<open>Uint8Array\<close> operations, JavaScript's
    \<open>Map\<close>, results that may be thrown errors (\<open>'a result\<close>, \<open>Inl\<close> the error), the client's state
    threading (\<open>sbind\<close>, \<open>pure\<close>). The locale \<open>wire_codec\<close> is the contract of an encoder with a reader
    that says how much it took; \<open>ordered_dict\<close> is the contract of an insertion-ordered map. The record
    \<open>kit\<close> holds what the SDK takes from its packages: address encoding, program-derived addresses,
    SHA-256.
  \<^item> \<open>Pdas\<close>: \<^verbatim>\<open>pdas.ts\<close>, \<^verbatim>\<open>constants.ts\<close>, the address derivations of \<^verbatim>\<open>v1.ts\<close>, the addresses of
    \<^verbatim>\<open>instructions/system.ts\<close>. C1: the derivations are domain separated.
  \<^item> \<open>Actions\<close>: \<^verbatim>\<open>codecs/actions.ts\<close> against \<^verbatim>\<open>state/action.rs\<close>. C2, C3: session policies survive the
    wire, and the program validates exactly the policies that meet its rules.
  \<^item> \<open>Packing\<close>: \<^verbatim>\<open>transactions/packing.ts\<close> against \<^verbatim>\<open>compact.rs\<close>. C4 to C6: compact instructions are
    read back, both sides hash the same accounts, equal hashes mean equal inner calls.
  \<^item> \<open>Compact\<close>: \<^verbatim>\<open>transactions/compact.ts\<close>. C7, C9: the account table of an Execute: decompressing over it gives
    back the caller's instructions, and when it fails.
  \<^item> \<open>Builders\<close>: every instruction builder of \<^verbatim>\<open>instructions/builders.ts\<close>.
  \<^item> \<open>Secp256r1\<close>: \<^verbatim>\<open>secp256r1/secp256r1.ts\<close> and \<^verbatim>\<open>secp256r1/signing.ts\<close> against
    \<^verbatim>\<open>auth/secp256r1/\<close>. The auth payload is read back; C11, C12: the precompile instruction
    passes introspection exactly for its key and message, a challenge binds everything it is made of.
  \<^item> \<open>Program\<close>: how the on-chain handlers cut instruction data into the signed region and the auth
    payload; the locale \<open>passkey_operation\<close> states what an SDK flow and a handler must agree on, and
    derives once that the program's verdict on the transaction is WebAuthn's verdict on the challenge.
  \<^item> \<open>ClientCore\<close>: the shared machinery of the \<open>LazorKit\<close> class of \<^verbatim>\<open>client.ts\<close>: argument checks, fee
    resolution over the client's caches, authority resolution, runtime privileges. C15, C16.
  \<^item> \<open>Passkey\<close>: the prepare/finalize pairs. \<open>Verdict\<close>, \<open>SessionFlows\<close>, \<open>ExecuteFlows\<close> interpret
    \<open>passkey_operation\<close> for each of them. C17, C20, C22, C23: what the user signs is what the program checks.
    C24: a deferred execution, from authorization to the invoked instructions.
  \<^item> \<open>Client\<close>: the unified methods over a signer. \<open>ClientFlows\<close> (C25, C26) and \<open>WalletFlows\<close>:
    what \<open>execute\<close> and \<open>createWallet\<close> return, judged by the program.
  \<^item> \<open>ChallengeReads\<close>: \<^verbatim>\<open>secp256r1/challengeReads.ts\<close>. C28: the wait for a fresh node is bounded,
    with its outcomes; the counter to be signed is not stale.
  \<^item> \<open>Json\<close>: \<open>JSON.parse\<close>, \<open>JSON.stringify\<close> and \<open>TextDecoder\<close> of the language's library, with the round
    trip between them; used by the next two.
  \<^item> \<open>Ownership\<close>: \<^verbatim>\<open>ownership.ts\<close> and \<^verbatim>\<open>signedMessage.ts\<close>. The locale \<open>consistent_comparator\<close> is the
    contract of a comparator passed to \<open>sort\<close>. C31: the rule that adopts a wallet; C32: challenges
    of different purposes never coincide.
  \<^item> \<open>DeferredPayload\<close>: the JSON transport of \<^verbatim>\<open>types.ts\<close>: it round-trips and refuses other versions.
  \<^item> \<open>V1Tokens\<close>: \<^verbatim>\<open>v1.ts\<close> and \<^verbatim>\<open>spl.ts\<close>: v1 wallets, token accounts, mints and their extensions. The
    record \<open>node_rpc\<close> holds the RPC calls the SDK makes.
  \<^item> \<open>Discovery\<close>: the methods of \<^verbatim>\<open>client.ts\<close> that find the wallets of a passkey and read everything
    that can spend from one. \<open>SpendingState\<close>, C33: an adopted wallet is safe, over a chain in which
    spending power moves while the SDK reads it.
  \<^item> \<open>Migration\<close>: \<open>migrateV1Wallet\<close> and what it calls. C34: the program accepts what was signed.
    \<open>MigrationSafety\<close>, C35: the funds land where only the owner can reach them.
  \<^item> \<open>Relayer\<close>: \<^verbatim>\<open>allowlist.mjs\<close>, \<^verbatim>\<open>txv1.mjs\<close> and the static checks of \<^verbatim>\<open>policy.mjs\<close>. C36: which
    transactions pass. \<open>RelayerSim\<close>: the simulation of \<^verbatim>\<open>policy.mjs\<close>. C37: its bounds.
  \<^item> \<open>RelayerSign\<close>: the sign path of \<^verbatim>\<open>server.mjs\<close> as a state machine over concurrent requests. C39: what
    the relayer signs, and how much it can be made to pay in an hour. \<open>RelayerSend\<close>: sending and waiting
    for confirmation, against a clock. C40. \<open>RelayerHttp\<close>: the JSON-RPC methods and the HTTP handler.
    C13: every request is a run of the sign path, and only an authorized one signs. \<open>RelayerStart\<close>: what
    is checked before it listens: never on mainnet, never with a key that is not its own.
  \<^item> \<open>LegacyWire\<close>, \<open>LegacyBuilders\<close>, \<open>LegacyActions\<close>, \<open>LegacyClient\<close>, \<open>LegacyAgree\<close>: the SDK for
    web3.js v1 under \<^verbatim>\<open>src/sdk/sdk-legacy\<close>, a second implementation of the same interface over Node
    Buffers and web3.js instructions. C14: its instruction builders against the kit's. C18, C21: its
    session policies, and \<open>parseActions\<close>, which reads a policy off an account. C29: the methods of
    \<open>LazorKitClient\<close> against those of \<open>LazorKit\<close>, so that what is proved of the kit client holds of it.
  \<^item> \<open>LegacyOwnership\<close>, \<open>LegacyMigration\<close>: discovery and migration of the same SDK, from \<^verbatim>\<open>ownership.ts\<close>,
    \<^verbatim>\<open>signedMessage.ts\<close>, \<^verbatim>\<open>v1.ts\<close>, \<^verbatim>\<open>spl.ts\<close> and \<^verbatim>\<open>client.ts\<close>. The two SDKs word errors differently:
    \<open>agrees\<close> says that one gives a value exactly when the other does, the same one. C19: both find and
    adopt the same wallet; C10: both migrate the same tokens to the same wallet with the same
    instructions, so that C33 and C35 speak of either SDK.
  \<^item> \<open>Accounts\<close>: the layouts of \<^verbatim>\<open>program/src/state\<close> and what the handlers write into a new account,
    against the decoders of \<^verbatim>\<open>codecs/accounts.ts\<close> and of \<^verbatim>\<open>sdk-legacy/src/utils/accounts.ts\<close> and the
    listings of \<open>LazorKitClient\<close>. C8: every reader reads what the program wrote. C27: the wallet that
    \<open>createWallet\<close> makes is found by every lookup of the SDK.
  \<^item> \<open>LegacyReads\<close>: \<^verbatim>\<open>challengeReads.ts\<close> of \<^verbatim>\<open>sdk-legacy\<close>. Under any view of what a connection throws
    that tells a node behind the floor, its reads are the kit's; C30: in both the counter to be signed is
    not stale.
  \<^item> \<open>LegacyPayload\<close>: the deferred payload of \<^verbatim>\<open>sdk-legacy/src/utils/types.ts\<close>, with the base64 of
    \<open>Buffer\<close>. C38: each SDK reads back what it wrote, and what each finds in the text of the other.
  \<^item> \<open>LegacyErrors\<close>: \<^verbatim>\<open>errors.ts\<close> against \<^verbatim>\<open>program/src/error.rs\<close>: the table names exactly the codes the
    program declares, and the text of a failed simulation gives its code back. \<open>LegacyTransfer\<close>: the
    constructor of \<open>LazorKitClient\<close> and \<open>transferSol\<close>, with the rounding of its amount.

  \<^bold>\<open>How the code is read.\<close> A byte is an \<open>8 word\<close> and writing a JavaScript number into a byte array
  truncates it; numbers and bigints are \<open>int\<close>, with the range checks of \<open>DataView\<close> and of kit's
  codecs written out; \<open>undefined\<close> is \<open>None\<close>; a throw is an \<open>Inl\<close>. An \<open>async\<close> method is a function of
  what it reads: an RPC account read, the random draw of a treasury shard and the passkey are
  arguments. The methods that touch the class's caches take and return the \<open>client\<close> record, which
  keeps its changes when a later step throws.

  \<^bold>\<open>Assumptions on packages.\<close> \<open>address_codec\<close> says that the address encoder gives 32 bytes and is
  injective; collision freedom of SHA-256 is a hypothesis on the two inputs at hand, never on the
  function. \<open>sample_kit\<close> satisfies what the theorems ask of a \<open>kit\<close>, and the witnesses run on it. P-256
  verification and public-key recovery are the fields of a record \<open>p256\<close>. Where a theorem speaks of
  the chain, \<open>answers_from\<close> says that every RPC answer is the chain's state at a slot not below the
  floor asked for, and \<open>power_flows\<close> that between two slots the power to spend only moves the way the
  on-chain programs let it move; \<open>steady_node\<close> satisfies both.

  \<^bold>\<open>Termination.\<close> Every function is total. The retry loop of the challenge reads is a recursion over
  the remaining wait, which each pause of at least 100 ms shortens; the retries of the discovery reads
  and of the relayer's simulation count attempts. No fuel is used.

  \<^bold>\<open>Not modelled.\<close> The relayer's reading of numbers from options, its status page and its log, and the scripts. Of
  \<^verbatim>\<open>sdk-legacy\<close>, its copy of public-key recovery and the compiling and sending of transactions
  (\<^verbatim>\<open>transactions.ts\<close>), which is web3.js's. Of the on-chain program, only what the SDK's bytes are checked
  against: the checks on the client data JSON and the authenticator data are a parameter, of stored state
  there are the layouts of four accounts and their first contents, without rent and transfers.
\<close>

end
